(* ===== verification/Domain.thy ===== *)
theory Domain
  imports Prelude
begin

text \<open>
  The domain crate: identifiers, attribute values, users and groups (\<open>types.rs\<close>,
  \<open>auth/src/lib.rs\<close>), requests (\<open>requests.rs\<close>), errors (\<open>domain-model/src/error.rs\<close>),
  image handling (\<open>images.rs\<close>), parsing of attribute values (\<open>deserialize.rs\<close>) and the
  check of attribute names (\<open>validation\<close>).

  \<open>chrono\<close>, \<open>base64\<close>, \<open>image\<close> and \<open>uuid\<close> are third-party crates; the functions the sources
  call are the fields of the record \<open>libs\<close>, an argument of every definition that uses one.
  A \<open>NaiveDateTime\<close> is an \<^typ>\<open>int\<close> (a point on the time line); bytes are a \<^typ>\<open>string\<close>.
\<close>

section \<open>Identifiers\<close>

text \<open>\<open>CaseInsensitiveString\<close> folds its text on construction; \<open>UserId\<close> and \<open>AttributeName\<close>
  wrap it, so their derived equality compares folded text.\<close>

definition case_insensitive_string :: "string \<Rightarrow> string" where
  "case_insensitive_string s = to_ascii_lowercase s"

datatype user_id = UserId (user_id_str: string)

definition user_id_from :: "string \<Rightarrow> user_id" where
  "user_id_from s = UserId (case_insensitive_string s)"

datatype attribute_name = AttributeName (attr_str: string)

definition attribute_name_from :: "string \<Rightarrow> attribute_name" where
  "attribute_name_from s = AttributeName (case_insensitive_string s)"

text \<open>The derived order of \<open>AttributeName\<close>, by which a \<open>BTreeMap\<close> keeps its keys.\<close>

instantiation attribute_name :: linorder
begin

definition less_eq_attribute_name :: "attribute_name \<Rightarrow> attribute_name \<Rightarrow> bool" where
  "less_eq_attribute_name a b \<longleftrightarrow> attr_str a \<le> attr_str b"

definition less_attribute_name :: "attribute_name \<Rightarrow> attribute_name \<Rightarrow> bool" where
  "less_attribute_name a b \<longleftrightarrow> attr_str a < attr_str b"

instance
  by standard
    (auto simp: less_eq_attribute_name_def less_attribute_name_def attribute_name.expand)

end

text \<open>\<open>GroupName\<close>, \<open>Email\<close> and \<open>LdapObjectClass\<close> keep their text and compare folded
  (\<open>make_case_insensitive_comparable_string\<close>).\<close>

datatype ordering = Less | Equal | Greater

fun compare_str_case_insensitive :: "string \<Rightarrow> string \<Rightarrow> ordering" where
  "compare_str_case_insensitive [] [] = Equal"
| "compare_str_case_insensitive [] (_ # _) = Less"
| "compare_str_case_insensitive (_ # _) [] = Greater"
| "compare_str_case_insensitive (a # s) (b # t) =
     (let x = (of_char (ascii_lower a) :: nat); y = of_char (ascii_lower b)
      in if x < y then Less else if y < x then Greater else compare_str_case_insensitive s t)"

datatype group_name = GroupName (group_name_str: string)

datatype email = Email (email_str: string)

definition group_name_eq :: "group_name \<Rightarrow> group_name \<Rightarrow> bool" where
  "group_name_eq a b \<longleftrightarrow>
     compare_str_case_insensitive (group_name_str a) (group_name_str b) = Equal"

type_synonym group_id = int
type_synonym uuid = string
type_synonym date = int
type_synonym bytes = string

text \<open>An instant counts nanoseconds from the Unix epoch.\<close>

definition second :: date where "second = 1000000000"

lemma compare_ci_Equal [simp]:
  "compare_str_case_insensitive s t = Equal \<longleftrightarrow> eq_ignore_ascii_case s t"
proof (induction s t rule: compare_str_case_insensitive.induct)
  case (4 a s b t)
  show ?case
  proof (cases "ascii_lower a = ascii_lower b")
    case True
    then show ?thesis using 4 by (simp add: eq_ignore_ascii_case_def)
  next
    case False
    then have "(of_char (ascii_lower a) :: nat) \<noteq> of_char (ascii_lower b)"
      by (simp only: of_char_eq_iff not_False_eq_True)
    with False show ?thesis by (simp add: eq_ignore_ascii_case_def Let_def)
  qed
qed (simp_all add: eq_ignore_ascii_case_def)

lemma group_name_eq_iff [simp]:
  "group_name_eq a b \<longleftrightarrow> eq_ignore_ascii_case (group_name_str a) (group_name_str b)"
  by (simp add: group_name_eq_def)

lemma compare_ci_antisym:
  "compare_str_case_insensitive s t = Less \<longleftrightarrow> compare_str_case_insensitive t s = Greater"
  by (induction s t rule: compare_str_case_insensitive.induct) (simp_all add: Let_def)

lemma user_id_from_idem [simp]: "user_id_from (user_id_str (user_id_from s)) = user_id_from s"
  by (simp add: user_id_from_def case_insensitive_string_def)

lemma attribute_name_from_idem [simp]:
  "attribute_name_from (attr_str (attribute_name_from s)) = attribute_name_from s"
  by (simp add: attribute_name_from_def case_insensitive_string_def)

section \<open>Attribute values\<close>

datatype 'a cardinality = Singleton 'a | Unbounded "'a list"

datatype attribute_type = TString | TInteger | TAvatar | TDateTime

datatype attribute_value =
    AString "string cardinality"
  | AInteger "int cardinality"
  | AAvatar "bytes cardinality"
  | ADateTime "date cardinality"

definition into_vec :: "'a cardinality \<Rightarrow> 'a list" where
  "into_vec c = (case c of Singleton v \<Rightarrow> [v] | Unbounded l \<Rightarrow> l)"

definition get_attribute_type :: "attribute_value \<Rightarrow> attribute_type" where
  "get_attribute_type v = (case v of AString _ \<Rightarrow> TString | AInteger _ \<Rightarrow> TInteger
     | AAvatar _ \<Rightarrow> TAvatar | ADateTime _ \<Rightarrow> TDateTime)"

definition is_list_value :: "attribute_value \<Rightarrow> bool" where
  "is_list_value v = (case v of AString (Unbounded _) \<Rightarrow> True | AInteger (Unbounded _) \<Rightarrow> True
     | AAvatar (Unbounded _) \<Rightarrow> True | ADateTime (Unbounded _) \<Rightarrow> True | _ \<Rightarrow> False)"

definition value_as_str :: "attribute_value \<Rightarrow> string option" where
  "value_as_str v = (case v of AString (Singleton s) \<Rightarrow> Some s | _ \<Rightarrow> None)"

definition value_as_avatar :: "attribute_value \<Rightarrow> bytes option" where
  "value_as_avatar v = (case v of AAvatar (Singleton p) \<Rightarrow> Some p | _ \<Rightarrow> None)"

record attribute =
  attr_name :: attribute_name
  attr_value :: attribute_value

section \<open>Users, groups and requests\<close>

record user =
  u_user_id :: user_id
  u_email :: email
  u_display_name :: "string option"
  u_creation_date :: date
  u_uuid :: uuid
  u_attributes :: "attribute list"
  u_modified_date :: date
  u_password_modified_date :: date
  u_krb_principal_name :: "string option"

definition materialize_protected_fields :: "user \<Rightarrow> user" where
  "materialize_protected_fields u =
     (case u_krb_principal_name u of
        Some p \<Rightarrow>
          if p \<noteq> [] then
            u\<lparr>u_attributes := u_attributes u @
               [\<lparr>attr_name = attribute_name_from ''krbprincipalname'',
                 attr_value = AString (Unbounded [p])\<rparr>]\<rparr>
          else u
      | None \<Rightarrow> u)"

record group_member =
  gm_user_id :: user_id
  gm_ou :: string

record group =
  g_id :: group_id
  g_display_name :: group_name
  g_creation_date :: date
  g_uuid :: uuid
  g_users :: "group_member list"
  g_attributes :: "attribute list"
  g_modified_date :: date

record group_details =
  gd_group_id :: group_id
  gd_display_name :: group_name
  gd_creation_date :: date
  gd_uuid :: uuid
  gd_attributes :: "attribute list"
  gd_modified_date :: date

record user_and_groups =
  ug_user :: user
  ug_groups :: "group_details list option"

definition BUILTIN_GROUPS :: "string list" where
  "BUILTIN_GROUPS = [''lldap_admin'', ''lldap_password_manager'', ''lldap_strict_readonly'',
     ''lldap_disabled'', ''lldap_sudohost'']"

definition is_builtin_group :: "string \<Rightarrow> bool" where
  "is_builtin_group name \<longleftrightarrow> list_ex (\<lambda>g. g = name) BUILTIN_GROUPS"

record create_user_request =
  cu_user_id :: user_id
  cu_email :: email
  cu_display_name :: "string option"
  cu_attributes :: "attribute list"

record update_user_request =
  uu_user_id :: user_id
  uu_email :: "email option"
  uu_display_name :: "string option"
  uu_delete_attributes :: "attribute_name list"
  uu_insert_attributes :: "attribute list"

record create_group_request =
  cg_display_name :: group_name
  cg_attributes :: "attribute list"

record update_group_request =
  ugr_group_id :: group_id
  ugr_display_name :: "group_name option"
  ugr_delete_attributes :: "attribute_name list"
  ugr_insert_attributes :: "attribute list"

record create_attribute_request =
  ca_name :: attribute_name
  ca_attribute_type :: attribute_type
  ca_is_list :: bool
  ca_is_visible :: bool
  ca_is_editable :: bool

datatype domain_error =
    AuthenticationError string
  | DatabaseError string
  | DatabaseTransactionError string
  | AuthenticationProtocolError string
  | UnknownCryptoError string
  | BinarySerializationError string
  | Base64DecodeError string
  | EntityNotFound string
  | InternalError string

type_synonym 'a dresult = "domain_error + 'a"

section \<open>Attribute names\<close>

definition validate_attribute_name :: "string \<Rightarrow> string + unit" where
  "validate_attribute_name s =
     (let invalid_chars = filter (\<lambda>c. \<not> (is_alphanumeric c \<or> c = CHR ''-'')) s
      in if invalid_chars = [] then Inr () else Inl invalid_chars)"

section \<open>Libraries and images\<close>

datatype image_format = Jpeg | Png | Bmp | OtherFormat

record image =
  img_width :: nat
  img_height :: nat
  img_pixels :: string

record libs =
  lib_parse_rfc3339 :: "string \<Rightarrow> date option"
  lib_base64_decode :: "string \<Rightarrow> bytes option"
  lib_guess_format :: "bytes \<Rightarrow> string + image_format option"
  lib_decode_image :: "bytes \<Rightarrow> string + image"
  lib_encode_jpeg :: "image \<Rightarrow> string + bytes"
  lib_parse_uuid :: "string \<Rightarrow> uuid option"
  lib_uuid_v5 :: "string \<Rightarrow> string"
  lib_generalized_time :: "date \<Rightarrow> bytes"

datatype avatar_error =
    WrongDimensions nat nat
  | UnsupportedFormat
  | TooLarge nat
  | InvalidImage string

definition MAX_AVATAR_SIZE :: nat where "MAX_AVATAR_SIZE = 512"
definition MAX_AVATAR_JPEG_SIZE :: nat where "MAX_AVATAR_JPEG_SIZE = 512 * 1024"

definition process_avatar_input :: "libs \<Rightarrow> bytes \<Rightarrow> avatar_error + bytes" where
  "process_avatar_input L input =
     (if input = [] then Inr []
      else (case lib_guess_format L input of
        Inl e \<Rightarrow> Inl (InvalidImage e)
      | Inr None \<Rightarrow> Inl UnsupportedFormat
      | Inr (Some fmt) \<Rightarrow>
          if fmt \<notin> {Jpeg, Png, Bmp} then Inl UnsupportedFormat
          else
            let max_input_size = (if fmt = Bmp then 2 * 1024 * 1024 else MAX_AVATAR_JPEG_SIZE)
            in if length input > max_input_size then Inl (TooLarge (length input))
            else (case lib_decode_image L input of
              Inl e \<Rightarrow> Inl (InvalidImage e)
            | Inr img \<Rightarrow>
                if img_width img > MAX_AVATAR_SIZE \<or> img_height img > MAX_AVATAR_SIZE
                then Inl (WrongDimensions (img_width img) (img_height img))
                else (case lib_encode_jpeg L img of
                  Inl e \<Rightarrow> Inl (InvalidImage e)
                | Inr jpeg \<Rightarrow>
                    if length jpeg > MAX_AVATAR_JPEG_SIZE then Inl (TooLarge (length jpeg))
                    else Inr jpeg))))"

definition validate_stored_avatar_bytes :: "bytes \<Rightarrow> avatar_error + unit" where
  "validate_stored_avatar_bytes b =
     (if b = [] then Inr ()
      else if length b > MAX_AVATAR_JPEG_SIZE then Inl (TooLarge (length b))
      else if starts_with b [CHR 0xFF, CHR 0xD8] then Inr ()
      else if length b \<ge> 4 \<and>
              (starts_with b [CHR 0x89, CHR 0x50, CHR 0x4E, CHR 0x47] \<or>
               starts_with b [CHR 0x42, CHR 0x4D]) then Inr ()
      else Inl (InvalidImage ''Stored avatar is not a valid JPEG, PNG, or BMP''))"

text \<open>\<open>Avatar::new\<close>: a failure yields the empty avatar.\<close>

definition avatar_new :: "libs \<Rightarrow> bytes \<Rightarrow> bytes" where
  "avatar_new L b = (case process_avatar_input L b of Inl _ \<Rightarrow> [] | Inr jpeg \<Rightarrow> jpeg)"

text \<open>\<open>impl TryFrom<&[u8]> for Avatar\<close>.\<close>

definition avatar_try_from :: "libs \<Rightarrow> bytes \<Rightarrow> avatar_error + bytes" where
  "avatar_try_from L b =
     (if b = [] then Inr []
      else (case validate_stored_avatar_bytes b of
        Inl e \<Rightarrow> Inl e
      | Inr _ \<Rightarrow> (case process_avatar_input L b of
            Inl e \<Rightarrow> Inl e
          | Inr jpeg \<Rightarrow> Inr (avatar_new L jpeg))))"

section \<open>Deserialising attribute values\<close>

definition parse_avatar :: "libs \<Rightarrow> string \<Rightarrow> unit + bytes" where
  "parse_avatar L v =
     (if v = [] then Inr []
      else (case lib_base64_decode L v of
        None \<Rightarrow> Inl ()
      | Some raw \<Rightarrow> (case process_avatar_input L raw of
            Inl _ \<Rightarrow> Inl ()
          | Inr jpeg \<Rightarrow> Inr (avatar_new L jpeg))))"

text \<open>\<open>deserialize_attribute_value\<close>. The error is an \<open>anyhow\<close> message, kept as \<^typ>\<open>unit\<close>.\<close>

definition deserialize_attribute_value ::
  "libs \<Rightarrow> string list \<Rightarrow> attribute_type \<Rightarrow> bool \<Rightarrow> unit + attribute_value" where
  "deserialize_attribute_value L vs typ is_list =
     (if \<not> is_list \<and> length vs \<noteq> 1 then Inl ()
      else
        let int_of = (\<lambda>v. ok_or () (parse_i64 v));
            date_of = (\<lambda>v. ok_or () (lib_parse_rfc3339 L v))
        in (case (typ, is_list) of
          (TString, False) \<Rightarrow> Inr (AString (Singleton (vs ! 0)))
        | (TString, True) \<Rightarrow> Inr (AString (Unbounded vs))
        | (TInteger, False) \<Rightarrow> rmap (\<lambda>i. AInteger (Singleton i)) (int_of (vs ! 0))
        | (TInteger, True) \<Rightarrow> rmap (\<lambda>l. AInteger (Unbounded l)) (collect_results (map int_of vs))
        | (TDateTime, False) \<Rightarrow> rmap (\<lambda>d. ADateTime (Singleton d)) (date_of (vs ! 0))
        | (TDateTime, True) \<Rightarrow> rmap (\<lambda>l. ADateTime (Unbounded l)) (collect_results (map date_of vs))
        | (TAvatar, False) \<Rightarrow> rmap (\<lambda>p. AAvatar (Singleton p)) (parse_avatar L (vs ! 0))
        | (TAvatar, True) \<Rightarrow> rmap (\<lambda>l. AAvatar (Unbounded l)) (collect_results (map (parse_avatar L) vs))))"

text \<open>\<open>std::str::from_utf8\<close>: the well-formed byte sequences of UTF-8.\<close>

definition cont_byte :: "nat \<Rightarrow> nat \<Rightarrow> char \<Rightarrow> bool" where
  "cont_byte lo hi c \<longleftrightarrow> lo \<le> (of_char c :: nat) \<and> (of_char c :: nat) \<le> hi"

fun utf8_valid :: "bytes \<Rightarrow> bool" where
  "utf8_valid [] = True"
| "utf8_valid (a # s) =
    (let n = (of_char a :: nat) in
     if n < 0x80 then utf8_valid s
     else if 0xC2 \<le> n \<and> n \<le> 0xDF then
       (case s of b # t \<Rightarrow> cont_byte 0x80 0xBF b \<and> utf8_valid t | [] \<Rightarrow> False)
     else if 0xE0 \<le> n \<and> n \<le> 0xEF then
       (case s of b # c # t \<Rightarrow>
          cont_byte (if n = 0xE0 then 0xA0 else 0x80) (if n = 0xED then 0x9F else 0xBF) b
          \<and> cont_byte 0x80 0xBF c \<and> utf8_valid t
        | _ \<Rightarrow> False)
     else if 0xF0 \<le> n \<and> n \<le> 0xF4 then
       (case s of b # c # d # t \<Rightarrow>
          cont_byte (if n = 0xF0 then 0x90 else 0x80) (if n = 0xF4 then 0x8F else 0xBF) b
          \<and> cont_byte 0x80 0xBF c \<and> cont_byte 0x80 0xBF d \<and> utf8_valid t
        | _ \<Rightarrow> False)
     else False)"

definition from_utf8 :: "bytes \<Rightarrow> string option" where
  "from_utf8 b = (if utf8_valid b then Some b else None)"

text \<open>One concrete choice of the library functions, on which statements about the libraries
  can be evaluated.\<close>

definition sample_libs :: libs where
  "sample_libs =
     \<lparr>lib_parse_rfc3339 = (\<lambda>s. parse_i64 s),
      lib_base64_decode = (\<lambda>s. Some s),
      lib_guess_format = (\<lambda>b. Inr (Some Jpeg)),
      lib_decode_image = (\<lambda>b. Inr \<lparr>img_width = 1, img_height = 1, img_pixels = b\<rparr>),
      lib_encode_jpeg = (\<lambda>i. Inr (img_pixels i)),
      lib_parse_uuid = (\<lambda>s. if length s = 36 then Some s else None),
      lib_uuid_v5 = (\<lambda>s. s),
      lib_generalized_time = (\<lambda>d. int_to_string d)\<rparr>"

section \<open>Facts\<close>

lemma utf8_valid_ascii: "\<forall>c \<in> set s. (of_char c :: nat) < 128 \<Longrightarrow> utf8_valid s"
  by (induction s) auto

lemma from_utf8_SomeD: "from_utf8 b = Some s \<Longrightarrow> s = b"
  by (auto simp: from_utf8_def split: if_splits)

lemma process_avatar_input_size:
  "process_avatar_input L input = Inr jpeg \<Longrightarrow> length jpeg \<le> MAX_AVATAR_JPEG_SIZE"
  by (auto simp: process_avatar_input_def Let_def split: if_splits sum.splits option.splits)

lemma avatar_new_size: "length (avatar_new L b) \<le> MAX_AVATAR_JPEG_SIZE"
  by (auto simp: avatar_new_def dest: process_avatar_input_size split: sum.splits)

lemma parse_avatar_size: "parse_avatar L v = Inr p \<Longrightarrow> length p \<le> MAX_AVATAR_JPEG_SIZE"
  by (auto simp: parse_avatar_def avatar_new_size split: if_splits option.splits sum.splits)

lemma collect_results_in: "collect_results (map f vs) = Inr l \<Longrightarrow> x \<in> set l \<Longrightarrow> \<exists>v \<in> set vs. f v = Inr x"
  by (auto simp: collect_results_eq_Inr) (metis in_set_conv_nth length_map nth_map)

lemma deserialize_type:
  assumes "deserialize_attribute_value L vs typ is_list = Inr v"
  shows "get_attribute_type v = typ" and "is_list_value v = is_list"
  using assms
  by (auto simp: deserialize_attribute_value_def get_attribute_type_def is_list_value_def Let_def
      rmap_eq_Inr split: if_splits attribute_type.splits bool.splits)

lemma deserialize_string [simp]:
  "deserialize_attribute_value L [s] TString False = Inr (AString (Singleton s))"
  "deserialize_attribute_value L ss TString True = Inr (AString (Unbounded ss))"
  by (simp_all add: deserialize_attribute_value_def)

lemma deserialize_not_list:
  "length vs \<noteq> 1 \<Longrightarrow> deserialize_attribute_value L vs typ False = Inl ()"
  by (simp add: deserialize_attribute_value_def)

lemma validate_attribute_name_iff:
  "validate_attribute_name s = Inr () \<longleftrightarrow> (\<forall>c \<in> set s. is_alphanumeric c \<or> c = CHR ''-'')"
  by (auto simp: validate_attribute_name_def Let_def filter_empty_conv)

end
