(* ===== verification/Ldap_Types.thy ===== *)
theory Ldap_Types
  imports Domain
begin

text \<open>
  The vocabulary of the LDAP layer: \<open>LdapError\<close> (\<open>ldap/src/core/error.rs\<close>) and the message
  types of \<open>ldap3_proto\<close> that the sources construct and match on. Of a third-party type only
  the constructors and fields the sources use appear; the rest of an enumeration is one
  constructor.

  A message is its text; where the sources append a rendering of an error or of a request
  with \<open>Debug\<close> or \<open>Display\<close>, it is the literal prefix, marked \<open>Rendered\<close>.
\<close>

datatype ldap_result_code =
    Success | OperationsError | ProtocolError | CompareFalse | CompareTrue
  | InappropriateAuthentication | InvalidCredentials | InsufficentAccessRights
  | UnwillingToPerform | NamingViolation | NoSuchObject | InvalidDNSyntax
  | ConstraintViolation | InvalidAttributeSyntax | OtherCode

datatype message = Text string | Rendered string

record ldap_error =
  le_code :: ldap_result_code
  le_message :: message

type_synonym 'a lresult = "ldap_error + 'a"

definition lerr :: "ldap_result_code \<Rightarrow> message \<Rightarrow> ldap_error" where
  "lerr c m = \<lparr>le_code = c, le_message = m\<rparr>"

text \<open>A panic (\<open>panic!\<close>, \<open>expect\<close> on \<open>None\<close>) ends the handling of a request without an
  answer: it is a failure of its own kind beside the errors a handler returns.\<close>

datatype failure = Err ldap_error | Panic string

type_synonym 'a hresult = "failure + 'a"

definition lift_err :: "'a lresult \<Rightarrow> 'a hresult" where
  "lift_err r = map_err Err r"

lemma lift_err_simps [simp]: "lift_err (Inl e) = Inl (Err e)" "lift_err (Inr x) = Inr x"
  by (simp_all add: lift_err_def)

lemma lift_err_eq [simp]: "lift_err r = Inr x \<longleftrightarrow> r = Inr x" "lift_err r \<noteq> Inl (Panic p)"
  by (cases r; simp)+

fun msg_prepend :: "string \<Rightarrow> message \<Rightarrow> message" where
  "msg_prepend p (Text t) = Text (p @ t)"
| "msg_prepend p (Rendered t) = Rendered (p @ t)"

lemma lerr_simps [simp]: "le_code (lerr c m) = c" "le_message (lerr c m) = m"
  by (simp_all add: lerr_def)

record ldap_substring_filter =
  lsf_initial :: "string option"
  lsf_any :: "string list"
  lsf_final :: "string option"

datatype ldap_filter =
    FAnd "ldap_filter list"
  | FOr "ldap_filter list"
  | FNot ldap_filter
  | FEquality string string
  | FSubstring string ldap_substring_filter
  | FGreaterOrEqual string string
  | FLessOrEqual string string
  | FPresent string
  | FUnsupported

datatype ldap_search_scope = ScopeBase | ScopeOneLevel | ScopeSubtree | ScopeChildren

record ldap_partial_attribute =
  pa_atype :: string
  pa_vals :: "bytes list"

record ldap_search_result_entry =
  sre_dn :: string
  sre_attributes :: "ldap_partial_attribute list"

record ldap_result_op =
  lr_code :: ldap_result_code
  lr_matcheddn :: string
  lr_message :: message

record ldap_search_request =
  sr_base :: string
  sr_scope :: ldap_search_scope
  sr_filter :: ldap_filter
  sr_attrs :: "string list"

datatype ldap_bind_cred = Simple string | Sasl

record ldap_bind_request =
  br_dn :: string
  br_cred :: ldap_bind_cred

record ldap_add_request =
  add_dn :: string
  add_attributes :: "ldap_partial_attribute list"

record ldap_compare_request =
  cmp_dn :: string
  cmp_atype :: string
  cmp_val :: bytes

record ldap_password_modify_request =
  pm_user_identity :: "string option"
  pm_new_password :: "string option"

datatype ldap_modify_type = ModAdd | ModDelete | ModReplace

record ldap_modify =
  lm_operation :: ldap_modify_type
  lm_modification :: ldap_partial_attribute

record ldap_modify_request =
  mr_dn :: string
  mr_changes :: "ldap_modify list"

text \<open>An extended request: a password modification (parsed, or refused by the parser),
  a Who am I, or any other name.\<close>

datatype ldap_extended_request =
    PasswordModify ldap_password_modify_request
  | PasswordModifyMalformed
  | WhoAmI
  | ExtendedOther string

datatype ldap_op =
    BindRequest ldap_bind_request
  | SearchRequest ldap_search_request
  | UnbindRequest
  | ModifyRequest ldap_modify_request
  | ExtendedRequest ldap_extended_request
  | AddRequest ldap_add_request
  | DelRequest string
  | CompareRequest ldap_compare_request
  | BindResponse ldap_result_op
  | SearchResultEntry ldap_search_result_entry
  | SearchResultDone ldap_result_op
  | ModifyResponse ldap_result_op
  | ExtendedResponse ldap_result_op
  | AddResponse ldap_result_op
  | DelResponse ldap_result_op
  | CompareResult ldap_result_op
  | OtherOp

definition result_op :: "ldap_result_code \<Rightarrow> message \<Rightarrow> ldap_result_op" where
  "result_op c m = \<lparr>lr_code = c, lr_matcheddn = [], lr_message = m\<rparr>"

end
