(* ===== verification/Dn.thy ===== *)
theory Dn
  imports Ldap_Types
begin

text \<open>
  Distinguished names and organisational units (\<open>ldap/src/dn.rs\<close>) and the LDAP
  configuration record \<open>LdapInfo\<close> (\<open>ldap/src/core/utils.rs\<close>).

  The lemmas give the algebra of names: parsing what the printers build, the subtree order,
  the correspondence between the stored OU path (components joined by a backslash, the
  outermost first) and the chain of RDNs (innermost first).
\<close>

type_synonym rdn = "string \<times> string"
type_synonym dn = "rdn list"

definition DEFAULT_PRIMARY_USER_OU :: string where "DEFAULT_PRIMARY_USER_OU = ''people''"
definition DEFAULT_PRIMARY_GROUP_OU :: string where "DEFAULT_PRIMARY_GROUP_OU = ''groups''"

abbreviation backslash :: char where "backslash \<equiv> CHR 0x5C"

section \<open>OU and DN utilities\<close>

definition is_ou :: "rdn \<Rightarrow> bool" where
  "is_ou r \<longleftrightarrow> eq_ignore_ascii_case (fst r) ''ou''"

definition ldap_rdn_chain_to_internal_ou :: "dn \<Rightarrow> string" where
  "ldap_rdn_chain_to_internal_ou rdn_chain =
     (let ous = rev (map snd (filter is_ou rdn_chain))
      in if ous = [] then [] else join_with [backslash] ous)"

definition get_internal_ou_from_dn_parts :: "dn \<Rightarrow> string" where
  "get_internal_ou_from_dn_parts dn_parts = ldap_rdn_chain_to_internal_ou (filter is_ou dn_parts)"

definition get_direct_child_ous :: "string \<Rightarrow> string list \<Rightarrow> string list" where
  "get_direct_child_ous parent_internal_ou allowed_ous =
     (let parent_l = to_ascii_lowercase parent_internal_ou
      in filter (\<lambda>ou. let ou_l = to_ascii_lowercase ou in
           if parent_l = [] then backslash \<notin> set ou_l
           else if starts_with ou_l (parent_l @ [backslash])
           then backslash \<notin> set (drop (length parent_l + 1) ou_l)
           else False) allowed_ous)"

definition internal_ou_to_ldap_rdn_chain :: "string \<Rightarrow> dn" where
  "internal_ou_to_ldap_rdn_chain ou =
     (if trim ou = [] then []
      else map (\<lambda>t. (''ou'', t)) (filter (\<lambda>t. t \<noteq> []) (map trim (rev (split_on backslash ou)))))"

definition is_container_dn :: "dn \<Rightarrow> dn \<Rightarrow> string list \<Rightarrow> bool" where
  "is_container_dn dn_parts base_dn allowed_ous =
     (let ou_chain = filter is_ou dn_parts;
          internal_ou = ldap_rdn_chain_to_internal_ou ou_chain;
          is_allowed = list_ex (\<lambda>allowed. eq_ignore_ascii_case allowed internal_ou) allowed_ous
      in is_allowed \<and> length dn_parts = length base_dn + length ou_chain)"

definition is_subtree :: "dn \<Rightarrow> dn \<Rightarrow> bool" where
  "is_subtree subtree base_tree =
     (if base_tree = [] then True
      else if length subtree < length base_tree then False
      else
        let offset = length subtree - length base_tree
        in list_all (\<lambda>i. eq_ignore_ascii_case (fst (subtree ! (offset + i))) (fst (base_tree ! i))
                       \<and> eq_ignore_ascii_case (snd (subtree ! (offset + i))) (snd (base_tree ! i)))
             [0..<length base_tree])"

section \<open>Parsing\<close>

definition make_dn_pair :: "string list \<Rightarrow> rdn lresult" where
  "make_dn_pair it =
     (case it of
        [] \<Rightarrow> Inl (lerr InvalidDNSyntax (Text ''Empty DN element''))
      | [_] \<Rightarrow> Inl (lerr InvalidDNSyntax (Text ''Missing DN value''))
      | [k, v] \<Rightarrow> Inr (k, v)
      | k # v # e # _ \<Rightarrow> Inl (lerr InvalidDNSyntax (Text
          (''Too many elements in distinguished name: '' @ [CHR 0x22] @ k @ [CHR 0x22] @ '', ''
           @ [CHR 0x22] @ v @ [CHR 0x22] @ '', '' @ [CHR 0x22] @ e @ [CHR 0x22]))))"

definition parse_distinguished_name :: "string \<Rightarrow> dn lresult" where
  "parse_distinguished_name s =
     (let lower_dn = to_ascii_lowercase s
      in collect_results
           (map (\<lambda>p. make_dn_pair (map trim (split_on (CHR ''='') p))) (split_on (CHR '','') lower_dn)))"

section \<open>User and group names\<close>

datatype user_or_group_name =
    UGUser user_id
  | UGGroup group_name
  | BadSubStree
  | UnexpectedFormat
  | InvalidSyntax ldap_error

definition into_ldap_error :: "user_or_group_name \<Rightarrow> string \<Rightarrow> string \<Rightarrow> ldap_error" where
  "into_ldap_error x input expected_format =
     (case x of
        BadSubStree \<Rightarrow> lerr InvalidDNSyntax (Text ''Not a subtree of the base tree'')
      | InvalidSyntax err \<Rightarrow> err
      | _ \<Rightarrow> lerr InvalidDNSyntax (Text
          (''Unexpected DN format. Got '' @ [CHR 0x22] @ input @ [CHR 0x22] @ '', expected: ''
           @ expected_format)))"

definition get_user_or_group_id_from_distinguished_name :: "string \<Rightarrow> dn \<Rightarrow> user_or_group_name" where
  "get_user_or_group_id_from_distinguished_name s base_tree =
     (case parse_distinguished_name s of
        Inl e \<Rightarrow> InvalidSyntax e
      | Inr parts \<Rightarrow>
          if \<not> is_subtree parts base_tree then BadSubStree
          else
            let ou_chain = filter is_ou parts;
                primary_ou = unwrap_or [] (map_option (\<lambda>r. to_ascii_lowercase (snd r)) (last_opt ou_chain))
            in if length parts = length base_tree + length ou_chain + 1 then
                 let rdn = parts ! 0;
                     rdn_type = to_ascii_lowercase (fst rdn);
                     is_user_ou = (primary_ou = DEFAULT_PRIMARY_USER_OU \<or> primary_ou = [])
                 in if rdn_type = ''uid'' \<or> (rdn_type = ''cn'' \<and> is_user_ou)
                    then UGUser (user_id_from (snd rdn))
                    else if rdn_type = ''cn'' \<and> \<not> is_user_ou then UGGroup (GroupName (snd rdn))
                    else UnexpectedFormat
               else UnexpectedFormat)"

definition quoted :: "string \<Rightarrow> string" where
  "quoted s = [CHR 0x22] @ s @ [CHR 0x22]"

definition get_user_id_from_distinguished_name :: "string \<Rightarrow> dn \<Rightarrow> string \<Rightarrow> user_id lresult" where
  "get_user_id_from_distinguished_name s base_tree base_dn_str =
     (case get_user_or_group_id_from_distinguished_name s base_tree of
        UGUser u \<Rightarrow> Inr u
      | err \<Rightarrow> Inl (into_ldap_error err s (quoted (''uid=id,ou=...,'' @ base_dn_str))))"

definition get_group_id_from_distinguished_name :: "string \<Rightarrow> dn \<Rightarrow> string \<Rightarrow> group_name lresult" where
  "get_group_id_from_distinguished_name s base_tree base_dn_str =
     (case get_user_or_group_id_from_distinguished_name s base_tree of
        UGGroup g \<Rightarrow> Inr g
      | err \<Rightarrow> Inl (into_ldap_error err s (quoted (''cn=id,ou=any-allowed-ou,...'' @ base_dn_str))))"

definition looks_like_distinguished_name :: "string \<Rightarrow> bool" where
  "looks_like_distinguished_name s \<longleftrightarrow> CHR ''='' \<in> set s \<or> CHR '','' \<in> set s"

definition get_user_id_from_distinguished_name_or_plain_name ::
  "string \<Rightarrow> dn \<Rightarrow> string \<Rightarrow> user_id lresult" where
  "get_user_id_from_distinguished_name_or_plain_name s base_tree base_dn_str =
     (if \<not> looks_like_distinguished_name s then Inr (user_id_from s)
      else get_user_id_from_distinguished_name s base_tree base_dn_str)"

definition get_group_id_from_distinguished_name_or_plain_name ::
  "string \<Rightarrow> dn \<Rightarrow> string \<Rightarrow> group_name lresult" where
  "get_group_id_from_distinguished_name_or_plain_name s base_tree base_dn_str =
     (if \<not> looks_like_distinguished_name s then Inr (GroupName s)
      else get_group_id_from_distinguished_name s base_tree base_dn_str)"

section \<open>Building\<close>

definition rdn_to_string :: "rdn \<Rightarrow> string" where
  "rdn_to_string r = fst r @ ''='' @ snd r"

definition dn_to_string :: "dn \<Rightarrow> string" where
  "dn_to_string d = join_with '','' (map rdn_to_string d)"

definition build_user_dn :: "user_id \<Rightarrow> string \<Rightarrow> string \<Rightarrow> string" where
  "build_user_dn user_id internal_ou base_dn_str =
     (let ou_part = dn_to_string (internal_ou_to_ldap_rdn_chain internal_ou)
      in if ou_part = [] then ''uid='' @ user_id_str user_id @ '','' @ base_dn_str
         else ''uid='' @ user_id_str user_id @ '','' @ (ou_part @ '','' @ base_dn_str))"

definition build_group_dn :: "group_name \<Rightarrow> string \<Rightarrow> string \<Rightarrow> string" where
  "build_group_dn group_name internal_ou base_dn_str =
     (let ou_part = dn_to_string (internal_ou_to_ldap_rdn_chain internal_ou)
      in if ou_part = [] then ''cn='' @ group_name_str group_name @ '','' @ base_dn_str
         else ''cn='' @ group_name_str group_name @ '','' @ (ou_part @ '','' @ base_dn_str))"

section \<open>Configuration\<close>

record ldap_info =
  li_base_dn :: dn
  li_base_dn_str :: string
  li_ignored_user_attributes :: "attribute_name list"
  li_ignored_group_attributes :: "attribute_name list"

definition ldap_info_new ::
  "string \<Rightarrow> attribute_name list \<Rightarrow> attribute_name list \<Rightarrow> ldap_info lresult" where
  "ldap_info_new base_dn iu ig =
     rmap (\<lambda>d. \<lparr>li_base_dn = d, li_base_dn_str = dn_to_string d,
               li_ignored_user_attributes = iu, li_ignored_group_attributes = ig\<rparr>)
       (parse_distinguished_name (to_ascii_lowercase base_dn))"

section \<open>Parsing what is printed\<close>

text \<open>A component a name can carry: no separator, no outer white space.\<close>

definition rdn_text :: "string \<Rightarrow> bool" where
  "rdn_text s \<longleftrightarrow> trimmed s \<and> CHR '','' \<notin> set s \<and> CHR ''='' \<notin> set s"

definition clean_dn :: "dn \<Rightarrow> bool" where
  "clean_dn d \<longleftrightarrow> (\<forall>r \<in> set d. rdn_text (fst r) \<and> rdn_text (snd r))"

definition lower_dn :: "dn \<Rightarrow> dn" where
  "lower_dn d = map (\<lambda>r. (to_ascii_lowercase (fst r), to_ascii_lowercase (snd r))) d"

lemma clean_dn_simps [simp]:
  "clean_dn []"
  "clean_dn (r # d) \<longleftrightarrow> rdn_text (fst r) \<and> rdn_text (snd r) \<and> clean_dn d"
  "clean_dn (d @ e) \<longleftrightarrow> clean_dn d \<and> clean_dn e"
  by (auto simp: clean_dn_def)

lemma lower_dn_simps [simp]:
  "lower_dn [] = []"
  "lower_dn (r # d) = (to_ascii_lowercase (fst r), to_ascii_lowercase (snd r)) # lower_dn d"
  "lower_dn (d @ e) = lower_dn d @ lower_dn e"
  "length (lower_dn d) = length d"
  by (auto simp: lower_dn_def)

lemma lower_dn_idem [simp]: "lower_dn (lower_dn d) = lower_dn d"
  by (simp add: lower_dn_def)

lemma is_ou_lower [simp]: "is_ou (to_ascii_lowercase k, v) = is_ou (k, v')"
  by (simp add: is_ou_def)

lemma filter_is_ou_lower: "filter is_ou (lower_dn d) = lower_dn (filter is_ou d)"
  by (induction d) (auto simp: is_ou_def)

lemma trimmed_lower: "trimmed s \<Longrightarrow> trimmed (to_ascii_lowercase s)"
  by (metis trim_lower trim_trimmed trimmed_trim)

lemma rdn_text_lower: "rdn_text s \<Longrightarrow> rdn_text (to_ascii_lowercase s)"
  by (simp add: rdn_text_def trimmed_lower set_lower_caseless)

lemma split_rdn:
  assumes "rdn_text (fst r)" "rdn_text (snd r)"
  shows "split_on (CHR ''='') (rdn_to_string r) = [fst r, snd r]"
  using assms split_on_append_sep [of "CHR ''=''" "fst r" "snd r"]
  by (simp add: rdn_to_string_def rdn_text_def split_on_no_sep)

lemma parse_rdn:
  assumes "rdn_text (fst r)" "rdn_text (snd r)"
  shows "make_dn_pair (map trim (split_on (CHR ''='') (rdn_to_string r))) = Inr r"
  using assms by (simp add: split_rdn make_dn_pair_def rdn_text_def trimmed_trim)

lemma lower_rdn_to_string:
  "to_ascii_lowercase (rdn_to_string r) =
     rdn_to_string (to_ascii_lowercase (fst r), to_ascii_lowercase (snd r))"
  by (simp add: rdn_to_string_def ascii_lower_def)

lemma lower_join: "caseless c \<Longrightarrow>
  to_ascii_lowercase (join_with [c] xs) = join_with [c] (map to_ascii_lowercase xs)"
  by (induction "[c]" xs rule: join_with.induct) (auto simp: ascii_lower_caseless)

lemma lower_dn_to_string: "to_ascii_lowercase (dn_to_string d) = dn_to_string (lower_dn d)"
  by (simp add: dn_to_string_def lower_join lower_dn_def lower_rdn_to_string comp_def)

lemma clean_lower_dn: "clean_dn d \<Longrightarrow> clean_dn (lower_dn d)"
  by (auto simp: clean_dn_def lower_dn_def rdn_text_lower)

lemma comma_not_in_rdn: "rdn_text (fst r) \<Longrightarrow> rdn_text (snd r) \<Longrightarrow> CHR '','' \<notin> set (rdn_to_string r)"
  by (simp add: rdn_to_string_def rdn_text_def)

lemma parse_dn_to_string:
  assumes "d \<noteq> []" "clean_dn d"
  shows "parse_distinguished_name (dn_to_string d) = Inr (lower_dn d)"
proof -
  let ?l = "lower_dn d"
  have cl: "clean_dn ?l" by (rule clean_lower_dn) (rule assms(2))
  have "split_on (CHR '','') (dn_to_string ?l) = map rdn_to_string ?l"
    unfolding dn_to_string_def
    using assms(1) cl by (intro split_on_join) (auto simp: lower_dn_def clean_dn_def comma_not_in_rdn)
  moreover have "map ((\<lambda>p. make_dn_pair (map trim (split_on (CHR ''='') p))) \<circ> rdn_to_string) ?l = map Inr ?l"
    using cl by (intro map_cong refl) (auto simp: clean_dn_def parse_rdn)
  ultimately show ?thesis
    unfolding parse_distinguished_name_def Let_def lower_dn_to_string
    by (simp only: map_map collect_results_Inr_map)
qed

lemma parse_lower: "parse_distinguished_name (to_ascii_lowercase s) = parse_distinguished_name s"
  by (simp add: parse_distinguished_name_def)

text \<open>Whatever is parsed is a clean, folded, non-empty name.\<close>

lemma make_dn_pair_Inr: "make_dn_pair it = Inr r \<longleftrightarrow> it = [fst r, snd r]"
  by (cases r) (auto simp: make_dn_pair_def split: list.splits)

lemma parse_InrD:
  assumes "parse_distinguished_name s = Inr d"
  shows "d \<noteq> []" and "clean_dn d" and "lower_dn d = d"
proof -
  let ?ps = "split_on (CHR '','') (to_ascii_lowercase s)"
  have ps: "map (\<lambda>p. make_dn_pair (map trim (split_on (CHR ''='') p))) ?ps = map Inr d"
    using assms by (simp add: parse_distinguished_name_def collect_results_eq_Inr)
  have "length ?ps = length d" using arg_cong [OF ps, of length] by simp
  then show "d \<noteq> []" by auto
  have piece: "rdn_text x \<and> to_ascii_lowercase x = x" if r: "r \<in> set d" and fs: "x = fst r \<or> x = snd r" for r x
  proof -
    from r have "Inr r \<in> set (map Inr d :: (ldap_error + rdn) list)" by simp
    then obtain p where p: "p \<in> set ?ps" and mk: "make_dn_pair (map trim (split_on (CHR ''='') p)) = Inr r"
      unfolding ps [symmetric] by auto
    then obtain q where q: "q \<in> set (split_on (CHR ''='') p)" and x: "x = trim q"
      using fs by (fastforce simp: make_dn_pair_Inr map_eq_Cons_conv)
    have "CHR '','' \<notin> set p" using p by (rule split_on_pieces)
    then have "CHR '','' \<notin> set x" using split_on_subset [OF q] set_trim [of q] by (auto simp: x)
    moreover have "CHR ''='' \<notin> set x" using split_on_pieces [OF q] set_trim [of q] by (auto simp: x)
    moreover have "to_ascii_lowercase q = q"
    proof -
      have "to_ascii_lowercase p = p" using p by (auto simp: split_on_lower)
      then have "split_on (CHR ''='') p = map to_ascii_lowercase (split_on (CHR ''='') p)"
        using split_on_lower [of "CHR ''=''" p] by simp
      then have "q \<in> to_ascii_lowercase ` set (split_on (CHR ''='') p)"
        using q list.set_map [of to_ascii_lowercase "split_on (CHR ''='') p"] by simp
      then show ?thesis by (auto simp: lower_idem)
    qed
    ultimately show ?thesis by (simp add: rdn_text_def trim_trimmed x trim_lower [symmetric])
  qed
  show "clean_dn d" using piece by (auto simp: clean_dn_def)
  show "lower_dn d = d" using piece by (auto simp: lower_dn_def intro!: map_idI)
qed

section \<open>The subtree order\<close>

lemma is_subtree_iff_suffix:
  "is_subtree s b \<longleftrightarrow> (\<exists>p t. s = p @ t \<and> lower_dn t = lower_dn b)"
proof (cases "b = []")
  case True
  then show ?thesis by (simp add: is_subtree_def) (metis append_Nil2 lower_dn_simps(1))
next
  case False
  let ?o = "length s - length b"
  have eq: "lower_dn t = lower_dn b \<longleftrightarrow>
      (\<forall>i < length b. eq_ignore_ascii_case (fst (t ! i)) (fst (b ! i)) \<and> eq_ignore_ascii_case (snd (t ! i)) (snd (b ! i)))"
    if "length t = length b" for t
    using that by (auto simp: list_eq_iff_nth_eq lower_dn_def eq_ignore_ascii_case_def)
  show ?thesis
  proof
    assume st: "is_subtree s b"
    then have len: "length b \<le> length s" using False by (auto simp: is_subtree_def split: if_splits)
    have "lower_dn (drop ?o s) = lower_dn b"
      using st len False by (subst eq) (auto simp: is_subtree_def Let_def list_all_iff)
    then show "\<exists>p t. s = p @ t \<and> lower_dn t = lower_dn b" by (metis append_take_drop_id)
  next
    assume "\<exists>p t. s = p @ t \<and> lower_dn t = lower_dn b"
    then obtain p t where s: "s = p @ t" and l: "lower_dn t = lower_dn b" by blast
    have len: "length t = length b" using arg_cong [OF l, of length] by simp
    with s have off: "?o = length p" by simp
    show "is_subtree s b"
      using False l len eq [OF len]
      by (simp add: is_subtree_def off) (auto simp: s list_all_iff nth_append)
  qed
qed

lemma is_subtree_refl [simp]: "is_subtree d d"
  by (auto simp: is_subtree_iff_suffix)

lemma is_subtree_append [simp]: "is_subtree (p @ d) d"
  by (auto simp: is_subtree_iff_suffix)

lemma is_subtree_trans: "is_subtree a b \<Longrightarrow> is_subtree b c \<Longrightarrow> is_subtree a c"
proof -
  assume "is_subtree a b" "is_subtree b c"
  then obtain p t q u where a: "a = p @ t" and t: "lower_dn t = lower_dn b"
    and b: "b = q @ u" and u: "lower_dn u = lower_dn c" by (auto simp: is_subtree_iff_suffix)
  have len: "length t = length q + length u" using arg_cong [OF t, of length] b by simp
  have "lower_dn (drop (length q) t) = drop (length q) (lower_dn t)" by (simp add: lower_dn_def drop_map)
  also have "\<dots> = lower_dn u" using t b by simp
  finally have "lower_dn (drop (length q) t) = lower_dn c" using u by simp
  moreover have "a = (p @ take (length q) t) @ drop (length q) t" using a by simp
  ultimately show "is_subtree a c" unfolding is_subtree_iff_suffix by blast
qed

lemma is_subtree_antisym: "is_subtree a b \<Longrightarrow> is_subtree b a \<Longrightarrow> lower_dn a = lower_dn b"
proof -
  assume "is_subtree a b" "is_subtree b a"
  then obtain p t q u where a: "a = p @ t" and t: "lower_dn t = lower_dn b"
    and b: "b = q @ u" and u: "lower_dn u = lower_dn a" by (auto simp: is_subtree_iff_suffix)
  have "length t = length b" "length u = length a"
    using arg_cong [OF t, of length] arg_cong [OF u, of length] by simp_all
  then have "p = []" using a b by simp
  with a t show ?thesis by simp
qed

section \<open>Organisational units\<close>

text \<open>An OU path in the stored form: its components joined by a backslash.\<close>

definition ou_component :: "string \<Rightarrow> bool" where
  "ou_component t \<longleftrightarrow> t \<noteq> [] \<and> rdn_text t \<and> backslash \<notin> set t"

definition ou_path :: "string list \<Rightarrow> string" where
  "ou_path ts = join_with [backslash] ts"

lemma is_ou_ou [simp]: "is_ou (''ou'', v)"
  by (simp add: is_ou_def)

lemma split_ou_path:
  "ts \<noteq> [] \<Longrightarrow> list_all ou_component ts \<Longrightarrow> split_on backslash (ou_path ts) = ts"
  unfolding ou_path_def by (rule split_on_join) (auto simp: list_all_iff ou_component_def)

lemma trim_nonempty_iff: "trim s = [] \<longleftrightarrow> (\<forall>c \<in> set s. is_white c)"
proof -
  have "dropWhile is_white s \<noteq> [] \<Longrightarrow> \<not> is_white (hd (dropWhile is_white s))"
    using dropWhile_is_Nil_or by blast
  then have "dropWhile is_white s = [] \<longleftrightarrow> (\<forall>c \<in> set (dropWhile is_white s). is_white c)"
    by (metis list.set_sel(1) empty_iff empty_set)
  then show ?thesis by (simp add: trim_def dropWhile_eq_Nil_conv)
qed

lemma ou_component_nonwhite: "ou_component t \<Longrightarrow> \<not> (\<forall>c \<in> set t. is_white c)"
  by (auto simp: ou_component_def rdn_text_def trimmed_def)

lemma ou_path_nonwhite:
  assumes "ts \<noteq> []" "list_all ou_component ts"
  shows "trim (ou_path ts) \<noteq> []"
proof -
  from assms obtain t ts' where ts: "ts = t # ts'" and t: "ou_component t" by (cases ts) auto
  have "set t \<subseteq> set (ou_path ts)" by (cases ts') (auto simp: ou_path_def ts)
  with ou_component_nonwhite [OF t] show ?thesis by (auto simp: trim_nonempty_iff)
qed

lemma chain_of_ou_path:
  assumes "list_all ou_component ts"
  shows "internal_ou_to_ldap_rdn_chain (ou_path ts) = map (\<lambda>t. (''ou'', t)) (rev ts)"
proof (cases "ts = []")
  case True
  then show ?thesis by (simp add: internal_ou_to_ldap_rdn_chain_def ou_path_def)
next
  case False
  have "map trim (rev ts) = rev ts"
    using assms by (intro map_idI) (auto simp: list_all_iff ou_component_def rdn_text_def trimmed_trim)
  moreover have "filter (\<lambda>t. t \<noteq> []) (rev ts) = rev ts"
    using assms by (auto simp: list_all_iff ou_component_def filter_id_conv)
  ultimately show ?thesis
    using False assms ou_path_nonwhite [OF False assms]
    by (simp add: internal_ou_to_ldap_rdn_chain_def split_ou_path)
qed

lemma ou_of_chain: "ldap_rdn_chain_to_internal_ou (map (\<lambda>t. (''ou'', t)) (rev ts)) = ou_path ts"
  by (simp add: ldap_rdn_chain_to_internal_ou_def ou_path_def comp_def rev_map Let_def)

text \<open>The chain has only \<open>ou\<close> RDNs, whatever the stored text.\<close>

lemma chain_all_ou: "r \<in> set (internal_ou_to_ldap_rdn_chain ou) \<Longrightarrow> is_ou r"
  by (auto simp: internal_ou_to_ldap_rdn_chain_def split: if_splits)

lemma filter_chain [simp]: "filter is_ou (internal_ou_to_ldap_rdn_chain ou) = internal_ou_to_ldap_rdn_chain ou"
  by (simp add: filter_id_conv chain_all_ou)

lemma chain_clean:
  assumes "CHR '','' \<notin> set ou" "CHR ''='' \<notin> set ou"
  shows "clean_dn (internal_ou_to_ldap_rdn_chain ou)"
proof -
  have "rdn_text (trim p)" if "p \<in> set (split_on backslash ou)" for p
    using split_on_subset [OF that] set_trim [of p] assms by (auto simp: rdn_text_def trim_trimmed)
  then show ?thesis
    by (auto simp: internal_ou_to_ldap_rdn_chain_def clean_dn_def rdn_text_def trimmed_def is_white_def)
qed

section \<open>Recognising built names\<close>

lemma dn_to_string_Nil_iff [simp]: "dn_to_string d = [] \<longleftrightarrow> d = []"
proof (cases d)
  case (Cons r e)
  then show ?thesis by (cases e) (auto simp: dn_to_string_def rdn_to_string_def)
qed (simp add: dn_to_string_def)

lemma dn_to_string_append:
  "d \<noteq> [] \<Longrightarrow> e \<noteq> [] \<Longrightarrow> dn_to_string (d @ e) = dn_to_string d @ '','' @ dn_to_string e"
  by (simp add: dn_to_string_def join_with_append)

lemma dn_to_string_Cons: "e \<noteq> [] \<Longrightarrow> dn_to_string (r # e) = rdn_to_string r @ '','' @ dn_to_string e"
  by (simp add: dn_to_string_def join_with_Cons)

lemma build_user_dn_eq:
  "b \<noteq> [] \<Longrightarrow> build_user_dn u ou (dn_to_string b) =
     dn_to_string ((''uid'', user_id_str u) # internal_ou_to_ldap_rdn_chain ou @ b)"
  by (simp add: build_user_dn_def Let_def dn_to_string_Cons dn_to_string_append rdn_to_string_def)

lemma build_group_dn_eq:
  "b \<noteq> [] \<Longrightarrow> build_group_dn g ou (dn_to_string b) =
     dn_to_string ((''cn'', group_name_str g) # internal_ou_to_ldap_rdn_chain ou @ b)"
  by (simp add: build_group_dn_def Let_def dn_to_string_Cons dn_to_string_append rdn_to_string_def)

lemma rdn_text_keys [simp]: "rdn_text ''uid''" "rdn_text ''cn''" "rdn_text ''ou''"
  by (simp_all add: rdn_text_def trimmed_def is_white_def)

lemma lower_keys [simp]:
  "to_ascii_lowercase ''uid'' = ''uid''" "to_ascii_lowercase ''cn'' = ''cn''"
  "to_ascii_lowercase ''ou'' = ''ou''" "to_ascii_lowercase ''people'' = ''people''"
  by (simp_all add: ascii_lower_def)

lemma not_is_ou_keys [simp]: "\<not> is_ou (''uid'', v)" "\<not> is_ou (''cn'', v)"
  by (simp_all add: is_ou_def eq_ignore_ascii_case_def ascii_lower_def)

text \<open>How a name with one leading RDN over a chain of units is classified.\<close>

lemma classify_leaf:
  assumes b: "b \<noteq> []" "clean_dn b" "lower_dn b = b"
    and c: "clean_dn chain" "\<And>r. r \<in> set chain \<Longrightarrow> is_ou r"
    and k: "rdn_text k" "rdn_text v" "\<not> is_ou (k, v)"
  defines "name \<equiv> dn_to_string ((k, v) # chain @ b)"
  defines "ous \<equiv> filter is_ou (lower_dn chain @ b)"
  defines "primary \<equiv> (if ous = [] then [] else to_ascii_lowercase (snd (last ous)))"
  shows "get_user_or_group_id_from_distinguished_name name b =
    (if filter is_ou b \<noteq> [] then UnexpectedFormat
     else if to_ascii_lowercase k = ''uid'' \<or> (to_ascii_lowercase k = ''cn'' \<and> primary \<in> {''people'', []})
       then UGUser (user_id_from (to_ascii_lowercase v))
     else if to_ascii_lowercase k = ''cn'' then UGGroup (GroupName (to_ascii_lowercase v))
     else UnexpectedFormat)"
proof -
  have parse: "parse_distinguished_name name = Inr ((to_ascii_lowercase k, to_ascii_lowercase v) # lower_dn chain @ b)"
    unfolding name_def using b c(1) k by (subst parse_dn_to_string) auto
  have sub: "is_subtree ((to_ascii_lowercase k, to_ascii_lowercase v) # lower_dn chain @ b) b"
    using is_subtree_append [of "(to_ascii_lowercase k, to_ascii_lowercase v) # lower_dn chain" b] by simp
  have allou: "filter is_ou (lower_dn chain) = lower_dn chain"
    using c(2) by (simp add: filter_is_ou_lower filter_id_conv)
  have ou: "filter is_ou ((to_ascii_lowercase k, to_ascii_lowercase v) # lower_dn chain @ b) = ous"
    using k(3) by (simp add: ous_def is_ou_def)
  have len: "length ous = length chain + length (filter is_ou b)"
    by (simp add: ous_def allou)
  have prim: "unwrap_or [] (map_option (\<lambda>r. to_ascii_lowercase (snd r)) (last_opt ous)) = primary"
    by (simp add: primary_def last_opt_def)
  show ?thesis
    unfolding get_user_or_group_id_from_distinguished_name_def parse sum.case Let_def ou prim
      DEFAULT_PRIMARY_USER_OU_def
    by (simp add: sub len)
qed

lemma ldap_info_newD:
  assumes "ldap_info_new s iu ig = Inr info"
  shows "li_base_dn info \<noteq> []" "clean_dn (li_base_dn info)" "lower_dn (li_base_dn info) = li_base_dn info"
    and "li_base_dn_str info = dn_to_string (li_base_dn info)"
  using assms by (auto simp: ldap_info_new_def rmap_eq_Inr dest: parse_InrD)

lemmas ldap_info_facts = ldap_info_newD

lemma parse_built_user_dn:
  assumes "ldap_info_new s iu ig = Inr info" and "rdn_text (user_id_str u)"
    and "CHR '','' \<notin> set ou" "CHR ''='' \<notin> set ou"
  shows "parse_distinguished_name (build_user_dn u ou (li_base_dn_str info)) =
    Inr ((''uid'', to_ascii_lowercase (user_id_str u)) # lower_dn (internal_ou_to_ldap_rdn_chain ou) @ li_base_dn info)"
  using ldap_info_facts [OF assms(1)] assms(2) chain_clean [OF assms(3,4)]
  by (simp add: build_user_dn_eq parse_dn_to_string)

lemma lower_ou_path: "to_ascii_lowercase (ou_path ts) = ou_path (map to_ascii_lowercase ts)"
  unfolding ou_path_def by (rule lower_join) simp

lemma ou_component_lower: "ou_component t \<Longrightarrow> ou_component (to_ascii_lowercase t)"
  by (auto simp: ou_component_def rdn_text_lower set_lower_caseless)

lemma ou_path_no_sep:
  "list_all ou_component ts \<Longrightarrow> CHR '','' \<notin> set (ou_path ts) \<and> CHR ''='' \<notin> set (ou_path ts)"
  using set_join_with [of "[backslash]" ts]
  by (fastforce simp: ou_path_def list_all_iff ou_component_def rdn_text_def)

lemma ou_path_eq_iff:
  assumes "list_all ou_component ts" "list_all ou_component us"
  shows "ou_path ts = ou_path us \<longleftrightarrow> ts = us"
proof -
  have Nil: "ou_path vs = [] \<longleftrightarrow> vs = []" if "list_all ou_component vs" for vs
    using that by (cases vs rule: list.exhaust; cases "tl vs") (auto simp: ou_path_def ou_component_def)
  show ?thesis using Nil [OF assms(1)] Nil [OF assms(2)] assms by (metis split_ou_path)
qed

section \<open>Properties\<close>

text \<open>C39: the DN printed for a user names that user: for a configuration made by
  \<open>LdapInfo::new\<close> whose base has no \<open>ou\<close>, a folded identifier without separators and any
  stored OU without separators, \<open>get_user_id_from_distinguished_name\<close> applied to
  \<open>build_user_dn\<close> returns the identifier.\<close>

theorem user_dn_roundtrip:
  assumes info: "ldap_info_new s iu ig = Inr info" and "filter is_ou (li_base_dn info) = []"
    and u: "rdn_text (user_id_str u)" "to_ascii_lowercase (user_id_str u) = user_id_str u"
    and ou: "CHR '','' \<notin> set ou" "CHR ''='' \<notin> set ou"
  shows "get_user_id_from_distinguished_name (build_user_dn u ou (li_base_dn_str info))
           (li_base_dn info) (li_base_dn_str info) = Inr u"
proof -
  note facts = ldap_info_facts [OF info]
  have "get_user_or_group_id_from_distinguished_name (build_user_dn u ou (li_base_dn_str info)) (li_base_dn info)
      = UGUser (user_id_from (to_ascii_lowercase (user_id_str u)))"
    unfolding facts(4) build_user_dn_eq [OF facts(1)]
    by (subst classify_leaf) (use facts chain_clean [OF ou] chain_all_ou u(1) assms(2) in auto)
  then show ?thesis
    using u(2) by (cases u) (simp add: get_user_id_from_distinguished_name_def user_id_from_def case_insensitive_string_def)
qed

lemma user_dn_roundtrip_witness:
  "get_user_id_from_distinguished_name (build_user_dn (UserId ''bob'') ''office'' ''dc=example,dc=com'')
     [(''dc'', ''example''), (''dc'', ''com'')] ''dc=example,dc=com'' = Inr (UserId ''bob'')"
proof -
  let ?info = "\<lparr>li_base_dn = [(''dc'', ''example''), (''dc'', ''com'')], li_base_dn_str = ''dc=example,dc=com'',
    li_ignored_user_attributes = [], li_ignored_group_attributes = []\<rparr>"
  have "ldap_info_new ''DC=Example, DC=com'' [] [] = Inr ?info" by code_simp
  moreover have "filter is_ou (li_base_dn ?info) = []" by code_simp
  moreover have "rdn_text ''bob''" by code_simp
  ultimately show ?thesis
    using user_dn_roundtrip [of "''DC=Example, DC=com''" "[]" "[]" ?info "UserId ''bob''" "''office''"] by simp
qed

text \<open>the DN printed for a group names that group, folded: under an OU path whose outermost
  component is not \<open>people\<close>, \<open>get_group_id_from_distinguished_name\<close> applied to
  \<open>build_group_dn\<close> returns a name equal to the group's in the case-insensitive sense.\<close>

theorem group_dn_roundtrip:
  assumes info: "ldap_info_new s iu ig = Inr info" and "filter is_ou (li_base_dn info) = []"
    and g: "rdn_text (group_name_str g)"
    and ts: "list_all ou_component (t # ts)" "\<not> eq_ignore_ascii_case t ''people''"
  shows "\<exists>g'. get_group_id_from_distinguished_name (build_group_dn g (ou_path (t # ts)) (li_base_dn_str info))
           (li_base_dn info) (li_base_dn_str info) = Inr g' \<and> group_name_eq g' g"
proof -
  note facts = ldap_info_facts [OF info]
  let ?chain = "internal_ou_to_ldap_rdn_chain (ou_path (t # ts))"
  have chain: "?chain = map (\<lambda>t. (''ou'', t)) (rev ts) @ [(''ou'', t)]"
    using chain_of_ou_path [OF ts(1)] by simp
  have "clean_dn ?chain" using ou_path_no_sep [OF ts(1)] by (simp add: chain_clean)
  moreover have "to_ascii_lowercase t \<noteq> ''people''" "to_ascii_lowercase t \<noteq> []"
    using ts by (auto simp: eq_ignore_ascii_case_def ou_component_def)
  ultimately have "get_user_or_group_id_from_distinguished_name
      (build_group_dn g (ou_path (t # ts)) (li_base_dn_str info)) (li_base_dn info)
      = UGGroup (GroupName (to_ascii_lowercase (group_name_str g)))"
    unfolding facts(4) build_group_dn_eq [OF facts(1)]
    by (subst classify_leaf) (use facts chain_all_ou g assms(2) in \<open>auto simp: chain\<close>)
  then show ?thesis by (simp add: get_group_id_from_distinguished_name_def)
qed

lemma group_dn_roundtrip_witness:
  "\<exists>g'. get_group_id_from_distinguished_name
          (build_group_dn (GroupName ''Staff'') (ou_path [''groups'', ''it'']) ''dc=example,dc=com'')
          [(''dc'', ''example''), (''dc'', ''com'')] ''dc=example,dc=com'' = Inr g'
        \<and> group_name_eq g' (GroupName ''Staff'')"
proof -
  let ?info = "\<lparr>li_base_dn = [(''dc'', ''example''), (''dc'', ''com'')], li_base_dn_str = ''dc=example,dc=com'',
    li_ignored_user_attributes = [], li_ignored_group_attributes = []\<rparr>"
  have "ldap_info_new ''dc=example,dc=com'' [] [] = Inr ?info" by code_simp
  moreover have "filter is_ou (li_base_dn ?info) = []" by code_simp
  moreover have "rdn_text ''Staff''" "list_all ou_component [''groups'', ''it'']" by code_simp+
  moreover have "\<not> eq_ignore_ascii_case ''groups'' ''people''" by code_simp
  ultimately show ?thesis
    using group_dn_roundtrip [of "''dc=example,dc=com''" "[]" "[]" ?info "GroupName ''Staff''" "''groups''" "[''it'']"]
    by simp
qed

text \<open>the OU read back from a user's DN is the stored OU path, folded: the value that
  \<open>do_bind\<close> compares with the stored OU.\<close>

theorem internal_ou_roundtrip:
  assumes info: "ldap_info_new s iu ig = Inr info" and "filter is_ou (li_base_dn info) = []"
    and u: "rdn_text (user_id_str u)" and ts: "list_all ou_component ts"
  shows "rmap get_internal_ou_from_dn_parts
           (parse_distinguished_name (build_user_dn u (ou_path ts) (li_base_dn_str info)))
         = Inr (to_ascii_lowercase (ou_path ts))"
proof -
  have "parse_distinguished_name (build_user_dn u (ou_path ts) (li_base_dn_str info)) =
      Inr ((''uid'', to_ascii_lowercase (user_id_str u)) # lower_dn (map (\<lambda>t. (''ou'', t)) (rev ts)) @ li_base_dn info)"
    using parse_built_user_dn [OF info u] ou_path_no_sep [OF ts] by (simp add: chain_of_ou_path [OF ts])
  moreover have "lower_dn (map (\<lambda>t. (''ou'', t)) (rev ts)) = map (\<lambda>t. (''ou'', t)) (rev (map to_ascii_lowercase ts))"
    by (simp add: lower_dn_def rev_map)
  ultimately show ?thesis
    using assms(2) ou_of_chain [of "map to_ascii_lowercase ts"]
    by (simp add: get_internal_ou_from_dn_parts_def lower_ou_path comp_def rev_map)
qed

lemma internal_ou_roundtrip_witness:
  "rmap get_internal_ou_from_dn_parts
     (parse_distinguished_name (build_user_dn (UserId ''bob'') (ou_path [''Office'', ''floor1'']) ''dc=example,dc=com''))
   = Inr (to_ascii_lowercase (ou_path [''Office'', ''floor1'']))"
proof -
  let ?info = "\<lparr>li_base_dn = [(''dc'', ''example''), (''dc'', ''com'')], li_base_dn_str = ''dc=example,dc=com'',
    li_ignored_user_attributes = [], li_ignored_group_attributes = []\<rparr>"
  have "ldap_info_new ''dc=example,dc=com'' [] [] = Inr ?info" by code_simp
  moreover have "filter is_ou (li_base_dn ?info) = []" by code_simp
  moreover have "rdn_text ''bob''" "list_all ou_component [''Office'', ''floor1'']" by code_simp+
  ultimately show ?thesis
    using internal_ou_roundtrip [of "''dc=example,dc=com''" "[]" "[]" ?info "UserId ''bob''" "[''Office'', ''floor1'']"]
    by simp
qed

text \<open>under a base DN that has an \<open>ou\<close> RDN of its own, the DN the server prints for a
  user is not recognised as a user (the check on the number of RDNs counts the base's units
  twice), so no user can bind or be searched by DN.\<close>

theorem base_with_ou_unrecognised:
  assumes info: "ldap_info_new s iu ig = Inr info" and "filter is_ou (li_base_dn info) \<noteq> []"
    and u: "rdn_text (user_id_str u)" and ou: "CHR '','' \<notin> set ou" "CHR ''='' \<notin> set ou"
  shows "get_user_or_group_id_from_distinguished_name (build_user_dn u ou (li_base_dn_str info)) (li_base_dn info)
    = UnexpectedFormat"
proof -
  note facts = ldap_info_facts [OF info]
  show ?thesis
    unfolding facts(4) build_user_dn_eq [OF facts(1)]
    by (subst classify_leaf) (use facts chain_clean [OF ou] chain_all_ou u assms(2) in auto)
qed

lemma base_with_ou_unrecognised_witness:
  "get_user_or_group_id_from_distinguished_name
     (build_user_dn (UserId ''bob'') ''people'' ''ou=corp,dc=example'') [(''ou'', ''corp''), (''dc'', ''example'')]
   = UnexpectedFormat"
proof -
  let ?info = "\<lparr>li_base_dn = [(''ou'', ''corp''), (''dc'', ''example'')], li_base_dn_str = ''ou=corp,dc=example'',
    li_ignored_user_attributes = [], li_ignored_group_attributes = []\<rparr>"
  have "ldap_info_new ''ou=corp,dc=example'' [] [] = Inr ?info" by code_simp
  moreover have "filter is_ou (li_base_dn ?info) \<noteq> []" by code_simp
  moreover have "rdn_text ''bob''" by code_simp
  ultimately show ?thesis
    using base_with_ou_unrecognised [of "''ou=corp,dc=example''" "[]" "[]" ?info "UserId ''bob''" "''people''"]
    by simp
qed

text \<open>\<open>is_subtree\<close> is a partial order up to letter case: reflexive, transitive, and
  antisymmetric after folding.\<close>

theorem is_subtree_partial_order:
  "is_subtree d d"
  "is_subtree a b \<and> is_subtree b c \<Longrightarrow> is_subtree a c"
  "is_subtree a b \<and> is_subtree b a \<Longrightarrow> lower_dn a = lower_dn b"
  using is_subtree_trans is_subtree_antisym by auto

end
