(* ===== verification/Schema.thy ===== *)
theory Schema
  imports Domain
begin

text \<open>
  The schema crate: \<open>AttributeSchema\<close>, \<open>AttributeList\<close> and its lookups (\<open>schema.rs\<close>) and
  the schema that every layer starts from, \<open>PublicSchema::get\<close> (\<open>public_schema.rs\<close>).
\<close>

record attribute_schema =
  as_name :: string
  as_aliases :: "string list"
  as_attribute_type :: attribute_type
  as_is_list :: bool
  as_is_visible :: bool
  as_is_editable :: bool
  as_is_hardcoded :: bool
  as_is_readonly :: bool

type_synonym attribute_list = "attribute_schema list"

record posix_settings =
  user_uidnumber_assign :: bool
  user_uidnumber_start :: int
  user_uidnumber_max :: int
  user_gidnumber_assign :: bool
  user_gidnumber_start :: int
  user_loginshell_assign :: bool
  user_loginshell_default :: string
  user_homedirectory_assign :: bool
  user_homedirectory_prefix :: string
  group_gidnumber_assign :: bool
  group_gidnumber_start :: int
  group_gidnumber_max :: int

record schema =
  user_attributes :: attribute_list
  group_attributes :: attribute_list
  system_attributes :: attribute_list
  schema_posix_settings :: posix_settings
  extra_user_object_classes :: "string list"
  extra_group_object_classes :: "string list"

type_synonym public_schema = schema

section \<open>Lookups\<close>

definition matches_name :: "string \<Rightarrow> attribute_schema \<Rightarrow> bool" where
  "matches_name name a \<longleftrightarrow> eq_ignore_ascii_case (as_name a) name
     \<or> list_ex (\<lambda>alias. eq_ignore_ascii_case alias name) (as_aliases a)"

definition get_by_name_or_alias :: "attribute_list \<Rightarrow> string \<Rightarrow> attribute_schema option" where
  "get_by_name_or_alias l name = find_first (matches_name name) l"

definition get_attribute_schema :: "attribute_list \<Rightarrow> string \<Rightarrow> attribute_schema option" where
  "get_attribute_schema l name = get_by_name_or_alias l name"

definition get_attribute_type_of :: "attribute_list \<Rightarrow> string \<Rightarrow> (attribute_type \<times> bool) option" where
  "get_attribute_type_of l name =
     map_option (\<lambda>a. (as_attribute_type a, as_is_list a)) (get_by_name_or_alias l name)"

definition format_for_ldap_schema_description :: "attribute_list \<Rightarrow> string" where
  "format_for_ldap_schema_description l = join_with '' $ '' (map as_name l)"

definition resolve_canonical_name :: "attribute_list \<Rightarrow> string \<Rightarrow> string option" where
  "resolve_canonical_name l name_or_alias = map_option as_name (get_by_name_or_alias l name_or_alias)"

definition resolve_user_canonical_name :: "public_schema \<Rightarrow> string \<Rightarrow> string option" where
  "resolve_user_canonical_name s n = resolve_canonical_name (user_attributes s) n"

definition resolve_group_canonical_name :: "public_schema \<Rightarrow> string \<Rightarrow> string option" where
  "resolve_group_canonical_name s n = resolve_canonical_name (group_attributes s) n"

section \<open>The public schema\<close>

text \<open>Every attribute of \<open>PublicSchema::get\<close> is hardcoded.\<close>

definition hardcoded_attr ::
  "string \<Rightarrow> string list \<Rightarrow> attribute_type \<Rightarrow> bool \<Rightarrow> bool \<Rightarrow> bool \<Rightarrow> bool \<Rightarrow> attribute_schema" where
  "hardcoded_attr n al t is_list visible editable readonly =
     \<lparr>as_name = n, as_aliases = al, as_attribute_type = t, as_is_list = is_list,
      as_is_visible = visible, as_is_editable = editable, as_is_hardcoded = True,
      as_is_readonly = readonly\<rparr>"

definition core_user_attributes :: attribute_list where
  "core_user_attributes =
    [hardcoded_attr ''avatar'' [''jpegphoto'', ''jpegPhoto''] TAvatar False True True False,
     hardcoded_attr ''creationdate'' [''creation_date'', ''createTimestamp''] TDateTime False True False True,
     hardcoded_attr ''displayname'' [''display_name'', ''cn''] TString False True True False,
     hardcoded_attr ''firstname'' [''first_name'', ''givenName''] TString False True True False,
     hardcoded_attr ''lastname'' [''last_name'', ''sn''] TString False True True False,
     hardcoded_attr ''mail'' [''email''] TString False True True False,
     hardcoded_attr ''modifieddate'' [''modified_date'', ''modifyTimestamp''] TDateTime False True False True,
     hardcoded_attr ''passwordmodifieddate'' [''password_modified_date'', ''pwdChangedTime''] TDateTime False True False True,
     hardcoded_attr ''userid'' [''user_id'', ''uid'', ''id''] TString False True False True,
     hardcoded_attr ''uuid'' [''entryuuid'', ''entryUUID''] TString False True False True]"

definition extra_user_attributes :: attribute_list where
  "extra_user_attributes =
    [hardcoded_attr ''uidnumber'' [''uid_number'', ''uidNumber''] TInteger False True False False,
     hardcoded_attr ''gidnumber'' [''gid_number'', ''gidNumber''] TInteger False True False False,
     hardcoded_attr ''homedirectory'' [''home_directory'', ''homeDirectory''] TString False True False False,
     hardcoded_attr ''loginshell'' [''login_shell'', ''loginShell''] TString False True False False,
     hardcoded_attr ''kerberossync'' [''kerberos_sync'', ''kerberosSync''] TInteger False True False False,
     hardcoded_attr ''krbprincipalname'' [''krb_principal_name'', ''krbPrincipalName''] TString False False False True,
     hardcoded_attr ''sshpublickey'' [''sshPublicKey'', ''ssHPublicKey''] TString True True True False,
     hardcoded_attr ''ou'' [''organizationalunit'', ''organizationalUnit''] TString False True False True]"

definition public_group_attributes :: attribute_list where
  "public_group_attributes =
    [hardcoded_attr ''groupid'' [''group_id''] TInteger False True False True,
     hardcoded_attr ''creationdate'' [''creation_date'', ''createTimestamp''] TDateTime False True False True,
     hardcoded_attr ''modifieddate'' [''modified_date'', ''modifyTimestamp''] TDateTime False True False True,
     hardcoded_attr ''uuid'' [''entryuuid'', ''entryUUID''] TString False True False True,
     hardcoded_attr ''displayname'' [''display_name'', ''cn''] TString False True True False,
     hardcoded_attr ''ou'' [''organizationalunit'', ''organizationalUnit''] TString False True False True,
     hardcoded_attr ''gidnumber'' [''gid_number'', ''gidNumber''] TInteger False True False False]"

definition public_system_attributes :: attribute_list where
  "public_system_attributes =
    [hardcoded_attr ''allowedous'' [''allowedOUs'', ''AllowedOUs''] TString True False False True]"

definition default_posix_settings :: posix_settings where
  "default_posix_settings =
     \<lparr>user_uidnumber_assign = False, user_uidnumber_start = 3001, user_uidnumber_max = 3999,
      user_gidnumber_assign = False, user_gidnumber_start = 3001,
      user_loginshell_assign = False, user_loginshell_default = ''/bin/bash'',
      user_homedirectory_assign = False, user_homedirectory_prefix = ''/home'',
      group_gidnumber_assign = False, group_gidnumber_start = 3001, group_gidnumber_max = 3999\<rparr>"

definition public_schema_get :: public_schema where
  "public_schema_get =
     \<lparr>user_attributes = core_user_attributes @ extra_user_attributes,
      group_attributes = public_group_attributes,
      system_attributes = public_system_attributes,
      schema_posix_settings = default_posix_settings,
      extra_user_object_classes = [''inetOrgPerson'', ''posixAccount'', ''ldapPublicKey''],
      extra_group_object_classes = [''posixGroup'']\<rparr>"

section \<open>Facts\<close>

lemma matches_name_lower: "matches_name (to_ascii_lowercase n) a = matches_name n a"
  by (simp add: matches_name_def)

lemma matches_name_cong: "eq_ignore_ascii_case m n \<Longrightarrow> matches_name m a = matches_name n a"
  by (simp add: matches_name_def eq_ignore_ascii_case_def)

lemma get_by_name_ci:
  assumes "eq_ignore_ascii_case m n"
  shows "get_by_name_or_alias l m = get_by_name_or_alias l n"
  unfolding get_by_name_or_alias_def
  by (rule find_first_cong) (simp add: matches_name_cong [OF assms])

lemma resolve_canonical_ci:
  "eq_ignore_ascii_case m n \<Longrightarrow> resolve_canonical_name l m = resolve_canonical_name l n"
  unfolding resolve_canonical_name_def by (simp add: get_by_name_ci)

text \<open>The names an attribute answers to, folded.\<close>

definition names_of :: "attribute_schema \<Rightarrow> string list" where
  "names_of a = map to_ascii_lowercase (as_name a # as_aliases a)"

lemma matches_name_iff: "matches_name n a \<longleftrightarrow> to_ascii_lowercase n \<in> set (names_of a)"
  by (auto simp: matches_name_def names_of_def eq_ignore_ascii_case_def list_ex_iff image_iff) metis

text \<open>A list is unambiguous when no folded name belongs to two attributes.\<close>

definition unambiguous :: "attribute_list \<Rightarrow> bool" where
  "unambiguous l \<longleftrightarrow> distinct (concat (map (\<lambda>a. remdups (names_of a)) l))"

lemma unambiguous_Cons:
  "unambiguous (a # l) \<Longrightarrow> unambiguous l \<and> (\<forall>b \<in> set l. set (names_of a) \<inter> set (names_of b) = {})"
  by (auto simp: unambiguous_def)

lemma unambiguous_lookup:
  assumes "unambiguous l" "a \<in> set l" "to_ascii_lowercase n \<in> set (names_of a)"
  shows "get_by_name_or_alias l n = Some a"
  using assms
proof (induction l)
  case (Cons b l)
  show ?case
  proof (cases "a = b")
    case True
    with Cons.prems(3) show ?thesis
      by (simp add: get_by_name_or_alias_def matches_name_iff)
  next
    case False
    with Cons.prems have a: "a \<in> set l" by simp
    then have "set (names_of b) \<inter> set (names_of a) = {}" "unambiguous l"
      using unambiguous_Cons [OF Cons.prems(1)] by auto
    with Cons.prems(3) have "\<not> matches_name n b" by (auto simp: matches_name_iff)
    with Cons.IH [OF \<open>unambiguous l\<close> a Cons.prems(3)] show ?thesis
      by (simp add: get_by_name_or_alias_def)
  qed
qed simp

lemma public_user_unambiguous: "unambiguous (user_attributes public_schema_get)"
  by code_simp

lemma public_group_unambiguous: "unambiguous (group_attributes public_schema_get)"
  by code_simp

end
