(* ===== verification/Handlers.thy ===== *)
theory Handlers
  imports Schema
begin

text \<open>
  The interface between the protocol layers and the backend (\<open>domain-handlers/src/handler.rs\<close>,
  \<open>opaque-handler/src/lib.rs\<close>): request filters, and the traits as one record of functions
  over a state \<open>'s\<close>, the world the backend works on (its database and the KDC). Reading
  methods map a state to a result; writing methods also return the next state. The generic
  parameter \<open>Handler\<close> of the sources is an argument of type \<open>'s backend\<close> here.
\<close>

section \<open>Filters\<close>

datatype user_column =
    ColUserId | ColEmail | ColLowercaseEmail | ColDisplayName | ColCreationDate
  | ColPasswordHash | ColTotpSecret | ColMfaType | ColUuid | ColModifiedDate
  | ColPasswordModifiedDate | ColKrbPrincipalName

record sub_string_filter =
  ss_initial :: "string option"
  ss_any :: "string list"
  ss_final :: "string option"

definition to_sql_filter :: "sub_string_filter \<Rightarrow> string" where
  "to_sql_filter f =
     (case ss_initial f of None \<Rightarrow> [] | Some s \<Rightarrow> to_ascii_lowercase s)
     @ ''%''
     @ concat (map (\<lambda>part. to_ascii_lowercase part @ ''%'') (ss_any f))
     @ (case ss_final f of None \<Rightarrow> [] | Some s \<Rightarrow> to_ascii_lowercase s)"

datatype user_request_filter =
    UTrue
  | UFalse
  | UAnd "user_request_filter list"
  | UOr "user_request_filter list"
  | UNot user_request_filter
  | UUserId user_id
  | UUserIdSubString sub_string_filter
  | UEquality user_column string
  | UAttributeEquality attribute_name attribute_value
  | USubString user_column sub_string_filter
  | UMemberOf group_name
  | UMemberOfId group_id
  | UCustomAttributePresent attribute_name
  | UGreaterOrEqual user_column string
  | ULessOrEqual user_column string
  | UAttributeGreaterOrEqual attribute_name string
  | UAttributeLessOrEqual attribute_name string
  | UAttributeSubString attribute_name sub_string_filter

datatype group_request_filter =
    GTrue
  | GFalse
  | GAnd "group_request_filter list"
  | GOr "group_request_filter list"
  | GNot group_request_filter
  | GDisplayName group_name
  | GDisplayNameSubString sub_string_filter
  | GUuid uuid
  | GGroupId group_id
  | GMember user_id
  | GAttributeEquality attribute_name attribute_value
  | GCustomAttributePresent attribute_name
  | GGreaterOrEqual string string
  | GLessOrEqual string string
  | GAttributeGreaterOrEqual attribute_name string
  | GAttributeLessOrEqual attribute_name string
  | GAttributeSubString attribute_name sub_string_filter

definition group_filter_from_bool :: "bool \<Rightarrow> group_request_filter" where
  "group_filter_from_bool val = (if val then GTrue else GFalse)"

text \<open>The boolean structure of a filter over a meaning of its atoms.\<close>

fun user_filter_holds :: "(user_request_filter \<Rightarrow> bool) \<Rightarrow> user_request_filter \<Rightarrow> bool" where
  "user_filter_holds V UTrue = True"
| "user_filter_holds V UFalse = False"
| "user_filter_holds V (UAnd fs) = list_all (user_filter_holds V) fs"
| "user_filter_holds V (UOr fs) = list_ex (user_filter_holds V) fs"
| "user_filter_holds V (UNot f) = (\<not> user_filter_holds V f)"
| "user_filter_holds V f = V f"

fun group_filter_holds :: "(group_request_filter \<Rightarrow> bool) \<Rightarrow> group_request_filter \<Rightarrow> bool" where
  "group_filter_holds V GTrue = True"
| "group_filter_holds V GFalse = False"
| "group_filter_holds V (GAnd fs) = list_all (group_filter_holds V) fs"
| "group_filter_holds V (GOr fs) = list_ex (group_filter_holds V) fs"
| "group_filter_holds V (GNot f) = (\<not> group_filter_holds V f)"
| "group_filter_holds V f = V f"

section \<open>The backend\<close>

record bind_request =
  bind_name :: user_id
  bind_password :: string

text \<open>\<open>registration_start\<close> answers the server data and the OPAQUE response;
  \<open>registration_finish\<close> takes the server data and the upload.\<close>

record 's backend =
  b_bind :: "'s \<Rightarrow> bind_request \<Rightarrow> unit dresult"
  b_list_groups :: "'s \<Rightarrow> group_request_filter option \<Rightarrow> group list dresult"
  b_get_group_details :: "'s \<Rightarrow> group_id \<Rightarrow> group_details dresult"
  b_update_group :: "'s \<Rightarrow> update_group_request \<Rightarrow> unit dresult \<times> 's"
  b_create_group :: "'s \<Rightarrow> create_group_request \<Rightarrow> group_id dresult \<times> 's"
  b_delete_group :: "'s \<Rightarrow> group_id \<Rightarrow> unit dresult \<times> 's"
  b_list_users :: "'s \<Rightarrow> user_request_filter option \<Rightarrow> bool \<Rightarrow> user_and_groups list dresult"
  b_get_user_details :: "'s \<Rightarrow> user_id \<Rightarrow> user dresult"
  b_create_user :: "'s \<Rightarrow> create_user_request \<Rightarrow> unit dresult \<times> 's"
  b_update_user :: "'s \<Rightarrow> update_user_request \<Rightarrow> unit dresult \<times> 's"
  b_delete_user :: "'s \<Rightarrow> user_id \<Rightarrow> unit dresult \<times> 's"
  b_add_user_to_group :: "'s \<Rightarrow> user_id \<Rightarrow> group_id \<Rightarrow> unit dresult \<times> 's"
  b_remove_user_from_group :: "'s \<Rightarrow> user_id \<Rightarrow> group_id \<Rightarrow> unit dresult \<times> 's"
  b_get_user_groups :: "'s \<Rightarrow> user_id \<Rightarrow> group_details list dresult"
  b_get_schema :: "'s \<Rightarrow> public_schema dresult"
  b_get_allowed_ous :: "'s \<Rightarrow> string list dresult"
  b_ensure_kerberos_principal_consistency :: "'s \<Rightarrow> user_id \<Rightarrow> bool \<Rightarrow> unit dresult \<times> 's"
  b_registration_start :: "'s \<Rightarrow> user_id \<times> string \<Rightarrow> (string \<times> string) dresult"
  b_registration_finish :: "'s \<Rightarrow> string \<times> string \<Rightarrow> unit dresult \<times> 's"

end
