(* ===== verification/Schema_Manager.thy ===== *)
theory Schema_Manager
  imports Handlers
begin

text \<open>
  The LDAP view of the schema (\<open>ldap/src/schema/manager.rs\<close>, \<open>definitions.rs\<close>,
  \<open>attributes.rs\<close>): which logical attribute a name stands for, how a filter field is mapped
  to a column or attribute, and how the attribute list of a search request is expanded.
\<close>

datatype logical_attr =
    LObjectClass | LMemberOf | LDn | LEntryDn
  | LPrimary user_column
  | LCustom string attribute_type bool
  | LOperational

record expanded_attributes =
  attribute_keys :: "(attribute_name \<times> string) list"
  include_custom_attributes :: bool
  include_operational_attributes :: bool

datatype user_field_type =
    UfNoMatch | UfObjectClass | UfMemberOf | UfDn | UfEntryDn | UfEntryUuid
  | UfPrimaryField user_column
  | UfAttribute attribute_name attribute_type bool

datatype group_field_type =
    GfNoMatch | GfGroupId | GfDisplayName | GfCreationDate | GfModifiedDate | GfObjectClass
  | GfDn | GfEntryDn | GfEntryUuid | GfUniqueMember | GfMember | GfMemberOf | GfUuid
  | GfAttribute attribute_name attribute_type bool

section \<open>Preferred names\<close>

definition STANDARD_LDAP_NAMES :: "string list" where
  "STANDARD_LDAP_NAMES =
     [''cn'', ''sn'', ''givenname'', ''uid'', ''mail'', ''ou'', ''dc'', ''o'', ''c'', ''l'', ''st'',
      ''title'', ''description'', ''member'', ''uniquemember'', ''memberof'', ''createtimestamp'',
      ''modifytimestamp'', ''pwdchangedtime'', ''entryuuid'', ''hassubordinates'',
      ''structuralobjectclass'', ''subschemasubentry'', ''uidnumber'', ''gidnumber'',
      ''homedirectory'', ''loginshell'', ''sshpublickey'', ''krbprincipalname'', ''jpegphoto'',
      ''avatar'', ''loginDisabled'', ''sudoHost'']"

definition get_preferred_ldap_name :: "attribute_schema \<Rightarrow> string" where
  "get_preferred_ldap_name a =
     unwrap_or (as_name a)
       (find_first (\<lambda>alias. to_ascii_lowercase alias \<in> set STANDARD_LDAP_NAMES) (as_aliases a))"

section \<open>The attribute map\<close>

type_synonym attribute_map = "string \<rightharpoonup> logical_attr \<times> string"

definition register :: "logical_attr \<Rightarrow> string \<Rightarrow> string list \<Rightarrow> attribute_map \<Rightarrow> attribute_map" where
  "register logical canonical aliases m =
     (let lower_canonical = to_ascii_lowercase canonical
      in foldl (\<lambda>m alias.
                  let lower_alias = to_ascii_lowercase alias
                  in if lower_alias \<noteq> lower_canonical then m(lower_alias \<mapsto> (logical, canonical)) else m)
           (m(lower_canonical \<mapsto> (logical, canonical))) aliases)"

definition core_attrs :: "(logical_attr \<times> string \<times> string list) list" where
  "core_attrs =
     [(LObjectClass, ''objectClass'', []),
      (LMemberOf, ''memberOf'', [''ismemberof'']),
      (LDn, ''dn'', [''distinguishedname'']),
      (LEntryDn, ''entryDN'', []),
      (LOperational, ''hasSubordinates'', []),
      (LOperational, ''structuralObjectClass'', []),
      (LOperational, ''subschemaSubentry'', []),
      (LOperational, ''createTimestamp'', [''creationdate'', ''creation_date'', ''creationtimestamp'']),
      (LOperational, ''modifyTimestamp'', [''modifieddate'', ''modified_date'', ''modifydate'']),
      (LOperational, ''pwdChangedTime'', [''passwordmodifieddate'', ''password_modified_date'']),
      (LOperational, ''creatorsName'', []),
      (LOperational, ''modifiersName'', []),
      (LOperational, ''entryUUID'', [''uuid'']),
      (LOperational, ''loginDisabled'', [''loginDisabled'']),
      (LOperational, ''sudoHost'', [''sudoHost''])]"

definition determine_logical_attr :: "attribute_schema \<Rightarrow> string \<Rightarrow> logical_attr" where
  "determine_logical_attr a preferred =
     (let lower = to_ascii_lowercase preferred in
      if lower \<in> {''hassubordinates'', ''structuralobjectclass'', ''subschemasubentry'', ''entryuuid'',
                  ''uuid'', ''memberof'', ''ismemberof''} then LOperational
      else if lower \<in> {''uid'', ''user_id'', ''id'', ''userid''} then LPrimary ColUserId
      else if lower \<in> {''mail'', ''email''} then LPrimary ColEmail
      else if lower \<in> {''cn'', ''displayname'', ''display_name''} then LPrimary ColDisplayName
      else if lower \<in> {''krbprincipalname'', ''krb_principal_name''} then LPrimary ColKrbPrincipalName
      else if lower \<in> {''createtimestamp'', ''creationdate'', ''creation_date'', ''creationtimestamp''}
        then LPrimary ColCreationDate
      else if lower \<in> {''modifytimestamp'', ''modifieddate'', ''modified_date'', ''modifydate''}
        then LPrimary ColModifiedDate
      else if lower \<in> {''pwdchangedtime'', ''passwordmodifieddate'', ''password_modified_date''}
        then LPrimary ColPasswordModifiedDate
      else LCustom (as_name a) (as_attribute_type a) (as_is_list a))"

definition register_schema_attr :: "attribute_map \<Rightarrow> attribute_schema \<Rightarrow> attribute_map" where
  "register_schema_attr m a =
     (let preferred = get_preferred_ldap_name a
      in register (determine_logical_attr a preferred) preferred (as_aliases a) m)"

definition schema_manager_new :: "public_schema \<Rightarrow> attribute_map" where
  "schema_manager_new sch =
     (let m0 = foldl (\<lambda>m (logical, canonical, aliases). register logical canonical aliases m)
                 Map.empty core_attrs;
          m1 = foldl register_schema_attr m0 (user_attributes sch)
      in foldl register_schema_attr m1 (group_attributes sch))"

definition resolve_attribute :: "attribute_map \<Rightarrow> string \<Rightarrow> (logical_attr \<times> string) option" where
  "resolve_attribute m name = m (to_ascii_lowercase name)"

definition get_canonical_name :: "attribute_map \<Rightarrow> string \<Rightarrow> string" where
  "get_canonical_name m name = unwrap_or name (map_option snd (resolve_attribute m name))"

definition is_operational :: "attribute_map \<Rightarrow> string \<Rightarrow> bool" where
  "is_operational m name =
     (case resolve_attribute m name of Some (LOperational, _) \<Rightarrow> True | _ \<Rightarrow> False)"

section \<open>Field mapping\<close>

definition is_uuid_field :: "attribute_name \<Rightarrow> bool" where
  "is_uuid_field field \<longleftrightarrow> eq_ignore_ascii_case (attr_str field) ''entryuuid''
     \<or> eq_ignore_ascii_case (attr_str field) ''uuid''"

definition map_user_field :: "attribute_map \<Rightarrow> attribute_name \<Rightarrow> public_schema \<Rightarrow> user_field_type" where
  "map_user_field m field sch =
     (case resolve_attribute m (attr_str field) of
        Some (logical, _) \<Rightarrow>
          (case logical of
             LObjectClass \<Rightarrow> UfObjectClass
           | LMemberOf \<Rightarrow> UfMemberOf
           | LDn \<Rightarrow> UfDn
           | LEntryDn \<Rightarrow> UfEntryDn
           | LPrimary col \<Rightarrow> UfPrimaryField col
           | LCustom internal t is_list \<Rightarrow> UfAttribute (attribute_name_from internal) t is_list
           | LOperational \<Rightarrow> if is_uuid_field field then UfEntryUuid else UfNoMatch)
      | None \<Rightarrow>
          unwrap_or UfNoMatch
            (map_option (\<lambda>(t, is_list). UfAttribute field t is_list)
              (get_attribute_type_of (user_attributes sch) (attr_str field))))"

definition map_group_field :: "attribute_map \<Rightarrow> attribute_name \<Rightarrow> public_schema \<Rightarrow> group_field_type" where
  "map_group_field m field sch =
     (case resolve_attribute m (attr_str field) of
        Some (logical, _) \<Rightarrow>
          (case logical of
             LObjectClass \<Rightarrow> GfObjectClass
           | LMemberOf \<Rightarrow> GfMemberOf
           | LDn \<Rightarrow> GfDn
           | LEntryDn \<Rightarrow> GfEntryDn
           | LPrimary col \<Rightarrow>
               (case col of
                  ColCreationDate \<Rightarrow> GfCreationDate
                | ColModifiedDate \<Rightarrow> GfModifiedDate
                | ColUuid \<Rightarrow> GfUuid
                | ColDisplayName \<Rightarrow> GfDisplayName
                | _ \<Rightarrow> GfNoMatch)
           | LCustom internal t is_list \<Rightarrow> GfAttribute (attribute_name_from internal) t is_list
           | LOperational \<Rightarrow> if is_uuid_field field then GfEntryUuid else GfNoMatch)
      | None \<Rightarrow>
          if eq_ignore_ascii_case (attr_str field) ''member'' then GfMember
          else if eq_ignore_ascii_case (attr_str field) ''uniquemember'' then GfUniqueMember
          else unwrap_or GfNoMatch
            (map_option (\<lambda>(t, is_list). GfAttribute field t is_list)
              (get_attribute_type_of (group_attributes sch) (attr_str field))))"

section \<open>Expanding the attribute list of a request\<close>

text \<open>\<open>always_operational\<close> is a \<open>HashSet\<close>: the order in which its names are pushed is not
  fixed by the source. The names are distinct and the pushed names only reach a \<open>BTreeMap\<close>,
  so the order does not matter to the result; the model pushes them in the order of the text.\<close>

definition always_operational :: "string list" where
  "always_operational =
     [''hassubordinates'', ''structuralobjectclass'', ''subschemasubentry'', ''createtimestamp'',
      ''modifytimestamp'', ''pwdchangedtime'', ''entryuuid'', ''entrydn'', ''memberof'',
      ''creatorsname'', ''modifiersname'']"

definition ignore_on_plus :: "string list" where
  "ignore_on_plus =
     [''attributetypes'', ''objectclasses'', ''matchingrules'', ''ldapsyntaxes'', ''matchingruleuse'',
      ''creatorsname'', ''modifiersname'', ''namingcontexts'', ''supportedcontrol'',
      ''supportedextension'', ''supportedfeatures'', ''supportedldapversion'',
      ''supportedsaslmechanisms'', ''vendorname'', ''vendorversion'', ''altserver'', ''ref'', ''queryid'']"

definition push_key :: "string \<Rightarrow> string list \<Rightarrow> string list" where
  "push_key k target = (if list_ex (\<lambda>x. eq_ignore_ascii_case x k) target then target else target @ [k])"

definition classify_key ::
  "attribute_map \<Rightarrow> string list \<times> string list \<Rightarrow> attribute_schema \<Rightarrow> string list \<times> string list" where
  "classify_key m ks a =
     (case ks of (standard_keys, operational_keys) \<Rightarrow>
        let preferred_name = get_preferred_ldap_name a in
        (case resolve_attribute m preferred_name of
           Some (logical, _) \<Rightarrow>
             if logical = LOperational
                \<or> to_ascii_lowercase preferred_name \<in> set always_operational
             then (standard_keys, push_key preferred_name operational_keys)
             else (push_key preferred_name standard_keys, operational_keys)
         | None \<Rightarrow> (push_key preferred_name standard_keys, operational_keys)))"

text \<open>\<open>retain(|k| seen.insert(k.to_ascii_lowercase()))\<close>.\<close>

fun retain_unseen :: "string list \<Rightarrow> string list \<Rightarrow> string list" where
  "retain_unseen seen [] = []"
| "retain_unseen seen (k # ks) =
     (if to_ascii_lowercase k \<in> set seen then retain_unseen seen ks
      else k # retain_unseen (to_ascii_lowercase k # seen) ks)"

definition wildcard_keys :: "attribute_map \<Rightarrow> public_schema \<Rightarrow> string list \<times> string list" where
  "wildcard_keys m sch =
     (case foldl (classify_key m) ([], []) (user_attributes sch @ group_attributes sch) of
        (std, op) \<Rightarrow>
          let op1 = foldl (\<lambda>ks name. push_key name ks) op always_operational;
              std1 = filter (\<lambda>k. to_ascii_lowercase k \<notin> set always_operational) std;
              std2 = push_key ''objectClass'' std1
          in (retain_unseen [] std2,
              filter (\<lambda>k. k \<notin> set ignore_on_plus) (retain_unseen [] op1)))"

definition insert_keys ::
  "string list \<Rightarrow> (attribute_name \<times> string) list \<Rightarrow> (attribute_name \<times> string) list" where
  "insert_keys ks out = foldl (\<lambda>out s. btree_insert (attribute_name_from s) s out) out ks"

definition explicit_keys :: "attribute_map \<Rightarrow> string list \<Rightarrow> string list" where
  "explicit_keys m ldap_attributes =
     map (get_canonical_name m)
       (filter (\<lambda>s. let lower = to_ascii_lowercase s in
                  lower \<noteq> ''*'' \<and> lower \<noteq> ''+'' \<and> lower \<noteq> ''1.1'' \<and> lower \<notin> set ignore_on_plus)
         ldap_attributes)"

definition expand_attribute_wildcards ::
  "attribute_map \<Rightarrow> string list \<Rightarrow> public_schema \<Rightarrow> expanded_attributes" where
  "expand_attribute_wildcards m ldap_attributes sch =
     (let (standard_keys, operational_keys) = wildcard_keys m sch;
          has_star = (''*'' \<in> set ldap_attributes \<or> ldap_attributes = []);
          has_plus = (''+'' \<in> set ldap_attributes);
          out0 = insert_keys (explicit_keys m ldap_attributes) [];
          out1 = (if has_star \<or> has_plus then insert_keys standard_keys out0 else out0);
          out2 = (if has_plus then insert_keys operational_keys out1 else out1);
          has_explicit_operational =
            list_ex (\<lambda>(k, _). is_operational m (attr_str k)
                       \<or> to_ascii_lowercase (attr_str k) \<in> set always_operational) out2
      in \<lparr>attribute_keys = out2,
          include_custom_attributes = has_star \<or> has_plus,
          include_operational_attributes = has_plus \<or> has_explicit_operational\<rparr>)"

section \<open>Resolution\<close>

lemma resolve_attribute_ci:
  "eq_ignore_ascii_case a b \<Longrightarrow> resolve_attribute m a = resolve_attribute m b"
  by (simp add: resolve_attribute_def eq_ignore_ascii_case_def)

lemma register_apply:
  "register l c als m k =
     (if k \<in> to_ascii_lowercase ` (insert c (set als)) then Some (l, c) else m k)"
proof -
  have step: "foldl (\<lambda>m alias. if to_ascii_lowercase alias \<noteq> to_ascii_lowercase c
                   then m(to_ascii_lowercase alias \<mapsto> (l, c)) else m) m0 als k =
      (if k \<in> to_ascii_lowercase ` set als \<and> k \<noteq> to_ascii_lowercase c then Some (l, c) else m0 k)" for m0
    by (induction als arbitrary: m0) auto
  show ?thesis unfolding register_def Let_def step by auto
qed

lemma register_dom: "dom (register l c als m) = to_ascii_lowercase ` (insert c (set als)) \<union> dom m"
  by (auto simp: register_apply split: if_splits)

lemma preferred_cases: "get_preferred_ldap_name a \<in> insert (as_name a) (set (as_aliases a))"
proof (cases "find_first (\<lambda>alias. to_ascii_lowercase alias \<in> set STANDARD_LDAP_NAMES) (as_aliases a)")
  case (Some x)
  then show ?thesis
    by (simp add: get_preferred_ldap_name_def find_first_SomeD)
qed (simp add: get_preferred_ldap_name_def)

lemma foldl_register_mono:
  "k \<in> dom m \<Longrightarrow> k \<in> dom (foldl register_schema_attr m as)"
proof (induction as arbitrary: m)
  case (Cons a as)
  then have "k \<in> dom (register_schema_attr m a)"
    by (simp add: register_schema_attr_def register_dom Let_def)
  then show ?case using Cons.IH by simp
qed simp

lemma foldl_register_dom:
  assumes "a \<in> set as" "n \<in> insert (get_preferred_ldap_name a) (set (as_aliases a))"
  shows "to_ascii_lowercase n \<in> dom (foldl register_schema_attr m as)"
  using assms
proof (induction as arbitrary: m)
  case (Cons b as)
  show ?case
  proof (cases "a = b")
    case True
    with Cons.prems have "to_ascii_lowercase n \<in> dom (register_schema_attr m b)"
      by (auto simp: register_schema_attr_def register_dom Let_def)
    then show ?thesis using foldl_register_mono by simp
  next
    case False
    with Cons show ?thesis by simp
  qed
qed simp

lemma resolve_schema_names:
  assumes "a \<in> set (user_attributes sch) \<union> set (group_attributes sch)"
    and "n \<in> insert (get_preferred_ldap_name a) (set (as_aliases a))"
  shows "\<exists>r. resolve_attribute (schema_manager_new sch) n = Some r"
proof -
  have "to_ascii_lowercase n \<in> dom (schema_manager_new sch)"
    using assms foldl_register_dom foldl_register_mono
    unfolding schema_manager_new_def Let_def by (metis Un_iff)
  then show ?thesis by (auto simp: resolve_attribute_def)
qed

lemma register_schema_attr_apply:
  "register_schema_attr m a k =
     (if k \<in> to_ascii_lowercase ` insert (get_preferred_ldap_name a) (set (as_aliases a))
      then Some (determine_logical_attr a (get_preferred_ldap_name a), get_preferred_ldap_name a)
      else m k)"
  by (simp add: register_schema_attr_def register_apply Let_def)

lemma registered_in_names:
  "n \<in> insert (get_preferred_ldap_name a) (set (as_aliases a)) \<Longrightarrow> to_ascii_lowercase n \<in> set (names_of a)"
  using preferred_cases [of a] by (auto simp: names_of_def)

lemma foldl_register_other:
  "\<forall>b \<in> set as. k \<notin> set (names_of b) \<Longrightarrow> foldl register_schema_attr m as k = m k"
proof (induction as arbitrary: m)
  case (Cons b as)
  then have "register_schema_attr m b k = m k"
    using registered_in_names [of _ b] by (auto simp: register_schema_attr_apply)
  then show ?case using Cons by simp
qed simp

lemma foldl_register_last:
  assumes "unambiguous as" "a \<in> set as" "n \<in> insert (get_preferred_ldap_name a) (set (as_aliases a))"
  shows "foldl register_schema_attr m as (to_ascii_lowercase n) =
    Some (determine_logical_attr a (get_preferred_ldap_name a), get_preferred_ldap_name a)"
  using assms
proof (induction as arbitrary: m)
  case (Cons b as)
  note un = unambiguous_Cons [OF Cons.prems(1)]
  show ?case
  proof (cases "a \<in> set as")
    case True
    then show ?thesis using Cons un by simp
  next
    case False
    then have "a = b" using Cons.prems(2) by simp
    moreover have "\<forall>c \<in> set as. to_ascii_lowercase n \<notin> set (names_of c)"
      using un registered_in_names [OF Cons.prems(3)] \<open>a = b\<close> by blast
    ultimately have "foldl register_schema_attr m (b # as) (to_ascii_lowercase n) =
        register_schema_attr m b (to_ascii_lowercase n)"
      by (simp add: foldl_register_other)
    moreover have "register_schema_attr m b (to_ascii_lowercase n) =
        Some (determine_logical_attr a (get_preferred_ldap_name a), get_preferred_ldap_name a)"
      using Cons.prems(3) \<open>a = b\<close> by (auto simp: register_schema_attr_apply)
    ultimately show ?thesis by simp
  qed
qed simp

text \<open>Every spelling under which an attribute is registered, its preferred name and all
  its aliases in any case, resolves to the same logical attribute and the same canonical name:
  for a group attribute when the group attributes are unambiguous, for a user attribute when
  the user attributes are and no group attribute answers to that spelling.\<close>

theorem resolve_attribute_aliases:
  assumes "n \<in> insert (get_preferred_ldap_name a) (set (as_aliases a))"
    and "(a \<in> set (group_attributes sch) \<and> unambiguous (group_attributes sch))
       \<or> (a \<in> set (user_attributes sch) \<and> unambiguous (user_attributes sch)
          \<and> (\<forall>b \<in> set (group_attributes sch). \<not> matches_name n b))"
    and "eq_ignore_ascii_case n' n"
  shows "resolve_attribute (schema_manager_new sch) n' =
    Some (determine_logical_attr a (get_preferred_ldap_name a), get_preferred_ldap_name a)"
proof -
  have "to_ascii_lowercase n' = to_ascii_lowercase n" using assms(3) by (simp add: eq_ignore_ascii_case_def)
  then show ?thesis
    using assms(1,2) foldl_register_last foldl_register_other
    by (auto simp: resolve_attribute_def schema_manager_new_def Let_def matches_name_iff)
qed

lemma resolve_attribute_aliases_witness:
  "resolve_attribute (schema_manager_new public_schema_get) ''Display_Name'' = Some (LPrimary ColDisplayName, ''cn'')"
proof -
  let ?a = "hardcoded_attr ''displayname'' [''display_name'', ''cn''] TString False True True False"
  have "?a \<in> set (group_attributes public_schema_get)"
    by (simp add: public_schema_get_def public_group_attributes_def)
  moreover have "get_preferred_ldap_name ?a = ''cn''" "determine_logical_attr ?a ''cn'' = LPrimary ColDisplayName"
    "''display_name'' \<in> set (as_aliases ?a)" "eq_ignore_ascii_case ''Display_Name'' ''display_name''"
    by code_simp+
  ultimately show ?thesis
    using resolve_attribute_aliases [of "''display_name''" ?a public_schema_get "''Display_Name''"]
      public_group_unambiguous by simp
qed

text \<open>The map as a list of registrations searched from the last one.\<close>

definition registrations :: "public_schema \<Rightarrow> (logical_attr \<times> string \<times> string list) list" where
  "registrations sch = core_attrs @
     map (\<lambda>a. (determine_logical_attr a (get_preferred_ldap_name a), get_preferred_ldap_name a, as_aliases a))
       (user_attributes sch @ group_attributes sch)"

definition last_registration :: "public_schema \<Rightarrow> string \<Rightarrow> (logical_attr \<times> string) option" where
  "last_registration sch k = map_option (\<lambda>(l, c, _). (l, c))
     (find_first (\<lambda>(_, c, als). list_ex (\<lambda>x. to_ascii_lowercase x = k) (c # als)) (rev (registrations sch)))"

lemma foldl_register_find:
  "foldl (\<lambda>m (l, c, als). register l c als m) m rs k =
     (case find_first (\<lambda>(_, c, als). list_ex (\<lambda>x. to_ascii_lowercase x = k) (c # als)) (rev rs) of
        None \<Rightarrow> m k | Some (l, c, _) \<Rightarrow> Some (l, c))"
proof (induction rs rule: rev_induct)
  case (snoc r rs)
  obtain l c als where "r = (l, c, als)" by (cases r)
  then show ?case using snoc by (auto simp: register_apply list_ex_iff image_iff)
qed simp

lemma foldl_register_schema_attr:
  "foldl register_schema_attr m as = foldl (\<lambda>m (l, c, als). register l c als m) m
     (map (\<lambda>a. (determine_logical_attr a (get_preferred_ldap_name a), get_preferred_ldap_name a, as_aliases a)) as)"
  by (induction as arbitrary: m) (simp_all add: register_schema_attr_def Let_def)

lemma schema_manager_new_last: "schema_manager_new sch k = last_registration sch k"
proof -
  have "schema_manager_new sch = foldl (\<lambda>m (l, c, als). register l c als m) Map.empty (registrations sch)"
    by (simp add: schema_manager_new_def registrations_def foldl_register_schema_attr Let_def)
  then show ?thesis
    by (simp add: foldl_register_find last_registration_def split: option.splits)
qed

text \<open>What the public schema registers, evaluated once.\<close>

lemma registrations_public_user:
  "map (\<lambda>a. (determine_logical_attr a (get_preferred_ldap_name a), get_preferred_ldap_name a, as_aliases a))
     (user_attributes public_schema_get) =
     [(LCustom ''avatar'' TAvatar False, ''jpegphoto'', [''jpegphoto'', ''jpegPhoto'']),
      (LPrimary ColCreationDate, ''createTimestamp'', [''creation_date'', ''createTimestamp'']),
      (LPrimary ColDisplayName, ''cn'', [''display_name'', ''cn'']),
      (LCustom ''firstname'' TString False, ''givenName'', [''first_name'', ''givenName'']),
      (LCustom ''lastname'' TString False, ''sn'', [''last_name'', ''sn'']),
      (LPrimary ColEmail, ''mail'', [''email'']),
      (LPrimary ColModifiedDate, ''modifyTimestamp'', [''modified_date'', ''modifyTimestamp'']),
      (LPrimary ColPasswordModifiedDate, ''pwdChangedTime'', [''password_modified_date'', ''pwdChangedTime'']),
      (LPrimary ColUserId, ''uid'', [''user_id'', ''uid'', ''id'']),
      (LOperational, ''entryuuid'', [''entryuuid'', ''entryUUID'']),
      (LCustom ''uidnumber'' TInteger False, ''uidNumber'', [''uid_number'', ''uidNumber'']),
      (LCustom ''gidnumber'' TInteger False, ''gidNumber'', [''gid_number'', ''gidNumber'']),
      (LCustom ''homedirectory'' TString False, ''homeDirectory'', [''home_directory'', ''homeDirectory'']),
      (LCustom ''loginshell'' TString False, ''loginShell'', [''login_shell'', ''loginShell'']),
      (LCustom ''kerberossync'' TInteger False, ''kerberossync'', [''kerberos_sync'', ''kerberosSync'']),
      (LPrimary ColKrbPrincipalName, ''krbPrincipalName'', [''krb_principal_name'', ''krbPrincipalName'']),
      (LCustom ''sshpublickey'' TString True, ''sshPublicKey'', [''sshPublicKey'', ''ssHPublicKey'']),
      (LCustom ''ou'' TString False, ''ou'', [''organizationalunit'', ''organizationalUnit''])]"
  by (simp add: public_schema_get_def core_user_attributes_def extra_user_attributes_def
      hardcoded_attr_def get_preferred_ldap_name_def STANDARD_LDAP_NAMES_def determine_logical_attr_def)

lemma registrations_public_group:
  "map (\<lambda>a. (determine_logical_attr a (get_preferred_ldap_name a), get_preferred_ldap_name a, as_aliases a))
     (group_attributes public_schema_get) =
     [(LCustom ''groupid'' TInteger False, ''groupid'', [''group_id'']),
      (LPrimary ColCreationDate, ''createTimestamp'', [''creation_date'', ''createTimestamp'']),
      (LPrimary ColModifiedDate, ''modifyTimestamp'', [''modified_date'', ''modifyTimestamp'']),
      (LOperational, ''entryuuid'', [''entryuuid'', ''entryUUID'']),
      (LPrimary ColDisplayName, ''cn'', [''display_name'', ''cn'']),
      (LCustom ''ou'' TString False, ''ou'', [''organizationalunit'', ''organizationalUnit'']),
      (LCustom ''gidnumber'' TInteger False, ''gidNumber'', [''gid_number'', ''gidNumber''])]"
  by (simp add: public_schema_get_def public_group_attributes_def
      hardcoded_attr_def get_preferred_ldap_name_def STANDARD_LDAP_NAMES_def determine_logical_attr_def)

lemmas registrations_public =
  registrations_def map_append registrations_public_user registrations_public_group core_attrs_def

text \<open>\<open>register\<close> ignores the internal name of an attribute, so an internal name that is
  neither preferred nor an alias is not a spelling of its attribute: a filter on \<open>displayname\<close>
  is mapped to a custom attribute and one on \<open>creationdate\<close> to no field at all, while
  \<open>cn\<close> and \<open>createTimestamp\<close>, the aliases of the same attributes, are mapped to their columns.\<close>

theorem internal_names_not_registered:
  "map_user_field (schema_manager_new public_schema_get) (attribute_name_from ''displayname'')
     public_schema_get = UfAttribute (attribute_name_from ''displayname'') TString False
   \<and> map_user_field (schema_manager_new public_schema_get) (attribute_name_from ''cn'')
     public_schema_get = UfPrimaryField ColDisplayName
   \<and> map_user_field (schema_manager_new public_schema_get) (attribute_name_from ''creationdate'')
     public_schema_get = UfNoMatch
   \<and> map_user_field (schema_manager_new public_schema_get) (attribute_name_from ''createTimestamp'')
     public_schema_get = UfPrimaryField ColCreationDate"
proof -
  let ?n = "\<lambda>s. to_ascii_lowercase (attr_str (attribute_name_from s))"
  have "last_registration public_schema_get (?n ''displayname'') = None"
    "last_registration public_schema_get (?n ''cn'') = Some (LPrimary ColDisplayName, ''cn'')"
    "last_registration public_schema_get (?n ''creationdate'') = Some (LOperational, ''createTimestamp'')"
    "last_registration public_schema_get (?n ''createTimestamp'') = Some (LPrimary ColCreationDate, ''createTimestamp'')"
    unfolding last_registration_def registrations_public
    by (simp_all add: attribute_name_from_def case_insensitive_string_def)
  moreover have "get_attribute_type_of (user_attributes public_schema_get) (attr_str (attribute_name_from ''displayname''))
      = Some (TString, False)" "\<not> is_uuid_field (attribute_name_from ''creationdate'')"
    by code_simp+
  ultimately show ?thesis
    by (simp add: map_user_field_def resolve_attribute_def schema_manager_new_last)
qed

section \<open>Expansion\<close>

abbreviation key_names :: "string list \<Rightarrow> attribute_name set" where
  "key_names ks \<equiv> attribute_name_from ` set ks"

lemma attribute_name_from_eq:
  "attribute_name_from a = attribute_name_from b \<longleftrightarrow> eq_ignore_ascii_case a b"
  by (simp add: attribute_name_from_def case_insensitive_string_def eq_ignore_ascii_case_def)

lemma attr_str_from [simp]: "attr_str (attribute_name_from s) = to_ascii_lowercase s"
  by (simp add: attribute_name_from_def case_insensitive_string_def)

lemma key_names_push [simp]: "key_names (push_key k ks) = insert (attribute_name_from k) (key_names ks)"
proof (cases "list_ex (\<lambda>x. eq_ignore_ascii_case x k) ks")
  case True
  then have "attribute_name_from k \<in> key_names ks"
    by (auto simp: list_ex_iff image_iff attribute_name_from_eq dest: eq_ic_sym)
  with True show ?thesis by (auto simp: push_key_def)
qed (auto simp: push_key_def)

lemma key_names_retain_unseen:
  "key_names (retain_unseen seen ks) \<union> AttributeName ` set seen = key_names ks \<union> AttributeName ` set seen"
proof (induction seen ks rule: retain_unseen.induct)
  case (2 seen k ks)
  have "attribute_name_from k = AttributeName (to_ascii_lowercase k)"
    by (simp add: attribute_name_from_def case_insensitive_string_def)
  with 2 show ?case by (auto simp: image_iff)
qed simp

lemma key_names_retain [simp]: "key_names (retain_unseen [] ks) = key_names ks"
  using key_names_retain_unseen [of "[]" ks] by simp

lemma retain_subset: "set (retain_unseen seen ks) \<subseteq> set ks"
  by (induction seen ks rule: retain_unseen.induct) auto

lemma insert_keys_keys: "fst ` set (insert_keys ks out) = key_names ks \<union> fst ` set out"
  unfolding insert_keys_def
  by (induction ks arbitrary: out) (auto simp: keys_btree_insert)

lemma insert_keys_sorted:
  assumes "sorted (map fst out)" "distinct (map fst out)"
  shows "sorted (map fst (insert_keys ks out)) \<and> distinct (map fst (insert_keys ks out))"
  using assms unfolding insert_keys_def
proof (induction ks arbitrary: out)
  case (Cons k ks)
  then show ?case using btree_insert_sorted [OF Cons.prems] by simp
qed simp

text \<open>The attributes of the schema that \<open>*\<close> stands for.\<close>

definition is_standard :: "attribute_map \<Rightarrow> string \<Rightarrow> bool" where
  "is_standard m name \<longleftrightarrow> \<not> is_operational m name \<and> to_ascii_lowercase name \<notin> set always_operational"

definition standard_names :: "attribute_map \<Rightarrow> public_schema \<Rightarrow> attribute_name set" where
  "standard_names m sch = insert (attribute_name_from ''objectClass'')
     (attribute_name_from `
        {n \<in> get_preferred_ldap_name ` set (user_attributes sch @ group_attributes sch). is_standard m n})"

lemma classify_key_names:
  "key_names (fst (classify_key m ks a)) \<union> {attribute_name_from k | k. \<not> is_standard m k} =
   (if is_standard m (get_preferred_ldap_name a) then {attribute_name_from (get_preferred_ldap_name a)} else {})
     \<union> key_names (fst ks) \<union> {attribute_name_from k | k. \<not> is_standard m k}"
  by (cases ks)
    (auto simp: classify_key_def is_standard_def is_operational_def Let_def
      split: option.splits prod.splits logical_attr.splits)

lemma is_standard_ci:
  "attribute_name_from a = attribute_name_from b \<Longrightarrow> is_standard m a = is_standard m b"
  by (simp add: is_standard_def is_operational_def attribute_name_from_eq resolve_attribute_ci
      eq_ignore_ascii_case_def resolve_attribute_def)

lemma classify_fold_names:
  "key_names (fst (foldl (classify_key m) ks as)) \<union> {attribute_name_from k | k. \<not> is_standard m k} =
   attribute_name_from ` {n \<in> get_preferred_ldap_name ` set as. is_standard m n}
     \<union> key_names (fst ks) \<union> {attribute_name_from k | k. \<not> is_standard m k}"
proof (induction as arbitrary: ks)
  case (Cons a as)
  have "key_names (fst (foldl (classify_key m) ks (a # as))) \<union> {attribute_name_from k | k. \<not> is_standard m k}
      = attribute_name_from ` {n \<in> get_preferred_ldap_name ` set as. is_standard m n}
        \<union> (key_names (fst (classify_key m ks a)) \<union> {attribute_name_from k | k. \<not> is_standard m k})"
    using Cons by (simp add: Un_assoc)
  also have "\<dots> = attribute_name_from ` {n \<in> get_preferred_ldap_name ` set (a # as). is_standard m n}
     \<union> key_names (fst ks) \<union> {attribute_name_from k | k. \<not> is_standard m k}"
    unfolding classify_key_names by auto
  finally show ?case .
qed auto

lemma classify_not_operational:
  assumes "\<forall>k \<in> set (fst ks). \<not> is_operational m k"
  shows "\<forall>k \<in> set (fst (foldl (classify_key m) ks as)). \<not> is_operational m k"
  using assms
proof (induction as arbitrary: ks)
  case (Cons a as)
  have "\<forall>k \<in> set (fst (classify_key m ks a)). \<not> is_operational m k"
    using Cons.prems
    by (cases ks) (auto simp: classify_key_def is_operational_def push_key_def Let_def
        split: option.splits prod.splits logical_attr.splits if_splits)
  then show ?case using Cons.IH by simp
qed simp

lemma key_names_disjoint:
  "attribute_name_from ` {k \<in> A. is_standard m k} \<inter> {attribute_name_from k | k. \<not> is_standard m k} = {}"
proof (rule equals0I, elim IntE imageE CollectE exE conjE)
  fix x k k'
  assume "x = attribute_name_from k" "is_standard m k" "x = attribute_name_from k'" "\<not> is_standard m k'"
  then show False using is_standard_ci [of k k' m] by simp
qed

lemma Un_disjoint_cancel: "A \<union> N = B \<union> N \<Longrightarrow> A \<inter> N = {} \<Longrightarrow> B \<inter> N = {} \<Longrightarrow> A = B"
  by blast

lemma standard_keys_names: "key_names (fst (wildcard_keys m sch)) = standard_names m sch"
proof -
  define as where "as = user_attributes sch @ group_attributes sch"
  define std where "std = fst (foldl (classify_key m) ([], []) as)"
  let ?non = "{attribute_name_from k | k. \<not> is_standard m k}"
  let ?std = "attribute_name_from ` {n \<in> get_preferred_ldap_name ` set as. is_standard m n}"
  have "\<forall>k \<in> set std. \<not> is_operational m k"
    unfolding std_def by (rule classify_not_operational) simp
  then have "key_names (filter (\<lambda>k. to_ascii_lowercase k \<notin> set always_operational) std)
      = attribute_name_from ` {k \<in> set std. is_standard m k}"
    by (auto simp: is_standard_def)
  also have "\<dots> = ?std"
  proof -
    have "key_names std \<union> ?non = ?std \<union> ?non"
      using classify_fold_names [of m "([], [])" as] by (simp add: std_def)
    moreover have "key_names std \<union> ?non = attribute_name_from ` {k \<in> set std. is_standard m k} \<union> ?non"
      by auto
    ultimately have "attribute_name_from ` {k \<in> set std. is_standard m k} \<union> ?non = ?std \<union> ?non"
      by simp
    then show ?thesis
      by (rule Un_disjoint_cancel) (rule key_names_disjoint)+
  qed
  finally show ?thesis
    by (simp add: wildcard_keys_def standard_names_def as_def std_def Let_def case_prod_unfold
        del: foldl_append set_append)
qed

lemma operational_keys_names:
  assumes "n \<in> set always_operational" "n \<notin> set ignore_on_plus" "to_ascii_lowercase n = n"
  shows "attribute_name_from n \<in> key_names (snd (wildcard_keys m sch))"
proof -
  obtain std op where fold: "foldl (classify_key m) ([], []) (user_attributes sch @ group_attributes sch) = (std, op)"
    by fastforce
  have push: "key_names (foldl (\<lambda>ks name. push_key name ks) op names) = key_names op \<union> key_names names" for names
    by (induction names arbitrary: op) auto
  let ?ks = "retain_unseen [] (foldl (\<lambda>ks name. push_key name ks) op always_operational)"
  have "attribute_name_from n \<in> key_names ?ks" using assms(1) by (simp add: push)
  then obtain k where k: "k \<in> set ?ks" "eq_ignore_ascii_case n k"
    by (metis imageE attribute_name_from_eq)
  have "\<forall>i \<in> set ignore_on_plus. to_ascii_lowercase i = i" by (simp add: ignore_on_plus_def)
  then have "k \<notin> set ignore_on_plus"
    using k(2) assms(2,3) by (metis eq_ignore_ascii_case_def)
  with k show ?thesis
    by (auto simp: wildcard_keys_def fold Let_def attribute_name_from_eq image_iff simp del: foldl_append)
qed

lemma expand_keys:
  "fst ` set (attribute_keys (expand_attribute_wildcards m l sch)) =
     key_names (explicit_keys m l)
     \<union> (if ''*'' \<in> set l \<or> l = [] \<or> ''+'' \<in> set l then standard_names m sch else {})
     \<union> (if ''+'' \<in> set l then key_names (snd (wildcard_keys m sch)) else {})"
proof -
  obtain std op where w: "wildcard_keys m sch = (std, op)" by fastforce
  then have "key_names std = standard_names m sch" using standard_keys_names [of m sch] by simp
  with w show ?thesis
    by (auto simp: expand_attribute_wildcards_def insert_keys_keys Let_def)
qed

lemma expand_keys_sorted:
  "sorted (map fst (attribute_keys (expand_attribute_wildcards m l sch)))
   \<and> distinct (map fst (attribute_keys (expand_attribute_wildcards m l sch)))"
  by (auto simp: expand_attribute_wildcards_def Let_def insert_keys_sorted split: prod.splits)

text \<open>The attribute list of a search request is expanded exactly. Without \<open>+\<close> the keys
  are the requested names (resolved, without the ignored ones) and, when the list is empty or
  has \<open>*\<close>, the preferred names of the non-operational schema attributes and \<open>objectClass\<close>;
  with \<open>+\<close> every operational name that is not on the ignore list is there too.\<close>

theorem expand_attribute_wildcards_exact:
  "(''+'' \<in> set l \<or>
    fst ` set (attribute_keys (expand_attribute_wildcards m l sch)) =
      attribute_name_from ` set (explicit_keys m l)
      \<union> (if ''*'' \<in> set l \<or> l = [] then standard_names m sch else {}))
   \<and> (''+'' \<notin> set l \<or>
      attribute_name_from ` (set always_operational - set ignore_on_plus) \<union> standard_names m sch
      \<subseteq> fst ` set (attribute_keys (expand_attribute_wildcards m l sch)))"
proof -
  have "\<forall>n \<in> set always_operational. to_ascii_lowercase n = n" by (simp add: always_operational_def)
  then show ?thesis
    using operational_keys_names [of _ m sch] by (auto simp: expand_keys)
qed

text \<open>An operational attribute reaches the result of a request without \<open>+\<close> only by name:
  whatever the schema, a key that is operational was requested explicitly.\<close>

theorem no_operational_leak:
  assumes "''+'' \<notin> set l"
    and "k \<in> fst ` set (attribute_keys (expand_attribute_wildcards m l sch))"
    and "attr_str k \<in> set always_operational"
  shows "k \<in> attribute_name_from ` set (explicit_keys m l)"
proof -
  have "attr_str (attribute_name_from ''objectClass'') \<notin> set always_operational"
    by (simp add: always_operational_def)
  then have "k \<notin> standard_names m sch"
    using assms(3) by (auto simp: standard_names_def is_standard_def)
  with assms(1,2) show ?thesis by (auto simp: expand_keys split: if_splits)
qed

lemma no_operational_leak_witness:
  "attribute_name_from ''entryDN'' \<in> attribute_name_from ` set (explicit_keys Map.empty [''cn'', ''entryDN''])"
  by (rule no_operational_leak [where sch = public_schema_get])
    (simp_all add: expand_keys explicit_keys_def get_canonical_name_def resolve_attribute_def
      ignore_on_plus_def always_operational_def Let_def)

end
