(* ===== verification/Filters.thy ===== *)
theory Filters
  imports Dn Schema_Manager
begin

text \<open>
  Conversion of LDAP filters into backend filters (\<open>ldap/src/search/filters.rs\<close>): the whole
  of \<open>convert_user_filter\<close> and \<open>convert_group_filter\<close>, every field class and error included.
  The theorems say that the conversion is compositional, that the flattening of conjunctions
  and disjunctions keeps the meaning, and that a filter is refused exactly when one of its
  leaves is.
\<close>

definition get_schema_manager :: attribute_map where
  "get_schema_manager = schema_manager_new public_schema_get"

definition sub_string_filter_from :: "ldap_substring_filter \<Rightarrow> sub_string_filter" where
  "sub_string_filter_from f = \<lparr>ss_initial = lsf_initial f, ss_any = lsf_any f, ss_final = lsf_final f\<rparr>"

text \<open>The iterator chain that the \<open>And\<close> and \<open>Or\<close> arms of both conversions share: drop the
  neutral element, splice a child of the same kind, collect, and unwrap a singleton.\<close>

definition combine ::
  "'f \<Rightarrow> ('f \<Rightarrow> 'f list option) \<Rightarrow> ('f list \<Rightarrow> 'f) \<Rightarrow> 'f lresult list \<Rightarrow> 'f lresult" where
  "combine neutral unnest build rs =
     rbind (collect_results (concat (map
       (\<lambda>r. case r of
              Inr f \<Rightarrow> (case unnest f of Some v \<Rightarrow> map Inr v | None \<Rightarrow> [r])
            | Inl e \<Rightarrow> [r])
       (filter (\<lambda>c. c \<noteq> Inr neutral) rs))))
     (\<lambda>res. Inr (case res of [] \<Rightarrow> neutral | [f] \<Rightarrow> f | _ \<Rightarrow> build res))"

section \<open>User filters\<close>

definition get_user_attribute_equality_filter ::
  "libs \<Rightarrow> attribute_name \<Rightarrow> attribute_type \<Rightarrow> bool \<Rightarrow> string \<Rightarrow> user_request_filter" where
  "get_user_attribute_equality_filter L field typ is_list val =
     (case (deserialize_attribute_value L [val] typ is_list,
            deserialize_attribute_value L [to_ascii_lowercase val] typ is_list) of
        (Inr v, Inr v_lc) \<Rightarrow> UOr [UAttributeEquality field v, UAttributeEquality field v_lc]
      | (Inr _, Inl _) \<Rightarrow> UFalse
      | (Inl _, _) \<Rightarrow> UFalse)"

definition convert_user_objectclass :: "string \<Rightarrow> public_schema \<Rightarrow> user_request_filter" where
  "convert_user_objectclass val sch =
     (let v = to_ascii_lowercase val;
          standard_user_classes = [''top'', ''person'', ''inetorgperson'', ''posixaccount'', ''ldappublickey''];
          extra_classes = map to_ascii_lowercase (extra_user_object_classes sch)
      in if v \<in> set standard_user_classes \<or> v \<in> set extra_classes then UTrue else UFalse)"

definition convert_user_equality ::
  "libs \<Rightarrow> ldap_info \<Rightarrow> string \<Rightarrow> string \<Rightarrow> public_schema \<Rightarrow> user_request_filter lresult" where
  "convert_user_equality L info fieldname val sch =
     (let field = attribute_name_from fieldname;
          value_lc = to_ascii_lowercase val;
          fname = attr_str field in
      if eq_ignore_ascii_case fname ''logindisabled'' then
        (if value_lc = ''true'' \<or> value_lc = ''1'' \<or> value_lc = ''yes''
         then Inr (UMemberOf (GroupName ''lldap_disabled'')) else Inr UFalse)
      else if eq_ignore_ascii_case fname ''sudohost'' then
        (if value_lc = ''*'' \<or> value_lc = ''all'' \<or> value_lc = ''true'' \<or> value_lc = ''1''
         then Inr (UMemberOf (GroupName ''lldap_sudohost'')) else Inr UFalse)
      else (case map_user_field get_schema_manager field sch of
        UfPrimaryField ColUserId \<Rightarrow> Inr (UUserId (user_id_from value_lc))
      | UfPrimaryField ColEmail \<Rightarrow> Inr (UEquality ColLowercaseEmail value_lc)
      | UfPrimaryField col \<Rightarrow> Inr (UEquality col value_lc)
      | UfAttribute f typ is_list \<Rightarrow> Inr (get_user_attribute_equality_filter L f typ is_list val)
      | UfNoMatch \<Rightarrow> Inr UFalse
      | UfObjectClass \<Rightarrow> Inr (UAnd [])
      | UfMemberOf \<Rightarrow>
          Inr (unwrap_or_else (\<lambda>_. UFalse)
            (rmap UMemberOf (get_group_id_from_distinguished_name_or_plain_name value_lc
               (li_base_dn info) (li_base_dn_str info))))
      | UfEntryDn \<Rightarrow>
          Inr (unwrap_or_else (\<lambda>_. UFalse)
            (rmap UUserId (get_user_id_from_distinguished_name_or_plain_name value_lc
               (li_base_dn info) (li_base_dn_str info))))
      | UfDn \<Rightarrow>
          Inr (unwrap_or_else (\<lambda>_. UFalse)
            (rmap UUserId (get_user_id_from_distinguished_name_or_plain_name value_lc
               (li_base_dn info) (li_base_dn_str info))))
      | UfEntryUuid \<Rightarrow>
          (case lib_parse_uuid L val of
             Some _ \<Rightarrow> Inr (UEquality ColUuid val)
           | None \<Rightarrow> Inl (lerr OtherCode (Rendered ''Invalid UUID in filter: '')))))"

definition convert_user_greater_or_equal ::
  "string \<Rightarrow> string \<Rightarrow> public_schema \<Rightarrow> user_request_filter lresult" where
  "convert_user_greater_or_equal fieldname val sch =
     (let field = attribute_name_from fieldname;
          refused = Inl (lerr UnwillingToPerform
            (Text (''GreaterOrEqual not supported on this attribute: '' @ attr_str field))) in
      (case map_user_field get_schema_manager field sch of
         UfPrimaryField f \<Rightarrow>
           if f \<in> {ColCreationDate, ColModifiedDate, ColPasswordModifiedDate}
           then Inr (UGreaterOrEqual f val) else refused
       | UfAttribute name TDateTime _ \<Rightarrow> Inr (UAttributeGreaterOrEqual name val)
       | _ \<Rightarrow> refused))"

definition convert_user_less_or_equal ::
  "string \<Rightarrow> string \<Rightarrow> public_schema \<Rightarrow> user_request_filter lresult" where
  "convert_user_less_or_equal fieldname val sch =
     (let field = attribute_name_from fieldname;
          refused = Inl (lerr UnwillingToPerform
            (Text (''LessOrEqual not supported on this attribute: '' @ attr_str field))) in
      (case map_user_field get_schema_manager field sch of
         UfPrimaryField f \<Rightarrow>
           if f \<in> {ColCreationDate, ColModifiedDate, ColPasswordModifiedDate}
           then Inr (ULessOrEqual f val) else refused
       | UfAttribute name TDateTime _ \<Rightarrow> Inr (UAttributeLessOrEqual name val)
       | _ \<Rightarrow> refused))"

definition convert_user_present :: "string \<Rightarrow> public_schema \<Rightarrow> user_request_filter" where
  "convert_user_present fieldname sch =
     (let field = attribute_name_from fieldname; fname = attr_str field in
      if eq_ignore_ascii_case fname ''logindisabled'' then UMemberOf (GroupName ''lldap_disabled'')
      else if eq_ignore_ascii_case fname ''sudohost'' then UMemberOf (GroupName ''lldap_sudohost'')
      else (case map_user_field get_schema_manager field sch of
        UfAttribute name _ _ \<Rightarrow> UCustomAttributePresent name
      | UfNoMatch \<Rightarrow> UFalse
      | _ \<Rightarrow> UTrue))"

definition convert_user_substring ::
  "string \<Rightarrow> ldap_substring_filter \<Rightarrow> public_schema \<Rightarrow> user_request_filter lresult" where
  "convert_user_substring fieldname substring_filter sch =
     (let field = attribute_name_from fieldname;
          sf = sub_string_filter_from substring_filter;
          refused = Inl (lerr UnwillingToPerform
            (Rendered ''Unsupported user attribute for substring filter: '')) in
      (case map_user_field get_schema_manager field sch of
         UfPrimaryField ColUserId \<Rightarrow> Inr (UUserIdSubString sf)
       | UfAttribute name TString _ \<Rightarrow> Inr (UAttributeSubString name sf)
       | UfAttribute _ _ _ \<Rightarrow> refused
       | UfObjectClass \<Rightarrow> refused
       | UfMemberOf \<Rightarrow> refused
       | UfDn \<Rightarrow> refused
       | UfEntryDn \<Rightarrow> refused
       | UfEntryUuid \<Rightarrow> refused
       | UfPrimaryField ColCreationDate \<Rightarrow> refused
       | UfPrimaryField ColUuid \<Rightarrow> refused
       | UfNoMatch \<Rightarrow> Inr UFalse
       | UfPrimaryField ColEmail \<Rightarrow> Inr (USubString ColLowercaseEmail sf)
       | UfPrimaryField col \<Rightarrow> Inr (USubString col sf)))"

definition combine_user_and ::
  "user_request_filter lresult list \<Rightarrow> user_request_filter lresult" where
  "combine_user_and rs = combine UTrue (\<lambda>f. case f of UAnd v \<Rightarrow> Some v | _ \<Rightarrow> None) UAnd rs"

definition combine_user_or ::
  "user_request_filter lresult list \<Rightarrow> user_request_filter lresult" where
  "combine_user_or rs = combine UFalse (\<lambda>f. case f of UOr v \<Rightarrow> Some v | _ \<Rightarrow> None) UOr rs"

definition negate_user_filter :: "user_request_filter \<Rightarrow> user_request_filter" where
  "negate_user_filter f = (case f of UTrue \<Rightarrow> UFalse | UFalse \<Rightarrow> UTrue | f \<Rightarrow> UNot f)"

fun convert_user_filter ::
  "libs \<Rightarrow> ldap_info \<Rightarrow> ldap_filter \<Rightarrow> public_schema \<Rightarrow> user_request_filter lresult" where
  "convert_user_filter L info (FEquality field val) sch =
     (if eq_ignore_ascii_case field ''objectclass'' then Inr (convert_user_objectclass val sch)
      else convert_user_equality L info field val sch)"
| "convert_user_filter L info (FAnd filters) sch =
     combine_user_and (map (\<lambda>f. convert_user_filter L info f sch) filters)"
| "convert_user_filter L info (FOr filters) sch =
     combine_user_or (map (\<lambda>f. convert_user_filter L info f sch) filters)"
| "convert_user_filter L info (FNot f) sch =
     rmap negate_user_filter (convert_user_filter L info f sch)"
| "convert_user_filter L info (FGreaterOrEqual field val) sch = convert_user_greater_or_equal field val sch"
| "convert_user_filter L info (FLessOrEqual field val) sch = convert_user_less_or_equal field val sch"
| "convert_user_filter L info (FPresent field) sch = Inr (convert_user_present field sch)"
| "convert_user_filter L info (FSubstring field sf) sch = convert_user_substring field sf sch"
| "convert_user_filter L info FUnsupported sch =
     Inl (lerr UnwillingToPerform (Rendered ''Unsupported user filter: ''))"

section \<open>Group filters\<close>

definition get_group_attribute_equality_filter ::
  "libs \<Rightarrow> attribute_name \<Rightarrow> attribute_type \<Rightarrow> bool \<Rightarrow> string \<Rightarrow> group_request_filter" where
  "get_group_attribute_equality_filter L field typ is_list val =
     (case (deserialize_attribute_value L [val] typ is_list,
            deserialize_attribute_value L [to_ascii_lowercase val] typ is_list) of
        (Inr v, Inr v_lc) \<Rightarrow> GOr [GAttributeEquality field v, GAttributeEquality field v_lc]
      | (Inr _, Inl _) \<Rightarrow> GFalse
      | (Inl _, _) \<Rightarrow> GFalse)"

definition convert_group_objectclass :: "string \<Rightarrow> public_schema \<Rightarrow> group_request_filter" where
  "convert_group_objectclass val sch =
     (let v = to_ascii_lowercase val;
          standard_group_classes = [''groupofuniquenames'', ''groupofnames'', ''posixgroup''];
          extra_classes = map to_ascii_lowercase (extra_group_object_classes sch)
      in if v \<in> set standard_group_classes \<or> v \<in> set extra_classes then GTrue else GFalse)"

definition convert_group_equality ::
  "libs \<Rightarrow> ldap_info \<Rightarrow> string \<Rightarrow> string \<Rightarrow> public_schema \<Rightarrow> group_request_filter lresult" where
  "convert_group_equality L info fieldname val sch =
     (let field = attribute_name_from fieldname;
          value_lc = to_ascii_lowercase val;
          member = Inr (unwrap_or_else (\<lambda>_. GFalse)
            (rmap GMember (get_user_id_from_distinguished_name_or_plain_name value_lc
               (li_base_dn info) (li_base_dn_str info))));
          named = Inr (unwrap_or_else (\<lambda>_. GFalse)
            (rmap GDisplayName (get_group_id_from_distinguished_name_or_plain_name value_lc
               (li_base_dn info) (li_base_dn_str info)))) in
      (case map_group_field get_schema_manager field sch of
         GfGroupId \<Rightarrow> Inr (unwrap_or GFalse (map_option GGroupId (parse_i32 value_lc)))
       | GfDisplayName \<Rightarrow> Inr (GDisplayName (GroupName value_lc))
       | GfUuid \<Rightarrow>
           rmap GUuid (ok_or (lerr OtherCode (Rendered ''Invalid UUID: '')) (lib_parse_uuid L value_lc))
       | GfMember \<Rightarrow> member
       | GfUniqueMember \<Rightarrow> member
       | GfMemberOf \<Rightarrow> member
       | GfObjectClass \<Rightarrow> Inr (GAnd [])
       | GfDn \<Rightarrow> named
       | GfEntryDn \<Rightarrow> named
       | GfEntryUuid \<Rightarrow>
           rmap GUuid (ok_or (lerr OtherCode (Rendered ''Invalid UUID in filter: '')) (lib_parse_uuid L val))
       | GfNoMatch \<Rightarrow> Inr GFalse
       | GfAttribute f typ is_list \<Rightarrow> Inr (get_group_attribute_equality_filter L f typ is_list val)
       | GfCreationDate \<Rightarrow>
           Inl (lerr UnwillingToPerform (Text ''Creation date filter for groups not supported''))
       | GfModifiedDate \<Rightarrow>
           Inl (lerr UnwillingToPerform (Text ''Modified date filter for groups not supported''))))"

definition convert_group_greater_or_equal ::
  "string \<Rightarrow> string \<Rightarrow> public_schema \<Rightarrow> group_request_filter lresult" where
  "convert_group_greater_or_equal fieldname val sch =
     (let field = attribute_name_from fieldname;
          canonical = unwrap_or (attr_str field) (resolve_group_canonical_name sch (attr_str field)) in
      (case map_group_field get_schema_manager field sch of
         GfCreationDate \<Rightarrow> Inr (GGreaterOrEqual canonical val)
       | GfModifiedDate \<Rightarrow> Inr (GGreaterOrEqual canonical val)
       | GfAttribute name TDateTime _ \<Rightarrow> Inr (GAttributeGreaterOrEqual name val)
       | _ \<Rightarrow> Inl (lerr UnwillingToPerform
           (Text (''GreaterOrEqual is only supported on timestamp attributes for groups (got: ''
                  @ attr_str field @ '')'')))))"

definition convert_group_less_or_equal ::
  "string \<Rightarrow> string \<Rightarrow> public_schema \<Rightarrow> group_request_filter lresult" where
  "convert_group_less_or_equal fieldname val sch =
     (let field = attribute_name_from fieldname;
          canonical = unwrap_or (attr_str field) (resolve_group_canonical_name sch (attr_str field)) in
      (case map_group_field get_schema_manager field sch of
         GfCreationDate \<Rightarrow> Inr (GLessOrEqual canonical val)
       | GfModifiedDate \<Rightarrow> Inr (GLessOrEqual canonical val)
       | GfAttribute name TDateTime _ \<Rightarrow> Inr (GAttributeLessOrEqual name val)
       | _ \<Rightarrow> Inl (lerr UnwillingToPerform
           (Text (''LessOrEqual is only supported on timestamp attributes for groups (got: ''
                  @ attr_str field @ '')'')))))"

definition convert_group_present :: "string \<Rightarrow> public_schema \<Rightarrow> group_request_filter" where
  "convert_group_present fieldname sch =
     (case map_group_field get_schema_manager (attribute_name_from fieldname) sch of
        GfAttribute name _ _ \<Rightarrow> GCustomAttributePresent name
      | GfNoMatch \<Rightarrow> GFalse
      | _ \<Rightarrow> GTrue)"

definition convert_group_substring ::
  "string \<Rightarrow> ldap_substring_filter \<Rightarrow> public_schema \<Rightarrow> group_request_filter lresult" where
  "convert_group_substring fieldname substring_filter sch =
     (let field = attribute_name_from fieldname;
          sf = sub_string_filter_from substring_filter in
      (case map_group_field get_schema_manager field sch of
         GfDisplayName \<Rightarrow> Inr (GDisplayNameSubString sf)
       | GfAttribute name TString _ \<Rightarrow> Inr (GAttributeSubString name sf)
       | GfNoMatch \<Rightarrow> Inr GFalse
       | _ \<Rightarrow> Inl (lerr UnwillingToPerform
           (Text (''Unsupported group attribute for substring filter: '' @ quoted (attr_str field))))))"

definition combine_group_and ::
  "group_request_filter lresult list \<Rightarrow> group_request_filter lresult" where
  "combine_group_and rs = combine GTrue (\<lambda>f. case f of GAnd v \<Rightarrow> Some v | _ \<Rightarrow> None) GAnd rs"

definition combine_group_or ::
  "group_request_filter lresult list \<Rightarrow> group_request_filter lresult" where
  "combine_group_or rs = combine GFalse (\<lambda>f. case f of GOr v \<Rightarrow> Some v | _ \<Rightarrow> None) GOr rs"

definition negate_group_filter :: "group_request_filter \<Rightarrow> group_request_filter" where
  "negate_group_filter f = (case f of GTrue \<Rightarrow> GFalse | GFalse \<Rightarrow> GTrue | f \<Rightarrow> GNot f)"

fun convert_group_filter ::
  "libs \<Rightarrow> ldap_info \<Rightarrow> ldap_filter \<Rightarrow> public_schema \<Rightarrow> group_request_filter lresult" where
  "convert_group_filter L info (FEquality field val) sch =
     (if eq_ignore_ascii_case field ''objectclass'' then Inr (convert_group_objectclass val sch)
      else convert_group_equality L info field val sch)"
| "convert_group_filter L info (FGreaterOrEqual field val) sch = convert_group_greater_or_equal field val sch"
| "convert_group_filter L info (FLessOrEqual field val) sch = convert_group_less_or_equal field val sch"
| "convert_group_filter L info (FAnd filters) sch =
     combine_group_and (map (\<lambda>f. convert_group_filter L info f sch) filters)"
| "convert_group_filter L info (FOr filters) sch =
     combine_group_or (map (\<lambda>f. convert_group_filter L info f sch) filters)"
| "convert_group_filter L info (FNot f) sch =
     rmap negate_group_filter (convert_group_filter L info f sch)"
| "convert_group_filter L info (FPresent field) sch = Inr (convert_group_present field sch)"
| "convert_group_filter L info (FSubstring field sf) sch = convert_group_substring field sf sch"
| "convert_group_filter L info FUnsupported sch =
     Inl (lerr UnwillingToPerform (Rendered ''Unsupported group filter: ''))"

section \<open>The meaning of a converted filter\<close>

lemma combine_error: "(\<exists>e. combine n sp b rs = Inl e) \<longleftrightarrow> (\<exists>e. Inl e \<in> set rs)"
proof -
  let ?g = "\<lambda>r. case r of Inr f \<Rightarrow> (case sp f of Some v \<Rightarrow> map Inr v | None \<Rightarrow> [r]) | Inl e \<Rightarrow> [r]"
  let ?rs = "concat (map ?g (filter (\<lambda>c. c \<noteq> Inr n) rs))"
  have "(\<exists>e. combine n sp b rs = Inl e) \<longleftrightarrow> (\<exists>e. collect_results ?rs = Inl e)"
    unfolding combine_def by (simp add: rbind_eq_Inl)
  also have "\<dots> \<longleftrightarrow> (\<exists>e. Inl e \<in> set ?rs)" by (rule collect_results_error)
  also have "\<dots> \<longleftrightarrow> (\<exists>e. Inl e \<in> set rs)"
  proof -
    have "Inl e \<in> set (?g r) \<longleftrightarrow> r = Inl e" for e :: ldap_error and r
      by (auto split: sum.splits option.splits)
    then show ?thesis by auto
  qed
  finally show ?thesis .
qed

lemma collect_splice:
  "concat (map (\<lambda>r. case r of Inr f \<Rightarrow> (case sp f of Some v \<Rightarrow> map Inr v | None \<Rightarrow> [r]) | Inl e \<Rightarrow> [r])
     (filter (\<lambda>c. c \<noteq> Inr n) (map Inr gs))) =
   map Inr (concat (map (\<lambda>f. case sp f of Some v \<Rightarrow> v | None \<Rightarrow> [f]) (filter (\<lambda>f. f \<noteq> n) gs)))"
  by (induction gs) (auto split: option.splits)

lemma combine_all:
  assumes "combine n sp b (map Inr gs) = Inr g" and "H n" and "\<And>v. H (b v) = list_all H v"
    and "\<And>f v. sp f = Some v \<Longrightarrow> f = b v"
  shows "H g = list_all H gs"
proof -
  define l where "l = concat (map (\<lambda>f. case sp f of Some v \<Rightarrow> v | None \<Rightarrow> [f]) (filter (\<lambda>f. f \<noteq> n) gs))"
  have g: "g = (case l of [] \<Rightarrow> n | [f] \<Rightarrow> f | _ \<Rightarrow> b l)"
    using assms(1) unfolding combine_def collect_splice l_def [symmetric] by simp
  have "list_all H l = list_all H gs"
    unfolding l_def using assms(2-4) by (induction gs) (auto split: option.splits)
  moreover have "H g = list_all H l"
  proof (cases l)
    case Nil
    with assms(2) show ?thesis unfolding g by simp
  next
    case (Cons x xs)
    then show ?thesis unfolding g using assms(3) [of l] by (cases xs) simp_all
  qed
  ultimately show ?thesis by simp
qed

text \<open>Boolean reading of an LDAP filter over a meaning of its leaves, and the leaves.\<close>

fun ldap_filter_holds :: "(ldap_filter \<Rightarrow> bool) \<Rightarrow> ldap_filter \<Rightarrow> bool" where
  "ldap_filter_holds A (FAnd fs) = list_all (ldap_filter_holds A) fs"
| "ldap_filter_holds A (FOr fs) = list_ex (ldap_filter_holds A) fs"
| "ldap_filter_holds A (FNot f) = (\<not> ldap_filter_holds A f)"
| "ldap_filter_holds A f = A f"

fun leaves :: "ldap_filter \<Rightarrow> ldap_filter list" where
  "leaves (FAnd fs) = concat (map leaves fs)"
| "leaves (FOr fs) = concat (map leaves fs)"
| "leaves (FNot f) = leaves f"
| "leaves f = [f]"

text \<open>What a conversion into backend filters promises at each connective: it converts the
  children, fails when one of them fails, and builds a filter of the same meaning.\<close>

locale filter_conversion =
  fixes convert :: "ldap_filter \<Rightarrow> 'f lresult"
    and holds :: "('f \<Rightarrow> bool) \<Rightarrow> 'f \<Rightarrow> bool"
  assumes and_error: "(\<exists>e. convert (FAnd fs) = Inl e) \<longleftrightarrow> (\<exists>f \<in> set fs. \<exists>e. convert f = Inl e)"
    and or_error: "(\<exists>e. convert (FOr fs) = Inl e) \<longleftrightarrow> (\<exists>f \<in> set fs. \<exists>e. convert f = Inl e)"
    and not_error: "(\<exists>e. convert (FNot h) = Inl e) \<longleftrightarrow> (\<exists>e. convert h = Inl e)"
    and and_holds: "map convert fs = map Inr gs \<Longrightarrow> convert (FAnd fs) = Inr g \<Longrightarrow>
      holds V g = list_all (holds V) gs"
    and or_holds: "map convert fs = map Inr gs \<Longrightarrow> convert (FOr fs) = Inr g \<Longrightarrow>
      holds V g = list_ex (holds V) gs"
    and not_holds: "convert h = Inr g' \<Longrightarrow> convert (FNot h) = Inr g \<Longrightarrow> holds V g = (\<not> holds V g')"
begin

definition leaf_holds :: "('f \<Rightarrow> bool) \<Rightarrow> ldap_filter \<Rightarrow> bool" where
  "leaf_holds V f = (case convert f of Inr g \<Rightarrow> holds V g | Inl _ \<Rightarrow> False)"

lemma convert_error: "(\<exists>e. convert f = Inl e) \<longleftrightarrow> (\<exists>a \<in> set (leaves f). \<exists>e. convert a = Inl e)"
  by (induction f rule: leaves.induct) (simp_all add: and_error or_error not_error)

lemma children_ok:
  assumes "\<not> (\<exists>f \<in> set fs. \<exists>e. convert f = Inl e)"
  obtains gs where "map convert fs = map Inr gs"
proof -
  have "\<exists>gs. map convert fs = map Inr gs"
    using assms
  proof (induction fs)
    case (Cons f fs)
    then obtain gs where "map convert fs = map Inr gs" by auto
    moreover obtain g where "convert f = Inr g" using Cons.prems by (cases "convert f") auto
    ultimately have "map convert (f # fs) = map Inr (g # gs)" by simp
    then show ?case by blast
  qed simp
  then show thesis using that by blast
qed

lemma children_agree:
  assumes "map convert fs = map Inr gs"
    and "\<And>f g. f \<in> set fs \<Longrightarrow> convert f = Inr g \<Longrightarrow> P g = Q f"
  shows "list_all P gs = list_all Q fs \<and> list_ex P gs = list_ex Q fs"
  using assms
proof (induction fs arbitrary: gs)
  case (Cons f fs)
  then obtain h hs where gs: "gs = h # hs" and f: "convert f = Inr h" and fs: "map convert fs = map Inr hs"
    by (auto simp: Cons_eq_map_conv)
  have "P h = Q f" using Cons.prems(2) f by simp
  moreover have "list_all P hs = list_all Q fs \<and> list_ex P hs = list_ex Q fs"
    using Cons.IH [OF fs] Cons.prems(2) by simp
  ultimately show ?case by (simp add: gs)
qed simp

lemma convert_sound:
  assumes "convert f = Inr g"
  shows "holds V g = ldap_filter_holds (leaf_holds V) f"
  using assms
proof (induction f arbitrary: g rule: leaves.induct)
  case (1 fs)
  have "\<not> (\<exists>f \<in> set fs. \<exists>e. convert f = Inl e)" using 1(2) and_error [of fs] by auto
  then obtain gs where gs: "map convert fs = map Inr gs" by (rule children_ok)
  then have "list_all (holds V) gs = list_all (ldap_filter_holds (leaf_holds V)) fs"
    using children_agree [where P = "holds V" and Q = "ldap_filter_holds (leaf_holds V)"] 1(1) by blast
  with and_holds [OF gs 1(2)] show ?case by simp
next
  case (2 fs)
  have "\<not> (\<exists>f \<in> set fs. \<exists>e. convert f = Inl e)" using 2(2) or_error [of fs] by auto
  then obtain gs where gs: "map convert fs = map Inr gs" by (rule children_ok)
  then have "list_ex (holds V) gs = list_ex (ldap_filter_holds (leaf_holds V)) fs"
    using children_agree [where P = "holds V" and Q = "ldap_filter_holds (leaf_holds V)"] 2(1) by blast
  with or_holds [OF gs 2(2)] show ?case by simp
next
  case (3 h)
  obtain g' where g': "convert h = Inr g'" using 3(2) not_error [of h] by (cases "convert h") auto
  with 3 not_holds [OF g' 3(2)] show ?case by simp
qed (simp_all add: leaf_holds_def)

end

lemma map_Inr_errors: "(\<exists>e. Inl e \<in> set (map h fs)) \<longleftrightarrow> (\<exists>f \<in> set fs. \<exists>e. h f = Inl e)"
  by (auto simp: image_iff) (metis, force)

lemma negate_user_holds: "user_filter_holds V (negate_user_filter g) = (\<not> user_filter_holds V g)"
  by (cases g) (simp_all add: negate_user_filter_def)

lemma negate_group_holds: "group_filter_holds V (negate_group_filter g) = (\<not> group_filter_holds V g)"
  by (cases g) (simp_all add: negate_group_filter_def)

lemma not_list_ex: "(\<not> list_ex P xs) = list_all (\<lambda>x. \<not> P x) xs"
  by (induction xs) auto

lemma user_splice:
  "(case f of UAnd v \<Rightarrow> Some v | _ \<Rightarrow> None) = Some w \<Longrightarrow> f = UAnd w"
  "(case f of UOr v \<Rightarrow> Some v | _ \<Rightarrow> None) = Some w \<Longrightarrow> f = UOr w"
  by (cases f; simp)+

lemma group_splice:
  "(case h of GAnd v \<Rightarrow> Some v | _ \<Rightarrow> None) = Some x \<Longrightarrow> h = GAnd x"
  "(case h of GOr v \<Rightarrow> Some v | _ \<Rightarrow> None) = Some x \<Longrightarrow> h = GOr x"
  by (cases h; simp)+

interpretation uf: filter_conversion "\<lambda>f. convert_user_filter L info f sch" user_filter_holds
proof (unfold_locales, goal_cases)
  case (1 fs)
  show ?case by (simp only: convert_user_filter.simps combine_user_and_def combine_error map_Inr_errors)
next
  case (2 fs)
  show ?case by (simp only: convert_user_filter.simps combine_user_or_def combine_error map_Inr_errors)
next
  case (3 h)
  show ?case by (simp add: rmap_eq_Inl)
next
  case (4 fs gs g V)
  then show ?case
    using combine_all [where H = "user_filter_holds V" and n = UTrue and b = UAnd, OF _ _ _ user_splice(1)]
    by (simp add: combine_user_and_def)
next
  case (5 fs gs g V)
  then show ?case
    using combine_all [where H = "\<lambda>f. \<not> user_filter_holds V f" and n = UFalse and b = UOr, OF _ _ _ user_splice(2)]
    by (simp add: combine_user_or_def not_list_ex [symmetric])
next
  case (6 h g' g V)
  then show ?case by (auto simp: negate_user_holds)
qed

interpretation gf: filter_conversion "\<lambda>f. convert_group_filter L info f sch" group_filter_holds
proof (unfold_locales, goal_cases)
  case (1 fs)
  show ?case by (simp only: convert_group_filter.simps combine_group_and_def combine_error map_Inr_errors)
next
  case (2 fs)
  show ?case by (simp only: convert_group_filter.simps combine_group_or_def combine_error map_Inr_errors)
next
  case (3 h)
  show ?case by (simp add: rmap_eq_Inl)
next
  case (4 fs gs g V)
  then show ?case
    using combine_all [where H = "group_filter_holds V" and n = GTrue and b = GAnd, OF _ _ _ group_splice(1)]
    by (simp add: combine_group_and_def)
next
  case (5 fs gs g V)
  then show ?case
    using combine_all [where H = "\<lambda>f. \<not> group_filter_holds V f" and n = GFalse and b = GOr, OF _ _ _ group_splice(2)]
    by (simp add: combine_group_or_def not_list_ex [symmetric])
next
  case (6 h g' g V)
  then show ?case by (auto simp: negate_group_holds)
qed

text \<open>C38: A user filter is converted into one of the same boolean meaning: over any meaning
  of the backend's atoms, the converted filter holds exactly when the LDAP filter does, its
  leaves read as their own conversions. Dropping neutral elements, splicing nested
  conjunctions and disjunctions and unwrapping singletons change nothing.\<close>

theorem convert_user_filter_sound:
  assumes "convert_user_filter L info f sch = Inr g"
  shows "user_filter_holds V g =
    ldap_filter_holds (\<lambda>a. case convert_user_filter L info a sch of
      Inr h \<Rightarrow> user_filter_holds V h | Inl _ \<Rightarrow> False) f"
  using uf.convert_sound [OF assms] unfolding uf.leaf_holds_def .

lemma convert_user_filter_sound_witness:
  "user_filter_holds (\<lambda>_. True) (UNot (UMemberOf (GroupName ''lldap_disabled''))) =
    ldap_filter_holds (\<lambda>a. case convert_user_filter sample_libs
        \<lparr>li_base_dn = [], li_base_dn_str = [], li_ignored_user_attributes = [], li_ignored_group_attributes = []\<rparr>
        a public_schema_get of Inr h \<Rightarrow> user_filter_holds (\<lambda>_. True) h | Inl _ \<Rightarrow> False)
      (FAnd [FEquality ''objectClass'' ''person'', FNot (FPresent ''loginDisabled'')])"
  by (rule convert_user_filter_sound)
    (simp add: convert_user_objectclass_def convert_user_present_def eq_ignore_ascii_case_def
      negate_user_filter_def combine_user_and_def combine_def attribute_name_from_def
      case_insensitive_string_def)

text \<open>The same of a group filter.\<close>

theorem convert_group_filter_sound:
  assumes "convert_group_filter L info f sch = Inr g"
  shows "group_filter_holds V g =
    ldap_filter_holds (\<lambda>a. case convert_group_filter L info a sch of
      Inr h \<Rightarrow> group_filter_holds V h | Inl _ \<Rightarrow> False) f"
  using gf.convert_sound [OF assms] unfolding gf.leaf_holds_def .

lemma convert_group_filter_sound_witness:
  "group_filter_holds (\<lambda>_. True) GFalse =
    ldap_filter_holds (\<lambda>a. case convert_group_filter sample_libs
        \<lparr>li_base_dn = [], li_base_dn_str = [], li_ignored_user_attributes = [], li_ignored_group_attributes = []\<rparr>
        a public_schema_get of Inr h \<Rightarrow> group_filter_holds (\<lambda>_. True) h | Inl _ \<Rightarrow> False)
      (FOr [FEquality ''objectClass'' ''person'', FNot (FEquality ''objectClass'' ''posixGroup'')])"
  by (rule convert_group_filter_sound)
    (simp add: convert_group_objectclass_def eq_ignore_ascii_case_def public_schema_get_def
      negate_group_filter_def combine_group_or_def combine_def)

text \<open>A filter, for users or for groups, is refused exactly when one of its leaves is:
  no error is lost among the branches and none appears elsewhere.\<close>

theorem convert_filter_refused_iff:
  "((\<exists>e. convert_user_filter L info f sch = Inl e) \<longleftrightarrow>
     (\<exists>a e. a \<in> set (leaves f) \<and> convert_user_filter L info a sch = Inl e))
   \<and> ((\<exists>e. convert_group_filter L info f sch = Inl e) \<longleftrightarrow>
     (\<exists>a e. a \<in> set (leaves f) \<and> convert_group_filter L info a sch = Inl e))"
  using uf.convert_error [of L info f sch] gf.convert_error [of L info f sch] by blast

lemma map_user_field_uuid:
  "map_user_field m field sch = UfEntryUuid \<Longrightarrow> is_uuid_field field"
  by (auto simp: map_user_field_def unwrap_or_def split: option.splits logical_attr.splits if_splits)

text \<open>An equality test on a user is refused for one reason only: the field is
  \<open>entryUUID\<close> or \<open>uuid\<close> and the value does not parse as a UUID. Unknown attributes, malformed
  DNs and values of the wrong type turn into a filter that matches nothing.\<close>

theorem user_equality_refused_only_for_uuid:
  assumes "convert_user_filter L info (FEquality field val) sch = Inl e"
  shows "(eq_ignore_ascii_case field ''entryuuid'' \<or> eq_ignore_ascii_case field ''uuid'')
    \<and> lib_parse_uuid L val = None \<and> le_code e = OtherCode"
proof -
  let ?m = "map_user_field get_schema_manager (attribute_name_from field) sch"
  have "?m = UfEntryUuid" "lib_parse_uuid L val = None" "le_code e = OtherCode"
    using assms
    by (auto simp: convert_user_equality_def Let_def
        split: if_splits user_field_type.splits user_column.splits option.splits)
  then show ?thesis
    using map_user_field_uuid by (fastforce simp: is_uuid_field_def)
qed

lemma user_equality_refused_only_for_uuid_witness:
  "\<exists>e. convert_user_filter sample_libs
      \<lparr>li_base_dn = [], li_base_dn_str = [], li_ignored_user_attributes = [], li_ignored_group_attributes = []\<rparr>
      (FEquality ''entryUUID'' ''x'') public_schema_get = Inl e
    \<and> lib_parse_uuid sample_libs ''x'' = None \<and> le_code e = OtherCode"
proof -
  let ?info = "\<lparr>li_base_dn = [], li_base_dn_str = [], li_ignored_user_attributes = [], li_ignored_group_attributes = []\<rparr>"
  have "last_registration public_schema_get ''entryuuid'' = Some (LOperational, ''entryuuid'')"
    unfolding last_registration_def registrations_public by simp
  then have m: "map_user_field get_schema_manager (attribute_name_from ''entryUUID'') public_schema_get = UfEntryUuid"
    by (simp add: map_user_field_def resolve_attribute_def get_schema_manager_def schema_manager_new_last
        is_uuid_field_def eq_ignore_ascii_case_def)
  have "convert_user_filter sample_libs ?info (FEquality ''entryUUID'' ''x'') public_schema_get =
      Inl (lerr OtherCode (Rendered ''Invalid UUID in filter: ''))"
    by (simp add: convert_user_equality_def Let_def m eq_ignore_ascii_case_def sample_libs_def)
  from this user_equality_refused_only_for_uuid [OF this] show ?thesis by blast
qed

end
