(* ===== verification/Attributes.thy ===== *)
theory Attributes
  imports Filters
begin

text \<open>
  Attribute values of entries (\<open>ldap/src/attributes.rs\<close>) and the conversion of users and
  groups into search result entries (\<open>search/results.rs\<close>). The two \<open>panic!\<close> calls of
  \<open>get_user_attribute\<close> and the one of \<open>get_group_attribute\<close> are values of the model; the
  theorems say that a search never reaches them.
\<close>

section \<open>Helpers\<close>

definition to_generalized_time :: "libs \<Rightarrow> date \<Rightarrow> bytes" where
  "to_generalized_time L dt = lib_generalized_time L dt"

definition get_custom_attribute :: "libs \<Rightarrow> attribute list \<Rightarrow> attribute_name \<Rightarrow> bytes list option" where
  "get_custom_attribute L attributes name =
     map_option (\<lambda>a. case attr_value a of
         AString (Singleton s) \<Rightarrow> [s]
       | AString (Unbounded l) \<Rightarrow> l
       | AInteger (Singleton i) \<Rightarrow> [int_to_string i]
       | AInteger (Unbounded l) \<Rightarrow> map int_to_string l
       | AAvatar (Singleton p) \<Rightarrow> [p]
       | AAvatar (Unbounded l) \<Rightarrow> l
       | ADateTime (Singleton dt) \<Rightarrow> [to_generalized_time L dt]
       | ADateTime (Unbounded l) \<Rightarrow> map (to_generalized_time L) l)
     (find_first (\<lambda>a. attr_name a = name) attributes)"

definition get_ou_from_attributes :: "attribute list \<Rightarrow> string \<Rightarrow> string" where
  "get_ou_from_attributes attributes default_ou =
     unwrap_or default_ou
       (Option.bind (find_first (\<lambda>a. eq_ignore_ascii_case (attr_str (attr_name a)) ''ou'') attributes)
         (\<lambda>a. case attr_value a of
            AString (Singleton s) \<Rightarrow> Some s
          | AString (Unbounded (x # _)) \<Rightarrow> Some x
          | _ \<Rightarrow> None))"

definition push_unless_present ::
  "string list \<Rightarrow> string \<Rightarrow> string \<Rightarrow> bytes \<Rightarrow> ldap_partial_attribute list" where
  "push_unless_present existing key atype v =
     (if key \<in> set existing then [] else [\<lparr>pa_atype = atype, pa_vals = [v]\<rparr>])"

definition inject_operational_attributes ::
  "ldap_partial_attribute list \<Rightarrow> string \<Rightarrow> string \<Rightarrow> ldap_partial_attribute list" where
  "inject_operational_attributes attrs structural_class base_dn_str =
     (let existing = map (\<lambda>a. to_ascii_lowercase (pa_atype a)) attrs;
          add = push_unless_present existing
      in attrs
         @ add ''hassubordinates'' ''hasSubordinates'' ''FALSE''
         @ add ''structuralobjectclass'' ''structuralObjectClass'' structural_class
         @ add ''subschemasubentry'' ''subschemaSubentry'' (''cn=Subschema,'' @ base_dn_str)
         @ add ''creatorsname'' ''creatorsName'' (''cn=admin,ou=people,'' @ base_dn_str)
         @ add ''modifiersname'' ''modifiersName'' (''cn=admin,ou=people,'' @ base_dn_str))"

definition get_default_user_object_classes_bytes :: "public_schema \<Rightarrow> bytes list" where
  "get_default_user_object_classes_bytes sch = [''top'', ''person''] @ extra_user_object_classes sch"

definition get_default_group_object_classes_bytes :: "public_schema \<Rightarrow> bytes list" where
  "get_default_group_object_classes_bytes sch =
     [''groupOfUniqueNames'', ''groupOfNames''] @ extra_group_object_classes sch"

definition get_user_ou :: "user \<Rightarrow> string" where
  "get_user_ou u = get_ou_from_attributes (u_attributes u) DEFAULT_PRIMARY_USER_OU"

definition get_group_ou :: "group \<Rightarrow> string" where
  "get_group_ou g = get_ou_from_attributes (g_attributes g) DEFAULT_PRIMARY_GROUP_OU"

section \<open>User attributes\<close>

text \<open>\<open>Inl\<close> is a panic; \<open>Inr None\<close> an attribute without values in this entry. The values are
  finally dropped when they are one empty value.\<close>

definition drop_single_empty :: "bytes list \<Rightarrow> bytes list option" where
  "drop_single_empty values = (if length values = 1 \<and> values ! 0 = [] then None else Some values)"

definition group_details_ou :: "group_details \<Rightarrow> string" where
  "group_details_ou g =
     unwrap_or DEFAULT_PRIMARY_GROUP_OU
       (Option.bind (find_first (\<lambda>a. eq_ignore_ascii_case (attr_str (attr_name a)) ''ou'') (gd_attributes g))
         (\<lambda>a. case attr_value a of AString (Singleton s) \<Rightarrow> Some s | _ \<Rightarrow> None))"

definition in_group_named :: "string \<Rightarrow> group_details list option \<Rightarrow> bool" where
  "in_group_named name groups =
     (case groups of None \<Rightarrow> False | Some gs \<Rightarrow> list_ex (\<lambda>g. group_name_str (gd_display_name g) = name) gs)"

definition get_user_attribute ::
  "libs \<Rightarrow> user \<Rightarrow> attribute_name \<Rightarrow> string \<Rightarrow> group_details list option \<Rightarrow> attribute_name list
     \<Rightarrow> public_schema \<Rightarrow> bytes list option hresult" where
  "get_user_attribute L u attr base_dn_str groups ignored_user_attributes sch =
     (let attribute = attribute_name_from (attr_str attr);
          finish = (\<lambda>vs. Inr (drop_single_empty vs));
          finish_opt = (\<lambda>r. case r of None \<Rightarrow> Inr None | Some vs \<Rightarrow> Inr (drop_single_empty vs)) in
      (case map_user_field get_schema_manager attribute sch of
         UfObjectClass \<Rightarrow> finish (get_default_user_object_classes_bytes sch)
       | UfDn \<Rightarrow> Inr None
       | UfEntryDn \<Rightarrow> finish [build_user_dn (u_user_id u) (get_user_ou u) base_dn_str]
       | UfEntryUuid \<Rightarrow> finish [u_uuid u]
       | UfMemberOf \<Rightarrow>
           finish (map (\<lambda>g. build_group_dn (gd_display_name g) (group_details_ou g) base_dn_str)
                    (unwrap_or [] groups))
       | UfPrimaryField ColUserId \<Rightarrow> finish [user_id_str (u_user_id u)]
       | UfPrimaryField ColEmail \<Rightarrow> finish [email_str (u_email u)]
       | UfPrimaryField ColUuid \<Rightarrow> finish [u_uuid u]
       | UfPrimaryField ColDisplayName \<Rightarrow> finish_opt (map_option (\<lambda>n. [n]) (u_display_name u))
       | UfPrimaryField ColCreationDate \<Rightarrow> finish [to_generalized_time L (u_creation_date u)]
       | UfPrimaryField ColModifiedDate \<Rightarrow> finish [to_generalized_time L (u_modified_date u)]
       | UfPrimaryField ColPasswordModifiedDate \<Rightarrow>
           finish [to_generalized_time L (u_password_modified_date u)]
       | UfPrimaryField ColKrbPrincipalName \<Rightarrow> finish_opt (map_option (\<lambda>n. [n]) (u_krb_principal_name u))
       | UfPrimaryField _ \<Rightarrow> Inl (Panic ''Should not get here'')
       | UfAttribute a _ _ \<Rightarrow> finish_opt (get_custom_attribute L (u_attributes u) a)
       | UfNoMatch \<Rightarrow>
           let s = attr_str attribute in
           if s = ''1.1'' then Inr None
           else if s = ''+'' then Inr None
           else if s = ''*'' then Inl (Panic ''Matched *, * should have been expanded'')
           else if eq_ignore_ascii_case s ''logindisabled'' then
             (if in_group_named ''lldap_disabled'' groups then finish [''TRUE''] else Inr None)
           else if eq_ignore_ascii_case s ''sudohost'' then
             (if in_group_named ''lldap_sudohost'' groups then finish [''ALL''] else Inr None)
           else if attribute \<in> set ignored_user_attributes then Inr None
           else finish_opt (get_custom_attribute L (u_attributes u) attribute)))"

section \<open>Group attributes\<close>

text \<open>The members pass through a \<open>BTreeSet\<close>: sorted and without duplicates.\<close>

definition group_member_dns :: "group \<Rightarrow> string \<Rightarrow> user_id option \<Rightarrow> bytes list" where
  "group_member_dns g base_dn_str user_filter =
     sort (remdups (map (\<lambda>m. build_user_dn (gm_user_id m) (gm_ou m) base_dn_str)
       (filter (\<lambda>m. case user_filter of None \<Rightarrow> True | Some f \<Rightarrow> gm_user_id m = f) (g_users g))))"

definition get_group_attribute ::
  "libs \<Rightarrow> group \<Rightarrow> string \<Rightarrow> attribute_name \<Rightarrow> user_id option \<Rightarrow> attribute_name list
     \<Rightarrow> public_schema \<Rightarrow> bytes list option hresult" where
  "get_group_attribute L g base_dn_str attribute user_filter ignored_group_attributes sch =
     (let finish = (\<lambda>vs. Inr (drop_single_empty vs));
          finish_opt = (\<lambda>r. case r of None \<Rightarrow> Inr None | Some vs \<Rightarrow> Inr (drop_single_empty vs)) in
      (case map_group_field get_schema_manager attribute sch of
         GfObjectClass \<Rightarrow> finish (get_default_group_object_classes_bytes sch)
       | GfDn \<Rightarrow> Inr None
       | GfEntryDn \<Rightarrow> finish [build_group_dn (g_display_name g) (get_group_ou g) base_dn_str]
       | GfEntryUuid \<Rightarrow> finish [g_uuid g]
       | GfGroupId \<Rightarrow> finish [int_to_string (g_id g)]
       | GfDisplayName \<Rightarrow> finish [group_name_str (g_display_name g)]
       | GfCreationDate \<Rightarrow> finish [to_generalized_time L (g_creation_date g)]
       | GfModifiedDate \<Rightarrow> finish [to_generalized_time L (g_modified_date g)]
       | GfMember \<Rightarrow> finish (group_member_dns g base_dn_str user_filter)
       | GfUniqueMember \<Rightarrow> finish (group_member_dns g base_dn_str user_filter)
       | GfMemberOf \<Rightarrow> Inr None
       | GfUuid \<Rightarrow> finish [g_uuid g]
       | GfAttribute a _ _ \<Rightarrow> finish_opt (get_custom_attribute L (g_attributes g) a)
       | GfNoMatch \<Rightarrow>
           let s = attr_str attribute in
           if s = ''1.1'' then Inr None
           else if s = ''+'' then Inr None
           else if s = ''*'' then Inl (Panic ''Matched *, * should have been expanded'')
           else if attribute \<in> set ignored_group_attributes then Inr None
           else finish_opt (get_custom_attribute L (g_attributes g) attribute)))"

section \<open>Result entries\<close>

definition extend_custom_keys ::
  "attribute_list \<Rightarrow> attribute list \<Rightarrow> expanded_attributes \<Rightarrow> expanded_attributes" where
  "extend_custom_keys schema_attrs attributes expanded =
     (if include_custom_attributes expanded then
        let standardized = concat (map (\<lambda>a. as_name a # as_aliases a) schema_attrs);
            custom_to_add = map (\<lambda>a. (attr_name a, attr_str (attr_name a)))
              (filter (\<lambda>a. attr_str (attr_name a) \<notin> set standardized) attributes)
        in expanded\<lparr>attribute_keys := foldl (\<lambda>m (k, v). btree_insert k v m) (attribute_keys expanded) custom_to_add\<rparr>
      else expanded)"

text \<open>\<open>retain(|attr| seen.insert(attr.atype.clone()))\<close>.\<close>

fun retain_first_atype :: "string list \<Rightarrow> ldap_partial_attribute list \<Rightarrow> ldap_partial_attribute list" where
  "retain_first_atype seen [] = []"
| "retain_first_atype seen (a # attrs) =
     (if pa_atype a \<in> set seen then retain_first_atype seen attrs
      else a # retain_first_atype (pa_atype a # seen) attrs)"

text \<open>The pipeline both builders share: hide operational keys, look the values up, inject the
  operational attributes and drop repeated types.\<close>

definition build_attributes ::
  "(attribute_name \<Rightarrow> bytes list option hresult) \<Rightarrow> expanded_attributes \<Rightarrow> string \<Rightarrow> string
     \<Rightarrow> ldap_partial_attribute list hresult" where
  "build_attributes lookup expanded structural_class base_dn_str =
     rmap (\<lambda>found.
       let attrs = concat found;
           attrs' = (if include_operational_attributes expanded
                     then inject_operational_attributes attrs structural_class base_dn_str else attrs)
       in retain_first_atype [] attrs')
     (collect_results (map
       (\<lambda>(attribute, name). rmap (\<lambda>vs. case vs of None \<Rightarrow> [] | Some v \<Rightarrow> [\<lparr>pa_atype = name, pa_vals = v\<rparr>])
          (lookup attribute))
       (filter (\<lambda>(attribute, _). \<not> is_operational get_schema_manager (attr_str attribute)
                   \<or> include_operational_attributes expanded)
         (attribute_keys expanded))))"

definition make_ldap_search_user_result_entry ::
  "libs \<Rightarrow> user \<Rightarrow> string \<Rightarrow> expanded_attributes \<Rightarrow> group_details list option \<Rightarrow> attribute_name list
     \<Rightarrow> public_schema \<Rightarrow> ldap_search_result_entry hresult" where
  "make_ldap_search_user_result_entry L u base_dn_str expanded groups ignored sch =
     rmap (\<lambda>attrs. \<lparr>sre_dn = build_user_dn (u_user_id u) (get_user_ou u) base_dn_str, sre_attributes = attrs\<rparr>)
       (build_attributes (\<lambda>a. get_user_attribute L u a base_dn_str groups ignored sch)
         (extend_custom_keys (user_attributes sch) (u_attributes u) expanded) ''inetOrgPerson'' base_dn_str)"

definition make_ldap_search_group_result_entry ::
  "libs \<Rightarrow> group \<Rightarrow> string \<Rightarrow> expanded_attributes \<Rightarrow> user_id option \<Rightarrow> attribute_name list
     \<Rightarrow> public_schema \<Rightarrow> ldap_search_result_entry hresult" where
  "make_ldap_search_group_result_entry L g base_dn_str expanded user_filter ignored sch =
     rmap (\<lambda>attrs. \<lparr>sre_dn = build_group_dn (g_display_name g) (get_group_ou g) base_dn_str, sre_attributes = attrs\<rparr>)
       (build_attributes (\<lambda>a. get_group_attribute L g base_dn_str a user_filter ignored sch)
         (extend_custom_keys (group_attributes sch) (g_attributes g) expanded) ''groupOfUniqueNames'' base_dn_str)"

definition convert_users_to_ldap_op ::
  "libs \<Rightarrow> user_and_groups list \<Rightarrow> string list \<Rightarrow> ldap_info \<Rightarrow> public_schema \<Rightarrow> ldap_op list hresult" where
  "convert_users_to_ldap_op L users attributes info sch =
     (let expanded = expand_attribute_wildcards get_schema_manager attributes sch
      in collect_results (map (\<lambda>u. rmap SearchResultEntry
           (make_ldap_search_user_result_entry L (ug_user u) (li_base_dn_str info) expanded
              (ug_groups u) (li_ignored_user_attributes info) sch)) users))"

definition convert_groups_to_ldap_op ::
  "libs \<Rightarrow> group list \<Rightarrow> string list \<Rightarrow> ldap_info \<Rightarrow> user_id option \<Rightarrow> public_schema \<Rightarrow> ldap_op list hresult" where
  "convert_groups_to_ldap_op L groups attributes info user_filter sch =
     (let expanded = expand_attribute_wildcards get_schema_manager attributes sch
      in collect_results (map (\<lambda>g. rmap SearchResultEntry
           (make_ldap_search_group_result_entry L g (li_base_dn_str info) expanded
              user_filter (li_ignored_group_attributes info) sch)) groups))"

section \<open>Panics\<close>

text \<open>The columns that a field of the schema can be mapped to.\<close>

lemma determine_primary:
  "determine_logical_attr a p = LPrimary c \<Longrightarrow>
     c \<in> {ColUserId, ColEmail, ColDisplayName, ColKrbPrincipalName, ColCreationDate, ColModifiedDate,
          ColPasswordModifiedDate}"
  by (auto simp: determine_logical_attr_def Let_def split: if_splits)

lemma last_registration_D:
  assumes "last_registration sch k = Some (l, c)"
  shows "\<exists>als. (l, c, als) \<in> set (registrations sch)"
proof -
  obtain als where "find_first (\<lambda>(_, c, als). list_ex (\<lambda>x. to_ascii_lowercase x = k) (c # als))
      (rev (registrations sch)) = Some (l, c, als)"
    using assms by (auto simp: last_registration_def)
  then show ?thesis using find_first_SomeD by fastforce
qed

lemma registrations_primary:
  "(LPrimary c, n, als) \<in> set (registrations sch) \<Longrightarrow>
     c \<in> {ColUserId, ColEmail, ColDisplayName, ColKrbPrincipalName, ColCreationDate, ColModifiedDate,
          ColPasswordModifiedDate}"
  unfolding registrations_def core_attrs_def by (auto dest: determine_primary [OF sym])

lemma map_user_field_primary:
  assumes "map_user_field (schema_manager_new s) f sch = UfPrimaryField c"
  shows "c \<in> {ColUserId, ColEmail, ColDisplayName, ColKrbPrincipalName, ColCreationDate, ColModifiedDate,
          ColPasswordModifiedDate}"
proof -
  obtain n where "last_registration s (to_ascii_lowercase (attr_str f)) = Some (LPrimary c, n)"
    using assms
    by (auto simp: map_user_field_def resolve_attribute_def schema_manager_new_last unwrap_or_def
        split: option.splits logical_attr.splits if_splits)
  then show ?thesis using last_registration_D registrations_primary by blast
qed

lemma get_user_attribute_panic:
  assumes "get_user_attribute L u a base groups ign sch = Inl p"
  shows "to_ascii_lowercase (attr_str a) = ''*''"
proof -
  let ?m = "map_user_field get_schema_manager (attribute_name_from (attr_str a)) sch"
  have "?m = UfPrimaryField c \<Longrightarrow> c \<notin> {ColLowercaseEmail, ColPasswordHash, ColTotpSecret, ColMfaType}" for c
    using map_user_field_primary unfolding get_schema_manager_def by blast
  then show ?thesis
    using assms
    by (auto simp: get_user_attribute_def Let_def
        split: user_field_type.splits user_column.splits option.splits if_splits)
qed

lemma get_group_attribute_panic:
  "get_group_attribute L g base a uf ign sch = Inl p \<Longrightarrow> attr_str a = ''*''"
  by (auto simp: get_group_attribute_def Let_def
      split: group_field_type.splits option.splits if_splits)

lemma collect_results_ok: "(\<And>r. r \<in> set rs \<Longrightarrow> \<exists>x. r = Inr x) \<Longrightarrow> \<exists>xs. collect_results rs = Inr xs"
proof (cases "collect_results rs")
  case (Inl e)
  assume "\<And>r. r \<in> set rs \<Longrightarrow> \<exists>x. r = Inr x"
  then show ?thesis using collect_results_eq_Inl [OF Inl] by fastforce
qed simp

lemma build_attributes_ok:
  assumes "\<And>k n. (k, n) \<in> set (attribute_keys ex) \<Longrightarrow> \<exists>v. lookup k = Inr v"
  shows "\<exists>attrs. build_attributes lookup ex cls base = Inr attrs"
proof -
  have "\<exists>x. rmap (\<lambda>vs. case vs of None \<Rightarrow> [] | Some v \<Rightarrow> [\<lparr>pa_atype = n, pa_vals = v\<rparr>]) (lookup k) = Inr x"
    if "(k, n) \<in> set (attribute_keys ex)" for k n
    using assms [OF that] by auto
  then show ?thesis
    unfolding build_attributes_def
    by (auto simp: rmap_eq_Inr intro!: collect_results_ok)
qed

text \<open>Keys of the expanded list, and what they spell.\<close>

lemma set_btree_insert: "set (btree_insert k v m) \<subseteq> insert (k, v) (set m)"
  by (induction k v m rule: btree_insert.induct) auto

lemma set_insert_keys: "set (insert_keys ks out) \<subseteq> (\<lambda>s. (attribute_name_from s, s)) ` set ks \<union> set out"
  unfolding insert_keys_def
proof (induction ks arbitrary: out)
  case (Cons k ks)
  then show ?case using set_btree_insert [of "attribute_name_from k" k out] by fastforce
qed simp

lemma set_extend_custom:
  "set (attribute_keys (extend_custom_keys sa as ex)) \<subseteq>
     (\<lambda>a. (attr_name a, attr_str (attr_name a))) ` set as \<union> set (attribute_keys ex)"
proof -
  have "set (foldl (\<lambda>m (k, v). btree_insert k v m) m l) \<subseteq> set l \<union> set m" for l and m :: "(attribute_name \<times> string) list"
  proof (induction l arbitrary: m)
    case (Cons kv l)
    obtain k v where "kv = (k, v)" by (cases kv)
    then show ?case using Cons [of "btree_insert k v m"] set_btree_insert [of k v m] by auto
  qed simp
  from this [of "attribute_keys ex" "map (\<lambda>a. (attr_name a, attr_str (attr_name a)))
      (filter (\<lambda>a. attr_str (attr_name a) \<notin> set (concat (map (\<lambda>a. as_name a # as_aliases a) sa))) as)"]
  show ?thesis
    unfolding extend_custom_keys_def Let_def by auto
qed

lemma extend_custom_flags [simp]:
  "include_operational_attributes (extend_custom_keys sa as ex) = include_operational_attributes ex"
  by (simp add: extend_custom_keys_def Let_def)

lemma expand_key_spelling:
  assumes "(k, n) \<in> set (attribute_keys (expand_attribute_wildcards m l sch))"
  shows "k = attribute_name_from n"
proof -
  obtain std op where w: "wildcard_keys m sch = (std, op)" by fastforce
  define P where "P = (\<lambda>out. \<forall>(k, n) \<in> set out. k = attribute_name_from n)"
  have "P []" by (simp add: P_def)
  moreover have "P (insert_keys ks out)" if "P out" for ks out
    using that set_insert_keys [of ks out] unfolding P_def by fastforce
  ultimately have "P (attribute_keys (expand_attribute_wildcards m l sch))"
    by (simp add: expand_attribute_wildcards_def w Let_def)
  then show ?thesis using assms unfolding P_def by blast
qed

definition no_star :: "public_schema \<Rightarrow> bool" where
  "no_star sch \<longleftrightarrow> list_all (\<lambda>a. ''*'' \<notin> set (names_of a)) (user_attributes sch @ group_attributes sch)"

lemma preferred_not_star:
  assumes "no_star sch" "a \<in> set (user_attributes sch @ group_attributes sch)"
  shows "to_ascii_lowercase (get_preferred_ldap_name a) \<noteq> ''*''"
  using assms registered_in_names [of "get_preferred_ldap_name a" a]
  unfolding no_star_def list_all_iff by (metis insertI1)

lemma canonical_not_star:
  assumes "no_star s" "to_ascii_lowercase n \<noteq> ''*''"
  shows "to_ascii_lowercase (get_canonical_name (schema_manager_new s) n) \<noteq> ''*''"
proof (cases "last_registration s (to_ascii_lowercase n)")
  case None
  with assms show ?thesis
    by (simp add: get_canonical_name_def resolve_attribute_def schema_manager_new_last)
next
  case (Some lc)
  obtain l c where lc: "lc = (l, c)" by (cases lc)
  obtain als where "(l, c, als) \<in> set (registrations s)" using last_registration_D Some lc by blast
  then have "to_ascii_lowercase c \<noteq> ''*''"
    using preferred_not_star [OF assms(1)] unfolding registrations_def core_attrs_def by auto
  with Some lc show ?thesis
    by (simp add: get_canonical_name_def resolve_attribute_def schema_manager_new_last)
qed

lemma classify_subset:
  "set (snd (foldl (classify_key m) ks as)) \<subseteq> set (snd ks) \<union> get_preferred_ldap_name ` set as"
proof (induction as arbitrary: ks)
  case (Cons a as)
  have "set (snd (classify_key m ks a)) \<subseteq> insert (get_preferred_ldap_name a) (set (snd ks))"
    by (cases ks) (auto simp: classify_key_def push_key_def Let_def split: option.splits prod.splits)
  then show ?case using Cons [of "classify_key m ks a"] by auto
qed simp

lemma push_subset: "set (foldl (\<lambda>ks name. push_key name ks) op names) \<subseteq> set op \<union> set names"
proof (induction names arbitrary: op)
  case (Cons n names)
  have "set (push_key n op) \<subseteq> insert n (set op)" by (auto simp: push_key_def)
  then show ?case using Cons [of "push_key n op"] by auto
qed simp

lemma operational_keys_subset:
  "set (snd (wildcard_keys m sch)) \<subseteq>
     get_preferred_ldap_name ` set (user_attributes sch @ group_attributes sch) \<union> set always_operational"
proof -
  let ?as = "user_attributes sch @ group_attributes sch"
  obtain std op where fold: "foldl (classify_key m) ([], []) ?as = (std, op)" by fastforce
  have "set (snd (wildcard_keys m sch)) \<subseteq> set (foldl (\<lambda>ks name. push_key name ks) op always_operational)"
    using retain_subset unfolding wildcard_keys_def fold Let_def by auto
  moreover have "set op \<subseteq> get_preferred_ldap_name ` set ?as"
    using classify_subset [of m "([], [])" ?as] unfolding fold by simp
  ultimately show ?thesis
    using push_subset [of op always_operational] by blast
qed

lemma explicit_not_star:
  assumes "no_star sch" "k \<in> attribute_name_from ` set (explicit_keys (schema_manager_new sch) l)"
  shows "attr_str k \<noteq> ''*''"
proof -
  obtain n where "k = attribute_name_from (get_canonical_name (schema_manager_new sch) n)"
    and "to_ascii_lowercase n \<noteq> ''*''"
    using assms(2) unfolding explicit_keys_def Let_def by force
  then show ?thesis using canonical_not_star [OF assms(1)] by (simp only: attr_str_from not_False_eq_True)
qed

lemma expanded_not_star:
  assumes "no_star sch" "(k, n) \<in> set (attribute_keys (expand_attribute_wildcards (schema_manager_new sch) l sch))"
  shows "attr_str k \<noteq> ''*''"
proof -
  let ?m = "schema_manager_new sch"
  let ?prefs = "get_preferred_ldap_name ` set (user_attributes sch @ group_attributes sch)"
  let ?all = "insert ''objectClass'' (?prefs \<union> set always_operational)"
  have "k \<in> fst ` set (attribute_keys (expand_attribute_wildcards ?m l sch))"
    using assms(2) by force
  then have "k \<in> attribute_name_from ` set (explicit_keys ?m l) \<or> k \<in> standard_names ?m sch
    \<or> k \<in> attribute_name_from ` set (snd (wildcard_keys ?m sch))"
    unfolding expand_keys by (auto split: if_splits)
  moreover have "standard_names ?m sch \<subseteq> attribute_name_from ` ?all"
    unfolding standard_names_def by (rule insert_subsetI) (rule imageI, simp, rule image_mono, fast)
  moreover have "attribute_name_from ` set (snd (wildcard_keys ?m sch)) \<subseteq> attribute_name_from ` ?all"
    using operational_keys_subset [of ?m sch] by (intro image_mono) (rule subset_insertI2)
  ultimately have "k \<in> attribute_name_from ` set (explicit_keys ?m l) \<or> k \<in> attribute_name_from ` ?all"
    by (meson subsetD)
  then show ?thesis
  proof
    assume "k \<in> attribute_name_from ` ?all"
    then obtain p where p: "k = attribute_name_from p" "p \<in> ?all" by (rule imageE)
    have "\<forall>n \<in> insert ''objectClass'' (set always_operational). to_ascii_lowercase n \<noteq> ''*''"
      by (simp add: always_operational_def)
    moreover have "\<forall>p \<in> ?prefs. to_ascii_lowercase p \<noteq> ''*''"
      using preferred_not_star [OF assms(1)] by (intro ballI) (elim imageE, simp only: not_False_eq_True)
    ultimately have "to_ascii_lowercase p \<noteq> ''*''" using p(2) by (metis Un_iff insert_iff)
    then show ?thesis unfolding p(1) attr_str_from .
  qed (rule explicit_not_star [OF assms(1)])
qed

lemma public_no_star: "no_star public_schema_get"
  by (simp add: no_star_def names_of_def public_schema_get_def core_user_attributes_def
      extra_user_attributes_def public_group_attributes_def hardcoded_attr_def)

section \<open>Entries\<close>

definition plain_names :: "attribute list \<Rightarrow> bool" where
  "plain_names as \<longleftrightarrow> list_all (\<lambda>a. to_ascii_lowercase (attr_str (attr_name a)) \<noteq> ''*'') as"

lemma entry_keys_not_star:
  assumes "plain_names as"
    and "(k, n) \<in> set (attribute_keys (extend_custom_keys sa as
          (expand_attribute_wildcards get_schema_manager l public_schema_get)))"
  shows "to_ascii_lowercase (attr_str k) \<noteq> ''*''"
proof -
  let ?ex = "expand_attribute_wildcards get_schema_manager l public_schema_get"
  have "(k, n) \<in> (\<lambda>a. (attr_name a, attr_str (attr_name a))) ` set as \<union> set (attribute_keys ?ex)"
    using assms(2) set_extend_custom by blast
  then show ?thesis
  proof
    assume "(k, n) \<in> (\<lambda>a. (attr_name a, attr_str (attr_name a))) ` set as"
    then show ?thesis using assms(1) unfolding plain_names_def list_all_iff by blast
  next
    assume k: "(k, n) \<in> set (attribute_keys ?ex)"
    then have "attr_str k \<noteq> ''*''"
      using expanded_not_star [OF public_no_star] unfolding get_schema_manager_def by blast
    moreover have "to_ascii_lowercase (attr_str k) = attr_str k"
      using expand_key_spelling [OF k] by simp
    ultimately show ?thesis by simp
  qed
qed

lemma user_entry_ok:
  assumes "plain_names (u_attributes u)"
  shows "\<exists>attrs. make_ldap_search_user_result_entry L u base
      (expand_attribute_wildcards get_schema_manager l public_schema_get) groups ign public_schema_get =
    Inr \<lparr>sre_dn = build_user_dn (u_user_id u) (get_user_ou u) base, sre_attributes = attrs\<rparr>"
proof -
  let ?ex = "extend_custom_keys (user_attributes public_schema_get) (u_attributes u)
    (expand_attribute_wildcards get_schema_manager l public_schema_get)"
  have "\<exists>v. get_user_attribute L u k base groups ign public_schema_get = Inr v"
    if "(k, n) \<in> set (attribute_keys ?ex)" for k n
    using entry_keys_not_star [OF assms that] get_user_attribute_panic
    by (cases "get_user_attribute L u k base groups ign public_schema_get") blast+
  then have "\<exists>attrs. build_attributes (\<lambda>a. get_user_attribute L u a base groups ign public_schema_get) ?ex
      ''inetOrgPerson'' base = Inr attrs"
    by (rule build_attributes_ok)
  then show ?thesis by (auto simp: make_ldap_search_user_result_entry_def)
qed

lemma group_entry_ok:
  assumes "plain_names (g_attributes g)"
  shows "\<exists>attrs. make_ldap_search_group_result_entry L g base
      (expand_attribute_wildcards get_schema_manager l public_schema_get) uf ign public_schema_get =
    Inr \<lparr>sre_dn = build_group_dn (g_display_name g) (get_group_ou g) base, sre_attributes = attrs\<rparr>"
proof -
  let ?ex = "extend_custom_keys (group_attributes public_schema_get) (g_attributes g)
    (expand_attribute_wildcards get_schema_manager l public_schema_get)"
  have "\<exists>v. get_group_attribute L g base k uf ign public_schema_get = Inr v"
    if k: "(k, n) \<in> set (attribute_keys ?ex)" for k n
  proof (cases "get_group_attribute L g base k uf ign public_schema_get")
    case (Inl p)
    then have "attr_str k = ''*''" by (rule get_group_attribute_panic)
    then show ?thesis using entry_keys_not_star [OF assms k] by simp
  qed simp
  then have "\<exists>attrs. build_attributes (\<lambda>a. get_group_attribute L g base a uf ign public_schema_get) ?ex
      ''groupOfUniqueNames'' base = Inr attrs"
    by (rule build_attributes_ok)
  then show ?thesis by (auto simp: make_ldap_search_group_result_entry_def)
qed

lemma collect_entries:
  assumes "\<forall>x \<in> set xs. \<exists>e. f x = Inr e \<and> sre_dn e = d x"
  shows "\<exists>es. collect_results (map (\<lambda>x. rmap SearchResultEntry (f x)) xs) = Inr (map SearchResultEntry es)
    \<and> map sre_dn es = map d xs"
  using assms
proof (induction xs)
  case (Cons x xs)
  then obtain e es where "f x = Inr e" "sre_dn e = d x"
    and "collect_results (map (\<lambda>x. rmap SearchResultEntry (f x)) xs) = Inr (map SearchResultEntry es)"
    and "map sre_dn es = map d xs"
    by auto
  then show ?case by (intro exI [of _ "e # es"]) simp
qed simp

lemma convert_users_total:
  assumes "\<forall>u \<in> set users. plain_names (u_attributes (ug_user u))"
  shows "\<exists>es. convert_users_to_ldap_op L users attrs info public_schema_get = Inr (map SearchResultEntry es)
    \<and> map sre_dn es = map (\<lambda>u. build_user_dn (u_user_id (ug_user u)) (get_user_ou (ug_user u)) (li_base_dn_str info)) users"
  unfolding convert_users_to_ldap_op_def Let_def
  by (rule collect_entries) (use assms user_entry_ok in fastforce)

lemma convert_groups_total:
  assumes "\<forall>g \<in> set groups. plain_names (g_attributes g)"
  shows "\<exists>es. convert_groups_to_ldap_op L groups attrs info uf public_schema_get = Inr (map SearchResultEntry es)
    \<and> map sre_dn es = map (\<lambda>g. build_group_dn (g_display_name g) (get_group_ou g) (li_base_dn_str info)) groups"
  unfolding convert_groups_to_ldap_op_def Let_def
  by (rule collect_entries) (use assms group_entry_ok in fastforce)

text \<open>Converting the users and groups of a listing never panics, whatever attributes the
  client asks for (\<open>*\<close>, \<open>+\<close> and \<open>1.1\<close> included), as long as no stored attribute is named
  \<open>*\<close>: every user and every group becomes exactly one entry, in order, with the DN built from
  its name and organisational unit.\<close>

theorem listing_conversion_total:
  assumes "\<forall>u \<in> set users. plain_names (u_attributes (ug_user u))"
    and "\<forall>g \<in> set groups. plain_names (g_attributes g)"
  shows "(\<exists>es. convert_users_to_ldap_op L users attrs info public_schema_get = Inr (map SearchResultEntry es)
      \<and> map sre_dn es = map (\<lambda>u. build_user_dn (u_user_id (ug_user u)) (get_user_ou (ug_user u)) (li_base_dn_str info)) users)
    \<and> (\<exists>es. convert_groups_to_ldap_op L groups attrs info uf public_schema_get = Inr (map SearchResultEntry es)
      \<and> map sre_dn es = map (\<lambda>g. build_group_dn (g_display_name g) (get_group_ou g) (li_base_dn_str info)) groups)"
  using convert_users_total [OF assms(1)] convert_groups_total [OF assms(2)] by blast

definition sample_user :: user where
  "sample_user =
     \<lparr>u_user_id = UserId ''bob'', u_email = Email ''bob@example.com'', u_display_name = Some ''Bob'',
      u_creation_date = 0, u_uuid = ''u'', u_attributes =
        [\<lparr>attr_name = AttributeName ''ou'', attr_value = AString (Singleton ''people'')\<rparr>],
      u_modified_date = 0, u_password_modified_date = 0, u_krb_principal_name = None\<rparr>"

definition sample_group :: group where
  "sample_group =
     \<lparr>g_id = 1, g_display_name = GroupName ''staff'', g_creation_date = 0, g_uuid = ''g'',
      g_users = [\<lparr>gm_user_id = UserId ''bob'', gm_ou = ''people''\<rparr>], g_attributes = [], g_modified_date = 0\<rparr>"

lemma listing_conversion_total_witness:
  "\<exists>es. convert_users_to_ldap_op sample_libs [\<lparr>ug_user = sample_user, ug_groups = None\<rparr>] [''*'', ''+'']
      \<lparr>li_base_dn = [(''dc'', ''com'')], li_base_dn_str = ''dc=com'', li_ignored_user_attributes = [],
       li_ignored_group_attributes = []\<rparr> public_schema_get = Inr (map SearchResultEntry es)
    \<and> map sre_dn es = [''uid=bob,ou=people,dc=com'']"
proof -
  let ?us = "[\<lparr>ug_user = sample_user, ug_groups = None\<rparr>]"
  have "build_user_dn (UserId ''bob'') (get_user_ou sample_user) ''dc=com'' = ''uid=bob,ou=people,dc=com''"
    by code_simp
  moreover have "\<forall>u \<in> set ?us. plain_names (u_attributes (ug_user u))" "\<forall>g \<in> set []. plain_names (g_attributes g)"
    by (simp_all add: plain_names_def sample_user_def)
  note listing_conversion_total [OF this, of sample_libs "[''*'', ''+'']"
      "\<lparr>li_base_dn = [(''dc'', ''com'')], li_base_dn_str = ''dc=com'', li_ignored_user_attributes = [],
        li_ignored_group_attributes = []\<rparr>" None]
  ultimately show ?thesis by (simp add: sample_user_def)
qed

section \<open>What an entry shows\<close>

lemma retain_first_distinct:
  "distinct (map pa_atype (retain_first_atype seen as))
   \<and> set (map pa_atype (retain_first_atype seen as)) \<inter> set seen = {}"
  by (induction seen as rule: retain_first_atype.induct) auto

lemma retain_first_subset: "set (retain_first_atype seen as) \<subseteq> set as"
  by (induction seen as rule: retain_first_atype.induct) auto

lemma build_attributes_shape:
  assumes "build_attributes lookup ex cls base = Inr attrs"
  shows "distinct (map pa_atype attrs)"
    and "\<not> include_operational_attributes ex \<Longrightarrow> a \<in> set attrs \<Longrightarrow>
      \<exists>k. (k, pa_atype a) \<in> set (attribute_keys ex) \<and> lookup k = Inr (Some (pa_vals a))
        \<and> \<not> is_operational get_schema_manager (attr_str k)"
proof -
  show "distinct (map pa_atype attrs)"
    using assms retain_first_distinct [of "[]"] by (auto simp: build_attributes_def Let_def rmap_eq_Inr)
next
  assume no: "\<not> include_operational_attributes ex" and a: "a \<in> set attrs"
  let ?f = "\<lambda>(k, n). rmap (\<lambda>vs. case vs of None \<Rightarrow> [] | Some v \<Rightarrow> [\<lparr>pa_atype = n, pa_vals = v\<rparr>]) (lookup k)"
  let ?keys = "filter (\<lambda>(k, _). \<not> is_operational get_schema_manager (attr_str k)
    \<or> include_operational_attributes ex) (attribute_keys ex)"
  obtain found where found: "collect_results (map ?f ?keys) = Inr found" "attrs = retain_first_atype [] (concat found)"
    using assms no by (auto simp: build_attributes_def Let_def rmap_eq_Inr)
  have "a \<in> set (concat found)"
    using a retain_first_subset [of "[]" "concat found"] unfolding found(2) by blast
  then obtain f where f: "f \<in> set found" "a \<in> set f" by auto
  obtain kn where kn: "kn \<in> set ?keys" "?f kn = Inr f"
    using collect_results_in [OF found(1) f(1)] by blast
  obtain k n where "kn = (k, n)" by (cases kn)
  with kn f(2) no show "\<exists>k. (k, pa_atype a) \<in> set (attribute_keys ex) \<and> lookup k = Inr (Some (pa_vals a))
        \<and> \<not> is_operational get_schema_manager (attr_str k)"
    by (auto simp: rmap_eq_Inr intro!: exI [of _ k] split: option.splits)
qed

lemma is_operational_ci:
  "to_ascii_lowercase a = to_ascii_lowercase b \<Longrightarrow> is_operational m a = is_operational m b"
  by (simp add: is_operational_def resolve_attribute_def)

text \<open>A user entry lists every attribute type at most once, and when operational
  attributes were not asked for (neither \<open>+\<close> nor one of them by name) it shows none.\<close>

theorem user_entry_attributes:
  assumes "make_ldap_search_user_result_entry L u base
      (expand_attribute_wildcards get_schema_manager l sch) groups ign sch = Inr e"
  shows "distinct (map pa_atype (sre_attributes e))
    \<and> (include_operational_attributes (expand_attribute_wildcards get_schema_manager l sch)
       \<or> list_all (\<lambda>a. \<not> is_operational get_schema_manager (pa_atype a)) (sre_attributes e))"
proof -
  let ?ex = "expand_attribute_wildcards get_schema_manager l sch"
  let ?ex' = "extend_custom_keys (user_attributes sch) (u_attributes u) ?ex"
  have b: "build_attributes (\<lambda>a. get_user_attribute L u a base groups ign sch) ?ex' ''inetOrgPerson'' base =
      Inr (sre_attributes e)"
    using assms by (auto simp: make_ldap_search_user_result_entry_def rmap_eq_Inr)
  have "\<not> is_operational get_schema_manager (pa_atype a)"
    if no: "\<not> include_operational_attributes ?ex" and a: "a \<in> set (sre_attributes e)" for a
  proof -
    obtain k where k: "(k, pa_atype a) \<in> set (attribute_keys ?ex')" "\<not> is_operational get_schema_manager (attr_str k)"
      using build_attributes_shape(2) [OF b] no a by auto
    have "to_ascii_lowercase (pa_atype a) = to_ascii_lowercase (attr_str k)"
      using k(1) set_extend_custom [of "user_attributes sch" "u_attributes u" ?ex] expand_key_spelling
      by fastforce
    with k(2) show ?thesis using is_operational_ci by blast
  qed
  then show ?thesis
    using build_attributes_shape(1) [OF b] unfolding list_all_iff by blast
qed

lemma user_entry_attributes_witness:
  "\<exists>e. make_ldap_search_user_result_entry sample_libs sample_user ''dc=com''
      (expand_attribute_wildcards get_schema_manager [''uid'', ''ou''] public_schema_get) None [] public_schema_get = Inr e
    \<and> distinct (map pa_atype (sre_attributes e))"
proof -
  have "plain_names (u_attributes sample_user)" by (simp add: plain_names_def sample_user_def)
  from user_entry_ok [OF this, of sample_libs "''dc=com''" "[''uid'', ''ou'']" None "[]"]
  obtain e where "make_ldap_search_user_result_entry sample_libs sample_user ''dc=com''
      (expand_attribute_wildcards get_schema_manager [''uid'', ''ou''] public_schema_get) None [] public_schema_get = Inr e"
    by blast
  from this user_entry_attributes [OF this] show ?thesis by blast
qed

end
