(* ===== verification/Access.thy ===== *)
theory Access
  imports Handlers
begin

text \<open>
  Permissions (\<open>auth/src/access_control.rs\<close>) and the access-controlled backend
  (\<open>access-control/src/lib.rs\<close>): what each permission may read and write, which handler a
  caller receives, how permissions follow from group membership, and the lister that
  restricts an unprivileged search to the caller's own entries.
\<close>

section \<open>Permissions\<close>

datatype permission = Admin | PasswordManager | Readonly | Regular

record validation_results =
  vr_user :: user_id
  vr_permission :: permission

definition is_admin :: "validation_results \<Rightarrow> bool" where
  "is_admin v \<longleftrightarrow> vr_permission v = Admin"

definition can_read_all :: "validation_results \<Rightarrow> bool" where
  "can_read_all v \<longleftrightarrow> vr_permission v = Admin \<or> vr_permission v = Readonly
     \<or> vr_permission v = PasswordManager"

definition can_read :: "validation_results \<Rightarrow> user_id \<Rightarrow> bool" where
  "can_read v u \<longleftrightarrow> vr_permission v = Admin \<or> vr_permission v = PasswordManager
     \<or> vr_permission v = Readonly \<or> vr_user v = u"

definition can_change_password :: "validation_results \<Rightarrow> user_id \<Rightarrow> bool \<Rightarrow> bool" where
  "can_change_password v u user_is_admin \<longleftrightarrow> vr_permission v = Admin
     \<or> (vr_permission v = PasswordManager \<and> \<not> user_is_admin) \<or> vr_user v = u"

definition can_write :: "validation_results \<Rightarrow> user_id \<Rightarrow> bool" where
  "can_write v u \<longleftrightarrow> vr_permission v = Admin \<or> vr_user v = u"

section \<open>Handlers by permission\<close>

text \<open>\<open>then_some\<close>: the guarded handler. The traits a caller receives differ only in the
  methods they expose; the value is the wrapped backend itself.\<close>

definition get_schema_only_handler :: "'s backend \<Rightarrow> validation_results \<Rightarrow> 's backend option" where
  "get_schema_only_handler b v = Some b"

definition get_admin_handler :: "'s backend \<Rightarrow> validation_results \<Rightarrow> 's backend option" where
  "get_admin_handler b v = (if is_admin v then Some b else None)"

definition get_readonly_handler :: "'s backend \<Rightarrow> validation_results \<Rightarrow> 's backend option" where
  "get_readonly_handler b v = (if can_read_all v then Some b else None)"

definition get_writeable_handler :: "'s backend \<Rightarrow> validation_results \<Rightarrow> user_id \<Rightarrow> 's backend option" where
  "get_writeable_handler b v u = (if can_write v u then Some b else None)"

definition get_readable_handler :: "'s backend \<Rightarrow> validation_results \<Rightarrow> user_id \<Rightarrow> 's backend option" where
  "get_readable_handler b v u = (if can_read v u then Some b else None)"

definition get_permissions_from_groups :: "user_id \<Rightarrow> group_name list \<Rightarrow> validation_results" where
  "get_permissions_from_groups u groups =
     (let is_in_group = (\<lambda>name. list_ex (\<lambda>g. group_name_eq g (GroupName name)) groups)
      in \<lparr>vr_user = u,
          vr_permission =
            (if is_in_group ''lldap_admin'' then Admin
             else if is_in_group ''lldap_password_manager'' then PasswordManager
             else if is_in_group ''lldap_strict_readonly'' then Readonly
             else Regular)\<rparr>)"

definition get_permissions_for_user :: "'s backend \<Rightarrow> 's \<Rightarrow> user_id \<Rightarrow> validation_results dresult" where
  "get_permissions_for_user b s u =
     rmap (\<lambda>groups. get_permissions_from_groups u (map gd_display_name groups))
       (b_get_user_groups b s u)"

section \<open>The restricted lister\<close>

record 's restricted_lister =
  rl_handler :: "'s backend"
  rl_user_filter :: "user_id option"

definition get_user_restricted_lister_handler ::
  "'s backend \<Rightarrow> validation_results \<Rightarrow> 's restricted_lister" where
  "get_user_restricted_lister_handler b v =
     \<lparr>rl_handler = b, rl_user_filter = (if can_read_all v then None else Some (vr_user v))\<rparr>"

definition rl_get_schema :: "'s restricted_lister \<Rightarrow> 's \<Rightarrow> public_schema dresult" where
  "rl_get_schema r s =
     rmap (\<lambda>sch. if rl_user_filter r \<noteq> None
                 then sch\<lparr>user_attributes := filter as_is_visible (user_attributes sch),
                          group_attributes := filter as_is_visible (group_attributes sch)\<rparr>
                 else sch)
       (b_get_schema (rl_handler r) s)"

definition restrict_user_filter ::
  "user_id option \<Rightarrow> user_request_filter option \<Rightarrow> user_request_filter option" where
  "restrict_user_filter uf filters =
     (case (filters, map_option UUserId uf) of
        (None, None) \<Rightarrow> None
      | (None, Some u) \<Rightarrow> Some u
      | (Some f, None) \<Rightarrow> Some f
      | (Some f, Some u) \<Rightarrow> Some (UAnd [f, u]))"

definition restrict_group_filter ::
  "user_id option \<Rightarrow> group_request_filter option \<Rightarrow> group_request_filter option" where
  "restrict_group_filter uf filters =
     (case (filters, map_option GMember uf) of
        (None, None) \<Rightarrow> None
      | (None, Some u) \<Rightarrow> Some u
      | (Some f, None) \<Rightarrow> Some f
      | (Some f, Some u) \<Rightarrow> Some (GAnd [f, u]))"

definition rl_list_users ::
  "'s restricted_lister \<Rightarrow> 's \<Rightarrow> user_request_filter option \<Rightarrow> bool \<Rightarrow> user_and_groups list dresult" where
  "rl_list_users r s filters get_groups =
     b_list_users (rl_handler r) s (restrict_user_filter (rl_user_filter r) filters) get_groups"

definition rl_list_groups ::
  "'s restricted_lister \<Rightarrow> 's \<Rightarrow> group_request_filter option \<Rightarrow> group list dresult" where
  "rl_list_groups r s filters =
     b_list_groups (rl_handler r) s (restrict_group_filter (rl_user_filter r) filters)"

section \<open>The order of permissions\<close>

lemmas permission_defs =
  is_admin_def can_read_all_def can_read_def can_change_password_def can_write_def

lemma can_write_can_read: "can_write v u \<Longrightarrow> can_read v u"
  by (auto simp: permission_defs)

lemma can_write_can_change: "can_write v u \<Longrightarrow> can_change_password v u adm"
  by (auto simp: permission_defs)

lemma can_change_can_read: "can_change_password v u adm \<Longrightarrow> can_read v u"
  by (auto simp: permission_defs)

lemma can_read_all_can_read: "can_read_all v \<Longrightarrow> can_read v u"
  by (auto simp: permission_defs)

lemma is_admin_can_write: "is_admin v \<Longrightarrow> can_write v u"
  by (auto simp: permission_defs)

lemma get_handler_iff:
  "get_admin_handler b v = Some b' \<longleftrightarrow> is_admin v \<and> b' = b"
  "get_readable_handler b v u = Some b' \<longleftrightarrow> can_read v u \<and> b' = b"
  "get_writeable_handler b v u = Some b' \<longleftrightarrow> can_write v u \<and> b' = b"
  "get_readonly_handler b v = Some b' \<longleftrightarrow> can_read_all v \<and> b' = b"
  by (auto simp: get_admin_handler_def get_readable_handler_def get_writeable_handler_def
      get_readonly_handler_def)

text \<open>The filter the restricted lister passes on always implies the caller's own identity.\<close>

lemma restrict_user_filter_holds:
  assumes "restrict_user_filter (Some u) f = Some g" and "user_filter_holds V g"
  shows "V (UUserId u)" and "case f of None \<Rightarrow> True | Some f' \<Rightarrow> user_filter_holds V f'"
  using assms by (auto simp: restrict_user_filter_def split: option.splits)

lemma restrict_group_filter_holds:
  assumes "restrict_group_filter (Some u) f = Some g" and "group_filter_holds V g"
  shows "V (GMember u)" and "case f of None \<Rightarrow> True | Some f' \<Rightarrow> group_filter_holds V f'"
  using assms by (auto simp: restrict_group_filter_def split: option.splits)

lemma restrict_user_filter_Some: "\<exists>g. restrict_user_filter (Some u) f = Some g"
  by (cases f) (auto simp: restrict_user_filter_def)

lemma restrict_group_filter_Some: "\<exists>g. restrict_group_filter (Some u) f = Some g"
  by (cases f) (auto simp: restrict_group_filter_def)

section \<open>A lister that respects its filter\<close>

text \<open>What the restricted lister relies on: in a state that satisfies its invariant, a listing returns only entries for which the
  filter holds, over some meaning of the atoms in which \<open>UUserId\<close> is the entry's own
  identifier and \<open>GMember\<close> is membership.\<close>

locale filtering_lister =
  fixes b :: "'s backend"
    and ok :: "'s \<Rightarrow> bool"
    and user_atom :: "'s \<Rightarrow> user \<Rightarrow> user_request_filter \<Rightarrow> bool"
    and group_atom :: "'s \<Rightarrow> group \<Rightarrow> group_request_filter \<Rightarrow> bool"
  assumes user_id_atom: "user_atom s u (UUserId i) \<Longrightarrow> u_user_id u = i"
    and member_atom: "group_atom s g (GMember i) \<Longrightarrow> i \<in> gm_user_id ` set (g_users g)"
    and list_users_sound:
      "ok s \<Longrightarrow> b_list_users b s (Some f) gg = Inr us \<Longrightarrow> x \<in> set us \<Longrightarrow>
         user_filter_holds (user_atom s (ug_user x)) f"
    and list_groups_sound:
      "ok s \<Longrightarrow> b_list_groups b s (Some h) = Inr gs \<Longrightarrow> g \<in> set gs \<Longrightarrow>
         group_filter_holds (group_atom s g) h"
begin

lemma restricted_users_own:
  assumes ok: "ok s" and restricted: "\<not> can_read_all v"
    and "rl_list_users (get_user_restricted_lister_handler b v) s f gg = Inr us"
    and "x \<in> set us"
  shows "u_user_id (ug_user x) = vr_user v"
proof -
  obtain g where g: "restrict_user_filter (Some (vr_user v)) f = Some g"
    using restrict_user_filter_Some by blast
  with assms(2,3) have "b_list_users b s (Some g) gg = Inr us"
    by (simp add: rl_list_users_def get_user_restricted_lister_handler_def)
  then have "user_filter_holds (user_atom s (ug_user x)) g"
    using assms(4) by (rule list_users_sound [OF ok])
  then show ?thesis
    using restrict_user_filter_holds(1) [OF g] user_id_atom by blast
qed

lemma restricted_groups_own:
  assumes ok: "ok s" and restricted: "\<not> can_read_all v"
    and "rl_list_groups (get_user_restricted_lister_handler b v) s f = Inr gs"
    and "g \<in> set gs"
  shows "vr_user v \<in> gm_user_id ` set (g_users g)"
proof -
  obtain h where h: "restrict_group_filter (Some (vr_user v)) f = Some h"
    using restrict_group_filter_Some by blast
  with assms(2,3) have "b_list_groups b s (Some h) = Inr gs"
    by (simp add: rl_list_groups_def get_user_restricted_lister_handler_def)
  then have "group_filter_holds (group_atom s g) h"
    using assms(4) by (rule list_groups_sound [OF ok])
  then show ?thesis
    using restrict_group_filter_holds(1) [OF h] member_atom by blast
qed

end

end
