(* ===== verification/Kerberos.thy ===== *)
theory Kerberos
  imports Prelude
begin

text \<open>
  The Kerberos crate as the LDAP layer uses it (\<open>kerberos/src/lib.rs\<close>): the realm derived from
  the base DN, principal names, and the synchronisation and deletion of principals. The KDC's
  administration library is C code behind \<open>ffi.rs\<close>; its four operations are the fields of the
  record \<open>kerberos\<close> over the same world \<open>'s\<close> as the backend, and the two environment variables
  the crate reads are fields beside them.
\<close>

record 's kerberos =
  env_base_dn :: "string option"
  env_realm_name :: "string option"
  kadm_init :: "'s \<Rightarrow> string \<Rightarrow> string \<Rightarrow> string \<Rightarrow> bool"
  kadm_chpass :: "'s \<Rightarrow> string \<Rightarrow> string \<Rightarrow> string \<Rightarrow> bool \<times> 's"
  kadm_create :: "'s \<Rightarrow> string \<Rightarrow> string \<Rightarrow> string \<Rightarrow> bool \<times> 's"
  kadm_delete :: "'s \<Rightarrow> string \<Rightarrow> bool \<times> 's"

definition domain_of_base_dn :: "string \<Rightarrow> string" where
  "domain_of_base_dn base_dn =
     to_ascii_lowercase (join_with ''.''
       (List.map_filter (\<lambda>part. strip_prefix part ''dc='') (split_on (CHR '','') base_dn)))"

definition realm_of :: "string option \<Rightarrow> string \<Rightarrow> string" where
  "realm_of env base_dn =
     to_uppercase (unwrap_or (to_uppercase (domain_of_base_dn base_dn))
       (case env of Some s \<Rightarrow> if s \<noteq> [] then Some s else None | None \<Rightarrow> None))"

definition derive_realm_from_base_dn :: "'s kerberos \<Rightarrow> string" where
  "derive_realm_from_base_dn K =
     realm_of (env_realm_name K) (unwrap_or ''dc=example,dc=com'' (env_base_dn K))"

definition derive_domain_from_base_dn :: "'s kerberos \<Rightarrow> string" where
  "derive_domain_from_base_dn K = domain_of_base_dn (unwrap_or ''dc=example,dc=com'' (env_base_dn K))"

definition get_kerberos_principal_name :: "'s kerberos \<Rightarrow> string \<Rightarrow> string" where
  "get_kerberos_principal_name K username = username @ ''@'' @ derive_realm_from_base_dn K"

definition delete_kerberos_principal :: "'s kerberos \<Rightarrow> string \<Rightarrow> 's \<Rightarrow> (unit + unit) \<times> 's" where
  "delete_kerberos_principal K username s =
     (let realm_upper = derive_realm_from_base_dn K;
          full_principal = username @ ''@'' @ realm_upper in
      if \<not> kadm_init K s ''/data/kadm5.keytab'' (''admin/admin@'' @ realm_upper) realm_upper
      then (Inr (), s)
      else (case kadm_delete K s full_principal of
              (True, s') \<Rightarrow> (Inr (), s') | (False, s') \<Rightarrow> (Inl (), s')))"

definition sync_kerberos_principal :: "'s kerberos \<Rightarrow> string \<Rightarrow> string \<Rightarrow> 's \<Rightarrow> (unit + unit) \<times> 's" where
  "sync_kerberos_principal K username plain_password s =
     (let realm_upper = derive_realm_from_base_dn K in
      if \<not> kadm_init K s ''/data/kadm5.keytab'' (''admin/admin@'' @ realm_upper) realm_upper
      then (Inl (), s)
      else (case kadm_chpass K s username plain_password realm_upper of
              (True, s') \<Rightarrow> (Inr (), s')
            | (False, s') \<Rightarrow>
                (case kadm_create K s' username plain_password realm_upper of
                   (True, s'') \<Rightarrow> (Inr (), s'') | (False, s'') \<Rightarrow> (Inl (), s''))))"

definition sync_kerberos_if_enabled ::
  "'s kerberos \<Rightarrow> bool \<Rightarrow> string \<Rightarrow> string \<Rightarrow> 's \<Rightarrow> (unit + unit) \<times> 's" where
  "sync_kerberos_if_enabled K sync_enabled u plain_password s =
     (if sync_enabled then sync_kerberos_principal K u plain_password s else (Inr (), s))"

section \<open>Facts\<close>

text \<open>The operations that the KDC performs keep an invariant of the world when each primitive
  one does.\<close>

locale kdc_invariant =
  fixes K :: "'s kerberos" and I :: "'s \<Rightarrow> bool"
  assumes chpass_inv: "I s \<Longrightarrow> I (snd (kadm_chpass K s u p r))"
    and create_inv: "I s \<Longrightarrow> I (snd (kadm_create K s u p r))"
    and delete_inv: "I s \<Longrightarrow> I (snd (kadm_delete K s n))"
begin

lemma delete_principal_inv: "I s \<Longrightarrow> I (snd (delete_kerberos_principal K u s))"
  using delete_inv [of s]
  by (auto simp: delete_kerberos_principal_def Let_def split: prod.splits bool.splits) (metis snd_conv)+

lemma sync_principal_inv: "I s \<Longrightarrow> I (snd (sync_kerberos_principal K u p s))"
  using chpass_inv [of s] create_inv
  by (auto simp: sync_kerberos_principal_def Let_def split: prod.splits bool.splits) (metis snd_conv)+

lemma sync_if_enabled_inv: "I s \<Longrightarrow> I (snd (sync_kerberos_if_enabled K e u p s))"
  using sync_principal_inv by (simp add: sync_kerberos_if_enabled_def)

end

end
