(* ===== verification/Search.thy ===== *)
theory Search
  imports Attributes Access Kerberos
begin

text \<open>
  Searching (\<open>ldap/src/search\<close>): which part of the tree a base DN names (\<open>scope.rs\<close>), the
  synthetic entries of organisational units, the root DSE (\<open>root_dse.rs\<close>), the search itself
  (\<open>handler.rs\<close>, \<open>core/user.rs\<close>, \<open>core/group.rs\<close>) and the compare operation
  (\<open>compare.rs\<close>).
\<close>

section \<open>Scope\<close>

datatype search_scope = Root | Container | LeafUser | LeafGroup | InvalidScope | UnknownScope

definition get_search_scope :: "dn \<Rightarrow> dn \<Rightarrow> ldap_search_scope \<Rightarrow> string list \<Rightarrow> search_scope" where
  "get_search_scope base_dn dn_parts ldap_scope allowed_ous =
     (if \<not> is_subtree dn_parts base_dn then InvalidScope
      else if dn_parts = base_dn then Root
      else if (ldap_scope = ScopeOneLevel \<or> ldap_scope = ScopeSubtree)
              \<and> length dn_parts = length base_dn + 1 then Container
      else
        let leaf = (if ldap_scope = ScopeBase \<and> length dn_parts > length base_dn
                    then get_user_or_group_id_from_distinguished_name (dn_to_string dn_parts) base_dn
                    else UnexpectedFormat) in
        (case leaf of
           UGUser _ \<Rightarrow> LeafUser
         | UGGroup _ \<Rightarrow> LeafGroup
         | _ \<Rightarrow> if is_container_dn dn_parts base_dn allowed_ous then Container else UnknownScope))"

definition make_ou_entry :: "libs \<Rightarrow> string \<Rightarrow> string \<Rightarrow> bool \<Rightarrow> ldap_search_result_entry" where
  "make_ou_entry L ou_str base_dn_str include_op =
     (let rdn_chain = internal_ou_to_ldap_rdn_chain ou_str;
          ou_part = dn_to_string rdn_chain;
          dn = (if ou_part = [] then base_dn_str else ou_part @ '','' @ base_dn_str);
          leaf_ou_val = unwrap_or DEFAULT_PRIMARY_USER_OU (map_option snd (first_opt rdn_chain))
      in \<lparr>sre_dn = dn,
          sre_attributes =
            [\<lparr>pa_atype = ''objectClass'', pa_vals = [''top'', ''organizationalUnit'']\<rparr>,
             \<lparr>pa_atype = ''ou'', pa_vals = [leaf_ou_val]\<rparr>]
            @ (if include_op then
                 [\<lparr>pa_atype = ''hasSubordinates'', pa_vals = [''TRUE'']\<rparr>,
                  \<lparr>pa_atype = ''structuralObjectClass'', pa_vals = [''organizationalUnit'']\<rparr>,
                  \<lparr>pa_atype = ''subschemaSubentry'', pa_vals = [''cn=Subschema,'' @ base_dn_str]\<rparr>,
                  \<lparr>pa_atype = ''entryUUID'', pa_vals = [lib_uuid_v5 L dn]\<rparr>]
               else [])\<rparr>)"

definition build_ou_entries :: "libs \<Rightarrow> string list \<Rightarrow> string \<Rightarrow> bool \<Rightarrow> ldap_op list" where
  "build_ou_entries L allowed_ous base_dn_str include_op =
     map (\<lambda>ou_str. SearchResultEntry (make_ou_entry L ou_str base_dn_str include_op)) allowed_ous"

fun ou_matches_filter :: "string \<Rightarrow> ldap_filter \<Rightarrow> bool" where
  "ou_matches_filter ou_str (FEquality field val) =
     (let f = to_ascii_lowercase field; v = to_ascii_lowercase val in
      if f = ''ou'' then to_ascii_lowercase ou_str = v
      else if f = ''objectclass'' then v = ''organizationalunit'' \<or> v = ''top''
      else True)"
| "ou_matches_filter ou_str (FPresent field) =
     (let f = to_ascii_lowercase field in
      f = ''ou'' \<or> f = ''objectclass'' \<or> f = ''hassubordinates'' \<or> f = ''structuralobjectclass'')"
| "ou_matches_filter ou_str (FAnd filters) = list_all (ou_matches_filter ou_str) filters"
| "ou_matches_filter ou_str (FOr filters) = list_ex (ou_matches_filter ou_str) filters"
| "ou_matches_filter ou_str (FNot f) = (\<not> ou_matches_filter ou_str f)"
| "ou_matches_filter ou_str (FSubstring _ _) = True"
| "ou_matches_filter ou_str (FGreaterOrEqual _ _) = True"
| "ou_matches_filter ou_str (FLessOrEqual _ _) = True"
| "ou_matches_filter ou_str FUnsupported = True"

section \<open>Answers and special entries\<close>

definition make_search_error :: "ldap_result_code \<Rightarrow> message \<Rightarrow> ldap_op" where
  "make_search_error code m = SearchResultDone (result_op code m)"

definition make_search_success :: ldap_op where
  "make_search_success = make_search_error Success (Text [])"

definition make_search_request :: "string \<Rightarrow> ldap_filter \<Rightarrow> string list \<Rightarrow> ldap_search_request" where
  "make_search_request base f attrs =
     \<lparr>sr_base = base, sr_scope = ScopeSubtree, sr_filter = f, sr_attrs = attrs\<rparr>"

text \<open>What the process takes from its environment: the realm variable, the version compiled
  in, the current time as the subschema prints it, and the two OIDs that \<open>ldap3_proto\<close> names.\<close>

record server_env =
  env_realm :: "string option"
  env_version :: string
  env_now :: bytes
  env_oid_password_modify :: string
  env_oid_whoami :: string

definition root_dse_response :: "server_env \<Rightarrow> string \<Rightarrow> ldap_op" where
  "root_dse_response E base_dn =
     (let realm = realm_of (env_realm E) base_dn;
          full_subschema_dn = ''cn=Subschema,'' @ base_dn
      in SearchResultEntry
          \<lparr>sre_dn = [],
           sre_attributes =
            [\<lparr>pa_atype = ''objectClass'', pa_vals = [''top'']\<rparr>,
             \<lparr>pa_atype = ''vendorName'', pa_vals = [''LLDAP'']\<rparr>,
             \<lparr>pa_atype = ''vendorVersion'', pa_vals = [''lldap_'' @ env_version E]\<rparr>,
             \<lparr>pa_atype = ''supportedLDAPVersion'', pa_vals = [''3'']\<rparr>,
             \<lparr>pa_atype = ''supportedExtension'', pa_vals = [env_oid_password_modify E, env_oid_whoami E]\<rparr>,
             \<lparr>pa_atype = ''supportedControl'', pa_vals = [''1.2.840.113556.1.4.319'', ''1.3.6.1.4.1.4203.1.9.1'']\<rparr>,
             \<lparr>pa_atype = ''defaultNamingContext'', pa_vals = [base_dn]\<rparr>,
             \<lparr>pa_atype = ''namingContexts'', pa_vals = [base_dn]\<rparr>,
             \<lparr>pa_atype = ''schemaNamingContext'', pa_vals = [full_subschema_dn]\<rparr>,
             \<lparr>pa_atype = ''configurationNamingContext'', pa_vals = [base_dn]\<rparr>,
             \<lparr>pa_atype = ''isGlobalCatalogReady'', pa_vals = [''false'']\<rparr>,
             \<lparr>pa_atype = ''subschemaSubentry'', pa_vals = [full_subschema_dn]\<rparr>,
             \<lparr>pa_atype = ''krb5RealmName'', pa_vals = [realm]\<rparr>,
             \<lparr>pa_atype = ''supportedSASLMechanisms'', pa_vals = [''GSSAPI'', ''GSS-SPNEGO'', ''DIGEST-MD5'']\<rparr>,
             \<lparr>pa_atype = ''defaultRealm'', pa_vals = [realm]\<rparr>]\<rparr>)"

definition is_root_dse_request :: "ldap_search_request \<Rightarrow> bool" where
  "is_root_dse_request r \<longleftrightarrow> sr_base r = [] \<and> sr_scope r = ScopeBase
     \<and> (case sr_filter r of FPresent attr \<Rightarrow> eq_ignore_ascii_case attr ''objectclass'' | _ \<Rightarrow> False)"

definition is_subschema_entry_request :: "ldap_search_request \<Rightarrow> bool" where
  "is_subschema_entry_request r =
     (let base_lower = to_ascii_lowercase (sr_base r);
          base_matches = contains_str base_lower ''cn=subschema'';
          scope_ok = (sr_scope r = ScopeBase \<or> sr_scope r = ScopeSubtree);
          has_objectclass = list_ex (\<lambda>f. case f of FEquality a _ \<Rightarrow> eq_ignore_ascii_case a ''objectclass'' | _ \<Rightarrow> False);
          filter_ok = (case sr_filter r of
             FPresent attr \<Rightarrow> eq_ignore_ascii_case attr ''objectclass''
           | FEquality attr val \<Rightarrow>
               eq_ignore_ascii_case attr ''objectclass''
               \<and> (val = ''*'' \<or> eq_ignore_ascii_case val ''top'' \<or> eq_ignore_ascii_case val ''subschema'')
           | FAnd filters \<Rightarrow> has_objectclass filters
           | FOr filters \<Rightarrow> has_objectclass filters
           | _ \<Rightarrow> True)
      in base_matches \<and> scope_ok \<and> filter_ok)"

section \<open>The search\<close>

definition get_user_list ::
  "libs \<Rightarrow> ldap_info \<Rightarrow> ldap_filter \<Rightarrow> bool \<Rightarrow> string \<Rightarrow> 's restricted_lister \<Rightarrow> 's \<Rightarrow> public_schema
     \<Rightarrow> user_and_groups list lresult" where
  "get_user_list L info ldap_filter request_groups base r s sch =
     rbind (convert_user_filter L info ldap_filter sch) (\<lambda>filters.
       map_err (\<lambda>e. lerr OtherCode (Rendered (''Error while searching user '' @ quoted base @ '': '')))
         (rl_list_users r s (Some filters) request_groups))"

definition get_groups_list ::
  "libs \<Rightarrow> ldap_info \<Rightarrow> ldap_filter \<Rightarrow> string \<Rightarrow> 's restricted_lister \<Rightarrow> 's \<Rightarrow> public_schema
     \<Rightarrow> group list lresult" where
  "get_groups_list L info ldap_filter base r s sch =
     rbind (convert_group_filter L info ldap_filter sch) (\<lambda>filters.
       map_err (\<lambda>e. lerr OtherCode (Rendered (''Error while listing groups '' @ quoted base @ '': '')))
         (rl_list_groups r s (Some filters)))"

definition requests_operational :: "string list \<Rightarrow> bool" where
  "requests_operational attrs =
     list_ex (\<lambda>a. a = ''+'' \<or> list_ex (eq_ignore_ascii_case a)
       [''hassubordinates'', ''structuralobjectclass'', ''subschemasubentry'', ''createtimestamp'',
        ''modifytimestamp'', ''pwdchangedtime'', ''entryuuid'', ''memberof'']) attrs"

definition root_entry :: "ldap_info \<Rightarrow> ldap_search_result_entry" where
  "root_entry info =
     (let dc_val = unwrap_or ''lldap''
            (map_option snd (find_first (\<lambda>(k, _). eq_ignore_ascii_case k ''dc'') (li_base_dn info)));
          o_val = unwrap_or ''lldap Directory''
            (map_option snd (find_first (\<lambda>(k, _). eq_ignore_ascii_case k ''o'') (li_base_dn info)))
      in \<lparr>sre_dn = li_base_dn_str info,
          sre_attributes =
           [\<lparr>pa_atype = ''objectClass'', pa_vals = [''top'', ''dcObject'', ''organization'']\<rparr>,
            \<lparr>pa_atype = ''dc'', pa_vals = [dc_val]\<rparr>,
            \<lparr>pa_atype = ''o'', pa_vals = [o_val]\<rparr>,
            \<lparr>pa_atype = ''hasSubordinates'', pa_vals = [''TRUE'']\<rparr>,
            \<lparr>pa_atype = ''structuralObjectClass'', pa_vals = [''organization'']\<rparr>,
            \<lparr>pa_atype = ''subschemaSubentry'', pa_vals = [''cn=Subschema,'' @ li_base_dn_str info]\<rparr>]\<rparr>)"

text \<open>Listing the users (or groups) that match and converting them to entries.\<close>

definition user_ops ::
  "libs \<Rightarrow> ldap_info \<Rightarrow> ldap_search_request \<Rightarrow> 's restricted_lister \<Rightarrow> 's \<Rightarrow> public_schema
     \<Rightarrow> ldap_op list hresult" where
  "user_ops L info req r s sch =
     rbind (lift_err (get_user_list L info (sr_filter req) True (sr_base req) r s sch))
       (\<lambda>users. convert_users_to_ldap_op L users (sr_attrs req) info sch)"

definition group_ops ::
  "libs \<Rightarrow> ldap_info \<Rightarrow> ldap_search_request \<Rightarrow> 's restricted_lister \<Rightarrow> 's \<Rightarrow> public_schema
     \<Rightarrow> ldap_op list hresult" where
  "group_ops L info req r s sch =
     rbind (lift_err (get_groups_list L info (sr_filter req) (sr_base req) r s sch))
       (\<lambda>groups. convert_groups_to_ldap_op L groups (sr_attrs req) info None sch)"

definition search_root ::
  "libs \<Rightarrow> 's restricted_lister \<Rightarrow> 's \<Rightarrow> ldap_info \<Rightarrow> ldap_search_request \<Rightarrow> string list
     \<Rightarrow> public_schema \<Rightarrow> bool \<Rightarrow> ldap_op list hresult" where
  "search_root L r s info req allowed_ous sch include_op =
     (if sr_scope req = ScopeBase then Inr [SearchResultEntry (root_entry info), make_search_success]
      else
        let top_level_ous = get_direct_child_ous [] allowed_ous;
            ous = (if sr_scope req = ScopeSubtree then allowed_ous else top_level_ous);
            ous_to_add = filter (\<lambda>ou. ou_matches_filter ou (sr_filter req)) ous;
            results = build_ou_entries L ous_to_add (li_base_dn_str info) include_op in
        if sr_scope req = ScopeSubtree then
          rbind (user_ops L info req r s sch) (\<lambda>us.
          rbind (group_ops L info req r s sch) (\<lambda>gs.
            Inr (results @ us @ gs @ [make_search_success])))
        else Inr (results @ [make_search_success]))"

definition under_base :: "ldap_search_request \<Rightarrow> nat \<Rightarrow> ldap_op \<Rightarrow> bool" where
  "under_base req rdn_count op =
     (case op of
        SearchResultEntry e \<Rightarrow>
          (case parse_distinguished_name (sre_dn e) of
             Inr parts \<Rightarrow>
               let under = ends_with (to_ascii_lowercase (sre_dn e)) (to_ascii_lowercase (sr_base req)) in
               if sr_scope req = ScopeOneLevel then under \<and> length parts = rdn_count + 1 else under
           | Inl _ \<Rightarrow> False)
      | _ \<Rightarrow> True)"

definition search_container ::
  "libs \<Rightarrow> 's restricted_lister \<Rightarrow> 's \<Rightarrow> ldap_info \<Rightarrow> ldap_search_request \<Rightarrow> string list
     \<Rightarrow> public_schema \<Rightarrow> bool \<Rightarrow> dn \<Rightarrow> ldap_op list hresult" where
  "search_container L r s info req allowed_ous sch include_op dn_parts =
     (let internal_ou = get_internal_ou_from_dn_parts dn_parts in
      if sr_scope req = ScopeBase then
        Inr ((if ou_matches_filter internal_ou (sr_filter req)
              then [SearchResultEntry (make_ou_entry L internal_ou (li_base_dn_str info) include_op)] else [])
             @ [make_search_success])
      else
        let children = (if sr_scope req = ScopeOneLevel then get_direct_child_ous internal_ou allowed_ous
              else let curr_l = to_ascii_lowercase internal_ou in
                   filter (\<lambda>ou. curr_l \<noteq> [] \<and> starts_with (to_ascii_lowercase ou) (curr_l @ [backslash])) allowed_ous);
            child_ous = filter (\<lambda>ou. ou_matches_filter ou (sr_filter req)) children;
            results = build_ou_entries L child_ous (li_base_dn_str info) include_op in
        rbind (user_ops L info req r s sch) (\<lambda>us.
        rbind (group_ops L info req r s sch) (\<lambda>gs.
          Inr (results
               @ filter (under_base req (length dn_parts)) us
               @ filter (under_base req (length dn_parts)) gs
               @ [make_search_success]))))"

definition exactly_base :: "ldap_search_request \<Rightarrow> ldap_op \<Rightarrow> bool" where
  "exactly_base req op =
     (case op of
        SearchResultEntry e \<Rightarrow> to_ascii_lowercase (sre_dn e) = to_ascii_lowercase (sr_base req)
      | _ \<Rightarrow> True)"

definition no_such_object :: ldap_error where
  "no_such_object = lerr NoSuchObject (Text [])"

definition search_leaf_user ::
  "libs \<Rightarrow> 's restricted_lister \<Rightarrow> 's \<Rightarrow> ldap_info \<Rightarrow> ldap_search_request \<Rightarrow> public_schema
     \<Rightarrow> ldap_op list hresult" where
  "search_leaf_user L r s info req sch =
     (case get_user_id_from_distinguished_name (sr_base req) (li_base_dn info) (li_base_dn_str info) of
        Inl _ \<Rightarrow> Inr [make_search_success]
      | Inr uid \<Rightarrow>
          rbind (lift_err (get_user_list L info (FEquality ''uid'' (user_id_str uid)) True (sr_base req) r s sch))
            (\<lambda>exists_users.
              if exists_users = [] then Inl (Err no_such_object)
              else rbind (user_ops L info req r s sch) (\<lambda>ops.
                let results = filter (exactly_base req) ops in
                if results = [] then Inr [make_search_success]
                else Inr (results @ [make_search_success]))))"

definition search_leaf_group ::
  "libs \<Rightarrow> 's restricted_lister \<Rightarrow> 's \<Rightarrow> ldap_info \<Rightarrow> ldap_search_request \<Rightarrow> public_schema
     \<Rightarrow> ldap_op list hresult" where
  "search_leaf_group L r s info req sch =
     (case get_group_id_from_distinguished_name (sr_base req) (li_base_dn info) (li_base_dn_str info) of
        Inl _ \<Rightarrow> Inr [make_search_success]
      | Inr gname \<Rightarrow>
          rbind (lift_err (get_groups_list L info
                   (FEquality (get_canonical_name get_schema_manager ''cn'') (group_name_str gname))
                   (sr_base req) r s sch))
            (\<lambda>exists_groups.
              if exists_groups = [] then Inl (Err no_such_object)
              else rbind (group_ops L info req r s sch) (\<lambda>ops.
                let results = filter (exactly_base req) ops in
                if results = [] then Inr [make_search_success]
                else Inr (results @ [make_search_success]))))"

definition do_search ::
  "libs \<Rightarrow> 's restricted_lister \<Rightarrow> 's \<Rightarrow> ldap_info \<Rightarrow> ldap_search_request \<Rightarrow> string list
     \<Rightarrow> ldap_op list hresult" where
  "do_search L r s info req allowed_ous =
     (case parse_distinguished_name (sr_base req) of
        Inl _ \<Rightarrow> Inr [make_search_success]
      | Inr dn_parts \<Rightarrow>
          let sch = public_schema_get; include_op = requests_operational (sr_attrs req) in
          (case get_search_scope (li_base_dn info) dn_parts (sr_scope req) allowed_ous of
             Root \<Rightarrow> search_root L r s info req allowed_ous sch include_op
           | Container \<Rightarrow> search_container L r s info req allowed_ous sch include_op dn_parts
           | LeafUser \<Rightarrow> search_leaf_user L r s info req sch
           | LeafGroup \<Rightarrow> search_leaf_group L r s info req sch
           | InvalidScope \<Rightarrow> Inr [make_search_success]
           | UnknownScope \<Rightarrow> Inr [make_search_success]))"

section \<open>Compare\<close>

definition entries_of :: "ldap_op list \<Rightarrow> ldap_search_result_entry list" where
  "entries_of ops = List.map_filter (\<lambda>op. case op of SearchResultEntry e \<Rightarrow> Some e | _ \<Rightarrow> None) ops"

definition compare :: "ldap_compare_request \<Rightarrow> ldap_op list \<Rightarrow> string \<Rightarrow> ldap_op list lresult" where
  "compare request search_results base_dn =
     (let name = attribute_name_from (cmp_atype request) in
      (case find_first (\<lambda>e. eq_ignore_ascii_case (sre_dn e) (cmp_dn request)) (entries_of search_results) of
         Some entry \<Rightarrow>
           let attribute_exists = list_ex (\<lambda>a. attribute_name_from (pa_atype a) = name
                                     \<and> cmp_val request \<in> set (pa_vals a)) (sre_attributes entry)
           in Inr [CompareResult \<lparr>lr_code = (if attribute_exists then CompareTrue else CompareFalse),
                                   lr_matcheddn = cmp_dn request, lr_message = Text []\<rparr>]
       | None \<Rightarrow>
           Inr [CompareResult \<lparr>lr_code = NoSuchObject, lr_matcheddn = base_dn, lr_message = Text []\<rparr>]))"

section \<open>The shape of an answer\<close>

definition is_entry :: "ldap_op \<Rightarrow> bool" where
  "is_entry op = (case op of SearchResultEntry _ \<Rightarrow> True | _ \<Rightarrow> False)"

lemma is_entry_iff: "is_entry op \<longleftrightarrow> (\<exists>e. op = SearchResultEntry e)"
  by (cases op) (simp_all add: is_entry_def)

lemma collect_entries_only:
  "collect_results (map (\<lambda>x. rmap SearchResultEntry (f x)) xs) = Inr ops \<Longrightarrow> list_all is_entry ops"
  unfolding list_all_iff by (auto simp: is_entry_iff rmap_eq_Inr dest!: collect_results_in)

lemma user_ops_entries: "user_ops L info req r s sch = Inr ops \<Longrightarrow> list_all is_entry ops"
  by (auto simp: user_ops_def rbind_eq_Inr convert_users_to_ldap_op_def Let_def dest: collect_entries_only)

lemma group_ops_entries: "group_ops L info req r s sch = Inr ops \<Longrightarrow> list_all is_entry ops"
  by (auto simp: group_ops_def rbind_eq_Inr convert_groups_to_ldap_op_def Let_def dest: collect_entries_only)

lemma ou_entries_only: "list_all is_entry (build_ou_entries L ous base op)"
  by (simp add: build_ou_entries_def list_all_iff is_entry_iff)

lemma list_all_filter: "list_all P xs \<Longrightarrow> list_all P (filter Q xs)"
  by (simp add: list_all_iff)

lemmas entry_facts = user_ops_entries group_ops_entries ou_entries_only list_all_filter

definition well_formed_answer :: "ldap_op list \<Rightarrow> bool" where
  "well_formed_answer ops \<longleftrightarrow> (\<exists>es. ops = es @ [make_search_success] \<and> list_all is_entry es)"

lemma well_formed_answerI [intro]: "list_all is_entry es \<Longrightarrow> well_formed_answer (es @ [make_search_success])"
  by (auto simp: well_formed_answer_def)

lemma well_formed_success [simp]: "well_formed_answer [make_search_success]"
  using well_formed_answerI [of "[]"] by simp

lemma search_root_answer: "search_root L r s info req ous sch op = Inr ops \<Longrightarrow> well_formed_answer ops"
proof -
  have base: "well_formed_answer [SearchResultEntry (root_entry info), make_search_success]"
    using well_formed_answerI [of "[SearchResultEntry (root_entry info)]"] by (simp add: is_entry_def)
  have sub: "well_formed_answer (a @ us @ gs @ [make_search_success])"
    if "list_all is_entry a" "list_all is_entry us" "list_all is_entry gs" for a us gs
    using well_formed_answerI [of "a @ us @ gs"] that by simp
  assume "search_root L r s info req ous sch op = Inr ops"
  then show ?thesis
    by (auto simp: search_root_def Let_def rbind_eq_Inr base entry_facts sub split: if_splits)
qed

lemma search_container_answer:
  "search_container L r s info req ous sch op parts = Inr ops \<Longrightarrow> well_formed_answer ops"
proof -
  have base: "well_formed_answer (SearchResultEntry e # [make_search_success])" for e
    using well_formed_answerI [of "[SearchResultEntry e]"] by (simp add: is_entry_def)
  have sub: "well_formed_answer (a @ us @ gs @ [make_search_success])"
    if "list_all is_entry a" "list_all is_entry us" "list_all is_entry gs" for a us gs
    using well_formed_answerI [of "a @ us @ gs"] that by simp
  assume "search_container L r s info req ous sch op parts = Inr ops"
  then show ?thesis
    by (auto simp: search_container_def Let_def rbind_eq_Inr base entry_facts sub split: if_splits)
qed

lemma search_leaf_answer:
  "search_leaf_user L r s info req sch = Inr ops \<Longrightarrow> well_formed_answer ops"
  "search_leaf_group L r s info req sch = Inr ops \<Longrightarrow> well_formed_answer ops"
  by (auto simp: search_leaf_user_def search_leaf_group_def Let_def rbind_eq_Inr entry_facts
      split: if_splits sum.splits)

lemmas answer_facts = search_root_answer search_container_answer search_leaf_answer

lemma do_search_answer: "do_search L r s info req ous = Inr ops \<Longrightarrow> well_formed_answer ops"
  by (auto simp: do_search_def Let_def answer_facts split: sum.splits search_scope.splits)

section \<open>Confinement to the base\<close>

text \<open>The entries a search below the root may return: an organisational unit, or an entry
  whose DN ends in the requested base, at the depth the scope allows.\<close>

definition confined :: "libs \<Rightarrow> ldap_info \<Rightarrow> ldap_search_request \<Rightarrow> nat \<Rightarrow> ldap_search_result_entry \<Rightarrow> bool" where
  "confined L info req depth e \<longleftrightarrow>
     (\<exists>ou op. e = make_ou_entry L ou (li_base_dn_str info) op \<and> ou_matches_filter ou (sr_filter req))
     \<or> (ends_with (to_ascii_lowercase (sre_dn e)) (to_ascii_lowercase (sr_base req))
        \<and> (case sr_scope req of
             ScopeOneLevel \<Rightarrow> \<exists>parts. parse_distinguished_name (sre_dn e) = Inr parts \<and> length parts = depth + 1
           | ScopeBase \<Rightarrow> to_ascii_lowercase (sre_dn e) = to_ascii_lowercase (sr_base req)
           | _ \<Rightarrow> True))"

lemma under_base_confined:
  "under_base req depth (SearchResultEntry e) \<Longrightarrow> sr_scope req \<noteq> ScopeBase \<Longrightarrow> confined L info req depth e"
  by (auto simp: under_base_def confined_def Let_def split: sum.splits if_splits ldap_search_scope.splits)

lemma ou_confined:
  "ou_matches_filter ou (sr_filter req) \<Longrightarrow> confined L info req d (make_ou_entry L ou (li_base_dn_str info) op)"
  unfolding confined_def by blast

lemma container_confined:
  assumes "search_container L r s info req ous sch op parts = Inr ops" "SearchResultEntry e \<in> set ops"
  shows "confined L info req (length parts) e"
proof (cases "sr_scope req = ScopeBase")
  case True
  with assms show ?thesis
    by (auto simp: search_container_def Let_def make_search_success_def make_search_error_def
        intro: ou_confined split: if_splits)
next
  case False
  with assms show ?thesis
    by (auto simp: search_container_def Let_def rbind_eq_Inr build_ou_entries_def
        make_search_success_def make_search_error_def
        intro: under_base_confined ou_confined)
qed

lemma leaf_confined:
  "search_leaf_user L r s info req sch = Inr ops \<Longrightarrow> SearchResultEntry e \<in> set ops \<Longrightarrow>
     to_ascii_lowercase (sre_dn e) = to_ascii_lowercase (sr_base req)"
  "search_leaf_group L r s info req sch = Inr ops \<Longrightarrow> SearchResultEntry e \<in> set ops \<Longrightarrow>
     to_ascii_lowercase (sre_dn e) = to_ascii_lowercase (sr_base req)"
  by (auto simp: search_leaf_user_def search_leaf_group_def Let_def rbind_eq_Inr exactly_base_def
      make_search_success_def make_search_error_def split: if_splits sum.splits)

lemma scope_leaf_base:
  "get_search_scope b p sc ous = LeafUser \<or> get_search_scope b p sc ous = LeafGroup \<Longrightarrow> sc = ScopeBase"
  by (auto simp: get_search_scope_def Let_def split: if_splits user_or_group_name.splits)

lemma scope_root_base: "get_search_scope b p sc ous = Root \<Longrightarrow> p = b"
  by (auto simp: get_search_scope_def Let_def split: if_splits user_or_group_name.splits)

text \<open>C32: A search whose base is not the root of the tree stays below its base: every entry
  of the answer is an organisational unit that passes the client's filter, or its DN ends in the
  requested base, has exactly one more component under a one-level scope, and is the base
  itself under a base scope. A base outside the tree gives an empty answer.\<close>

theorem search_confined_to_base:
  assumes "parse_distinguished_name (sr_base req) = Inr parts" and "parts \<noteq> li_base_dn info"
    and "do_search L r s info req ous = Inr ops"
  shows "(SearchResultEntry e \<notin> set ops \<or> confined L info req (length parts) e)
    \<and> (is_subtree parts (li_base_dn info) \<or> ops = [make_search_success])"
proof -
  let ?scope = "get_search_scope (li_base_dn info) parts (sr_scope req) ous"
  have "?scope \<noteq> Root" using assms(2) scope_root_base by blast
  moreover have "confined L info req (length parts) e"
    if "?scope = LeafUser \<or> ?scope = LeafGroup" "to_ascii_lowercase (sre_dn e) = to_ascii_lowercase (sr_base req)"
    using scope_leaf_base [OF that(1)] that(2) by (simp add: confined_def ends_with_def)
  moreover have "\<not> is_subtree parts (li_base_dn info) \<Longrightarrow> ?scope = InvalidScope"
    by (simp add: get_search_scope_def)
  ultimately show ?thesis
    using assms(1,3)
    by (auto simp: do_search_def Let_def make_search_success_def make_search_error_def
        dest: container_confined leaf_confined split: search_scope.splits)
qed

end
