(* ===== verification/Subschema.thy ===== *)
theory Subschema
  imports Search
begin

text \<open>
  The subschema entry (\<open>ldap/src/search/subschema.rs\<close>): the static attribute types, the ones
  generated from the schema with their object identifiers, and the object classes. The theorem
  says that the published object identifiers are pairwise distinct.
\<close>

definition attr_type_to_ldap_syntax :: "attribute_schema \<Rightarrow> string \<times> bool \<times> bool" where
  "attr_type_to_ldap_syntax a =
     (let syntax = (case as_attribute_type a of
            TString \<Rightarrow> ''1.3.6.1.4.1.1466.115.121.1.15''
          | TInteger \<Rightarrow> ''1.3.6.1.4.1.1466.115.121.1.27''
          | TDateTime \<Rightarrow> ''1.3.6.1.4.1.1466.115.121.1.24''
          | TAvatar \<Rightarrow> ''1.3.6.1.4.1.1466.115.121.1.28'');
          name_lower = to_ascii_lowercase (as_name a)
      in (syntax, \<not> as_is_list a,
          as_is_readonly a \<or> name_lower \<in> {''creationdate'', ''modifieddate'', ''passwordmodifieddate'', ''uuid'', ''entryuuid''}))"

definition core_entries :: "(string \<times> bytes) list" where
  "core_entries =
     [(''2.5.4.0'',
       ''( 2.5.4.0 NAME 'objectClass' DESC 'RFC4512' EQUALITY objectIdentifierMatch SYNTAX 1.3.6.1.4.1.1466.115.121.1.38 )''),
      (''2.5.4.3'',
       ''( 2.5.4.3 NAME ( 'cn' 'commonName' 'displayname' 'display_name' ) DESC 'RFC4519' EQUALITY caseIgnoreMatch SUBSTR caseIgnoreSubstringsMatch SYNTAX 1.3.6.1.4.1.1466.115.121.1.15{256} SINGLE-VALUE )''),
      (''2.5.4.4'',
       ''( 2.5.4.4 NAME ( 'sn' 'surname' 'lastname' 'last_name' ) DESC 'RFC2256' EQUALITY caseIgnoreMatch SUBSTR caseIgnoreSubstringsMatch SYNTAX 1.3.6.1.4.1.1466.115.121.1.15{256} SINGLE-VALUE )''),
      (''0.9.2342.19200300.100.1.1'',
       ''( 0.9.2342.19200300.100.1.1 NAME ( 'uid' 'user_id' 'userid' 'id' ) DESC 'User identifier' EQUALITY caseIgnoreMatch SUBSTR caseIgnoreSubstringsMatch SYNTAX 1.3.6.1.4.1.1466.115.121.1.15{256} SINGLE-VALUE )'')]"

definition std_entries :: "(string \<times> bytes) list" where
  "std_entries =
     [(''2.5.4.42'',
       ''( 2.5.4.42 NAME ( 'givenName' 'givenname' 'firstname' 'first_name' ) DESC 'RFC4519 givenName' EQUALITY caseIgnoreMatch SUBSTR caseIgnoreSubstringsMatch SYNTAX 1.3.6.1.4.1.1466.115.121.1.15{256} SINGLE-VALUE )''),
      (''0.9.2342.19200300.100.1.3'',
       ''( 0.9.2342.19200300.100.1.3 NAME ( 'mail' 'email' 'rfc822Mailbox' ) DESC 'RFC1274/2307 mail' EQUALITY caseIgnoreMatch SUBSTR caseIgnoreSubstringsMatch SYNTAX 1.3.6.1.4.1.1466.115.121.1.15{256} SINGLE-VALUE )''),
      (''2.5.4.11'',
       ''( 2.5.4.11 NAME ( 'ou' 'organizationalUnit' 'organizationalunit' 'organizationalUnitName' ) DESC 'RFC4519 ou' EQUALITY caseIgnoreMatch SUBSTR caseIgnoreSubstringsMatch SYNTAX 1.3.6.1.4.1.1466.115.121.1.15{256} SINGLE-VALUE )''),
      (''1.3.6.1.1.1.1.0'',
       ''( 1.3.6.1.1.1.1.0 NAME ( 'uidNumber' 'uidnumber' 'uid_number' 'uidNumber' ) DESC 'RFC2307 uidNumber' EQUALITY integerMatch SYNTAX 1.3.6.1.4.1.1466.115.121.1.27 SINGLE-VALUE )''),
      (''1.3.6.1.1.1.1.1'',
       ''( 1.3.6.1.1.1.1.1 NAME ( 'gidNumber' 'gidnumber' 'gid_number' 'gidNumber' ) DESC 'RFC2307 gidNumber' EQUALITY integerMatch SYNTAX 1.3.6.1.4.1.1466.115.121.1.27 SINGLE-VALUE )''),
      (''1.3.6.1.1.1.1.3'',
       ''( 1.3.6.1.1.1.1.3 NAME ( 'homeDirectory' 'homedirectory' 'home_directory' 'homeDirectory' ) DESC 'RFC2307 homeDirectory' EQUALITY caseIgnoreMatch SYNTAX 1.3.6.1.4.1.1466.115.121.1.15{256} SINGLE-VALUE )''),
      (''1.3.6.1.1.1.1.4'',
       ''( 1.3.6.1.1.1.1.4 NAME ( 'loginShell' 'loginshell' 'login_shell' 'loginShell' ) DESC 'RFC2307 loginShell' EQUALITY caseIgnoreMatch SYNTAX 1.3.6.1.4.1.1466.115.121.1.15{256} SINGLE-VALUE )''),
      (''1.3.6.1.1.1.1.8'',
       ''( 1.3.6.1.1.1.1.8 NAME ( 'sshPublicKey' 'sshpublickey' 'sshPublicKey' 'ssHPublicKey' ) DESC 'OpenSSH/LDAP sshPublicKey' EQUALITY caseIgnoreMatch SYNTAX 1.3.6.1.4.1.1466.115.121.1.15 )''),
      (''1.3.6.1.4.1.5322.1.1.2'',
       ''( 1.3.6.1.4.1.5322.1.1.2 NAME ( 'krbPrincipalName' 'krb_principal_name' 'krbPrincipalName' ) DESC 'Kerberos principal name' EQUALITY caseIgnoreMatch SUBSTR caseIgnoreSubstringsMatch SYNTAX 1.3.6.1.4.1.1466.115.121.1.15{256} SINGLE-VALUE NO-USER-MODIFICATION USAGE directoryOperation )''),
      (''0.9.2342.19200300.100.1.60'',
       ''( 0.9.2342.19200300.100.1.60 NAME ( 'jpegPhoto' 'jpegphoto' 'avatar' ) DESC 'RFC2798 jpegPhoto' EQUALITY caseIgnoreMatch SYNTAX 1.3.6.1.4.1.1466.115.121.1.28 )'')]"

definition op_entries :: "(string \<times> bytes) list" where
  "op_entries =
     [(''1.3.6.1.1.16.4'',
       ''( 1.3.6.1.1.16.4 NAME ( 'entryUUID' 'uuid' ) DESC 'UUID' EQUALITY UUIDMatch ORDERING UUIDOrderingMatch SYNTAX 1.3.6.1.1.16.1 SINGLE-VALUE NO-USER-MODIFICATION USAGE directoryOperation )''),
      (''2.5.18.1'',
       ''( 2.5.18.1 NAME ( 'createTimestamp' 'creationdate' 'creation_date' 'creationTimestamp' ) DESC 'RFC4512' EQUALITY generalizedTimeMatch ORDERING generalizedTimeOrderingMatch SYNTAX 1.3.6.1.4.1.1466.115.121.1.24 SINGLE-VALUE NO-USER-MODIFICATION USAGE directoryOperation )''),
      (''2.5.18.2'',
       ''( 2.5.18.2 NAME ( 'modifyTimestamp' 'modifieddate' 'modified_date' 'modifydate' 'modifyTimestamp' ) DESC 'RFC4512' EQUALITY generalizedTimeMatch ORDERING generalizedTimeOrderingMatch SYNTAX 1.3.6.1.4.1.1466.115.121.1.24 SINGLE-VALUE NO-USER-MODIFICATION USAGE directoryOperation )''),
      (''2.5.18.3'',
       ''( 2.5.18.3 NAME 'creatorsName' DESC 'RFC4512' EQUALITY distinguishedNameMatch SYNTAX 1.3.6.1.4.1.1466.115.121.1.12 SINGLE-VALUE NO-USER-MODIFICATION USAGE directoryOperation )''),
      (''2.5.18.4'',
       ''( 2.5.18.4 NAME 'modifiersName' DESC 'RFC4512' EQUALITY distinguishedNameMatch SYNTAX 1.3.6.1.4.1.1466.115.121.1.12 SINGLE-VALUE NO-USER-MODIFICATION USAGE directoryOperation )''),
      (''1.2.840.113556.1.2.102'',
       ''( 1.2.840.113556.1.2.102 NAME 'memberOf' DESC 'Group membership' EQUALITY distinguishedNameMatch SYNTAX 1.3.6.1.4.1.1466.115.121.1.12 NO-USER-MODIFICATION USAGE dSAOperation )''),
      (''1.3.6.1.4.1.1466.101.120.6'',
       ''( 1.3.6.1.4.1.1466.101.120.6 NAME 'hasSubordinates' DESC 'X.500 Has Subordinates' EQUALITY booleanMatch SYNTAX 1.3.6.1.4.1.1466.115.121.1.7 SINGLE-VALUE NO-USER-MODIFICATION USAGE directoryOperation )''),
      (''2.5.21.1'',
       ''( 2.5.21.1 NAME 'structuralObjectClass' DESC 'X.500 Structural Object Class' EQUALITY objectIdentifierMatch SYNTAX 1.3.6.1.4.1.1466.115.121.1.38 SINGLE-VALUE NO-USER-MODIFICATION USAGE directoryOperation )''),
      (''2.5.21.2'',
       ''( 2.5.21.2 NAME 'subschemaSubentry' DESC 'X.500 Subschema Subentry' EQUALITY distinguishedNameMatch SYNTAX 1.3.6.1.4.1.1466.115.121.1.12 SINGLE-VALUE NO-USER-MODIFICATION USAGE directoryOperation )''),
      (''1.3.6.1.4.1.42.2.27.8.1.16'',
       ''( 1.3.6.1.4.1.42.2.27.8.1.16 NAME ( 'pwdChangedTime' 'passwordmodifieddate' 'password_modified_date' ) DESC 'Password last changed time' EQUALITY generalizedTimeMatch SYNTAX 1.3.6.1.4.1.1466.115.121.1.24 SINGLE-VALUE NO-USER-MODIFICATION USAGE dSAOperation )''),
      (''1.3.6.1.4.1.15953.9.1.2'',
       ''( 1.3.6.1.4.1.15953.9.1.2 NAME ( 'sudoHost' 'sudohost' ) DESC 'Host(s) who may run sudo (from sudoers LDAP schema; synthesized by lldap_sudohost group membership)' EQUALITY caseExactIA5Match SUBSTR caseExactIA5SubstringsMatch SYNTAX 1.3.6.1.4.1.1466.115.121.1.26 NO-USER-MODIFICATION USAGE directoryOperation )''),
      (''2.16.840.1.113719.1.1.4.1.7'',
       ''( 2.16.840.1.113719.1.1.4.1.7 NAME ( 'loginDisabled' 'logindisabled' ) DESC 'NDS/eDirectory loginDisabled (SSSD nds policy / account disable; synthesized by lldap_disabled group membership)' EQUALITY caseIgnoreMatch SYNTAX 1.3.6.1.4.1.1466.115.121.1.15 SINGLE-VALUE NO-USER-MODIFICATION USAGE directoryOperation )'')]"

definition static_covered_attrs :: "string list" where
  "static_covered_attrs =
     [''avatar'', ''creationdate'', ''displayname'', ''firstname'', ''lastname'', ''mail'',
      ''modifieddate'', ''passwordmodifieddate'', ''userid'', ''uuid'', ''uidnumber'',
      ''gidnumber'', ''homedirectory'', ''loginshell'', ''krbprincipalname'', ''sshpublickey'',
      ''ou'', ''logindisabled'', ''sudohost'']"

text \<open>\<open>seen_attr_oids\<close> and \<open>dynamic_attr_types\<close> as one list of the identifiers and entries
  pushed so far, beside the \<open>u32\<close> counter of custom identifiers.\<close>

definition push_if_unseen :: "(string \<times> bytes) list \<Rightarrow> string \<times> bytes \<Rightarrow> (string \<times> bytes) list" where
  "push_if_unseen acc e = (if fst e \<in> fst ` set acc then acc else acc @ [e])"

definition dynamic_oid :: "attribute_schema \<Rightarrow> nat \<Rightarrow> string \<times> nat" where
  "dynamic_oid a counter =
     (if as_name a = ''avatar'' then (''10.0'', counter)
      else if as_name a = ''sshpublickey'' then (''10.1'', counter)
      else if as_name a = ''kerberossync'' then (''1.3.6.1.4.1.5322.1.1.1'', counter)
      else if as_name a = ''groupid'' then (''10.2'', counter)
      else (''10.'' @ digits_of counter, counter + 1))"

definition single_quoted :: "string \<Rightarrow> string" where
  "single_quoted s = [CHR 0x27] @ s @ [CHR 0x27]"

definition dynamic_entry :: "attribute_schema \<Rightarrow> string \<Rightarrow> bytes" where
  "dynamic_entry a oid =
     (let preferred = get_preferred_ldap_name a;
          (syntax, is_single, is_op) = attr_type_to_ldap_syntax a;
          single_str = (if is_single then '' SINGLE-VALUE'' else []);
          op_str = (if is_op then '' NO-USER-MODIFICATION USAGE directoryOperation'' else []);
          equality = (case as_attribute_type a of TInteger \<Rightarrow> ''integerMatch''
                      | TDateTime \<Rightarrow> ''generalizedTimeMatch'' | _ \<Rightarrow> ''caseIgnoreMatch'');
          name_list = (if as_aliases a = [] then single_quoted preferred
            else join_with '' '' (single_quoted preferred
                   # map single_quoted (filter (\<lambda>x. x \<noteq> preferred) (as_aliases a))));
          desc = ''LLDAP '' @ as_name a @ '' ('' @ (if as_is_list a then ''multi'' else ''single'') @ '')''
      in ''( '' @ oid @ '' NAME ( '' @ name_list @ '' ) DESC '' @ single_quoted desc @ '' EQUALITY '' @ equality
         @ '' SYNTAX '' @ syntax @ single_str @ op_str @ '' )'')"

definition push_dynamic ::
  "(string \<times> bytes) list \<times> nat \<Rightarrow> attribute_schema \<Rightarrow> (string \<times> bytes) list \<times> nat" where
  "push_dynamic st a =
     (case st of (acc, counter) \<Rightarrow>
        if as_name a \<in> set static_covered_attrs then (acc, counter)
        else let (oid, counter') = dynamic_oid a counter
             in (acc @ [(oid, dynamic_entry a oid)], counter'))"

text \<open>\<open>get_all_user_attributes\<close> and \<open>get_all_group_attributes\<close> read \<open>PublicSchema::get\<close>, whatever the
  manager was built from.\<close>

definition attribute_type_entries :: "attribute_list \<Rightarrow> (string \<times> bytes) list" where
  "attribute_type_entries attrs =
     (let static = foldl push_if_unseen (foldl push_if_unseen [] core_entries) std_entries
      in foldl push_if_unseen (fst (foldl push_dynamic (static, 100) attrs)) op_entries)"

definition push_may :: "string list \<Rightarrow> string \<Rightarrow> string list" where
  "push_may acc name =
     (if to_ascii_lowercase name \<in> to_ascii_lowercase ` set acc then acc else acc @ [name])"

definition operational_may_names :: "string list" where
  "operational_may_names =
     [''createtimestamp'', ''creationdate'', ''creation_date'', ''modifytimestamp'',
      ''modifieddate'', ''modified_date'', ''pwdchangedtime'', ''passwordmodifieddate'',
      ''password_modified_date'', ''entryuuid'', ''uuid'', ''memberof'', ''hassubordinates'',
      ''structuralobjectclass'', ''subschemasubentry'']"

definition inet_may :: "attribute_list \<Rightarrow> string list" where
  "inet_may user_attrs =
     (let m0 = foldl push_may [] [''cn'', ''sn'', ''givenName'', ''displayName'', ''uid'', ''mail''];
          m1 = foldl push_may m0 (filter (\<lambda>p. to_ascii_lowercase p \<notin> set operational_may_names)
                 (map get_preferred_ldap_name user_attrs))
      in foldl push_may m1
           [''createTimestamp'', ''modifyTimestamp'', ''pwdChangedTime'', ''memberOf'', ''loginDisabled'', ''sudoHost''])"

definition ldap_syntaxes :: "bytes list" where
  "ldap_syntaxes =
     [''( 1.3.6.1.1.16.1 DESC 'UUID' )'',
      ''( 1.3.6.1.4.1.1466.115.121.1.3 DESC 'Attribute Type Description' )'',
      ''( 1.3.6.1.4.1.1466.115.121.1.12 DESC 'Distinguished Name' )'',
      ''( 1.3.6.1.4.1.1466.115.121.1.15 DESC 'Directory String' )'',
      ''( 1.3.6.1.4.1.1466.115.121.1.24 DESC 'Generalized Time' )'',
      ''( 1.3.6.1.4.1.1466.115.121.1.27 DESC 'Integer' )'',
      ''( 1.3.6.1.4.1.1466.115.121.1.28 DESC 'JPEG' X-NOT-HUMAN-READABLE 'TRUE' )'',
      ''( 1.3.6.1.4.1.1466.115.121.1.34 DESC 'Name And Optional UID' )'',
      ''( 1.3.6.1.4.1.1466.115.121.1.37 DESC 'Object Class Description' )'',
      ''( 1.3.6.1.4.1.1466.115.121.1.38 DESC 'OID' )'',
      ''( 1.3.6.1.4.1.1466.115.121.1.54 DESC 'LDAP Syntax Description' )'',
      ''( 1.3.6.1.4.1.1466.115.121.1.58 DESC 'Substring Assertion' )'']"

definition matching_rules :: "bytes list" where
  "matching_rules =
     [''( 1.3.6.1.1.16.2 NAME 'UUIDMatch' SYNTAX 1.3.6.1.1.16.1 )'',
      ''( 1.3.6.1.1.16.3 NAME 'UUIDOrderingMatch' SYNTAX 1.3.6.1.1.16.1 )'',
      ''( 2.5.13.0 NAME 'objectIdentifierMatch' SYNTAX 1.3.6.1.4.1.1466.115.121.1.38 )'',
      ''( 2.5.13.1 NAME 'distinguishedNameMatch' SYNTAX 1.3.6.1.4.1.1466.115.121.1.12 )'',
      ''( 2.5.13.2 NAME 'caseIgnoreMatch' SYNTAX 1.3.6.1.4.1.1466.115.121.1.15 )'',
      ''( 2.5.13.4 NAME 'caseIgnoreSubstringsMatch' SYNTAX 1.3.6.1.4.1.1466.115.121.1.58 )'',
      ''( 2.5.13.23 NAME 'uniqueMemberMatch' SYNTAX 1.3.6.1.4.1.1466.115.121.1.34 )'',
      ''( 2.5.13.27 NAME 'generalizedTimeMatch' SYNTAX 1.3.6.1.4.1.1466.115.121.1.24 )'',
      ''( 2.5.13.28 NAME 'generalizedTimeOrderingMatch' SYNTAX 1.3.6.1.4.1.1466.115.121.1.24 )'',
      ''( 2.5.13.30 NAME 'objectIdentifierFirstComponentMatch' SYNTAX 1.3.6.1.4.1.1466.115.121.1.38 )'']"

definition object_classes :: "string \<Rightarrow> bytes list" where
  "object_classes inet_may_str =
     [''( 2.5.6.0 NAME 'top' DESC 'RFC4512' ABSTRACT MUST objectClass )'',
      ''( 2.5.6.6 NAME 'person' DESC 'RFC4519' STRUCTURAL MUST ( cn $ sn $ objectClass ) MAY ( userPassword $ telephoneNumber $ seeAlso $ description $ givenName $ mail ) )'',
      ''( 2.5.6.7 NAME 'organizationalPerson' DESC 'RFC4519' STRUCTURAL SUP person MAY ( title $ ou $ o $ l $ st $ postalAddress ) )'',
      ''( 1.3.6.1.1.3.1 NAME 'inetOrgPerson' DESC 'RFC2798' STRUCTURAL SUP organizationalPerson MUST ( cn $ sn $ objectClass ) MAY ( '' @ inet_may_str @ '' ) )'',
      ''( 1.3.6.1.1.1.2.0 NAME 'posixAccount' DESC 'RFC2307' STRUCTURAL MUST ( cn $ uid $ uidNumber $ gidNumber $ homeDirectory $ objectClass ) MAY ( '' @ ''userPassword $ loginShell $ gecos $ description $ sshPublicKey $ avatar $ kerberosSync $ loginDisabled $ sudoHost'' @ '' ) )'',
      ''( 2.5.6.9 NAME 'groupOfNames' DESC 'RFC4519' STRUCTURAL MUST ( member $ cn $ objectClass ) MAY ( businessCategory $ seeAlso $ owner $ ou $ o $ description ) )'',
      ''( 2.5.6.17 NAME 'groupOfUniqueNames' DESC 'RFC4519' STRUCTURAL MUST ( uniqueMember $ cn $ objectClass ) MAY ( businessCategory $ seeAlso $ owner $ ou $ o $ description ) )'',
      ''( 1.3.6.1.1.1.2.2 NAME 'posixGroup' DESC 'RFC2307' STRUCTURAL MUST ( cn $ gidNumber $ objectClass ) MAY ( '' @ ''userPassword $ memberUid $ description $ gidNumber'' @ '' ) )'',
      ''( 1.3.6.1.4.1.24552.500.1.1.2.0 NAME 'ldapPublicKey' SUP top AUXILIARY DESC 'OpenSSH LPK auxiliary object class for SSH public keys' MAY sshPublicKey )'']"

definition make_ldap_subschema_entry :: "server_env \<Rightarrow> string \<Rightarrow> ldap_op" where
  "make_ldap_subschema_entry E base_dn_str =
     (let full_subschema_dn = ''cn=Subschema,'' @ base_dn_str;
          user_attrs = user_attributes public_schema_get;
          group_attrs = group_attributes public_schema_get;
          inet_may_str = join_with '' $ '' (inet_may user_attrs)
      in SearchResultEntry
         \<lparr>sre_dn = full_subschema_dn,
          sre_attributes =
           [\<lparr>pa_atype = ''structuralObjectClass'', pa_vals = [''subentry'']\<rparr>,
            \<lparr>pa_atype = ''objectClass'', pa_vals = [''top'', ''subentry'', ''subschema'', ''extensibleObject'']\<rparr>,
            \<lparr>pa_atype = ''cn'', pa_vals = [''Subschema'']\<rparr>,
            \<lparr>pa_atype = ''createTimestamp'', pa_vals = [env_now E]\<rparr>,
            \<lparr>pa_atype = ''modifyTimestamp'', pa_vals = [env_now E]\<rparr>,
            \<lparr>pa_atype = ''ldapSyntaxes'', pa_vals = ldap_syntaxes\<rparr>,
            \<lparr>pa_atype = ''matchingRules'', pa_vals = matching_rules\<rparr>,
            \<lparr>pa_atype = ''attributeTypes'', pa_vals = map snd (attribute_type_entries (user_attrs @ group_attrs))\<rparr>,
            \<lparr>pa_atype = ''objectClasses'', pa_vals = object_classes inet_may_str\<rparr>,
            \<lparr>pa_atype = ''subschemaSubentry'', pa_vals = [full_subschema_dn]\<rparr>]\<rparr>)"

section \<open>Object identifiers\<close>

definition fixed_oid :: "string \<Rightarrow> string option" where
  "fixed_oid n = (if n = ''avatar'' then Some ''10.0'' else if n = ''sshpublickey'' then Some ''10.1''
     else if n = ''kerberossync'' then Some ''1.3.6.1.4.1.5322.1.1.1''
     else if n = ''groupid'' then Some ''10.2'' else None)"

lemma dynamic_oid_fixed:
  "dynamic_oid a c = (case fixed_oid (as_name a) of Some d \<Rightarrow> (d, c) | None \<Rightarrow> (''10.'' @ digits_of c, c + 1))"
  by (simp add: dynamic_oid_def fixed_oid_def)

lemma fixed_oid_inj: "fixed_oid m = Some d \<Longrightarrow> fixed_oid n = Some d \<Longrightarrow> m = n"
  by (auto simp: fixed_oid_def split: if_splits)

lemma fixed_oid_not_counter: "100 \<le> k \<Longrightarrow> fixed_oid n \<noteq> Some (''10.'' @ digits_of k)"
proof -
  assume k: "100 \<le> k"
  have "parse_digits 0 ''0'' = Some 0" "parse_digits 0 ''1'' = Some 1" "parse_digits 0 ''2'' = Some 2"
    by (simp_all add: digit_val_def)
  then have "digits_of k \<noteq> ''0''" "digits_of k \<noteq> ''1''" "digits_of k \<noteq> ''2''"
    using k parse_digits_of [of k] by auto
  then show ?thesis by (auto simp: fixed_oid_def)
qed

text \<open>The identifiers pushed for a list of attributes, from a counter on.\<close>

fun dynamic_oids :: "nat \<Rightarrow> attribute_list \<Rightarrow> string list" where
  "dynamic_oids c [] = []"
| "dynamic_oids c (a # as) =
     (if as_name a \<in> set static_covered_attrs then dynamic_oids c as
      else fst (dynamic_oid a c) # dynamic_oids (snd (dynamic_oid a c)) as)"

lemma foldl_push_dynamic:
  "map fst (fst (foldl push_dynamic (acc, c) as)) = map fst acc @ dynamic_oids c as"
  by (induction as arbitrary: acc c) (auto simp: push_dynamic_def Let_def split: prod.splits)

abbreviation dynamic_names :: "attribute_list \<Rightarrow> string list" where
  "dynamic_names as \<equiv> map as_name (filter (\<lambda>a. as_name a \<notin> set static_covered_attrs) as)"

lemma dynamic_oids_range:
  "d \<in> set (dynamic_oids c as) \<Longrightarrow>
     (\<exists>k \<ge> c. d = ''10.'' @ digits_of k) \<or> (\<exists>n \<in> set (dynamic_names as). fixed_oid n = Some d)"
proof (induction as arbitrary: c)
  case (Cons a as)
  show ?case
  proof (cases "as_name a \<in> set static_covered_attrs")
    case True
    with Cons show ?thesis by auto
  next
    case dyn: False
    with Cons.prems consider "d = fst (dynamic_oid a c)" | "d \<in> set (dynamic_oids (snd (dynamic_oid a c)) as)"
      by auto
    then show ?thesis
    proof cases
      case 1
      with dyn show ?thesis by (auto simp: dynamic_oid_fixed split: option.splits)
    next
      case 2
      have "c \<le> snd (dynamic_oid a c)" by (simp add: dynamic_oid_fixed split: option.splits)
      from Cons.IH [OF 2] show ?thesis
      proof
        assume "\<exists>k \<ge> snd (dynamic_oid a c). d = ''10.'' @ digits_of k"
        then show ?thesis using \<open>c \<le> snd (dynamic_oid a c)\<close> le_trans by blast
      qed (use dyn in auto)
    qed
  qed
qed simp

lemma dynamic_oids_distinct:
  assumes "distinct (dynamic_names as)" "100 \<le> c"
  shows "distinct (dynamic_oids c as)"
  using assms
proof (induction as arbitrary: c)
  case (Cons a as)
  show ?case
  proof (cases "as_name a \<in> set static_covered_attrs")
    case False
    let ?o = "dynamic_oid a c"
    have le: "100 \<le> snd ?o" using Cons.prems(2) by (simp add: dynamic_oid_fixed split: option.splits)
    have "fst ?o \<notin> set (dynamic_oids (snd ?o) as)"
    proof
      assume "fst ?o \<in> set (dynamic_oids (snd ?o) as)"
      then have r: "(\<exists>k \<ge> snd ?o. fst ?o = ''10.'' @ digits_of k) \<or> (\<exists>n \<in> set (dynamic_names as). fixed_oid n = Some (fst ?o))"
        by (rule dynamic_oids_range)
      show False
      proof (cases "fixed_oid (as_name a)")
        case None
        then have o: "fst ?o = ''10.'' @ digits_of c" "snd ?o = c + 1" by (simp_all add: dynamic_oid_fixed)
        with r show False using fixed_oid_not_counter [OF Cons.prems(2)] by (auto simp: digits_of_inj)
      next
        case (Some d)
        then have o: "fst ?o = d" "snd ?o = c" by (simp_all add: dynamic_oid_fixed)
        have "\<not> (\<exists>k \<ge> c. d = ''10.'' @ digits_of k)"
          using fixed_oid_not_counter Some Cons.prems(2) le_trans by blast
        with r have "\<exists>n \<in> set (dynamic_names as). fixed_oid n = Some d" unfolding o by blast
        then have "as_name a \<in> set (dynamic_names as)" using fixed_oid_inj [OF Some] by blast
        with Cons.prems(1) False show False by simp
      qed
    qed
    moreover have "distinct (dynamic_names as)" using Cons.prems(1) False by simp
    ultimately show ?thesis using Cons.IH [OF _ le] False by simp
  qed (use Cons in simp)
qed simp

lemma push_if_unseen_distinct:
  "distinct (map fst acc) \<Longrightarrow> distinct (map fst (foldl push_if_unseen acc es))"
proof (induction es arbitrary: acc)
  case (Cons e es)
  then have "distinct (map fst (push_if_unseen acc e))" by (auto simp: push_if_unseen_def)
  then show ?case using Cons.IH by simp
qed simp

lemma push_if_unseen_subset: "fst ` set (foldl push_if_unseen acc es) \<subseteq> fst ` set acc \<union> fst ` set es"
proof (induction es arbitrary: acc)
  case (Cons e es)
  have "fst ` set (push_if_unseen acc e) \<subseteq> insert (fst e) (fst ` set acc)" by (auto simp: push_if_unseen_def)
  then have "fst ` set (push_if_unseen acc e) \<union> fst ` set es \<subseteq> fst ` set acc \<union> fst ` set (e # es)" by auto
  with Cons [of "push_if_unseen acc e"] show ?case by (simp add: subset_trans)
qed simp

lemma static_oids_not_dynamic:
  assumes "d \<in> fst ` set core_entries \<union> fst ` set std_entries"
  shows "d \<noteq> ''10.'' @ digits_of k" "fixed_oid n \<noteq> Some d"
  using assms by (auto simp: core_entries_def std_entries_def fixed_oid_def)

text \<open>The object identifiers of the published attribute types are pairwise distinct, for
  every list of attributes in which the names without a static entry differ: the counter never
  meets a fixed identifier, and no generated identifier collides with a static one.\<close>

theorem attribute_type_oids_distinct:
  assumes "distinct (dynamic_names attrs)"
  shows "distinct (map fst (attribute_type_entries attrs))"
proof -
  let ?static = "foldl push_if_unseen (foldl push_if_unseen [] core_entries) std_entries"
  have st: "distinct (map fst ?static)" by (intro push_if_unseen_distinct) simp
  have sub: "fst ` set ?static \<subseteq> fst ` set core_entries \<union> fst ` set std_entries"
    using push_if_unseen_subset [of "foldl push_if_unseen [] core_entries" std_entries]
      push_if_unseen_subset [of "[]" core_entries] by auto
  have "set (map fst ?static) \<inter> set (dynamic_oids 100 attrs) = {}"
  proof (rule equals0I, elim IntE)
    fix d assume "d \<in> set (map fst ?static)" "d \<in> set (dynamic_oids 100 attrs)"
    then have "d \<in> fst ` set core_entries \<union> fst ` set std_entries" using sub by auto
    then show False using dynamic_oids_range [OF \<open>d \<in> set (dynamic_oids 100 attrs)\<close>] static_oids_not_dynamic by blast
  qed
  then have "distinct (map fst (fst (foldl push_dynamic (?static, 100) attrs)))"
    unfolding foldl_push_dynamic using st dynamic_oids_distinct [OF assms] by simp
  then show ?thesis
    unfolding attribute_type_entries_def Let_def by (rule push_if_unseen_distinct)
qed

lemma attribute_type_oids_distinct_witness:
  "distinct (map fst (attribute_type_entries (user_attributes public_schema_get @ group_attributes public_schema_get)))"
  by (rule attribute_type_oids_distinct)
    (simp add: public_schema_get_def core_user_attributes_def extra_user_attributes_def
      public_group_attributes_def hardcoded_attr_def static_covered_attrs_def)

end
