(* ===== verification/Sql_Tables.thy ===== *)
theory Sql_Tables
  imports Handlers Kerberos
begin

text \<open>
  The database of the SQL backend: one record per table, with the columns of the SeaORM entities
  (\<open>domain-model/src/model\<close>), and the statements the backend issues against them. A table is a
  list of rows in insertion order. The keys are those that \<open>sql_migrations.rs\<close> creates: primary
  keys, unique indices on the two forms of an email, on UUIDs, on the two forms of a group name
  and on memberships, and foreign keys with cascading deletes. A statement that breaks a key
  fails as a whole, with an error text of the engine that is not part of the model.

  The text of the engine's comparison of a date or of a blob with a text, the JSON and bincode
  codecs and the name-based UUID are fields of the record \<open>sql_libs\<close>. Text columns compare as
  SQLite and PostgreSQL compare them by default, byte by byte.
\<close>

section \<open>Tables\<close>

record user_row =
  ur_user_id :: user_id
  ur_email :: email
  ur_lowercase_email :: string
  ur_display_name :: "string option"
  ur_creation_date :: date
  ur_password_hash :: "bytes option"
  ur_totp_secret :: "string option"
  ur_mfa_type :: "string option"
  ur_uuid :: uuid
  ur_modified_date :: date
  ur_password_modified_date :: date
  ur_krb_principal_name :: "string option"

record group_row =
  gr_group_id :: group_id
  gr_display_name :: group_name
  gr_lowercase_display_name :: string
  gr_creation_date :: date
  gr_uuid :: uuid
  gr_modified_date :: date

record membership_row =
  mb_user_id :: user_id
  mb_group_id :: group_id

record user_attribute_row =
  ua_user_id :: user_id
  ua_name :: attribute_name
  ua_value :: bytes

record group_attribute_row =
  ga_group_id :: group_id
  ga_name :: attribute_name
  ga_value :: bytes

record attribute_schema_row =
  sr_name :: attribute_name
  sr_type :: attribute_type
  sr_is_list :: bool
  sr_is_visible :: bool
  sr_is_editable :: bool
  sr_is_hardcoded :: bool
  sr_is_readonly :: bool
  sr_aliases :: string

record object_class_row =
  oc_lower :: string
  oc_name :: string

record db =
  t_users :: "user_row list"
  t_groups :: "group_row list"
  t_memberships :: "membership_row list"
  t_user_attributes :: "user_attribute_row list"
  t_group_attributes :: "group_attribute_row list"
  t_user_attribute_schema :: "attribute_schema_row list"
  t_group_attribute_schema :: "attribute_schema_row list"
  t_user_object_classes :: "object_class_row list"
  t_group_object_classes :: "object_class_row list"
  t_system_config :: "(string \<times> string) list"
  t_next_group_id :: group_id

text \<open>The world of the backend: its database, the state of the KDC and the clock.\<close>

record 'k world =
  w_db :: db
  w_kdc :: 'k
  w_now :: date

datatype sql_value = VNull | VText string | VDate date | VBlob bytes

record sql_libs =
  sl_libs :: libs
  sl_eq :: "sql_value \<Rightarrow> string \<Rightarrow> bool"
  sl_ge :: "sql_value \<Rightarrow> string \<Rightarrow> bool"
  sl_le :: "sql_value \<Rightarrow> string \<Rightarrow> bool"
  sl_date_text :: "date \<Rightarrow> string"
  sl_json_of_strings :: "string list \<Rightarrow> bytes"
  sl_strings_of_json :: "string \<Rightarrow> string list option"
  sl_json_of_posix :: "posix_settings \<Rightarrow> string"
  sl_posix_of_json :: "string \<Rightarrow> posix_settings option"
  sl_bincode_date :: "bytes \<Rightarrow> date option"
  sl_bincode_dates :: "bytes \<Rightarrow> date list option"
  sl_uuid_v3 :: "string \<Rightarrow> date \<Rightarrow> uuid"

abbreviation unique_violation :: string where
  "unique_violation \<equiv> ''UNIQUE constraint failed''"

abbreviation foreign_key_violation :: string where
  "foreign_key_violation \<equiv> ''FOREIGN KEY constraint failed''"

abbreviation record_not_updated :: string where
  "record_not_updated \<equiv> ''None of the records are updated''"

abbreviation no_such_column :: string where
  "no_such_column \<equiv> ''no such column: groups.group_id''"

section \<open>Expressions\<close>

text \<open>SQL's three truth values: \<^const>\<open>None\<close> is \<open>NULL\<close>. A row is selected when its condition is
  true.\<close>

type_synonym truth = "bool option"

definition sql_not :: "truth \<Rightarrow> truth" where
  "sql_not t = map_option Not t"

definition sql_all :: "truth list \<Rightarrow> truth" where
  "sql_all ts = (if Some False \<in> set ts then Some False
     else if None \<in> set ts then None else Some True)"

definition sql_any :: "truth list \<Rightarrow> truth" where
  "sql_any ts = (if Some True \<in> set ts then Some True
     else if None \<in> set ts then None else Some False)"

text \<open>\<open>LIKE\<close> with the two wildcards and no escape character, SQLite's default.\<close>

fun sql_like :: "string \<Rightarrow> string \<Rightarrow> bool" where
  "sql_like s [] \<longleftrightarrow> s = []"
| "sql_like [] (p # ps) \<longleftrightarrow> p = CHR ''%'' \<and> sql_like [] ps"
| "sql_like (c # s) (p # ps) \<longleftrightarrow>
     (if p = CHR ''%'' then sql_like (c # s) ps \<or> sql_like s (p # ps)
      else (p = CHR ''_'' \<or> p = c) \<and> sql_like s ps)"

definition value_eq :: "sql_libs \<Rightarrow> sql_value \<Rightarrow> string \<Rightarrow> truth" where
  "value_eq Q v t = (case v of VNull \<Rightarrow> None | VText s \<Rightarrow> Some (s = t) | _ \<Rightarrow> Some (sl_eq Q v t))"

definition value_ge :: "sql_libs \<Rightarrow> sql_value \<Rightarrow> string \<Rightarrow> truth" where
  "value_ge Q v t = (case v of VNull \<Rightarrow> None | _ \<Rightarrow> Some (sl_ge Q v t))"

definition value_le :: "sql_libs \<Rightarrow> sql_value \<Rightarrow> string \<Rightarrow> truth" where
  "value_le Q v t = (case v of VNull \<Rightarrow> None | _ \<Rightarrow> Some (sl_le Q v t))"

text \<open>\<open>LOWER(col) LIKE pattern\<close>; a blob or a date is read as text.\<close>

definition lower_like :: "sql_libs \<Rightarrow> sql_value \<Rightarrow> string \<Rightarrow> truth" where
  "lower_like Q v pattern =
     (case v of
        VNull \<Rightarrow> None
      | VText s \<Rightarrow> Some (sql_like (to_ascii_lowercase s) pattern)
      | VBlob s \<Rightarrow> Some (sql_like (to_ascii_lowercase s) pattern)
      | VDate d \<Rightarrow> Some (sql_like (to_ascii_lowercase (sl_date_text Q d)) pattern))"

section \<open>Statements\<close>

definition find_user :: "db \<Rightarrow> user_id \<Rightarrow> user_row option" where
  "find_user d u = find_first (\<lambda>r. ur_user_id r = u) (t_users d)"

definition find_group :: "db \<Rightarrow> group_id \<Rightarrow> group_row option" where
  "find_group d g = find_first (\<lambda>r. gr_group_id r = g) (t_groups d)"

definition unique_users :: "user_row list \<Rightarrow> bool" where
  "unique_users rs \<longleftrightarrow> distinct (map ur_user_id rs) \<and> distinct (map ur_email rs)
     \<and> distinct (map ur_lowercase_email rs) \<and> distinct (map ur_uuid rs)"

definition unique_groups :: "group_row list \<Rightarrow> bool" where
  "unique_groups rs \<longleftrightarrow> distinct (map gr_group_id rs) \<and> distinct (map gr_display_name rs)
     \<and> distinct (map gr_lowercase_display_name rs) \<and> distinct (map gr_uuid rs)"

definition insert_user :: "user_row \<Rightarrow> db \<Rightarrow> db dresult" where
  "insert_user r d =
     (if unique_users (t_users d @ [r]) then Inr (d\<lparr>t_users := t_users d @ [r]\<rparr>)
      else Inl (DatabaseError unique_violation))"

text \<open>\<open>ActiveModel::update\<close>: an update that reaches no row is an error.\<close>

definition update_user_row :: "user_id \<Rightarrow> (user_row \<Rightarrow> user_row) \<Rightarrow> db \<Rightarrow> db dresult" where
  "update_user_row u f d =
     (let rs = map (\<lambda>r. if ur_user_id r = u then f r else r) (t_users d) in
      if find_user d u = None then Inl (DatabaseError record_not_updated)
      else if unique_users rs then Inr (d\<lparr>t_users := rs\<rparr>)
      else Inl (DatabaseError unique_violation))"

definition update_group_row :: "group_id \<Rightarrow> (group_row \<Rightarrow> group_row) \<Rightarrow> db \<Rightarrow> db dresult" where
  "update_group_row g f d =
     (let rs = map (\<lambda>r. if gr_group_id r = g then f r else r) (t_groups d) in
      if find_group d g = None then Inl (DatabaseError record_not_updated)
      else if unique_groups rs then Inr (d\<lparr>t_groups := rs\<rparr>)
      else Inl (DatabaseError unique_violation))"

text \<open>An inserted group receives the next automatic identifier.\<close>

definition insert_group :: "group_row \<Rightarrow> db \<Rightarrow> (group_id \<times> db) dresult" where
  "insert_group r d =
     (let r' = r\<lparr>gr_group_id := t_next_group_id d\<rparr> in
      if unique_groups (t_groups d @ [r'])
      then Inr (t_next_group_id d,
                d\<lparr>t_groups := t_groups d @ [r'], t_next_group_id := t_next_group_id d + 1\<rparr>)
      else Inl (DatabaseError unique_violation))"

definition delete_user_row :: "user_id \<Rightarrow> db \<Rightarrow> nat \<times> db" where
  "delete_user_row u d =
     (length (filter (\<lambda>r. ur_user_id r = u) (t_users d)),
      d\<lparr>t_users := filter (\<lambda>r. ur_user_id r \<noteq> u) (t_users d),
        t_memberships := filter (\<lambda>m. mb_user_id m \<noteq> u) (t_memberships d),
        t_user_attributes := filter (\<lambda>a. ua_user_id a \<noteq> u) (t_user_attributes d)\<rparr>)"

definition delete_group_row :: "group_id \<Rightarrow> db \<Rightarrow> nat \<times> db" where
  "delete_group_row g d =
     (length (filter (\<lambda>r. gr_group_id r = g) (t_groups d)),
      d\<lparr>t_groups := filter (\<lambda>r. gr_group_id r \<noteq> g) (t_groups d),
        t_memberships := filter (\<lambda>m. mb_group_id m \<noteq> g) (t_memberships d),
        t_group_attributes := filter (\<lambda>a. ga_group_id a \<noteq> g) (t_group_attributes d)\<rparr>)"

definition insert_membership :: "membership_row \<Rightarrow> db \<Rightarrow> db dresult" where
  "insert_membership m d =
     (if find_user d (mb_user_id m) = None \<or> find_group d (mb_group_id m) = None
      then Inl (DatabaseError foreign_key_violation)
      else if m \<in> set (t_memberships d) then Inl (DatabaseError unique_violation)
      else Inr (d\<lparr>t_memberships := t_memberships d @ [m]\<rparr>))"

definition delete_membership :: "membership_row \<Rightarrow> db \<Rightarrow> nat \<times> db" where
  "delete_membership m d =
     (length (filter (\<lambda>x. x = m) (t_memberships d)),
      d\<lparr>t_memberships := filter (\<lambda>x. x \<noteq> m) (t_memberships d)\<rparr>)"

text \<open>The foreign keys of an attribute row, a plain insertion and one with
  \<open>ON CONFLICT (id, name) DO UPDATE SET value\<close>.\<close>

definition user_attribute_keys_ok :: "db \<Rightarrow> user_attribute_row \<Rightarrow> bool" where
  "user_attribute_keys_ok d a \<longleftrightarrow> find_user d (ua_user_id a) \<noteq> None
     \<and> ua_name a \<in> sr_name ` set (t_user_attribute_schema d)"

definition same_user_attribute :: "user_attribute_row \<Rightarrow> user_attribute_row \<Rightarrow> bool" where
  "same_user_attribute a b \<longleftrightarrow> ua_user_id a = ua_user_id b \<and> ua_name a = ua_name b"

definition insert_user_attribute :: "user_attribute_row \<Rightarrow> db \<Rightarrow> db dresult" where
  "insert_user_attribute a d =
     (if \<not> user_attribute_keys_ok d a then Inl (DatabaseError foreign_key_violation)
      else if list_ex (same_user_attribute a) (t_user_attributes d)
      then Inl (DatabaseError unique_violation)
      else Inr (d\<lparr>t_user_attributes := t_user_attributes d @ [a]\<rparr>))"

definition upsert_user_attribute :: "user_attribute_row \<Rightarrow> db \<Rightarrow> db dresult" where
  "upsert_user_attribute a d =
     (if \<not> user_attribute_keys_ok d a then Inl (DatabaseError foreign_key_violation)
      else if list_ex (same_user_attribute a) (t_user_attributes d)
      then Inr (d\<lparr>t_user_attributes :=
             map (\<lambda>b. if same_user_attribute a b then b\<lparr>ua_value := ua_value a\<rparr> else b)
               (t_user_attributes d)\<rparr>)
      else Inr (d\<lparr>t_user_attributes := t_user_attributes d @ [a]\<rparr>))"

definition group_attribute_keys_ok :: "db \<Rightarrow> group_attribute_row \<Rightarrow> bool" where
  "group_attribute_keys_ok d a \<longleftrightarrow> find_group d (ga_group_id a) \<noteq> None
     \<and> ga_name a \<in> sr_name ` set (t_group_attribute_schema d)"

definition same_group_attribute :: "group_attribute_row \<Rightarrow> group_attribute_row \<Rightarrow> bool" where
  "same_group_attribute a b \<longleftrightarrow> ga_group_id a = ga_group_id b \<and> ga_name a = ga_name b"

definition insert_group_attribute :: "group_attribute_row \<Rightarrow> db \<Rightarrow> db dresult" where
  "insert_group_attribute a d =
     (if \<not> group_attribute_keys_ok d a then Inl (DatabaseError foreign_key_violation)
      else if list_ex (same_group_attribute a) (t_group_attributes d)
      then Inl (DatabaseError unique_violation)
      else Inr (d\<lparr>t_group_attributes := t_group_attributes d @ [a]\<rparr>))"

definition upsert_group_attribute :: "group_attribute_row \<Rightarrow> db \<Rightarrow> db dresult" where
  "upsert_group_attribute a d =
     (if \<not> group_attribute_keys_ok d a then Inl (DatabaseError foreign_key_violation)
      else if list_ex (same_group_attribute a) (t_group_attributes d)
      then Inr (d\<lparr>t_group_attributes :=
             map (\<lambda>b. if same_group_attribute a b then b\<lparr>ga_value := ga_value a\<rparr> else b)
               (t_group_attributes d)\<rparr>)
      else Inr (d\<lparr>t_group_attributes := t_group_attributes d @ [a]\<rparr>))"

text \<open>A statement with several rows, and a transaction: an error leaves the database as it
  was.\<close>

fun for_each :: "('a \<Rightarrow> 's \<Rightarrow> 'e + 's) \<Rightarrow> 'a list \<Rightarrow> 's \<Rightarrow> 'e + 's" where
  "for_each f [] s = Inr s"
| "for_each f (x # xs) s = rbind (f x s) (for_each f xs)"

definition transaction :: "(db \<Rightarrow> ('a \<times> db) dresult) \<Rightarrow> 'k world \<Rightarrow> 'a dresult \<times> 'k world" where
  "transaction f w =
     (case f (w_db w) of Inl e \<Rightarrow> (Inl e, w) | Inr (x, d) \<Rightarrow> (Inr x, w\<lparr>w_db := d\<rparr>))"

definition execute :: "(db \<Rightarrow> db dresult) \<Rightarrow> 'k world \<Rightarrow> unit dresult \<times> 'k world" where
  "execute f = transaction (\<lambda>d. rmap (Pair ()) (f d))"

section \<open>The meaning of a substring filter\<close>

text \<open>What a substring assertion asks of a value: it begins with the initial part, contains the
  middle parts in order without overlap, and ends with the final part.\<close>

fun any_match :: "string list \<Rightarrow> string \<Rightarrow> string \<Rightarrow> bool" where
  "any_match [] fin s \<longleftrightarrow> (\<exists>g. s = g @ fin)"
| "any_match (a # as) fin s \<longleftrightarrow> (\<exists>g r. s = g @ a @ r \<and> any_match as fin r)"

definition substring_match :: "sub_string_filter \<Rightarrow> string \<Rightarrow> bool" where
  "substring_match f s \<longleftrightarrow>
     (\<exists>r. s = to_ascii_lowercase (unwrap_or [] (ss_initial f)) @ r
       \<and> any_match (map to_ascii_lowercase (ss_any f))
           (to_ascii_lowercase (unwrap_or [] (ss_final f))) r)"

definition literal_text :: "string \<Rightarrow> bool" where
  "literal_text s \<longleftrightarrow> CHR ''%'' \<notin> set s \<and> CHR ''_'' \<notin> set s"

definition literal_filter :: "sub_string_filter \<Rightarrow> bool" where
  "literal_filter f \<longleftrightarrow> literal_text (unwrap_or [] (ss_initial f))
     \<and> list_all literal_text (ss_any f) \<and> literal_text (unwrap_or [] (ss_final f))"

lemma sql_like_percent: "sql_like s (CHR ''%'' # p) \<longleftrightarrow> (\<exists>g r. s = g @ r \<and> sql_like r p)"
proof (induction s)
  case (Cons c s)
  have "sql_like (c # s) (CHR ''%'' # p) \<longleftrightarrow> sql_like (c # s) p \<or> (\<exists>g r. s = g @ r \<and> sql_like r p)"
    by (simp only: sql_like.simps Cons.IH if_True refl)
  also have "\<dots> \<longleftrightarrow> (\<exists>g r. c # s = g @ r \<and> sql_like r p)"
    by (auto simp: Cons_eq_append_conv)
  finally show ?case .
qed simp

lemma sql_like_literal:
  "literal_text l \<Longrightarrow> sql_like s (l @ p) \<longleftrightarrow> (\<exists>r. s = l @ r \<and> sql_like r p)"
proof (induction l arbitrary: s)
  case (Cons c l)
  then show ?case by (cases s) (auto simp: literal_text_def)
qed simp

lemma mem_lower_fixed:
  assumes "\<And>x. ascii_lower x = c \<longleftrightarrow> x = c"
  shows "c \<in> set (to_ascii_lowercase s) \<longleftrightarrow> c \<in> set s"
  unfolding to_ascii_lowercase_def set_map image_iff using assms by metis

lemma ascii_lower_wildcard:
  "ascii_lower x = CHR ''%'' \<longleftrightarrow> x = CHR ''%''"
  "ascii_lower x = CHR ''_'' \<longleftrightarrow> x = CHR ''_''"
  by (cases x; simp add: ascii_lower_Char; blast)+

lemma literal_text_lower [simp]: "literal_text (to_ascii_lowercase s) = literal_text s"
  by (simp only: literal_text_def mem_lower_fixed [OF ascii_lower_wildcard(1)]
      mem_lower_fixed [OF ascii_lower_wildcard(2)])

lemma sql_like_any_match:
  assumes "list_all literal_text as" and "literal_text fin"
  shows "sql_like s (CHR ''%'' # concat (map (\<lambda>a. a @ ''%'') as) @ fin) \<longleftrightarrow> any_match as fin s"
  using assms(1)
proof (induction as arbitrary: s)
  case Nil
  show ?case
    using sql_like_literal [OF assms(2), of _ "[]"] by (simp add: sql_like_percent) 
next
  case (Cons a as)
  then show ?case
    by (simp add: sql_like_percent sql_like_literal) blast
qed

text \<open>The LIKE pattern that \<open>SubStringFilter::to_sql_filter\<close> builds matches a lower-case value
  exactly when the value begins with the filter's initial part, contains its middle parts in order
  without overlap and ends with its final part, all folded to lower case, provided no part contains
  a character that LIKE reads as a wildcard.\<close>

theorem to_sql_filter_exact:
  assumes "literal_filter f"
  shows "sql_like s (to_sql_filter f) \<longleftrightarrow> substring_match f s"
proof -
  let ?i = "to_ascii_lowercase (unwrap_or [] (ss_initial f))"
  let ?as = "map to_ascii_lowercase (ss_any f)"
  let ?fin = "to_ascii_lowercase (unwrap_or [] (ss_final f))"
  have lit: "literal_text ?i" "list_all literal_text ?as" "literal_text ?fin"
    using assms by (simp_all add: literal_filter_def list_all_iff)
  have "to_sql_filter f = ?i @ CHR ''%'' # concat (map (\<lambda>a. a @ ''%'') ?as) @ ?fin"
    by (simp add: to_sql_filter_def unwrap_or_def comp_def to_ascii_lowercase_def split: option.split)
  then show ?thesis
    by (simp only: sql_like_literal [OF lit(1)] sql_like_any_match [OF lit(2,3)] substring_match_def)
qed

theorem to_sql_filter_exact_witness:
  "sql_like ''john.doe@example.com''
     (to_sql_filter \<lparr>ss_initial = Some ''John'', ss_any = [''doe''], ss_final = Some ''.com''\<rparr>)
   \<and> substring_match \<lparr>ss_initial = Some ''John'', ss_any = [''doe''], ss_final = Some ''.com''\<rparr>
       ''john.doe@example.com''"
proof -
  let ?f = "\<lparr>ss_initial = Some ''John'', ss_any = [''doe''], ss_final = Some ''.com''\<rparr>"
  have "literal_filter ?f" by (simp add: literal_filter_def literal_text_def)
  moreover have "sql_like ''john.doe@example.com'' (to_sql_filter ?f)" by code_simp
  ultimately show ?thesis using to_sql_filter_exact by blast
qed

text \<open>The wildcards of LIKE are not escaped: a filter whose literal initial part is \<open>a_\<close> also
  matches a value that begins with \<open>ab\<close>, which the filter does not ask for.\<close>

theorem to_sql_filter_unescaped:
  "sql_like ''abc'' (to_sql_filter \<lparr>ss_initial = Some ''a_'', ss_any = [], ss_final = None\<rparr>)
   \<and> \<not> substring_match \<lparr>ss_initial = Some ''a_'', ss_any = [], ss_final = None\<rparr> ''abc''"
  by (simp add: to_sql_filter_def substring_match_def to_ascii_lowercase_def)

section \<open>The keys of the database\<close>

definition db_ok :: "db \<Rightarrow> bool" where
  "db_ok d \<longleftrightarrow>
     unique_users (t_users d) \<and> unique_groups (t_groups d) \<and> distinct (t_memberships d)
     \<and> (\<forall>r \<in> set (t_groups d). gr_group_id r < t_next_group_id d)
     \<and> (\<forall>m \<in> set (t_memberships d).
          mb_user_id m \<in> ur_user_id ` set (t_users d) \<and> mb_group_id m \<in> gr_group_id ` set (t_groups d))
     \<and> distinct (map (\<lambda>a. (ua_user_id a, ua_name a)) (t_user_attributes d))
     \<and> (\<forall>a \<in> set (t_user_attributes d).
          ua_user_id a \<in> ur_user_id ` set (t_users d)
          \<and> ua_name a \<in> sr_name ` set (t_user_attribute_schema d))
     \<and> distinct (map (\<lambda>a. (ga_group_id a, ga_name a)) (t_group_attributes d))
     \<and> (\<forall>a \<in> set (t_group_attributes d).
          ga_group_id a \<in> gr_group_id ` set (t_groups d)
          \<and> ga_name a \<in> sr_name ` set (t_group_attribute_schema d))
     \<and> (\<forall>r \<in> set (t_users d). ur_lowercase_email r = to_ascii_lowercase (email_str (ur_email r)))
     \<and> (\<forall>r \<in> set (t_groups d).
          gr_lowercase_display_name r = to_ascii_lowercase (group_name_str (gr_display_name r)))"

text \<open>A statement keeps an invariant of the database when every successful run of it does.\<close>

definition keeps :: "('s \<Rightarrow> bool) \<Rightarrow> ('s \<Rightarrow> 'e + 's) \<Rightarrow> bool" where
  "keeps I f \<longleftrightarrow> (\<forall>d d'. I d \<longrightarrow> f d = Inr d' \<longrightarrow> I d')"

named_theorems keeps_intros "statements that keep the keys of the database"

lemma keepsI: "(\<And>d d'. I d \<Longrightarrow> f d = Inr d' \<Longrightarrow> I d') \<Longrightarrow> keeps I f"
  by (simp add: keeps_def)

lemma keepsD: "keeps I f \<Longrightarrow> I d \<Longrightarrow> f d = Inr d' \<Longrightarrow> I d'"
  by (simp add: keeps_def)

lemma keeps_rbind [keeps_intros]:
  assumes "keeps I f" and "keeps I g"
  shows "keeps I (\<lambda>d. rbind (f d) g)"
proof (rule keepsI)
  fix d d' assume "I d" and "rbind (f d) g = Inr d'"
  then obtain d1 where "f d = Inr d1" "g d1 = Inr d'" by (meson rbind_eq_Inr)
  then show "I d'" using keepsD [OF assms(1) \<open>I d\<close>] keepsD [OF assms(2)] by blast
qed

lemma keeps_for_each [keeps_intros]:
  "(\<And>x. x \<in> set xs \<Longrightarrow> keeps I (f x)) \<Longrightarrow> keeps I (for_each f xs)"
proof (induction xs)
  case Nil
  show ?case by (rule keepsI) simp
next
  case (Cons x xs)
  have "keeps I (\<lambda>d. rbind (f x d) (for_each f xs))"
    by (rule keeps_rbind) (use Cons in simp_all)
  then show ?case by (simp add: keeps_def)
qed

lemma find_user_None: "find_user d u = None \<longleftrightarrow> u \<notin> ur_user_id ` set (t_users d)"
  by (auto simp: find_user_def find_first_None)

lemma find_group_None: "find_group d g = None \<longleftrightarrow> g \<notin> gr_group_id ` set (t_groups d)"
  by (auto simp: find_group_def find_first_None)

lemma insert_user_keeps [keeps_intros]:
  assumes "ur_lowercase_email r = to_ascii_lowercase (email_str (ur_email r))"
  shows "keeps db_ok (insert_user r)"
  by (rule keepsI) (use assms in \<open>auto simp: insert_user_def db_ok_def split: if_splits\<close>)

lemma update_user_row_keeps [keeps_intros]:
  assumes id: "\<And>r. ur_user_id (f r) = ur_user_id r"
    and lower: "\<And>r. ur_lowercase_email r = to_ascii_lowercase (email_str (ur_email r)) \<Longrightarrow>
      ur_lowercase_email (f r) = to_ascii_lowercase (email_str (ur_email (f r)))"
  shows "keeps db_ok (update_user_row u f)"
proof (rule keepsI)
  fix d d' assume ok: "db_ok d" and upd: "update_user_row u f d = Inr d'"
  let ?rs = "map (\<lambda>r. if ur_user_id r = u then f r else r) (t_users d)"
  have d': "d' = d\<lparr>t_users := ?rs\<rparr>" and uniq: "unique_users ?rs"
    using upd by (auto simp: update_user_row_def Let_def split: if_splits)
  have ids: "ur_user_id ` set ?rs = ur_user_id ` set (t_users d)"
    unfolding set_map image_image by (rule image_cong) (simp_all add: id)
  have "\<forall>r \<in> set ?rs. ur_lowercase_email r = to_ascii_lowercase (email_str (ur_email r))"
    using ok lower by (auto simp: db_ok_def)
  then show "db_ok d'" using ok uniq ids unfolding d' db_ok_def by simp
qed

lemma update_group_row_keeps [keeps_intros]:
  assumes id: "\<And>r. gr_group_id (f r) = gr_group_id r"
    and lower: "\<And>r. gr_lowercase_display_name r = to_ascii_lowercase (group_name_str (gr_display_name r)) \<Longrightarrow>
      gr_lowercase_display_name (f r) = to_ascii_lowercase (group_name_str (gr_display_name (f r)))"
  shows "keeps db_ok (update_group_row u f)"
proof (rule keepsI)
  fix d d' assume ok: "db_ok d" and upd: "update_group_row u f d = Inr d'"
  let ?rs = "map (\<lambda>r. if gr_group_id r = u then f r else r) (t_groups d)"
  have d': "d' = d\<lparr>t_groups := ?rs\<rparr>" and uniq: "unique_groups ?rs"
    using upd by (auto simp: update_group_row_def Let_def split: if_splits)
  have ids: "gr_group_id ` set ?rs = gr_group_id ` set (t_groups d)"
    unfolding set_map image_image by (rule image_cong) (simp_all add: id)
  have "\<forall>r \<in> set ?rs. gr_lowercase_display_name r = to_ascii_lowercase (group_name_str (gr_display_name r))"
    using ok lower by (auto simp: db_ok_def)
  moreover have "\<forall>r \<in> set ?rs. gr_group_id r < t_next_group_id d"
    using ok id by (auto simp: db_ok_def)
  ultimately show "db_ok d'" using ok uniq ids unfolding d' db_ok_def by simp
qed

lemma insert_group_ok:
  assumes "db_ok d" and "insert_group r d = Inr (g, d')"
    and "gr_lowercase_display_name r = to_ascii_lowercase (group_name_str (gr_display_name r))"
  shows "db_ok d'"
proof -
  let ?r = "r\<lparr>gr_group_id := t_next_group_id d\<rparr>"
  have "unique_groups (t_groups d @ [?r])"
    and "d' = d\<lparr>t_groups := t_groups d @ [?r], t_next_group_id := t_next_group_id d + 1\<rparr>"
    using assms(2) by (auto simp: insert_group_def Let_def split: if_splits)
  moreover have "\<forall>q \<in> set (t_groups d). gr_group_id q < t_next_group_id d + 1"
    using assms(1) by (force simp: db_ok_def)
  ultimately show ?thesis using assms(1,3) by (simp add: db_ok_def)
qed

lemma distinct_filter_map: "distinct (map f xs) \<Longrightarrow> distinct (map f (filter P xs))"
  by (simp add: distinct_map inj_on_def)

lemma unique_users_filter: "unique_users rs \<Longrightarrow> unique_users (filter P rs)"
  by (simp add: unique_users_def distinct_filter_map)

lemma unique_groups_filter: "unique_groups rs \<Longrightarrow> unique_groups (filter P rs)"
  by (simp add: unique_groups_def distinct_filter_map)

lemma delete_user_row_ok: "db_ok d \<Longrightarrow> db_ok (snd (delete_user_row u d))"
  unfolding db_ok_def delete_user_row_def
  by (simp add: unique_users_filter distinct_filter_map image_iff) blast

lemma delete_group_row_ok: "db_ok d \<Longrightarrow> db_ok (snd (delete_group_row g d))"
  unfolding db_ok_def delete_group_row_def
  by (simp add: unique_groups_filter distinct_filter_map image_iff) blast

lemma insert_membership_keeps [keeps_intros]: "keeps db_ok (insert_membership m)"
  by (rule keepsI)
    (auto simp: insert_membership_def db_ok_def find_user_None find_group_None split: if_splits)

lemma delete_membership_ok: "db_ok d \<Longrightarrow> db_ok (snd (delete_membership m d))"
  by (simp add: db_ok_def delete_membership_def)

lemma insert_user_attribute_keeps [keeps_intros]: "keeps db_ok (insert_user_attribute a)"
proof (rule keepsI)
  fix d d' assume ok: "db_ok d" and ins: "insert_user_attribute a d = Inr d'"
  then have "user_attribute_keys_ok d a" "\<not> list_ex (same_user_attribute a) (t_user_attributes d)"
    and d': "d' = d\<lparr>t_user_attributes := t_user_attributes d @ [a]\<rparr>"
    by (auto simp: insert_user_attribute_def split: if_splits)
  moreover from this(2) have "(ua_user_id a, ua_name a) \<notin>
      (\<lambda>a. (ua_user_id a, ua_name a)) ` set (t_user_attributes d)"
    by (auto simp: list_ex_iff same_user_attribute_def)
  ultimately show "db_ok d'"
    using ok unfolding db_ok_def d' user_attribute_keys_ok_def by (simp add: find_user_None)
qed

lemma upsert_user_attribute_keeps [keeps_intros]: "keeps db_ok (upsert_user_attribute a)"
proof (rule keepsI)
  fix d d' assume ok: "db_ok d" and ups: "upsert_user_attribute a d = Inr d'"
  show "db_ok d'"
  proof (cases "list_ex (same_user_attribute a) (t_user_attributes d)")
    case True
    let ?h = "\<lambda>b. if same_user_attribute a b then b\<lparr>ua_value := ua_value a\<rparr> else b"
    have c: "(\<lambda>b. (ua_user_id b, ua_name b)) \<circ> ?h = (\<lambda>b. (ua_user_id b, ua_name b))"
      by (simp add: fun_eq_iff)
    have d': "d' = d\<lparr>t_user_attributes := map ?h (t_user_attributes d)\<rparr>"
      using ups True by (auto simp: upsert_user_attribute_def split: if_splits)
    show ?thesis using ok unfolding d' db_ok_def by (simp add: c) (elim conjE, auto)
  next
    case False
    then have "insert_user_attribute a d = Inr d'"
      using ups by (simp add: upsert_user_attribute_def insert_user_attribute_def split: if_splits)
    then show ?thesis using keepsD [OF insert_user_attribute_keeps ok] by blast
  qed
qed

lemma insert_group_attribute_keeps [keeps_intros]: "keeps db_ok (insert_group_attribute a)"
proof (rule keepsI)
  fix d d' assume ok: "db_ok d" and ins: "insert_group_attribute a d = Inr d'"
  then have "group_attribute_keys_ok d a" "\<not> list_ex (same_group_attribute a) (t_group_attributes d)"
    and d': "d' = d\<lparr>t_group_attributes := t_group_attributes d @ [a]\<rparr>"
    by (auto simp: insert_group_attribute_def split: if_splits)
  moreover from this(2) have "(ga_group_id a, ga_name a) \<notin>
      (\<lambda>a. (ga_group_id a, ga_name a)) ` set (t_group_attributes d)"
    by (auto simp: list_ex_iff same_group_attribute_def)
  ultimately show "db_ok d'"
    using ok unfolding db_ok_def d' group_attribute_keys_ok_def by (simp add: find_group_None)
qed

lemma upsert_group_attribute_keeps [keeps_intros]: "keeps db_ok (upsert_group_attribute a)"
proof (rule keepsI)
  fix d d' assume ok: "db_ok d" and ups: "upsert_group_attribute a d = Inr d'"
  show "db_ok d'"
  proof (cases "list_ex (same_group_attribute a) (t_group_attributes d)")
    case True
    let ?h = "\<lambda>b. if same_group_attribute a b then b\<lparr>ga_value := ga_value a\<rparr> else b"
    have c: "(\<lambda>b. (ga_group_id b, ga_name b)) \<circ> ?h = (\<lambda>b. (ga_group_id b, ga_name b))"
      by (simp add: fun_eq_iff)
    have d': "d' = d\<lparr>t_group_attributes := map ?h (t_group_attributes d)\<rparr>"
      using ups True by (auto simp: upsert_group_attribute_def split: if_splits)
    show ?thesis using ok unfolding d' db_ok_def by (simp add: c) (elim conjE, auto)
  next
    case False
    then have "insert_group_attribute a d = Inr d'"
      using ups by (simp add: upsert_group_attribute_def insert_group_attribute_def split: if_splits)
    then show ?thesis using keepsD [OF insert_group_attribute_keeps ok] by blast
  qed
qed

text \<open>Deleting attribute values of a user or a group.\<close>

lemma filter_user_attributes_ok:
  "db_ok d \<Longrightarrow> db_ok (d\<lparr>t_user_attributes := filter P (t_user_attributes d)\<rparr>)"
  by (simp add: db_ok_def distinct_filter_map)

lemma filter_group_attributes_ok:
  "db_ok d \<Longrightarrow> db_ok (d\<lparr>t_group_attributes := filter P (t_group_attributes d)\<rparr>)"
  by (simp add: db_ok_def distinct_filter_map)

lemma transaction_ok:
  assumes "\<And>x d'. f (w_db w) = Inr (x, d') \<Longrightarrow> I d'" and "I (w_db w)"
  shows "I (w_db (snd (transaction f w)))"
  using assms by (auto simp: transaction_def split: sum.splits)

lemma execute_ok: "keeps I f \<Longrightarrow> I (w_db w) \<Longrightarrow> I (w_db (snd (execute f w)))"
  unfolding execute_def by (rule transaction_ok) (auto simp: rmap_def keeps_def split: sum.splits)

end
