(* ===== verification/Sql_Schema.thy ===== *)
theory Sql_Schema
  imports Sql_Tables
begin

text \<open>
  What the SQL backend stores beside users and groups: attribute values as bytes
  (\<open>attribute_value_to_db_bytes\<close>, \<open>domain-model/src/model/deserialize.rs\<close>), the system
  configuration with the allowed OUs and the POSIX settings (\<open>sql_user_backend_handler.rs\<close>), and
  the dynamic part of the schema (\<open>sql_schema_backend_handler.rs\<close>).
\<close>

section \<open>Stored attribute values\<close>

text \<open>A date is stored as its seconds in decimal.\<close>

definition attribute_value_to_db_bytes :: "sql_libs \<Rightarrow> attribute_value \<Rightarrow> bytes" where
  "attribute_value_to_db_bytes Q v =
     (case v of
        AString (Singleton s) \<Rightarrow> s
      | AString (Unbounded l) \<Rightarrow> sl_json_of_strings Q l
      | AInteger (Singleton i) \<Rightarrow> int_to_string i
      | AAvatar (Singleton p) \<Rightarrow> p
      | ADateTime (Singleton dt) \<Rightarrow> int_to_string (dt div second)
      | _ \<Rightarrow> [])"

definition is_backend_writable_readonly_attribute :: "string \<Rightarrow> bool" where
  "is_backend_writable_readonly_attribute name \<longleftrightarrow>
     name \<in> {''ou'', ''kerberossync'', ''allowedous'', ''krb_principal_name''}"

text \<open>\<open>model::deserialize::deserialize_attribute_value\<close>; \<open>Serialized::unwrap\<close> falls back to the
  default value, the Unix epoch for a date.\<close>

definition deserialize_db_value :: "sql_libs \<Rightarrow> bytes \<Rightarrow> attribute_type \<Rightarrow> bool \<Rightarrow> attribute_value" where
  "deserialize_db_value Q b typ is_list =
     (case (typ, is_list) of
        (TString, False) \<Rightarrow> AString (Singleton (unwrap_or [] (from_utf8 b)))
      | (TString, True) \<Rightarrow>
          (case sl_strings_of_json Q b of
             Some l \<Rightarrow> AString (Unbounded l)
           | None \<Rightarrow> AString (Unbounded [unwrap_or [] (from_utf8 b)]))
      | (TInteger, False) \<Rightarrow>
          AInteger (Singleton (unwrap_or 0 (parse_i64 (unwrap_or ''0'' (from_utf8 b)))))
      | (TInteger, True) \<Rightarrow>
          AInteger (Unbounded [unwrap_or 0 (parse_i64 (unwrap_or ''0'' (from_utf8 b)))])
      | (TDateTime, False) \<Rightarrow> ADateTime (Singleton (unwrap_or 0 (sl_bincode_date Q b)))
      | (TDateTime, True) \<Rightarrow> ADateTime (Unbounded (unwrap_or [] (sl_bincode_dates Q b)))
      | (TAvatar, False) \<Rightarrow> AAvatar (Singleton (avatar_new (sl_libs Q) b))
      | (TAvatar, True) \<Rightarrow> AAvatar (Unbounded [avatar_new (sl_libs Q) b]))"

definition deserialize_attribute ::
  "sql_libs \<Rightarrow> attribute_name \<Rightarrow> bytes \<Rightarrow> attribute_list \<Rightarrow> attribute dresult" where
  "deserialize_attribute Q name b sch =
     (case get_attribute_type_of sch (attr_str name) of
        Some (typ, is_list) \<Rightarrow>
          Inr \<lparr>attr_name = name, attr_value = deserialize_db_value Q b typ is_list\<rparr>
      | None \<Rightarrow> Inl (InternalError
          (''Unable to find schema for attribute named '' @ [CHR 0x27] @ attr_str name @ [CHR 0x27])))"

definition canonical_user_attribute_name :: "string \<Rightarrow> attribute_name" where
  "canonical_user_attribute_name name =
     (case get_by_name_or_alias (user_attributes public_schema_get) name of
        Some s \<Rightarrow> attribute_name_from (as_name s)
      | None \<Rightarrow> attribute_name_from name)"

definition canonical_group_attribute_name :: "string \<Rightarrow> attribute_name" where
  "canonical_group_attribute_name name =
     (case get_by_name_or_alias (group_attributes public_schema_get) name of
        Some s \<Rightarrow> attribute_name_from (as_name s)
      | None \<Rightarrow> attribute_name_from name)"

section \<open>System configuration\<close>

definition get_config :: "string \<Rightarrow> db \<Rightarrow> string option" where
  "get_config key d = map_option snd (find_first (\<lambda>r. fst r = key) (t_system_config d))"

definition get_allowed_ous :: "sql_libs \<Rightarrow> db \<Rightarrow> string list dresult" where
  "get_allowed_ous Q d =
     (let json_str = unwrap_or ''[]'' (get_config ''allowedous'' d)
      in Inr (unwrap_or [''people'', ''groups''] (sl_strings_of_json Q json_str)))"

definition set_system_config :: "string \<Rightarrow> string \<Rightarrow> db \<Rightarrow> db dresult" where
  "set_system_config key v d =
     Inr (d\<lparr>t_system_config :=
       (if key \<in> fst ` set (t_system_config d)
        then map (\<lambda>r. if fst r = key then (key, v) else r) (t_system_config d)
        else t_system_config d @ [(key, v)])\<rparr>)"

text \<open>\<open>#[derive(Default)]\<close> on \<open>PosixSettings\<close>.\<close>

definition posix_settings_default :: posix_settings where
  "posix_settings_default =
     \<lparr>user_uidnumber_assign = False, user_uidnumber_start = 0, user_uidnumber_max = 0,
      user_gidnumber_assign = False, user_gidnumber_start = 0,
      user_loginshell_assign = False, user_loginshell_default = [],
      user_homedirectory_assign = False, user_homedirectory_prefix = [],
      group_gidnumber_assign = False, group_gidnumber_start = 0, group_gidnumber_max = 0\<rparr>"

definition get_posix_settings :: "sql_libs \<Rightarrow> db \<Rightarrow> posix_settings dresult" where
  "get_posix_settings Q d =
     (let json_str = unwrap_or (sl_json_of_posix Q posix_settings_default)
                       (get_config ''posix_settings'' d)
      in ok_or (InternalError ''Failed to parse posix_settings JSON'') (sl_posix_of_json Q json_str))"

definition set_posix_settings :: "sql_libs \<Rightarrow> posix_settings \<Rightarrow> db \<Rightarrow> db dresult" where
  "set_posix_settings Q settings = set_system_config ''posix_settings'' (sl_json_of_posix Q settings)"

section \<open>The schema tables\<close>

definition insert_schema_row ::
  "attribute_schema_row \<Rightarrow> attribute_schema_row list \<Rightarrow> attribute_schema_row list dresult" where
  "insert_schema_row r rs =
     (if sr_name r \<in> sr_name ` set rs then Inl (DatabaseError unique_violation) else Inr (rs @ [r]))"

definition new_schema_row :: "create_attribute_request \<Rightarrow> attribute_schema_row" where
  "new_schema_row request =
     \<lparr>sr_name = ca_name request, sr_type = ca_attribute_type request,
      sr_is_list = ca_is_list request, sr_is_visible = ca_is_visible request,
      sr_is_editable = ca_is_editable request, sr_is_hardcoded = False, sr_is_readonly = False,
      sr_aliases = ''[]''\<rparr>"

definition add_user_attribute :: "create_attribute_request \<Rightarrow> db \<Rightarrow> db dresult" where
  "add_user_attribute request d =
     rmap (\<lambda>rs. d\<lparr>t_user_attribute_schema := rs\<rparr>)
       (insert_schema_row (new_schema_row request) (t_user_attribute_schema d))"

definition add_group_attribute :: "create_attribute_request \<Rightarrow> db \<Rightarrow> db dresult" where
  "add_group_attribute request d =
     rmap (\<lambda>rs. d\<lparr>t_group_attribute_schema := rs\<rparr>)
       (insert_schema_row (new_schema_row request) (t_group_attribute_schema d))"

text \<open>Deleting a schema row deletes the values it describes, by the foreign key.\<close>

definition delete_user_attribute :: "attribute_name \<Rightarrow> db \<Rightarrow> db dresult" where
  "delete_user_attribute name d =
     Inr (d\<lparr>t_user_attribute_schema := filter (\<lambda>r. sr_name r \<noteq> name) (t_user_attribute_schema d),
            t_user_attributes := filter (\<lambda>a. ua_name a \<noteq> name) (t_user_attributes d)\<rparr>)"

definition delete_group_attribute :: "attribute_name \<Rightarrow> db \<Rightarrow> db dresult" where
  "delete_group_attribute name d =
     Inr (d\<lparr>t_group_attribute_schema := filter (\<lambda>r. sr_name r \<noteq> name) (t_group_attribute_schema d),
            t_group_attributes := filter (\<lambda>a. ga_name a \<noteq> name) (t_group_attributes d)\<rparr>)"

definition insert_object_class ::
  "string \<Rightarrow> object_class_row list \<Rightarrow> object_class_row list dresult" where
  "insert_object_class name rs =
     (let name_key = to_ascii_lowercase name in
      if name_key \<in> oc_lower ` set rs then Inl (DatabaseError unique_violation)
      else Inr (rs @ [\<lparr>oc_lower = name_key, oc_name = name\<rparr>]))"

definition add_user_object_class :: "string \<Rightarrow> db \<Rightarrow> db dresult" where
  "add_user_object_class name d =
     rmap (\<lambda>rs. d\<lparr>t_user_object_classes := rs\<rparr>) (insert_object_class name (t_user_object_classes d))"

definition add_group_object_class :: "string \<Rightarrow> db \<Rightarrow> db dresult" where
  "add_group_object_class name d =
     rmap (\<lambda>rs. d\<lparr>t_group_object_classes := rs\<rparr>) (insert_object_class name (t_group_object_classes d))"

definition delete_user_object_class :: "string \<Rightarrow> db \<Rightarrow> db dresult" where
  "delete_user_object_class name d =
     Inr (d\<lparr>t_user_object_classes :=
       filter (\<lambda>r. oc_lower r \<noteq> to_ascii_lowercase name) (t_user_object_classes d)\<rparr>)"

definition delete_group_object_class :: "string \<Rightarrow> db \<Rightarrow> db dresult" where
  "delete_group_object_class name d =
     Inr (d\<lparr>t_group_object_classes :=
       filter (\<lambda>r. oc_lower r \<noteq> to_ascii_lowercase name) (t_group_object_classes d)\<rparr>)"

definition schema_of_row :: "sql_libs \<Rightarrow> attribute_schema_row \<Rightarrow> attribute_schema" where
  "schema_of_row Q m =
     \<lparr>as_name = attr_str (sr_name m),
      as_aliases = unwrap_or [] (sl_strings_of_json Q (sr_aliases m)),
      as_attribute_type = sr_type m, as_is_list = sr_is_list m, as_is_visible = sr_is_visible m,
      as_is_editable = sr_is_editable m, as_is_hardcoded = sr_is_hardcoded m,
      as_is_readonly = sr_is_readonly m\<rparr>"

definition schema_rows :: "sql_libs \<Rightarrow> attribute_schema_row list \<Rightarrow> attribute_list" where
  "schema_rows Q rs = map (schema_of_row Q) (sort_key sr_name rs)"

definition object_classes_of :: "object_class_row list \<Rightarrow> string list" where
  "object_classes_of rs = map oc_name (sort_key oc_name rs)"

text \<open>The dynamic attributes are merged behind the hardcoded ones; a dynamic attribute with the
  name of an existing one is dropped.\<close>

fun merge_attributes :: "attribute_list \<Rightarrow> attribute_list \<Rightarrow> attribute_list" where
  "merge_attributes base [] = base"
| "merge_attributes base (a # as) =
     merge_attributes (if list_ex (\<lambda>e. as_name e = as_name a) base then base else base @ [a]) as"

definition dynamic_attributes :: "sql_libs \<Rightarrow> attribute_schema_row list \<Rightarrow> attribute_list" where
  "dynamic_attributes Q rs = filter (\<lambda>a. \<not> as_is_hardcoded a) (schema_rows Q rs)"

definition get_schema_with_transaction :: "sql_libs \<Rightarrow> db \<Rightarrow> public_schema dresult" where
  "get_schema_with_transaction Q d =
     rmap (\<lambda>s.
       public_schema_get
         \<lparr>user_attributes := merge_attributes (user_attributes public_schema_get)
            (dynamic_attributes Q (t_user_attribute_schema d)),
          group_attributes := merge_attributes (group_attributes public_schema_get)
            (dynamic_attributes Q (t_group_attribute_schema d)),
          schema_posix_settings := s,
          extra_user_object_classes := object_classes_of (t_user_object_classes d),
          extra_group_object_classes := object_classes_of (t_group_object_classes d)\<rparr>)
       (get_posix_settings Q d)"

section \<open>Facts\<close>

lemma merge_attributes_prefix: "\<exists>more. merge_attributes base new = base @ more"
proof (induction new arbitrary: base)
  case (Cons a as)
  obtain m where m: "merge_attributes base as = base @ m" using Cons by blast
  obtain m' where m': "merge_attributes (base @ [a]) as = (base @ [a]) @ m'" using Cons by blast
  show ?case using m m' by (cases "list_ex (\<lambda>e. as_name e = as_name a) base") simp_all
qed simp

lemma merge_attributes_lookup:
  assumes "get_by_name_or_alias base n = Some a"
  shows "get_by_name_or_alias (merge_attributes base new) n = Some a"
proof -
  obtain more where "merge_attributes base new = base @ more" using merge_attributes_prefix by blast
  then show ?thesis using assms by (simp add: get_by_name_or_alias_def find_first_append)
qed

lemma get_schema_userD:
  "get_schema_with_transaction Q d = Inr sch \<Longrightarrow>
     user_attributes sch = merge_attributes (user_attributes public_schema_get)
       (dynamic_attributes Q (t_user_attribute_schema d))"
  "get_schema_with_transaction Q d = Inr sch \<Longrightarrow>
     group_attributes sch = merge_attributes (group_attributes public_schema_get)
       (dynamic_attributes Q (t_group_attribute_schema d))"
  by (auto simp: get_schema_with_transaction_def rmap_def split: sum.splits)

lemma get_config_set:
  "set_system_config k v d = Inr d' \<Longrightarrow> get_config k' d' = (if k' = k then Some v else get_config k' d)"
proof -
  assume h: "set_system_config k v d = Inr d'"
  have upd: "find_first (\<lambda>r. fst r = k') (map (\<lambda>r. if fst r = k then (k, v) else r) xs)
      = (if k' = k \<and> k \<in> fst ` set xs then Some (k, v) else find_first (\<lambda>r. fst r = k') xs)"
    for xs :: "(string \<times> string) list"
    by (induction xs) force+
  have absent: "k \<notin> fst ` set xs \<Longrightarrow> find_first (\<lambda>r. fst r = k) xs = None"
    for xs :: "(string \<times> string) list"
    by (auto simp: find_first_None)
  show ?thesis
  proof (cases "k \<in> fst ` set (t_system_config d)")
    case True
    then have "t_system_config d' = map (\<lambda>r. if fst r = k then (k, v) else r) (t_system_config d)"
      using h by (auto simp: set_system_config_def)
    then show ?thesis using True by (simp add: get_config_def upd)
  next
    case False
    then have "t_system_config d' = t_system_config d @ [(k, v)]"
      using h by (auto simp: set_system_config_def)
    then show ?thesis using absent [OF False]
      by (simp add: get_config_def find_first_append split: option.split)
  qed
qed

text \<open>Custom attributes never shadow hardcoded ones: in the schema the backend serves, every
  name or alias of a hardcoded user or group attribute resolves to that attribute, whatever rows
  the schema tables hold.\<close>

theorem get_schema_keeps_hardcoded:
  assumes "get_schema_with_transaction Q d = Inr sch"
  shows "(\<forall>n a. get_by_name_or_alias (user_attributes public_schema_get) n = Some a \<longrightarrow>
            get_by_name_or_alias (user_attributes sch) n = Some a)
    \<and> (\<forall>n a. get_by_name_or_alias (group_attributes public_schema_get) n = Some a \<longrightarrow>
            get_by_name_or_alias (group_attributes sch) n = Some a)"
  by (simp add: get_schema_userD [OF assms] merge_attributes_lookup)

text \<open>Storing POSIX settings and reading them back gives the stored settings and leaves every
  other configuration entry alone, when the JSON codec inverts itself on these settings.\<close>

theorem posix_settings_roundtrip:
  assumes "sl_posix_of_json Q (sl_json_of_posix Q settings) = Some settings"
    and "set_posix_settings Q settings d = Inr d'"
  shows "get_posix_settings Q d' = Inr settings \<and> get_allowed_ous Q d' = get_allowed_ous Q d"
  using get_config_set [of "''posix_settings''" "sl_json_of_posix Q settings" d d'] assms
  by (simp add: set_posix_settings_def get_posix_settings_def get_allowed_ous_def Let_def)

text \<open>The values that survive storage.\<close>

fun storable :: "sql_libs \<Rightarrow> attribute_value \<Rightarrow> bool" where
  "storable Q (AString (Singleton s)) = utf8_valid s"
| "storable Q (AString (Unbounded l)) = (sl_strings_of_json Q (sl_json_of_strings Q l) = Some l)"
| "storable Q (AInteger (Singleton i)) = (i64_min \<le> i \<and> i \<le> i64_max)"
| "storable Q _ = False"

lemma utf8_valid_int_to_string: "utf8_valid (int_to_string i)"
proof (rule utf8_valid_ascii, rule ballI)
  fix c assume c: "c \<in> set (int_to_string i)"
  show "(of_char c :: nat) < 128"
  proof (cases "c = CHR ''-''")
    case False
    then have "c \<in> set (digits_of (nat (- i))) \<union> set (digits_of (nat i))"
      using c by (auto simp: int_to_string_def split: if_splits)
    then show ?thesis using digits_of_chars digit_val_small by blast
  qed simp
qed

text \<open>A text, a list of texts or an integer of 64 bits that is stored in an attribute table and
  read back with its own type and cardinality is the value that was stored, when the JSON codec
  inverts itself on the list.\<close>

theorem db_value_roundtrip:
  assumes "storable Q v"
  shows "deserialize_db_value Q (attribute_value_to_db_bytes Q v) (get_attribute_type v) (is_list_value v) = v"
  using assms
  by (cases "(Q, v)" rule: storable.cases)
    (simp_all add: deserialize_db_value_def attribute_value_to_db_bytes_def get_attribute_type_def
      is_list_value_def from_utf8_def utf8_valid_int_to_string parse_i64_int_to_string)

text \<open>A list of integers does not survive storage: it is written as no bytes at all and read
  back as the list that holds the single number zero, whatever the list was.\<close>

theorem integer_list_lost:
  "deserialize_db_value Q (attribute_value_to_db_bytes Q (AInteger (Unbounded l))) TInteger True
   = AInteger (Unbounded [0])"
  by (simp add: deserialize_db_value_def attribute_value_to_db_bytes_def from_utf8_def parse_i64_def
      parse_int_def)

end
