(* ===== verification/Sql_Listing.thy ===== *)
theory Sql_Listing
  imports Sql_Schema "HOL-Library.Multiset"
begin

text \<open>
  Reading users and groups from the database (\<open>sql_user_backend_handler.rs\<close>,
  \<open>sql_group_backend_handler.rs\<close>): the SQL condition a request filter becomes, its three-valued
  meaning on a row, the two listings with their join of attribute rows, and the lookups of one
  user, one group and the groups of a user.

  The order of rows that a query leaves open is the order of insertion.
\<close>

section \<open>Conditions on users\<close>

datatype user_cond =
    CBool bool
  | CAll "user_cond list"
  | CAny "user_cond list"
  | CNot user_cond
  | CUserId user_id
  | CUserIdLike string
  | CColumn user_column string
  | CColumnLike user_column string
  | CColumnGe user_column string
  | CColumnLe user_column string
  | CAttribute attribute_name "bytes option"
  | CAttributeLike attribute_name string
  | CGroupName string
  | CGroupId group_id
  | CGroupAttributeGe attribute_name string
  | CGroupAttributeLe attribute_name string

definition is_date_column :: "user_column \<Rightarrow> bool" where
  "is_date_column c \<longleftrightarrow> c = ColCreationDate \<or> c = ColModifiedDate \<or> c = ColPasswordModifiedDate"

text \<open>\<open>get_user_filter_expr\<close>. A \<open>panic!\<close> is \<^const>\<open>Inl\<close> with its message.\<close>

fun get_user_filter_expr :: "sql_libs \<Rightarrow> user_request_filter \<Rightarrow> string + user_cond" where
  "get_user_filter_expr Q UTrue = Inr (CBool True)"
| "get_user_filter_expr Q UFalse = Inr (CBool False)"
| "get_user_filter_expr Q (UAnd fs) =
     (if fs = [] then Inr (CBool True)
      else rmap CAll (collect_results (map (get_user_filter_expr Q) fs)))"
| "get_user_filter_expr Q (UOr fs) =
     (if fs = [] then Inr (CBool False)
      else rmap CAny (collect_results (map (get_user_filter_expr Q) fs)))"
| "get_user_filter_expr Q (UNot f) = rmap CNot (get_user_filter_expr Q f)"
| "get_user_filter_expr Q (UUserId u) = Inr (CUserId u)"
| "get_user_filter_expr Q (UEquality column v) =
     (if column = ColUserId then Inl ''User id should be wrapped''
      else if column = ColEmail then Inr (CColumn ColLowercaseEmail (to_ascii_lowercase v))
      else Inr (CColumn column v))"
| "get_user_filter_expr Q (UAttributeEquality column v) =
     Inr (CAttribute column (Some (attribute_value_to_db_bytes Q v)))"
| "get_user_filter_expr Q (UMemberOf name) =
     Inr (CGroupName (to_ascii_lowercase (group_name_str name)))"
| "get_user_filter_expr Q (UMemberOfId g) = Inr (CGroupId g)"
| "get_user_filter_expr Q (UUserIdSubString f) = Inr (CUserIdLike (to_sql_filter f))"
| "get_user_filter_expr Q (USubString col f) = Inr (CColumnLike col (to_sql_filter f))"
| "get_user_filter_expr Q (UCustomAttributePresent name) = Inr (CAttribute name None)"
| "get_user_filter_expr Q (UGreaterOrEqual column v) =
     (if is_date_column column then Inr (CColumnGe column v)
      else Inl ''GreaterOrEqual only supported on date columns'')"
| "get_user_filter_expr Q (ULessOrEqual column v) =
     (if is_date_column column then Inr (CColumnLe column v)
      else Inl ''LessOrEqual only supported on date columns'')"
| "get_user_filter_expr Q (UAttributeGreaterOrEqual name v) = Inr (CGroupAttributeGe name v)"
| "get_user_filter_expr Q (UAttributeLessOrEqual name v) = Inr (CGroupAttributeLe name v)"
| "get_user_filter_expr Q (UAttributeSubString name f) = Inr (CAttributeLike name (to_sql_filter f))"

definition text_or_null :: "string option \<Rightarrow> sql_value" where
  "text_or_null x = (case x of None \<Rightarrow> VNull | Some s \<Rightarrow> VText s)"

definition column_value :: "user_row \<Rightarrow> user_column \<Rightarrow> sql_value" where
  "column_value r c =
     (case c of
        ColUserId \<Rightarrow> VText (user_id_str (ur_user_id r))
      | ColEmail \<Rightarrow> VText (email_str (ur_email r))
      | ColLowercaseEmail \<Rightarrow> VText (ur_lowercase_email r)
      | ColDisplayName \<Rightarrow> text_or_null (ur_display_name r)
      | ColCreationDate \<Rightarrow> VDate (ur_creation_date r)
      | ColPasswordHash \<Rightarrow> (case ur_password_hash r of None \<Rightarrow> VNull | Some b \<Rightarrow> VBlob b)
      | ColTotpSecret \<Rightarrow> text_or_null (ur_totp_secret r)
      | ColMfaType \<Rightarrow> text_or_null (ur_mfa_type r)
      | ColUuid \<Rightarrow> VText (ur_uuid r)
      | ColModifiedDate \<Rightarrow> VDate (ur_modified_date r)
      | ColPasswordModifiedDate \<Rightarrow> VDate (ur_password_modified_date r)
      | ColKrbPrincipalName \<Rightarrow> text_or_null (ur_krb_principal_name r))"

definition is_member :: "db \<Rightarrow> user_id \<Rightarrow> group_id \<Rightarrow> bool" where
  "is_member d u g \<longleftrightarrow> \<lparr>mb_user_id = u, mb_group_id = g\<rparr> \<in> set (t_memberships d)"

definition user_attribute_exists :: "db \<Rightarrow> user_id \<Rightarrow> attribute_name \<Rightarrow> (bytes \<Rightarrow> bool) \<Rightarrow> bool" where
  "user_attribute_exists d u n P \<longleftrightarrow>
     list_ex (\<lambda>a. ua_user_id a = u \<and> ua_name a = n \<and> P (ua_value a)) (t_user_attributes d)"

text \<open>The two comparisons with group attributes name the table \<open>groups\<close>, which no query over
  users has in its scope under that name: the engine rejects the statement
  (\<open>resolves\<close>), so their value on a row does not matter.\<close>

fun eval_user_cond :: "sql_libs \<Rightarrow> db \<Rightarrow> user_row \<Rightarrow> user_cond \<Rightarrow> truth" where
  "eval_user_cond Q d r (CBool b) = Some b"
| "eval_user_cond Q d r (CAll cs) = sql_all (map (eval_user_cond Q d r) cs)"
| "eval_user_cond Q d r (CAny cs) = sql_any (map (eval_user_cond Q d r) cs)"
| "eval_user_cond Q d r (CNot c) = sql_not (eval_user_cond Q d r c)"
| "eval_user_cond Q d r (CUserId u) = Some (ur_user_id r = u)"
| "eval_user_cond Q d r (CUserIdLike p) = Some (sql_like (user_id_str (ur_user_id r)) p)"
| "eval_user_cond Q d r (CColumn c v) = value_eq Q (column_value r c) v"
| "eval_user_cond Q d r (CColumnLike c p) = lower_like Q (column_value r c) p"
| "eval_user_cond Q d r (CColumnGe c v) = value_ge Q (column_value r c) v"
| "eval_user_cond Q d r (CColumnLe c v) = value_le Q (column_value r c) v"
| "eval_user_cond Q d r (CAttribute n v) =
     Some (user_attribute_exists d (ur_user_id r) n (\<lambda>b. v = None \<or> v = Some b))"
| "eval_user_cond Q d r (CAttributeLike n p) =
     Some (user_attribute_exists d (ur_user_id r) n (\<lambda>b. sql_like (to_ascii_lowercase b) p))"
| "eval_user_cond Q d r (CGroupName n) =
     Some (list_ex (\<lambda>g. gr_lowercase_display_name g = n \<and> is_member d (ur_user_id r) (gr_group_id g))
       (t_groups d))"
| "eval_user_cond Q d r (CGroupId i) =
     Some (list_ex (\<lambda>g. gr_group_id g = i \<and> is_member d (ur_user_id r) (gr_group_id g)) (t_groups d))"
| "eval_user_cond Q d r (CGroupAttributeGe n v) = None"
| "eval_user_cond Q d r (CGroupAttributeLe n v) = None"

fun resolves :: "user_cond \<Rightarrow> bool" where
  "resolves (CAll cs) = list_all resolves cs"
| "resolves (CAny cs) = list_all resolves cs"
| "resolves (CNot c) = resolves c"
| "resolves (CGroupAttributeGe n v) = False"
| "resolves (CGroupAttributeLe n v) = False"
| "resolves _ = True"

section \<open>Conditions on groups\<close>

datatype group_cond =
    DBool bool
  | DAll "group_cond list"
  | DAny "group_cond list"
  | DNot group_cond
  | DName string
  | DNameLike string
  | DGroupId group_id
  | DUuid uuid
  | DMember user_id
  | DAttribute attribute_name "bytes option"
  | DAttributeLike attribute_name string
  | DCreationGe string
  | DCreationLe string
  | DModifiedGe string
  | DModifiedLe string
  | DAttributeGe attribute_name string
  | DAttributeLe attribute_name string

fun get_group_filter_expr :: "sql_libs \<Rightarrow> group_request_filter \<Rightarrow> group_cond" where
  "get_group_filter_expr Q GTrue = DBool True"
| "get_group_filter_expr Q GFalse = DBool False"
| "get_group_filter_expr Q (GAnd fs) =
     (if fs = [] then DBool True else DAll (map (get_group_filter_expr Q) fs))"
| "get_group_filter_expr Q (GOr fs) =
     (if fs = [] then DBool False else DAny (map (get_group_filter_expr Q) fs))"
| "get_group_filter_expr Q (GNot f) = DNot (get_group_filter_expr Q f)"
| "get_group_filter_expr Q (GDisplayName name) = DName (to_ascii_lowercase (group_name_str name))"
| "get_group_filter_expr Q (GGroupId i) = DGroupId i"
| "get_group_filter_expr Q (GUuid u) = DUuid u"
| "get_group_filter_expr Q (GMember u) = DMember u"
| "get_group_filter_expr Q (GDisplayNameSubString f) = DNameLike (to_sql_filter f)"
| "get_group_filter_expr Q (GAttributeEquality name v) =
     DAttribute name (Some (attribute_value_to_db_bytes Q v))"
| "get_group_filter_expr Q (GCustomAttributePresent name) = DAttribute name None"
| "get_group_filter_expr Q (GGreaterOrEqual column v) =
     (let col = to_ascii_lowercase column in
      if col = ''creationdate'' then DCreationGe v
      else if col = ''modifieddate'' then DModifiedGe v
      else DBool False)"
| "get_group_filter_expr Q (GLessOrEqual column v) =
     (let col = to_ascii_lowercase column in
      if col = ''creationdate'' then DCreationLe v
      else if col = ''modifieddate'' then DModifiedLe v
      else DBool False)"
| "get_group_filter_expr Q (GAttributeGreaterOrEqual name v) = DAttributeGe name v"
| "get_group_filter_expr Q (GAttributeLessOrEqual name v) = DAttributeLe name v"
| "get_group_filter_expr Q (GAttributeSubString name f) = DAttributeLike name (to_sql_filter f)"

definition group_attribute_exists :: "db \<Rightarrow> group_id \<Rightarrow> attribute_name \<Rightarrow> (bytes \<Rightarrow> bool) \<Rightarrow> bool" where
  "group_attribute_exists d g n P \<longleftrightarrow>
     list_ex (\<lambda>a. ga_group_id a = g \<and> ga_name a = n \<and> P (ga_value a)) (t_group_attributes d)"

text \<open>No column of a group is null, so the conditions are two-valued.\<close>

fun eval_group_cond :: "sql_libs \<Rightarrow> db \<Rightarrow> group_row \<Rightarrow> group_cond \<Rightarrow> bool" where
  "eval_group_cond Q d r (DBool b) = b"
| "eval_group_cond Q d r (DAll cs) = list_all (eval_group_cond Q d r) cs"
| "eval_group_cond Q d r (DAny cs) = list_ex (eval_group_cond Q d r) cs"
| "eval_group_cond Q d r (DNot c) = (\<not> eval_group_cond Q d r c)"
| "eval_group_cond Q d r (DName n) = (gr_lowercase_display_name r = n)"
| "eval_group_cond Q d r (DNameLike p) = sql_like (to_ascii_lowercase (gr_lowercase_display_name r)) p"
| "eval_group_cond Q d r (DGroupId i) = (gr_group_id r = i)"
| "eval_group_cond Q d r (DUuid u) = (gr_uuid r = u)"
| "eval_group_cond Q d r (DMember u) = is_member d u (gr_group_id r)"
| "eval_group_cond Q d r (DAttribute n v) =
     group_attribute_exists d (gr_group_id r) n (\<lambda>b. v = None \<or> v = Some b)"
| "eval_group_cond Q d r (DAttributeLike n p) =
     group_attribute_exists d (gr_group_id r) n (\<lambda>b. sql_like (to_ascii_lowercase b) p)"
| "eval_group_cond Q d r (DCreationGe v) = sl_ge Q (VDate (gr_creation_date r)) v"
| "eval_group_cond Q d r (DCreationLe v) = sl_le Q (VDate (gr_creation_date r)) v"
| "eval_group_cond Q d r (DModifiedGe v) = sl_ge Q (VDate (gr_modified_date r)) v"
| "eval_group_cond Q d r (DModifiedLe v) = sl_le Q (VDate (gr_modified_date r)) v"
| "eval_group_cond Q d r (DAttributeGe n v) =
     group_attribute_exists d (gr_group_id r) n (\<lambda>b. sl_ge Q (VBlob b) v)"
| "eval_group_cond Q d r (DAttributeLe n v) =
     group_attribute_exists d (gr_group_id r) n (\<lambda>b. sl_le Q (VBlob b) v)"

section \<open>Reading users\<close>

definition user_of_row :: "user_row \<Rightarrow> user" where
  "user_of_row r =
     \<lparr>u_user_id = ur_user_id r, u_email = ur_email r, u_display_name = ur_display_name r,
      u_creation_date = ur_creation_date r, u_uuid = ur_uuid r, u_attributes = [],
      u_modified_date = ur_modified_date r, u_password_modified_date = ur_password_modified_date r,
      u_krb_principal_name = ur_krb_principal_name r\<rparr>"

definition group_details_of_row :: "group_row \<Rightarrow> group_details" where
  "group_details_of_row r =
     \<lparr>gd_group_id = gr_group_id r, gd_display_name = gr_display_name r,
      gd_creation_date = gr_creation_date r, gd_uuid = gr_uuid r, gd_attributes = [],
      gd_modified_date = gr_modified_date r\<rparr>"

definition groups_of_user :: "db \<Rightarrow> user_id \<Rightarrow> group_row list" where
  "groups_of_user d u = filter (\<lambda>g. is_member d u (gr_group_id g)) (t_groups d)"

definition read_user_attribute :: "sql_libs \<Rightarrow> public_schema \<Rightarrow> user_attribute_row \<Rightarrow> attribute dresult" where
  "read_user_attribute Q sch a =
     rmap (\<lambda>x. x\<lparr>attr_name := canonical_user_attribute_name (attr_str (attr_name x))\<rparr>)
       (deserialize_attribute Q (ua_name a) (ua_value a) (user_attributes sch))"

definition with_attributes :: "user \<Rightarrow> attribute list \<Rightarrow> user" where
  "with_attributes u attrs = materialize_protected_fields (u\<lparr>u_attributes := attrs\<rparr>)"

text \<open>The loop of \<open>list_users\<close>: the attribute rows, sorted like the users, are consumed with
  \<open>take_while_ref\<close>.\<close>

fun attach_user_attributes ::
  "sql_libs \<Rightarrow> public_schema \<Rightarrow> user_and_groups list \<Rightarrow> user_attribute_row list \<Rightarrow> user_and_groups list dresult" where
  "attach_user_attributes Q sch [] rows = Inr []"
| "attach_user_attributes Q sch (x # xs) rows =
     (let own = (\<lambda>a. ua_user_id a = u_user_id (ug_user x)) in
      rbind (collect_results (map (read_user_attribute Q sch) (takeWhile own rows))) (\<lambda>attrs.
      rmap ((#) (x\<lparr>ug_user := with_attributes (ug_user x) attrs\<rparr>))
        (attach_user_attributes Q sch xs (dropWhile own rows))))"

definition select_users :: "sql_libs \<Rightarrow> user_cond \<Rightarrow> db \<Rightarrow> user_row list" where
  "select_users Q c d =
     sort_key (\<lambda>r. user_id_str (ur_user_id r)) (filter (\<lambda>r. eval_user_cond Q d r c = Some True) (t_users d))"

definition user_and_groups_of :: "db \<Rightarrow> user_row \<Rightarrow> user_and_groups" where
  "user_and_groups_of d r =
     \<lparr>ug_user = user_of_row r,
      ug_groups = Some (map group_details_of_row
        (sort_key (\<lambda>g. group_name_str (gr_display_name g)) (groups_of_user d (ur_user_id r))))\<rparr>"

definition select_user_attributes :: "sql_libs \<Rightarrow> user_cond \<Rightarrow> db \<Rightarrow> user_attribute_row list" where
  "select_user_attributes Q c d =
     sort_key (\<lambda>a. user_id_str (ua_user_id a)) (sort_key (\<lambda>a. attr_str (ua_name a))
       (filter (\<lambda>a. ua_user_id a \<in> ur_user_id ` set (select_users Q c d)) (t_user_attributes d)))"

definition list_users ::
  "sql_libs \<Rightarrow> db \<Rightarrow> user_request_filter option \<Rightarrow> bool \<Rightarrow> string + user_and_groups list dresult" where
  "list_users Q d filters get_groups =
     rmap (\<lambda>c.
       if \<not> resolves c then Inl (DatabaseError no_such_column)
       else rbind (get_schema_with_transaction Q d) (\<lambda>sch.
         attach_user_attributes Q sch (map (user_and_groups_of d) (select_users Q c d))
           (select_user_attributes Q c d)))
       (case filters of None \<Rightarrow> Inr (CBool True) | Some f \<Rightarrow> get_user_filter_expr Q f)"

definition get_user_details :: "sql_libs \<Rightarrow> db \<Rightarrow> user_id \<Rightarrow> user dresult" where
  "get_user_details Q d u =
     rbind (ok_or (EntityNotFound (user_id_str u)) (find_user d u)) (\<lambda>r.
     rbind (get_schema_with_transaction Q d) (\<lambda>sch.
     rmap (with_attributes (user_of_row r))
       (collect_results (map (read_user_attribute Q sch)
         (sort_key (\<lambda>a. attr_str (ua_name a)) (filter (\<lambda>a. ua_user_id a = u) (t_user_attributes d)))))))"

definition get_user_groups :: "db \<Rightarrow> user_id \<Rightarrow> group_details list dresult" where
  "get_user_groups d u =
     rmap (\<lambda>_. map group_details_of_row (groups_of_user d u))
       (ok_or (EntityNotFound (user_id_str u)) (find_user d u))"

section \<open>Reading groups\<close>

definition read_group_attribute :: "sql_libs \<Rightarrow> public_schema \<Rightarrow> group_attribute_row \<Rightarrow> attribute dresult" where
  "read_group_attribute Q sch a =
     rmap (\<lambda>x. x\<lparr>attr_name := canonical_group_attribute_name (attr_str (attr_name x))\<rparr>)
       (deserialize_attribute Q (ga_name a) (ga_value a) (group_attributes sch))"

fun attach_group_attributes ::
  "sql_libs \<Rightarrow> public_schema \<Rightarrow> group list \<Rightarrow> group_attribute_row list \<Rightarrow> group list dresult" where
  "attach_group_attributes Q sch [] rows = Inr []"
| "attach_group_attributes Q sch (x # xs) rows =
     (let own = (\<lambda>a. ga_group_id a = g_id x) in
      rbind (collect_results (map (read_group_attribute Q sch) (takeWhile own rows))) (\<lambda>attrs.
      rmap ((#) (x\<lparr>g_attributes := attrs\<rparr>))
        (attach_group_attributes Q sch xs (dropWhile own rows))))"

definition member_ou :: "db \<Rightarrow> user_id \<Rightarrow> string" where
  "member_ou d u =
     unwrap_or ''people''
       (last_opt (List.map_filter (\<lambda>a. if ua_user_id a = u \<and> ua_name a = attribute_name_from ''ou''
          then from_utf8 (ua_value a) else None) (t_user_attributes d)))"

text \<open>The members in the order of the rows, each once, the first occurrence kept.\<close>

definition group_members :: "db \<Rightarrow> group_id \<Rightarrow> group_member list" where
  "group_members d g =
     map (\<lambda>u. \<lparr>gm_user_id = u, gm_ou = member_ou d u\<rparr>)
       (rev (remdups (rev (map mb_user_id (filter (\<lambda>m. mb_group_id m = g) (t_memberships d))))))"

definition group_of_row :: "db \<Rightarrow> group_row \<Rightarrow> group" where
  "group_of_row d r =
     \<lparr>g_id = gr_group_id r, g_display_name = gr_display_name r, g_creation_date = gr_creation_date r,
      g_uuid = gr_uuid r, g_users = group_members d (gr_group_id r), g_attributes = [],
      g_modified_date = gr_modified_date r\<rparr>"

definition select_groups :: "sql_libs \<Rightarrow> group_cond \<Rightarrow> db \<Rightarrow> group_row list" where
  "select_groups Q c d =
     sort_key gr_group_id (filter (\<lambda>r. eval_group_cond Q d r c) (t_groups d))"

definition select_group_attributes :: "sql_libs \<Rightarrow> group_cond \<Rightarrow> db \<Rightarrow> group_attribute_row list" where
  "select_group_attributes Q c d =
     sort_key ga_group_id (sort_key (\<lambda>a. attr_str (ga_name a))
       (filter (\<lambda>a. ga_group_id a \<in> gr_group_id ` set (select_groups Q c d)) (t_group_attributes d)))"

definition list_groups ::
  "sql_libs \<Rightarrow> db \<Rightarrow> group_request_filter option \<Rightarrow> group list dresult" where
  "list_groups Q d filters =
     (let c = (case filters of None \<Rightarrow> DBool True | Some f \<Rightarrow> get_group_filter_expr Q f) in
      rbind (get_schema_with_transaction Q d) (\<lambda>sch.
      rmap (sort_key (\<lambda>g. to_ascii_lowercase (group_name_str (g_display_name g))))
        (attach_group_attributes Q sch (map (group_of_row d) (select_groups Q c d))
          (select_group_attributes Q c d))))"

definition get_group_details :: "sql_libs \<Rightarrow> db \<Rightarrow> group_id \<Rightarrow> group_details dresult" where
  "get_group_details Q d g =
     rbind (ok_or (EntityNotFound (''GroupId('' @ int_to_string g @ '')'')) (find_group d g)) (\<lambda>r.
     rbind (get_schema_with_transaction Q d) (\<lambda>sch.
     rmap (\<lambda>attrs. (group_details_of_row r)\<lparr>gd_attributes := attrs\<rparr>)
       (collect_results (map (read_group_attribute Q sch)
         (sort_key (\<lambda>a. attr_str (ga_name a)) (filter (\<lambda>a. ga_group_id a = g) (t_group_attributes d)))))))"

section \<open>The meaning of a condition\<close>

text \<open>An atom holds of a row when its condition is true of the row; an unknown condition does not
  hold.\<close>

definition row_atom :: "sql_libs \<Rightarrow> db \<Rightarrow> user_row \<Rightarrow> user_request_filter \<Rightarrow> bool" where
  "row_atom Q d r f =
     (case get_user_filter_expr Q f of Inl _ \<Rightarrow> False | Inr c \<Rightarrow> eval_user_cond Q d r c = Some True)"

definition group_row_atom :: "sql_libs \<Rightarrow> db \<Rightarrow> group_row \<Rightarrow> group_request_filter \<Rightarrow> bool" where
  "group_row_atom Q d r f = eval_group_cond Q d r (get_group_filter_expr Q f)"

lemma sql_truth_iff:
  "sql_all ts = Some True \<longleftrightarrow> (\<forall>t \<in> set ts. t = Some True)"
  "sql_all ts = Some False \<longleftrightarrow> Some False \<in> set ts"
  "sql_any ts = Some True \<longleftrightarrow> Some True \<in> set ts"
  "sql_any ts = Some False \<longleftrightarrow> (\<forall>t \<in> set ts. t = Some False)"
  "sql_not t = Some b \<longleftrightarrow> t = Some (\<not> b)"
  by (auto simp: sql_all_def sql_any_def sql_not_def) (metis option.exhaust)+

lemma collect_map_Inr_list_all2:
  "collect_results (map g xs) = Inr ys \<longleftrightarrow> list_all2 (\<lambda>x y. g x = Inr y) xs ys"
proof -
  have "map g xs = map Inr ys \<longleftrightarrow> list_all2 (\<lambda>x y. g x = Inr y) xs ys"
    by (induction xs arbitrary: ys) (auto simp: Cons_eq_map_conv list_all2_Cons1)
  then show ?thesis by (simp add: collect_results_eq_Inr)
qed

lemma list_all2_set:
  assumes "list_all2 P xs ys"
  shows "x \<in> set xs \<Longrightarrow> \<exists>y \<in> set ys. P x y" and "y \<in> set ys \<Longrightarrow> \<exists>x \<in> set xs. P x y"
  using assms by (induction rule: list_all2_induct) auto

lemma eval_user_cond_sound:
  "get_user_filter_expr Q f = Inr c \<Longrightarrow>
     (eval_user_cond Q d r c = Some True \<longrightarrow> user_filter_holds (row_atom Q d r) f)
   \<and> (eval_user_cond Q d r c = Some False \<longrightarrow> \<not> user_filter_holds (row_atom Q d r) f)"
proof (induction f arbitrary: c)
  case (UAnd fs)
  show ?case
  proof (cases "fs = []")
    case False
    then obtain cs where c: "c = CAll cs"
      and cs: "list_all2 (\<lambda>f c. get_user_filter_expr Q f = Inr c) fs cs"
      using UAnd.prems by (auto simp: rmap_def collect_map_Inr_list_all2 split: sum.splits)
    show ?thesis
      using UAnd.IH list_all2_set [OF cs] unfolding c
      by (simp add: sql_truth_iff list_all_iff) (metis imageE)
  qed (use UAnd.prems in auto)
next
  case (UOr fs)
  show ?case
  proof (cases "fs = []")
    case False
    then obtain cs where c: "c = CAny cs"
      and cs: "list_all2 (\<lambda>f c. get_user_filter_expr Q f = Inr c) fs cs"
      using UOr.prems by (auto simp: rmap_def collect_map_Inr_list_all2 split: sum.splits)
    show ?thesis
      using UOr.IH list_all2_set [OF cs] unfolding c
      by (simp add: sql_truth_iff list_ex_iff) (metis imageE)
  qed (use UOr.prems in auto)
next
  case (UNot f)
  then show ?case by (auto simp: rmap_def sql_truth_iff split: sum.splits)
qed (simp_all add: row_atom_def split: if_splits)

lemma eval_group_cond_exact:
  "eval_group_cond Q d r (get_group_filter_expr Q f) = group_filter_holds (group_row_atom Q d r) f"
proof (induction f)
  case (GAnd fs)
  then show ?case by (cases fs) (auto simp: list_all_iff)
next
  case (GOr fs)
  then show ?case by (cases fs) (auto simp: list_ex_iff)
qed (simp_all only: group_row_atom_def group_filter_holds.simps get_group_filter_expr.simps
      eval_group_cond.simps)

section \<open>The join of attribute rows\<close>

text \<open>On a sorted list whose keys are at least \<open>k\<close>, the rows of \<open>k\<close> are the first ones.\<close>

lemma takeWhile_sorted_key:
  assumes "sorted (map f rows)" and "\<And>a. a \<in> set rows \<Longrightarrow> k \<le> f a"
  shows "takeWhile (\<lambda>a. f a = k) rows = filter (\<lambda>a. f a = k) rows"
    and "dropWhile (\<lambda>a. f a = k) rows = filter (\<lambda>a. f a \<noteq> k) rows"
proof -
  have "takeWhile (\<lambda>a. f a = k) rows = filter (\<lambda>a. f a = k) rows \<and>
        dropWhile (\<lambda>a. f a = k) rows = filter (\<lambda>a. f a \<noteq> k) rows"
    using assms
  proof (induction rows)
    case (Cons a rows)
    show ?case
    proof (cases "f a = k")
      case False
      then have "k < f a" using Cons.prems(2) by (simp add: order.strict_iff_order)
      then have "\<forall>b \<in> set rows. f b \<noteq> k" using Cons.prems(1) by auto
      then show ?thesis using False by (simp add: filter_False filter_True)
    qed (use Cons in simp)
  qed simp
  then show "takeWhile (\<lambda>a. f a = k) rows = filter (\<lambda>a. f a = k) rows"
    and "dropWhile (\<lambda>a. f a = k) rows = filter (\<lambda>a. f a \<noteq> k) rows" by simp_all
qed

lemma user_id_str_eq [simp]: "user_id_str a = user_id_str b \<longleftrightarrow> a = b"
  by (cases a; cases b) simp

lemma attr_str_eq: "attr_str a = attr_str b \<longleftrightarrow> a = b"
  by (cases a; cases b) simp

text \<open>The pass that deals out attribute rows to sorted entities: each entity takes the rows of its
  key from the front of the list, reads them and stores them. On sorted input the pass is a join.\<close>

locale sorted_join =
  fixes xkey :: "'x \<Rightarrow> 'k::linorder" and rkey :: "'r \<Rightarrow> 'k"
    and read :: "'r \<Rightarrow> 'e + 'v" and put :: "'x \<Rightarrow> 'v list \<Rightarrow> 'x"
    and attach :: "'x list \<Rightarrow> 'r list \<Rightarrow> 'e + 'x list"
  assumes attach_Nil: "attach [] rows = Inr []"
    and attach_Cons: "attach (x # xs) rows =
      rbind (collect_results (map read (takeWhile (\<lambda>a. rkey a = xkey x) rows))) (\<lambda>vs.
      rmap ((#) (put x vs)) (attach xs (dropWhile (\<lambda>a. rkey a = xkey x) rows)))"
begin

lemma attach_join:
  assumes "sorted (map rkey rows)" and "sorted_wrt (<) (map xkey xs)"
    and "rkey ` set rows \<subseteq> xkey ` set xs"
  shows "attach xs rows = collect_results (map (\<lambda>x. rmap (put x)
    (collect_results (map read (filter (\<lambda>a. rkey a = xkey x) rows)))) xs)"
  using assms
proof (induction xs arbitrary: rows)
  case (Cons x xs)
  let ?rest = "filter (\<lambda>a. rkey a \<noteq> xkey x) rows"
  let ?join = "\<lambda>rows y. rmap (put y) (collect_results (map read (filter (\<lambda>a. rkey a = xkey y) rows)))"
  have later: "\<forall>y \<in> set xs. xkey x < xkey y" using Cons.prems(2) by simp
  have "xkey x \<le> rkey a" if "a \<in> set rows" for a
    using Cons.prems(3) later that by (fastforce simp: less_imp_le)
  note split = takeWhile_sorted_key [OF Cons.prems(1) this]
  have "sorted (map rkey ?rest)" using Cons.prems(1) by (rule sorted_filter)
  moreover have "sorted_wrt (<) (map xkey xs)" using Cons.prems(2) by simp
  moreover have "rkey ` set ?rest \<subseteq> xkey ` set xs" using Cons.prems(3) by auto
  ultimately have IH: "attach xs ?rest = collect_results (map (?join ?rest) xs)" by (rule Cons.IH)
  have "filter (\<lambda>a. rkey a = xkey y) ?rest = filter (\<lambda>a. rkey a = xkey y) rows" if "y \<in> set xs" for y
    using later that by (auto simp: filter_filter intro!: filter_cong)
  then have "map (?join ?rest) xs = map (?join rows) xs" by simp
  then have step: "attach (x # xs) rows =
      rbind (collect_results (map read (filter (\<lambda>a. rkey a = xkey x) rows))) (\<lambda>vs.
      rmap ((#) (put x vs)) (collect_results (map (?join rows) xs)))"
    by (simp only: attach_Cons split IH)
  show ?case
    by (cases "collect_results (map read (filter (\<lambda>a. rkey a = xkey x) rows))") (simp_all add: step)
qed (simp add: attach_Nil)

end

interpretation user_join: sorted_join
  "\<lambda>x. user_id_str (u_user_id (ug_user x))" "\<lambda>a. user_id_str (ua_user_id a)"
  "read_user_attribute Q sch" "\<lambda>x attrs. x\<lparr>ug_user := with_attributes (ug_user x) attrs\<rparr>"
  "attach_user_attributes Q sch" for Q sch
  by unfold_locales (simp_all add: Let_def)

interpretation group_join: sorted_join
  "g_id" "ga_group_id" "read_group_attribute Q sch" "\<lambda>x attrs. x\<lparr>g_attributes := attrs\<rparr>"
  "attach_group_attributes Q sch" for Q sch
  by unfold_locales (simp_all add: Let_def)

lemma select_users_ids:
  assumes "db_ok d"
  shows "sorted_wrt (<) (map (\<lambda>r. user_id_str (ur_user_id r)) (select_users Q c d))"
proof -
  have "distinct (map ur_user_id (filter P (t_users d)))" for P
    using assms by (simp add: db_ok_def unique_users_def distinct_filter_map)
  then have "distinct (map (\<lambda>r. user_id_str (ur_user_id r)) (select_users Q c d))"
    by (simp add: select_users_def distinct_map inj_on_def)
  moreover have "sorted (map (\<lambda>r. user_id_str (ur_user_id r)) (select_users Q c d))"
    by (simp add: select_users_def)
  ultimately show ?thesis by (simp add: strict_sorted_iff)
qed

lemma user_of_row_id [simp]: "u_user_id (user_of_row r) = ur_user_id r"
  by (simp add: user_of_row_def)

lemma with_attributes_id [simp]: "u_user_id (with_attributes u attrs) = u_user_id u"
  by (simp add: with_attributes_def materialize_protected_fields_def split: option.split)

lemma find_user_unique:
  assumes "db_ok d" and "r \<in> set (t_users d)"
  shows "find_user d (ur_user_id r) = Some r"
proof -
  obtain q where q: "find_user d (ur_user_id r) = Some q"
    using assms(2) find_user_None by (cases "find_user d (ur_user_id r)") auto
  then have "q \<in> set (t_users d)" "ur_user_id q = ur_user_id r"
    unfolding find_user_def by (auto dest: find_first_SomeD)
  then have "q = r" using assms by (auto simp: db_ok_def unique_users_def distinct_map inj_on_def)
  then show ?thesis using q by simp
qed

lemma select_user_attributes_own:
  assumes "r \<in> set (select_users Q c d)"
  shows "filter (\<lambda>a. ua_user_id a = ur_user_id r) (select_user_attributes Q c d)
    = sort_key (\<lambda>a. attr_str (ua_name a)) (filter (\<lambda>a. ua_user_id a = ur_user_id r) (t_user_attributes d))"
proof -
  let ?own = "\<lambda>a. user_id_str (ua_user_id a) = user_id_str (ur_user_id r)"
  let ?in = "\<lambda>a. ua_user_id a \<in> ur_user_id ` set (select_users Q c d)"
  have "filter ?own (select_user_attributes Q c d)
      = filter ?own (sort_key (\<lambda>a. attr_str (ua_name a)) (filter ?in (t_user_attributes d)))"
    unfolding select_user_attributes_def by (rule sort_key_stable)
  also have "\<dots> = sort_key (\<lambda>a. attr_str (ua_name a)) (filter ?own (filter ?in (t_user_attributes d)))"
    by (rule filter_sort)
  also have "filter ?own (filter ?in (t_user_attributes d)) = filter ?own (t_user_attributes d)"
    using assms by (auto simp: filter_filter intro!: filter_cong)
  finally show ?thesis by simp
qed

definition details_of_row :: "sql_libs \<Rightarrow> db \<Rightarrow> public_schema \<Rightarrow> user_row \<Rightarrow> user dresult" where
  "details_of_row Q d sch r =
     rmap (with_attributes (user_of_row r)) (collect_results (map (read_user_attribute Q sch)
       (sort_key (\<lambda>a. attr_str (ua_name a)) (filter (\<lambda>a. ua_user_id a = ur_user_id r) (t_user_attributes d)))))"

lemma get_user_details_row:
  assumes "db_ok d" "r \<in> set (t_users d)" "get_schema_with_transaction Q d = Inr sch"
  shows "get_user_details Q d (ur_user_id r) = details_of_row Q d sch r"
  by (simp add: get_user_details_def details_of_row_def find_user_unique [OF assms(1,2)] assms(3))

text \<open>The listing as a specification: each selected row with its details and its groups.\<close>

lemma list_users_spec:
  assumes ok: "db_ok d" and sch: "get_schema_with_transaction Q d = Inr sch" and res: "resolves c"
  shows "attach_user_attributes Q sch (map (user_and_groups_of d) (select_users Q c d))
      (select_user_attributes Q c d)
    = collect_results (map (\<lambda>r. rmap (\<lambda>u. (user_and_groups_of d r)\<lparr>ug_user := u\<rparr>)
        (details_of_row Q d sch r)) (select_users Q c d))"
proof -
  let ?rows = "select_user_attributes Q c d"
  have ids: "u_user_id (ug_user (user_and_groups_of d r)) = ur_user_id r" for r
    by (simp add: user_and_groups_of_def)
  have "attach_user_attributes Q sch (map (user_and_groups_of d) (select_users Q c d)) ?rows
      = collect_results (map (\<lambda>x. rmap (\<lambda>attrs. x\<lparr>ug_user := with_attributes (ug_user x) attrs\<rparr>)
          (collect_results (map (read_user_attribute Q sch)
            (filter (\<lambda>a. user_id_str (ua_user_id a) = user_id_str (u_user_id (ug_user x))) ?rows))))
        (map (user_and_groups_of d) (select_users Q c d)))"
    using select_users_ids [OF ok, of Q c]
    by (intro user_join.attach_join)
      (auto simp: select_user_attributes_def comp_def ids image_iff)
  also have "\<dots> = collect_results (map (\<lambda>r. rmap (\<lambda>u. (user_and_groups_of d r)\<lparr>ug_user := u\<rparr>)
      (details_of_row Q d sch r)) (select_users Q c d))"
    unfolding map_map
    by (intro arg_cong [of _ _ collect_results] map_cong refl)
      (simp add: ids details_of_row_def select_user_attributes_own rmap_def
        user_and_groups_of_def split: sum.split)
  finally show ?thesis .
qed

definition user_condition :: "sql_libs \<Rightarrow> user_request_filter option \<Rightarrow> string + user_cond" where
  "user_condition Q filters = (case filters of None \<Rightarrow> Inr (CBool True) | Some f \<Rightarrow> get_user_filter_expr Q f)"

lemma list_users_OkD:
  assumes "list_users Q d filters gg = Inr (Inr us)"
  obtains c sch where "user_condition Q filters = Inr c" "resolves c"
    "get_schema_with_transaction Q d = Inr sch"
    "attach_user_attributes Q sch (map (user_and_groups_of d) (select_users Q c d))
       (select_user_attributes Q c d) = Inr us"
  using assms
  by (auto simp: list_users_def user_condition_def [symmetric] rmap_def rbind_eq_Inr split: sum.splits if_splits)

lemma list_users_rows:
  assumes ok: "db_ok d" and l: "list_users Q d filters gg = Inr (Inr us)"
  obtains c where "user_condition Q filters = Inr c"
    "list_all2 (\<lambda>r x. get_user_details Q d (ur_user_id r) = Inr (ug_user x)
        \<and> u_user_id (ug_user x) = ur_user_id r
        \<and> ug_groups x = ug_groups (user_and_groups_of d r)) (select_users Q c d) us"
proof -
  obtain c sch where c: "user_condition Q filters = Inr c" "resolves c"
    and sch: "get_schema_with_transaction Q d = Inr sch"
    and att: "attach_user_attributes Q sch (map (user_and_groups_of d) (select_users Q c d))
       (select_user_attributes Q c d) = Inr us"
    using l by (rule list_users_OkD)
  have "list_all2 (\<lambda>r x. rmap (\<lambda>u. (user_and_groups_of d r)\<lparr>ug_user := u\<rparr>) (details_of_row Q d sch r) = Inr x)
      (select_users Q c d) us"
    using att by (simp only: list_users_spec [OF ok sch c(2)] collect_map_Inr_list_all2)
  then have "list_all2 (\<lambda>r x. get_user_details Q d (ur_user_id r) = Inr (ug_user x)
        \<and> u_user_id (ug_user x) = ur_user_id r
        \<and> ug_groups x = ug_groups (user_and_groups_of d r)) (select_users Q c d) us"
  proof (rule list.rel_mono_strong)
    fix r x assume "r \<in> set (select_users Q c d)"
      and x: "rmap (\<lambda>u. (user_and_groups_of d r)\<lparr>ug_user := u\<rparr>) (details_of_row Q d sch r) = Inr x"
    then have "get_user_details Q d (ur_user_id r) = details_of_row Q d sch r"
      by (intro get_user_details_row [OF ok _ sch]) (simp add: select_users_def)
    moreover obtain u where "details_of_row Q d sch r = Inr u" "x = (user_and_groups_of d r)\<lparr>ug_user := u\<rparr>"
      using x by (cases "details_of_row Q d sch r") auto
    moreover from this(1) have "u_user_id u = ur_user_id r"
      by (auto simp: details_of_row_def rmap_def split: sum.splits)
    ultimately show "get_user_details Q d (ur_user_id r) = Inr (ug_user x)
        \<and> u_user_id (ug_user x) = ur_user_id r
        \<and> ug_groups x = ug_groups (user_and_groups_of d r)" by simp
  qed
  with c(1) show thesis by (rule that)
qed

lemma mset_sorted_groups:
  "ug_groups (user_and_groups_of d r) = Some gs \<Longrightarrow>
     mset gs = mset (map group_details_of_row (groups_of_user d (ur_user_id r)))"
  by (auto simp: user_and_groups_of_def)

text \<open>C10: A listing of users is exact. On a database that satisfies its keys, a listing that
  succeeds returns, sorted by identifier and without repetition, exactly the users on whose row
  the condition of the filter is true in SQL's three-valued logic; each comes with the attributes
  that \<open>get_user_details\<close> gives, although the attribute rows of all users are fetched at once and
  dealt out in a single pass, and with the groups that \<open>get_user_groups\<close> gives.\<close>

theorem list_users_exact:
  assumes "db_ok d" and "list_users Q d filters gg = Inr (Inr us)"
  shows "sorted_wrt (<) (map (\<lambda>x. user_id_str (u_user_id (ug_user x))) us)
    \<and> (\<forall>x \<in> set us.
         get_user_details Q d (u_user_id (ug_user x)) = Inr (ug_user x)
         \<and> (\<exists>gs hs. ug_groups x = Some gs \<and> get_user_groups d (u_user_id (ug_user x)) = Inr hs
              \<and> mset gs = mset hs))
    \<and> (\<forall>r \<in> set (t_users d).
         ur_user_id r \<in> (\<lambda>x. u_user_id (ug_user x)) ` set us \<longleftrightarrow>
         (\<exists>c. user_condition Q filters = Inr c \<and> eval_user_cond Q d r c = Some True))"
proof (intro conjI ballI)
  obtain c where c: "user_condition Q filters = Inr c"
    and rel: "list_all2 (\<lambda>r x. get_user_details Q d (ur_user_id r) = Inr (ug_user x)
        \<and> u_user_id (ug_user x) = ur_user_id r
        \<and> ug_groups x = ug_groups (user_and_groups_of d r)) (select_users Q c d) us"
    using assms by (rule list_users_rows)
  have "map (\<lambda>x. user_id_str (u_user_id (ug_user x))) us = map (\<lambda>r. user_id_str (ur_user_id r)) (select_users Q c d)"
    using rel by (induction rule: list_all2_induct) auto
  then show "sorted_wrt (<) (map (\<lambda>x. user_id_str (u_user_id (ug_user x))) us)"
    using select_users_ids [OF assms(1)] by simp
  {
    fix x assume "x \<in> set us"
    then obtain r where r: "r \<in> set (select_users Q c d)"
      and x: "get_user_details Q d (ur_user_id r) = Inr (ug_user x)" "u_user_id (ug_user x) = ur_user_id r"
        "ug_groups x = ug_groups (user_and_groups_of d r)"
      using list_all2_set(2) [OF rel] by blast
    then have found: "find_user d (ur_user_id r) = Some r"
      by (intro find_user_unique [OF assms(1)]) (simp add: select_users_def)
    show "get_user_details Q d (u_user_id (ug_user x)) = Inr (ug_user x)" using x by simp
    show "\<exists>gs hs. ug_groups x = Some gs \<and> get_user_groups d (u_user_id (ug_user x)) = Inr hs \<and> mset gs = mset hs"
      using x(2,3) found mset_sorted_groups [of d r]
      by (auto simp: get_user_groups_def user_and_groups_of_def)
  }
  fix r assume r: "r \<in> set (t_users d)"
  have "(\<lambda>x. u_user_id (ug_user x)) ` set us = ur_user_id ` set (select_users Q c d)"
    using rel by (induction rule: list_all2_induct) auto
  moreover have "ur_user_id r \<in> ur_user_id ` set (select_users Q c d) \<longleftrightarrow> eval_user_cond Q d r c = Some True"
    using r assms(1) by (auto simp: select_users_def db_ok_def unique_users_def distinct_map inj_on_def)
  ultimately show "ur_user_id r \<in> (\<lambda>x. u_user_id (ug_user x)) ` set us \<longleftrightarrow>
      (\<exists>c. user_condition Q filters = Inr c \<and> eval_user_cond Q d r c = Some True)"
    by (simp add: c)
qed

text \<open>An ordering filter on a user attribute never selects anybody: the condition refers to the
  table of groups, which a query over users does not have, and the listing fails with a database
  error.\<close>

theorem user_attribute_order_fails:
  "list_users Q d (Some (UAttributeGreaterOrEqual n v)) gg = Inr (Inl (DatabaseError no_such_column))
   \<and> list_users Q d (Some (UAttributeLessOrEqual n v)) gg = Inr (Inl (DatabaseError no_such_column))"
  by (simp add: list_users_def)

lemma list_users_sound:
  assumes ok: "db_ok d" and l: "list_users Q d (Some f) gg = Inr (Inr us)" and x: "x \<in> set us"
  obtains r where "find_user d (u_user_id (ug_user x)) = Some r" "user_filter_holds (row_atom Q d r) f"
proof -
  obtain c where c: "user_condition Q (Some f) = Inr c"
    and rel: "list_all2 (\<lambda>r x. get_user_details Q d (ur_user_id r) = Inr (ug_user x)
        \<and> u_user_id (ug_user x) = ur_user_id r
        \<and> ug_groups x = ug_groups (user_and_groups_of d r)) (select_users Q c d) us"
    using ok l by (rule list_users_rows)
  obtain r where r: "r \<in> set (select_users Q c d)" "u_user_id (ug_user x) = ur_user_id r"
    using list_all2_set(2) [OF rel x] by blast
  then have "r \<in> set (t_users d)" "eval_user_cond Q d r c = Some True"
    by (simp_all add: select_users_def)
  then show thesis
    using that [of r] find_user_unique [OF ok, of r] r(2) c eval_user_cond_sound [of Q f c d r]
    by (simp add: user_condition_def)
qed

subsection \<open>Groups\<close>

lemma select_groups_ids:
  assumes "db_ok d"
  shows "sorted_wrt (<) (map gr_group_id (select_groups Q c d))"
proof -
  have "distinct (map gr_group_id (filter P (t_groups d)))" for P
    using assms by (simp add: db_ok_def unique_groups_def distinct_filter_map)
  then have "distinct (map gr_group_id (select_groups Q c d))"
    by (simp add: select_groups_def distinct_map)
  then show ?thesis by (simp add: select_groups_def strict_sorted_iff)
qed

lemma find_group_unique:
  assumes "db_ok d" and "r \<in> set (t_groups d)"
  shows "find_group d (gr_group_id r) = Some r"
proof -
  obtain q where q: "find_group d (gr_group_id r) = Some q"
    using assms(2) find_group_None by (cases "find_group d (gr_group_id r)") auto
  then have "q \<in> set (t_groups d)" "gr_group_id q = gr_group_id r"
    unfolding find_group_def by (auto dest: find_first_SomeD)
  then have "q = r" using assms by (auto simp: db_ok_def unique_groups_def distinct_map inj_on_def)
  then show ?thesis using q by simp
qed

lemma select_group_attributes_own:
  assumes "r \<in> set (select_groups Q c d)"
  shows "filter (\<lambda>a. ga_group_id a = gr_group_id r) (select_group_attributes Q c d)
    = sort_key (\<lambda>a. attr_str (ga_name a)) (filter (\<lambda>a. ga_group_id a = gr_group_id r) (t_group_attributes d))"
proof -
  let ?own = "\<lambda>a. ga_group_id a = gr_group_id r"
  let ?in = "\<lambda>a. ga_group_id a \<in> gr_group_id ` set (select_groups Q c d)"
  have "filter ?own (select_group_attributes Q c d)
      = filter ?own (sort_key (\<lambda>a. attr_str (ga_name a)) (filter ?in (t_group_attributes d)))"
    unfolding select_group_attributes_def by (rule sort_key_stable)
  also have "\<dots> = sort_key (\<lambda>a. attr_str (ga_name a)) (filter ?own (filter ?in (t_group_attributes d)))"
    by (rule filter_sort)
  also have "filter ?own (filter ?in (t_group_attributes d)) = filter ?own (t_group_attributes d)"
    using assms by (auto simp: filter_filter intro!: filter_cong)
  finally show ?thesis .
qed

definition group_condition :: "sql_libs \<Rightarrow> group_request_filter option \<Rightarrow> group_cond" where
  "group_condition Q filters = (case filters of None \<Rightarrow> DBool True | Some f \<Rightarrow> get_group_filter_expr Q f)"

lemma list_groups_rows:
  assumes ok: "db_ok d" and l: "list_groups Q d filters = Inr gs" and g: "g \<in> set gs"
  obtains r where "r \<in> set (select_groups Q (group_condition Q filters) d)"
    "get_group_details Q d (gr_group_id r)
       = Inr ((group_details_of_row r)\<lparr>gd_attributes := g_attributes g\<rparr>)"
    "g = (group_of_row d r)\<lparr>g_attributes := g_attributes g\<rparr>"
proof -
  let ?c = "group_condition Q filters"
  let ?rows = "select_group_attributes Q ?c d"
  obtain sch hs where sch: "get_schema_with_transaction Q d = Inr sch"
    and att: "attach_group_attributes Q sch (map (group_of_row d) (select_groups Q ?c d)) ?rows = Inr hs"
    and gs: "set gs = set hs"
    using l by (auto simp: list_groups_def Let_def group_condition_def [symmetric] rbind_eq_Inr rmap_eq_Inr)
  have id: "g_id (group_of_row d r) = gr_group_id r" for r by (simp add: group_of_row_def)
  let ?xs = "map (group_of_row d) (select_groups Q ?c d)"
  let ?read = "\<lambda>x. rmap (\<lambda>attrs. x\<lparr>g_attributes := attrs\<rparr>)
    (collect_results (map (read_group_attribute Q sch) (filter (\<lambda>a. ga_group_id a = g_id x) ?rows)))"
  have "attach_group_attributes Q sch ?xs ?rows = collect_results (map ?read ?xs)"
    using select_groups_ids [OF ok, of Q ?c]
    by (intro group_join.attach_join) (auto simp: select_group_attributes_def comp_def id image_iff)
  then have "collect_results (map ?read ?xs) = Inr hs" using att by (rule subst)
  then have rel: "list_all2 (\<lambda>x y. ?read x = Inr y) ?xs hs" by (rule collect_map_Inr_list_all2 [THEN iffD1])
  have "g \<in> set hs" using g gs by simp
  from list_all2_set(2) [OF rel this] obtain x where x: "x \<in> set ?xs" "?read x = Inr g" by (rule bexE)
  then obtain r where r: "r \<in> set (select_groups Q ?c d)" "x = group_of_row d r" by auto
  have attrs: "g = x\<lparr>g_attributes := g_attributes g\<rparr>"
    "collect_results (map (read_group_attribute Q sch) (filter (\<lambda>a. ga_group_id a = g_id x) ?rows))
      = Inr (g_attributes g)"
    using x(2) by (auto simp: rmap_def split: sum.splits)
  have "find_group d (gr_group_id r) = Some r"
    using r(1) by (intro find_group_unique [OF ok]) (simp add: select_groups_def)
  then have "get_group_details Q d (gr_group_id r)
      = Inr ((group_details_of_row r)\<lparr>gd_attributes := g_attributes g\<rparr>)"
    using attrs(2) r by (simp add: get_group_details_def sch id select_group_attributes_own)
  then show thesis using that r attrs(1) by blast
qed

end
