(* ===== verification/Sql_Posix.thy ===== *)
theory Sql_Posix
  imports Sql_Listing
begin

text \<open>
  POSIX numbers (\<open>sql_user_backend_handler.rs\<close>): the test whether a number is taken, the search
  for the next free one, the checks on numbers that a request brings along, and the reassignment
  of numbers, shells and home directories to all users or groups.
\<close>

abbreviation uidnumber :: attribute_name where
  "uidnumber \<equiv> attribute_name_from ''uidnumber''"

abbreviation gidnumber :: attribute_name where
  "gidnumber \<equiv> attribute_name_from ''gidnumber''"

section \<open>Free numbers\<close>

definition is_uidnumber_taken :: "db \<Rightarrow> int \<Rightarrow> bool" where
  "is_uidnumber_taken d uid \<longleftrightarrow>
     length (filter (\<lambda>a. ua_name a = uidnumber \<and> ua_value a = int_to_string uid)
       (t_user_attributes d)) > 0"

definition is_gidnumber_taken :: "db \<Rightarrow> int \<Rightarrow> bool" where
  "is_gidnumber_taken d gid \<longleftrightarrow>
     length (filter (\<lambda>a. ga_name a = gidnumber \<and> ga_value a = int_to_string gid)
       (t_group_attributes d)) > 0"

text \<open>The loop that both searches run, over the test they use. It ends because the candidate
  approaches the maximum, whatever is taken. The candidate is an \<open>i64\<close> in the code and would overflow
  after the largest one; the settings keep the maximum at 60000.\<close>

function next_free :: "(int \<Rightarrow> bool) \<Rightarrow> int \<Rightarrow> int \<Rightarrow> int option" where
  "next_free taken candidate maxi =
     (if candidate \<le> maxi then
        if \<not> taken candidate then Some candidate else next_free taken (candidate + 1) maxi
      else None)"
  by pat_completeness auto
termination
  by (relation "measure (\<lambda>(taken, candidate, maxi). nat (maxi + 1 - candidate))") auto

declare next_free.simps [simp del]

definition next_available_uid_number :: "db \<Rightarrow> int \<Rightarrow> int \<Rightarrow> int dresult" where
  "next_available_uid_number d start maxi =
     (if start > maxi then
        Inl (InternalError (''uidNumber start ('' @ int_to_string start @ '') > max (''
          @ int_to_string maxi @ '')''))
      else ok_or (InternalError (''No available uidNumber in range '' @ int_to_string start @ ''-''
          @ int_to_string maxi @ '' (all taken)''))
        (next_free (is_uidnumber_taken d) start maxi))"

definition next_available_gid_number :: "db \<Rightarrow> int \<Rightarrow> int \<Rightarrow> int dresult" where
  "next_available_gid_number d start maxi =
     (if start > maxi then
        Inl (InternalError (''gidNumber start ('' @ int_to_string start @ '') > max (''
          @ int_to_string maxi @ '')''))
      else ok_or (InternalError (''No available gidNumber in range '' @ int_to_string start @ ''-''
          @ int_to_string maxi @ '' (all taken)''))
        (next_free (is_gidnumber_taken d) start maxi))"

section \<open>Numbers in requests\<close>

definition already_assigned :: "int \<Rightarrow> domain_error" where
  "already_assigned v =
     InternalError (''Number '' @ int_to_string v @ '' is already assigned to another user/group'')"

text \<open>The checks of \<open>create_user\<close> on one attribute of the request. A user's gidnumber may repeat.\<close>

definition check_new_user_number :: "db \<Rightarrow> attribute \<Rightarrow> unit \<Rightarrow> unit dresult" where
  "check_new_user_number d a _ =
     (case attr_value a of
        AInteger (Singleton v) \<Rightarrow>
          (let name = attr_str (attr_name a) in
           if name = ''uidnumber'' \<or> name = ''gidnumber'' then
             if v \<noteq> 0 \<and> \<not> (3000 \<le> v \<and> v \<le> 60000) then
               Inl (InternalError (name @ '' must be between 3000 and 60000''))
             else if name = ''uidnumber'' \<and> is_uidnumber_taken d v then Inl (already_assigned v)
             else Inr ()
           else Inr ())
      | _ \<Rightarrow> Inr ())"

text \<open>The checks of \<open>create_group\<close>: both numbers must be free.\<close>

definition number_taken :: "db \<Rightarrow> string \<Rightarrow> int \<Rightarrow> bool" where
  "number_taken d name v =
     (if name = ''uidnumber'' then is_uidnumber_taken d v else is_gidnumber_taken d v)"

definition check_new_group_number :: "db \<Rightarrow> attribute \<Rightarrow> unit \<Rightarrow> unit dresult" where
  "check_new_group_number d a _ =
     (case attr_value a of
        AInteger (Singleton v) \<Rightarrow>
          (let name = attr_str (attr_name a) in
           if name = ''uidnumber'' \<or> name = ''gidnumber'' then
             if v \<noteq> 0 \<and> \<not> (3000 \<le> v \<and> v \<le> 60000) then
               Inl (InternalError (name @ '' must be between 3000 and 60000''))
             else if number_taken d name v then Inl (already_assigned v)
             else Inr ()
           else Inr ())
      | _ \<Rightarrow> Inr ())"

text \<open>The checks of \<open>update_user_with_transaction\<close> on one row to be written: the value is parsed
  from the stored bytes, a text that is no number counts as zero.\<close>

definition check_updated_user_number :: "db \<Rightarrow> user_attribute_row \<Rightarrow> unit \<Rightarrow> unit dresult" where
  "check_updated_user_number d a _ =
     (case from_utf8 (ua_value a) of
        None \<Rightarrow> Inr ()
      | Some s \<Rightarrow>
          (let v = unwrap_or 0 (parse_i64 (trim s)); name = attr_str (ua_name a) in
           if name = ''uidnumber'' \<or> name = ''gidnumber'' then
             if \<not> (3000 \<le> v \<and> v \<le> 60000) then
               Inl (InternalError (name @ '' must be between 3000 and 60000''))
             else if name = ''uidnumber'' \<and> is_uidnumber_taken d v then Inl (already_assigned v)
             else Inr ()
           else Inr ()))"

section \<open>Reassignment\<close>

definition write_user_attribute :: "date \<Rightarrow> attribute_name \<Rightarrow> user_id \<times> bytes \<Rightarrow> db \<Rightarrow> db dresult" where
  "write_user_attribute now name p d =
     rbind (upsert_user_attribute \<lparr>ua_user_id = fst p, ua_name = name, ua_value = snd p\<rparr> d)
       (update_user_row (fst p) (\<lambda>r. r\<lparr>ur_modified_date := now\<rparr>))"

definition write_group_attribute :: "date \<Rightarrow> attribute_name \<Rightarrow> group_id \<times> bytes \<Rightarrow> db \<Rightarrow> db dresult" where
  "write_group_attribute now name p d =
     rbind (upsert_group_attribute \<lparr>ga_group_id = fst p, ga_name = name, ga_value = snd p\<rparr> d)
       (update_group_row (fst p) (\<lambda>r. r\<lparr>gr_modified_date := now\<rparr>))"

definition delete_all_user_attribute :: "attribute_name \<Rightarrow> db \<Rightarrow> db dresult" where
  "delete_all_user_attribute name d =
     Inr (d\<lparr>t_user_attributes := filter (\<lambda>a. ua_name a \<noteq> name) (t_user_attributes d)\<rparr>)"

definition delete_all_group_attribute :: "attribute_name \<Rightarrow> db \<Rightarrow> db dresult" where
  "delete_all_group_attribute name d =
     Inr (d\<lparr>t_group_attributes := filter (\<lambda>a. ga_name a \<noteq> name) (t_group_attributes d)\<rparr>)"

text \<open>\<open>(start..).zip(rows)\<close>: consecutive numbers in the order of creation.\<close>

definition numbered :: "int \<Rightarrow> 'a list \<Rightarrow> ('a \<times> bytes) list" where
  "numbered start ids = map (\<lambda>(i, x). (x, int_to_string (start + int i))) (enumerate 0 ids)"

definition reassign_gid_numbers :: "sql_libs \<Rightarrow> 'k world \<Rightarrow> unit dresult \<times> 'k world" where
  "reassign_gid_numbers Q w =
     (case get_posix_settings Q (w_db w) of
        Inl e \<Rightarrow> (Inl e, w)
      | Inr settings \<Rightarrow>
          execute (\<lambda>d.
            if group_gidnumber_assign settings then
              for_each (write_group_attribute (w_now w) gidnumber)
                (numbered (group_gidnumber_start settings)
                  (map gr_group_id (sort_key gr_creation_date (t_groups d)))) d
            else delete_all_group_attribute gidnumber d) w)"

definition reassign_user_uid_numbers :: "sql_libs \<Rightarrow> 'k world \<Rightarrow> unit dresult \<times> 'k world" where
  "reassign_user_uid_numbers Q w =
     (case get_posix_settings Q (w_db w) of
        Inl e \<Rightarrow> (Inl e, w)
      | Inr settings \<Rightarrow>
          execute (\<lambda>d.
            if user_uidnumber_assign settings then
              for_each (write_user_attribute (w_now w) uidnumber)
                (numbered (user_uidnumber_start settings)
                  (map ur_user_id (sort_key ur_creation_date (t_users d)))) d
            else delete_all_user_attribute uidnumber d) w)"

definition reassign_user_gid_numbers :: "sql_libs \<Rightarrow> 'k world \<Rightarrow> unit dresult \<times> 'k world" where
  "reassign_user_gid_numbers Q w =
     (case get_posix_settings Q (w_db w) of
        Inl e \<Rightarrow> (Inl e, w)
      | Inr settings \<Rightarrow>
          execute (\<lambda>d.
            if user_gidnumber_assign settings then
              for_each (write_user_attribute (w_now w) gidnumber)
                (map (\<lambda>r. (ur_user_id r, int_to_string (user_gidnumber_start settings))) (t_users d)) d
            else delete_all_user_attribute gidnumber d) w)"

definition reassign_user_homedirectories :: "sql_libs \<Rightarrow> 'k world \<Rightarrow> unit dresult \<times> 'k world" where
  "reassign_user_homedirectories Q w =
     (case get_posix_settings Q (w_db w) of
        Inl e \<Rightarrow> (Inl e, w)
      | Inr settings \<Rightarrow>
          execute (\<lambda>d.
            if user_homedirectory_assign settings then
              for_each (write_user_attribute (w_now w) (attribute_name_from ''homedirectory''))
                (map (\<lambda>r. (ur_user_id r,
                    user_homedirectory_prefix settings @ ''/'' @ user_id_str (ur_user_id r))) (t_users d)) d
            else delete_all_user_attribute (attribute_name_from ''homedirectory'') d) w)"

definition reassign_user_loginshells :: "sql_libs \<Rightarrow> 'k world \<Rightarrow> unit dresult \<times> 'k world" where
  "reassign_user_loginshells Q w =
     (case get_posix_settings Q (w_db w) of
        Inl e \<Rightarrow> (Inl e, w)
      | Inr settings \<Rightarrow>
          execute (\<lambda>d.
            if user_loginshell_assign settings then
              for_each (write_user_attribute (w_now w) (attribute_name_from ''loginshell''))
                (map (\<lambda>r. (ur_user_id r, user_loginshell_default settings)) (t_users d)) d
            else delete_all_user_attribute (attribute_name_from ''loginshell'') d) w)"

section \<open>Facts\<close>

lemma next_free_Some:
  "next_free taken c m = Some n \<longleftrightarrow>
     c \<le> n \<and> n \<le> m \<and> \<not> taken n \<and> (\<forall>i. c \<le> i \<and> i < n \<longrightarrow> taken i)"
proof (induction taken c m rule: next_free.induct)
  case (1 taken c m)
  show ?case
  proof (cases "c \<le> m \<and> taken c")
    case True
    then have "next_free taken c m = Some n \<longleftrightarrow>
        c + 1 \<le> n \<and> n \<le> m \<and> \<not> taken n \<and> (\<forall>i. c + 1 \<le> i \<and> i < n \<longrightarrow> taken i)"
      using "1.IH" by (subst next_free.simps) simp
    also have "\<dots> \<longleftrightarrow> c \<le> n \<and> n \<le> m \<and> \<not> taken n \<and> (\<forall>i. c \<le> i \<and> i < n \<longrightarrow> taken i)"
      using True by (simp only: add1_zle_eq) (metis order_le_less)
    finally show ?thesis .
  next
    case False
    then consider "m < c" | "c \<le> m" "\<not> taken c" by force
    then show ?thesis
    proof cases
      case 1
      then show ?thesis by (subst next_free.simps) auto
    next
      case 2
      then have "next_free taken c m = Some n \<longleftrightarrow> n = c" by (subst next_free.simps) auto
      with 2 show ?thesis by (metis linorder_not_less order_le_less)
    qed
  qed
qed

lemma next_free_None: "next_free taken c m = None \<longleftrightarrow> (\<forall>i. c \<le> i \<and> i \<le> m \<longrightarrow> taken i)"
proof (induction taken c m rule: next_free.induct)
  case (1 taken c m)
  show ?case
  proof (cases "c \<le> m \<and> taken c")
    case True
    then have "next_free taken c m = None \<longleftrightarrow> (\<forall>i. c < i \<and> i \<le> m \<longrightarrow> taken i)"
      using "1.IH" by (subst next_free.simps) (simp add: add1_zle_eq)
    with True show ?thesis by (metis order_le_less)
  qed (subst next_free.simps, auto)
qed

text \<open>C20: The search for the next uidNumber is correct and complete: it returns the smallest number
  of the range that no user has, and it fails exactly when the range is empty or every number of
  it is taken.\<close>

theorem next_available_uid_correct:
  "(next_available_uid_number d start maxi = Inr n \<longleftrightarrow>
      start \<le> n \<and> n \<le> maxi \<and> \<not> is_uidnumber_taken d n
      \<and> (\<forall>i. start \<le> i \<and> i < n \<longrightarrow> is_uidnumber_taken d i))
   \<and> ((\<exists>e. next_available_uid_number d start maxi = Inl e) \<longleftrightarrow>
      (\<forall>i. start \<le> i \<and> i \<le> maxi \<longrightarrow> is_uidnumber_taken d i))"
proof (cases "start \<le> maxi")
  case True
  then show ?thesis
    using next_free_Some [of "is_uidnumber_taken d" start maxi n] next_free_None [of "is_uidnumber_taken d" start maxi]
    by (cases "next_free (is_uidnumber_taken d) start maxi") (auto simp: next_available_uid_number_def)
qed (auto simp: next_available_uid_number_def)

section \<open>Attribute values after writing\<close>

definition user_attribute :: "db \<Rightarrow> user_id \<Rightarrow> attribute_name \<Rightarrow> bytes option" where
  "user_attribute d u n =
     map_option ua_value (find_first (\<lambda>a. ua_user_id a = u \<and> ua_name a = n) (t_user_attributes d))"

definition group_attribute :: "db \<Rightarrow> group_id \<Rightarrow> attribute_name \<Rightarrow> bytes option" where
  "group_attribute d g n =
     map_option ga_value (find_first (\<lambda>a. ga_group_id a = g \<and> ga_name a = n) (t_group_attributes d))"

text \<open>A writer of attribute values: what was written is read back and nothing else changes. Then
  writing a list of values with distinct owners gives each owner its value.\<close>

locale attribute_writer =
  fixes get :: "db \<Rightarrow> 'i \<Rightarrow> attribute_name \<Rightarrow> bytes option"
    and put :: "attribute_name \<Rightarrow> 'i \<times> bytes \<Rightarrow> db \<Rightarrow> db dresult"
  assumes put_get: "put n p d = Inr d' \<Longrightarrow>
    get d' j m = (if j = fst p \<and> m = n then Some (snd p) else get d j m)"
begin

lemma for_each_get:
  assumes "for_each (put n) ps d = Inr d'" and "distinct (map fst ps)"
  shows "get d' j m = (if m = n \<and> j \<in> fst ` set ps then map_of ps j else get d j m)"
  using assms
proof (induction ps arbitrary: d)
  case (Cons p ps)
  from Cons.prems(1) obtain d1 where d1: "put n p d = Inr d1" "for_each (put n) ps d1 = Inr d'"
    by (auto simp: rbind_eq_Inr)
  have "get d' j m = (if m = n \<and> j \<in> fst ` set ps then map_of ps j else get d1 j m)"
    using Cons.IH [OF d1(2)] Cons.prems(2) by simp
  with put_get [OF d1(1), of j m] Cons.prems(2) show ?case
    by (cases p) auto
qed simp

end

lemma find_first_map_update:
  "find_first P (map h xs) = map_option h (find_first (\<lambda>x. P (h x)) xs)"
  by (induction xs) auto

lemma upsert_user_attribute_get:
  assumes "upsert_user_attribute a d = Inr d'"
  shows "user_attribute d' u n =
    (if u = ua_user_id a \<and> n = ua_name a then Some (ua_value a) else user_attribute d u n)"
proof (cases "list_ex (same_user_attribute a) (t_user_attributes d)")
  case True
  let ?h = "\<lambda>b. if same_user_attribute a b then b\<lparr>ua_value := ua_value a\<rparr> else b"
  have rows: "t_user_attributes d' = map ?h (t_user_attributes d)"
    using assms True by (auto simp: upsert_user_attribute_def split: if_splits)
  have keys: "(\<lambda>b. ua_user_id (?h b) = u \<and> ua_name (?h b) = n) = (\<lambda>b. ua_user_id b = u \<and> ua_name b = n)"
    by auto
  have ex: "find_first (\<lambda>b. ua_user_id b = ua_user_id a \<and> ua_name b = ua_name a) (t_user_attributes d) \<noteq> None"
    using True by (auto simp: find_first_None list_ex_iff same_user_attribute_def)
  show ?thesis
    unfolding user_attribute_def rows find_first_map_update keys
    using ex by (cases "find_first (\<lambda>b. ua_user_id b = u \<and> ua_name b = n) (t_user_attributes d)")
      (auto simp: same_user_attribute_def dest: find_first_SomeD)
next
  case False
  then have "t_user_attributes d' = t_user_attributes d @ [a]"
    using assms by (auto simp: upsert_user_attribute_def split: if_splits)
  moreover have "find_first (\<lambda>b. ua_user_id b = ua_user_id a \<and> ua_name b = ua_name a) (t_user_attributes d) = None"
    using False by (auto simp: find_first_None list_ex_iff same_user_attribute_def)
  ultimately show ?thesis by (auto simp: user_attribute_def find_first_append split: option.splits)
qed

lemma upsert_group_attribute_get:
  assumes "upsert_group_attribute a d = Inr d'"
  shows "group_attribute d' g n =
    (if g = ga_group_id a \<and> n = ga_name a then Some (ga_value a) else group_attribute d g n)"
proof (cases "list_ex (same_group_attribute a) (t_group_attributes d)")
  case True
  let ?h = "\<lambda>b. if same_group_attribute a b then b\<lparr>ga_value := ga_value a\<rparr> else b"
  have rows: "t_group_attributes d' = map ?h (t_group_attributes d)"
    using assms True by (auto simp: upsert_group_attribute_def split: if_splits)
  have keys: "(\<lambda>b. ga_group_id (?h b) = g \<and> ga_name (?h b) = n) = (\<lambda>b. ga_group_id b = g \<and> ga_name b = n)"
    by auto
  have ex: "find_first (\<lambda>b. ga_group_id b = ga_group_id a \<and> ga_name b = ga_name a) (t_group_attributes d) \<noteq> None"
    using True by (auto simp: find_first_None list_ex_iff same_group_attribute_def)
  show ?thesis
    unfolding group_attribute_def rows find_first_map_update keys
    using ex by (cases "find_first (\<lambda>b. ga_group_id b = g \<and> ga_name b = n) (t_group_attributes d)")
      (auto simp: same_group_attribute_def dest: find_first_SomeD)
next
  case False
  then have "t_group_attributes d' = t_group_attributes d @ [a]"
    using assms by (auto simp: upsert_group_attribute_def split: if_splits)
  moreover have "find_first (\<lambda>b. ga_group_id b = ga_group_id a \<and> ga_name b = ga_name a) (t_group_attributes d) = None"
    using False by (auto simp: find_first_None list_ex_iff same_group_attribute_def)
  ultimately show ?thesis by (auto simp: group_attribute_def find_first_append split: option.splits)
qed

lemma update_row_attributes:
  "update_user_row u f d = Inr d' \<Longrightarrow> user_attribute d' = user_attribute d"
  "update_group_row g h d = Inr d' \<Longrightarrow> group_attribute d' = group_attribute d"
  by (auto simp: update_user_row_def update_group_row_def user_attribute_def group_attribute_def
      Let_def fun_eq_iff split: if_splits)

lemma write_user_attribute_get:
  assumes "write_user_attribute now n p d = Inr d'"
  shows "user_attribute d' j m = (if j = fst p \<and> m = n then Some (snd p) else user_attribute d j m)"
proof -
  obtain d1 where d1: "upsert_user_attribute \<lparr>ua_user_id = fst p, ua_name = n, ua_value = snd p\<rparr> d = Inr d1"
    and d': "update_user_row (fst p) (\<lambda>r. r\<lparr>ur_modified_date := now\<rparr>) d1 = Inr d'"
    using assms by (auto simp: write_user_attribute_def rbind_eq_Inr)
  show ?thesis
    unfolding update_row_attributes(1) [OF d'] upsert_user_attribute_get [OF d1] by simp
qed

lemma write_group_attribute_get:
  assumes "write_group_attribute now n p d = Inr d'"
  shows "group_attribute d' j m = (if j = fst p \<and> m = n then Some (snd p) else group_attribute d j m)"
proof -
  obtain d1 where d1: "upsert_group_attribute \<lparr>ga_group_id = fst p, ga_name = n, ga_value = snd p\<rparr> d = Inr d1"
    and d': "update_group_row (fst p) (\<lambda>r. r\<lparr>gr_modified_date := now\<rparr>) d1 = Inr d'"
    using assms by (auto simp: write_group_attribute_def rbind_eq_Inr)
  show ?thesis
    unfolding update_row_attributes(2) [OF d'] upsert_group_attribute_get [OF d1] by simp
qed

interpretation user_writer: attribute_writer user_attribute "write_user_attribute now" for now
  by unfold_locales (rule write_user_attribute_get)

interpretation group_writer: attribute_writer group_attribute "write_group_attribute now" for now
  by unfold_locales (rule write_group_attribute_get)

lemma write_user_attribute_keeps [keeps_intros]: "keeps db_ok (write_user_attribute now n p)"
  unfolding write_user_attribute_def
  by (intro keeps_rbind upsert_user_attribute_keeps update_user_row_keeps) simp_all

lemma write_group_attribute_keeps [keeps_intros]: "keeps db_ok (write_group_attribute now n p)"
  unfolding write_group_attribute_def
  by (intro keeps_rbind upsert_group_attribute_keeps update_group_row_keeps) simp_all

lemma delete_all_keeps [keeps_intros]:
  "keeps db_ok (delete_all_user_attribute n)" "keeps db_ok (delete_all_group_attribute n)"
  by (rule keepsI, auto simp: delete_all_user_attribute_def delete_all_group_attribute_def
      filter_user_attributes_ok filter_group_attributes_ok)+

lemma keeps_if: "keeps I f \<Longrightarrow> keeps I g \<Longrightarrow> keeps I (\<lambda>d. if c then f d else g d)"
  by (cases c) simp_all

lemma keeps_for_each_of: "(\<And>x. keeps I (f x)) \<Longrightarrow> keeps I (\<lambda>d. for_each f (xs d) d)"
  by (rule keepsI) (erule keepsD [OF keeps_for_each, rotated], assumption, assumption)

lemma posix_execute_ok:
  assumes "db_ok (w_db w)" and "\<And>settings. keeps db_ok (f settings)"
  shows "db_ok (w_db (snd (case r of Inl e \<Rightarrow> (Inl e, w) | Inr settings \<Rightarrow> execute (f settings) w)))"
  using assms(1) execute_ok [OF assms(2)] by (cases r) simp_all

lemma reassign_ok:
  assumes "db_ok (w_db w)"
  shows "db_ok (w_db (snd (reassign_gid_numbers Q w)))"
    and "db_ok (w_db (snd (reassign_user_uid_numbers Q w)))"
    and "db_ok (w_db (snd (reassign_user_gid_numbers Q w)))"
    and "db_ok (w_db (snd (reassign_user_homedirectories Q w)))"
    and "db_ok (w_db (snd (reassign_user_loginshells Q w)))"
  unfolding reassign_gid_numbers_def reassign_user_uid_numbers_def reassign_user_gid_numbers_def
    reassign_user_homedirectories_def reassign_user_loginshells_def
  by (intro posix_execute_ok assms keeps_if keeps_for_each_of write_user_attribute_keeps
        write_group_attribute_keeps delete_all_keeps)+

lemma fst_numbered [simp]: "map fst (numbered start ids) = ids"
  by (simp add: numbered_def comp_def case_prod_unfold)

lemma map_of_numbered:
  assumes "distinct ids" and "k < length ids"
  shows "map_of (numbered start ids) (ids ! k) = Some (int_to_string (start + int k))"
proof -
  have "(ids ! k, int_to_string (start + int k)) \<in> set (numbered start ids)"
    using assms(2) by (force simp: numbered_def in_set_enumerate_eq)
  moreover have "distinct (map fst (numbered start ids))" using assms(1) by simp
  ultimately show ?thesis by (simp add: map_of_is_SomeI)
qed

lemma int_to_string_inj:
  assumes "int_to_string i = int_to_string j"
  shows "i = j"
proof -
  have neg: "hd (digits_of n) \<noteq> CHR ''-''" for n
    using digits_of_chars [of "hd (digits_of n)" n] digits_of_Nil digit_val_small by (metis hd_in_set)
  have sign: "i < 0 \<longleftrightarrow> j < 0"
    using assms neg by (metis int_to_string_def list.sel(1))
  show ?thesis
  proof (cases "i < 0")
    case True
    then show ?thesis using assms sign by (simp add: int_to_string_def digits_of_inj)
  next
    case False
    then show ?thesis using assms sign by (simp add: int_to_string_def digits_of_inj)
  qed
qed

lemma user_attribute_owner:
  assumes "db_ok d" and "user_attribute d u n = Some v"
  shows "u \<in> ur_user_id ` set (t_users d)"
  using assms by (auto simp: user_attribute_def db_ok_def dest!: find_first_SomeD)

lemma t_users_write:
  "for_each (write_user_attribute now n) ps d = Inr d' \<Longrightarrow> map ur_user_id (t_users d') = map ur_user_id (t_users d)"
proof (induction ps arbitrary: d)
  case (Cons p ps)
  then obtain d1 d2 where "upsert_user_attribute \<lparr>ua_user_id = fst p, ua_name = n, ua_value = snd p\<rparr> d = Inr d1"
    and "update_user_row (fst p) (\<lambda>r. r\<lparr>ur_modified_date := now\<rparr>) d1 = Inr d2"
    and rest: "for_each (write_user_attribute now n) ps d2 = Inr d'"
    unfolding for_each.simps rbind_eq_Inr write_user_attribute_def [of _ _ p] by metis
  then have "map ur_user_id (t_users d2) = map ur_user_id (t_users d)"
    by (auto simp: upsert_user_attribute_def update_user_row_def Let_def split: if_splits)
  then show ?case using Cons.IH [OF rest] by simp
qed simp

text \<open>Reassigning uidNumbers gives every user a number of its own: in the order of creation
  the users receive consecutive numbers from the configured start, and no two users share a
  number afterwards.\<close>

theorem reassign_uid_numbers_unique:
  assumes "db_ok (w_db w)" and "get_posix_settings Q (w_db w) = Inr settings"
    and "user_uidnumber_assign settings"
    and "reassign_user_uid_numbers Q w = (Inr (), w')"
  shows "(\<forall>k < length (t_users (w_db w)).
            user_attribute (w_db w') (ur_user_id (sort_key ur_creation_date (t_users (w_db w)) ! k)) uidnumber
            = Some (int_to_string (user_uidnumber_start settings + int k)))
    \<and> (\<forall>u v n. user_attribute (w_db w') u uidnumber = Some n
          \<and> user_attribute (w_db w') v uidnumber = Some n \<longrightarrow> u = v)"
proof -
  let ?d = "w_db w" and ?d' = "w_db w'"
  let ?us = "map ur_user_id (sort_key ur_creation_date (t_users ?d))"
  let ?ps = "numbered (user_uidnumber_start settings) ?us"
  have run: "for_each (write_user_attribute (w_now w) uidnumber) ?ps ?d = Inr ?d'"
    using assms(2-4)
    by (auto simp: reassign_user_uid_numbers_def execute_def transaction_def rmap_def split: sum.splits)
  have dist: "distinct ?us"
    using assms(1) by (simp add: db_ok_def unique_users_def distinct_map)
  have get: "user_attribute ?d' u uidnumber =
      (if u \<in> set ?us then map_of ?ps u else user_attribute ?d u uidnumber)" for u
    using user_writer.for_each_get [OF run] dist by (simp add: set_map [symmetric] del: set_map)
  have nth: "user_attribute ?d' (?us ! k) uidnumber = Some (int_to_string (user_uidnumber_start settings + int k))"
    if "k < length ?us" for k
    using that by (simp only: get nth_mem map_of_numbered [OF dist that] if_True)
  have ok': "db_ok ?d'" using reassign_ok(2) [OF assms(1), of Q] assms(4) by simp
  have ids: "set ?us = ur_user_id ` set (t_users ?d')"
    using arg_cong [OF t_users_write [OF run], of set] by simp
  have "u = v" if "user_attribute ?d' u uidnumber = Some n" "user_attribute ?d' v uidnumber = Some n" for u v n
  proof -
    have "u \<in> set ?us" "v \<in> set ?us" using user_attribute_owner [OF ok'] that ids by auto
    then obtain i j where "i < length ?us" "u = ?us ! i" "j < length ?us" "v = ?us ! j"
      by (metis in_set_conv_nth)
    moreover from this that have "int_to_string (user_uidnumber_start settings + int i)
        = int_to_string (user_uidnumber_start settings + int j)" using nth by simp
    ultimately show "u = v" by (auto dest: int_to_string_inj)
  qed
  then show ?thesis using nth by (auto simp: nth_map)
qed

end
