(* ===== verification/Sql_Users.thy ===== *)
theory Sql_Users
  imports Sql_Posix
begin

text \<open>
  Writing users (\<open>sql_user_backend_handler.rs\<close>): creation with the automatic POSIX attributes,
  updates with their attribute changes, deletion with the Kerberos principal, and membership in
  groups with the two protections of the administrators' group.
\<close>

section \<open>Creation\<close>

text \<open>\<open>to_value\<close>: \<^const>\<open>None\<close> leaves the column alone.\<close>

definition to_value :: "string option \<Rightarrow> string option option" where
  "to_value opt_name = map_option (\<lambda>name. if name = [] then None else Some name) opt_name"

definition has_attribute :: "string \<Rightarrow> attribute list \<Rightarrow> bool" where
  "has_attribute n attrs \<longleftrightarrow> list_ex (\<lambda>a. attr_str (attr_name a) = n) attrs"

definition push_default :: "string \<Rightarrow> attribute_value \<Rightarrow> attribute list \<Rightarrow> attribute list" where
  "push_default n v attrs =
     (if has_attribute n attrs then attrs
      else attrs @ [\<lparr>attr_name = attribute_name_from n, attr_value = v\<rparr>])"

definition with_default_ou :: "sql_libs \<Rightarrow> string \<Rightarrow> db \<Rightarrow> attribute list \<Rightarrow> attribute list dresult" where
  "with_default_ou Q fallback d attrs =
     rmap (\<lambda>ous. push_default ''ou'' (AString (Singleton (unwrap_or fallback (first_opt ous)))) attrs)
       (get_allowed_ous Q d)"

text \<open>The automatic POSIX attributes of a new user, each only when its switch is on and the request
  does not bring it along.\<close>

definition posix_user_attributes ::
  "posix_settings \<Rightarrow> db \<Rightarrow> user_id \<Rightarrow> attribute list \<Rightarrow> attribute list dresult" where
  "posix_user_attributes settings d u attrs =
     rmap (\<lambda>attrs1.
       let attrs2 = (if user_gidnumber_assign settings
                     then push_default ''gidnumber'' (AInteger (Singleton (user_gidnumber_start settings))) attrs1
                     else attrs1);
           attrs3 = (if user_loginshell_assign settings
                     then push_default ''loginshell'' (AString (Singleton (user_loginshell_default settings))) attrs2
                     else attrs2)
       in if user_homedirectory_assign settings
          then push_default ''homedirectory''
                 (AString (Singleton (user_homedirectory_prefix settings @ ''/'' @ user_id_str u))) attrs3
          else attrs3)
       (if user_uidnumber_assign settings \<and> \<not> has_attribute ''uidnumber'' attrs
        then rmap (\<lambda>next_uid. push_default ''uidnumber'' (AInteger (Singleton next_uid)) attrs)
               (next_available_uid_number d (user_uidnumber_start settings) (user_uidnumber_max settings))
        else Inr attrs)"

definition canonical_in :: "attribute_list \<Rightarrow> attribute_name \<Rightarrow> attribute_name" where
  "canonical_in sch n =
     (case get_by_name_or_alias sch (attr_str n) of
        Some s \<Rightarrow> attribute_name_from (as_name s) | None \<Rightarrow> n)"

definition new_user_row :: "sql_libs \<Rightarrow> date \<Rightarrow> create_user_request \<Rightarrow> user_row" where
  "new_user_row Q now request =
     \<lparr>ur_user_id = cu_user_id request, ur_email = cu_email request,
      ur_lowercase_email = to_ascii_lowercase (email_str (cu_email request)),
      ur_display_name = unwrap_or None (to_value (cu_display_name request)),
      ur_creation_date = now, ur_password_hash = None, ur_totp_secret = None, ur_mfa_type = None,
      ur_uuid = sl_uuid_v3 Q (user_id_str (cu_user_id request)) now,
      ur_modified_date = now, ur_password_modified_date = now, ur_krb_principal_name = None\<rparr>"

text \<open>Attributes that the schema does not know are dropped silently.\<close>

definition new_user_attribute_rows ::
  "sql_libs \<Rightarrow> public_schema \<Rightarrow> user_id \<Rightarrow> attribute list \<Rightarrow> user_attribute_row list" where
  "new_user_attribute_rows Q sch u attrs =
     map (\<lambda>a. \<lparr>ua_user_id = u, ua_name = canonical_in (user_attributes sch) (attr_name a),
              ua_value = attribute_value_to_db_bytes Q (attr_value a)\<rparr>)
       (filter (\<lambda>a. get_attribute_type_of (user_attributes sch) (attr_str (attr_name a)) \<noteq> None) attrs)"

definition create_user_tx ::
  "sql_libs \<Rightarrow> date \<Rightarrow> create_user_request \<Rightarrow> attribute list \<Rightarrow> db \<Rightarrow> db dresult" where
  "create_user_tx Q now request attrs d =
     rbind (get_schema_with_transaction Q d) (\<lambda>sch.
     rbind (get_posix_settings Q d) (\<lambda>settings.
     rbind (for_each (check_new_user_number d) attrs ()) (\<lambda>_.
     rbind (posix_user_attributes settings d (cu_user_id request) attrs) (\<lambda>final_attributes.
     rbind (insert_user (new_user_row Q now request) d) (\<lambda>d1.
       for_each insert_user_attribute
         (new_user_attribute_rows Q sch (cu_user_id request) final_attributes) d1)))))"

definition create_user :: "sql_libs \<Rightarrow> create_user_request \<Rightarrow> 'k world \<Rightarrow> unit dresult \<times> 'k world" where
  "create_user Q request w =
     (case with_default_ou Q ''people'' (w_db w) (cu_attributes request) of
        Inl e \<Rightarrow> (Inl e, w)
      | Inr attrs \<Rightarrow> execute (create_user_tx Q (w_now w) request attrs) w)"

section \<open>Update\<close>

text \<open>What an inserted \<open>kerberossync\<close> asks for.\<close>

definition kerberos_switch :: "attribute_value \<Rightarrow> bool" where
  "kerberos_switch v =
     (case v of
        AString (Singleton s) \<Rightarrow> trim s \<in> {''1'', ''true'', ''TRUE''}
      | AInteger (Singleton i) \<Rightarrow> i = 1
      | _ \<Rightarrow> False)"

definition add_attribute_change ::
  "sql_libs \<Rightarrow> attribute_list \<Rightarrow> user_id \<Rightarrow> attribute
   \<Rightarrow> user_attribute_row list \<times> bool option \<Rightarrow> (user_attribute_row list \<times> bool option) dresult" where
  "add_attribute_change Q sch u a acc =
     (let name = attr_str (attr_name a);
          kerb = (if name = ''kerberossync'' then Some (kerberos_switch (attr_value a)) else snd acc)
      in if get_attribute_type_of sch name \<noteq> None \<or> is_backend_writable_readonly_attribute name
         then Inr (fst acc @ [\<lparr>ua_user_id = u, ua_name = canonical_in sch (attr_name a),
                               ua_value = attribute_value_to_db_bytes Q (attr_value a)\<rparr>], kerb)
         else Inl (InternalError (''User attribute name '' @ name @ '' doesn'' @ [CHR 0x27]
                @ ''t exist in the schema'')))"

definition compute_user_attribute_changes ::
  "sql_libs \<Rightarrow> user_id \<Rightarrow> attribute list \<Rightarrow> attribute_name list \<Rightarrow> public_schema
   \<Rightarrow> (user_attribute_row list \<times> attribute_name list \<times> bool option) dresult" where
  "compute_user_attribute_changes Q u inserts deletes sch =
     rmap (\<lambda>(updates, kerb).
        (updates,
         filter (\<lambda>n. n \<notin> ua_name ` set updates)
           (map (\<lambda>n. canonical_user_attribute_name (attr_str n)) deletes),
         kerb))
       (for_each (add_attribute_change Q (user_attributes sch) u) inserts ([], None))"

definition apply_user_update :: "date \<Rightarrow> update_user_request \<Rightarrow> user_row \<Rightarrow> user_row" where
  "apply_user_update now request r =
     r\<lparr>ur_email := unwrap_or (ur_email r) (uu_email request),
       ur_lowercase_email := unwrap_or (ur_lowercase_email r)
         (map_option (\<lambda>e. to_ascii_lowercase (email_str e)) (uu_email request)),
       ur_display_name := unwrap_or (ur_display_name r) (to_value (uu_display_name request)),
       ur_modified_date := now\<rparr>"

definition delete_user_attributes :: "user_id \<Rightarrow> attribute_name list \<Rightarrow> db \<Rightarrow> db dresult" where
  "delete_user_attributes u names d =
     Inr (d\<lparr>t_user_attributes :=
       filter (\<lambda>a. \<not> (ua_user_id a = u \<and> ua_name a \<in> set names)) (t_user_attributes d)\<rparr>)"

text \<open>\<open>update_user_with_transaction\<close>, the part that the database undoes on an error. The result
  tells whether the Kerberos principal is to be deleted.\<close>

definition update_user_tx ::
  "sql_libs \<Rightarrow> date \<Rightarrow> update_user_request \<Rightarrow> db \<Rightarrow> (bool \<times> db) dresult" where
  "update_user_tx Q now request d =
     rbind (get_schema_with_transaction Q d) (\<lambda>sch.
     rbind (compute_user_attribute_changes Q (uu_user_id request) (uu_insert_attributes request)
              (uu_delete_attributes request) sch) (\<lambda>(updates, removes, kerb_sync_enabled).
     rbind (get_posix_settings Q d) (\<lambda>_.
     rbind (for_each (check_updated_user_number d) updates ()) (\<lambda>_.
     rbind (update_user_row (uu_user_id request) (apply_user_update now request) d) (\<lambda>d1.
     rbind (delete_user_attributes (uu_user_id request) removes d1) (\<lambda>d2.
     rbind (for_each upsert_user_attribute updates d2) (\<lambda>d3.
       if kerb_sync_enabled = Some False then
         rmap (Pair True)
           (update_user_row (uu_user_id request)
             (\<lambda>r. r\<lparr>ur_krb_principal_name := None, ur_modified_date := now\<rparr>) d3)
       else Inr (False, d3))))))))"

definition update_user ::
  "sql_libs \<Rightarrow> 'k world kerberos \<Rightarrow> update_user_request \<Rightarrow> 'k world \<Rightarrow> unit dresult \<times> 'k world" where
  "update_user Q K request w =
     sbind (transaction (update_user_tx Q (w_now w) request) w) (\<lambda>drop w1.
       (Inr (), if drop then snd (delete_kerberos_principal K (user_id_str (uu_user_id request)) w1) else w1))"

definition ensure_kerberos_principal_consistency ::
  "'k world kerberos \<Rightarrow> user_id \<Rightarrow> bool \<Rightarrow> 'k world \<Rightarrow> unit dresult \<times> 'k world" where
  "ensure_kerberos_principal_consistency K u enabled w =
     execute (update_user_row u (\<lambda>r. r\<lparr>
       ur_krb_principal_name := (if enabled then Some (get_kerberos_principal_name K (user_id_str u)) else None),
       ur_modified_date := w_now w\<rparr>)) w"

section \<open>Deletion\<close>

definition delete_user :: "'k world kerberos \<Rightarrow> user_id \<Rightarrow> 'k world \<Rightarrow> unit dresult \<times> 'k world" where
  "delete_user K u w =
     (let w1 = snd (delete_kerberos_principal K (user_id_str u) w);
          (rows_affected, d) = delete_user_row u (w_db w1)
      in if rows_affected = 0
         then (Inl (EntityNotFound (''No such user: '' @ [CHR 0x27] @ user_id_str u @ [CHR 0x27])), w1)
         else (Inr (), w1\<lparr>w_db := d\<rparr>))"

section \<open>Membership\<close>

text \<open>A failure inside the two transactions is a \<open>DbErr\<close>.\<close>

definition transaction_error :: "domain_error \<Rightarrow> domain_error" where
  "transaction_error e = (case e of DatabaseError m \<Rightarrow> DatabaseTransactionError m | _ \<Rightarrow> e)"

definition add_user_to_group ::
  "sql_libs \<Rightarrow> user_id \<Rightarrow> group_id \<Rightarrow> 'k world \<Rightarrow> unit dresult \<times> 'k world" where
  "add_user_to_group Q u g w =
     (case get_user_groups (w_db w) u of
        Inl e \<Rightarrow> (Inl e, w)
      | Inr user_groups \<Rightarrow>
     (case get_group_details Q (w_db w) g of
        Inl e \<Rightarrow> (Inl e, w)
      | Inr target \<Rightarrow>
          (let target_name = group_name_str (gd_display_name target);
               in_group = (\<lambda>n. list_ex (\<lambda>h. group_name_eq (gd_display_name h) (GroupName n)) user_groups)
           in if (target_name = ''lldap_admin'' \<and> in_group ''lldap_disabled'')
               \<or> (target_name = ''lldap_disabled'' \<and> in_group ''lldap_admin'')
              then (Inl (InternalError
                      ''A user cannot be in both lldap_admin and lldap_disabled groups''), w)
              else execute (\<lambda>d. map_err transaction_error
                     (rbind (insert_membership \<lparr>mb_user_id = u, mb_group_id = g\<rparr> d)
                       (update_group_row g (\<lambda>r. r\<lparr>gr_modified_date := w_now w\<rparr>)))) w)))"

definition remove_user_from_group_tx ::
  "date \<Rightarrow> user_id \<Rightarrow> group_id \<Rightarrow> db \<Rightarrow> db dresult" where
  "remove_user_from_group_tx now u g d =
     (if (case find_group d g of
            Some r \<Rightarrow> group_name_str (gr_display_name r) = ''lldap_admin''
              \<and> length (filter (\<lambda>m. mb_group_id m = g) (t_memberships d)) \<le> 1
          | None \<Rightarrow> False)
      then Inl (EntityNotFound ''Cannot remove the last member of lldap_admin'')
      else
        let (rows_affected, d1) = delete_membership \<lparr>mb_user_id = u, mb_group_id = g\<rparr> d
        in if rows_affected = 0
           then Inl (EntityNotFound (''No such membership: '' @ [CHR 0x27] @ user_id_str u @ [CHR 0x27]
                  @ '' -> GroupId('' @ int_to_string g @ '')''))
           else update_group_row g (\<lambda>r. r\<lparr>gr_modified_date := now\<rparr>) d1)"

definition remove_user_from_group ::
  "user_id \<Rightarrow> group_id \<Rightarrow> 'k world \<Rightarrow> unit dresult \<times> 'k world" where
  "remove_user_from_group u g w = execute (remove_user_from_group_tx (w_now w) u g) w"

end
