(* ===== verification/Sql_Groups.thy ===== *)
theory Sql_Groups
  imports Sql_Users
begin

text \<open>
  Writing groups (\<open>sql_group_backend_handler.rs\<close>): creation with the default OU and the automatic
  gidNumber, updates and deletions, both with the protection of the built-in groups.
\<close>

section \<open>Operations\<close>

definition new_group_row :: "sql_libs \<Rightarrow> date \<Rightarrow> group_name \<Rightarrow> group_row" where
  "new_group_row Q now name =
     \<lparr>gr_group_id = 0, gr_display_name = name,
      gr_lowercase_display_name = to_ascii_lowercase (group_name_str name),
      gr_creation_date = now, gr_uuid = sl_uuid_v3 Q (group_name_str name) now, gr_modified_date = now\<rparr>"

definition new_group_attribute_row ::
  "sql_libs \<Rightarrow> attribute_list \<Rightarrow> group_id \<Rightarrow> attribute \<Rightarrow> group_attribute_row dresult" where
  "new_group_attribute_row Q sch g a =
     (let name = attr_str (attr_name a) in
      if get_attribute_type_of sch name \<noteq> None \<or> is_backend_writable_readonly_attribute name
      then Inr \<lparr>ga_group_id = g, ga_name = canonical_in sch (attr_name a),
                ga_value = attribute_value_to_db_bytes Q (attr_value a)\<rparr>
      else Inl (InternalError (''Group attribute name '' @ name @ '' doesn'' @ [CHR 0x27]
             @ ''t exist in the schema'')))"

definition posix_group_attributes ::
  "posix_settings \<Rightarrow> db \<Rightarrow> attribute list \<Rightarrow> attribute list dresult" where
  "posix_group_attributes settings d attrs =
     (if group_gidnumber_assign settings \<and> \<not> has_attribute ''gidnumber'' attrs
      then rmap (\<lambda>next_gid. push_default ''gidnumber'' (AInteger (Singleton next_gid)) attrs)
             (next_available_gid_number d (group_gidnumber_start settings) (group_gidnumber_max settings))
      else Inr attrs)"

definition create_group_tx ::
  "sql_libs \<Rightarrow> date \<Rightarrow> create_group_request \<Rightarrow> string \<Rightarrow> db \<Rightarrow> (group_id \<times> db) dresult" where
  "create_group_tx Q now request default_ou d =
     rbind (get_schema_with_transaction Q d) (\<lambda>sch.
     rbind (get_posix_settings Q d) (\<lambda>settings.
     rbind (for_each (check_new_group_number d) (cg_attributes request) ()) (\<lambda>_.
     rbind (posix_group_attributes settings d
              (push_default ''ou'' (AString (Singleton default_ou)) (cg_attributes request)))
       (\<lambda>final_attributes.
     rbind (insert_group (new_group_row Q now (cg_display_name request)) d) (\<lambda>(g, d1).
     rbind (collect_results (map (new_group_attribute_row Q (group_attributes sch) g) final_attributes))
       (\<lambda>rows. rmap (Pair g) (for_each insert_group_attribute rows d1)))))))"

definition create_group ::
  "sql_libs \<Rightarrow> create_group_request \<Rightarrow> 'k world \<Rightarrow> group_id dresult \<times> 'k world" where
  "create_group Q request w =
     (case get_allowed_ous Q (w_db w) of
        Inl e \<Rightarrow> (Inl e, w)
      | Inr ous \<Rightarrow> transaction (create_group_tx Q (w_now w) request (unwrap_or ''groups'' (first_opt ous))) w)"

definition apply_group_update :: "date \<Rightarrow> update_group_request \<Rightarrow> group_row \<Rightarrow> group_row" where
  "apply_group_update now request r =
     r\<lparr>gr_display_name := unwrap_or (gr_display_name r) (ugr_display_name request),
       gr_lowercase_display_name := unwrap_or (gr_lowercase_display_name r)
         (map_option (\<lambda>n. to_ascii_lowercase (group_name_str n)) (ugr_display_name request)),
       gr_modified_date := now\<rparr>"

text \<open>One inserted attribute: only a single integer is checked, and only against its name as
  given.\<close>

definition updated_group_attribute_row ::
  "sql_libs \<Rightarrow> db \<Rightarrow> attribute_list \<Rightarrow> group_id \<Rightarrow> attribute \<Rightarrow> group_attribute_row dresult" where
  "updated_group_attribute_row Q d sch g a =
     (let row = \<lparr>ga_group_id = g, ga_name = canonical_in sch (attr_name a),
                 ga_value = attribute_value_to_db_bytes Q (attr_value a)\<rparr>;
          name = attr_str (attr_name a)
      in case attr_value a of
           AInteger (Singleton v) \<Rightarrow>
             if name = ''uidnumber'' \<or> name = ''gidnumber'' then
               if v \<noteq> 0 \<and> \<not> (3000 \<le> v \<and> v \<le> 20000) then
                 Inl (InternalError (name @ '' must be between 3000 and 20000 (or 0 for no limit)''))
               else if number_taken d name v then Inl (already_assigned v)
               else Inr row
             else Inr row
         | _ \<Rightarrow> Inr row)"

definition removed_group_attribute ::
  "attribute_list \<Rightarrow> attribute_name \<Rightarrow> attribute_name dresult" where
  "removed_group_attribute sch n =
     (if get_attribute_type_of sch (attr_str n) \<noteq> None
         \<or> is_backend_writable_readonly_attribute (attr_str n)
      then Inr (canonical_in sch n)
      else Inl (InternalError (''Group attribute name '' @ attr_str n @ '' doesn'' @ [CHR 0x27]
             @ ''t exist in the schema, yet was attempted to be removed from the database'')))"

definition delete_group_attributes :: "group_id \<Rightarrow> attribute_name list \<Rightarrow> db \<Rightarrow> db dresult" where
  "delete_group_attributes g names d =
     Inr (d\<lparr>t_group_attributes :=
       filter (\<lambda>a. \<not> (ga_group_id a = g \<and> ga_name a \<in> set names)) (t_group_attributes d)\<rparr>)"

definition update_group_with_transaction ::
  "sql_libs \<Rightarrow> date \<Rightarrow> update_group_request \<Rightarrow> db \<Rightarrow> db dresult" where
  "update_group_with_transaction Q now request d =
     rbind (update_group_row (ugr_group_id request) (apply_group_update now request) d) (\<lambda>d1.
     rbind (get_schema_with_transaction Q d1) (\<lambda>sch.
     rbind (get_posix_settings Q d1) (\<lambda>_.
     rbind (collect_results (map (updated_group_attribute_row Q d1 (group_attributes sch) (ugr_group_id request))
              (ugr_insert_attributes request))) (\<lambda>updates.
     rbind (collect_results (map (removed_group_attribute (group_attributes sch))
              (ugr_delete_attributes request))) (\<lambda>removes.
     rbind (delete_group_attributes (ugr_group_id request) removes d1) (\<lambda>d2.
       for_each upsert_group_attribute updates d2))))))"

definition update_group ::
  "sql_libs \<Rightarrow> update_group_request \<Rightarrow> 'k world \<Rightarrow> unit dresult \<times> 'k world" where
  "update_group Q request w =
     (let protect = (if ugr_display_name request = None then Inr ()
           else rbind (get_group_details Q (w_db w) (ugr_group_id request)) (\<lambda>current.
             if is_builtin_group (group_name_str (gd_display_name current))
             then Inl (InternalError (''Cannot rename built-in group '' @ [CHR 0x27]
                    @ group_name_str (gd_display_name current) @ [CHR 0x27]))
             else Inr ()))
      in case protect of
           Inl e \<Rightarrow> (Inl e, w)
         | Inr _ \<Rightarrow> execute (update_group_with_transaction Q (w_now w) request) w)"

definition delete_group :: "sql_libs \<Rightarrow> group_id \<Rightarrow> 'k world \<Rightarrow> unit dresult \<times> 'k world" where
  "delete_group Q g w =
     (case get_group_details Q (w_db w) g of
        Inl e \<Rightarrow> (Inl e, w)
      | Inr details \<Rightarrow>
          if is_builtin_group (group_name_str (gd_display_name details))
          then (Inl (InternalError (''Cannot delete built-in group '' @ [CHR 0x27]
                  @ group_name_str (gd_display_name details) @ [CHR 0x27])), w)
          else
            let (rows_affected, d) = delete_group_row g (w_db w)
            in if rows_affected = 0
               then (Inl (EntityNotFound (''No such group: '' @ [CHR 0x27] @ ''GroupId('' @ int_to_string g
                      @ '')'' @ [CHR 0x27])), w)
               else (Inr (), w\<lparr>w_db := d\<rparr>))"

end
