(* ===== verification/Operations.thy ===== *)
theory Operations
  imports Search
begin

text \<open>
  The operations of the LDAP layer that authenticate or write: binding and the password-modify
  extended operation (\<open>ldap/src/password.rs\<close>), modify (\<open>modify.rs\<close>), add (\<open>create.rs\<close>) and
  delete (\<open>delete.rs\<close>). Each is a function of the world \<open>'s\<close> that returns its result and the
  next world; every early return, \<open>?\<close> and \<open>expect\<close> of the source is a branch.

  The client half of the OPAQUE protocol (\<open>opaque_ke\<close>) is a record of functions: starting a
  registration gives a message and a client state, finishing it gives the upload.
\<close>

record opaque_client =
  oc_start_registration :: "bytes \<Rightarrow> (string \<times> string) option"
  oc_finish_registration :: "string \<Rightarrow> bytes \<Rightarrow> string \<Rightarrow> string option"

section \<open>Responses\<close>

definition make_add_response :: "ldap_result_code \<Rightarrow> message \<Rightarrow> ldap_op" where
  "make_add_response code m = AddResponse (result_op code m)"

definition make_extended_response :: "ldap_result_code \<Rightarrow> message \<Rightarrow> ldap_op" where
  "make_extended_response code m = ExtendedResponse (result_op code m)"

definition make_modify_response :: "ldap_result_code \<Rightarrow> message \<Rightarrow> ldap_op" where
  "make_modify_response code m = ModifyResponse (result_op code m)"

definition make_del_response :: "ldap_result_code \<Rightarrow> message \<Rightarrow> ldap_op" where
  "make_del_response code m = DelResponse (result_op code m)"

section \<open>Binding and passwords\<close>

text \<open>\<open>LdapError\<close> displays as its message.\<close>

definition bind_user :: "'s backend \<Rightarrow> ldap_info \<Rightarrow> ldap_bind_request \<Rightarrow> 's \<Rightarrow> user_id lresult" where
  "bind_user B info request s =
     (if br_dn request = [] then
        Inl (lerr InappropriateAuthentication (Text ''Anonymous bind not allowed''))
      else (case get_user_id_from_distinguished_name (to_ascii_lowercase (br_dn request))
                   (li_base_dn info) (li_base_dn_str info) of
        Inl e \<Rightarrow> Inl (lerr NamingViolation (le_message e))
      | Inr u \<Rightarrow>
          (case br_cred request of
             Sasl \<Rightarrow> Inl (lerr UnwillingToPerform (Text ''SASL not supported''))
           | Simple password \<Rightarrow>
               (case b_bind B s \<lparr>bind_name = u, bind_password = password\<rparr> of
                  Inr _ \<Rightarrow> Inr u
                | Inl _ \<Rightarrow> Inl (lerr InvalidCredentials (Text []))))))"

definition change_password ::
  "'s backend \<Rightarrow> opaque_client \<Rightarrow> user_id \<Rightarrow> bytes \<Rightarrow> 's \<Rightarrow> (unit + unit) \<times> 's" where
  "change_password B C u password s =
     (case oc_start_registration C password of
        None \<Rightarrow> (Inl (), s)
      | Some (msg, client_state) \<Rightarrow>
          (case b_registration_start B s (u, msg) of
             Inl _ \<Rightarrow> (Inl (), s)
           | Inr (server_data, registration_response) \<Rightarrow>
               (case oc_finish_registration C client_state password registration_response of
                  None \<Rightarrow> (Inl (), s)
                | Some upload \<Rightarrow>
                    (case b_registration_finish B s (server_data, upload) of
                       (r, s') \<Rightarrow> (map_err (\<lambda>_. ()) r, s')))))"

definition kerberos_sync_enabled :: "user \<Rightarrow> bool" where
  "kerberos_sync_enabled u =
     list_ex (\<lambda>a. attr_str (attr_name a) = ''kerberossync'' \<and> attr_value a = AInteger (Singleton 1))
       (u_attributes u)"

definition groups_have_admin :: "group_details list \<Rightarrow> bool" where
  "groups_have_admin groups = list_ex (\<lambda>g. group_name_eq (gd_display_name g) (GroupName ''lldap_admin'')) groups"

definition backticked :: "string \<Rightarrow> string" where
  "backticked s = [CHR 0x60] @ s @ [CHR 0x60]"

definition sync_after_password_change ::
  "'s backend \<Rightarrow> 's kerberos \<Rightarrow> user_id \<Rightarrow> string \<Rightarrow> user \<Rightarrow> 's \<Rightarrow> 's" where
  "sync_after_password_change B K uid password user_details s =
     (if kerberos_sync_enabled user_details then
        let s1 = snd (sync_kerberos_principal K (user_id_str uid) password s)
        in snd (b_ensure_kerberos_principal_consistency B s1 uid True)
      else s)"

definition do_password_modification ::
  "'s backend \<Rightarrow> opaque_client \<Rightarrow> 's kerberos \<Rightarrow> validation_results \<Rightarrow> ldap_info
     \<Rightarrow> ldap_password_modify_request \<Rightarrow> 's \<Rightarrow> ldap_op list hresult \<times> 's" where
  "do_password_modification B C K credentials info request s =
     (case (pm_user_identity request, pm_new_password request) of
        (Some user, Some password) \<Rightarrow>
          (case get_user_id_from_distinguished_name (to_ascii_lowercase user)
                  (li_base_dn info) (li_base_dn_str info) of
             Inl e \<Rightarrow> (Inl (Err (lerr InvalidDNSyntax (msg_prepend ''Invalid username: '' (le_message e)))), s)
           | Inr uid \<Rightarrow>
               (case get_readable_handler B credentials uid of
                  None \<Rightarrow> (Inl (Panic ''Unexpected permission error''), s)
                | Some readable \<Rightarrow>
                    (case b_get_user_groups readable s uid of
                       Inl _ \<Rightarrow> (Inl (Err (lerr OperationsError
                           (Rendered ''Internal error while requesting user's groups: ''))), s)
                     | Inr groups \<Rightarrow>
                         if \<not> can_change_password credentials uid (groups_have_admin groups) then
                           (Inl (Err (lerr InsufficentAccessRights (Text (''User '' @ backticked (user_id_str (vr_user credentials))
                              @ '' cannot modify the password of user '' @ backticked (user_id_str uid))))), s)
                         else (case change_password B C uid password s of
                           (Inl _, s1) \<Rightarrow>
                             (Inl (Err (lerr OtherCode (Rendered ''Error while changing the password: ''))), s1)
                         | (Inr _, s1) \<Rightarrow>
                             (case b_get_user_details readable s1 uid of
                                Inl _ \<Rightarrow> (Inl (Err (lerr OperationsError
                                    (Rendered ''Failed to fetch user for Kerberos sync: ''))), s1)
                              | Inr user_details \<Rightarrow>
                                  (Inr [make_extended_response Success (Text [])],
                                   sync_after_password_change B K uid password user_details s1))))))
      | _ \<Rightarrow> (Inl (Err (lerr ConstraintViolation (Text ''Missing either user_id or password''))), s))"

section \<open>Modify\<close>

definition modify_password ::
  "'s backend \<Rightarrow> opaque_client \<Rightarrow> 's kerberos \<Rightarrow> user_id \<Rightarrow> validation_results \<Rightarrow> bool \<Rightarrow> ldap_modify
     \<Rightarrow> 's \<Rightarrow> unit lresult \<times> 's" where
  "modify_password B C K uid credentials user_is_admin change s =
     (let vals = pa_vals (lm_modification change) in
      if lm_operation change \<noteq> ModReplace then
        (Inl (lerr UnwillingToPerform (Rendered (''Unsupported operation: '' @ [CHR 0x60]))), s)
      else if \<not> can_change_password credentials uid user_is_admin then
        (Inl (lerr InsufficentAccessRights (Text (''User '' @ backticked (user_id_str (vr_user credentials))
           @ '' cannot modify the password of user '' @ backticked (user_id_str uid)))), s)
      else (case vals of
        [val] \<Rightarrow>
          (case change_password B C uid val s of
             (Inl _, s1) \<Rightarrow> (Inl (lerr OtherCode (Rendered ''Error while changing the password: '')), s1)
           | (Inr _, s1) \<Rightarrow>
               (case from_utf8 val of
                  None \<Rightarrow> (Inr (), s1)
                | Some plain_pass \<Rightarrow>
                    (case b_get_user_details B s1 uid of
                       Inl _ \<Rightarrow> (Inr (), s1)
                     | Inr user \<Rightarrow>
                         (Inr (), snd (sync_kerberos_if_enabled K (kerberos_sync_enabled user)
                                         (user_id_str uid) plain_pass s1)))))
      | _ \<Rightarrow> (Inl (lerr InvalidAttributeSyntax
               (Text (''Wrong number of values for password attribute: '' @ int_to_string (int (length vals))))), s)))"

definition utf8_values :: "bytes list \<Rightarrow> string list" where
  "utf8_values vals = List.map_filter from_utf8 vals"

definition empty_update :: "user_id \<Rightarrow> update_user_request" where
  "empty_update uid = \<lparr>uu_user_id = uid, uu_email = None, uu_display_name = None,
     uu_delete_attributes = [], uu_insert_attributes = []\<rparr>"

definition insert_deserialized ::
  "libs \<Rightarrow> user_id \<Rightarrow> string \<Rightarrow> string list \<Rightarrow> attribute_type \<Rightarrow> bool \<Rightarrow> string \<Rightarrow> update_user_request lresult" where
  "insert_deserialized L uid name vals typ is_list what =
     (case deserialize_attribute_value L vals typ is_list of
        Inl _ \<Rightarrow> Inl (lerr ConstraintViolation (Rendered (''Invalid '' @ what @ '' value: '')))
      | Inr v \<Rightarrow> Inr (empty_update uid\<lparr>uu_insert_attributes :=
          [\<lparr>attr_name = attribute_name_from name, attr_value = v\<rparr>]\<rparr>))"

definition current_ssh_keys :: "user \<Rightarrow> string list" where
  "current_ssh_keys u =
     unwrap_or [] (Option.bind
       (find_first (\<lambda>a. attr_str (attr_name a) = ''sshpublickey'') (u_attributes u))
       (\<lambda>a. case attr_value a of
          AString (Unbounded l) \<Rightarrow> Some l | AString (Singleton x) \<Rightarrow> Some [x] | _ \<Rightarrow> None))"

definition modify_replace ::
  "libs \<Rightarrow> user_id \<Rightarrow> ldap_partial_attribute \<Rightarrow> update_user_request lresult" where
  "modify_replace L uid m =
     (let a = to_ascii_lowercase (pa_atype m); vals = utf8_values (pa_vals m) in
      if vals = [] then Inl (lerr InvalidAttributeSyntax (Text (''No values provided for '' @ pa_atype m)))
      else if a = ''givenname'' \<or> a = ''given_name'' then insert_deserialized L uid ''first_name'' vals TString False ''first_name''
      else if a = ''sn'' \<or> a = ''surname'' then insert_deserialized L uid ''last_name'' vals TString False ''last_name''
      else if a = ''cn'' \<or> a = ''commonname'' \<or> a = ''displayname''
        then Inr (empty_update uid\<lparr>uu_display_name := Some (vals ! 0)\<rparr>)
      else if a = ''mail'' \<or> a = ''email'' then Inr (empty_update uid\<lparr>uu_email := Some (Email (vals ! 0))\<rparr>)
      else if a = ''avatar'' \<or> a = ''jpegphoto'' \<or> a = ''jpeg_photo''
        then insert_deserialized L uid ''avatar'' vals TAvatar False ''avatar''
      else if a = ''sshpublickey'' \<or> a = ''ssh_public_key''
        then insert_deserialized L uid ''sshpublickey'' vals TString True ''sshPublicKey''
      else if a = ''ou'' then
        Inl (lerr UnwillingToPerform (Text (''Direct modification of 'ou' via LDAP Modify is not supported.'')))
      else Inl (lerr UnwillingToPerform (Text (''Unsupported attribute for LDAP Modify: '' @ pa_atype m
             @ '' (supported: givenName, sn, cn, mail, avatar, sshPublicKey, userPassword)''))))"

definition modify_add ::
  "libs \<Rightarrow> 's backend \<Rightarrow> user_id \<Rightarrow> ldap_partial_attribute \<Rightarrow> 's \<Rightarrow> update_user_request lresult" where
  "modify_add L B uid m s =
     (let a = to_ascii_lowercase (pa_atype m); new_vals = utf8_values (pa_vals m) in
      if new_vals = [] then Inl (lerr InvalidAttributeSyntax (Text (''No values provided for '' @ pa_atype m)))
      else if a = ''sshpublickey'' \<or> a = ''ssh_public_key'' then
        rbind (map_err (\<lambda>_. lerr OperationsError (Rendered ''Failed to read current user: '')) (b_get_user_details B s uid))
          (\<lambda>user. insert_deserialized L uid ''sshpublickey''
             (foldl (\<lambda>ks v. if v \<in> set ks then ks else ks @ [v]) (current_ssh_keys user) new_vals)
             TString True ''sshPublicKey'')
      else if a = ''givenname'' \<or> a = ''given_name'' then insert_deserialized L uid ''first_name'' new_vals TString False ''first_name''
      else if a = ''sn'' \<or> a = ''surname'' then insert_deserialized L uid ''last_name'' new_vals TString False ''last_name''
      else if a = ''cn'' \<or> a = ''commonname'' \<or> a = ''displayname''
        then Inr (empty_update uid\<lparr>uu_display_name := Some (new_vals ! 0)\<rparr>)
      else if a = ''mail'' \<or> a = ''email'' then Inr (empty_update uid\<lparr>uu_email := Some (Email (new_vals ! 0))\<rparr>)
      else if a = ''avatar'' \<or> a = ''jpegphoto'' \<or> a = ''jpeg_photo''
        then insert_deserialized L uid ''avatar'' new_vals TAvatar False ''avatar''
      else Inl (lerr UnwillingToPerform (Text (''Add not supported for '' @ pa_atype m))))"

definition modify_delete ::
  "libs \<Rightarrow> 's backend \<Rightarrow> user_id \<Rightarrow> ldap_partial_attribute \<Rightarrow> 's \<Rightarrow> update_user_request lresult" where
  "modify_delete L B uid m s =
     (let a = to_ascii_lowercase (pa_atype m); delete_vals = utf8_values (pa_vals m);
          del = (\<lambda>n. Inr (empty_update uid\<lparr>uu_delete_attributes := [attribute_name_from n]\<rparr>)) in
      if a = ''sshpublickey'' \<or> a = ''ssh_public_key'' then
        (if delete_vals = [] then del ''sshpublickey''
         else rbind (map_err (\<lambda>_. lerr OperationsError (Rendered ''Failed to read current user: '')) (b_get_user_details B s uid))
           (\<lambda>user. let remaining = filter (\<lambda>k. k \<notin> set delete_vals) (current_ssh_keys user) in
              if remaining = [] then del ''sshpublickey''
              else insert_deserialized L uid ''sshpublickey'' remaining TString True ''sshPublicKey''))
      else if a = ''givenname'' \<or> a = ''given_name'' then del ''first_name''
      else if a = ''sn'' \<or> a = ''surname'' then del ''last_name''
      else if a = ''avatar'' \<or> a = ''jpegphoto'' \<or> a = ''jpeg_photo'' then del ''avatar''
      else Inl (lerr UnwillingToPerform (Text (''Deletion not supported for '' @ pa_atype m))))"

definition handle_modify_change ::
  "libs \<Rightarrow> 's backend \<Rightarrow> opaque_client \<Rightarrow> 's kerberos \<Rightarrow> user_id \<Rightarrow> validation_results \<Rightarrow> bool
     \<Rightarrow> ldap_modify \<Rightarrow> 's \<Rightarrow> unit lresult \<times> 's" where
  "handle_modify_change L B C K uid credentials user_is_admin change s =
     (let m = lm_modification change; atype_lower = to_ascii_lowercase (pa_atype m) in
      if atype_lower = ''userpassword'' then modify_password B C K uid credentials user_is_admin change s
      else if \<not> can_change_password credentials uid user_is_admin then
        (Inl (lerr InsufficentAccessRights (Text (''User '' @ backticked (user_id_str (vr_user credentials))
           @ '' cannot modify attributes of user '' @ backticked (user_id_str uid)))), s)
      else if lm_operation change = ModDelete
              \<and> atype_lower \<in> {''mail'', ''email'', ''cn'', ''displayname'', ''commonname''} then
        (Inl (lerr InsufficentAccessRights (Text (''Deletion of '' @ backticked (pa_atype m)
           @ '' is not allowed via LDAP Modify (use GraphQL or protected path)''))), s)
      else (case (case lm_operation change of
                    ModReplace \<Rightarrow> modify_replace L uid m
                  | ModAdd \<Rightarrow> modify_add L B uid m s
                  | ModDelete \<Rightarrow> modify_delete L B uid m s) of
        Inl e \<Rightarrow> (Inl e, s)
      | Inr update_req \<Rightarrow>
          (case b_update_user B s update_req of
             (r, s1) \<Rightarrow>
               (map_err (\<lambda>_. lerr OperationsError (Rendered ''Error while updating user via LDAP Modify: '')) r, s1))))"

fun modify_changes ::
  "libs \<Rightarrow> 's backend \<Rightarrow> opaque_client \<Rightarrow> 's kerberos \<Rightarrow> user_id \<Rightarrow> validation_results
     \<Rightarrow> ldap_modify list \<Rightarrow> 's \<Rightarrow> unit lresult \<times> 's" where
  "modify_changes L B C K uid credentials [] s = (Inr (), s)"
| "modify_changes L B C K uid credentials (change # changes) s =
     (case get_readable_handler B credentials uid of
        None \<Rightarrow> (Inl (lerr InsufficentAccessRights (Text (''User '' @ backticked (user_id_str (vr_user credentials))
                  @ '' cannot modify user '' @ backticked (user_id_str uid)))), s)
      | Some readable \<Rightarrow>
          (case get_writeable_handler B credentials uid of
             None \<Rightarrow> (Inl (lerr InsufficentAccessRights (Text (''User '' @ backticked (user_id_str (vr_user credentials))
                       @ '' cannot modify user '' @ backticked (user_id_str uid) @ '' (no write permission)''))), s)
           | Some writeable \<Rightarrow>
               (case b_get_user_groups readable s uid of
                  Inl _ \<Rightarrow> (Inl (lerr OperationsError
                      (Rendered ''Internal error while requesting user's groups: '')), s)
                | Inr groups \<Rightarrow>
                    sbind (handle_modify_change L writeable C K uid credentials (groups_have_admin groups) change s)
                      (\<lambda>_ s1. modify_changes L B C K uid credentials changes s1))))"

definition handle_modify_request ::
  "libs \<Rightarrow> 's backend \<Rightarrow> opaque_client \<Rightarrow> 's kerberos \<Rightarrow> ldap_info \<Rightarrow> validation_results
     \<Rightarrow> ldap_modify_request \<Rightarrow> 's \<Rightarrow> ldap_op list lresult \<times> 's" where
  "handle_modify_request L B C K info credentials request s =
     (case get_user_id_from_distinguished_name (mr_dn request) (li_base_dn info) (li_base_dn_str info) of
        Inl e \<Rightarrow> (Inl (lerr InvalidDNSyntax (msg_prepend ''Invalid username: '' (le_message e))), s)
      | Inr uid \<Rightarrow>
          sbind (modify_changes L B C K uid credentials (mr_changes request) s)
            (\<lambda>_ s1. (Inr [make_modify_response Success (Text [])], s1)))"

section \<open>Add\<close>

definition parse_add_attribute :: "ldap_partial_attribute \<Rightarrow> (string \<times> bytes) lresult" where
  "parse_add_attribute a =
     (if length (pa_vals a) > 1 then
        Inl (lerr ConstraintViolation (Text (''Expected a single value for attribute '' @ pa_atype a)))
      else (case pa_vals a of
        v # _ \<Rightarrow> Inr (to_ascii_lowercase (pa_atype a), v)
      | [] \<Rightarrow> Inl (lerr ConstraintViolation
          (Text (''Missing value for attribute '' @ to_ascii_lowercase (pa_atype a))))))"

definition get_add_attribute :: "(string \<rightharpoonup> bytes) \<Rightarrow> string \<Rightarrow> string option lresult" where
  "get_add_attribute m name =
     (case m name of
        None \<Rightarrow> Inr None
      | Some v \<Rightarrow> (case from_utf8 v of
            Some t \<Rightarrow> Inr (Some t)
          | None \<Rightarrow> Inl (lerr ConstraintViolation (Rendered ''Attribute value is invalid UTF-8: ''))))"

definition get_add_attribute_or :: "(string \<rightharpoonup> bytes) \<Rightarrow> string \<Rightarrow> string \<Rightarrow> string option lresult" where
  "get_add_attribute_or m name alt = get_add_attribute m (if m name \<noteq> None then name else alt)"

definition add_deserialized ::
  "libs \<Rightarrow> string \<Rightarrow> attribute_type \<Rightarrow> string option \<Rightarrow> attribute list lresult" where
  "add_deserialized L name typ v =
     (case v of
        None \<Rightarrow> Inr []
      | Some x \<Rightarrow> (case deserialize_attribute_value L [x] typ False of
            Inl _ \<Rightarrow> Inl (lerr ConstraintViolation (Rendered (''Invalid '' @ name @ '' value: '')))
          | Inr av \<Rightarrow> Inr [\<lparr>attr_name = attribute_name_from name, attr_value = av\<rparr>]))"

definition add_attribute_map :: "ldap_partial_attribute list \<Rightarrow> string \<Rightarrow> (string \<rightharpoonup> bytes) lresult" where
  "add_attribute_map attributes internal_ou =
     rbind (collect_results (map parse_add_attribute
              (filter (\<lambda>a. \<not> eq_ignore_ascii_case (pa_atype a) ''objectclass'') attributes)))
       (\<lambda>pairs.
         let m = map_of (rev pairs);
             m1 = (if m ''kerberossync'' = None then m(''kerberossync'' \<mapsto> ''0'') else m)
         in Inr (m1(''ou'' \<mapsto> internal_ou)))"

definition add_user_request ::
  "libs \<Rightarrow> user_id \<Rightarrow> (string \<rightharpoonup> bytes) \<Rightarrow> string \<Rightarrow> (create_user_request \<times> bool) lresult" where
  "add_user_request L uid m internal_ou =
     rbind (get_add_attribute m ''givenname'') (\<lambda>first_name.
     rbind (add_deserialized L ''first_name'' TString first_name) (\<lambda>a1.
     rbind (get_add_attribute m ''sn'') (\<lambda>last_name.
     rbind (add_deserialized L ''last_name'' TString last_name) (\<lambda>a2.
     rbind (get_add_attribute_or m ''avatar'' ''jpegphoto'') (\<lambda>avatar.
     rbind (add_deserialized L ''avatar'' TAvatar avatar) (\<lambda>a3.
     rbind (add_deserialized L ''ou'' TString (Some internal_ou)) (\<lambda>a4.
     rbind (get_add_attribute m ''kerberossync'') (\<lambda>ksync.
     rbind (add_deserialized L ''kerberossync'' TInteger (Some (unwrap_or ''0'' ksync))) (\<lambda>a5.
     rbind (get_add_attribute_or m ''mail'' ''email'') (\<lambda>mail.
     rbind (get_add_attribute m ''cn'') (\<lambda>cn.
       Inr (\<lparr>cu_user_id = uid, cu_email = Email (unwrap_or [] mail), cu_display_name = cn,
             cu_attributes = a1 @ a2 @ a3 @ a4 @ a5\<rparr>,
            ksync = Some ''1''))))))))))))"

definition create_user ::
  "libs \<Rightarrow> 's backend \<Rightarrow> 's kerberos \<Rightarrow> user_id \<Rightarrow> ldap_partial_attribute list \<Rightarrow> string \<Rightarrow> 's
     \<Rightarrow> ldap_op list lresult \<times> 's" where
  "create_user L B K uid attributes internal_ou s =
     (case rbind (add_attribute_map attributes internal_ou) (\<lambda>m.
             rmap (\<lambda>rk. (m, rk)) (add_user_request L uid m internal_ou)) of
        Inl e \<Rightarrow> (Inl e, s)
      | Inr (m, request, kerberossync_enabled) \<Rightarrow>
          (case b_create_user B s request of
             (Inl _, s1) \<Rightarrow> (Inl (lerr OperationsError (Rendered ''Could not create user: '')), s1)
           | (Inr _, s1) \<Rightarrow>
               let pw = (case m ''userpassword'' of Some v \<Rightarrow> Some v | None \<Rightarrow> m ''userPassword'');
                   s2 = (if kerberossync_enabled
                         then (case Option.bind pw from_utf8 of
                                 Some plain \<Rightarrow> snd (sync_kerberos_principal K (user_id_str uid) plain s1)
                               | None \<Rightarrow> s1)
                         else s1)
               in (Inr [make_add_response Success (Text [])], s2)))"

definition create_group ::
  "libs \<Rightarrow> 's backend \<Rightarrow> group_name \<Rightarrow> string \<Rightarrow> 's \<Rightarrow> ldap_op list lresult \<times> 's" where
  "create_group L B gname internal_ou s =
     (case add_deserialized L ''ou'' TString (Some internal_ou) of
        Inl e \<Rightarrow> (Inl e, s)
      | Inr attrs \<Rightarrow>
          (case b_create_group B s \<lparr>cg_display_name = gname, cg_attributes = attrs\<rparr> of
             (Inl _, s1) \<Rightarrow> (Inl (lerr OperationsError (Rendered ''Could not create group: '')), s1)
           | (Inr _, s1) \<Rightarrow> (Inr [make_add_response Success (Text [])], s1)))"

definition expected_leaf_format :: "ldap_info \<Rightarrow> string" where
  "expected_leaf_format info =
     quoted (''uid=id,ou=people,'' @ li_base_dn_str info) @ '' or ''
     @ quoted (''cn=id,ou=groups,'' @ li_base_dn_str info)"

definition create_user_or_group ::
  "libs \<Rightarrow> 's backend \<Rightarrow> 's kerberos \<Rightarrow> ldap_info \<Rightarrow> ldap_add_request \<Rightarrow> 's \<Rightarrow> ldap_op list lresult \<times> 's" where
  "create_user_or_group L B K info request s =
     (case parse_distinguished_name (add_dn request) of
        Inl e \<Rightarrow> (Inl e, s)
      | Inr dn_parts \<Rightarrow>
          let internal_ou = get_internal_ou_from_dn_parts dn_parts in
          (case get_user_or_group_id_from_distinguished_name (add_dn request) (li_base_dn info) of
             UGUser u \<Rightarrow> create_user L B K u (add_attributes request) internal_ou s
           | UGGroup g \<Rightarrow> create_group L B g internal_ou s
           | err \<Rightarrow> (Inl (into_ldap_error err (add_dn request) (expected_leaf_format info)), s)))"

section \<open>Delete\<close>

definition delete_user :: "'s backend \<Rightarrow> 's kerberos \<Rightarrow> user_id \<Rightarrow> 's \<Rightarrow> ldap_op list lresult \<times> 's" where
  "delete_user B K uid s =
     (case b_get_user_details B s uid of
        Inl (EntityNotFound _) \<Rightarrow> (Inl (lerr NoSuchObject (Text ''Could not find user'')), s)
      | Inl _ \<Rightarrow> (Inl (lerr OperationsError (Rendered ''Error while finding user: '')), s)
      | Inr _ \<Rightarrow>
          (case b_delete_user B s uid of
             (Inl _, s1) \<Rightarrow> (Inl (lerr OperationsError (Rendered ''Error while deleting user: '')), s1)
           | (Inr _, s1) \<Rightarrow>
               (Inr [make_del_response Success (Text [])],
                snd (delete_kerberos_principal K (user_id_str uid) s1))))"

definition delete_group :: "'s backend \<Rightarrow> group_name \<Rightarrow> 's \<Rightarrow> ldap_op list lresult \<times> 's" where
  "delete_group B gname s =
     (case b_list_groups B s (Some (GDisplayName gname)) of
        Inl _ \<Rightarrow> (Inl (lerr OperationsError (Rendered ''Error while finding group: '')), s)
      | Inr groups \<Rightarrow>
          (case find_first (\<lambda>g. group_name_eq (g_display_name g) gname) groups of
             None \<Rightarrow> (Inl (lerr NoSuchObject (Text ''Could not find group'')), s)
           | Some g \<Rightarrow>
               (case b_delete_group B s (g_id g) of
                  (Inl _, s1) \<Rightarrow> (Inl (lerr OperationsError (Rendered ''Error while deleting group: '')), s1)
                | (Inr _, s1) \<Rightarrow> (Inr [make_del_response Success (Text [])], s1))))"

definition delete_user_or_group ::
  "'s backend \<Rightarrow> 's kerberos \<Rightarrow> ldap_info \<Rightarrow> string \<Rightarrow> 's \<Rightarrow> ldap_op list lresult \<times> 's" where
  "delete_user_or_group B K info request s =
     (case get_user_or_group_id_from_distinguished_name request (li_base_dn info) of
        UGUser u \<Rightarrow> delete_user B K u s
      | UGGroup g \<Rightarrow> delete_group B g s
      | err \<Rightarrow> (Inl (into_ldap_error err request (expected_leaf_format info)), s))"

end
