(* ===== verification/Sql_Auth.thy ===== *)
theory Sql_Auth
  imports Sql_Groups Operations
begin

text \<open>
  Authentication against the database (\<open>sql_opaque_handler.rs\<close>): the check for disabled users,
  the simple bind, the two steps of an OPAQUE login and of a registration, and
  \<open>register_password\<close>. The OPAQUE protocol (\<open>opaque_ke\<close>), the authenticated encryption of the
  server's state (\<open>orion\<close>) and its serialisation (\<open>bincode\<close>) are the fields of the record
  \<open>opaque_server\<close>; the draws of the random generator are part of them.
\<close>

section \<open>Parameters\<close>

record opaque_server =
  op_client_start_login :: "string \<Rightarrow> (string \<times> string) option"
  op_client_finish_login :: "string \<Rightarrow> string \<Rightarrow> string \<Rightarrow> bool"
  op_deserialize :: "bytes \<Rightarrow> string option"
  op_start_login :: "string option \<Rightarrow> string \<Rightarrow> user_id \<Rightarrow> (string \<times> string) option"
  op_finish_login :: "string \<Rightarrow> string \<Rightarrow> bool"
  op_start_registration :: "string \<Rightarrow> user_id \<Rightarrow> string option"
  op_password_file :: "string \<Rightarrow> bytes"
  op_secret_key :: "string option"
  op_seal :: "string \<Rightarrow> bytes \<Rightarrow> bytes option"
  op_open :: "string \<Rightarrow> bytes \<Rightarrow> bytes option"
  op_base64_encode :: "bytes \<Rightarrow> string"
  op_base64_decode :: "string \<Rightarrow> bytes option"
  op_login_to_bytes :: "user_id \<times> string \<Rightarrow> bytes option"
  op_login_of_bytes :: "bytes \<Rightarrow> (user_id \<times> string) option"
  op_registration_to_bytes :: "user_id \<Rightarrow> bytes option"
  op_registration_of_bytes :: "bytes \<Rightarrow> user_id option"

abbreviation protocol_error :: domain_error where
  "protocol_error \<equiv> AuthenticationProtocolError ''Protocol error''"

abbreviation crypto_error :: domain_error where
  "crypto_error \<equiv> UnknownCryptoError ''Unknown crypto error''"

abbreviation disabled_error :: domain_error where
  "disabled_error \<equiv> AuthenticationError ''- Account disabled. Contact administrator.''"

section \<open>Login\<close>

definition passwords_match :: "opaque_server \<Rightarrow> bytes \<Rightarrow> string \<Rightarrow> user_id \<Rightarrow> unit dresult" where
  "passwords_match P password_file_bytes clear_password username =
     rbind (ok_or protocol_error (op_client_start_login P clear_password)) (\<lambda>(state, msg).
     rbind (ok_or protocol_error (op_deserialize P password_file_bytes)) (\<lambda>password_file.
     rbind (ok_or protocol_error (op_start_login P (Some password_file) msg username)) (\<lambda>(_, response).
       if op_client_finish_login P state clear_password response then Inr () else Inl protocol_error)))"

definition get_password_file_for_user :: "db \<Rightarrow> user_id \<Rightarrow> bytes option" where
  "get_password_file_for_user d u = Option.bind (find_user d u) ur_password_hash"

text \<open>The group is found by its exact name.\<close>

definition is_user_disabled :: "db \<Rightarrow> user_id \<Rightarrow> bool" where
  "is_user_disabled d u =
     (case find_first (\<lambda>g. gr_display_name g = GroupName ''lldap_disabled'') (t_groups d) of
        None \<Rightarrow> False
      | Some g \<Rightarrow> is_member d u (gr_group_id g))"

definition sql_bind :: "opaque_server \<Rightarrow> db \<Rightarrow> bind_request \<Rightarrow> unit dresult" where
  "sql_bind P d request =
     (let u = bind_name request;
          refused = Inl (AuthenticationError (''for user '' @ [CHR 0x22] @ user_id_str u @ [CHR 0x22])) in
      if is_user_disabled d u then Inl disabled_error
      else (case get_password_file_for_user d u of
              Some password_hash \<Rightarrow>
                (case passwords_match P password_hash (bind_password request) u of
                   Inr _ \<Rightarrow> Inr () | Inl _ \<Rightarrow> refused)
            | None \<Rightarrow> refused))"

text \<open>The server keeps no login state: it seals it into the data that the client sends back.\<close>

definition login_start :: "opaque_server \<Rightarrow> db \<Rightarrow> user_id \<times> string \<Rightarrow> (string \<times> string) dresult" where
  "login_start P d request =
     (let (u, login_start_request) = request in
      if is_user_disabled d u then Inl disabled_error
      else
        rbind (case get_password_file_for_user d u of
                 None \<Rightarrow> Inr None
               | Some b \<Rightarrow> rmap Some (ok_or (InternalError (''Corrupted password file for '' @ user_id_str u))
                   (op_deserialize P b))) (\<lambda>maybe_password_file.
        rbind (ok_or protocol_error (op_start_login P maybe_password_file login_start_request u))
          (\<lambda>(state, response).
        rbind (ok_or crypto_error (op_secret_key P)) (\<lambda>key.
        rbind (ok_or (BinarySerializationError []) (op_login_to_bytes P (u, state))) (\<lambda>plain.
        rbind (ok_or crypto_error (op_seal P key plain)) (\<lambda>sealed.
          Inr (op_base64_encode P sealed, response)))))))"

definition open_server_data :: "opaque_server \<Rightarrow> string \<Rightarrow> bytes dresult" where
  "open_server_data P server_data =
     rbind (ok_or crypto_error (op_secret_key P)) (\<lambda>key.
     rbind (ok_or (Base64DecodeError []) (op_base64_decode P server_data)) (\<lambda>sealed.
       ok_or crypto_error (op_open P key sealed)))"

definition login_finish :: "opaque_server \<Rightarrow> db \<Rightarrow> string \<times> string \<Rightarrow> user_id dresult" where
  "login_finish P d request =
     (let (server_data, credential_finalization) = request in
      rbind (open_server_data P server_data) (\<lambda>plain.
      rbind (ok_or (BinarySerializationError []) (op_login_of_bytes P plain)) (\<lambda>(u, server_login).
        if is_user_disabled d u then Inl disabled_error
        else if op_finish_login P server_login credential_finalization then Inr u
        else Inl protocol_error)))"

section \<open>Registration\<close>

definition registration_start ::
  "opaque_server \<Rightarrow> user_id \<times> string \<Rightarrow> (string \<times> string) dresult" where
  "registration_start P request =
     (let (u, msg) = request in
      rbind (ok_or protocol_error (op_start_registration P msg u)) (\<lambda>response.
      rbind (ok_or crypto_error (op_secret_key P)) (\<lambda>key.
      rbind (ok_or (BinarySerializationError []) (op_registration_to_bytes P u)) (\<lambda>plain.
      rbind (ok_or crypto_error (op_seal P key plain)) (\<lambda>sealed.
        Inr (op_base64_encode P sealed, response))))))"

definition registration_finish ::
  "opaque_server \<Rightarrow> string \<times> string \<Rightarrow> 'k world \<Rightarrow> unit dresult \<times> 'k world" where
  "registration_finish P request w =
     (let (server_data, upload) = request in
      case rbind (open_server_data P server_data)
             (\<lambda>plain. ok_or (BinarySerializationError []) (op_registration_of_bytes P plain)) of
        Inl e \<Rightarrow> (Inl e, w)
      | Inr u \<Rightarrow>
          execute (update_user_row u (\<lambda>r. r\<lparr>
            ur_password_hash := Some (op_password_file P upload),
            ur_password_modified_date := w_now w, ur_modified_date := w_now w\<rparr>)) w)"

definition register_password ::
  "opaque_server \<Rightarrow> opaque_client \<Rightarrow> user_id \<Rightarrow> bytes \<Rightarrow> 'k world \<Rightarrow> unit dresult \<times> 'k world" where
  "register_password P C u password w =
     (case oc_start_registration C password of
        None \<Rightarrow> (Inl protocol_error, w)
      | Some (msg, client_state) \<Rightarrow>
     (case registration_start P (u, msg) of
        Inl e \<Rightarrow> (Inl e, w)
      | Inr (server_data, response) \<Rightarrow>
     (case oc_finish_registration C client_state password response of
        None \<Rightarrow> (Inl protocol_error, w)
      | Some upload \<Rightarrow> registration_finish P (server_data, upload) w)))"

end
