(* ===== verification/Sql_Invariant.thy ===== *)
theory Sql_Invariant
  imports Sql_Auth
begin

text \<open>
  The invariant of the directory and that every operation of the SQL backend keeps it: the keys of
  the tables hold, the built-in groups exist under their exact names, and nobody is an
  administrator and disabled at once. The operations are collected in a step relation over
  worlds; the invariant holds in every world that is reachable from one that satisfies it.
\<close>

section \<open>The Kerberos server beside the database\<close>

text \<open>The KDC works on its own state: its operations, given over \<open>'k\<close>, are lifted to the world.\<close>

definition lift_kerberos :: "'k kerberos \<Rightarrow> 'k world kerberos" where
  "lift_kerberos K =
     \<lparr>env_base_dn = env_base_dn K, env_realm_name = env_realm_name K,
      kadm_init = (\<lambda>w. kadm_init K (w_kdc w)),
      kadm_chpass = (\<lambda>w u p r. let (b, k) = kadm_chpass K (w_kdc w) u p r in (b, w\<lparr>w_kdc := k\<rparr>)),
      kadm_create = (\<lambda>w u p r. let (b, k) = kadm_create K (w_kdc w) u p r in (b, w\<lparr>w_kdc := k\<rparr>)),
      kadm_delete = (\<lambda>w n. let (b, k) = kadm_delete K (w_kdc w) n in (b, w\<lparr>w_kdc := k\<rparr>))\<rparr>"

interpretation kdc: kdc_invariant "lift_kerberos K" "\<lambda>w. w_db w = d \<and> w_now w = t" for K d t
  by unfold_locales (auto simp: lift_kerberos_def Let_def case_prod_unfold)

lemma delete_principal_db [simp]:
  "w_db (snd (delete_kerberos_principal (lift_kerberos K) u w)) = w_db w"
  using kdc.delete_principal_inv [of w "w_db w" "w_now w" K u] by simp

lemma sync_principal_db [simp]:
  "w_db (snd (sync_kerberos_principal (lift_kerberos K) u p w)) = w_db w"
  using kdc.sync_principal_inv [of w "w_db w" "w_now w" K u p] by simp

section \<open>The invariant\<close>

definition builtins_present :: "db \<Rightarrow> bool" where
  "builtins_present d \<longleftrightarrow> (\<forall>n \<in> set BUILTIN_GROUPS. GroupName n \<in> gr_display_name ` set (t_groups d))"

definition exclusive :: "db \<Rightarrow> bool" where
  "exclusive d \<longleftrightarrow>
     (\<forall>g \<in> set (t_groups d). \<forall>h \<in> set (t_groups d). \<forall>u.
        gr_display_name g = GroupName ''lldap_admin'' \<longrightarrow> gr_display_name h = GroupName ''lldap_disabled'' \<longrightarrow>
        is_member d u (gr_group_id g) \<longrightarrow> \<not> is_member d u (gr_group_id h))"

definition guarded :: "db \<Rightarrow> bool" where
  "guarded d \<longleftrightarrow> db_ok d \<and> builtins_present d \<and> exclusive d"

text \<open>Statements that leave the groups' names and the memberships alone.\<close>

definition group_frame :: "db \<Rightarrow> (group_id \<times> group_name) list \<times> membership_row list" where
  "group_frame d = (map (\<lambda>r. (gr_group_id r, gr_display_name r)) (t_groups d), t_memberships d)"

definition frames :: "(db \<Rightarrow> db dresult) \<Rightarrow> bool" where
  "frames f \<longleftrightarrow> (\<forall>d d'. f d = Inr d' \<longrightarrow> group_frame d' = group_frame d)"

lemma builtins_present_frame: "group_frame d' = group_frame d \<Longrightarrow> builtins_present d' = builtins_present d"
proof -
  assume "group_frame d' = group_frame d"
  then have "map snd (map (\<lambda>r. (gr_group_id r, gr_display_name r)) (t_groups d'))
      = map snd (map (\<lambda>r. (gr_group_id r, gr_display_name r)) (t_groups d))" by (simp add: group_frame_def)
  then have "gr_display_name ` set (t_groups d') = gr_display_name ` set (t_groups d)"
    by (metis (no_types, lifting) list.map_comp list.set_map map_eq_conv comp_apply snd_conv)
  then show ?thesis by (simp add: builtins_present_def)
qed

lemma exclusive_pairs:
  "exclusive d \<longleftrightarrow>
     (\<forall>i j u. (i, GroupName ''lldap_admin'') \<in> set (fst (group_frame d)) \<longrightarrow>
        (j, GroupName ''lldap_disabled'') \<in> set (fst (group_frame d)) \<longrightarrow>
        \<lparr>mb_user_id = u, mb_group_id = i\<rparr> \<in> set (snd (group_frame d)) \<longrightarrow>
        \<lparr>mb_user_id = u, mb_group_id = j\<rparr> \<notin> set (snd (group_frame d)))"
proof -
  have pair: "(i, n) \<in> set (fst (group_frame d)) \<longleftrightarrow>
      (\<exists>g \<in> set (t_groups d). gr_group_id g = i \<and> gr_display_name g = n)" for i n
    by (auto simp: group_frame_def)
  have mem: "snd (group_frame d) = t_memberships d" by (simp add: group_frame_def)
  have gen: "(\<forall>g \<in> G. \<forall>h \<in> G. \<forall>u. N g = a \<longrightarrow> N h = b \<longrightarrow> m u (I g) \<longrightarrow> \<not> m u (I h)) \<longleftrightarrow>
      (\<forall>i j u. (\<exists>g \<in> G. I g = i \<and> N g = a) \<longrightarrow> (\<exists>g \<in> G. I g = j \<and> N g = b) \<longrightarrow> m u i \<longrightarrow> \<not> m u j)"
    for G :: "group_row set" and N :: "group_row \<Rightarrow> group_name" and I :: "group_row \<Rightarrow> group_id"
      and m :: "user_id \<Rightarrow> group_id \<Rightarrow> bool" and a b
    by blast
  show ?thesis unfolding exclusive_def is_member_def pair mem by (rule gen)
qed

lemma exclusive_frame: "group_frame d' = group_frame d \<Longrightarrow> exclusive d' = exclusive d"
  by (simp only: exclusive_pairs)

lemma guarded_frame:
  "guarded d \<Longrightarrow> db_ok d' \<Longrightarrow> group_frame d' = group_frame d \<Longrightarrow> guarded d'"
  unfolding guarded_def using builtins_present_frame [of d' d] exclusive_frame [of d' d] by blast

lemma keeps_guarded_frame: "keeps db_ok f \<Longrightarrow> frames f \<Longrightarrow> keeps guarded f"
  unfolding keeps_def frames_def using guarded_frame unfolding guarded_def by blast


section \<open>Statements\<close>

lemma framesI: "(\<And>d d'. f d = Inr d' \<Longrightarrow> group_frame d' = group_frame d) \<Longrightarrow> frames f"
  by (simp add: frames_def)

lemma frames_rbind: "frames f \<Longrightarrow> frames g \<Longrightarrow> frames (\<lambda>d. rbind (f d) g)"
  unfolding frames_def rbind_eq_Inr by metis

lemma frames_for_each: "(\<And>x. frames (f x)) \<Longrightarrow> frames (for_each f xs)"
proof (induction xs)
  case Nil
  show ?case by (rule framesI) simp
next
  case (Cons x xs)
  have "frames (\<lambda>d. rbind (f x d) (for_each f xs))" by (rule frames_rbind) (use Cons in auto)
  then show ?case unfolding frames_def by simp
qed

lemma group_frame_simps [simp]:
  "group_frame (d\<lparr>t_users := x1\<rparr>) = group_frame d"
  "group_frame (d\<lparr>t_user_attributes := x2\<rparr>) = group_frame d"
  "group_frame (d\<lparr>t_group_attributes := x3\<rparr>) = group_frame d"
  "group_frame (d\<lparr>t_user_attribute_schema := x4\<rparr>) = group_frame d"
  "group_frame (d\<lparr>t_group_attribute_schema := x5\<rparr>) = group_frame d"
  "group_frame (d\<lparr>t_user_object_classes := x6\<rparr>) = group_frame d"
  "group_frame (d\<lparr>t_group_object_classes := x7\<rparr>) = group_frame d"
  "group_frame (d\<lparr>t_system_config := x8\<rparr>) = group_frame d"
  by (simp_all add: group_frame_def)

lemma user_statement_frames:
  "frames (insert_user r)" "frames (update_user_row u f)"
  "frames (insert_user_attribute a)" "frames (upsert_user_attribute a)"
  "frames (insert_group_attribute b)" "frames (upsert_group_attribute b)"
  by (rule framesI, auto simp: insert_user_def update_user_row_def insert_user_attribute_def
      upsert_user_attribute_def insert_group_attribute_def upsert_group_attribute_def Let_def
      split: if_splits)+

lemma update_group_row_frames:
  assumes "\<And>r. gr_group_id (f r) = gr_group_id r" "\<And>r. gr_display_name (f r) = gr_display_name r"
  shows "frames (update_group_row g f)"
proof (rule framesI)
  fix d d' assume "update_group_row g f d = Inr d'"
  then have "d' = d\<lparr>t_groups := map (\<lambda>r. if gr_group_id r = g then f r else r) (t_groups d)\<rparr>"
    by (auto simp: update_group_row_def Let_def split: if_splits)
  then show "group_frame d' = group_frame d" by (simp add: group_frame_def assms)
qed

lemma write_attribute_frames:
  "frames (write_user_attribute now n p)" "frames (write_group_attribute now n q)"
  unfolding write_user_attribute_def write_group_attribute_def
  by (intro frames_rbind user_statement_frames update_group_row_frames; simp)+

lemma frames_if: "frames f \<Longrightarrow> frames g \<Longrightarrow> frames (\<lambda>d. if c then f d else g d)"
  by (cases c) simp_all

lemma frames_for_each_of: "(\<And>x. frames (f x)) \<Longrightarrow> frames (\<lambda>d. for_each f (xs d) d)"
  using frames_for_each [of f] unfolding frames_def by blast

lemma delete_all_frames:
  "frames (delete_all_user_attribute n)" "frames (delete_all_group_attribute n)"
  "frames (delete_user_attributes u names)" "frames (delete_group_attributes g names)"
  by (rule framesI, auto simp: delete_all_user_attribute_def delete_all_group_attribute_def
      delete_user_attributes_def delete_group_attributes_def)+

section \<open>Operations on users\<close>

lemma guardedD: "guarded d \<Longrightarrow> db_ok d" "guarded d \<Longrightarrow> builtins_present d" "guarded d \<Longrightarrow> exclusive d"
  by (simp_all add: guarded_def)

lemma guardedI: "db_ok d \<Longrightarrow> builtins_present d \<Longrightarrow> exclusive d \<Longrightarrow> guarded d"
  by (simp add: guarded_def)

lemma exclusiveD:
  assumes "exclusive d" "g \<in> set (t_groups d)" "h \<in> set (t_groups d)"
    "gr_display_name g = GroupName ''lldap_admin''" "gr_display_name h = GroupName ''lldap_disabled''"
    "is_member d u (gr_group_id g)" "is_member d u (gr_group_id h)"
  shows False
  using assms unfolding exclusive_def by blast

lemma attribute_statements_guarded:
  "keeps guarded (for_each insert_user_attribute as)" "keeps guarded (for_each upsert_user_attribute as)"
  "keeps guarded (for_each insert_group_attribute bs)" "keeps guarded (for_each upsert_group_attribute bs)"
  by (intro keeps_for_each keeps_guarded_frame user_statement_frames insert_user_attribute_keeps
      upsert_user_attribute_keeps insert_group_attribute_keeps upsert_group_attribute_keeps)+

lemma update_user_row_guarded:
  assumes "\<And>r. ur_user_id (f r) = ur_user_id r"
    and "\<And>r. ur_lowercase_email r = to_ascii_lowercase (email_str (ur_email r)) \<Longrightarrow>
      ur_lowercase_email (f r) = to_ascii_lowercase (email_str (ur_email (f r)))"
  shows "keeps guarded (update_user_row u f)"
  using assms by (intro keeps_guarded_frame user_statement_frames update_user_row_keeps)

lemma delete_attributes_guarded:
  "keeps guarded (delete_user_attributes u names)" "keeps guarded (delete_group_attributes g names)"
  by (intro keeps_guarded_frame delete_all_frames keepsI;
      auto simp: delete_user_attributes_def delete_group_attributes_def
        filter_user_attributes_ok filter_group_attributes_ok)+

lemma execute_guarded: "keeps guarded f \<Longrightarrow> guarded (w_db w) \<Longrightarrow> guarded (w_db (snd (execute f w)))"
  by (rule execute_ok)

lemma create_user_tx_guarded: "keeps guarded (create_user_tx Q now request attrs)"
proof (rule keepsI)
  fix d d' assume d: "guarded d" and c: "create_user_tx Q now request attrs d = Inr d'"
  obtain d1 rows where ins: "insert_user (new_user_row Q now request) d = Inr d1"
    and rest: "for_each insert_user_attribute rows d1 = Inr d'"
    using c unfolding create_user_tx_def rbind_eq_Inr by blast
  have "keeps guarded (insert_user (new_user_row Q now request))"
    by (intro keeps_guarded_frame user_statement_frames insert_user_keeps) (simp add: new_user_row_def)
  then have "guarded d1" using d ins by (rule keepsD)
  then show "guarded d'" using rest by (rule keepsD [OF attribute_statements_guarded(1)])
qed

lemma create_user_guarded:
  "guarded (w_db w) \<Longrightarrow> guarded (w_db (snd (Sql_Users.create_user Q request w)))"
  unfolding Sql_Users.create_user_def
  by (cases "with_default_ou Q ''people'' (w_db w) (cu_attributes request)")
    (simp_all add: execute_guarded create_user_tx_guarded)

lemma update_user_tx_guarded:
  assumes d: "guarded d" and c: "update_user_tx Q now request d = Inr (b, d')"
  shows "guarded d'"
proof -
  let ?u = "uu_user_id request"
  obtain d1 d2 d3 updates removes where d1: "update_user_row ?u (apply_user_update now request) d = Inr d1"
    and d2: "delete_user_attributes ?u removes d1 = Inr d2"
    and d3: "for_each upsert_user_attribute updates d2 = Inr d3"
    and last: "d' = d3 \<or> update_user_row ?u (\<lambda>r. r\<lparr>ur_krb_principal_name := None, ur_modified_date := now\<rparr>) d3 = Inr d'"
    using c unfolding update_user_tx_def rbind_eq_Inr
    by (auto simp: rbind_eq_Inr rmap_eq_Inr split: if_splits prod.splits)
  have "keeps guarded (update_user_row ?u (apply_user_update now request))"
    by (intro update_user_row_guarded) (auto simp: apply_user_update_def unwrap_or_def split: option.split)
  from keepsD [OF this d d1] have "guarded d1" .
  from keepsD [OF delete_attributes_guarded(1) this d2] have "guarded d2" .
  from keepsD [OF attribute_statements_guarded(2) this d3] have g3: "guarded d3" .
  have "keeps guarded (update_user_row ?u (\<lambda>r. r\<lparr>ur_krb_principal_name := None, ur_modified_date := now\<rparr>))"
    by (intro update_user_row_guarded) simp_all
  from keepsD [OF this g3] show ?thesis using g3 last by blast
qed

lemma transaction_guarded:
  assumes "\<And>x d'. f (w_db w) = Inr (x, d') \<Longrightarrow> guarded d'" and "guarded (w_db w)"
  shows "guarded (w_db (snd (transaction f w)))"
  using assms by (rule transaction_ok)

lemma update_user_guarded:
  assumes "guarded (w_db w)"
  shows "guarded (w_db (snd (update_user Q (lift_kerberos K) request w)))"
proof -
  let ?t = "transaction (update_user_tx Q (w_now w) request) w"
  have "guarded (w_db (snd ?t))"
    using update_user_tx_guarded [OF assms] assms by (intro transaction_guarded)
  then show ?thesis
    by (cases "fst ?t") (simp_all add: update_user_def snd_sbind)
qed

lemma ensure_consistency_guarded:
  "guarded (w_db w) \<Longrightarrow> guarded (w_db (snd (ensure_kerberos_principal_consistency K u e w)))"
  unfolding ensure_kerberos_principal_consistency_def
  by (intro execute_guarded update_user_row_guarded) simp_all

lemma registration_finish_guarded:
  "guarded (w_db w) \<Longrightarrow> guarded (w_db (snd (registration_finish P request w)))"
proof -
  assume g: "guarded (w_db w)"
  have "guarded (w_db (snd (execute (update_user_row u (\<lambda>r. r\<lparr>ur_password_hash := h,
      ur_password_modified_date := t, ur_modified_date := t\<rparr>)) w)))" for u h t
    using g by (intro execute_guarded update_user_row_guarded) simp_all
  with g show ?thesis
    unfolding registration_finish_def by (auto simp: case_prod_unfold split: sum.split)
qed

lemma exclusive_mono:
  assumes "exclusive d" and "set (t_memberships d') \<subseteq> set (t_memberships d)"
    and "set (fst (group_frame d')) \<subseteq> set (fst (group_frame d))"
  shows "exclusive d'"
proof -
  have "set (snd (group_frame d')) \<subseteq> set (snd (group_frame d))"
    using assms(2) by (simp add: group_frame_def)
  then show ?thesis using assms(1,3) unfolding exclusive_pairs by (meson subsetD)
qed

lemma delete_user_guarded:
  assumes "guarded (w_db w)"
  shows "guarded (w_db (snd (Sql_Users.delete_user (lift_kerberos K) u w)))"
proof -
  let ?d = "snd (delete_user_row u (w_db w))"
  have "exclusive ?d"
    by (rule exclusive_mono [OF guardedD(3) [OF assms]]) (auto simp: delete_user_row_def group_frame_def)
  moreover have "builtins_present ?d"
    using assms by (simp add: guarded_def builtins_present_def delete_user_row_def)
  ultimately have "guarded ?d"
    using delete_user_row_ok assms by (simp add: guarded_def)
  then show ?thesis
    using assms by (simp add: Sql_Users.delete_user_def Let_def case_prod_unfold)
qed

section \<open>Membership\<close>

lemma insert_membershipD:
  assumes "insert_membership m d = Inr d'"
  shows "d' = d\<lparr>t_memberships := t_memberships d @ [m]\<rparr>"
  using assms by (auto simp: insert_membership_def split: if_splits)

lemma groups_of_user_in:
  assumes "get_user_groups d u = Inr hs" and "g \<in> set (t_groups d)" and "is_member d u (gr_group_id g)"
  shows "\<exists>h \<in> set hs. gd_display_name h = gr_display_name g"
  using assms by (auto simp: get_user_groups_def groups_of_user_def rmap_eq_Inr group_details_of_row_def)

lemma get_group_details_name:
  assumes "get_group_details Q d g = Inr det"
  obtains r where "find_group d g = Some r" "gd_display_name det = gr_display_name r"
    "r \<in> set (t_groups d)" "gr_group_id r = g"
proof -
  obtain r where r: "find_group d g = Some r" "gd_display_name det = gr_display_name r"
    using assms by (auto simp: get_group_details_def rbind_eq_Inr rmap_eq_Inr ok_or_def group_details_of_row_def
        split: option.splits)
  then have "r \<in> set (t_groups d)" "gr_group_id r = g"
    unfolding find_group_def by (auto dest: find_first_SomeD)
  with r show thesis by (rule that)
qed

text \<open>A new member of the administrators is not disabled, and a newly disabled user is no
  administrator.\<close>

definition admission_safe :: "db \<Rightarrow> user_id \<Rightarrow> group_id \<Rightarrow> bool" where
  "admission_safe d u g \<longleftrightarrow>
     (\<forall>r \<in> set (t_groups d). \<forall>h \<in> set (t_groups d). gr_group_id r = g \<longrightarrow> is_member d u (gr_group_id h) \<longrightarrow>
        \<not> (gr_display_name r = GroupName ''lldap_admin'' \<and> gr_display_name h = GroupName ''lldap_disabled'')
        \<and> \<not> (gr_display_name r = GroupName ''lldap_disabled'' \<and> gr_display_name h = GroupName ''lldap_admin''))"

lemma insert_membership_exclusive:
  assumes ok: "db_ok d" and ex: "exclusive d" and safe: "admission_safe d u g"
    and ins: "insert_membership \<lparr>mb_user_id = u, mb_group_id = g\<rparr> d = Inr d'"
  shows "exclusive d'"
  unfolding exclusive_def
proof (intro ballI allI impI)
  fix a b v
  assume a: "a \<in> set (t_groups d')" "gr_display_name a = GroupName ''lldap_admin''"
    and b: "b \<in> set (t_groups d')" "gr_display_name b = GroupName ''lldap_disabled''"
    and ma: "is_member d' v (gr_group_id a)"
  have gs: "t_groups d' = t_groups d" by (simp add: insert_membershipD [OF ins])
  have mem: "is_member d' x i \<longleftrightarrow> is_member d x i \<or> (x = u \<and> i = g)" for x i
    by (auto simp: insert_membershipD [OF ins] is_member_def)
  have differ: "gr_group_id a \<noteq> gr_group_id b"
  proof
    assume "gr_group_id a = gr_group_id b"
    then have "a = b" using ok a(1) b(1) gs
      by (auto simp: db_ok_def unique_groups_def distinct_map inj_on_def)
    then show False using a(2) b(2) by simp
  qed
  show "\<not> is_member d' v (gr_group_id b)"
  proof
    assume mb: "is_member d' v (gr_group_id b)"
    consider "is_member d v (gr_group_id a)" "is_member d v (gr_group_id b)"
      | "v = u" "gr_group_id a = g" "is_member d u (gr_group_id b)"
      | "v = u" "gr_group_id b = g" "is_member d u (gr_group_id a)"
      using ma mb mem differ by blast
    then show False
    proof cases
      case 1
      then show False using exclusiveD [OF ex] a b gs by metis
    next
      case 2
      then show False using safe a b unfolding gs admission_safe_def by blast
    next
      case 3
      then show False using safe a b unfolding gs admission_safe_def by blast
    qed
  qed
qed

lemma admission_checked:
  assumes ok: "db_ok d" and hs: "get_user_groups d u = Inr hs" and det: "get_group_details Q d g = Inr det"
    and no: "\<And>n m. n = ''lldap_admin'' \<and> m = ''lldap_disabled'' \<or> n = ''lldap_disabled'' \<and> m = ''lldap_admin'' \<Longrightarrow>
      group_name_str (gd_display_name det) = n \<Longrightarrow>
      \<not> list_ex (\<lambda>h. group_name_eq (gd_display_name h) (GroupName m)) hs"
  shows "admission_safe d u g"
proof -
  obtain r where r: "gd_display_name det = gr_display_name r" "r \<in> set (t_groups d)" "gr_group_id r = g"
    using det by (rule get_group_details_name)
  have clash: False
    if "q \<in> set (t_groups d)" "gr_group_id q = g" "h \<in> set (t_groups d)" "is_member d u (gr_group_id h)"
      "gr_display_name q = GroupName n" "gr_display_name h = GroupName m"
      "n = ''lldap_admin'' \<and> m = ''lldap_disabled'' \<or> n = ''lldap_disabled'' \<and> m = ''lldap_admin''" for q h n m
  proof -
    note hyps = that
    have "find_group d g = Some q" "find_group d g = Some r"
      using find_group_unique [OF ok that(1)] find_group_unique [OF ok r(2)] that(2) r(3) by simp_all
    then have "group_name_str (gd_display_name det) = n" using r(1) that(5) by simp
    moreover obtain k where "k \<in> set hs" "gd_display_name k = GroupName m"
      using groups_of_user_in [OF hs hyps(3,4)] hyps(6) by auto
    then have "list_ex (\<lambda>h. group_name_eq (gd_display_name h) (GroupName m)) hs"
      unfolding list_ex_iff by (intro bexI [of _ k]) simp_all
    ultimately show False using no [OF hyps(7)] by blast
  qed
  show ?thesis
    unfolding admission_safe_def using clash by blast
qed

lemma touch_group_guarded: "keeps guarded (update_group_row g (\<lambda>r. r\<lparr>gr_modified_date := now\<rparr>))"
  by (intro keeps_guarded_frame update_group_row_keeps update_group_row_frames) simp_all

lemma insert_membership_guarded:
  assumes "guarded d" and "admission_safe d u g"
    and "insert_membership \<lparr>mb_user_id = u, mb_group_id = g\<rparr> d = Inr d'"
  shows "guarded d'"
proof (rule guardedI)
  show "db_ok d'" using keepsD [OF insert_membership_keeps guardedD(1) [OF assms(1)] assms(3)] .
  show "builtins_present d'"
    using guardedD(2) [OF assms(1)] by (simp add: insert_membershipD [OF assms(3)] builtins_present_def)
  show "exclusive d'"
    using insert_membership_exclusive [OF guardedD(1,3) [OF assms(1)] assms(2,3)] .
qed

lemma add_user_to_group_guarded:
  assumes g: "guarded (w_db w)"
  shows "guarded (w_db (snd (add_user_to_group Q u i w)))"
proof (cases "get_user_groups (w_db w) u")
  case (Inr hs)
  note hs = Inr
  show ?thesis
  proof (cases "get_group_details Q (w_db w) i")
    case (Inr det)
    let ?n = "group_name_str (gd_display_name det)"
    let ?in = "\<lambda>n. list_ex (\<lambda>h. group_name_eq (gd_display_name h) (GroupName n)) hs"
    show ?thesis
    proof (cases "(?n = ''lldap_admin'' \<and> ?in ''lldap_disabled'') \<or> (?n = ''lldap_disabled'' \<and> ?in ''lldap_admin'')")
      case True
      then show ?thesis using g hs Inr by (simp add: add_user_to_group_def Let_def)
    next
      case False
      then have safe: "admission_safe (w_db w) u i"
        by (intro admission_checked [OF guardedD(1) [OF g] hs Inr]) blast
      let ?f = "\<lambda>d. map_err transaction_error (rbind (insert_membership \<lparr>mb_user_id = u, mb_group_id = i\<rparr> d)
        (update_group_row i (\<lambda>r. r\<lparr>gr_modified_date := w_now w\<rparr>)))"
      have "guarded (w_db (snd (transaction (\<lambda>d. rmap (Pair ()) (?f d)) w)))"
      proof (rule transaction_guarded [OF _ g])
        fix x d' assume "rmap (Pair ()) (?f (w_db w)) = Inr (x, d')"
        then obtain d1 where d1: "insert_membership \<lparr>mb_user_id = u, mb_group_id = i\<rparr> (w_db w) = Inr d1"
          and d': "update_group_row i (\<lambda>r. r\<lparr>gr_modified_date := w_now w\<rparr>) d1 = Inr d'"
          by (auto simp: rmap_eq_Inr map_err_eq_Inr rbind_eq_Inr)
        show "guarded d'"
          using keepsD [OF touch_group_guarded insert_membership_guarded [OF g safe d1] d'] .
      qed
      moreover have "add_user_to_group Q u i w = execute ?f w"
        by (simp only: add_user_to_group_def hs Inr sum.case Let_def False if_False)
      ultimately show ?thesis by (simp add: execute_def)
    qed
  qed (use g hs in \<open>simp add: add_user_to_group_def\<close>)
qed (use g in \<open>simp add: add_user_to_group_def\<close>)

lemma remove_user_from_group_guarded:
  assumes "guarded (w_db w)"
  shows "guarded (w_db (snd (remove_user_from_group u g w)))"
  unfolding remove_user_from_group_def
proof (rule execute_guarded [OF _ assms], rule keepsI)
  fix d d' assume d: "guarded d" and r: "remove_user_from_group_tx (w_now w) u g d = Inr d'"
  let ?d1 = "snd (delete_membership \<lparr>mb_user_id = u, mb_group_id = g\<rparr> d)"
  have d': "update_group_row g (\<lambda>r. r\<lparr>gr_modified_date := w_now w\<rparr>) ?d1 = Inr d'"
    using r by (auto simp: remove_user_from_group_tx_def Let_def case_prod_unfold split: if_splits)
  have "exclusive ?d1"
    by (rule exclusive_mono [OF guardedD(3) [OF d]]) (auto simp: delete_membership_def group_frame_def)
  moreover have "builtins_present ?d1"
    using guardedD(2) [OF d] by (simp add: builtins_present_def delete_membership_def)
  ultimately have "guarded ?d1"
    using delete_membership_ok [OF guardedD(1) [OF d]] by (intro guardedI)
  from keepsD [OF touch_group_guarded this d'] show "guarded d'" .
qed

section \<open>Operations on groups\<close>

lemma is_builtin_group_iff: "is_builtin_group n \<longleftrightarrow> n \<in> set BUILTIN_GROUPS"
  by (auto simp: is_builtin_group_def list_ex_iff)

lemma builtin_names: "''lldap_admin'' \<in> set BUILTIN_GROUPS" "''lldap_disabled'' \<in> set BUILTIN_GROUPS"
  by (simp_all add: BUILTIN_GROUPS_def)

text \<open>A database with the built-in groups in which a group that is not built in was added or
  renamed: by uniqueness of names the new name is not a built-in one either, so the named groups of
  the exclusion are the same rows as before.\<close>

lemma new_group_not_builtin:
  assumes "builtins_present d" and "distinct (map gr_display_name rs)"
    and "\<And>q. q \<in> set (t_groups d) \<Longrightarrow> group_name_str (gr_display_name q) \<in> set BUILTIN_GROUPS \<Longrightarrow> q \<in> set rs"
    and "r \<in> set rs" and "r \<notin> set (t_groups d)"
  shows "group_name_str (gr_display_name r) \<notin> set BUILTIN_GROUPS"
proof
  assume b: "group_name_str (gr_display_name r) \<in> set BUILTIN_GROUPS"
  then obtain q where q: "q \<in> set (t_groups d)" "gr_display_name q = gr_display_name r"
    using assms(1) unfolding builtins_present_def by (metis group_name.collapse imageE)
  then have "q \<in> set rs" using assms(3) b by simp
  then have "q = r" using assms(2,4) q(2) by (auto simp: distinct_map inj_on_def)
  then show False using q(1) assms(5) by simp
qed

lemma exclusive_builtin_rows:
  assumes "exclusive d" and "t_memberships d' = t_memberships d"
    and "\<And>r. r \<in> set (t_groups d') \<Longrightarrow> group_name_str (gr_display_name r) \<in> set BUILTIN_GROUPS \<Longrightarrow> r \<in> set (t_groups d)"
  shows "exclusive d'"
proof -
  have old: "r \<in> set (t_groups d)"
    if "r \<in> set (t_groups d')" "gr_display_name r = GroupName n" "n \<in> set BUILTIN_GROUPS" for r n
    using assms(3) [OF that(1)] that(2,3) by simp
  have mem: "is_member d' = is_member d" using assms(2) by (simp add: is_member_def fun_eq_iff)
  show ?thesis
    unfolding exclusive_def mem
    using old [OF _ _ builtin_names(1)] old [OF _ _ builtin_names(2)] exclusiveD [OF assms(1)] by metis
qed

lemma insert_group_guarded:
  assumes "guarded d" and "insert_group (new_group_row Q now n) d = Inr (g, d')"
  shows "guarded d'"
proof -
  let ?r = "(new_group_row Q now n)\<lparr>gr_group_id := t_next_group_id d\<rparr>"
  have uniq: "unique_groups (t_groups d @ [?r])"
    and d': "d' = d\<lparr>t_groups := t_groups d @ [?r], t_next_group_id := t_next_group_id d + 1\<rparr>"
    using assms(2) by (auto simp: insert_group_def Let_def split: if_splits)
  have ok': "db_ok d'"
    by (rule insert_group_ok [OF guardedD(1) [OF assms(1)] assms(2)]) (simp add: new_group_row_def)
  have fresh: "?r \<notin> set (t_groups d)"
    using guardedD(1) [OF assms(1)] by (fastforce simp: db_ok_def)
  have "group_name_str (gr_display_name ?r) \<notin> set BUILTIN_GROUPS"
    by (rule new_group_not_builtin [OF guardedD(2) [OF assms(1)], where rs = "t_groups d @ [?r]"])
      (use uniq fresh in \<open>simp_all add: unique_groups_def\<close>)
  then have "exclusive d'"
    by (intro exclusive_builtin_rows [OF guardedD(3) [OF assms(1)]]) (auto simp: d')
  moreover have "builtins_present d'"
    using guardedD(2) [OF assms(1)] by (auto simp: builtins_present_def d')
  ultimately show ?thesis using ok' by (intro guardedI)
qed

lemma create_group_guarded:
  assumes g: "guarded (w_db w)"
  shows "guarded (w_db (snd (Sql_Groups.create_group Q request w)))"
proof (cases "get_allowed_ous Q (w_db w)")
  case (Inr ous)
  have "guarded d'" if tx: "create_group_tx Q now request ou (w_db w) = Inr (i, d')" for now ou i d'
  proof -
    obtain d1 rows j where d1: "insert_group (new_group_row Q now (cg_display_name request)) (w_db w) = Inr (j, d1)"
      and d': "for_each insert_group_attribute rows d1 = Inr d'"
      using tx unfolding create_group_tx_def rbind_eq_Inr by (auto simp: rbind_eq_Inr rmap_eq_Inr)
    show ?thesis
      using keepsD [OF attribute_statements_guarded(3) insert_group_guarded [OF g d1] d'] .
  qed
  then show ?thesis
    using Inr g by (simp add: Sql_Groups.create_group_def transaction_guarded)
qed (use g in \<open>simp add: Sql_Groups.create_group_def\<close>)

lemma rename_group_guarded:
  assumes g: "guarded d" and upd: "update_group_row i (apply_group_update now request) d = Inr d'"
    and free: "\<And>r. r \<in> set (t_groups d) \<Longrightarrow> gr_group_id r = i \<Longrightarrow> ugr_display_name request \<noteq> None \<Longrightarrow>
      group_name_str (gr_display_name r) \<notin> set BUILTIN_GROUPS"
  shows "guarded d'"
proof (cases "ugr_display_name request")
  case None
  then have "keeps guarded (update_group_row i (apply_group_update now request))"
    by (intro keeps_guarded_frame update_group_row_keeps update_group_row_frames)
      (simp_all add: apply_group_update_def)
  then show ?thesis using g upd by (rule keepsD)
next
  case (Some n)
  let ?f = "apply_group_update now request"
  let ?rs = "map (\<lambda>r. if gr_group_id r = i then ?f r else r) (t_groups d)"
  have d': "d' = d\<lparr>t_groups := ?rs\<rparr>" and uniq: "unique_groups ?rs"
    using upd by (auto simp: update_group_row_def Let_def split: if_splits)
  have "keeps db_ok (update_group_row i ?f)"
    by (rule update_group_row_keeps) (auto simp: apply_group_update_def unwrap_or_def split: option.split)
  then have ok': "db_ok d'" using guardedD(1) [OF g] upd by (rule keepsD)
  have stay: "r \<in> set ?rs" if "r \<in> set (t_groups d)" "group_name_str (gr_display_name r) \<in> set BUILTIN_GROUPS" for r
  proof -
    have "gr_group_id r \<noteq> i" using free [OF that(1)] that(2) Some by blast
    then show ?thesis using that(1) by force
  qed
  have "group_name_str (gr_display_name r) \<notin> set BUILTIN_GROUPS" if "r \<in> set ?rs" "r \<notin> set (t_groups d)" for r
    by (rule new_group_not_builtin [OF guardedD(2) [OF g] _ stay that]) (use uniq in \<open>simp add: unique_groups_def\<close>)
  then have "exclusive d'"
    by (intro exclusive_builtin_rows [OF guardedD(3) [OF g]]) (auto simp: d')
  moreover have "builtins_present d'"
    unfolding builtins_present_def
  proof
    fix b assume b: "b \<in> set BUILTIN_GROUPS"
    then obtain r where "r \<in> set (t_groups d)" "gr_display_name r = GroupName b"
      using guardedD(2) [OF g] unfolding builtins_present_def by (metis imageE)
    then have "r \<in> set (t_groups d')" using stay [of r] b by (simp add: d')
    then show "GroupName b \<in> gr_display_name ` set (t_groups d')"
      using \<open>gr_display_name r = GroupName b\<close> by (metis image_eqI)
  qed
  ultimately show ?thesis using ok' by (intro guardedI)
qed

lemma update_group_guarded:
  assumes g: "guarded (w_db w)"
  shows "guarded (w_db (snd (update_group Q request w)))"
proof -
  let ?i = "ugr_group_id request"
  let ?ok = "ugr_display_name request \<noteq> None \<longrightarrow>
    (\<exists>det. get_group_details Q (w_db w) ?i = Inr det \<and> \<not> is_builtin_group (group_name_str (gd_display_name det)))"
  show ?thesis
  proof (cases ?ok)
    case True
    have free: "group_name_str (gr_display_name r) \<notin> set BUILTIN_GROUPS"
      if r: "r \<in> set (t_groups (w_db w))" "gr_group_id r = ?i" "ugr_display_name request \<noteq> None" for r
    proof -
      obtain det where det: "get_group_details Q (w_db w) ?i = Inr det"
        "\<not> is_builtin_group (group_name_str (gd_display_name det))" using True r(3) by blast
      obtain q where "find_group (w_db w) ?i = Some q" "gd_display_name det = gr_display_name q"
        using det(1) by (rule get_group_details_name)
      then show ?thesis
        using find_group_unique [OF guardedD(1) [OF g] r(1)] r(2) det(2) by (simp add: is_builtin_group_iff)
    qed
    have "guarded d'" if tx: "update_group_with_transaction Q now request (w_db w) = Inr d'" for now d'
    proof -
      obtain d1 d2 removes updates where
        d1: "update_group_row ?i (apply_group_update now request) (w_db w) = Inr d1"
        and d2: "delete_group_attributes ?i removes d1 = Inr d2"
        and d': "for_each upsert_group_attribute updates d2 = Inr d'"
        using tx unfolding update_group_with_transaction_def rbind_eq_Inr by auto
      have "guarded d1" using rename_group_guarded [OF g d1] free by blast
      from keepsD [OF delete_attributes_guarded(2) this d2] have "guarded d2" .
      from keepsD [OF attribute_statements_guarded(4) this d'] show "guarded d'" .
    qed
    then have "guarded (w_db (snd (execute (update_group_with_transaction Q (w_now w) request) w)))"
      unfolding execute_def by (intro transaction_guarded [OF _ g]) (auto simp: rmap_eq_Inr)
    then show ?thesis
      using g by (auto simp: update_group_def Let_def split: sum.split)
  next
    case False
    then have "snd (update_group Q request w) = w"
      by (cases "get_group_details Q (w_db w) ?i") (auto simp: update_group_def Let_def)
    then show ?thesis using g by simp
  qed
qed

lemma delete_group_guarded:
  assumes g: "guarded (w_db w)"
  shows "guarded (w_db (snd (Sql_Groups.delete_group Q i w)))"
proof (cases "get_group_details Q (w_db w) i")
  case (Inr det)
  show ?thesis
  proof (cases "is_builtin_group (group_name_str (gd_display_name det))")
    case True
    then show ?thesis using g Inr by (simp add: Sql_Groups.delete_group_def)
  next
    case False
    let ?d = "snd (delete_group_row i (w_db w))"
    obtain r where r: "find_group (w_db w) i = Some r" "gd_display_name det = gr_display_name r"
      using Inr by (rule get_group_details_name)
    have "exclusive ?d"
      by (rule exclusive_mono [OF guardedD(3) [OF g]]) (auto simp: delete_group_row_def group_frame_def)
    moreover have "builtins_present ?d"
      unfolding builtins_present_def
    proof
      fix b assume b: "b \<in> set BUILTIN_GROUPS"
      then obtain q where q: "q \<in> set (t_groups (w_db w))" "gr_display_name q = GroupName b"
        using guardedD(2) [OF g] unfolding builtins_present_def by (metis imageE)
      have "gr_group_id q \<noteq> i"
      proof
        assume "gr_group_id q = i"
        then have "q = r" using find_group_unique [OF guardedD(1) [OF g] q(1)] r(1) by simp
        then show False using False r(2) q(2) b by (simp add: is_builtin_group_iff)
      qed
      then have "q \<in> set (t_groups ?d)" using q(1) by (simp add: delete_group_row_def)
      then show "GroupName b \<in> gr_display_name ` set (t_groups ?d)" using q(2) by (metis image_eqI)
    qed
    ultimately have "guarded ?d" using delete_group_row_ok [OF guardedD(1) [OF g]] by (intro guardedI)
    then show ?thesis using g Inr False by (simp add: Sql_Groups.delete_group_def Let_def case_prod_unfold)
  qed
qed (use g in \<open>simp add: Sql_Groups.delete_group_def\<close>)

section \<open>Schema, configuration and reassignment\<close>

lemma db_ok_irrelevant:
  "db_ok (d\<lparr>t_user_object_classes := c1\<rparr>) = db_ok d"
  "db_ok (d\<lparr>t_group_object_classes := c2\<rparr>) = db_ok d"
  "db_ok (d\<lparr>t_system_config := c3\<rparr>) = db_ok d"
  by (simp_all add: db_ok_def)

lemma db_ok_more_schema:
  "db_ok d \<Longrightarrow> db_ok (d\<lparr>t_user_attribute_schema := t_user_attribute_schema d @ [r]\<rparr>)"
  "db_ok d \<Longrightarrow> db_ok (d\<lparr>t_group_attribute_schema := t_group_attribute_schema d @ [r]\<rparr>)"
  by (simp_all add: db_ok_def)

lemma image_filter_neq: "f ` {x \<in> S. f x \<noteq> n} = f ` S - {n}"
  by auto

lemma db_ok_less_schema:
  "db_ok d \<Longrightarrow> db_ok (d\<lparr>t_user_attribute_schema := filter (\<lambda>r. sr_name r \<noteq> n) (t_user_attribute_schema d),
     t_user_attributes := filter (\<lambda>a. ua_name a \<noteq> n) (t_user_attributes d)\<rparr>)"
  "db_ok d \<Longrightarrow> db_ok (d\<lparr>t_group_attribute_schema := filter (\<lambda>r. sr_name r \<noteq> n) (t_group_attribute_schema d),
     t_group_attributes := filter (\<lambda>a. ga_name a \<noteq> n) (t_group_attributes d)\<rparr>)"
  by (simp_all add: db_ok_def distinct_filter_map image_filter_neq)

lemma schema_statements_guarded:
  "keeps guarded (add_user_attribute req)" "keeps guarded (add_group_attribute req)"
  "keeps guarded (delete_user_attribute n)" "keeps guarded (delete_group_attribute n)"
  "keeps guarded (add_user_object_class c)" "keeps guarded (add_group_object_class c)"
  "keeps guarded (delete_user_object_class c)" "keeps guarded (delete_group_object_class c)"
  "keeps guarded (set_system_config k v)"
  by (intro keeps_guarded_frame keepsI framesI;
      auto simp: db_ok_irrelevant db_ok_more_schema db_ok_less_schema
        add_user_attribute_def add_group_attribute_def insert_schema_row_def
        delete_user_attribute_def delete_group_attribute_def add_user_object_class_def add_group_object_class_def
        insert_object_class_def delete_user_object_class_def delete_group_object_class_def
        set_system_config_def Let_def rmap_eq_Inr split: if_splits)+

lemma reassign_guarded:
  assumes "guarded (w_db w)"
  shows "guarded (w_db (snd (reassign_gid_numbers Q w)))"
    and "guarded (w_db (snd (reassign_user_uid_numbers Q w)))"
    and "guarded (w_db (snd (reassign_user_gid_numbers Q w)))"
    and "guarded (w_db (snd (reassign_user_homedirectories Q w)))"
    and "guarded (w_db (snd (reassign_user_loginshells Q w)))"
proof -
  have gen: "guarded (w_db (snd (case r of Inl e \<Rightarrow> (Inl e, w) | Inr settings \<Rightarrow> execute (f settings) w)))"
    if "\<And>settings. keeps guarded (f settings)" for r and f :: "posix_settings \<Rightarrow> db \<Rightarrow> db dresult"
    using assms execute_guarded [OF that assms] by (cases r) simp_all
  show "guarded (w_db (snd (reassign_gid_numbers Q w)))"
    and "guarded (w_db (snd (reassign_user_uid_numbers Q w)))"
    and "guarded (w_db (snd (reassign_user_gid_numbers Q w)))"
    and "guarded (w_db (snd (reassign_user_homedirectories Q w)))"
    and "guarded (w_db (snd (reassign_user_loginshells Q w)))"
    unfolding reassign_gid_numbers_def reassign_user_uid_numbers_def reassign_user_gid_numbers_def
      reassign_user_homedirectories_def reassign_user_loginshells_def
    by (intro gen keeps_guarded_frame keeps_if keeps_for_each_of write_user_attribute_keeps
        write_group_attribute_keeps delete_all_keeps frames_if frames_for_each_of write_attribute_frames
        delete_all_frames)+
qed

section \<open>Histories of the directory\<close>

text \<open>The writing operations of the SQL backend, with their arguments.\<close>

datatype sql_op =
    OpCreateUser create_user_request
  | OpUpdateUser update_user_request
  | OpDeleteUser user_id
  | OpAddToGroup user_id group_id
  | OpRemoveFromGroup user_id group_id
  | OpCreateGroup create_group_request
  | OpUpdateGroup update_group_request
  | OpDeleteGroup group_id
  | OpEnsureKerberos user_id bool
  | OpRegistrationFinish string string
  | OpAddUserAttribute create_attribute_request
  | OpAddGroupAttribute create_attribute_request
  | OpDeleteUserAttribute attribute_name
  | OpDeleteGroupAttribute attribute_name
  | OpAddUserObjectClass string
  | OpAddGroupObjectClass string
  | OpDeleteUserObjectClass string
  | OpDeleteGroupObjectClass string
  | OpSetSystemConfig string string
  | OpSetPosixSettings posix_settings
  | OpReassignGroupGids
  | OpReassignUserUids
  | OpReassignUserGids
  | OpReassignHomes
  | OpReassignShells

fun perform :: "sql_libs \<Rightarrow> 'k kerberos \<Rightarrow> opaque_server \<Rightarrow> sql_op \<Rightarrow> 'k world \<Rightarrow> unit dresult \<times> 'k world" where
  "perform Q K P (OpCreateUser r) w = Sql_Users.create_user Q r w"
| "perform Q K P (OpUpdateUser r) w = update_user Q (lift_kerberos K) r w"
| "perform Q K P (OpDeleteUser u) w = Sql_Users.delete_user (lift_kerberos K) u w"
| "perform Q K P (OpAddToGroup u g) w = add_user_to_group Q u g w"
| "perform Q K P (OpRemoveFromGroup u g) w = remove_user_from_group u g w"
| "perform Q K P (OpCreateGroup r) w =
     (let (g, w') = Sql_Groups.create_group Q r w in (rmap (\<lambda>_. ()) g, w'))"
| "perform Q K P (OpUpdateGroup r) w = update_group Q r w"
| "perform Q K P (OpDeleteGroup g) w = Sql_Groups.delete_group Q g w"
| "perform Q K P (OpEnsureKerberos u e) w =
     ensure_kerberos_principal_consistency (lift_kerberos K) u e w"
| "perform Q K P (OpRegistrationFinish s m) w = registration_finish P (s, m) w"
| "perform Q K P (OpAddUserAttribute r) w = execute (add_user_attribute r) w"
| "perform Q K P (OpAddGroupAttribute r) w = execute (add_group_attribute r) w"
| "perform Q K P (OpDeleteUserAttribute n) w = execute (delete_user_attribute n) w"
| "perform Q K P (OpDeleteGroupAttribute n) w = execute (delete_group_attribute n) w"
| "perform Q K P (OpAddUserObjectClass c) w = execute (add_user_object_class c) w"
| "perform Q K P (OpAddGroupObjectClass c) w = execute (add_group_object_class c) w"
| "perform Q K P (OpDeleteUserObjectClass c) w = execute (delete_user_object_class c) w"
| "perform Q K P (OpDeleteGroupObjectClass c) w = execute (delete_group_object_class c) w"
| "perform Q K P (OpSetSystemConfig k v) w = execute (set_system_config k v) w"
| "perform Q K P (OpSetPosixSettings st) w = execute (set_posix_settings Q st) w"
| "perform Q K P OpReassignGroupGids w = reassign_gid_numbers Q w"
| "perform Q K P OpReassignUserUids w = reassign_user_uid_numbers Q w"
| "perform Q K P OpReassignUserGids w = reassign_user_gid_numbers Q w"
| "perform Q K P OpReassignHomes w = reassign_user_homedirectories Q w"
| "perform Q K P OpReassignShells w = reassign_user_loginshells Q w"

definition run_op :: "sql_libs \<Rightarrow> 'k kerberos \<Rightarrow> opaque_server \<Rightarrow> sql_op \<Rightarrow> 'k world \<Rightarrow> 'k world" where
  "run_op Q K P op w = snd (perform Q K P op w)"

lemma run_op_simps [simp]:
  "run_op Q K P (OpCreateUser r) w = snd (Sql_Users.create_user Q r w)"
  "run_op Q K P (OpUpdateUser uu) w = snd (update_user Q (lift_kerberos K) uu w)"
  "run_op Q K P (OpDeleteUser u) w = snd (Sql_Users.delete_user (lift_kerberos K) u w)"
  "run_op Q K P (OpAddToGroup u g) w = snd (add_user_to_group Q u g w)"
  "run_op Q K P (OpRemoveFromGroup u g) w = snd (remove_user_from_group u g w)"
  "run_op Q K P (OpCreateGroup cg) w = snd (Sql_Groups.create_group Q cg w)"
  "run_op Q K P (OpUpdateGroup ug) w = snd (update_group Q ug w)"
  "run_op Q K P (OpDeleteGroup g) w = snd (Sql_Groups.delete_group Q g w)"
  "run_op Q K P (OpEnsureKerberos u e) w =
     snd (ensure_kerberos_principal_consistency (lift_kerberos K) u e w)"
  "run_op Q K P (OpRegistrationFinish s m) w = snd (registration_finish P (s, m) w)"
  "run_op Q K P (OpAddUserAttribute ca) w = snd (execute (add_user_attribute ca) w)"
  "run_op Q K P (OpAddGroupAttribute ca) w = snd (execute (add_group_attribute ca) w)"
  "run_op Q K P (OpDeleteUserAttribute n) w = snd (execute (delete_user_attribute n) w)"
  "run_op Q K P (OpDeleteGroupAttribute n) w = snd (execute (delete_group_attribute n) w)"
  "run_op Q K P (OpAddUserObjectClass c) w = snd (execute (add_user_object_class c) w)"
  "run_op Q K P (OpAddGroupObjectClass c) w = snd (execute (add_group_object_class c) w)"
  "run_op Q K P (OpDeleteUserObjectClass c) w = snd (execute (delete_user_object_class c) w)"
  "run_op Q K P (OpDeleteGroupObjectClass c) w = snd (execute (delete_group_object_class c) w)"
  "run_op Q K P (OpSetSystemConfig k v) w = snd (execute (set_system_config k v) w)"
  "run_op Q K P (OpSetPosixSettings st) w = snd (execute (set_posix_settings Q st) w)"
  "run_op Q K P OpReassignGroupGids w = snd (reassign_gid_numbers Q w)"
  "run_op Q K P OpReassignUserUids w = snd (reassign_user_uid_numbers Q w)"
  "run_op Q K P OpReassignUserGids w = snd (reassign_user_gid_numbers Q w)"
  "run_op Q K P OpReassignHomes w = snd (reassign_user_homedirectories Q w)"
  "run_op Q K P OpReassignShells w = snd (reassign_user_loginshells Q w)"
  by (simp_all add: run_op_def case_prod_unfold Let_def)

text \<open>A history: operations in any order, with time passing and the KDC changing on its own.\<close>

inductive history :: "sql_libs \<Rightarrow> 'k kerberos \<Rightarrow> opaque_server \<Rightarrow> 'k world \<Rightarrow> 'k world \<Rightarrow> bool"
  for Q K P w0 where
  history_start: "history Q K P w0 w0"
| history_op: "history Q K P w0 w \<Longrightarrow> history Q K P w0 (run_op Q K P op w)"
| history_outside: "history Q K P w0 w \<Longrightarrow> history Q K P w0 (w\<lparr>w_kdc := k, w_now := t\<rparr>)"

lemma run_op_guarded: "guarded (w_db w) \<Longrightarrow> guarded (w_db (run_op Q K P op w))"
  by (cases op)
    (simp_all add: create_user_guarded update_user_guarded delete_user_guarded add_user_to_group_guarded
      remove_user_from_group_guarded create_group_guarded update_group_guarded delete_group_guarded
      ensure_consistency_guarded registration_finish_guarded schema_statements_guarded execute_guarded
      reassign_guarded set_posix_settings_def)

text \<open>C5: The directory keeps its invariant for ever. From a world whose tables satisfy their keys,
  whose built-in groups exist under their exact names and in which nobody is both an administrator
  and disabled, every history of the SQL backend (its twenty-five writing operations with any
  arguments, in any order, failing or not, with the KDC and the clock changing in between) leads to
  a world of which the same is true. In particular a built-in group is never deleted or renamed,
  and no group ever takes a built-in name in another spelling.\<close>

theorem directory_invariant:
  assumes "history Q K P w0 w" and "guarded (w_db w0)"
  shows "guarded (w_db w)"
  using assms by (induction rule: history.induct) (simp_all add: run_op_guarded)

end
