(* ===== verification/Session.thy ===== *)
theory Session
  imports Operations Subschema
begin

text \<open>
  One LDAP connection (\<open>ldap/src/handler.rs\<close>): the identity it is bound to, the dispatch of
  messages, and the runs of a connection whose world other connections change between its
  messages, with the trace of the messages.
\<close>

record 's server =
  srv_libs :: libs
  srv_env :: server_env
  srv_backend :: "'s backend"
  srv_opaque :: opaque_client
  srv_kerberos :: "'s kerberos"
  srv_info :: ldap_info

record 's session =
  se_user_info :: "validation_results option"
  se_world :: 's

definition session_new :: "'s \<Rightarrow> 's session" where
  "session_new w = \<lparr>se_user_info = None, se_world = w\<rparr>"

text \<open>\<open>unwrap_or_else\<close> on the result of a handler: an error becomes its answer, a panic stays.\<close>

definition recover :: "(ldap_error \<Rightarrow> 'a) \<Rightarrow> 'a hresult \<Rightarrow> 'a hresult" where
  "recover f r = (case r of Inl (Err e) \<Rightarrow> Inr (f e) | Inl (Panic p) \<Rightarrow> Inl (Panic p) | Inr x \<Rightarrow> Inr x)"

definition get_credentials :: "'s session \<Rightarrow> ldap_op list + validation_results" where
  "get_credentials st =
     (case se_user_info st of
        Some v \<Rightarrow> Inr v
      | None \<Rightarrow> Inl [make_extended_response InsufficentAccessRights (Text ''No user currently bound'')])"

definition session_search :: "'s server \<Rightarrow> 's session \<Rightarrow> ldap_search_request \<Rightarrow> ldap_op list hresult" where
  "session_search S st req =
     (case se_user_info st of
        None \<Rightarrow> Inl (Err (lerr InsufficentAccessRights (Text ''No user currently bound'')))
      | Some user_info \<Rightarrow>
          let allowed_ous = unwrap_or_else (\<lambda>_. [''people'', ''groups''])
                (b_get_allowed_ous (srv_backend S) (se_world st))
          in do_search (srv_libs S) (get_user_restricted_lister_handler (srv_backend S) user_info)
               (se_world st) (srv_info S) req allowed_ous)"

definition do_search_or_dse :: "'s server \<Rightarrow> 's session \<Rightarrow> ldap_search_request \<Rightarrow> ldap_op list hresult" where
  "do_search_or_dse S st req =
     (if is_root_dse_request req then
        Inr [root_dse_response (srv_env S) (li_base_dn_str (srv_info S)), make_search_success]
      else if is_subschema_entry_request req then
        Inr [make_ldap_subschema_entry (srv_env S) (li_base_dn_str (srv_info S)), make_search_success]
      else session_search S st req)"

definition bind_response :: "ldap_result_code \<Rightarrow> message \<Rightarrow> ldap_op list" where
  "bind_response code m = [BindResponse (result_op code m)]"

definition provided_ou :: "ldap_bind_request \<Rightarrow> string" where
  "provided_ou request =
     (case parse_distinguished_name (to_ascii_lowercase (br_dn request)) of
        Inr parts \<Rightarrow> get_internal_ou_from_dn_parts parts
      | Inl _ \<Rightarrow> [])"

definition do_bind :: "'s server \<Rightarrow> 's session \<Rightarrow> ldap_bind_request \<Rightarrow> ldap_op list \<times> 's session" where
  "do_bind S st request =
     (let B = srv_backend S; w = se_world st in
      (case bind_user B (srv_info S) request w of
         Inl err \<Rightarrow> (bind_response (le_code err) (le_message err), st)
       | Inr uid \<Rightarrow>
           (case b_get_user_details B w uid of
              Inl _ \<Rightarrow> (bind_response InvalidCredentials (Text []), st)
            | Inr user \<Rightarrow>
                if eq_ignore_ascii_case (provided_ou request) (get_user_ou user) then
                  (bind_response Success (Text []),
                   st\<lparr>se_user_info := (case get_permissions_for_user B w uid of Inr v \<Rightarrow> Some v | Inl _ \<Rightarrow> None)\<rparr>)
                else (bind_response InvalidCredentials (Text []), st))))"

definition who_am_i :: "'s server \<Rightarrow> 's session \<Rightarrow> validation_results \<Rightarrow> ldap_op list" where
  "who_am_i S st credentials =
     (let uid = vr_user credentials;
          lister = \<lparr>rl_handler = srv_backend S, rl_user_filter = None\<rparr>;
          users = unwrap_or_else (\<lambda>_. [])
            (get_user_list (srv_libs S) (srv_info S) (FEquality ''uid'' (user_id_str uid)) False
               (li_base_dn_str (srv_info S)) lister (se_world st) public_schema_get);
          user_ou = (case users of uag # _ \<Rightarrow> get_user_ou (ug_user uag) | [] \<Rightarrow> DEFAULT_PRIMARY_USER_OU);
          ou_part = dn_to_string (internal_ou_to_ldap_rdn_chain user_ou);
          authz_id = (if ou_part = [] then ''dn:uid='' @ user_id_str uid @ '','' @ li_base_dn_str (srv_info S)
                      else ''dn:uid='' @ user_id_str uid @ '','' @ ou_part @ '','' @ li_base_dn_str (srv_info S))
      in [make_extended_response Success (Text authz_id)])"

definition do_extended_request ::
  "'s server \<Rightarrow> 's session \<Rightarrow> ldap_extended_request \<Rightarrow> ldap_op list hresult \<times> 's session" where
  "do_extended_request S st request =
     (case request of
        PasswordModify password_request \<Rightarrow>
          (case get_credentials st of
             Inl err \<Rightarrow> (Inr err, st)
           | Inr credentials \<Rightarrow>
               (case do_password_modification (srv_backend S) (srv_opaque S) (srv_kerberos S) credentials
                       (srv_info S) password_request (se_world st) of
                  (r, w) \<Rightarrow> (recover (\<lambda>e. [make_extended_response (le_code e) (le_message e)]) r,
                            st\<lparr>se_world := w\<rparr>)))
      | PasswordModifyMalformed \<Rightarrow>
          (Inr [make_extended_response ProtocolError (Rendered ''Error while parsing password modify request: '')], st)
      | WhoAmI \<Rightarrow>
          (case get_credentials st of
             Inl err \<Rightarrow> (Inr err, st)
           | Inr credentials \<Rightarrow> (Inr (who_am_i S st credentials), st))
      | ExtendedOther name \<Rightarrow>
          (Inr [make_extended_response UnwillingToPerform (Text (''Unsupported extended operation: '' @ name))], st))"

definition do_modify_request ::
  "'s server \<Rightarrow> 's session \<Rightarrow> ldap_modify_request \<Rightarrow> ldap_op list \<times> 's session" where
  "do_modify_request S st request =
     (case get_credentials st of
        Inl err \<Rightarrow> (err, st)
      | Inr credentials \<Rightarrow>
          (case handle_modify_request (srv_libs S) (srv_backend S) (srv_opaque S) (srv_kerberos S)
                  (srv_info S) credentials request (se_world st) of
             (r, w) \<Rightarrow> (unwrap_or_else (\<lambda>e. [make_modify_response (le_code e) (le_message e)]) r,
                       st\<lparr>se_world := w\<rparr>)))"

definition admin_backend :: "'s server \<Rightarrow> 's session \<Rightarrow> 's backend lresult" where
  "admin_backend S st =
     ok_or (lerr InsufficentAccessRights (Text ''Unauthorized write''))
       (Option.bind (se_user_info st) (get_admin_handler (srv_backend S)))"

definition session_create :: "'s server \<Rightarrow> 's session \<Rightarrow> ldap_add_request \<Rightarrow> ldap_op list lresult \<times> 's session" where
  "session_create S st request =
     (case admin_backend S st of
        Inl e \<Rightarrow> (Inl e, st)
      | Inr B \<Rightarrow>
          (case create_user_or_group (srv_libs S) B (srv_kerberos S) (srv_info S) request (se_world st) of
             (r, w) \<Rightarrow> (r, st\<lparr>se_world := w\<rparr>)))"

definition session_delete :: "'s server \<Rightarrow> 's session \<Rightarrow> string \<Rightarrow> ldap_op list lresult \<times> 's session" where
  "session_delete S st request =
     (case admin_backend S st of
        Inl e \<Rightarrow> (Inl e, st)
      | Inr B \<Rightarrow>
          (case delete_user_or_group B (srv_kerberos S) (srv_info S) request (se_world st) of
             (r, w) \<Rightarrow> (r, st\<lparr>se_world := w\<rparr>)))"

definition do_compare :: "'s server \<Rightarrow> 's session \<Rightarrow> ldap_compare_request \<Rightarrow> ldap_op list hresult" where
  "do_compare S st request =
     rbind (session_search S st
              (make_search_request (li_base_dn_str (srv_info S)) (FEquality ''dn'' (cmp_dn request)) [cmp_atype request]))
       (\<lambda>results. lift_err (compare request results (li_base_dn_str (srv_info S))))"

definition handle_ldap_message ::
  "'s server \<Rightarrow> 's session \<Rightarrow> ldap_op \<Rightarrow> ldap_op list option hresult \<times> 's session" where
  "handle_ldap_message S st op =
     (case op of
        BindRequest request \<Rightarrow> (case do_bind S st request of (r, st') \<Rightarrow> (Inr (Some r), st'))
      | SearchRequest request \<Rightarrow>
          (rmap Some (recover (\<lambda>e. [make_search_error (le_code e) (le_message e)]) (do_search_or_dse S st request)), st)
      | UnbindRequest \<Rightarrow> (Inr None, st\<lparr>se_user_info := None\<rparr>)
      | ModifyRequest request \<Rightarrow> (case do_modify_request S st request of (r, st') \<Rightarrow> (Inr (Some r), st'))
      | ExtendedRequest request \<Rightarrow> (case do_extended_request S st request of (r, st') \<Rightarrow> (rmap Some r, st'))
      | AddRequest request \<Rightarrow>
          (case session_create S st request of
             (r, st') \<Rightarrow> (Inr (Some (unwrap_or_else (\<lambda>e. [make_add_response (le_code e) (le_message e)]) r)), st'))
      | DelRequest request \<Rightarrow>
          (case session_delete S st request of
             (r, st') \<Rightarrow> (Inr (Some (unwrap_or_else (\<lambda>e. [make_del_response (le_code e) (le_message e)]) r)), st'))
      | CompareRequest request \<Rightarrow>
          (rmap Some (recover (\<lambda>e. [make_search_error (le_code e) (le_message e)]) (do_compare S st request)), st)
      | _ \<Rightarrow> (Inr (Some [make_extended_response UnwillingToPerform (Rendered ''Unsupported operation: '')]), st))"

section \<open>Runs of a connection\<close>

text \<open>A run of a connection: the trace lists the messages, each with the state in which it was
  handled and its answer, the latest first. Between two messages the world may change in any way:
  other connections, the web server and the KDC act on it.\<close>

type_synonym 's conn_trace = "('s session \<times> ldap_op \<times> ldap_op list option) list"

inductive connection :: "'s server \<Rightarrow> 's conn_trace \<Rightarrow> 's session \<Rightarrow> bool" for S where
  start: "connection S [] (session_new w)"
| message: "connection S tr st \<Longrightarrow> handle_ldap_message S st op = (Inr resp, st') \<Longrightarrow>
     connection S ((st, op, resp) # tr) st'"
| others: "connection S tr st \<Longrightarrow> connection S tr (st\<lparr>se_world := w\<rparr>)"

section \<open>Identity\<close>

lemma bind_user_InrD:
  assumes "bind_user B info request w = Inr u"
  shows "\<exists>password. br_cred request = Simple password
    \<and> b_bind B w \<lparr>bind_name = u, bind_password = password\<rparr> = Inr ()
    \<and> get_user_id_from_distinguished_name (to_ascii_lowercase (br_dn request)) (li_base_dn info) (li_base_dn_str info) = Inr u"
  using assms by (auto simp: bind_user_def split: if_splits sum.splits ldap_bind_cred.splits)

lemma get_permissions_for_user_user:
  "get_permissions_for_user B w u = Inr v \<Longrightarrow> vr_user v = u"
  by (auto simp: get_permissions_for_user_def get_permissions_from_groups_def rmap_eq_Inr Let_def)

text \<open>What a successful bind checked, in the state in which it was handled: the password of the
  request, the organisational unit of its DN, and the groups that give the permission.\<close>

definition accepts_bind :: "'s server \<Rightarrow> 's session \<Rightarrow> ldap_bind_request \<Rightarrow> validation_results \<Rightarrow> bool" where
  "accepts_bind S st request v \<longleftrightarrow> (\<exists>password user.
     br_cred request = Simple password
     \<and> b_bind (srv_backend S) (se_world st) \<lparr>bind_name = vr_user v, bind_password = password\<rparr> = Inr ()
     \<and> get_user_id_from_distinguished_name (to_ascii_lowercase (br_dn request))
         (li_base_dn (srv_info S)) (li_base_dn_str (srv_info S)) = Inr (vr_user v)
     \<and> b_get_user_details (srv_backend S) (se_world st) (vr_user v) = Inr user
     \<and> eq_ignore_ascii_case (provided_ou request) (get_user_ou user)
     \<and> get_permissions_for_user (srv_backend S) (se_world st) (vr_user v) = Inr v)"

definition bind_success :: "ldap_op list option" where
  "bind_success = Some (bind_response Success (Text []))"

text \<open>The messages after which the identity of a connection is another one.\<close>

definition sets_identity :: "ldap_op \<Rightarrow> ldap_op list option \<Rightarrow> bool" where
  "sets_identity op resp \<longleftrightarrow>
     op = UnbindRequest \<or> (\<exists>request. op = BindRequest request \<and> resp = bind_success)"

lemma bind_user_Inl_code: "bind_user B info request w = Inl e \<Longrightarrow> le_code e \<noteq> Success"
  by (auto simp: bind_user_def lerr_def split: if_splits sum.splits ldap_bind_cred.splits)

lemma bind_success_iff: "Some (bind_response c m) = bind_success \<longleftrightarrow> c = Success \<and> m = Text []"
  by (auto simp: bind_success_def bind_response_def result_op_def)

lemma do_bind_identity:
  assumes "do_bind S st request = (r, st')"
  shows "if Some r = bind_success then \<forall>v. se_user_info st' = Some v \<longrightarrow> accepts_bind S st request v else st' = st"
proof -
  let ?B = "srv_backend S" and ?w = "se_world st"
  show ?thesis
  proof (cases "\<exists>u user. bind_user ?B (srv_info S) request ?w = Inr u \<and> b_get_user_details ?B ?w u = Inr user
      \<and> eq_ignore_ascii_case (provided_ou request) (get_user_ou user)")
    case True
    then obtain u user where b: "bind_user ?B (srv_info S) request ?w = Inr u"
      "b_get_user_details ?B ?w u = Inr user" "eq_ignore_ascii_case (provided_ou request) (get_user_ou user)"
      by blast
    have "accepts_bind S st request v" if "se_user_info st' = Some v" for v
    proof -
      have v: "get_permissions_for_user ?B ?w u = Inr v"
        using assms b that by (auto simp: do_bind_def Let_def split: sum.splits)
      then have "vr_user v = u" by (rule get_permissions_for_user_user)
      with v b bind_user_InrD [OF b(1)] show ?thesis unfolding accepts_bind_def by blast
    qed
    moreover have "Some r = bind_success"
      using assms b by (auto simp: do_bind_def Let_def bind_success_def)
    ultimately show ?thesis by simp
  next
    case False
    with assms have "Some r \<noteq> bind_success \<and> st' = st"
      by (auto simp: do_bind_def Let_def bind_success_iff dest: bind_user_Inl_code split: sum.splits if_splits)
    then show ?thesis by simp
  qed
qed

lemma message_identity:
  assumes "handle_ldap_message S st op = (Inr resp, st')"
  shows "if sets_identity op resp
     then \<forall>v. se_user_info st' = Some v \<longrightarrow> (\<exists>request. op = BindRequest request \<and> accepts_bind S st request v)
     else se_user_info st' = se_user_info st"
proof (cases op)
  case (BindRequest request)
  with assms obtain r where "do_bind S st request = (r, st')" "resp = Some r"
    by (auto simp: handle_ldap_message_def split: prod.splits)
  then show ?thesis using do_bind_identity [of S st request r st'] BindRequest
    by (auto simp: sets_identity_def split: if_splits)
qed (use assms in \<open>auto simp: sets_identity_def handle_ldap_message_def do_modify_request_def do_extended_request_def
      session_create_def session_delete_def
      split: prod.splits sum.splits ldap_extended_request.splits\<close>)

text \<open>C2: The identity of a connection is never forged and never stale. In every state of a run, with
  any interleaving of other activity on the directory, an identity that the connection holds was
  established by a bind of this run: in the state in which that bind was handled the backend
  accepted its password for the user whom its DN names, the DN carried the organisational unit the
  user is stored under, and the permission is the one that the user's groups gave in that state.
  The bind is the last one that was answered with \<open>Success\<close>, and no unbind came after it.\<close>

theorem identity_is_verified:
  assumes "connection S tr st" and "se_user_info st = Some v"
  shows "\<exists>later st1 request earlier. tr = later @ (st1, BindRequest request, bind_success) # earlier
    \<and> accepts_bind S st1 request v \<and> (\<forall>(st2, op, resp) \<in> set later. \<not> sets_identity op resp)"
  using assms
proof (induction arbitrary: v rule: connection.induct)
  case (start w)
  then show ?case by (simp add: session_new_def)
next
  case (message tr st op resp st')
  show ?case
  proof (cases "sets_identity op resp")
    case True
    then obtain request where "op = BindRequest request" "accepts_bind S st request v"
      using message_identity [OF message.hyps(2)] message.prems by auto
    with True show ?thesis
      by (intro exI [of _ "[]"] exI [of _ st] exI [of _ request] exI [of _ tr]) (auto simp: sets_identity_def)
  next
    case False
    then have "se_user_info st = Some v" using message_identity [OF message.hyps(2)] message.prems by auto
    from message.IH [OF this] obtain later st1 request earlier where
      *: "tr = later @ (st1, BindRequest request, bind_success) # earlier" "accepts_bind S st1 request v"
      "\<forall>(st2, op, resp) \<in> set later. \<not> sets_identity op resp"
      by blast
    with False show ?thesis
      by (intro exI [of _ "(st, op, resp) # later"] exI [of _ st1] exI [of _ request] exI [of _ earlier]) auto
  qed
qed simp

text \<open>A bind that is answered with anything but \<open>Success\<close> leaves the connection with the
  identity it had: a connection bound as an administrator stays so after a failed attempt to
  bind again.\<close>

theorem failed_bind_keeps_identity:
  assumes "do_bind S st request = ([BindResponse r], st')" and "lr_code r \<noteq> Success"
  shows "st' = st"
proof -
  have "lr_code (result_op c m) = c" for c m by (simp add: result_op_def)
  with assms show ?thesis
    by (auto simp: do_bind_def bind_response_def Let_def split: sum.splits if_splits)
qed

section \<open>Authorisation of writes\<close>

lemma handle_modify_change_world_cases:
  assumes "get_writeable_handler B v u = None"
  shows "snd (modify_changes L B C K u v changes s) = s"
  using assms by (cases changes) (auto split: option.splits)

lemma modify_authorised:
  assumes "snd (handle_modify_request L B C K info v req s) \<noteq> s"
  shows "\<exists>u. get_user_id_from_distinguished_name (mr_dn req) (li_base_dn info) (li_base_dn_str info) = Inr u
    \<and> can_write v u"
proof (cases "get_user_id_from_distinguished_name (mr_dn req) (li_base_dn info) (li_base_dn_str info)")
  case (Inl e)
  with assms show ?thesis by (simp add: handle_modify_request_def)
next
  case (Inr u)
  have "get_writeable_handler B v u \<noteq> None"
  proof
    assume "get_writeable_handler B v u = None"
    from handle_modify_change_world_cases [OF this, of L C K "mr_changes req" s]
    have "snd (sbind (modify_changes L B C K u v (mr_changes req) s)
        (\<lambda>_ s1. (Inr [make_modify_response Success (Text [])], s1))) = s"
      by (simp add: snd_sbind split: sum.splits)
    then show False using assms Inr by (simp add: handle_modify_request_def)
  qed
  then have "can_write v u" by (auto simp: get_writeable_handler_def split: if_splits)
  with Inr show ?thesis by blast
qed

lemma password_authorised:
  assumes "snd (do_password_modification B C K v info req s) \<noteq> s"
  shows "\<exists>name u groups. pm_user_identity req = Some name
    \<and> get_user_id_from_distinguished_name (to_ascii_lowercase name) (li_base_dn info) (li_base_dn_str info) = Inr u
    \<and> b_get_user_groups B s u = Inr groups \<and> can_change_password v u (groups_have_admin groups)"
proof -
  obtain name pw where np: "pm_user_identity req = Some name" "pm_new_password req = Some pw"
    using assms by (auto simp: do_password_modification_def split: option.splits)
  obtain u where u: "get_user_id_from_distinguished_name (to_ascii_lowercase name) (li_base_dn info) (li_base_dn_str info) = Inr u"
    using assms np by (auto simp: do_password_modification_def split: sum.splits)
  have readable: "get_readable_handler B v u = Some B"
    using assms np u by (auto simp: do_password_modification_def get_readable_handler_def split: if_splits)
  obtain groups where g: "b_get_user_groups B s u = Inr groups"
    using assms np u readable by (auto simp: do_password_modification_def split: sum.splits)
  have "can_change_password v u (groups_have_admin groups)"
    using assms np u readable g by (auto simp: do_password_modification_def split: if_splits)
  with np u g show ?thesis by blast
qed

lemma admin_backend_Inr: "admin_backend S st = Inr B \<Longrightarrow> \<exists>v. se_user_info st = Some v \<and> is_admin v"
  by (auto simp: admin_backend_def ok_or_eq_Inr bind_eq_Some_conv get_handler_iff)

definition authorised :: "'s server \<Rightarrow> 's session \<Rightarrow> ldap_op \<Rightarrow> bool" where
  "authorised S st op \<longleftrightarrow> (\<exists>v. se_user_info st = Some v \<and>
     (case op of
        AddRequest _ \<Rightarrow> is_admin v
      | DelRequest _ \<Rightarrow> is_admin v
      | ModifyRequest req \<Rightarrow>
          (\<exists>u. get_user_id_from_distinguished_name (mr_dn req) (li_base_dn (srv_info S)) (li_base_dn_str (srv_info S)) = Inr u
             \<and> can_write v u)
      | ExtendedRequest (PasswordModify req) \<Rightarrow>
          (\<exists>name u groups. pm_user_identity req = Some name
             \<and> get_user_id_from_distinguished_name (to_ascii_lowercase name)
                 (li_base_dn (srv_info S)) (li_base_dn_str (srv_info S)) = Inr u
             \<and> b_get_user_groups (srv_backend S) (se_world st) u = Inr groups
             \<and> can_change_password v u (groups_have_admin groups))
      | _ \<Rightarrow> False))"

lemma do_bind_world: "se_world (snd (do_bind S st request)) = se_world st"
  by (auto simp: do_bind_def Let_def split: sum.splits)

text \<open>C1: Only authorised requests write. If handling a message changes the world (the directory
  or the KDC), the connection is bound, and the message is an add or a delete by an
  administrator, a modify of an entry its user may write (an administrator or the entry's own
  user), or a password change that \<open>can_change_password\<close> allows, judged on the target's groups.
  Binds, searches, compares and all other messages leave the world as it was.\<close>

theorem writes_are_authorised:
  assumes "handle_ldap_message S st op = (r, st')" and "se_world st' \<noteq> se_world st"
  shows "authorised S st op"
proof (cases op)
  case (BindRequest x1)
  with assms do_bind_world [of S st x1] show ?thesis
    by (auto simp: handle_ldap_message_def split: prod.splits)
next
  case (ModifyRequest req)
  with assms obtain v where v: "se_user_info st = Some v"
    and "snd (handle_modify_request (srv_libs S) (srv_backend S) (srv_opaque S) (srv_kerberos S) (srv_info S) v req (se_world st))
      \<noteq> se_world st"
    by (auto simp: handle_ldap_message_def do_modify_request_def get_credentials_def split: prod.splits option.splits)
  then show ?thesis using ModifyRequest modify_authorised by (auto simp: authorised_def)
next
  case (ExtendedRequest x)
  with assms obtain v req where v: "se_user_info st = Some v" and x: "x = PasswordModify req"
    and "snd (do_password_modification (srv_backend S) (srv_opaque S) (srv_kerberos S) v (srv_info S) req (se_world st))
      \<noteq> se_world st"
    by (auto simp: handle_ldap_message_def do_extended_request_def get_credentials_def
        split: prod.splits option.splits sum.splits ldap_extended_request.splits)
  from password_authorised [OF this(3)] v x ExtendedRequest show ?thesis by (auto simp: authorised_def)
next
  case (AddRequest x)
  with assms obtain B where "admin_backend S st = Inr B"
    by (auto simp: handle_ldap_message_def session_create_def split: prod.splits sum.splits)
  from admin_backend_Inr [OF this] AddRequest show ?thesis by (auto simp: authorised_def)
next
  case (DelRequest x)
  with assms obtain B where "admin_backend S st = Inr B"
    by (auto simp: handle_ldap_message_def session_delete_def split: prod.splits sum.splits)
  from admin_backend_Inr [OF this] DelRequest show ?thesis by (auto simp: authorised_def)
qed (use assms in \<open>auto simp: handle_ldap_message_def\<close>)

section \<open>Answers\<close>

lemma search_answered:
  assumes "handle_ldap_message S st (SearchRequest req) = (Inr (Some ops), st')"
  shows "st' = st \<and> (\<exists>es done. ops = es @ [SearchResultDone done] \<and> list_all is_entry es)"
proof -
  have err: "\<exists>es done. [make_search_error c m] = es @ [SearchResultDone done] \<and> list_all is_entry es" for c m
    by (intro exI [of _ "[]"]) (simp add: make_search_error_def)
  have "\<exists>es done. ops = es @ [SearchResultDone done] \<and> list_all is_entry es" if "well_formed_answer ops" for ops
    using that by (auto simp: well_formed_answer_def make_search_success_def make_search_error_def)
  moreover have "well_formed_answer [e, make_search_success]" if "is_entry e" for e
    using well_formed_answerI [of "[e]"] that by simp
  moreover have "is_entry (root_dse_response E b)" "is_entry (make_ldap_subschema_entry E b)" for E b
    by (simp_all add: is_entry_def root_dse_response_def make_ldap_subschema_entry_def Let_def)
  moreover have "do_search_or_dse S st req = Inr ops \<Longrightarrow> well_formed_answer ops" for ops
    using calculation(2,3,4) do_search_answer
    by (auto simp: do_search_or_dse_def session_search_def Let_def split: if_splits option.splits)
  ultimately show ?thesis
    using assms err
    by (auto simp: handle_ldap_message_def recover_def rmap_eq_Inr split: sum.splits failure.splits)
qed

text \<open>C40: A search is answered by entries followed by exactly one \<open>SearchResultDone\<close>, and it
  leaves the connection as it was.\<close>

theorem search_answer_shape:
  assumes "handle_ldap_message S st (SearchRequest req) = (Inr (Some ops), st')"
  shows "st' = st \<and> (\<exists>es done. ops = es @ [SearchResultDone done] \<and> list_all is_entry es)"
  using assms by (rule search_answered)

text \<open>C33: An unbound connection learns nothing about the directory: except for a bind, what it is
  answered does not depend on the world at all.\<close>

theorem unbound_answers_independent_of_world:
  assumes "\<nexists>request. op = BindRequest request"
  shows "fst (handle_ldap_message S \<lparr>se_user_info = None, se_world = w1\<rparr> op) =
    fst (handle_ldap_message S \<lparr>se_user_info = None, se_world = w2\<rparr> op)"
  using assms
  by (cases op)
    (auto simp: handle_ldap_message_def do_search_or_dse_def session_search_def do_modify_request_def
      do_extended_request_def get_credentials_def session_create_def session_delete_def admin_backend_def
      do_compare_def split: ldap_extended_request.splits)

text \<open>The answer to a request does not always have the kind of the request: an unbound
  compare is answered with a \<open>SearchResultDone\<close>, an unbound modify with an \<open>ExtendedResponse\<close>.\<close>

theorem unbound_answer_kinds:
  "handle_ldap_message S \<lparr>se_user_info = None, se_world = w\<rparr> (CompareRequest c) =
     (Inr (Some [SearchResultDone (result_op InsufficentAccessRights (Text ''No user currently bound''))]),
      \<lparr>se_user_info = None, se_world = w\<rparr>)
   \<and> handle_ldap_message S \<lparr>se_user_info = None, se_world = w\<rparr> (ModifyRequest m) =
     (Inr (Some [ExtendedResponse (result_op InsufficentAccessRights (Text ''No user currently bound''))]),
      \<lparr>se_user_info = None, se_world = w\<rparr>)"
  by (simp add: handle_ldap_message_def do_compare_def session_search_def recover_def make_search_error_def
      do_modify_request_def get_credentials_def make_extended_response_def)

section \<open>Panics\<close>

text \<open>A password modification panics exactly when the caller may not even read the user it
  names: the code expects a readable handler before it checks \<open>can_change_password\<close>. Any
  regular user can cause it by naming somebody else.\<close>

theorem password_modification_panics_iff:
  assumes "get_user_id_from_distinguished_name (to_ascii_lowercase name)
      (li_base_dn info) (li_base_dn_str info) = Inr u"
  shows "(\<exists>p. fst (do_password_modification B C K v info
        \<lparr>pm_user_identity = Some name, pm_new_password = Some password\<rparr> s) = Inl (Panic p))
    \<longleftrightarrow> vr_permission v = Regular \<and> vr_user v \<noteq> u"
proof -
  have "can_read v u \<longleftrightarrow> \<not> (vr_permission v = Regular \<and> vr_user v \<noteq> u)"
    by (cases "vr_permission v") (auto simp: can_read_def)
  then show ?thesis
    using assms by (auto simp: do_password_modification_def get_readable_handler_def split: sum.splits prod.splits)
qed

end
