(* ===== verification/Sql_Backend.thy ===== *)
theory Sql_Backend
  imports Sql_Invariant Session
begin

text \<open>
  The SQL backend behind the traits of \<open>domain-handlers\<close>: the record of its operations, the
  interpretation of the restricted lister on it, and what the LDAP layer gets from it. A panic
  inside a listing unwinds the task that serves the request; in the record, whose listings cannot
  panic, it appears as an internal error, and no filter of the LDAP layer leads there.
\<close>

section \<open>The backend\<close>

definition sql_list_users ::
  "sql_libs \<Rightarrow> 'k world \<Rightarrow> user_request_filter option \<Rightarrow> bool \<Rightarrow> user_and_groups list dresult" where
  "sql_list_users Q w f gg =
     (case list_users Q (w_db w) f gg of Inr r \<Rightarrow> r | Inl panic \<Rightarrow> Inl (InternalError panic))"

definition sql_backend :: "sql_libs \<Rightarrow> 'k world kerberos \<Rightarrow> opaque_server \<Rightarrow> 'k world backend" where
  "sql_backend Q K P =
     \<lparr>b_bind = (\<lambda>w. sql_bind P (w_db w)),
      b_list_groups = (\<lambda>w. list_groups Q (w_db w)),
      b_get_group_details = (\<lambda>w. get_group_details Q (w_db w)),
      b_update_group = (\<lambda>w r. update_group Q r w),
      b_create_group = (\<lambda>w r. Sql_Groups.create_group Q r w),
      b_delete_group = (\<lambda>w g. Sql_Groups.delete_group Q g w),
      b_list_users = sql_list_users Q,
      b_get_user_details = (\<lambda>w. get_user_details Q (w_db w)),
      b_create_user = (\<lambda>w r. Sql_Users.create_user Q r w),
      b_update_user = (\<lambda>w r. update_user Q K r w),
      b_delete_user = (\<lambda>w u. Sql_Users.delete_user K u w),
      b_add_user_to_group = (\<lambda>w u g. add_user_to_group Q u g w),
      b_remove_user_from_group = (\<lambda>w u g. remove_user_from_group u g w),
      b_get_user_groups = (\<lambda>w. get_user_groups (w_db w)),
      b_get_schema = (\<lambda>w. get_schema_with_transaction Q (w_db w)),
      b_get_allowed_ous = (\<lambda>w. get_allowed_ous Q (w_db w)),
      b_ensure_kerberos_principal_consistency =
        (\<lambda>w u e. ensure_kerberos_principal_consistency K u e w),
      b_registration_start = (\<lambda>w. registration_start P),
      b_registration_finish = (\<lambda>w r. registration_finish P r w)\<rparr>"

section \<open>The restricted lister on the SQL backend\<close>

definition sql_user_atom :: "sql_libs \<Rightarrow> 'k world \<Rightarrow> user \<Rightarrow> user_request_filter \<Rightarrow> bool" where
  "sql_user_atom Q w u f \<longleftrightarrow>
     (\<exists>r. find_user (w_db w) (u_user_id u) = Some r \<and> row_atom Q (w_db w) r f)"

definition sql_group_atom :: "sql_libs \<Rightarrow> 'k world \<Rightarrow> group \<Rightarrow> group_request_filter \<Rightarrow> bool" where
  "sql_group_atom Q w g f \<longleftrightarrow>
     (\<exists>r. find_group (w_db w) (g_id g) = Some r \<and> g_users g = group_members (w_db w) (g_id g)
        \<and> group_row_atom Q (w_db w) r f)"

lemma sql_list_users_sound:
  assumes "db_ok (w_db w)" "sql_list_users Q w (Some f) gg = Inr us" "x \<in> set us"
  shows "user_filter_holds (sql_user_atom Q w (ug_user x)) f"
proof -
  have "list_users Q (w_db w) (Some f) gg = Inr (Inr us)"
    using assms(2) by (auto simp: sql_list_users_def split: sum.splits)
  then obtain r where r: "find_user (w_db w) (u_user_id (ug_user x)) = Some r"
      "user_filter_holds (row_atom Q (w_db w) r) f"
    using list_users_sound [OF assms(1) _ assms(3)] by blast
  then have "sql_user_atom Q w (ug_user x) = row_atom Q (w_db w) r"
    by (auto simp: sql_user_atom_def fun_eq_iff)
  then show ?thesis using r(2) by simp
qed

lemma sql_list_groups_sound:
  assumes "db_ok (w_db w)" "list_groups Q (w_db w) (Some h) = Inr gs" "g \<in> set gs"
  shows "group_filter_holds (sql_group_atom Q w g) h"
proof -
  obtain r where r: "r \<in> set (select_groups Q (group_condition Q (Some h)) (w_db w))"
    and g: "g = (group_of_row (w_db w) r)\<lparr>g_attributes := g_attributes g\<rparr>"
    using list_groups_rows [OF assms] by blast
  have id: "g_id g = gr_group_id r" "g_users g = group_members (w_db w) (gr_group_id r)"
    using arg_cong [OF g, of g_id] arg_cong [OF g, of g_users] by (simp_all add: group_of_row_def)
  have row: "r \<in> set (t_groups (w_db w))" "eval_group_cond Q (w_db w) r (get_group_filter_expr Q h)"
    using r by (simp_all add: select_groups_def group_condition_def)
  then have "sql_group_atom Q w g = group_row_atom Q (w_db w) r"
    using find_group_unique [OF assms(1) row(1)] by (auto simp: sql_group_atom_def fun_eq_iff id)
  then show ?thesis using row(2) by (simp add: eval_group_cond_exact)
qed

interpretation sql: filtering_lister "sql_backend Q K P" "\<lambda>w. db_ok (w_db w)" "sql_user_atom Q" "sql_group_atom Q"
  for Q K P
proof unfold_locales
  fix w :: "'a world" and u i
  assume "sql_user_atom Q w u (UUserId i)"
  then show "u_user_id u = i"
    by (auto simp: sql_user_atom_def row_atom_def find_user_def dest!: find_first_SomeD)
next
  fix w :: "'a world" and g i
  assume "sql_group_atom Q w g (GMember i)"
  then obtain r where "find_group (w_db w) (g_id g) = Some r" "g_users g = group_members (w_db w) (g_id g)"
    "is_member (w_db w) i (gr_group_id r)"
    by (auto simp: sql_group_atom_def group_row_atom_def)
  moreover from this(1) have "gr_group_id r = g_id g"
    by (auto simp: find_group_def dest!: find_first_SomeD)
  ultimately show "i \<in> gm_user_id ` set (g_users g)"
    by (force simp: group_members_def is_member_def image_image image_iff)
qed (simp_all add: sql_backend_def sql_list_users_sound sql_list_groups_sound)

text \<open>C11: A caller who may not read everything lists only what is his own: whatever filter he
  sends, every user that the restricted lister returns from the database is the caller himself,
  and he is a member of every group it returns.\<close>

theorem restricted_listing_own:
  assumes "db_ok (w_db w)" and "\<not> can_read_all v"
  shows "(\<forall>f gg us x. rl_list_users (get_user_restricted_lister_handler (sql_backend Q K P) v) w f gg = Inr us
            \<and> x \<in> set us \<longrightarrow> u_user_id (ug_user x) = vr_user v)
    \<and> (\<forall>f gs g. rl_list_groups (get_user_restricted_lister_handler (sql_backend Q K P) v) w f = Inr gs
            \<and> g \<in> set gs \<longrightarrow> vr_user v \<in> gm_user_id ` set (g_users g))"
  using sql.restricted_users_own [OF assms] sql.restricted_groups_own [OF assms] by blast

section \<open>Filters of the LDAP layer\<close>

definition panic_free :: "sql_libs \<Rightarrow> user_request_filter \<Rightarrow> bool" where
  "panic_free Q f \<longleftrightarrow> (\<exists>c. get_user_filter_expr Q f = Inr c)"

lemma collect_map_ok: "(\<exists>ys. collect_results (map g xs) = Inr ys) \<longleftrightarrow> (\<forall>x \<in> set xs. \<exists>y. g x = Inr y)"
proof (induction xs)
  case (Cons x xs)
  then show ?case by (cases "g x") (auto simp: rmap_eq_Inr)
qed simp

lemma panic_free_simps [simp]:
  "panic_free Q UTrue" "panic_free Q UFalse"
  "panic_free Q (UAnd fs) \<longleftrightarrow> (\<forall>f \<in> set fs. panic_free Q f)"
  "panic_free Q (UOr fs) \<longleftrightarrow> (\<forall>f \<in> set fs. panic_free Q f)"
  "panic_free Q (UNot f) \<longleftrightarrow> panic_free Q f"
  using collect_map_ok [of "get_user_filter_expr Q" fs]
  by (auto simp: panic_free_def rmap_eq_Inr)

lemma combine_keeps:
  assumes "combine neutral unnest build rs = Inr g" and "Pr neutral"
    and "\<And>f v x. Pr f \<Longrightarrow> unnest f = Some v \<Longrightarrow> x \<in> set v \<Longrightarrow> Pr x"
    and "\<And>fs. (\<forall>f \<in> set fs. Pr f) \<Longrightarrow> Pr (build fs)"
    and "\<And>f. Inr f \<in> set rs \<Longrightarrow> Pr f"
  shows "Pr g"
proof -
  let ?splice = "\<lambda>r. case r of Inr f \<Rightarrow> (case unnest f of Some v \<Rightarrow> map Inr v | None \<Rightarrow> [r]) | Inl e \<Rightarrow> [r]"
  obtain res where res: "collect_results (concat (map ?splice (filter (\<lambda>c. c \<noteq> Inr neutral) rs))) = Inr res"
    and g: "g = (case res of [] \<Rightarrow> neutral | [f] \<Rightarrow> f | _ \<Rightarrow> build res)"
    using assms(1) by (auto simp: combine_def rbind_eq_Inr)
  have "Pr f" if f: "f \<in> set res" for f
  proof -
    have "Inr f \<in> set (concat (map ?splice (filter (\<lambda>c. c \<noteq> Inr neutral) rs)))"
      using res f by (simp only: collect_results_eq_Inr set_map imageI)
    then obtain r where "r \<in> set rs" "Inr f \<in> set (?splice r)" by auto
    then show "Pr f" using assms(3,5) by (auto split: sum.splits option.splits)
  qed
  then show ?thesis using g assms(2,4) by (auto split: list.splits)
qed

lemma panic_free_atoms [simp]:
  "panic_free Q (UUserId u)" "panic_free Q (UUserIdSubString sf)" "panic_free Q (UAttributeEquality n v)"
  "panic_free Q (USubString col sf)" "panic_free Q (UMemberOf g)" "panic_free Q (UCustomAttributePresent n)"
  "panic_free Q (UAttributeGreaterOrEqual n t)" "panic_free Q (UAttributeLessOrEqual n t)"
  "panic_free Q (UAttributeSubString n sf)"
  "panic_free Q (UEquality col t) \<longleftrightarrow> col \<noteq> ColUserId"
  "panic_free Q (UGreaterOrEqual col t) \<longleftrightarrow> is_date_column col"
  "panic_free Q (ULessOrEqual col t) \<longleftrightarrow> is_date_column col"
  by (simp_all add: panic_free_def)

lemma unwrap_panic_free:
  "(\<And>x. panic_free Q (h x)) \<Longrightarrow> panic_free Q (unwrap_or_else (\<lambda>_. UFalse) (rmap h r))"
  by (cases r) simp_all

lemma attribute_equality_panic_free:
  "panic_free Q (get_user_attribute_equality_filter L f typ is_list val)"
  by (simp add: get_user_attribute_equality_filter_def split: sum.split)

lemma equality_panic_free:
  "convert_user_equality L info field val sch = Inr g \<Longrightarrow> panic_free Q g"
  unfolding convert_user_equality_def Let_def
  by (auto simp: unwrap_panic_free attribute_equality_panic_free
      split: if_splits user_field_type.splits user_column.splits option.splits)

lemma order_panic_free:
  "convert_user_greater_or_equal field val sch = Inr g \<Longrightarrow> panic_free Q g"
  "convert_user_less_or_equal field val sch = Inr g \<Longrightarrow> panic_free Q g"
  unfolding convert_user_greater_or_equal_def convert_user_less_or_equal_def Let_def
  by (auto simp: is_date_column_def split: if_splits user_field_type.splits attribute_type.splits)

lemma present_panic_free:
  "panic_free Q (convert_user_present field sch)" "panic_free Q (convert_user_objectclass val sch)"
  by (simp_all add: convert_user_present_def convert_user_objectclass_def Let_def split: user_field_type.split)

lemma substring_panic_free:
  "convert_user_substring field sf sch = Inr g \<Longrightarrow> panic_free Q g"
  unfolding convert_user_substring_def Let_def
  by (auto split: user_field_type.splits user_column.splits attribute_type.splits)

lemma negate_panic_free: "panic_free Q f \<Longrightarrow> panic_free Q (negate_user_filter f)"
  by (cases f) (simp_all add: negate_user_filter_def)

lemma converted_filter_panic_free:
  "convert_user_filter L info f sch = Inr g \<Longrightarrow> panic_free Q g"
proof (induction L info f sch arbitrary: g rule: convert_user_filter.induct)
  case (1 L info field val sch)
  then show ?case by (auto simp: present_panic_free equality_panic_free split: if_splits)
next
  case (2 L info filters sch)
  show ?case
  proof (rule combine_keeps [where Pr = "panic_free Q"])
    show "combine UTrue (\<lambda>f. case f of UAnd v \<Rightarrow> Some v | _ \<Rightarrow> None) UAnd
        (map (\<lambda>f. convert_user_filter L info f sch) filters) = Inr g"
      using "2.prems" by (simp add: combine_user_and_def)
    show "panic_free Q f" if "Inr f \<in> set (map (\<lambda>f. convert_user_filter L info f sch) filters)" for f
      using that "2.IH" by (auto dest: sym)
  qed (auto split: user_request_filter.splits)
next
  case (3 L info filters sch)
  show ?case
  proof (rule combine_keeps [where Pr = "panic_free Q"])
    show "combine UFalse (\<lambda>f. case f of UOr v \<Rightarrow> Some v | _ \<Rightarrow> None) UOr
        (map (\<lambda>f. convert_user_filter L info f sch) filters) = Inr g"
      using "3.prems" by (simp add: combine_user_or_def)
    show "panic_free Q f" if "Inr f \<in> set (map (\<lambda>f. convert_user_filter L info f sch) filters)" for f
      using that "3.IH" by (auto dest: sym)
  qed (auto split: user_request_filter.splits)
next
  case (4 L info f sch)
  then show ?case by (auto simp: rmap_eq_Inr negate_panic_free)
qed (auto simp: order_panic_free present_panic_free substring_panic_free)

text \<open>C31: A search never panics in the database layer: a filter that the LDAP layer converted, also
  when the restricted lister has added the caller's identity to it, never reaches the
  \<open>panic!\<close>s of \<open>get_user_filter_expr\<close>.\<close>

theorem ldap_filters_never_panic:
  assumes "convert_user_filter L info f sch = Inr g"
  shows "\<exists>r. list_users Q d (restrict_user_filter uf (Some g)) gg = Inr r"
proof -
  have "panic_free Q g" using assms by (rule converted_filter_panic_free)
  then obtain h where "restrict_user_filter uf (Some g) = Some h" "panic_free Q h"
    by (cases uf) (auto simp: restrict_user_filter_def)
  then show ?thesis by (auto simp: list_users_def panic_free_def)
qed

end
