(* ===== verification/Directory.thy ===== *)
theory Directory
  imports Sql_Backend
begin

text \<open>
  What the SQL backend promises its callers beyond its invariant: disabled users cannot log in and
  administrators are never disabled, a registered password opens the account, failed operations
  change nothing, deletion leaves no trace, the last administrator cannot be removed from the
  group, and numbers stay unique under creation.
\<close>

section \<open>Login\<close>

lemma disabled_group:
  assumes "db_ok d" and "g \<in> set (t_groups d)" and "gr_display_name g = GroupName ''lldap_disabled''"
  shows "is_user_disabled d u \<longleftrightarrow> is_member d u (gr_group_id g)"
proof -
  obtain h where h: "find_first (\<lambda>g. gr_display_name g = GroupName ''lldap_disabled'') (t_groups d) = Some h"
    using assms(2,3) find_first_None [of "\<lambda>g. gr_display_name g = GroupName ''lldap_disabled''"]
    by (cases "find_first (\<lambda>g. gr_display_name g = GroupName ''lldap_disabled'') (t_groups d)") auto
  have "h \<in> set (t_groups d)" "gr_display_name h = gr_display_name g"
    using find_first_SomeD [OF h] assms(3) by simp_all
  then have "h = g"
    using assms(1,2) by (auto simp: db_ok_def unique_groups_def distinct_map inj_on_def)
  then show ?thesis using h by (simp add: is_user_disabled_def)
qed

text \<open>C13: A disabled user is locked out of every way in: a member of \<open>lldap_disabled\<close> cannot bind with
  any password, cannot start an OPAQUE login, and no message finishes a login as that user, even
  one that was started before the user was disabled.\<close>

theorem disabled_user_locked_out:
  assumes "db_ok d" and "g \<in> set (t_groups d)" and "gr_display_name g = GroupName ''lldap_disabled''"
    and "is_member d u (gr_group_id g)"
  shows "(\<forall>password. sql_bind P d \<lparr>bind_name = u, bind_password = password\<rparr> = Inl disabled_error)
    \<and> (\<forall>msg. login_start P d (u, msg) = Inl disabled_error)
    \<and> (\<forall>request. login_finish P d request \<noteq> Inr u)"
proof -
  have dis: "is_user_disabled d u" using disabled_group [OF assms(1-3)] assms(4) by simp
  moreover have "login_finish P d request \<noteq> Inr u" for request
    using dis by (auto simp: login_finish_def case_prod_unfold rbind_eq_Inr split: if_splits)
  ultimately show ?thesis by (simp add: sql_bind_def login_start_def)
qed

lemma builtin_row:
  assumes "builtins_present d" and "n \<in> set BUILTIN_GROUPS"
  obtains h where "h \<in> set (t_groups d)" "gr_display_name h = GroupName n"
  using assms unfolding builtins_present_def by (metis imageE)

text \<open>C15: Administrators are never locked out: after any history of a sound directory, a member of
  \<open>lldap_admin\<close> is not disabled, so a bind succeeds exactly when the password matches the stored
  one.\<close>

theorem administrators_not_disabled:
  assumes "history Q K P w0 w" and "guarded (w_db w0)"
    and "g \<in> set (t_groups (w_db w))" and "gr_display_name g = GroupName ''lldap_admin''"
    and "is_member (w_db w) u (gr_group_id g)"
  shows "\<not> is_user_disabled (w_db w) u
    \<and> (sql_bind P (w_db w) \<lparr>bind_name = u, bind_password = password\<rparr> = Inr ()
       \<longleftrightarrow> (\<exists>h. get_password_file_for_user (w_db w) u = Some h \<and> passwords_match P h password u = Inr ()))"
proof -
  have gd: "guarded (w_db w)"
    using assms(1,2) by (induction rule: history.induct) (simp_all add: run_op_guarded)
  obtain h where h: "h \<in> set (t_groups (w_db w))" "gr_display_name h = GroupName ''lldap_disabled''"
    using guardedD(2) [OF gd] builtin_names(2) by (rule builtin_row)
  have "\<not> is_member (w_db w) u (gr_group_id h)"
    using exclusiveD [OF guardedD(3) [OF gd] assms(3) h(1) assms(4) h(2) assms(5)] by blast
  then have "\<not> is_user_disabled (w_db w) u" using disabled_group [OF guardedD(1) [OF gd] h] by simp
  then show ?thesis by (auto simp: sql_bind_def Let_def split: option.split sum.splits)
qed

text \<open>What the sealed state and the OPAQUE protocol guarantee: what was sealed is opened again, and
  a login with the password that a password file was registered with is carried through.\<close>

definition sealing_inverts :: "opaque_server \<Rightarrow> bool" where
  "sealing_inverts P \<longleftrightarrow>
     (\<forall>key plain sealed. op_secret_key P = Some key \<longrightarrow> op_seal P key plain = Some sealed \<longrightarrow>
        op_base64_decode P (op_base64_encode P sealed) = Some sealed \<and> op_open P key sealed = Some plain)
     \<and> (\<forall>u b. op_registration_to_bytes P u = Some b \<longrightarrow> op_registration_of_bytes P b = Some u)"

definition opaque_complete :: "opaque_server \<Rightarrow> opaque_client \<Rightarrow> bool" where
  "opaque_complete P C \<longleftrightarrow>
     (\<forall>u password msg state response upload.
        oc_start_registration C password = Some (msg, state) \<longrightarrow>
        op_start_registration P msg u = Some response \<longrightarrow>
        oc_finish_registration C state password response = Some upload \<longrightarrow>
        (\<exists>login_state login_msg file server_state login_response.
           op_client_start_login P password = Some (login_state, login_msg)
           \<and> op_deserialize P (op_password_file P upload) = Some file
           \<and> op_start_login P (Some file) login_msg u = Some (server_state, login_response)
           \<and> op_client_finish_login P login_state password login_response))"

lemma registration_start_opened:
  assumes "sealing_inverts P" and "registration_start P (u, msg) = Inr (server_data, response)"
  shows "op_start_registration P msg u = Some response"
    and "rbind (open_server_data P server_data)
      (\<lambda>plain. ok_or (BinarySerializationError []) (op_registration_of_bytes P plain)) = Inr u"
  using assms
  by (auto simp: registration_start_def open_server_data_def rbind_eq_Inr ok_or_def sealing_inverts_def
      split: option.splits)

lemma find_user_update:
  assumes "update_user_row u f d = Inr d'" and "\<And>r. ur_user_id (f r) = ur_user_id r"
  shows "find_user d' v = map_option (\<lambda>r. if v = u then f r else r) (find_user d v)"
proof -
  let ?h = "\<lambda>r. if ur_user_id r = u then f r else r"
  have d': "t_users d' = map ?h (t_users d)"
    using assms(1) by (auto simp: update_user_row_def Let_def split: if_splits)
  have "(\<lambda>r. ur_user_id (?h r) = v) = (\<lambda>r. ur_user_id r = v)" by (auto simp: assms(2))
  then show ?thesis
    unfolding find_user_def d' find_first_map_update
    by (cases "find_first (\<lambda>r. ur_user_id r = v) (t_users d)") (auto dest: find_first_SomeD)
qed

text \<open>C14: A registered password opens the account. When \<open>register_password\<close> succeeds, a bind of that
  user with that password succeeds unless the user is disabled, and the password files of all
  other users are what they were, provided the sealed server state is opened again and OPAQUE is
  complete.\<close>

theorem registered_password_binds:
  assumes "sealing_inverts P" and "opaque_complete P C"
    and "register_password P C u password w = (Inr (), w')"
  shows "(\<not> is_user_disabled (w_db w') u \<longrightarrow>
            sql_bind P (w_db w') \<lparr>bind_name = u, bind_password = password\<rparr> = Inr ())
    \<and> (\<forall>v. v \<noteq> u \<longrightarrow> get_password_file_for_user (w_db w') v = get_password_file_for_user (w_db w) v)"
proof -
  obtain msg state server_data response upload where
    start: "oc_start_registration C password = Some (msg, state)"
    and reg: "registration_start P (u, msg) = Inr (server_data, response)"
    and fin: "oc_finish_registration C state password response = Some upload"
    and run: "registration_finish P (server_data, upload) w = (Inr (), w')"
    using assms(3) by (auto simp: register_password_def split: option.splits sum.splits prod.splits)
  let ?f = "\<lambda>r. r\<lparr>ur_password_hash := Some (op_password_file P upload),
    ur_password_modified_date := w_now w, ur_modified_date := w_now w\<rparr>"
  note opened = registration_start_opened [OF assms(1) reg]
  have upd: "update_user_row u ?f (w_db w) = Inr (w_db w')"
    using run opened(2)
    by (auto simp: registration_finish_def execute_def transaction_def rmap_def split: sum.splits)
  have find: "find_user (w_db w') v = map_option (\<lambda>r. if v = u then ?f r else r) (find_user (w_db w) v)" for v
    by (rule find_user_update [OF upd]) simp
  have "find_user (w_db w) u \<noteq> None"
    using upd by (cases "find_user (w_db w) u") (simp_all add: update_user_row_def Let_def)
  then have "get_password_file_for_user (w_db w') u = Some (op_password_file P upload)"
    by (auto simp: get_password_file_for_user_def find)
  moreover have "passwords_match P (op_password_file P upload) password u = Inr ()"
    using assms(2) start opened(1) fin unfolding opaque_complete_def passwords_match_def by fastforce
  moreover have "get_password_file_for_user (w_db w') v = get_password_file_for_user (w_db w) v" if "v \<noteq> u" for v
    using that by (cases "find_user (w_db w) v") (simp_all add: get_password_file_for_user_def find)
  ultimately show ?thesis by (simp add: sql_bind_def)
qed

section \<open>Failure and deletion\<close>

lemma transaction_failed: "transaction f w = (Inl e, w') \<Longrightarrow> w' = w"
  by (auto simp: transaction_def split: sum.splits)

lemma execute_failed: "execute f w = (Inl e, w') \<Longrightarrow> w' = w"
  unfolding execute_def by (rule transaction_failed)

lemma update_user_failed: "update_user Q K uu w = (Inl e, w') \<Longrightarrow> w' = w"
proof -
  assume "update_user Q K uu w = (Inl e, w')"
  then have "transaction (update_user_tx Q (w_now w) uu) w = (Inl e, w')"
    by (cases "transaction (update_user_tx Q (w_now w) uu) w"; cases "fst (transaction (update_user_tx Q (w_now w) uu) w)")
      (auto simp: update_user_def)
  then show "w' = w" by (rule transaction_failed)
qed

lemma delete_user_failed:
  "Sql_Users.delete_user K u w = (Inl e, w') \<Longrightarrow> w' = snd (delete_kerberos_principal K (user_id_str u) w)"
  by (auto simp: Sql_Users.delete_user_def Let_def case_prod_unfold split: if_splits)

lemma lifted_delete:
  "w_db (snd (delete_kerberos_principal (lift_kerberos K) n w)) = w_db w
   \<and> w_now (snd (delete_kerberos_principal (lift_kerberos K) n w)) = w_now w"
  by (rule kdc.delete_principal_inv) simp

text \<open>C23: An operation that fails changes nothing. When one of the twenty-five writing operations of the
  backend is answered with an error, the database, the KDC and the clock are exactly what they were,
  whatever the operation had done before it failed; with one exception: deleting a user deletes
  the principal before it looks for the user, so that a failed deletion leaves the database alone
  but not the KDC.\<close>

theorem failed_operations_change_nothing:
  assumes "perform Q K P op w = (Inl e, w')"
  shows "w_db w' = w_db w \<and> w_now w' = w_now w
    \<and> w_kdc w' = (case op of OpDeleteUser u \<Rightarrow> w_kdc (snd (delete_kerberos_principal (lift_kerberos K) (user_id_str u) w))
                  | _ \<Rightarrow> w_kdc w)"
proof (cases op)
  case (OpDeleteUser u)
  then show ?thesis using assms lifted_delete [of K "user_id_str u" w] by (auto dest: delete_user_failed)
next
  case (OpUpdateUser r)
  then show ?thesis using assms by (auto dest: update_user_failed)
next
  case (OpCreateGroup r)
  then have "Sql_Groups.create_group Q r w = (Inl e, w')"
    using assms by (cases "Sql_Groups.create_group Q r w") (simp add: rmap_eq_Inl)
  then have "w' = w"
    by (auto simp: Sql_Groups.create_group_def dest: transaction_failed split: sum.splits)
  then show ?thesis using OpCreateGroup by simp
qed (use assms in \<open>auto simp: Sql_Users.create_user_def add_user_to_group_def remove_user_from_group_def
    update_group_def Sql_Groups.delete_group_def registration_finish_def
    ensure_kerberos_principal_consistency_def reassign_gid_numbers_def reassign_user_uid_numbers_def
    reassign_user_gid_numbers_def reassign_user_homedirectories_def reassign_user_loginshells_def
    Let_def case_prod_unfold dest: execute_failed transaction_failed split: sum.splits if_splits\<close>)

lemma find_first_filter_neq:
  "find_first (\<lambda>x. k x = v \<and> R x) (filter (\<lambda>x. k x \<noteq> u) xs) =
    (if v = u then None else find_first (\<lambda>x. k x = v \<and> R x) xs)"
  by (induction xs) auto

lemmas find_first_filter_key = find_first_filter_neq [where R = "\<lambda>_. True", simplified]

text \<open>C22: Deleting a user leaves no trace of it: afterwards neither the user nor a membership nor an
  attribute value of it is found, while every other user keeps its row, memberships and attribute
  values. The deletion succeeds exactly when the user existed.\<close>

theorem delete_user_complete:
  assumes "Sql_Users.delete_user (lift_kerberos K) u w = (r, w')"
  shows "(r = Inr () \<longleftrightarrow> find_user (w_db w) u \<noteq> None)
    \<and> (r = Inr () \<longrightarrow>
         find_user (w_db w') u = None \<and> (\<forall>g. \<not> is_member (w_db w') u g)
         \<and> (\<forall>n. user_attribute (w_db w') u n = None)
         \<and> (\<forall>v. v \<noteq> u \<longrightarrow> find_user (w_db w') v = find_user (w_db w) v
              \<and> is_member (w_db w') v = is_member (w_db w) v
              \<and> user_attribute (w_db w') v = user_attribute (w_db w) v))"
proof -
  have some: "length (filter (\<lambda>r. ur_user_id r = u) (t_users (w_db w))) = 0 \<longleftrightarrow> find_user (w_db w) u = None"
    by (simp add: find_user_None filter_empty_conv image_iff) metis
  show ?thesis
  proof (cases "find_user (w_db w) u = None")
    case True
    then show ?thesis
      using assms some by (auto simp: Sql_Users.delete_user_def Let_def case_prod_unfold delete_user_row_def)
  next
    case False
    then have "r = Inr ()" and d': "w_db w' = snd (delete_user_row u (w_db w))"
      using assms some by (auto simp: Sql_Users.delete_user_def Let_def case_prod_unfold delete_user_row_def)
    then show ?thesis
      using False
      by (simp add: find_user_def user_attribute_def is_member_def delete_user_row_def
          find_first_filter_neq find_first_filter_key fun_eq_iff)
  qed
qed

lemma distinct_other:
  assumes "1 < length xs" and "distinct xs"
  obtains y where "y \<in> set xs" "y \<noteq> x"
proof -
  obtain a b ys where "xs = a # b # ys"
    using assms(1) by (cases xs; cases "tl xs") auto
  then show thesis using assms(2) that by (cases "a = x") auto
qed

text \<open>C21: The administrators' group is never emptied by removals: as long as \<open>lldap_admin\<close> has a
  member, it has one after any call of \<open>remove_user_from_group\<close>, and removing the last one is
  refused.\<close>

theorem last_admin_not_removed:
  assumes "find_group (w_db w) g = Some r" and "gr_display_name r = GroupName ''lldap_admin''"
    and "is_member (w_db w) v g" and "db_ok (w_db w)"
  shows "\<exists>v'. is_member (w_db (snd (remove_user_from_group u g w))) v' g"
proof (cases "fst (remove_user_from_group u g w)")
  case (Inl e)
  then have "snd (remove_user_from_group u g w) = w"
    unfolding remove_user_from_group_def
    using execute_failed by (metis prod.collapse)
  then show ?thesis using assms(3) by metis
next
  case (Inr x)
  let ?ms = "filter (\<lambda>m. mb_group_id m = g) (t_memberships (w_db w))"
  let ?m = "\<lparr>mb_user_id = u, mb_group_id = g\<rparr>"
  let ?d1 = "snd (delete_membership ?m (w_db w))"
  obtain d' where tx: "remove_user_from_group_tx (w_now w) u g (w_db w) = Inr d'"
    and w': "w_db (snd (remove_user_from_group u g w)) = d'"
    using Inr by (auto simp: remove_user_from_group_def execute_def transaction_def rmap_def split: sum.splits)
  have two: "1 < length ?ms"
    and upd: "update_group_row g (\<lambda>r. r\<lparr>gr_modified_date := w_now w\<rparr>) ?d1 = Inr d'"
    using tx assms(1,2)
    by (auto simp: remove_user_from_group_tx_def Let_def case_prod_unfold split: if_splits)
  have mem: "t_memberships d' = filter (\<lambda>x. x \<noteq> ?m) (t_memberships (w_db w))"
    using upd by (auto simp: update_group_row_def Let_def delete_membership_def split: if_splits)
  have "distinct ?ms" using assms(4) by (simp add: db_ok_def)
  with two obtain m where m: "m \<in> set ?ms" "m \<noteq> ?m" by (rule distinct_other)
  then have "m \<in> set (t_memberships d')" "mb_group_id m = g" by (simp_all add: mem)
  then have "is_member d' (mb_user_id m) g" unfolding is_member_def by - (cases m, simp)
  then show ?thesis using w' by blast
qed

section \<open>User numbers\<close>

text \<open>No two users have the same uidnumber.\<close>

definition uidnumbers_unique :: "db \<Rightarrow> bool" where
  "uidnumbers_unique d \<longleftrightarrow>
     (\<forall>a \<in> set (t_user_attributes d). \<forall>b \<in> set (t_user_attributes d).
        ua_name a = uidnumber \<and> ua_name b = uidnumber \<and> ua_value a = ua_value b \<longrightarrow>
        ua_user_id a = ua_user_id b)"

lemma uidnumbers_unique_extend:
  assumes "uidnumbers_unique d" and "t_user_attributes d' = t_user_attributes d @ rows"
    and "\<And>a. a \<in> set rows \<Longrightarrow> ua_user_id a = u"
    and "\<And>a b. a \<in> set rows \<Longrightarrow> b \<in> set (t_user_attributes d) \<Longrightarrow> ua_name a = uidnumber \<Longrightarrow>
           ua_name b = uidnumber \<Longrightarrow> ua_value a \<noteq> ua_value b"
  shows "uidnumbers_unique d'"
  using assms unfolding uidnumbers_unique_def assms(2) set_append by (metis UnE)

lemma for_each_check: "for_each f xs () = Inr () \<longleftrightarrow> (\<forall>x \<in> set xs. f x () = (Inr () :: unit dresult))"
  by (induction xs) (auto simp: rbind_eq_Inr)

lemma for_each_insert_attributes:
  "for_each insert_user_attribute rows d = Inr d' \<Longrightarrow> t_user_attributes d' = t_user_attributes d @ rows"
  by (induction rows arbitrary: d)
    (auto simp: rbind_eq_Inr insert_user_attribute_def split: if_splits)

text \<open>The names that creation adds resolve to themselves in every schema.\<close>

definition posix_names :: "string list" where
  "posix_names = [''gidnumber'', ''loginshell'', ''homedirectory'', ''ou'']"

lemma public_posix_names:
  "list_all (\<lambda>n. map_option as_name (get_by_name_or_alias (user_attributes public_schema_get) n) = Some n
     \<and> attr_str (attribute_name_from n) = n \<and> attribute_name_from n \<noteq> uidnumber) posix_names"
  by code_simp

lemma canonical_posix_names:
  assumes "get_schema_with_transaction Q d = Inr sch" and "n \<in> set posix_names"
  shows "canonical_in (user_attributes sch) (attribute_name_from n) \<noteq> uidnumber"
proof -
  have n: "map_option as_name (get_by_name_or_alias (user_attributes public_schema_get) n) = Some n"
    "attr_str (attribute_name_from n) = n" "attribute_name_from n \<noteq> uidnumber"
    using public_posix_names assms(2) unfolding list_all_iff by blast+
  then obtain a where a: "get_by_name_or_alias (user_attributes public_schema_get) n = Some a" "as_name a = n"
    by auto
  have "get_by_name_or_alias (user_attributes sch) n = Some a"
    unfolding get_schema_userD(1) [OF assms(1)] using a(1) by (rule merge_attributes_lookup)
  then show ?thesis using n a(2) by (simp add: canonical_in_def)
qed

lemma push_default_set:
  "a \<in> set (push_default n v attrs) \<Longrightarrow>
     a \<in> set attrs \<or> a = \<lparr>attr_name = attribute_name_from n, attr_value = v\<rparr>"
  by (auto simp: push_default_def split: if_splits)

lemma push_if_set:
  assumes "a \<in> set (if c then push_default n v attrs else attrs)" and "n \<in> set posix_names"
  shows "a \<in> set attrs \<or> attr_name a \<in> attribute_name_from ` set posix_names"
proof (cases c)
  case True
  then have "a \<in> set (push_default n v attrs)" using assms(1) by simp
  then show ?thesis using push_default_set [of a n v attrs] assms(2) by force
qed (use assms in simp)

lemma next_available_uid_free:
  "next_available_uid_number d start maxi = Inr n \<Longrightarrow> \<not> is_uidnumber_taken d n"
  unfolding next_available_uid_number_def
  by (cases "next_free (is_uidnumber_taken d) start maxi")
    (simp_all add: next_free_Some [THEN iffD1] ok_or_def split: if_splits)

lemma posix_user_attributes_set:
  assumes "posix_user_attributes settings d u attrs = Inr final" and "a \<in> set final"
  shows "a \<in> set attrs \<or> attr_name a \<in> attribute_name_from ` set posix_names
    \<or> (\<exists>n. a = \<lparr>attr_name = uidnumber, attr_value = AInteger (Singleton n)\<rparr> \<and> \<not> is_uidnumber_taken d n)"
proof -
  let ?uid = "if user_uidnumber_assign settings \<and> \<not> has_attribute ''uidnumber'' attrs
        then rmap (\<lambda>next_uid. push_default ''uidnumber'' (AInteger (Singleton next_uid)) attrs)
               (next_available_uid_number d (user_uidnumber_start settings) (user_uidnumber_max settings))
        else Inr attrs"
  let ?p1 = "\<lambda>as. if user_gidnumber_assign settings
      then push_default ''gidnumber'' (AInteger (Singleton (user_gidnumber_start settings))) as else as"
  let ?p2 = "\<lambda>as. if user_loginshell_assign settings
      then push_default ''loginshell'' (AString (Singleton (user_loginshell_default settings))) as else as"
  let ?p3 = "\<lambda>as. if user_homedirectory_assign settings
      then push_default ''homedirectory''
        (AString (Singleton (user_homedirectory_prefix settings @ ''/'' @ user_id_str u))) as else as"
  obtain attrs1 where attrs1: "?uid = Inr attrs1" "final = ?p3 (?p2 (?p1 attrs1))"
    using assms(1) unfolding posix_user_attributes_def Let_def rmap_eq_Inr
    by (elim exE conjE) (rule that, assumption, rule sym)
  have names: "''gidnumber'' \<in> set posix_names" "''loginshell'' \<in> set posix_names"
    "''homedirectory'' \<in> set posix_names" by code_simp+
  have "a \<in> set attrs1 \<or> attr_name a \<in> attribute_name_from ` set posix_names"
    using assms(2) unfolding attrs1(2)
    using push_if_set [OF _ names(3)] push_if_set [OF _ names(2)] push_if_set [OF _ names(1)] by metis
  moreover have "attrs1 = attrs \<or> (\<exists>n. attrs1 = push_default ''uidnumber'' (AInteger (Singleton n)) attrs
       \<and> \<not> is_uidnumber_taken d n)"
    using attrs1(1) next_available_uid_free by (auto simp: rmap_eq_Inr split: if_splits)
  ultimately show ?thesis using push_default_set by metis
qed

lemma created_uid_fresh:
  assumes "get_schema_with_transaction Q d = Inr sch"
    and "with_default_ou Q ''people'' d req_attrs = Inr attrs"
    and "for_each (check_new_user_number d) attrs () = Inr ()"
    and "posix_user_attributes settings d u attrs = Inr final"
    and "\<forall>a \<in> set req_attrs. canonical_in (user_attributes sch) (attr_name a) = uidnumber \<longrightarrow>
           attr_name a = uidnumber \<and> (\<exists>v. attr_value a = AInteger (Singleton v))"
    and "a \<in> set final" and can: "canonical_in (user_attributes sch) (attr_name a) = uidnumber"
  shows "\<exists>v. attr_value a = AInteger (Singleton v) \<and> \<not> is_uidnumber_taken d v"
proof -
  have other: "attr_name a \<notin> attribute_name_from ` set posix_names"
    using canonical_posix_names [OF assms(1)] can by fastforce
  with posix_user_attributes_set [OF assms(4,6)] have "a \<in> set attrs \<or> ?thesis" by auto
  then show ?thesis
  proof
    assume a: "a \<in> set attrs"
    have "''ou'' \<in> set posix_names" by code_simp
    then have "a \<in> set req_attrs"
      using a assms(2) other push_default_set by (fastforce simp: with_default_ou_def rmap_eq_Inr)
    then obtain v where v: "attr_name a = uidnumber" "attr_value a = AInteger (Singleton v)"
      using assms(5) can by blast
    moreover have "check_new_user_number d a () = Inr ()" using assms(3) a by (simp add: for_each_check)
    moreover have "attr_str uidnumber = ''uidnumber''" by code_simp
    ultimately show ?thesis by (auto simp: check_new_user_number_def Let_def split: if_splits)
  qed
qed

text \<open>C19: User numbers stay unique under creation: when no two users share a uidnumber, neither do
  any after a user is created, whether the number came with the request or was searched for,
  provided the request spells the attribute \<open>uidnumber\<close> and gives it one integer.\<close>

theorem create_user_uid_unique:
  assumes "uidnumbers_unique (w_db w)" and "Sql_Users.create_user Q request w = (Inr (), w')"
    and "get_schema_with_transaction Q (w_db w) = Inr sch"
    and "\<forall>a \<in> set (cu_attributes request). canonical_in (user_attributes sch) (attr_name a) = uidnumber \<longrightarrow>
           attr_name a = uidnumber \<and> (\<exists>v. attr_value a = AInteger (Singleton v))"
  shows "uidnumbers_unique (w_db w')"
proof -
  let ?d = "w_db w"
  obtain attrs final settings d1 where
    ou: "with_default_ou Q ''people'' ?d (cu_attributes request) = Inr attrs"
    and chk: "for_each (check_new_user_number ?d) attrs () = Inr ()"
    and fin: "posix_user_attributes settings ?d (cu_user_id request) attrs = Inr final"
    and ins: "insert_user (new_user_row Q (w_now w) request) ?d = Inr d1"
    and rows: "for_each insert_user_attribute
      (new_user_attribute_rows Q sch (cu_user_id request) final) d1 = Inr (w_db w')"
    using assms(2,3)
    by (auto simp: Sql_Users.create_user_def create_user_tx_def execute_def transaction_def rbind_eq_Inr
        rmap_eq_Inr split: sum.splits)
  let ?rows = "new_user_attribute_rows Q sch (cu_user_id request) final"
  have d': "t_user_attributes (w_db w') = t_user_attributes ?d @ ?rows"
    using for_each_insert_attributes [OF rows] ins by (auto simp: insert_user_def split: if_splits)
  note fresh = created_uid_fresh [OF assms(3) ou chk fin assms(4)]
  have "ua_value r \<noteq> ua_value b"
    if r: "r \<in> set ?rows" and "b \<in> set (t_user_attributes ?d)" "ua_name r = uidnumber"
      "ua_name b = uidnumber" for r b
  proof -
    obtain a where a: "a \<in> set final" "ua_name r = canonical_in (user_attributes sch) (attr_name a)"
      "ua_value r = attribute_value_to_db_bytes Q (attr_value a)"
      using r by (auto simp: new_user_attribute_rows_def)
    with fresh [OF a(1)] \<open>ua_name r = uidnumber\<close> obtain v where v: "ua_value r = int_to_string v" "\<not> is_uidnumber_taken ?d v"
      by (auto simp: attribute_value_to_db_bytes_def)
    then show ?thesis using that(2,4) by (auto simp: is_uidnumber_taken_def filter_empty_conv)
  qed
  moreover have "ua_user_id r = cu_user_id request" if "r \<in> set ?rows" for r
    using that by (auto simp: new_user_attribute_rows_def)
  ultimately show ?thesis using uidnumbers_unique_extend [OF assms(1) d'] by blast
qed

text \<open>The check on new user numbers looks at the spelling of the request, not at the attribute:
  \<open>uid_number\<close> is an alias of \<open>uidnumber\<close> and is stored as such, but passes the check with any
  value, taken or out of range.\<close>

theorem uid_alias_bypasses_check:
  "check_new_user_number d
     \<lparr>attr_name = attribute_name_from ''uid_number'', attr_value = AInteger (Singleton v)\<rparr> () = Inr ()
   \<and> map ua_name (new_user_attribute_rows Q public_schema_get u
       [\<lparr>attr_name = attribute_name_from ''uid_number'', attr_value = AInteger (Singleton v)\<rparr>]) = [uidnumber]"
proof -
  have "attr_str (attribute_name_from ''uid_number'') = ''uid_number''" by code_simp
  moreover have "get_attribute_type_of (user_attributes public_schema_get) ''uid_number'' \<noteq> None" by code_simp
  moreover have "canonical_in (user_attributes public_schema_get) (attribute_name_from ''uid_number'') = uidnumber"
    by code_simp
  ultimately show ?thesis by (simp add: check_new_user_number_def new_user_attribute_rows_def)
qed

end
