(* ===== verification/Witnesses.thy ===== *)
theory Witnesses
  imports Directory
begin

text \<open>
  A small directory on which the theorems with hypotheses are applied: five built-in groups, an
  administrator, an ordinary user and a disabled one, a server on top of it, and concrete choices
  for the parameters of the model (the codecs, the OPAQUE protocol and the KDC).
\<close>

section \<open>A sample directory\<close>

definition sample_settings :: posix_settings where
  "sample_settings =
     \<lparr>user_uidnumber_assign = True, user_uidnumber_start = 3000, user_uidnumber_max = 3009,
      user_gidnumber_assign = False, user_gidnumber_start = 3000,
      user_loginshell_assign = False, user_loginshell_default = ''/bin/sh'',
      user_homedirectory_assign = False, user_homedirectory_prefix = ''/home'',
      group_gidnumber_assign = False, group_gidnumber_start = 3000, group_gidnumber_max = 3009\<rparr>"

definition sample_sql :: sql_libs where
  "sample_sql =
     \<lparr>sl_libs = sample_libs, sl_eq = (\<lambda>_ _. False), sl_ge = (\<lambda>_ _. False), sl_le = (\<lambda>_ _. False),
      sl_date_text = int_to_string,
      sl_json_of_strings = (\<lambda>l. case l of [] \<Rightarrow> ''[]'' | s # _ \<Rightarrow> s),
      sl_strings_of_json = (\<lambda>s. Some (if s = ''[]'' then [] else [s])),
      sl_json_of_posix = (\<lambda>_. ''{}''), sl_posix_of_json = (\<lambda>_. Some sample_settings),
      sl_bincode_date = (\<lambda>_. None), sl_bincode_dates = (\<lambda>_. None),
      sl_uuid_v3 = (\<lambda>s t. s @ int_to_string t)\<rparr>"

definition sample_kerberos :: "unit kerberos" where
  "sample_kerberos =
     \<lparr>env_base_dn = Some ''dc=com'', env_realm_name = None,
      kadm_init = (\<lambda>_ _ _ _. False), kadm_chpass = (\<lambda>k _ _ _. (False, k)),
      kadm_create = (\<lambda>k _ _ _. (False, k)), kadm_delete = (\<lambda>k _. (False, k))\<rparr>"

text \<open>A protocol in which the password file is the password and nothing is encrypted.\<close>

definition sample_opaque :: opaque_server where
  "sample_opaque =
     \<lparr>op_client_start_login = (\<lambda>p. Some (p, p)), op_client_finish_login = (\<lambda>s _ r. s = r),
      op_deserialize = Some, op_start_login = (\<lambda>f m _. map_option (\<lambda>x. (x, x)) f),
      op_finish_login = (=), op_start_registration = (\<lambda>m _. Some m), op_password_file = (\<lambda>u. u),
      op_secret_key = Some ''key'', op_seal = (\<lambda>_ b. Some b), op_open = (\<lambda>_ b. Some b),
      op_base64_encode = (\<lambda>b. b), op_base64_decode = Some,
      op_login_to_bytes = (\<lambda>(u, s). Some (user_id_str u @ '':'' @ s)), op_login_of_bytes = (\<lambda>_. None),
      op_registration_to_bytes = (\<lambda>u. Some (user_id_str u)),
      op_registration_of_bytes = (\<lambda>b. Some (UserId b))\<rparr>"

definition sample_client :: opaque_client where
  "sample_client =
     \<lparr>oc_start_registration = (\<lambda>p. Some (p, p)), oc_finish_registration = (\<lambda>_ p _. Some p)\<rparr>"

definition sample_user_row :: "string \<Rightarrow> string \<Rightarrow> user_row" where
  "sample_user_row name password =
     \<lparr>ur_user_id = UserId name, ur_email = Email (name @ ''@x''), ur_lowercase_email = name @ ''@x'',
      ur_display_name = None, ur_creation_date = 0, ur_password_hash = Some password,
      ur_totp_secret = None, ur_mfa_type = None, ur_uuid = name, ur_modified_date = 0,
      ur_password_modified_date = 0, ur_krb_principal_name = None\<rparr>"

definition sample_group_row :: "group_id \<Rightarrow> string \<Rightarrow> group_row" where
  "sample_group_row g name =
     \<lparr>gr_group_id = g, gr_display_name = GroupName name, gr_lowercase_display_name = name,
      gr_creation_date = 0, gr_uuid = name, gr_modified_date = 0\<rparr>"

definition sample_schema_row :: "string \<Rightarrow> attribute_type \<Rightarrow> attribute_schema_row" where
  "sample_schema_row name typ =
     \<lparr>sr_name = attribute_name_from name, sr_type = typ, sr_is_list = False, sr_is_visible = True,
      sr_is_editable = True, sr_is_hardcoded = True, sr_is_readonly = False, sr_aliases = ''[]''\<rparr>"

definition sample_db :: db where
  "sample_db =
     \<lparr>t_users = [sample_user_row ''admin'' ''pw'', sample_user_row ''bob'' ''secret'',
        sample_user_row ''eve'' ''x''],
      t_groups = [sample_group_row 1 ''lldap_admin'', sample_group_row 2 ''lldap_password_manager'',
        sample_group_row 3 ''lldap_strict_readonly'', sample_group_row 4 ''lldap_disabled'',
        sample_group_row 5 ''lldap_sudohost''],
      t_memberships = [\<lparr>mb_user_id = UserId ''admin'', mb_group_id = 1\<rparr>,
        \<lparr>mb_user_id = UserId ''eve'', mb_group_id = 4\<rparr>],
      t_user_attributes =
        [\<lparr>ua_user_id = UserId ''admin'', ua_name = uidnumber, ua_value = ''3000''\<rparr>],
      t_group_attributes = [],
      t_user_attribute_schema = [sample_schema_row ''uidnumber'' TInteger, sample_schema_row ''ou'' TString],
      t_group_attribute_schema = [], t_user_object_classes = [], t_group_object_classes = [],
      t_system_config = [], t_next_group_id = 6\<rparr>"

definition sample_world :: "unit world" where
  "sample_world = \<lparr>w_db = sample_db, w_kdc = (), w_now = 7\<rparr>"

definition sample_info :: ldap_info where
  "sample_info =
     \<lparr>li_base_dn = [(''dc'', ''com'')], li_base_dn_str = ''dc=com'',
      li_ignored_user_attributes = [], li_ignored_group_attributes = []\<rparr>"

definition sample_server :: "unit world server" where
  "sample_server =
     \<lparr>srv_libs = sample_libs,
      srv_env = \<lparr>env_realm = None, env_version = ''1'', env_now = ''0'',
        env_oid_password_modify = ''1.1'', env_oid_whoami = ''1.2''\<rparr>,
      srv_backend = sql_backend sample_sql (lift_kerberos sample_kerberos) sample_opaque,
      srv_opaque = sample_client, srv_kerberos = lift_kerberos sample_kerberos, srv_info = sample_info\<rparr>"

definition admin_session :: "unit world session" where
  "admin_session =
     \<lparr>se_user_info = Some \<lparr>vr_user = UserId ''admin'', vr_permission = Admin\<rparr>, se_world = sample_world\<rparr>"

lemma sample_db_ok: "db_ok sample_db"
  by code_simp

lemma sample_guarded: "guarded sample_db"
proof -
  have "builtins_present sample_db" by code_simp
  moreover have "exclusive sample_db"
    by (auto simp: exclusive_def is_member_def sample_db_def sample_group_row_def)
  ultimately show ?thesis using sample_db_ok by (simp add: guarded_def)
qed

text \<open>An operation on the world that succeeds and leaves it with a property.\<close>

definition succeeds_with :: "('w \<Rightarrow> bool) \<Rightarrow> ('e + 'a) \<times> 'w \<Rightarrow> bool" where
  "succeeds_with Pr r = (case r of (Inr _, w) \<Rightarrow> Pr w | _ \<Rightarrow> False)"

lemma succeeds_withE:
  assumes "succeeds_with Pr r"
  obtains x w where "r = (Inr x, w)" "Pr w"
  using assms by (auto simp: succeeds_with_def split: prod.splits sum.splits)

section \<open>The database\<close>

theorem db_value_roundtrip_witness:
  "deserialize_db_value sample_sql (attribute_value_to_db_bytes sample_sql (AInteger (Singleton 42)))
     TInteger False = AInteger (Singleton 42)"
  using db_value_roundtrip [of sample_sql "AInteger (Singleton 42)"]
  by (simp add: i64_min_def i64_max_def get_attribute_type_def is_list_value_def)

theorem posix_settings_roundtrip_witness:
  "\<exists>d'. set_posix_settings sample_sql sample_settings sample_db = Inr d'
    \<and> get_posix_settings sample_sql d' = Inr sample_settings
    \<and> get_allowed_ous sample_sql d' = get_allowed_ous sample_sql sample_db"
proof -
  obtain d' where d': "set_posix_settings sample_sql sample_settings sample_db = Inr d'"
    by (simp add: set_posix_settings_def set_system_config_def)
  have "sl_posix_of_json sample_sql (sl_json_of_posix sample_sql sample_settings) = Some sample_settings"
    by (simp add: sample_sql_def)
  then show ?thesis using posix_settings_roundtrip d' by blast
qed

lemma sample_schema: "\<exists>sch. get_schema_with_transaction sample_sql sample_db = Inr sch"
  by (simp add: get_schema_with_transaction_def get_posix_settings_def sample_sql_def)

theorem get_schema_keeps_hardcoded_witness:
  "\<exists>sch. get_schema_with_transaction sample_sql sample_db = Inr sch
    \<and> map_option as_name (get_by_name_or_alias (user_attributes sch) ''mail'') = Some ''mail''"
proof -
  obtain sch where sch: "get_schema_with_transaction sample_sql sample_db = Inr sch"
    using sample_schema by blast
  have "map_option as_name (get_by_name_or_alias (user_attributes public_schema_get) ''mail'') = Some ''mail''"
    by code_simp
  then obtain a where "get_by_name_or_alias (user_attributes public_schema_get) ''mail'' = Some a"
    "as_name a = ''mail''" by auto
  with get_schema_keeps_hardcoded [OF sch] sch show ?thesis by auto
qed

theorem list_users_exact_witness:
  "\<exists>us. list_users sample_sql sample_db (Some (UUserId (UserId ''bob''))) False = Inr (Inr us)
    \<and> map (\<lambda>x. u_user_id (ug_user x)) us = [UserId ''bob'']
    \<and> sorted_wrt (<) (map (\<lambda>x. user_id_str (u_user_id (ug_user x))) us)"
proof -
  have "(case list_users sample_sql sample_db (Some (UUserId (UserId ''bob''))) False of
      Inr (Inr us) \<Rightarrow> map (\<lambda>x. u_user_id (ug_user x)) us = [UserId ''bob''] | _ \<Rightarrow> False)"
    by code_simp
  then obtain us where us: "list_users sample_sql sample_db (Some (UUserId (UserId ''bob''))) False = Inr (Inr us)"
    "map (\<lambda>x. u_user_id (ug_user x)) us = [UserId ''bob'']"
    by (auto split: sum.splits)
  note sorted = list_users_exact [OF sample_db_ok us(1), THEN conjunct1]
  show ?thesis by (intro exI conjI) (rule us(1), rule us(2), rule sorted)
qed

theorem next_available_uid_correct_witness:
  "next_available_uid_number sample_db 3000 3009 = Inr 3001"
proof -
  have "is_uidnumber_taken sample_db 3000" "\<not> is_uidnumber_taken sample_db 3001" by code_simp+
  moreover have "3000 \<le> i \<and> i < 3001 \<longleftrightarrow> i = 3000" for i :: int by auto
  ultimately show ?thesis
    using next_available_uid_correct [of sample_db 3000 3009 3001, THEN conjunct1] by simp
qed

theorem reassign_uid_numbers_unique_witness:
  "\<exists>w'. reassign_user_uid_numbers sample_sql sample_world = (Inr (), w')
    \<and> user_attribute (w_db w') (UserId ''eve'') uidnumber \<noteq> user_attribute (w_db w') (UserId ''bob'') uidnumber"
proof -
  have "succeeds_with (\<lambda>w'. user_attribute (w_db w') (UserId ''bob'') uidnumber = Some ''3001'')
      (reassign_user_uid_numbers sample_sql sample_world)" by code_simp
  then obtain x w' where "reassign_user_uid_numbers sample_sql sample_world = (Inr x, w')"
    and bob: "user_attribute (w_db w') (UserId ''bob'') uidnumber = Some ''3001''"
    by (rule succeeds_withE)
  then have w': "reassign_user_uid_numbers sample_sql sample_world = (Inr (), w')" by simp
  have "get_posix_settings sample_sql (w_db sample_world) = Inr sample_settings"
    by (simp add: get_posix_settings_def sample_sql_def)
  moreover have "user_uidnumber_assign sample_settings" by (simp add: sample_settings_def)
  moreover have "db_ok (w_db sample_world)" by (simp add: sample_db_ok sample_world_def)
  ultimately have "\<forall>u v n. user_attribute (w_db w') u uidnumber = Some n
      \<and> user_attribute (w_db w') v uidnumber = Some n \<longrightarrow> u = v"
    using reassign_uid_numbers_unique w' by blast
  moreover have "UserId ''eve'' \<noteq> UserId ''bob''" by simp
  ultimately show ?thesis using w' bob by metis
qed

section \<open>Histories of the backend\<close>

lemma sample_history:
  "history sample_sql sample_kerberos sample_opaque sample_world
     (run_op sample_sql sample_kerberos sample_opaque (OpAddToGroup (UserId ''bob'') 1) sample_world)"
  by (rule history_op [OF history_start])

lemma sample_admitted:
  "is_member (w_db (run_op sample_sql sample_kerberos sample_opaque (OpAddToGroup (UserId ''bob'') 1) sample_world))
     (UserId ''bob'') 1"
  by code_simp

theorem directory_invariant_witness:
  "guarded (w_db (run_op sample_sql sample_kerberos sample_opaque (OpAddToGroup (UserId ''bob'') 1) sample_world))"
  using directory_invariant [OF sample_history] sample_guarded by (simp add: sample_world_def)

theorem administrators_not_disabled_witness:
  "\<not> is_user_disabled
     (w_db (run_op sample_sql sample_kerberos sample_opaque (OpAddToGroup (UserId ''bob'') 1) sample_world))
     (UserId ''bob'')"
proof -
  let ?w = "run_op sample_sql sample_kerberos sample_opaque (OpAddToGroup (UserId ''bob'') 1) sample_world"
  have "list_ex (\<lambda>g. gr_display_name g = GroupName ''lldap_admin'' \<and> gr_group_id g = 1) (t_groups (w_db ?w))"
    by code_simp
  then obtain g where "g \<in> set (t_groups (w_db ?w))" "gr_display_name g = GroupName ''lldap_admin''"
    "gr_group_id g = 1" by (auto simp: list_ex_iff)
  moreover have "guarded (w_db sample_world)" using sample_guarded by (simp add: sample_world_def)
  ultimately show ?thesis
    using administrators_not_disabled [OF sample_history, of g "UserId ''bob''"] sample_admitted by simp
qed

theorem disabled_user_locked_out_witness:
  "sql_bind sample_opaque sample_db \<lparr>bind_name = UserId ''eve'', bind_password = ''x''\<rparr> = Inl disabled_error"
proof -
  have "sample_group_row 4 ''lldap_disabled'' \<in> set (t_groups sample_db)" by (simp add: sample_db_def)
  moreover have "gr_display_name (sample_group_row 4 ''lldap_disabled'') = GroupName ''lldap_disabled''"
    by (simp add: sample_group_row_def)
  moreover have "is_member sample_db (UserId ''eve'') (gr_group_id (sample_group_row 4 ''lldap_disabled''))"
    by code_simp
  ultimately show ?thesis using disabled_user_locked_out [OF sample_db_ok] by blast
qed

lemma sample_protocol: "sealing_inverts sample_opaque" "opaque_complete sample_opaque sample_client"
  by (simp_all add: sealing_inverts_def opaque_complete_def sample_opaque_def sample_client_def)

theorem registered_password_binds_witness:
  "\<exists>w'. register_password sample_opaque sample_client (UserId ''bob'') ''new'' sample_world = (Inr (), w')
    \<and> sql_bind sample_opaque (w_db w') \<lparr>bind_name = UserId ''bob'', bind_password = ''new''\<rparr> = Inr ()"
proof -
  have "succeeds_with (\<lambda>w'. \<not> is_user_disabled (w_db w') (UserId ''bob''))
      (register_password sample_opaque sample_client (UserId ''bob'') ''new'' sample_world)" by code_simp
  then obtain x w' where "register_password sample_opaque sample_client (UserId ''bob'') ''new'' sample_world = (Inr x, w')"
    and en: "\<not> is_user_disabled (w_db w') (UserId ''bob'')" by (rule succeeds_withE)
  then have w': "register_password sample_opaque sample_client (UserId ''bob'') ''new'' sample_world = (Inr (), w')"
    by simp
  with registered_password_binds [OF sample_protocol w'] en show ?thesis by blast
qed

theorem failed_operations_change_nothing_witness:
  "\<exists>e w'. perform sample_sql sample_kerberos sample_opaque (OpAddToGroup (UserId ''eve'') 1) sample_world = (Inl e, w')
    \<and> w_db w' = w_db sample_world \<and> w_kdc w' = w_kdc sample_world"
proof -
  let ?r = "perform sample_sql sample_kerberos sample_opaque (OpAddToGroup (UserId ''eve'') 1) sample_world"
  have "\<not> succeeds_with (\<lambda>_. True) ?r" by code_simp
  then obtain e w' where w': "?r = (Inl e, w')" by (cases ?r; cases "fst ?r") (simp_all add: succeeds_with_def)
  from failed_operations_change_nothing [OF this] w' show ?thesis by simp
qed

theorem delete_user_complete_witness:
  "\<exists>w'. Sql_Users.delete_user (lift_kerberos sample_kerberos) (UserId ''admin'') sample_world = (Inr (), w')
    \<and> user_attribute (w_db w') (UserId ''admin'') uidnumber = None"
proof -
  obtain r w' where rw: "Sql_Users.delete_user (lift_kerberos sample_kerberos) (UserId ''admin'') sample_world = (r, w')"
    by (rule prod.exhaust)
  moreover have "find_user (w_db sample_world) (UserId ''admin'') \<noteq> None" by code_simp
  ultimately show ?thesis using delete_user_complete [OF rw] by blast
qed

theorem last_admin_not_removed_witness:
  "\<exists>v. is_member (w_db (snd (remove_user_from_group (UserId ''admin'') 1 sample_world))) v 1"
proof (rule last_admin_not_removed)
  show "find_group (w_db sample_world) 1 = Some (sample_group_row 1 ''lldap_admin'')" by code_simp
  show "gr_display_name (sample_group_row 1 ''lldap_admin'') = GroupName ''lldap_admin''" by code_simp
  show "is_member (w_db sample_world) (UserId ''admin'') 1" by code_simp
  show "db_ok (w_db sample_world)" using sample_db_ok by (simp add: sample_world_def)
qed

definition sample_request :: create_user_request where
  "sample_request =
     \<lparr>cu_user_id = UserId ''new'', cu_email = Email ''new@x'', cu_display_name = None,
      cu_attributes = [\<lparr>attr_name = uidnumber, attr_value = AInteger (Singleton 3005)\<rparr>]\<rparr>"

theorem create_user_uid_unique_witness:
  "\<exists>w'. Sql_Users.create_user sample_sql sample_request sample_world = (Inr (), w')
    \<and> uidnumbers_unique (w_db w')"
proof -
  have "succeeds_with (\<lambda>_. True) (Sql_Users.create_user sample_sql sample_request sample_world)" by code_simp
  then obtain x w' where "Sql_Users.create_user sample_sql sample_request sample_world = (Inr x, w')"
    by (rule succeeds_withE)
  then have w': "Sql_Users.create_user sample_sql sample_request sample_world = (Inr (), w')" by simp
  moreover have "uidnumbers_unique (w_db sample_world)" by code_simp
  moreover obtain sch where "get_schema_with_transaction sample_sql (w_db sample_world) = Inr sch"
    using sample_schema by (auto simp: sample_world_def)
  moreover have "\<forall>a \<in> set (cu_attributes sample_request). canonical_in (user_attributes sch) (attr_name a) = uidnumber \<longrightarrow>
      attr_name a = uidnumber \<and> (\<exists>v. attr_value a = AInteger (Singleton v))"
    by (simp add: sample_request_def)
  ultimately show ?thesis using create_user_uid_unique by blast
qed

section \<open>The LDAP layer\<close>

definition bob :: validation_results where
  "bob = \<lparr>vr_user = UserId ''bob'', vr_permission = Regular\<rparr>"

theorem restricted_listing_own_witness:
  "\<exists>us. rl_list_users (get_user_restricted_lister_handler
        (sql_backend sample_sql (lift_kerberos sample_kerberos) sample_opaque) bob) sample_world None False = Inr us
    \<and> (\<forall>x \<in> set us. u_user_id (ug_user x) = UserId ''bob'')"
proof -
  let ?r = "rl_list_users (get_user_restricted_lister_handler
        (sql_backend sample_sql (lift_kerberos sample_kerberos) sample_opaque) bob) sample_world None False"
  have "case_sum (\<lambda>_. False) (\<lambda>_. True) ?r" by code_simp
  then obtain us where us: "?r = Inr us" by (cases ?r) simp_all
  have "db_ok (w_db sample_world)" "\<not> can_read_all bob"
    using sample_db_ok by (simp add: sample_world_def) code_simp
  from restricted_listing_own [OF this, THEN conjunct1] us
  have "\<forall>x \<in> set us. u_user_id (ug_user x) = vr_user bob" by blast
  with us show ?thesis by (simp add: bob_def)
qed

theorem ldap_filters_never_panic_witness:
  "\<exists>g r. convert_user_filter sample_libs sample_info (FEquality ''uid'' ''bob'') public_schema_get = Inr g
    \<and> list_users sample_sql sample_db (restrict_user_filter (Some (UserId ''bob'')) (Some g)) False = Inr r"
proof -
  have "case_sum (\<lambda>_. False) (\<lambda>_. True)
      (convert_user_filter sample_libs sample_info (FEquality ''uid'' ''bob'') public_schema_get)" by code_simp
  then obtain g where "convert_user_filter sample_libs sample_info (FEquality ''uid'' ''bob'') public_schema_get = Inr g"
    by (cases "convert_user_filter sample_libs sample_info (FEquality ''uid'' ''bob'') public_schema_get") simp_all
  with ldap_filters_never_panic [OF this, of sample_sql sample_db] show ?thesis by blast
qed

text \<open>A delete by the administrator changes the directory.\<close>

theorem writes_are_authorised_witness:
  "se_world (snd (handle_ldap_message sample_server admin_session (DelRequest ''uid=bob,ou=people,dc=com'')))
     \<noteq> se_world admin_session
   \<and> authorised sample_server admin_session (DelRequest ''uid=bob,ou=people,dc=com'')"
proof -
  let ?op = "DelRequest ''uid=bob,ou=people,dc=com''"
  obtain r st' where h: "handle_ldap_message sample_server admin_session ?op = (r, st')"
    by (rule prod.exhaust)
  have "length (t_users (w_db (se_world (snd (handle_ldap_message sample_server admin_session ?op)))))
      \<noteq> length (t_users (w_db (se_world admin_session)))" by code_simp
  then have "se_world st' \<noteq> se_world admin_session" using h by auto
  with writes_are_authorised [OF h this] h show ?thesis by simp
qed

definition bob_bind :: "string \<Rightarrow> ldap_bind_request" where
  "bob_bind password = \<lparr>br_dn = ''uid=bob,ou=people,dc=com'', br_cred = Simple password\<rparr>"

theorem identity_is_verified_witness:
  "accepts_bind sample_server (session_new sample_world) (bob_bind ''secret'') bob"
proof -
  let ?st = "snd (handle_ldap_message sample_server (session_new sample_world) (BindRequest (bob_bind ''secret'')))"
  let ?r = "Some (fst (do_bind sample_server (session_new sample_world) (bob_bind ''secret'')))"
  have "handle_ldap_message sample_server (session_new sample_world) (BindRequest (bob_bind ''secret'')) = (Inr ?r, ?st)"
    by (simp add: handle_ldap_message_def case_prod_unfold)
  then have run: "connection sample_server [(session_new sample_world, BindRequest (bob_bind ''secret''), ?r)] ?st"
    by (rule connection.message [OF connection.start])
  have "se_user_info ?st = Some bob" by code_simp
  from identity_is_verified [OF run this] obtain later st1 request earlier where
    "[(session_new sample_world, BindRequest (bob_bind ''secret''), ?r)] = later @ (st1, BindRequest request, bind_success) # earlier"
    "accepts_bind sample_server st1 request bob"
    by blast
  then show ?thesis by (cases later) auto
qed

theorem failed_bind_keeps_identity_witness:
  "snd (do_bind sample_server admin_session (bob_bind ''wrong'')) = admin_session"
proof -
  let ?r = "do_bind sample_server admin_session (bob_bind ''wrong'')"
  have "fst ?r = [BindResponse (result_op InvalidCredentials (Text []))]" by code_simp
  then have "?r = ([BindResponse (result_op InvalidCredentials (Text []))], snd ?r)" by (metis prod.collapse)
  from failed_bind_keeps_identity [OF this] show ?thesis by (simp add: result_op_def)
qed

definition dse_search :: ldap_search_request where
  "dse_search =
     \<lparr>sr_base = [], sr_scope = ScopeBase, sr_filter = FPresent ''objectclass'', sr_attrs = [''*'']\<rparr>"

theorem search_answer_shape_witness:
  "\<exists>ops. fst (handle_ldap_message sample_server admin_session (SearchRequest dse_search)) = Inr (Some ops)
    \<and> (\<exists>es done. ops = es @ [SearchResultDone done] \<and> list_all is_entry es)"
proof -
  let ?ops = "[root_dse_response (srv_env sample_server) (li_base_dn_str (srv_info sample_server)), make_search_success]"
  have "is_root_dse_request dse_search" by code_simp
  then have h: "handle_ldap_message sample_server admin_session (SearchRequest dse_search) = (Inr (Some ?ops), admin_session)"
    by (simp add: handle_ldap_message_def do_search_or_dse_def recover_def)
  from search_answer_shape [OF this] h show ?thesis by simp
qed

theorem unbound_answers_independent_of_world_witness:
  "fst (handle_ldap_message sample_server \<lparr>se_user_info = None, se_world = sample_world\<rparr> (SearchRequest dse_search)) =
    fst (handle_ldap_message sample_server
      \<lparr>se_user_info = None, se_world = sample_world\<lparr>w_db := sample_db\<lparr>t_users := []\<rparr>\<rparr>\<rparr> (SearchRequest dse_search))"
  by (rule unbound_answers_independent_of_world) simp

theorem password_modification_panics_iff_witness:
  "\<exists>p. fst (do_password_modification (srv_backend sample_server) sample_client (lift_kerberos sample_kerberos)
      bob sample_info \<lparr>pm_user_identity = Some ''uid=eve,ou=people,dc=com'', pm_new_password = Some ''x''\<rparr> sample_world)
    = Inl (Panic p)"
proof -
  have "get_user_id_from_distinguished_name (to_ascii_lowercase ''uid=eve,ou=people,dc=com'')
      (li_base_dn sample_info) (li_base_dn_str sample_info) = Inr (UserId ''eve'')" by code_simp
  from password_modification_panics_iff [OF this, of "srv_backend sample_server" sample_client
      "lift_kerberos sample_kerberos" bob "''x''" sample_world]
  show ?thesis by (simp add: bob_def)
qed

definition people_search :: ldap_search_request where
  "people_search =
     \<lparr>sr_base = ''ou=people,dc=com'', sr_scope = ScopeBase, sr_filter = FPresent ''objectclass'',
      sr_attrs = [''ou'']\<rparr>"

theorem search_confined_to_base_witness:
  "\<exists>ops. do_search sample_libs (get_user_restricted_lister_handler (srv_backend sample_server) bob)
      sample_world sample_info people_search [''people''] = Inr ops
    \<and> (\<forall>e. SearchResultEntry e \<notin> set ops \<or> confined sample_libs sample_info people_search 2 e)"
proof -
  let ?r = "do_search sample_libs (get_user_restricted_lister_handler (srv_backend sample_server) bob)
      sample_world sample_info people_search [''people'']"
  have "case_sum (\<lambda>_. False) (\<lambda>_. True) ?r" by code_simp
  then obtain ops where ops: "?r = Inr ops" by (cases ?r) simp_all
  have parts: "parse_distinguished_name (sr_base people_search) = Inr [(''ou'', ''people''), (''dc'', ''com'')]"
    by code_simp
  have "[(''ou'', ''people''), (''dc'', ''com'')] \<noteq> li_base_dn sample_info" by code_simp
  from search_confined_to_base [OF parts this ops, THEN conjunct1]
  have "SearchResultEntry e \<notin> set ops \<or> confined sample_libs sample_info people_search 2 e" for e
    by (simp add: numeral_2_eq_2)
  then show ?thesis using ops by blast
qed

end
