(* ===== verification/Graphql.thy ===== *)
theory Graphql
  imports Sql_Backend
begin

text \<open>
  Reading through the GraphQL server (\<open>crates/graphql-server/src/api.rs\<close> and \<open>query/\<close>): the
  context of a request, the objects \<open>User\<close>, \<open>Group\<close> and \<open>Schema\<close> with their fields, the conversion of
  request filters and the top-level queries. The queries on the Keycloak configuration, which read
  a file and the environment, are left out.
\<close>

section \<open>Context\<close>

text \<open>What the crate takes from libraries beside those of the SQL backend: base64 encoding, RFC 3339
  dates, percent-decoding and RSA decryption.\<close>

record gql_libs =
  gl_sql :: sql_libs
  gl_base64_encode :: "bytes \<Rightarrow> string"
  gl_rfc3339 :: "date \<Rightarrow> string"
  gl_url_decode :: "string \<Rightarrow> string option"
  gl_rsa_decrypt :: "bytes \<Rightarrow> bytes option"

text \<open>A \<open>FieldError\<close> carries a message, or the error of the backend it was made from; a panic ends
  the request.\<close>

datatype gql_failure = FieldError string | BackendError domain_error | GqlPanic string

type_synonym 'a gresult = "gql_failure + 'a"

definition of_domain :: "'a dresult \<Rightarrow> 'a gresult" where
  "of_domain r = map_err BackendError r"

text \<open>The operations of a backend that the record of LDAP traits does not have:
  \<open>SchemaBackendHandler\<close> and the configuration.\<close>

record 's config_backend =
  cb_add_user_attribute :: "'s \<Rightarrow> create_attribute_request \<Rightarrow> unit dresult \<times> 's"
  cb_add_group_attribute :: "'s \<Rightarrow> create_attribute_request \<Rightarrow> unit dresult \<times> 's"
  cb_delete_user_attribute :: "'s \<Rightarrow> attribute_name \<Rightarrow> unit dresult \<times> 's"
  cb_delete_group_attribute :: "'s \<Rightarrow> attribute_name \<Rightarrow> unit dresult \<times> 's"
  cb_add_user_object_class :: "'s \<Rightarrow> string \<Rightarrow> unit dresult \<times> 's"
  cb_add_group_object_class :: "'s \<Rightarrow> string \<Rightarrow> unit dresult \<times> 's"
  cb_delete_user_object_class :: "'s \<Rightarrow> string \<Rightarrow> unit dresult \<times> 's"
  cb_delete_group_object_class :: "'s \<Rightarrow> string \<Rightarrow> unit dresult \<times> 's"
  cb_set_system_config :: "'s \<Rightarrow> string \<Rightarrow> string \<Rightarrow> unit dresult \<times> 's"
  cb_get_posix_settings :: "'s \<Rightarrow> posix_settings dresult"
  cb_set_posix_settings :: "'s \<Rightarrow> posix_settings \<Rightarrow> unit dresult \<times> 's"
  cb_reassign_user_uid_numbers :: "'s \<Rightarrow> unit dresult \<times> 's"
  cb_reassign_user_gid_numbers :: "'s \<Rightarrow> unit dresult \<times> 's"
  cb_reassign_user_homedirectories :: "'s \<Rightarrow> unit dresult \<times> 's"
  cb_reassign_user_loginshells :: "'s \<Rightarrow> unit dresult \<times> 's"
  cb_reassign_gid_numbers :: "'s \<Rightarrow> unit dresult \<times> 's"

record 's gql_context =
  gc_handler :: "'s backend"
  gc_config :: "'s config_backend"
  gc_validation_result :: validation_results

definition ctx_admin_handler :: "'s gql_context \<Rightarrow> 's backend option" where
  "ctx_admin_handler c = get_admin_handler (gc_handler c) (gc_validation_result c)"

definition ctx_readonly_handler :: "'s gql_context \<Rightarrow> 's backend option" where
  "ctx_readonly_handler c = get_readonly_handler (gc_handler c) (gc_validation_result c)"

definition ctx_writeable_handler :: "'s gql_context \<Rightarrow> user_id \<Rightarrow> 's backend option" where
  "ctx_writeable_handler c u = get_writeable_handler (gc_handler c) (gc_validation_result c) u"

definition ctx_readable_handler :: "'s gql_context \<Rightarrow> user_id \<Rightarrow> 's backend option" where
  "ctx_readable_handler c u = get_readable_handler (gc_handler c) (gc_validation_result c) u"

text \<open>A cast \<open>as i32\<close> keeps the lower 32 bits.\<close>

definition as_i32 :: "int \<Rightarrow> int" where
  "as_i32 n = (n + 2 ^ 31) mod 2 ^ 32 - 2 ^ 31"

section \<open>Attribute values\<close>

record gql_attribute =
  ga_attribute :: attribute
  ga_schema :: attribute_schema

definition avatar_to_graphql_base64 :: "gql_libs \<Rightarrow> bytes \<Rightarrow> string" where
  "avatar_to_graphql_base64 G jpeg_bytes = (if jpeg_bytes = [] then [] else gl_base64_encode G jpeg_bytes)"

definition serialize_attribute_to_graphql :: "gql_libs \<Rightarrow> attribute_value \<Rightarrow> string list" where
  "serialize_attribute_to_graphql G v =
     (case v of
        AString (Singleton s) \<Rightarrow> [s]
      | AString (Unbounded l) \<Rightarrow> l
      | AInteger (Singleton i) \<Rightarrow> [int_to_string i]
      | AInteger (Unbounded l) \<Rightarrow> map int_to_string l
      | ADateTime (Singleton dt) \<Rightarrow> [gl_rfc3339 G dt]
      | ADateTime (Unbounded l) \<Rightarrow> map (gl_rfc3339 G) l
      | AAvatar (Singleton p) \<Rightarrow> [avatar_to_graphql_base64 G p]
      | AAvatar (Unbounded l) \<Rightarrow> map (avatar_to_graphql_base64 G) l)"

definition get_hardcoded_user_value :: "user \<Rightarrow> string \<Rightarrow> attribute_value option" where
  "get_hardcoded_user_value u name =
     (if name \<in> {''userid'', ''user_id'', ''uid''} then Some (AString (Singleton (user_id_str (u_user_id u))))
      else if name \<in> {''creationdate'', ''creation_date''} then Some (ADateTime (Singleton (u_creation_date u)))
      else if name \<in> {''modifieddate'', ''modified_date''} then Some (ADateTime (Singleton (u_modified_date u)))
      else if name \<in> {''passwordmodifieddate'', ''password_modified_date''}
        then Some (ADateTime (Singleton (u_password_modified_date u)))
      else if name = ''mail'' then Some (AString (Singleton (email_str (u_email u))))
      else if name = ''uuid'' then Some (AString (Singleton (u_uuid u)))
      else if name \<in> {''displayname'', ''display_name'', ''cn''}
        then map_option (\<lambda>d. AString (Singleton d)) (u_display_name u)
      else None)"

definition get_hardcoded_group_details_value :: "group_details \<Rightarrow> string \<Rightarrow> attribute_value option" where
  "get_hardcoded_group_details_value g name =
     (if name = ''groupid'' then Some (AInteger (Singleton (gd_group_id g)))
      else if name \<in> {''creationdate'', ''creation_date''} then Some (ADateTime (Singleton (gd_creation_date g)))
      else if name \<in> {''modifieddate'', ''modified_date''} then Some (ADateTime (Singleton (gd_modified_date g)))
      else if name = ''uuid'' then Some (AString (Singleton (gd_uuid g)))
      else if name \<in> {''displayname'', ''display_name'', ''cn''}
        then Some (AString (Singleton (group_name_str (gd_display_name g))))
      else None)"

definition get_hardcoded_group_value :: "group \<Rightarrow> string \<Rightarrow> attribute_value option" where
  "get_hardcoded_group_value g name =
     (if name = ''groupid'' then Some (AInteger (Singleton (g_id g)))
      else if name \<in> {''creationdate'', ''creation_date''} then Some (ADateTime (Singleton (g_creation_date g)))
      else if name \<in> {''modifieddate'', ''modified_date''} then Some (ADateTime (Singleton (g_modified_date g)))
      else if name = ''uuid'' then Some (AString (Singleton (g_uuid g)))
      else if name \<in> {''displayname'', ''display_name'', ''cn''}
        then Some (AString (Singleton (group_name_str (g_display_name g))))
      else None)"

text \<open>The shared body of the three functions \<open>*_attributes_from_schema\<close>: the hardcoded attributes
  that have a value, in the order of the schema, then the stored ones that the schema knows.\<close>

definition hardcoded_entry ::
  "(string \<Rightarrow> attribute_value option) \<Rightarrow> attribute_schema \<Rightarrow> gql_attribute option" where
  "hardcoded_entry val s =
     map_option (\<lambda>v. \<lparr>ga_attribute = \<lparr>attr_name = attribute_name_from (as_name s), attr_value = v\<rparr>,
                      ga_schema = s\<rparr>) (val (as_name s))"

definition gql_from_schema :: "attribute_list \<Rightarrow> attribute \<Rightarrow> gql_attribute option" where
  "gql_from_schema l a =
     map_option (\<lambda>s. \<lparr>ga_attribute = a, ga_schema = s\<rparr>) (get_by_name_or_alias l (attr_str (attr_name a)))"

definition attributes_from_schema ::
  "(string \<Rightarrow> attribute_value option) \<Rightarrow> attribute list \<Rightarrow> attribute_list \<Rightarrow> gql_attribute list" where
  "attributes_from_schema val stored l =
     List.map_filter (hardcoded_entry val) (filter as_is_hardcoded l)
     @ List.map_filter (gql_from_schema l) stored"

definition user_attributes_from_schema :: "user \<Rightarrow> public_schema \<Rightarrow> gql_attribute list" where
  "user_attributes_from_schema u sch =
     attributes_from_schema (get_hardcoded_user_value u) (u_attributes u) (user_attributes sch)"

definition group_attributes_from_schema :: "group \<Rightarrow> public_schema \<Rightarrow> gql_attribute list" where
  "group_attributes_from_schema g sch =
     attributes_from_schema (get_hardcoded_group_value g) (g_attributes g) (group_attributes sch)"

definition group_details_attributes_from_schema :: "group_details \<Rightarrow> public_schema \<Rightarrow> gql_attribute list" where
  "group_details_attributes_from_schema g sch =
     attributes_from_schema (get_hardcoded_group_details_value g) (gd_attributes g) (group_attributes sch)"

definition attribute_named :: "string \<Rightarrow> gql_attribute list \<Rightarrow> gql_attribute option" where
  "attribute_named name = find_first (\<lambda>a. attr_str (attr_name (ga_attribute a)) = name)"

section \<open>Groups and users\<close>

record gql_group =
  gg_group_id :: group_id
  gg_display_name :: string
  gg_creation_date :: date
  gg_uuid :: uuid
  gg_attributes :: "gql_attribute list"
  gg_member_count :: int
  gg_schema :: public_schema

definition from_group :: "group \<Rightarrow> public_schema \<Rightarrow> gql_group" where
  "from_group g sch =
     \<lparr>gg_group_id = g_id g, gg_display_name = group_name_str (g_display_name g),
      gg_creation_date = g_creation_date g, gg_uuid = g_uuid g,
      gg_attributes = group_attributes_from_schema g sch,
      gg_member_count = as_i32 (int (length (g_users g))), gg_schema = sch\<rparr>"

definition from_group_details :: "group_details \<Rightarrow> public_schema \<Rightarrow> gql_group" where
  "from_group_details g sch =
     \<lparr>gg_group_id = gd_group_id g, gg_display_name = group_name_str (gd_display_name g),
      gg_creation_date = gd_creation_date g, gg_uuid = gd_uuid g,
      gg_attributes = group_details_attributes_from_schema g sch,
      gg_member_count = 0, gg_schema = sch\<rparr>"

record gql_user =
  gu_user :: user
  gu_attributes :: "gql_attribute list"
  gu_schema :: public_schema
  gu_groups :: "gql_group list option"

definition from_user :: "user \<Rightarrow> public_schema \<Rightarrow> gql_user" where
  "from_user u sch =
     \<lparr>gu_user = u\<lparr>u_attributes := []\<rparr>, gu_attributes = user_attributes_from_schema u sch,
      gu_schema = sch, gu_groups = None\<rparr>"

definition from_user_and_groups :: "user_and_groups \<Rightarrow> public_schema \<Rightarrow> gql_user" where
  "from_user_and_groups x sch =
     (from_user (ug_user x) sch)
       \<lparr>gu_groups := map_option (map (\<lambda>g. from_group_details g sch)) (ug_groups x)\<rparr>"

definition attribute_text :: "string \<Rightarrow> string \<Rightarrow> public_schema \<Rightarrow> gql_attribute list \<Rightarrow> string option" where
  "attribute_text name fallback sch attrs =
     Option.bind (attribute_named (unwrap_or fallback (resolve_user_canonical_name sch name)) attrs)
       (\<lambda>a. value_as_str (attr_value (ga_attribute a)))"

definition gql_display_name :: "gql_user \<Rightarrow> string" where
  "gql_display_name x = unwrap_or [] (u_display_name (gu_user x))"

definition gql_first_name :: "gql_user \<Rightarrow> string" where
  "gql_first_name x = unwrap_or [] (attribute_text ''first_name'' ''firstname'' (gu_schema x) (gu_attributes x))"

definition gql_last_name :: "gql_user \<Rightarrow> string" where
  "gql_last_name x = unwrap_or [] (attribute_text ''last_name'' ''lastname'' (gu_schema x) (gu_attributes x))"

definition gql_avatar :: "gql_libs \<Rightarrow> gql_user \<Rightarrow> string option" where
  "gql_avatar G x =
     Option.bind (attribute_named ''avatar'' (gu_attributes x))
       (\<lambda>a. first_opt (serialize_attribute_to_graphql G (attr_value (ga_attribute a))))"

definition gql_user_ou :: "gql_user \<Rightarrow> string" where
  "gql_user_ou x = unwrap_or ''people'' (attribute_text ''ou'' ''ou'' (gu_schema x) (gu_attributes x))"

definition gql_ssh_public_keys :: "gql_libs \<Rightarrow> gql_user \<Rightarrow> string list" where
  "gql_ssh_public_keys G x =
     unwrap_or [] (map_option (\<lambda>a. serialize_attribute_to_graphql G (attr_value (ga_attribute a)))
       (attribute_named (unwrap_or ''sshpublickey'' (resolve_user_canonical_name (gu_schema x) ''sshpublickey''))
         (gu_attributes x)))"

definition gql_is_disabled :: "gql_user \<Rightarrow> bool" where
  "gql_is_disabled x =
     (case gu_groups x of
        None \<Rightarrow> False | Some gs \<Rightarrow> list_ex (\<lambda>g. gg_display_name g = ''lldap_disabled'') gs)"

definition gql_group_ou :: "gql_group \<Rightarrow> string" where
  "gql_group_ou g =
     unwrap_or ''groups''
       (Option.bind (attribute_named (unwrap_or ''ou'' (resolve_group_canonical_name (gg_schema g) ''ou''))
          (gg_attributes g)) (\<lambda>a. value_as_str (attr_value (ga_attribute a))))"

text \<open>\<open>User::groups\<close> expects that the caller may read the user.\<close>

definition gql_user_groups :: "'s gql_context \<Rightarrow> gql_user \<Rightarrow> 's \<Rightarrow> gql_group list gresult" where
  "gql_user_groups c x w =
     (case ctx_readable_handler c (u_user_id (gu_user x)) of
        None \<Rightarrow> Inl (GqlPanic ''We shouldn't be able to get there without readable permission'')
      | Some B \<Rightarrow>
          rmap (\<lambda>gs. sort_key gg_display_name (map (\<lambda>g. from_group_details g (gu_schema x)) gs))
            (of_domain (b_get_user_groups B w (u_user_id (gu_user x)))))"

definition gql_group_users :: "'s gql_context \<Rightarrow> gql_group \<Rightarrow> 's \<Rightarrow> gql_user list gresult" where
  "gql_group_users c g w =
     rbind (ok_or (FieldError ''Unauthorized access to group data'') (ctx_readonly_handler c)) (\<lambda>B.
       rmap (map (\<lambda>u. from_user_and_groups u (gg_schema g)))
         (of_domain (b_list_users B w (Some (UMemberOfId (gg_group_id g))) False)))"

section \<open>The schema object\<close>

definition get_default_user_object_classes :: "string list" where
  "get_default_user_object_classes = get_default_user_object_classes_bytes public_schema_get"

definition get_default_group_object_classes :: "string list" where
  "get_default_group_object_classes = get_default_group_object_classes_bytes public_schema_get"

record gql_attribute_list =
  gal_attributes :: attribute_list
  gal_default_classes :: "string list"
  gal_extra_classes :: "string list"

definition ldap_object_classes :: "gql_attribute_list \<Rightarrow> (string \<times> bool) list" where
  "ldap_object_classes l =
     map (\<lambda>c. (c, True)) (gal_default_classes l) @ map (\<lambda>c. (c, False)) (gal_extra_classes l)"

definition gql_user_schema :: "public_schema \<Rightarrow> gql_attribute_list" where
  "gql_user_schema sch =
     \<lparr>gal_attributes = user_attributes sch, gal_default_classes = get_default_user_object_classes,
      gal_extra_classes = extra_user_object_classes sch\<rparr>"

definition gql_group_schema :: "public_schema \<Rightarrow> gql_attribute_list" where
  "gql_group_schema sch =
     \<lparr>gal_attributes = group_attributes sch, gal_default_classes = get_default_group_object_classes,
      gal_extra_classes = extra_group_object_classes sch\<rparr>"

definition gql_system_schema :: "public_schema \<Rightarrow> gql_attribute_list" where
  "gql_system_schema sch =
     \<lparr>gal_attributes = system_attributes sch, gal_default_classes = [], gal_extra_classes = []\<rparr>"

section \<open>Request filters\<close>

datatype request_filter =
  RequestFilter (rf_any: "request_filter list option") (rf_all: "request_filter list option")
    (rf_not: "request_filter option") (rf_eq: "(string \<times> string) option")
    (rf_member_of: "string option") (rf_member_of_id: "group_id option")

definition equality_filter :: "libs \<Rightarrow> string \<Rightarrow> string \<Rightarrow> public_schema \<Rightarrow> user_request_filter gresult" where
  "equality_filter L field val sch =
     (case map_user_field get_schema_manager
             (attribute_name_from (unwrap_or field (resolve_user_canonical_name sch field))) sch of
        UfNoMatch \<Rightarrow> Inl (FieldError (''Unknown request filter: '' @ field))
      | UfPrimaryField ColUserId \<Rightarrow> Inr (UUserId (user_id_from val))
      | UfPrimaryField column \<Rightarrow> Inr (UEquality column val)
      | UfAttribute name typ False \<Rightarrow>
          rmap (UAttributeEquality name)
            (map_err (\<lambda>_. FieldError (''While deserializing attribute '' @ attr_str name))
              (deserialize_attribute_value L [val] typ False))
      | UfAttribute _ _ True \<Rightarrow> Inl (FieldError ''Equality not supported for list fields'')
      | UfMemberOf \<Rightarrow> Inr (UMemberOf (GroupName val))
      | _ \<Rightarrow> Inl (FieldError ''Ldap fields not supported in request filter''))"

fun try_into_domain_filter :: "libs \<Rightarrow> public_schema \<Rightarrow> request_filter \<Rightarrow> user_request_filter gresult" where
  "try_into_domain_filter L sch (RequestFilter any all nt eq member_of member_of_id) =
     (case (eq, any, all, nt, member_of, member_of_id) of
        (Some (field, val), None, None, None, None, None) \<Rightarrow> equality_filter L field val sch
      | (None, Some fs, None, None, None, None) \<Rightarrow>
          rmap UOr (collect_results (map (\<lambda>f. try_into_domain_filter L sch f) fs))
      | (None, None, Some fs, None, None, None) \<Rightarrow>
          rmap UAnd (collect_results (map (\<lambda>f. try_into_domain_filter L sch f) fs))
      | (None, None, None, Some f, None, None) \<Rightarrow> rmap UNot (try_into_domain_filter L sch f)
      | (None, None, None, None, Some g, None) \<Rightarrow> Inr (UMemberOf (GroupName g))
      | (None, None, None, None, None, Some g) \<Rightarrow> Inr (UMemberOfId g)
      | (None, None, None, None, None, None) \<Rightarrow> Inl (FieldError ''No field specified in request filter'')
      | _ \<Rightarrow> Inl (FieldError ''Multiple fields specified in request filter''))"

section \<open>Queries\<close>

definition query_get_schema :: "'s gql_context \<Rightarrow> 's \<Rightarrow> public_schema gresult" where
  "query_get_schema c w =
     of_domain (rl_get_schema (get_user_restricted_lister_handler (gc_handler c) (gc_validation_result c)) w)"

definition query_user :: "gql_libs \<Rightarrow> 's gql_context \<Rightarrow> string \<Rightarrow> 's \<Rightarrow> gql_user gresult" where
  "query_user G c user_id w =
     rbind (ok_or (FieldError ''Invalid user parameter'') (gl_url_decode G user_id)) (\<lambda>decoded.
     rbind (ok_or (FieldError ''Unauthorized access to user data'')
              (ctx_readable_handler c (user_id_from decoded))) (\<lambda>B.
     rbind (query_get_schema c w) (\<lambda>sch.
       rmap (\<lambda>u. from_user u sch) (of_domain (b_get_user_details B w (user_id_from decoded))))))"

definition query_users ::
  "gql_libs \<Rightarrow> 's gql_context \<Rightarrow> request_filter option \<Rightarrow> 's \<Rightarrow> gql_user list gresult" where
  "query_users G c filters w =
     rbind (ok_or (FieldError ''Unauthorized access to user list'') (ctx_readonly_handler c)) (\<lambda>B.
     rbind (query_get_schema c w) (\<lambda>sch.
     rbind (case filters of
              None \<Rightarrow> Inr None
            | Some f \<Rightarrow> rmap Some (try_into_domain_filter (sl_libs (gl_sql G)) sch f)) (\<lambda>domain_filter.
       rmap (map (\<lambda>u. from_user_and_groups u sch)) (of_domain (b_list_users B w domain_filter True)))))"

definition query_groups :: "'s gql_context \<Rightarrow> 's \<Rightarrow> gql_group list gresult" where
  "query_groups c w =
     rbind (ok_or (FieldError ''Unauthorized access to group list'') (ctx_readonly_handler c)) (\<lambda>B.
     rbind (query_get_schema c w) (\<lambda>sch.
       rmap (map (\<lambda>g. from_group g sch)) (of_domain (b_list_groups B w None))))"

definition query_group :: "'s gql_context \<Rightarrow> group_id \<Rightarrow> 's \<Rightarrow> gql_group gresult" where
  "query_group c g w =
     rbind (ok_or (FieldError ''Unauthorized access to group data'') (ctx_readonly_handler c)) (\<lambda>B.
     rbind (query_get_schema c w) (\<lambda>sch.
       rmap (\<lambda>d. from_group_details d sch) (of_domain (b_get_group_details B w g))))"

definition query_list_ous :: "'s gql_context \<Rightarrow> 's \<Rightarrow> string list gresult" where
  "query_list_ous c w =
     rbind (ok_or (FieldError ''Unauthorized to read OUs'') (ctx_admin_handler c)) (\<lambda>B.
       map_err (\<lambda>_. FieldError ''Failed to load allowedous'') (b_get_allowed_ous B w))"

definition query_posix_settings :: "'s gql_context \<Rightarrow> 's \<Rightarrow> posix_settings gresult" where
  "query_posix_settings c w =
     rbind (ok_or (FieldError ''Unauthorized to read POSIX settings'') (ctx_admin_handler c)) (\<lambda>_.
       rmap (\<lambda>s. s\<lparr>user_uidnumber_start := as_i32 (user_uidnumber_start s),
                   user_uidnumber_max := as_i32 (user_uidnumber_max s),
                   user_gidnumber_start := as_i32 (user_gidnumber_start s),
                   group_gidnumber_start := as_i32 (group_gidnumber_start s),
                   group_gidnumber_max := as_i32 (group_gidnumber_max s)\<rparr>)
         (map_err (\<lambda>_. FieldError ''Failed to load posix_settings'') (cb_get_posix_settings (gc_config c) w)))"

end
