(* ===== verification/Graphql_Mutation.thy ===== *)
theory Graphql_Mutation
  imports Graphql
begin

text \<open>
  Writing through the GraphQL server (\<open>crates/graphql-server/src/mutation/\<close>): the inputs, the
  checks on attributes, and the mutations on users, groups, organisational units, the schema, the
  POSIX settings and Kerberos. The mutations that talk to a Keycloak server are left out. Texts of
  errors that quote a library's error end where the quotation starts.
\<close>

section \<open>Inputs\<close>

record attribute_input =
  ai_name :: string
  ai_value :: "string list"

record create_user_input =
  cui_id :: string
  cui_email :: "string option"
  cui_display_name :: "string option"
  cui_first_name :: "string option"
  cui_last_name :: "string option"
  cui_avatar :: "string option"
  cui_attributes :: "attribute_input list option"

record create_group_input =
  cgi_display_name :: string
  cgi_attributes :: "attribute_input list option"

record update_user_input =
  uui_id :: string
  uui_email :: "string option"
  uui_display_name :: "string option"
  uui_first_name :: "string option"
  uui_last_name :: "string option"
  uui_avatar :: "string option"
  uui_remove_attributes :: "string list option"
  uui_insert_attributes :: "attribute_input list option"

record update_group_input =
  ugi_id :: group_id
  ugi_display_name :: "string option"
  ugi_remove_attributes :: "string list option"
  ugi_insert_attributes :: "attribute_input list option"

section \<open>Attributes\<close>

definition validate_ssh_public_key :: "string \<Rightarrow> string + unit" where
  "validate_ssh_public_key key =
     (let trimmed = trim key in
      if trimmed = [] then Inl ''SSH public key cannot be empty''
      else if \<not> (starts_with trimmed ''ssh-'' \<or> starts_with trimmed ''ecdsa-'' \<or> starts_with trimmed ''sk-''
                \<or> starts_with trimmed ''ssh-ed25519'')
      then Inl (''Invalid SSH public key format. Expected to start with ssh-, ecdsa-, sk-, or ssh-ed25519. Got: ''
             @ [CHR 0x27] @ takeWhile (\<lambda>c. \<not> is_white c) trimmed @ [CHR 0x27])
      else if CHR '' '' \<notin> set trimmed then Inl ''Invalid SSH public key: missing space after key type''
      else if 4096 < length trimmed then Inl ''SSH public key is too long (max 4096 characters)''
      else Inr ())"

definition canonical_name :: "attribute_list \<Rightarrow> string \<Rightarrow> string" where
  "canonical_name l name = unwrap_or name (resolve_canonical_name l name)"

text \<open>The bytes that a new value is read from.\<close>

definition avatar_bytes :: "gql_libs \<Rightarrow> string list \<Rightarrow> bytes gresult" where
  "avatar_bytes G vals =
     (let v = trim (unwrap_or [] (first_opt vals)) in
      if v = [] then Inr []
      else rbind (ok_or (FieldError ''Invalid base64 avatar data: '')
                   (lib_base64_decode (sl_libs (gl_sql G)) v)) (\<lambda>raw_bytes.
        map_err (\<lambda>_. FieldError ''Invalid avatar upload: '')
          (process_avatar_input (sl_libs (gl_sql G)) raw_bytes)))"

definition gql_serialized :: "gql_libs \<Rightarrow> string \<Rightarrow> attribute_schema \<Rightarrow> string list \<Rightarrow> bytes gresult" where
  "gql_serialized G canon s vals =
     (if eq_ignore_ascii_case canon ''avatar'' \<and> \<not> as_is_list s then avatar_bytes G vals
      else if as_is_list s then Inr (sl_json_of_strings (gl_sql G) vals)
      else Inr (unwrap_or [] (first_opt vals)))"

definition check_ssh_keys :: "string \<Rightarrow> attribute_schema \<Rightarrow> string list \<Rightarrow> unit gresult" where
  "check_ssh_keys canon s vals =
     (if eq_ignore_ascii_case canon ''sshpublickey'' \<and> as_is_list s
      then for_each (\<lambda>key _. map_err (\<lambda>m. FieldError (''Invalid SSH public key: '' @ m))
             (validate_ssh_public_key key)) vals ()
      else Inr ())"

definition gql_deserialize_attribute ::
  "gql_libs \<Rightarrow> attribute_list \<Rightarrow> attribute_input \<Rightarrow> bool \<Rightarrow> attribute gresult" where
  "gql_deserialize_attribute G l a admin =
     (let canon = canonical_name l (ai_name a); name = attribute_name_from canon in
      rbind (ok_or (FieldError (''Attribute '' @ ai_name a @ '' is not defined in the schema''))
               (get_attribute_schema l (attr_str name))) (\<lambda>s.
      if as_is_readonly s
      then Inl (FieldError (''Permission denied: Attribute '' @ ai_name a @ '' is read-only''))
      else if \<not> admin \<and> \<not> as_is_editable s
      then Inl (FieldError (''Permission denied: Attribute '' @ ai_name a @ '' is not editable by regular users''))
      else rbind (check_ssh_keys canon s (ai_value a)) (\<lambda>_.
        rmap (\<lambda>b. \<lparr>attr_name = name,
                    attr_value = deserialize_db_value (gl_sql G) b (as_attribute_type s) (as_is_list s)\<rparr>)
          (gql_serialized G canon s (ai_value a)))))"

record unpacked_attributes =
  ua_email :: "email option"
  ua_display :: "string option"
  ua_attributes :: "attribute list"

text \<open>\<open>value.into_string().unwrap()\<close>\<close>

definition unwrap_string :: "attribute \<Rightarrow> string gresult" where
  "unwrap_string a =
     ok_or (GqlPanic ''called Option::unwrap() on a None value'') (value_as_str (attr_value a))"

definition unpack_field ::
  "gql_libs \<Rightarrow> attribute_list \<Rightarrow> bool \<Rightarrow> string \<Rightarrow> attribute_input list \<Rightarrow> string option gresult" where
  "unpack_field G l admin name attrs =
     (case find_first (\<lambda>a. canonical_name l (ai_name a) = name) attrs of
        None \<Rightarrow> Inr None
      | Some a \<Rightarrow> rmap Some (rbind (gql_deserialize_attribute G l a admin) unwrap_string))"

definition unpack_attributes ::
  "gql_libs \<Rightarrow> attribute_input list \<Rightarrow> public_schema \<Rightarrow> bool \<Rightarrow> unpacked_attributes gresult" where
  "unpack_attributes G attrs sch admin =
     (let l = user_attributes sch in
      rbind (unpack_field G l admin ''mail'' attrs) (\<lambda>email.
      rbind (unpack_field G l admin ''displayname'' attrs) (\<lambda>display_name.
      rbind (collect_results (map (\<lambda>a. gql_deserialize_attribute G l a admin)
              (filter (\<lambda>a. canonical_name l (ai_name a) \<noteq> ''mail''
                 \<and> canonical_name l (ai_name a) \<noteq> ''displayname'') attrs))) (\<lambda>attributes.
        Inr \<lparr>ua_email = map_option Email email, ua_display = display_name, ua_attributes = attributes\<rparr>))))"

text \<open>Attributes keyed by their folded canonical name, a later one replacing an earlier one; the
  deprecated fields fill the keys that are free.\<close>

definition attribute_key :: "public_schema \<Rightarrow> string \<Rightarrow> string" where
  "attribute_key sch name = to_ascii_lowercase (canonical_name (user_attributes sch) name)"

definition add_field ::
  "public_schema \<Rightarrow> (string \<times> attribute_input) list \<Rightarrow> string \<times> string option \<Rightarrow> (string \<times> attribute_input) list" where
  "add_field sch m f =
     (case f of
        (name, None) \<Rightarrow> m
      | (name, Some val) \<Rightarrow>
          if name = ''avatar'' \<and> trim val = [] then m
          else if attribute_key sch name \<in> fst ` set m then m
          else btree_insert (attribute_key sch name) \<lparr>ai_name = name, ai_value = [val]\<rparr> m)"

definition consolidate_attributes ::
  "attribute_input list \<Rightarrow> string option \<Rightarrow> string option \<Rightarrow> string option \<Rightarrow> public_schema
     \<Rightarrow> attribute_input list" where
  "consolidate_attributes attrs first_name last_name avatar sch =
     (let provided = foldl (\<lambda>m a. btree_insert (attribute_key sch (ai_name a))
            (a\<lparr>ai_name := to_ascii_lowercase (ai_name a)\<rparr>) m) [] attrs
      in map snd (foldl (add_field sch) provided
           [(''first_name'', first_name), (''last_name'', last_name), (''avatar'', avatar)]))"

definition extract_kerberos_sync :: "public_schema \<Rightarrow> attribute list \<Rightarrow> bool" where
  "extract_kerberos_sync sch attrs =
     (let kerb_name = unwrap_or ''kerberossync''
            (map_option as_name (get_by_name_or_alias (user_attributes sch) ''kerberossync'')) in
      case find_first (\<lambda>a. attr_str (attr_name a) = kerb_name) attrs of
        None \<Rightarrow> False
      | Some a \<Rightarrow>
          (case attr_value a of
             AInteger (Singleton i) \<Rightarrow> i = 1
           | AString (Singleton s) \<Rightarrow> s = ''1'' \<or> to_ascii_lowercase s = ''true''
           | _ \<Rightarrow> False))"

definition ou_attribute :: "string \<Rightarrow> attribute" where
  "ou_attribute ou = \<lparr>attr_name = attribute_name_from ''ou'', attr_value = AString (Singleton ou)\<rparr>"

section \<open>Users and groups\<close>

text \<open>A call of the backend that may fail and its state.\<close>

definition backend_call :: "'a dresult \<times> 's \<Rightarrow> 'a gresult \<times> 's" where
  "backend_call r = (of_domain (fst r), snd r)"

definition described_call :: "string \<Rightarrow> 'a dresult \<times> 's \<Rightarrow> 'a gresult \<times> 's" where
  "described_call m r = (map_err (\<lambda>_. FieldError m) (fst r), snd r)"

text \<open>The handler of an administrator, or the refusal with a message.\<close>

definition with_admin ::
  "'s gql_context \<Rightarrow> string \<Rightarrow> ('s backend \<Rightarrow> 's \<Rightarrow> 'a gresult \<times> 's) \<Rightarrow> 's \<Rightarrow> 'a gresult \<times> 's" where
  "with_admin c m f w = (case ctx_admin_handler c of None \<Rightarrow> (Inl (FieldError m), w) | Some B \<Rightarrow> f B w)"

definition with_writeable ::
  "'s gql_context \<Rightarrow> user_id \<Rightarrow> string \<Rightarrow> ('s backend \<Rightarrow> 's \<Rightarrow> 'a gresult \<times> 's) \<Rightarrow> 's \<Rightarrow> 'a gresult \<times> 's" where
  "with_writeable c u m f w =
     (case ctx_writeable_handler c u of None \<Rightarrow> (Inl (FieldError m), w) | Some B \<Rightarrow> f B w)"

text \<open>A pure step of a handler: an error ends it and leaves the state.\<close>

definition pure_step :: "'a gresult \<Rightarrow> ('a \<Rightarrow> 's \<Rightarrow> 'b gresult \<times> 's) \<Rightarrow> 's \<Rightarrow> 'b gresult \<times> 's" where
  "pure_step r f w = (case r of Inl e \<Rightarrow> (Inl e, w) | Inr x \<Rightarrow> f x w)"

definition split_ou ::
  "attribute_list \<Rightarrow> string \<Rightarrow> attribute_input list \<Rightarrow> string \<times> attribute_input list" where
  "split_ou l fallback attrs =
     (let is_ou = (\<lambda>a. canonical_name l (ai_name a) = ''ou'') in
      (unwrap_or fallback (Option.bind (find_first is_ou attrs) (\<lambda>a. first_opt (ai_value a))),
       filter (\<lambda>a. \<not> is_ou a) attrs))"

definition resolves_to_ou :: "public_schema \<Rightarrow> string \<Rightarrow> bool" where
  "resolves_to_ou sch name \<longleftrightarrow> resolve_user_canonical_name sch name = Some ''ou''"

definition mutation_create_user ::
  "gql_libs \<Rightarrow> 's gql_context \<Rightarrow> create_user_input \<Rightarrow> 's \<Rightarrow> gql_user gresult \<times> 's" where
  "mutation_create_user G c inp =
     with_admin c ''Unauthorized user creation'' (\<lambda>B w.
     pure_step (of_domain (b_get_schema B w)) (\<lambda>sch.
       let attrs = consolidate_attributes (unwrap_or [] (cui_attributes inp)) (cui_first_name inp)
                     (cui_last_name inp) (cui_avatar inp) sch;
           is_ou = (\<lambda>a. resolves_to_ou sch (ai_name a));
           ou_value = unwrap_or ''people''
             (Option.bind (find_first is_ou attrs) (\<lambda>a. first_opt (ai_value a)))
       in pure_step (unpack_attributes G (filter (\<lambda>a. \<not> is_ou a) attrs) sch True) (\<lambda>unpacked.
          pure_step (ok_or (FieldError ''Email is required when creating a new user'')
             (case cui_email inp of Some e \<Rightarrow> Some (Email e) | None \<Rightarrow> ua_email unpacked)) (\<lambda>email w1.
          sbind (backend_call (b_create_user B w1
              \<lparr>cu_user_id = user_id_from (cui_id inp), cu_email = email,
               cu_display_name = (case cui_display_name inp of Some d \<Rightarrow> Some d | None \<Rightarrow> ua_display unpacked),
               cu_attributes = ua_attributes unpacked @ [ou_attribute ou_value]\<rparr>)) (\<lambda>_.
          \<lambda>w2. (rmap (\<lambda>u. from_user u sch)
              (of_domain (b_get_user_details B w2 (user_id_from (cui_id inp)))), w2))))) w)"

text \<open>The password registration, whose errors get a description, and the synchronisation that
  follows it; a failure of the synchronisation is only logged.\<close>

definition mutation_set_user_password ::
  "'s gql_context \<Rightarrow> opaque_client \<Rightarrow> 's kerberos \<Rightarrow> string \<Rightarrow> string \<Rightarrow> 's \<Rightarrow> unit gresult \<times> 's" where
  "mutation_set_user_password c C K user_id password =
     with_writeable c (user_id_from user_id) ''Unauthorized password set'' (\<lambda>B w.
     pure_step (ok_or (FieldError ''Could not initiate password registration'')
       (oc_start_registration C password)) (\<lambda>(msg, state).
     pure_step (map_err (\<lambda>_. FieldError ''Registration start failed'')
       (b_registration_start B w (user_id_from user_id, msg))) (\<lambda>(server_data, response).
     pure_step (ok_or (FieldError ''Error during password registration finish'')
       (oc_finish_registration C state password response)) (\<lambda>upload w1.
     sbind (described_call ''Registration finish failed'' (b_registration_finish B w1 (server_data, upload)))
       (\<lambda>_ w2.
     pure_step (map_err (\<lambda>_. FieldError ''Failed to fetch user for Kerberos sync check'')
       (b_get_user_details B w2 (user_id_from user_id))) (\<lambda>u.
     pure_step (of_domain (b_get_schema B w2)) (\<lambda>sch w3.
       let enabled = extract_kerberos_sync sch (u_attributes u);
           w4 = snd (sync_kerberos_if_enabled K enabled user_id password w3)
       in (Inr (), snd (b_ensure_kerberos_principal_consistency B w4 (user_id_from user_id) enabled)))) w2)))) w)"

definition mutation_create_group ::
  "gql_libs \<Rightarrow> 's gql_context \<Rightarrow> create_group_input \<Rightarrow> 's \<Rightarrow> gql_group gresult \<times> 's" where
  "mutation_create_group G c inp =
     with_admin c ''Unauthorized group creation'' (\<lambda>B w.
     pure_step (of_domain (b_get_schema B w)) (\<lambda>sch.
       let (ou_value, attrs) = split_ou (group_attributes sch) ''groups'' (unwrap_or [] (cgi_attributes inp))
       in pure_step (collect_results (map (\<lambda>a. gql_deserialize_attribute G (group_attributes sch) a True) attrs))
            (\<lambda>attributes w1.
          sbind (backend_call (b_create_group B w1
              \<lparr>cg_display_name = GroupName (cgi_display_name inp),
               cg_attributes = attributes @ [ou_attribute ou_value]\<rparr>)) (\<lambda>g w2.
            (rmap (\<lambda>d. from_group_details d sch) (of_domain (b_get_group_details B w2 g)), w2)))) w)"

definition update_user_request_of ::
  "gql_libs \<Rightarrow> public_schema \<Rightarrow> bool \<Rightarrow> update_user_input \<Rightarrow> update_user_request gresult" where
  "update_user_request_of G sch admin inp =
     (let attrs = consolidate_attributes (unwrap_or [] (uui_insert_attributes inp)) (uui_first_name inp)
            (uui_last_name inp) (uui_avatar inp) sch;
          removes = filter (\<lambda>n. \<not> resolves_to_ou sch n) (unwrap_or [] (uui_remove_attributes inp))
      in rmap (\<lambda>unpacked.
           \<lparr>uu_user_id = user_id_from (uui_id inp),
            uu_email = (case uui_email inp of Some e \<Rightarrow> Some (Email e) | None \<Rightarrow> ua_email unpacked),
            uu_display_name = (case uui_display_name inp of Some d \<Rightarrow> Some d | None \<Rightarrow> ua_display unpacked),
            uu_delete_attributes = map attribute_name_from
              (filter (\<lambda>n. n \<noteq> ''mail'' \<and> to_ascii_lowercase n \<noteq> ''displayname'') removes),
            uu_insert_attributes = ua_attributes unpacked\<rparr>)
         (unpack_attributes G (filter (\<lambda>a. ai_name a \<notin> set removes) attrs) sch admin))"

definition mutation_update_user ::
  "gql_libs \<Rightarrow> 's gql_context \<Rightarrow> update_user_input \<Rightarrow> 's \<Rightarrow> unit gresult \<times> 's" where
  "mutation_update_user G c inp =
     with_writeable c (user_id_from (uui_id inp)) ''Unauthorized user update'' (\<lambda>B w.
     pure_step (of_domain (b_get_schema B w)) (\<lambda>sch.
     pure_step (update_user_request_of G sch (is_admin (gc_validation_result c)) inp) (\<lambda>request w1.
       backend_call (b_update_user B w1 request))) w)"

text \<open>The new name of a group: the field, or the first value of an attribute spelt \<open>displayname\<close>,
  whose value list is indexed without a check.\<close>

definition new_group_name :: "update_group_input \<Rightarrow> string option gresult" where
  "new_group_name inp =
     (case ugi_display_name inp of
        Some d \<Rightarrow> Inr (Some d)
      | None \<Rightarrow>
          (case find_first (\<lambda>a. ai_name a = ''displayname'') (unwrap_or [] (ugi_insert_attributes inp)) of
             None \<Rightarrow> Inr None
           | Some a \<Rightarrow> rmap Some (ok_or (GqlPanic ''index out of bounds: the len is 0 but the index is 0'')
                          (first_opt (ai_value a)))))"

definition builtin_group_named :: "'s backend \<Rightarrow> 's \<Rightarrow> group_id \<Rightarrow> string option" where
  "builtin_group_named B w g =
     (case b_get_group_details B w g of
        Inr d \<Rightarrow> if is_builtin_group (group_name_str (gd_display_name d))
                 then Some (group_name_str (gd_display_name d)) else None
      | Inl _ \<Rightarrow> None)"

definition protect_builtin :: "string \<Rightarrow> string option \<Rightarrow> unit gresult" where
  "protect_builtin verb n =
     (case n of
        Some name \<Rightarrow> Inl (FieldError (''Cannot '' @ verb @ '' built-in group '' @ [CHR 0x27] @ name @ [CHR 0x27]))
      | None \<Rightarrow> Inr ())"

definition mutation_update_group ::
  "gql_libs \<Rightarrow> 's gql_context \<Rightarrow> update_group_input \<Rightarrow> 's \<Rightarrow> unit gresult \<times> 's" where
  "mutation_update_group G c inp =
     with_admin c ''Unauthorized group update'' (\<lambda>B w.
     pure_step (new_group_name inp) (\<lambda>new_name.
     pure_step (protect_builtin ''rename''
       (if new_name = None then None else builtin_group_named B w (ugi_id inp))) (\<lambda>_.
     pure_step (of_domain (b_get_schema B w)) (\<lambda>sch.
     pure_step (collect_results (map (\<lambda>a. gql_deserialize_attribute G (group_attributes sch) a True)
         (filter (\<lambda>a. ai_name a \<noteq> ''displayname'') (unwrap_or [] (ugi_insert_attributes inp)))))
       (\<lambda>attributes w1.
         backend_call (b_update_group B w1
           \<lparr>ugr_group_id = ugi_id inp, ugr_display_name = map_option GroupName new_name,
            ugr_delete_attributes = map attribute_name_from
              (filter (\<lambda>n. n \<noteq> ''displayname'') (unwrap_or [] (ugi_remove_attributes inp))),
            ugr_insert_attributes = attributes\<rparr>))))) w)"

definition mutation_add_user_to_group ::
  "'s gql_context \<Rightarrow> string \<Rightarrow> group_id \<Rightarrow> 's \<Rightarrow> unit gresult \<times> 's" where
  "mutation_add_user_to_group c user_id g =
     with_admin c ''Unauthorized group membership modification'' (\<lambda>B w.
       backend_call (b_add_user_to_group B w (user_id_from user_id) g))"

definition protect_admins ::
  "'s gql_context \<Rightarrow> 's backend \<Rightarrow> 's \<Rightarrow> user_id \<Rightarrow> group_id \<Rightarrow> unit gresult" where
  "protect_admins c B w u g =
     (let group_name = (case b_get_group_details B w g of
            Inr d \<Rightarrow> group_name_str (gd_display_name d) | Inl _ \<Rightarrow> []) in
      if group_name \<noteq> ''lldap_admin'' then Inr ()
      else if (case b_list_users B w (Some (UMemberOfId g)) False of
                 Inr members \<Rightarrow> length members \<le> 1 | Inl _ \<Rightarrow> False)
      then Inl (FieldError ''Cannot remove the last member of lldap_admin'')
      else if vr_user (gc_validation_result c) = u
      then Inl (FieldError ''Cannot remove admin rights for current user'')
      else Inr ())"

definition mutation_remove_user_from_group ::
  "'s gql_context \<Rightarrow> string \<Rightarrow> group_id \<Rightarrow> 's \<Rightarrow> unit gresult \<times> 's" where
  "mutation_remove_user_from_group c user_id g =
     with_admin c ''Unauthorized group membership modification'' (\<lambda>B w.
     pure_step (protect_admins c B w (user_id_from user_id) g) (\<lambda>_ w1.
       backend_call (b_remove_user_from_group B w1 (user_id_from user_id) g)) w)"

definition mutation_delete_user :: "'s gql_context \<Rightarrow> string \<Rightarrow> 's \<Rightarrow> unit gresult \<times> 's" where
  "mutation_delete_user c user_id =
     with_admin c ''Unauthorized user deletion'' (\<lambda>B w.
       if vr_user (gc_validation_result c) = user_id_from user_id
       then (Inl (FieldError ''Cannot delete current user''), w)
       else described_call ''User deletion failed'' (b_delete_user B w (user_id_from user_id)))"

definition mutation_delete_group :: "'s gql_context \<Rightarrow> group_id \<Rightarrow> 's \<Rightarrow> unit gresult \<times> 's" where
  "mutation_delete_group c g =
     with_admin c ''Unauthorized group deletion'' (\<lambda>B w.
     pure_step (protect_builtin ''delete'' (builtin_group_named B w g)) (\<lambda>_ w1.
       backend_call (b_delete_group B w1 g)) w)"

section \<open>Organisational units\<close>

definition valid_ou_part :: "string \<Rightarrow> bool" where
  "valid_ou_part p \<longleftrightarrow> 2 \<le> length p \<and> length p \<le> 64
     \<and> list_all (\<lambda>c. is_alphanumeric c \<or> c = CHR ''-'' \<or> c = CHR ''_'') p
     \<and> hd p \<notin> {CHR ''-'', CHR ''_''} \<and> last p \<notin> {CHR ''-'', CHR ''_''}"

text \<open>\<open>splitn(2, '\\')\<close>: the part before the first backslash, and the rest if there is one.\<close>

definition split_ou_name :: "string \<Rightarrow> string \<times> string option" where
  "split_ou_name name =
     (let p = takeWhile (\<lambda>c. c \<noteq> CHR 0x5C) name in
      (p, if p = name then None else Some (drop (length p + 1) name)))"

definition check_new_ou :: "string \<Rightarrow> string list \<Rightarrow> unit gresult" where
  "check_new_ou name current =
     (let (primary, secondary) = split_ou_name name;
          known = (\<lambda>n. list_ex (\<lambda>e. to_ascii_lowercase e = to_ascii_lowercase n) current) in
      if known name then Inl (FieldError (''Organizational Unit '' @ [CHR 0x27] @ name @ [CHR 0x27] @ '' already exists''))
      else if secondary \<noteq> None \<and> \<not> known primary
      then Inl (FieldError (''Primary OU '' @ [CHR 0x27] @ primary @ [CHR 0x27]
             @ '' does not exist. Create it first before adding a secondary.''))
      else Inr ())"

definition check_ou_name :: "string \<Rightarrow> unit gresult" where
  "check_ou_name name =
     (let (primary, secondary) = split_ou_name name in
      if to_ascii_lowercase (trim name) \<in> {[], ''all'', ''people'', ''groups''}
      then Inl (FieldError ''Invalid OU name (cannot be empty or built-in)'')
      else if \<not> valid_ou_part primary
      then Inl (FieldError ''Invalid primary OU name: 2-64 characters, only a-z A-Z 0-9 - _ allowed. No spaces or special characters.'')
      else if (case secondary of None \<Rightarrow> False | Some sec \<Rightarrow> \<not> valid_ou_part sec)
      then Inl (FieldError ''Invalid secondary OU name: 2-64 characters, only a-z A-Z 0-9 - _ allowed. No spaces or special characters.'')
      else Inr ())"

definition save_ous :: "gql_libs \<Rightarrow> 's gql_context \<Rightarrow> string list \<Rightarrow> 's \<Rightarrow> unit gresult \<times> 's" where
  "save_ous G c ous w =
     described_call ''Failed to save updated OU list''
       (cb_set_system_config (gc_config c) w ''allowedous'' (sl_json_of_strings (gl_sql G) ous))"

definition load_ous :: "'s backend \<Rightarrow> 's \<Rightarrow> string list gresult" where
  "load_ous B w = map_err (\<lambda>_. FieldError ''Failed to load allowedous'') (b_get_allowed_ous B w)"

definition mutation_create_ou :: "gql_libs \<Rightarrow> 's gql_context \<Rightarrow> string \<Rightarrow> 's \<Rightarrow> unit gresult \<times> 's" where
  "mutation_create_ou G c name =
     with_admin c ''Unauthorized OU creation'' (\<lambda>B w.
     pure_step (check_ou_name name) (\<lambda>_.
     pure_step (load_ous B w) (\<lambda>current.
     pure_step (check_new_ou name current) (\<lambda>_ w1.
       save_ous G c (sort (current @ [name])) w1))) w)"

definition stored_ou :: "attribute list \<Rightarrow> string" where
  "stored_ou attrs =
     unwrap_or [] (Option.bind (find_first (\<lambda>a. attr_str (attr_name a) = ''ou'') attrs)
       (\<lambda>a. value_as_str (attr_value a)))"

definition move_user :: "user_id \<Rightarrow> string \<Rightarrow> update_user_request" where
  "move_user u ou =
     \<lparr>uu_user_id = u, uu_email = None, uu_display_name = None, uu_delete_attributes = [],
      uu_insert_attributes = [ou_attribute ou]\<rparr>"

definition move_group :: "group_id \<Rightarrow> string \<Rightarrow> update_group_request" where
  "move_group g ou =
     \<lparr>ugr_group_id = g, ugr_display_name = None, ugr_delete_attributes = [],
      ugr_insert_attributes = [ou_attribute ou]\<rparr>"

text \<open>Failures of the reassignment are only logged.\<close>

definition reassign_users_of_ou :: "'s backend \<Rightarrow> string \<Rightarrow> 's \<Rightarrow> 's" where
  "reassign_users_of_ou B name_lower w =
     (case b_list_users B w None False of
        Inl _ \<Rightarrow> w
      | Inr users \<Rightarrow>
          foldl (\<lambda>w1 x. if to_ascii_lowercase (stored_ou (u_attributes (ug_user x))) = name_lower
                      then snd (b_update_user B w1 (move_user (u_user_id (ug_user x)) ''people'')) else w1)
            w users)"

definition reassign_groups_of_ou :: "'s backend \<Rightarrow> string \<Rightarrow> 's \<Rightarrow> 's" where
  "reassign_groups_of_ou B name_lower w =
     (case b_list_groups B w None of
        Inl _ \<Rightarrow> w
      | Inr groups \<Rightarrow>
          foldl (\<lambda>w1 g. if to_ascii_lowercase (stored_ou (g_attributes g)) = name_lower
                      then snd (b_update_group B w1 (move_group (g_id g) ''groups'')) else w1)
            w groups)"

definition has_children :: "string \<Rightarrow> string list \<Rightarrow> bool" where
  "has_children name_lower ous \<longleftrightarrow>
     list_ex (\<lambda>ou. case split_ou_name ou of
       (p, Some _) \<Rightarrow> to_ascii_lowercase p = name_lower | _ \<Rightarrow> False) ous"

definition mutation_delete_ou :: "gql_libs \<Rightarrow> 's gql_context \<Rightarrow> string \<Rightarrow> 's \<Rightarrow> unit gresult \<times> 's" where
  "mutation_delete_ou G c name =
     with_admin c ''Unauthorized OU deletion'' (\<lambda>B w.
       let name_lower = to_ascii_lowercase (trim name) in
       if name_lower \<in> {''people'', ''groups'', ''all''}
       then (Inl (FieldError (''Cannot delete built-in OU '' @ [CHR 0x27] @ ''people'' @ [CHR 0x27] @ '', ''
              @ [CHR 0x27] @ ''groups'' @ [CHR 0x27] @ '', or '' @ [CHR 0x27] @ ''All'' @ [CHR 0x27])), w)
       else pure_step (load_ous B w) (\<lambda>current w1.
         if has_children name_lower current
         then (Inl (FieldError (''Cannot delete primary OU '' @ [CHR 0x27] @ name @ [CHR 0x27]
                @ '' because it still contains secondary OUs. Delete the secondary OUs first.'')), w1)
         else save_ous G c (filter (\<lambda>o'. to_ascii_lowercase o' \<noteq> name_lower) current)
                (reassign_groups_of_ou B name_lower (reassign_users_of_ou B name_lower w1))) w)"

text \<open>A loop that ends with the first error and keeps what was done before it.\<close>

fun loop_until_error :: "('a \<Rightarrow> 's \<Rightarrow> unit gresult \<times> 's) \<Rightarrow> 'a list \<Rightarrow> 's \<Rightarrow> unit gresult \<times> 's" where
  "loop_until_error f [] w = (Inr (), w)"
| "loop_until_error f (x # xs) w = sbind (f x w) (\<lambda>_. loop_until_error f xs)"

definition mutation_change_user_ou ::
  "'s gql_context \<Rightarrow> string list \<Rightarrow> string \<Rightarrow> 's \<Rightarrow> unit gresult \<times> 's" where
  "mutation_change_user_ou c user_ids new_ou =
     with_admin c ''Unauthorized OU change'' (\<lambda>B w.
       if to_ascii_lowercase (trim new_ou) = ''all''
       then (Inl (FieldError (''Cannot move users to built-in OU '' @ [CHR 0x27] @ ''All'' @ [CHR 0x27])), w)
       else loop_until_error (\<lambda>u w1. described_call (''Failed to change OU for user '' @ u)
              (b_update_user B w1 (move_user (user_id_from u) new_ou))) user_ids w)"

definition mutation_change_group_ou ::
  "'s gql_context \<Rightarrow> group_id list \<Rightarrow> string \<Rightarrow> 's \<Rightarrow> unit gresult \<times> 's" where
  "mutation_change_group_ou c group_ids new_ou =
     with_admin c ''Unauthorized OU change'' (\<lambda>B w.
       if to_ascii_lowercase (trim new_ou) = ''all''
       then (Inl (FieldError (''Cannot move groups to built-in OU '' @ [CHR 0x27] @ ''All'' @ [CHR 0x27])), w)
       else loop_until_error (\<lambda>g w1. described_call (''Failed to change OU for group '' @ int_to_string g)
              (b_update_group B w1 (move_group g new_ou))) group_ids w)"

section \<open>Schema\<close>

text \<open>The shared body of \<open>add_user_attribute\<close> and \<open>add_group_attribute\<close>: the name must be unknown to the
  other list of the schema and consist of allowed characters.\<close>

definition check_new_attribute :: "attribute_list \<Rightarrow> string \<Rightarrow> string \<Rightarrow> unit gresult" where
  "check_new_attribute other kind name =
     (if get_by_name_or_alias other name \<noteq> None
      then Inl (FieldError (''Attribute '' @ [CHR 0x27] @ name @ [CHR 0x27] @ '' already exists in the '' @ kind
             @ '' schema. Duplicate names are not allowed across user and group attributes.''))
      else map_err (\<lambda>chars. FieldError (''Cannot create attribute with invalid name. Valid characters: a-z, A-Z, 0-9, and dash (-). Invalid chars found: '' @ chars))
             (validate_attribute_name name))"

definition mutation_add_user_attribute ::
  "'s gql_context \<Rightarrow> string \<Rightarrow> attribute_type \<Rightarrow> bool \<Rightarrow> bool \<Rightarrow> bool \<Rightarrow> 's \<Rightarrow> unit gresult \<times> 's" where
  "mutation_add_user_attribute c name typ is_list is_visible is_editable =
     with_admin c ''Unauthorized attribute creation'' (\<lambda>B w.
     pure_step (of_domain (b_get_schema B w)) (\<lambda>sch.
     pure_step (check_new_attribute (group_attributes sch) ''group'' name) (\<lambda>_ w1.
       backend_call (cb_add_user_attribute (gc_config c) w1
         \<lparr>ca_name = attribute_name_from name, ca_attribute_type = typ, ca_is_list = is_list,
          ca_is_visible = is_visible, ca_is_editable = is_editable\<rparr>))) w)"

definition mutation_add_group_attribute ::
  "'s gql_context \<Rightarrow> string \<Rightarrow> attribute_type \<Rightarrow> bool \<Rightarrow> bool \<Rightarrow> bool \<Rightarrow> 's \<Rightarrow> unit gresult \<times> 's" where
  "mutation_add_group_attribute c name typ is_list is_visible is_editable =
     with_admin c ''Unauthorized attribute creation'' (\<lambda>B w.
     pure_step (of_domain (b_get_schema B w)) (\<lambda>sch.
     pure_step (check_new_attribute (user_attributes sch) ''user'' name) (\<lambda>_ w1.
       backend_call (cb_add_group_attribute (gc_config c) w1
         \<lparr>ca_name = attribute_name_from name, ca_attribute_type = typ, ca_is_list = is_list,
          ca_is_visible = is_visible, ca_is_editable = is_editable\<rparr>))) w)"

definition check_attribute_deletion :: "attribute_list \<Rightarrow> attribute_name \<Rightarrow> unit gresult" where
  "check_attribute_deletion l name =
     rbind (ok_or (FieldError (''Attribute '' @ attr_str name @ '' is not defined in the schema''))
              (get_attribute_schema l (attr_str name))) (\<lambda>s.
       if as_is_hardcoded s
       then Inl (FieldError (''Permission denied: Attribute '' @ attr_str name @ '' cannot be deleted''))
       else Inr ())"

definition mutation_delete_user_attribute :: "'s gql_context \<Rightarrow> string \<Rightarrow> 's \<Rightarrow> unit gresult \<times> 's" where
  "mutation_delete_user_attribute c name =
     with_admin c ''Unauthorized attribute deletion'' (\<lambda>B w.
     pure_step (of_domain (b_get_schema B w)) (\<lambda>sch.
     pure_step (check_attribute_deletion (user_attributes sch) (attribute_name_from name)) (\<lambda>_ w1.
       backend_call (cb_delete_user_attribute (gc_config c) w1 (attribute_name_from name)))) w)"

definition mutation_delete_group_attribute :: "'s gql_context \<Rightarrow> string \<Rightarrow> 's \<Rightarrow> unit gresult \<times> 's" where
  "mutation_delete_group_attribute c name =
     with_admin c ''Unauthorized attribute deletion'' (\<lambda>B w.
     pure_step (of_domain (b_get_schema B w)) (\<lambda>sch.
     pure_step (check_attribute_deletion (group_attributes sch) (attribute_name_from name)) (\<lambda>_ w1.
       backend_call (cb_delete_group_attribute (gc_config c) w1 (attribute_name_from name)))) w)"

definition mutation_add_user_object_class :: "'s gql_context \<Rightarrow> string \<Rightarrow> 's \<Rightarrow> unit gresult \<times> 's" where
  "mutation_add_user_object_class c name =
     with_admin c ''Unauthorized object class addition'' (\<lambda>_ w.
       backend_call (cb_add_user_object_class (gc_config c) w name))"

definition mutation_add_group_object_class :: "'s gql_context \<Rightarrow> string \<Rightarrow> 's \<Rightarrow> unit gresult \<times> 's" where
  "mutation_add_group_object_class c name =
     with_admin c ''Unauthorized object class addition'' (\<lambda>_ w.
       backend_call (cb_add_group_object_class (gc_config c) w name))"

definition mutation_delete_user_object_class :: "'s gql_context \<Rightarrow> string \<Rightarrow> 's \<Rightarrow> unit gresult \<times> 's" where
  "mutation_delete_user_object_class c name =
     with_admin c ''Unauthorized object class deletion'' (\<lambda>_ w.
       backend_call (cb_delete_user_object_class (gc_config c) w name))"

definition mutation_delete_group_object_class :: "'s gql_context \<Rightarrow> string \<Rightarrow> 's \<Rightarrow> unit gresult \<times> 's" where
  "mutation_delete_group_object_class c name =
     with_admin c ''Unauthorized object class deletion'' (\<lambda>_ w.
       backend_call (cb_delete_group_object_class (gc_config c) w name))"

section \<open>Kerberos\<close>

definition decrypt_password :: "gql_libs \<Rightarrow> string \<Rightarrow> string option" where
  "decrypt_password G encrypted =
     Option.bind (lib_base64_decode (sl_libs (gl_sql G)) encrypted) (\<lambda>dec_data.
       Option.bind (gl_rsa_decrypt G dec_data) from_utf8)"

definition mutation_sync_kerberos_password ::
  "gql_libs \<Rightarrow> 's gql_context \<Rightarrow> 's kerberos \<Rightarrow> string \<Rightarrow> string \<Rightarrow> 's \<Rightarrow> bool gresult \<times> 's" where
  "mutation_sync_kerberos_password G c K user_id encrypted =
     with_writeable c (user_id_from user_id) ''Unauthorized Kerberos sync'' (\<lambda>B w.
     pure_step (ok_or (FieldError ''Kerberos password decryption failed'') (decrypt_password G encrypted)) (\<lambda>plain.
     pure_step (map_err (\<lambda>_. FieldError ''Failed to fetch user for Kerberos sync check'')
       (b_get_user_details B w (user_id_from user_id))) (\<lambda>u.
     pure_step (of_domain (b_get_schema B w)) (\<lambda>sch w1.
       let enabled = extract_kerberos_sync sch (u_attributes u);
           (r, w2) = (if enabled then sync_kerberos_principal K user_id plain w1 else (Inr (), w1))
       in case r of
            Inl _ \<Rightarrow> (Inl (FieldError ''Kerberos sync failed''), w2)
          | Inr _ \<Rightarrow> (Inr True, snd (b_ensure_kerberos_principal_consistency B w2 (user_id_from user_id) enabled))))) w)"

text \<open>The export of the service keytab (\<open>export_keytab_for_keycloak\<close> of \<open>crates/kerberos/src/lib.rs\<close>)
  over the administration of service keys and the program \<open>kadmin.local\<close>.\<close>

record 's keytab_tools =
  kt_remove_file :: "'s \<Rightarrow> string \<Rightarrow> 's"
  kt_set_random_key :: "'s \<Rightarrow> string \<Rightarrow> bool \<times> 's"
  kt_kadmin_local :: "'s \<Rightarrow> string \<Rightarrow> bool \<times> 's"

definition export_keytab_for_keycloak ::
  "'s kerberos \<Rightarrow> 's keytab_tools \<Rightarrow> string \<Rightarrow> 's \<Rightarrow> (unit + string) \<times> 's" where
  "export_keytab_for_keycloak K T hostname_input w =
     (let realm = derive_realm_from_base_dn K;
          hostname = (if trim hostname_input = [] \<or> trim hostname_input = ''keycloak''
                      then ''keycloak.'' @ derive_domain_from_base_dn K else trim hostname_input);
          principal = ''HTTP/'' @ hostname @ ''@'' @ realm;
          keytab_path = ''/data/keytab/keycloak-http.keytab'' in
      if \<not> kadm_init K w ''/data/kadm5.keytab'' (''admin/admin@'' @ realm) realm then (Inl (), w)
      else (case kt_set_random_key T (kt_remove_file T w keytab_path) principal of
              (False, w1) \<Rightarrow> (Inl (), w1)
            | (True, w1) \<Rightarrow>
                (case kt_kadmin_local T w1 (''ktadd -k '' @ keytab_path
                        @ '' -e aes256-cts-hmac-sha1-96:normal,aes128-cts-hmac-sha1-96:normal '' @ principal) of
                   (False, w2) \<Rightarrow> (Inl (), w2) | (True, w2) \<Rightarrow> (Inr keytab_path, w2))))"

text \<open>The mutation does not look at its context.\<close>

definition mutation_export_keytab ::
  "'s gql_context \<Rightarrow> 's kerberos \<Rightarrow> 's keytab_tools \<Rightarrow> string \<Rightarrow> 's \<Rightarrow> (bool \<times> string) gresult \<times> 's" where
  "mutation_export_keytab c K T hostname w =
     (case export_keytab_for_keycloak K T hostname w of
        (Inr path, w1) \<Rightarrow> (Inr (True, path), w1) | (Inl _, w1) \<Rightarrow> (Inr (False, []), w1))"

section \<open>POSIX settings\<close>

definition posix_range :: "int \<Rightarrow> bool" where
  "posix_range n \<longleftrightarrow> 3000 \<le> n \<and> n \<le> 60000"

definition check_posix_settings :: "posix_settings \<Rightarrow> unit gresult" where
  "check_posix_settings s =
     (if user_uidnumber_assign s \<and> \<not> (posix_range (user_uidnumber_start s) \<and> posix_range (user_uidnumber_max s))
      then Inl (FieldError ''user_uidnumber must be between 3000 and 60000'')
      else if user_gidnumber_assign s \<and> \<not> posix_range (user_gidnumber_start s)
      then Inl (FieldError ''user_gidnumber_start must be between 3000 and 60000'')
      else if group_gidnumber_assign s \<and> \<not> (posix_range (group_gidnumber_start s) \<and> posix_range (group_gidnumber_max s))
      then Inl (FieldError ''group_gidnumber must be between 3000 and 60000'')
      else Inr ())"

text \<open>The ranges are checked before the permission.\<close>

definition mutation_set_posix_settings :: "'s gql_context \<Rightarrow> posix_settings \<Rightarrow> 's \<Rightarrow> unit gresult \<times> 's" where
  "mutation_set_posix_settings c s =
     pure_step (check_posix_settings s) (\<lambda>_.
     with_admin c ''Unauthorized POSIX settings change'' (\<lambda>_ w.
       described_call ''Failed to save POSIX settings'' (cb_set_posix_settings (gc_config c) w s)))"

definition mutation_reassign_user_uid_numbers :: "'s gql_context \<Rightarrow> 's \<Rightarrow> unit gresult \<times> 's" where
  "mutation_reassign_user_uid_numbers c =
     with_admin c ''Unauthorized uidNumber reassign'' (\<lambda>_ w.
       described_call ''Failed to reassign user uidNumbers'' (cb_reassign_user_uid_numbers (gc_config c) w))"

definition mutation_reassign_user_gid_numbers :: "'s gql_context \<Rightarrow> 's \<Rightarrow> unit gresult \<times> 's" where
  "mutation_reassign_user_gid_numbers c =
     with_admin c ''Unauthorized gidNumber reassign'' (\<lambda>_ w.
       described_call ''Failed to reassign user gidNumbers'' (cb_reassign_user_gid_numbers (gc_config c) w))"

definition mutation_reassign_user_homedirectories :: "'s gql_context \<Rightarrow> 's \<Rightarrow> unit gresult \<times> 's" where
  "mutation_reassign_user_homedirectories c =
     with_admin c ''Unauthorized homeDirectory reassign'' (\<lambda>_ w.
       described_call ''Failed to reassign user homeDirectories'' (cb_reassign_user_homedirectories (gc_config c) w))"

definition mutation_reassign_user_loginshells :: "'s gql_context \<Rightarrow> 's \<Rightarrow> unit gresult \<times> 's" where
  "mutation_reassign_user_loginshells c =
     with_admin c ''Unauthorized loginShell reassign'' (\<lambda>_ w.
       described_call ''Failed to reassign user loginShells'' (cb_reassign_user_loginshells (gc_config c) w))"

definition mutation_reassign_gid_numbers :: "'s gql_context \<Rightarrow> 's \<Rightarrow> unit gresult \<times> 's" where
  "mutation_reassign_gid_numbers c =
     with_admin c ''Unauthorized gidNumber reassign'' (\<lambda>_ w.
       described_call ''Failed to reassign gidNumbers'' (cb_reassign_gid_numbers (gc_config c) w))"

end
