(* ===== verification/Graphql_Directory.thy ===== *)
theory Graphql_Directory
  imports Graphql_Mutation Directory
begin

text \<open>
  The GraphQL server on the SQL backend: the mutations of the directory as one type of requests, what every mutation
  may do to the world, and what its checks guarantee.
\<close>

section \<open>The server\<close>

definition sql_config :: "sql_libs \<Rightarrow> 'k world config_backend" where
  "sql_config Q =
     \<lparr>cb_add_user_attribute = (\<lambda>w r. execute (add_user_attribute r) w),
      cb_add_group_attribute = (\<lambda>w r. execute (add_group_attribute r) w),
      cb_delete_user_attribute = (\<lambda>w n. execute (delete_user_attribute n) w),
      cb_delete_group_attribute = (\<lambda>w n. execute (delete_group_attribute n) w),
      cb_add_user_object_class = (\<lambda>w n. execute (add_user_object_class n) w),
      cb_add_group_object_class = (\<lambda>w n. execute (add_group_object_class n) w),
      cb_delete_user_object_class = (\<lambda>w n. execute (delete_user_object_class n) w),
      cb_delete_group_object_class = (\<lambda>w n. execute (delete_group_object_class n) w),
      cb_set_system_config = (\<lambda>w k v. execute (set_system_config k v) w),
      cb_get_posix_settings = (\<lambda>w. get_posix_settings Q (w_db w)),
      cb_set_posix_settings = (\<lambda>w s. execute (set_posix_settings Q s) w),
      cb_reassign_user_uid_numbers = reassign_user_uid_numbers Q,
      cb_reassign_user_gid_numbers = reassign_user_gid_numbers Q,
      cb_reassign_user_homedirectories = reassign_user_homedirectories Q,
      cb_reassign_user_loginshells = reassign_user_loginshells Q,
      cb_reassign_gid_numbers = reassign_gid_numbers Q\<rparr>"

definition sql_context ::
  "sql_libs \<Rightarrow> 'k kerberos \<Rightarrow> opaque_server \<Rightarrow> validation_results \<Rightarrow> 'k world gql_context" where
  "sql_context Q K P v =
     \<lparr>gc_handler = sql_backend Q (lift_kerberos K) P, gc_config = sql_config Q, gc_validation_result = v\<rparr>"

text \<open>The mutations that act on the directory and the KDC. The three others of the mutation root, which drive
  Keycloak and never touch the directory, are added to them in the theory \<open>Graphql_Root\<close>.\<close>

datatype gql_mutation =
    MCreateUser create_user_input
  | MSetUserPassword string string
  | MCreateGroup create_group_input
  | MUpdateUser update_user_input
  | MUpdateGroup update_group_input
  | MAddUserToGroup string group_id
  | MRemoveUserFromGroup string group_id
  | MDeleteUser string
  | MDeleteGroup group_id
  | MCreateOu string
  | MDeleteOu string
  | MChangeUserOu "string list" string
  | MChangeGroupOu "group_id list" string
  | MAddUserAttribute string attribute_type bool bool bool
  | MAddGroupAttribute string attribute_type bool bool bool
  | MDeleteUserAttribute string
  | MDeleteGroupAttribute string
  | MAddUserObjectClass string
  | MAddGroupObjectClass string
  | MDeleteUserObjectClass string
  | MDeleteGroupObjectClass string
  | MSyncKerberosPassword string string
  | MExportKeytab string
  | MSetPosixSettings posix_settings
  | MReassignUserUids
  | MReassignUserGids
  | MReassignHomes
  | MReassignShells
  | MReassignGroupGids

record 's gql_env =
  ge_libs :: gql_libs
  ge_opaque :: opaque_client
  ge_kerberos :: "'s kerberos"
  ge_keytab :: "'s keytab_tools"

definition forget :: "'a gresult \<times> 's \<Rightarrow> unit gresult \<times> 's" where
  "forget r = (rmap (\<lambda>_. ()) (fst r), snd r)"

fun run_mutation :: "'s gql_env \<Rightarrow> 's gql_context \<Rightarrow> gql_mutation \<Rightarrow> 's \<Rightarrow> unit gresult \<times> 's" where
  "run_mutation E c (MCreateUser i) w = forget (mutation_create_user (ge_libs E) c i w)"
| "run_mutation E c (MSetUserPassword u p) w =
     mutation_set_user_password c (ge_opaque E) (ge_kerberos E) u p w"
| "run_mutation E c (MCreateGroup i) w = forget (mutation_create_group (ge_libs E) c i w)"
| "run_mutation E c (MUpdateUser i) w = mutation_update_user (ge_libs E) c i w"
| "run_mutation E c (MUpdateGroup i) w = mutation_update_group (ge_libs E) c i w"
| "run_mutation E c (MAddUserToGroup u g) w = mutation_add_user_to_group c u g w"
| "run_mutation E c (MRemoveUserFromGroup u g) w = mutation_remove_user_from_group c u g w"
| "run_mutation E c (MDeleteUser u) w = mutation_delete_user c u w"
| "run_mutation E c (MDeleteGroup g) w = mutation_delete_group c g w"
| "run_mutation E c (MCreateOu n) w = mutation_create_ou (ge_libs E) c n w"
| "run_mutation E c (MDeleteOu n) w = mutation_delete_ou (ge_libs E) c n w"
| "run_mutation E c (MChangeUserOu us n) w = mutation_change_user_ou c us n w"
| "run_mutation E c (MChangeGroupOu gs n) w = mutation_change_group_ou c gs n w"
| "run_mutation E c (MAddUserAttribute n t l v e) w = mutation_add_user_attribute c n t l v e w"
| "run_mutation E c (MAddGroupAttribute n t l v e) w = mutation_add_group_attribute c n t l v e w"
| "run_mutation E c (MDeleteUserAttribute n) w = mutation_delete_user_attribute c n w"
| "run_mutation E c (MDeleteGroupAttribute n) w = mutation_delete_group_attribute c n w"
| "run_mutation E c (MAddUserObjectClass n) w = mutation_add_user_object_class c n w"
| "run_mutation E c (MAddGroupObjectClass n) w = mutation_add_group_object_class c n w"
| "run_mutation E c (MDeleteUserObjectClass n) w = mutation_delete_user_object_class c n w"
| "run_mutation E c (MDeleteGroupObjectClass n) w = mutation_delete_group_object_class c n w"
| "run_mutation E c (MSyncKerberosPassword u p) w =
     forget (mutation_sync_kerberos_password (ge_libs E) c (ge_kerberos E) u p w)"
| "run_mutation E c (MExportKeytab h) w =
     forget (mutation_export_keytab c (ge_kerberos E) (ge_keytab E) h w)"
| "run_mutation E c (MSetPosixSettings s) w = mutation_set_posix_settings c s w"
| "run_mutation E c MReassignUserUids w = mutation_reassign_user_uid_numbers c w"
| "run_mutation E c MReassignUserGids w = mutation_reassign_user_gid_numbers c w"
| "run_mutation E c MReassignHomes w = mutation_reassign_user_homedirectories c w"
| "run_mutation E c MReassignShells w = mutation_reassign_user_loginshells c w"
| "run_mutation E c MReassignGroupGids w = mutation_reassign_gid_numbers c w"

section \<open>Authorisation\<close>

text \<open>Who may ask for what: a user himself for three mutations, anybody for the keytab, an
  administrator for everything.\<close>

fun mutation_allowed :: "validation_results \<Rightarrow> gql_mutation \<Rightarrow> bool" where
  "mutation_allowed v (MSetUserPassword u p) = can_write v (user_id_from u)"
| "mutation_allowed v (MUpdateUser i) = can_write v (user_id_from (uui_id i))"
| "mutation_allowed v (MSyncKerberosPassword u p) = can_write v (user_id_from u)"
| "mutation_allowed v (MExportKeytab h) = True"
| "mutation_allowed v m = is_admin v"

lemma refused_admin:
  "\<not> is_admin (gc_validation_result c) \<Longrightarrow> with_admin c m f w = (Inl (FieldError m), w)"
  by (simp add: with_admin_def ctx_admin_handler_def get_admin_handler_def)

lemma refused_writer:
  "\<not> can_write (gc_validation_result c) u \<Longrightarrow> with_writeable c u m f w = (Inl (FieldError m), w)"
  by (simp add: with_writeable_def ctx_writeable_handler_def get_writeable_handler_def)

lemma forget_simps [simp]: "snd (forget r) = snd r" "forget (Inl e, w) = (Inl e, w)"
  by (simp_all add: forget_def)

lemmas mutation_defs =
  mutation_create_user_def mutation_set_user_password_def mutation_create_group_def
  mutation_update_user_def mutation_update_group_def mutation_add_user_to_group_def
  mutation_remove_user_from_group_def mutation_delete_user_def mutation_delete_group_def
  mutation_create_ou_def mutation_delete_ou_def mutation_change_user_ou_def mutation_change_group_ou_def
  mutation_add_user_attribute_def mutation_add_group_attribute_def mutation_delete_user_attribute_def
  mutation_delete_group_attribute_def mutation_add_user_object_class_def
  mutation_add_group_object_class_def mutation_delete_user_object_class_def
  mutation_delete_group_object_class_def mutation_sync_kerberos_password_def
  mutation_set_posix_settings_def mutation_reassign_user_uid_numbers_def
  mutation_reassign_user_gid_numbers_def mutation_reassign_user_homedirectories_def
  mutation_reassign_user_loginshells_def mutation_reassign_gid_numbers_def

lemma mutation_refused:
  assumes "\<not> mutation_allowed (gc_validation_result c) m"
  shows "\<exists>e. run_mutation E c m w = (Inl (FieldError e), w)"
  using assms
  by (cases m)
    (simp_all add: mutation_defs refused_admin refused_writer pure_step_def check_posix_settings_def)

section \<open>Mutations as operations of the backend\<close>

text \<open>A relation between worlds that is reflexive and transitive and that every operation of the
  backend and every act of the KDC respects is respected by every mutation, whichever operations
  the mutation performs and wherever it stops.\<close>

locale mutation_relation =
  fixes c :: "'s gql_context" and E :: "'s gql_env" and R :: "'s \<Rightarrow> 's \<Rightarrow> bool"
  assumes R_refl: "R w w"
    and R_trans: "R w1 w2 \<Longrightarrow> R w2 w3 \<Longrightarrow> R w1 w3"
    and create_user_R: "R w (snd (b_create_user (gc_handler c) w cu))"
    and update_user_R: "R w (snd (b_update_user (gc_handler c) w uu))"
    and delete_user_R: "R w (snd (b_delete_user (gc_handler c) w u))"
    and add_to_group_R: "R w (snd (b_add_user_to_group (gc_handler c) w u g))"
    and remove_from_group_R: "R w (snd (b_remove_user_from_group (gc_handler c) w u g))"
    and create_group_R: "R w (snd (b_create_group (gc_handler c) w cg))"
    and update_group_R: "R w (snd (b_update_group (gc_handler c) w ug))"
    and delete_group_R: "R w (snd (b_delete_group (gc_handler c) w g))"
    and consistency_R: "R w (snd (b_ensure_kerberos_principal_consistency (gc_handler c) w u e))"
    and registration_R: "R w (snd (b_registration_finish (gc_handler c) w rf))"
    and add_user_attribute_R: "R w (snd (cb_add_user_attribute (gc_config c) w ca))"
    and add_group_attribute_R: "R w (snd (cb_add_group_attribute (gc_config c) w ca))"
    and delete_user_attribute_R: "R w (snd (cb_delete_user_attribute (gc_config c) w an))"
    and delete_group_attribute_R: "R w (snd (cb_delete_group_attribute (gc_config c) w an))"
    and add_user_class_R: "R w (snd (cb_add_user_object_class (gc_config c) w n))"
    and add_group_class_R: "R w (snd (cb_add_group_object_class (gc_config c) w n))"
    and delete_user_class_R: "R w (snd (cb_delete_user_object_class (gc_config c) w n))"
    and delete_group_class_R: "R w (snd (cb_delete_group_object_class (gc_config c) w n))"
    and set_config_R: "R w (snd (cb_set_system_config (gc_config c) w n n'))"
    and set_posix_R: "R w (snd (cb_set_posix_settings (gc_config c) w ps))"
    and reassign_uids_R: "R w (snd (cb_reassign_user_uid_numbers (gc_config c) w))"
    and reassign_gids_R: "R w (snd (cb_reassign_user_gid_numbers (gc_config c) w))"
    and reassign_homes_R: "R w (snd (cb_reassign_user_homedirectories (gc_config c) w))"
    and reassign_shells_R: "R w (snd (cb_reassign_user_loginshells (gc_config c) w))"
    and reassign_group_gids_R: "R w (snd (cb_reassign_gid_numbers (gc_config c) w))"
    and sync_R: "R w (snd (sync_kerberos_principal (ge_kerberos E) n n' w))"
    and keytab_R: "R w (snd (export_keytab_for_keycloak (ge_kerberos E) (ge_keytab E) n w))"
begin

lemma with_admin_R: "(\<And>w. R w (snd (f (gc_handler c) w))) \<Longrightarrow> R w (snd (with_admin c m f w))"
  using R_refl by (simp add: with_admin_def ctx_admin_handler_def get_admin_handler_def)

lemma with_writeable_R: "(\<And>w. R w (snd (f (gc_handler c) w))) \<Longrightarrow> R w (snd (with_writeable c u m f w))"
  using R_refl by (simp add: with_writeable_def ctx_writeable_handler_def get_writeable_handler_def)

lemma pure_step_R: "(\<And>x w. R w (snd (f x w))) \<Longrightarrow> R w (snd (pure_step r f w))"
  using R_refl by (simp add: pure_step_def split: sum.split)

lemma sbind_R: "R w (snd p) \<Longrightarrow> (\<And>x w. R w (snd (f x w))) \<Longrightarrow> R w (snd (sbind p f))"
  using R_trans by (cases p; cases "fst p") auto

lemma calls_R: "R w (snd p) \<Longrightarrow> R w (snd (backend_call p))" "R w (snd q) \<Longrightarrow> R w (snd (described_call m q))"
  by (simp_all add: backend_call_def described_call_def)

lemma sync_enabled_R: "R w (snd (sync_kerberos_if_enabled (ge_kerberos E) e n n' w))"
  using sync_R R_refl by (simp add: sync_kerberos_if_enabled_def)

lemma foldl_R: "(\<And>x w. R w (f w x)) \<Longrightarrow> R w (foldl f w xs)"
  by (induction xs arbitrary: w) (auto intro: R_refl R_trans)

lemma loop_R: "(\<And>x w. R w (snd (f x w))) \<Longrightarrow> R w (snd (loop_until_error f xs w))"
  by (induction xs arbitrary: w) (auto intro: R_refl sbind_R)

lemma reassign_ou_R:
  "R w (reassign_users_of_ou (gc_handler c) n w)" "R w (reassign_groups_of_ou (gc_handler c) n w)"
  by (auto simp: reassign_users_of_ou_def reassign_groups_of_ou_def R_refl update_user_R update_group_R
      intro: foldl_R split: sum.split)

lemmas operation_R =
  create_user_R update_user_R delete_user_R add_to_group_R remove_from_group_R create_group_R
  update_group_R delete_group_R consistency_R registration_R add_user_attribute_R add_group_attribute_R
  delete_user_attribute_R delete_group_attribute_R add_user_class_R add_group_class_R
  delete_user_class_R delete_group_class_R set_config_R set_posix_R reassign_uids_R reassign_gids_R
  reassign_homes_R reassign_shells_R reassign_group_gids_R

lemmas combinator_R = with_admin_R with_writeable_R pure_step_R sbind_R calls_R loop_R operation_R

lemma plain_mutations_R:
  "R w (snd (mutation_update_user G c uui w))" "R w (snd (mutation_update_group G c ugi w))"
  "R w (snd (mutation_add_user_to_group c n g w))" "R w (snd (mutation_remove_user_from_group c n g w))"
  "R w (snd (mutation_delete_group c g w))" "R w (snd (mutation_add_user_attribute c n t l vis ed w))"
  "R w (snd (mutation_add_group_attribute c n t l vis ed w))" "R w (snd (mutation_delete_user_attribute c n w))"
  "R w (snd (mutation_delete_group_attribute c n w))" "R w (snd (mutation_add_user_object_class c n w))"
  "R w (snd (mutation_add_group_object_class c n w))" "R w (snd (mutation_delete_user_object_class c n w))"
  "R w (snd (mutation_delete_group_object_class c n w))" "R w (snd (mutation_set_posix_settings c ps w))"
  "R w (snd (mutation_reassign_user_uid_numbers c w))" "R w (snd (mutation_reassign_user_gid_numbers c w))"
  "R w (snd (mutation_reassign_user_homedirectories c w))" "R w (snd (mutation_reassign_user_loginshells c w))"
  "R w (snd (mutation_reassign_gid_numbers c w))"
  unfolding mutation_defs by (intro combinator_R)+

lemma done_R: "R w (snd (x, w))"
  by (simp add: R_refl)

lemma create_mutations_R: "R w (snd (mutation_create_user G c cui w))" "R w (snd (mutation_create_group G c cgi w))"
  unfolding mutation_defs Let_def case_prod_unfold by (intro combinator_R done_R)+

lemma set_password_R: "R w (snd (mutation_set_user_password c C (ge_kerberos E) n n' w))"
proof -
  have "R w1 (snd (Inr (), snd (b_ensure_kerberos_principal_consistency (gc_handler c)
      (snd (sync_kerberos_if_enabled (ge_kerberos E) e n n' w1)) u e)))" for w1 e u
    using R_trans [OF sync_enabled_R consistency_R] by simp
  then show ?thesis unfolding mutation_defs Let_def case_prod_unfold by (intro combinator_R)
qed

lemma sync_password_R: "R w (snd (mutation_sync_kerberos_password G c (ge_kerberos E) n n' w))"
proof -
  have "R w1 (snd (case (if e then sync_kerberos_principal (ge_kerberos E) n p w1 else (Inr (), w1)) of
      (r, w2) \<Rightarrow> case r of Inl _ \<Rightarrow> (Inl (FieldError m), w2)
        | Inr _ \<Rightarrow> (Inr True, snd (b_ensure_kerberos_principal_consistency (gc_handler c) w2 u e))))" for w1 e p m u
    using sync_R [of w1 n p] consistency_R R_trans
    by (cases "sync_kerberos_principal (ge_kerberos E) n p w1") (auto split: sum.split)
  then show ?thesis unfolding mutation_defs Let_def by (intro with_writeable_R pure_step_R)
qed

lemma ou_mutations_R:
  "R w (snd (mutation_create_ou G c n w))" "R w (snd (mutation_delete_ou G c n w))"
  "R w (snd (mutation_change_user_ou c ns n w))" "R w (snd (mutation_change_group_ou c gs n w))"
proof -
  have "R w1 (snd (save_ous G c ous (reassign_groups_of_ou (gc_handler c) m (reassign_users_of_ou (gc_handler c) m w1))))"
    for w1 ous m
    unfolding save_ous_def by (blast intro: calls_R R_trans reassign_ou_R set_config_R)
  then show "R w (snd (mutation_delete_ou G c n w))"
    unfolding mutation_defs Let_def by (intro with_admin_R) (auto simp: R_refl intro!: pure_step_R)
  show "R w (snd (mutation_create_ou G c n w))"
    unfolding mutation_defs save_ous_def by (intro combinator_R)
  show "R w (snd (mutation_change_user_ou c ns n w))" "R w (snd (mutation_change_group_ou c gs n w))"
    unfolding mutation_defs
    by (intro with_admin_R; auto simp: R_refl intro!: loop_R calls_R update_user_R update_group_R)+
qed

lemma other_mutations_R:
  "R w (snd (mutation_delete_user c n w))"
  "R w (snd (mutation_export_keytab c (ge_kerberos E) (ge_keytab E) n w))"
proof -
  show "R w (snd (mutation_delete_user c n w))"
    unfolding mutation_defs by (intro with_admin_R) (auto simp: R_refl intro!: calls_R delete_user_R)
  show "R w (snd (mutation_export_keytab c (ge_kerberos E) (ge_keytab E) n w))"
    using keytab_R [of w n] by (auto simp: mutation_export_keytab_def split: prod.split sum.split)
qed

lemma run_mutation_R: "R w (snd (run_mutation E c m w))"
  by (cases m)
    (simp_all add: plain_mutations_R create_mutations_R set_password_R sync_password_R ou_mutations_R other_mutations_R)

end

section \<open>Histories\<close>

lemma history_trans: "history Q K P w1 w2 \<Longrightarrow> history Q K P w0 w1 \<Longrightarrow> history Q K P w0 w2"
  by (induction rule: history.induct) (auto intro: history.intros)

lemma history_one: "history Q K P w (run_op Q K P op w)"
  by (rule history_op [OF history_start])

text \<open>The files and service keys that the keytab export changes belong to the outside, like the KDC.\<close>

definition lift_keytab :: "'k keytab_tools \<Rightarrow> 'k world keytab_tools" where
  "lift_keytab T =
     \<lparr>kt_remove_file = (\<lambda>w f. w\<lparr>w_kdc := kt_remove_file T (w_kdc w) f\<rparr>),
      kt_set_random_key = (\<lambda>w n. let (b, k) = kt_set_random_key T (w_kdc w) n in (b, w\<lparr>w_kdc := k\<rparr>)),
      kt_kadmin_local = (\<lambda>w n. let (b, k) = kt_kadmin_local T (w_kdc w) n in (b, w\<lparr>w_kdc := k\<rparr>))\<rparr>"

definition sql_env :: "gql_libs \<Rightarrow> opaque_client \<Rightarrow> 'k kerberos \<Rightarrow> 'k keytab_tools \<Rightarrow> 'k world gql_env" where
  "sql_env G C K T =
     \<lparr>ge_libs = G, ge_opaque = C, ge_kerberos = lift_kerberos K, ge_keytab = lift_keytab T\<rparr>"

lemma history_kdc: "w_db w' = w_db w \<Longrightarrow> w_now w' = w_now w \<Longrightarrow> history Q K P w w'"
  using history_outside [OF history_start, of Q K P w "w_now w'" "w_kdc w'"] by (cases w; cases w') simp

lemma keytab_frame:
  "w_db (snd (export_keytab_for_keycloak (lift_kerberos K) (lift_keytab T) n w)) = w_db w"
  "w_now (snd (export_keytab_for_keycloak (lift_kerberos K) (lift_keytab T) n w)) = w_now w"
  by (auto simp: export_keytab_for_keycloak_def lift_keytab_def Let_def split: prod.splits bool.splits)

lemmas history_ops =
  history_one [of _ _ _ _ "OpCreateUser r" for r, unfolded run_op_simps]
  history_one [of _ _ _ _ "OpUpdateUser r" for r, unfolded run_op_simps]
  history_one [of _ _ _ _ "OpDeleteUser u" for u, unfolded run_op_simps]
  history_one [of _ _ _ _ "OpAddToGroup u g" for u g, unfolded run_op_simps]
  history_one [of _ _ _ _ "OpRemoveFromGroup u g" for u g, unfolded run_op_simps]
  history_one [of _ _ _ _ "OpCreateGroup r" for r, unfolded run_op_simps]
  history_one [of _ _ _ _ "OpUpdateGroup r" for r, unfolded run_op_simps]
  history_one [of _ _ _ _ "OpDeleteGroup g" for g, unfolded run_op_simps]
  history_one [of _ _ _ _ "OpEnsureKerberos u e" for u e, unfolded run_op_simps]
  history_one [of _ _ _ _ "OpRegistrationFinish s m" for s m, unfolded run_op_simps]
  history_one [of _ _ _ _ "OpAddUserAttribute r" for r, unfolded run_op_simps]
  history_one [of _ _ _ _ "OpAddGroupAttribute r" for r, unfolded run_op_simps]
  history_one [of _ _ _ _ "OpDeleteUserAttribute n" for n, unfolded run_op_simps]
  history_one [of _ _ _ _ "OpDeleteGroupAttribute n" for n, unfolded run_op_simps]
  history_one [of _ _ _ _ "OpAddUserObjectClass n" for n, unfolded run_op_simps]
  history_one [of _ _ _ _ "OpAddGroupObjectClass n" for n, unfolded run_op_simps]
  history_one [of _ _ _ _ "OpDeleteUserObjectClass n" for n, unfolded run_op_simps]
  history_one [of _ _ _ _ "OpDeleteGroupObjectClass n" for n, unfolded run_op_simps]
  history_one [of _ _ _ _ "OpSetSystemConfig k v" for k v, unfolded run_op_simps]
  history_one [of _ _ _ _ "OpSetPosixSettings s" for s, unfolded run_op_simps]
  history_one [of _ _ _ _ "OpReassignGroupGids", unfolded run_op_simps]
  history_one [of _ _ _ _ "OpReassignUserUids", unfolded run_op_simps]
  history_one [of _ _ _ _ "OpReassignUserGids", unfolded run_op_simps]
  history_one [of _ _ _ _ "OpReassignHomes", unfolded run_op_simps]
  history_one [of _ _ _ _ "OpReassignShells", unfolded run_op_simps]

lemma history_registration: "history Q K P w (snd (registration_finish P rf w))"
  using history_one [of Q K P w "OpRegistrationFinish (fst rf) (snd rf)"] by simp

lemma history_sync: "history Q K P w (snd (sync_kerberos_principal (lift_kerberos K) u p w))"
  using kdc.sync_principal_inv [of w "w_db w" "w_now w" K u p] by (intro history_kdc) simp_all

interpretation sql_mutations: mutation_relation "sql_context Q K P v" "sql_env G C K T" "history Q K P"
  for Q K P v G C T
proof unfold_locales
  fix w1 w2 w3
  show "history Q K P w1 w2 \<Longrightarrow> history Q K P w2 w3 \<Longrightarrow> history Q K P w1 w3"
    by (rule history_trans)
qed (simp_all add: sql_context_def sql_backend_def sql_config_def sql_env_def history_start history_ops
    history_registration history_sync history_kdc keytab_frame)

text \<open>C6: The GraphQL server acts on the directory only through the operations of the backend: what a
  mutation does to the world, by whomever it is asked and wherever it fails, is a history of backend
  operations and acts of the KDC. So the directory keeps its invariant under every sequence of
  mutations.\<close>

theorem mutation_is_history:
  "history Q K P w (snd (run_mutation (sql_env G C K T) (sql_context Q K P v) m w))
   \<and> (guarded (w_db w) \<longrightarrow>
        guarded (w_db (snd (foldl (\<lambda>r (v', m'). run_mutation (sql_env G C K T) (sql_context Q K P v') m' (snd r))
          (Inr (), w) requests))))"
proof -
  have guard: "guarded (w_db w2)" if "history Q K P w1 w2" "guarded (w_db w1)" for w1 w2
    using that by (induction rule: history.induct) (simp_all add: run_op_guarded)
  have "guarded (w_db (snd (foldl (\<lambda>r (v', m'). run_mutation (sql_env G C K T) (sql_context Q K P v') m' (snd r))
      x requests)))" if "guarded (w_db (snd x))" for x
    using that
  proof (induction requests arbitrary: x)
    case (Cons q qs)
    then show ?case using guard [OF sql_mutations.run_mutation_R] by (cases q) simp
  qed simp
  then show ?thesis using sql_mutations.run_mutation_R by fastforce
qed

section \<open>Attributes that a user writes himself\<close>

lemma deserialized_attribute:
  assumes "gql_deserialize_attribute G l a admin = Inr b"
  shows "\<exists>s. get_attribute_schema l (attr_str (attr_name b)) = Some s \<and> \<not> as_is_readonly s
    \<and> (admin \<or> as_is_editable s)
    \<and> (\<exists>bytes. attr_value b = deserialize_db_value (gl_sql G) bytes (as_attribute_type s) (as_is_list s))"
  using assms
  by (auto simp: gql_deserialize_attribute_def Let_def rbind_eq_Inr rmap_eq_Inr ok_or_eq_Inr split: if_splits)

lemma unpacked_attribute:
  assumes "unpack_attributes G attrs sch admin = Inr r" and "b \<in> set (ua_attributes r)"
  obtains a where "gql_deserialize_attribute G (user_attributes sch) a admin = Inr b"
proof -
  obtain bs where "collect_results (map (\<lambda>a. gql_deserialize_attribute G (user_attributes sch) a admin)
      (filter (\<lambda>a. canonical_name (user_attributes sch) (ai_name a) \<noteq> ''mail''
         \<and> canonical_name (user_attributes sch) (ai_name a) \<noteq> ''displayname'') attrs)) = Inr bs"
    and "ua_attributes r = bs"
    using assms(1) unfolding unpack_attributes_def Let_def rbind_eq_Inr by fastforce
  from collect_results_in [OF this(1)] this(2) assms(2) that show thesis by metis
qed

text \<open>C25: A user who is not an administrator writes only attributes that the schema lets users edit:
  every attribute that \<open>update_user\<close> hands to the backend for insertion is known to the schema and is
  not read-only, and it is editable unless the caller is an administrator.\<close>

theorem update_inserts_editable:
  assumes "update_user_request_of G sch admin inp = Inr request"
    and "b \<in> set (uu_insert_attributes request)"
  shows "\<exists>s. get_attribute_schema (user_attributes sch) (attr_str (attr_name b)) = Some s
    \<and> \<not> as_is_readonly s \<and> (admin \<or> as_is_editable s)"
proof -
  obtain attrs r where "unpack_attributes G attrs sch admin = Inr r" "b \<in> set (ua_attributes r)"
    using assms by (auto simp: update_user_request_of_def Let_def rmap_eq_Inr)
  then show ?thesis using deserialized_attribute unpacked_attribute by metis
qed

text \<open>Removals are not checked. A caller who is not an administrator can have the backend delete any
  stored attribute of his own entry except \<open>ou\<close>, whether or not the schema lets users edit it: his
  uidnumber, for instance, which he may not write.\<close>

theorem removals_unchecked:
  "rmap uu_delete_attributes
     (update_user_request_of G public_schema_get False
       \<lparr>uui_id = u, uui_email = None, uui_display_name = None, uui_first_name = None, uui_last_name = None,
        uui_avatar = None, uui_remove_attributes = Some [''uidnumber''], uui_insert_attributes = None\<rparr>)
   = Inr [uidnumber]
   \<and> map_option as_is_editable (get_attribute_schema (user_attributes public_schema_get) ''uidnumber'') = Some False"
proof -
  have "\<not> resolves_to_ou public_schema_get ''uidnumber''" by code_simp
  moreover have "map_option as_is_editable (get_attribute_schema (user_attributes public_schema_get) ''uidnumber'') = Some False"
    by code_simp
  moreover have "to_ascii_lowercase ''uidnumber'' \<noteq> ''displayname''" by code_simp
  ultimately show ?thesis
    by (simp add: update_user_request_of_def consolidate_attributes_def add_field_def unpack_attributes_def
        unpack_field_def)
qed

text \<open>Nobody is asked who he is when the keytab of the Keycloak service is exported: the mutation
  does the same for every caller, and draws a new key for the principal it builds from the
  caller's text.\<close>

theorem keytab_export_unguarded:
  "run_mutation E (c\<lparr>gc_validation_result := v\<rparr>) (MExportKeytab h) w = run_mutation E c (MExportKeytab h) w"
  by (simp add: mutation_export_keytab_def)

section \<open>Panics\<close>

definition no_panic :: "'a gresult \<Rightarrow> bool" where
  "no_panic r \<longleftrightarrow> (\<forall>p. r \<noteq> Inl (GqlPanic p))"

lemma no_panic_simps [simp]:
  "no_panic (Inr x)" "no_panic (Inl (FieldError m))" "no_panic (of_domain d)"
  "no_panic (ok_or (FieldError m) z)" "no_panic (rmap f r) \<longleftrightarrow> no_panic r"
  "no_panic (map_err (\<lambda>e. FieldError (h e)) y)"
  by (auto simp: no_panic_def of_domain_def map_err_def ok_or_def rmap_def split: sum.splits option.splits)

lemma no_panic_rbind: "no_panic r \<Longrightarrow> (\<And>x. r = Inr x \<Longrightarrow> no_panic (f x)) \<Longrightarrow> no_panic (rbind r f)"
  by (cases r) (auto simp: no_panic_def)

lemma no_panic_collect: "(\<And>r. r \<in> set rs \<Longrightarrow> no_panic r) \<Longrightarrow> no_panic (collect_results rs)"
proof (induction rs)
  case (Cons r rs)
  then show ?case by (cases r) (auto simp: no_panic_def rmap_eq_Inl)
qed simp

lemma no_panic_with_admin: "(\<And>w. no_panic (fst (f (gc_handler c) w))) \<Longrightarrow> no_panic (fst (with_admin c m f w))"
  by (simp add: with_admin_def ctx_admin_handler_def get_admin_handler_def)

lemma no_panic_with_writeable:
  "(\<And>w. no_panic (fst (f (gc_handler c) w))) \<Longrightarrow> no_panic (fst (with_writeable c u m f w))"
  by (simp add: with_writeable_def ctx_writeable_handler_def get_writeable_handler_def)

lemma no_panic_pure_step:
  "no_panic r \<Longrightarrow> (\<And>x w. r = Inr x \<Longrightarrow> no_panic (fst (f x w))) \<Longrightarrow> no_panic (fst (pure_step r f w))"
  by (auto simp: pure_step_def no_panic_def split: sum.split)

lemma no_panic_sbind: "no_panic (fst p) \<Longrightarrow> (\<And>x w. no_panic (fst (f x w))) \<Longrightarrow> no_panic (fst (sbind p f))"
  by (cases p; cases "fst p") (auto simp: no_panic_def)

lemma no_panic_calls: "no_panic (fst (backend_call p))" "no_panic (fst (described_call m q))"
  by (simp_all add: backend_call_def described_call_def)

lemma no_panic_loop: "(\<And>x w. no_panic (fst (f x w))) \<Longrightarrow> no_panic (fst (loop_until_error f xs w))"
  by (induction xs arbitrary: w) (auto intro: no_panic_sbind)

lemma no_panic_forget: "no_panic (fst r) \<Longrightarrow> no_panic (fst (forget r))"
  by (simp add: forget_def)

lemma no_panic_fst: "no_panic x \<Longrightarrow> no_panic (fst (x, w))" by simp

lemmas no_panic_intros = no_panic_with_admin no_panic_with_writeable no_panic_pure_step no_panic_sbind
  no_panic_calls no_panic_loop no_panic_forget no_panic_fst no_panic_simps(1-4,6)

lemma deserialize_no_panic: "no_panic (gql_deserialize_attribute G l a admin)"
proof -
  have "no_panic (for_each (\<lambda>key _. map_err (\<lambda>m. FieldError (''Invalid SSH public key: '' @ m))
      (validate_ssh_public_key key)) vals ())" for vals
    by (induction vals) (auto intro!: no_panic_rbind)
  then have "no_panic (check_ssh_keys n s vals)" for n s vals by (simp add: check_ssh_keys_def)
  moreover have "no_panic (gql_serialized G n s vals)" for n s vals
    by (auto simp: gql_serialized_def avatar_bytes_def Let_def intro!: no_panic_rbind)
  ultimately show ?thesis
    unfolding gql_deserialize_attribute_def Let_def by (intro no_panic_rbind) (auto intro!: no_panic_rbind)
qed

lemma collect_attributes_no_panic:
  "no_panic (collect_results (map (\<lambda>a. gql_deserialize_attribute G l a admin) as))"
  by (rule no_panic_collect) (auto simp: deserialize_no_panic)

text \<open>The two fields whose value is unwrapped are single texts in every schema.\<close>

lemma public_text_fields:
  "list_all (\<lambda>n. attr_str (attribute_name_from n) = n
     \<and> map_option (\<lambda>s. (as_attribute_type s, as_is_list s))
         (get_by_name_or_alias (user_attributes public_schema_get) n) = Some (TString, False))
     [''mail'', ''displayname'']"
  by code_simp

lemma unpack_field_no_panic:
  assumes "get_schema_with_transaction Q d = Inr sch" and "n \<in> set [''mail'', ''displayname'']"
  shows "no_panic (unpack_field G (user_attributes sch) admin n attrs)"
proof -
  have n: "attr_str (attribute_name_from n) = n" "map_option (\<lambda>s. (as_attribute_type s, as_is_list s))
      (get_by_name_or_alias (user_attributes public_schema_get) n) = Some (TString, False)"
    using public_text_fields assms(2) unfolding list_all_iff by blast+
  then obtain s where "get_by_name_or_alias (user_attributes public_schema_get) n = Some s"
    and ty: "as_attribute_type s = TString" "\<not> as_is_list s" by auto
  then have s: "get_attribute_schema (user_attributes sch) n = Some s"
    unfolding get_attribute_schema_def get_schema_userD(1) [OF assms(1)] by (simp add: merge_attributes_lookup)
  have "no_panic (unwrap_string b)"
    if b: "gql_deserialize_attribute G (user_attributes sch) a admin = Inr b"
      and a: "canonical_name (user_attributes sch) (ai_name a) = n" for a b
  proof -
    have "attr_name b = attribute_name_from n"
      using that by (auto simp: gql_deserialize_attribute_def Let_def rbind_eq_Inr rmap_eq_Inr split: if_splits)
    then obtain bytes where "attr_value b = deserialize_db_value (gl_sql G) bytes TString False"
      using deserialized_attribute [OF b] n(1) s ty by auto
    then show ?thesis by (simp add: unwrap_string_def value_as_str_def deserialize_db_value_def)
  qed
  then show ?thesis
    by (auto simp: unpack_field_def dest: find_first_SomeD intro!: no_panic_rbind deserialize_no_panic
        split: option.split)
qed

lemma unpack_no_panic:
  assumes "get_schema_with_transaction Q d = Inr sch"
  shows "no_panic (unpack_attributes G attrs sch admin)"
  unfolding unpack_attributes_def Let_def
  by (intro no_panic_rbind unpack_field_no_panic [OF assms] collect_attributes_no_panic no_panic_simps) simp_all

lemma sql_schema_step:
  "of_domain (b_get_schema (gc_handler (sql_context Q K P v)) w) = Inr sch \<Longrightarrow>
     get_schema_with_transaction Q (w_db w) = Inr sch"
  by (simp add: sql_context_def sql_backend_def of_domain_def map_err_eq_Inr)

lemma user_writes_no_panic:
  "no_panic (fst (mutation_create_user G (sql_context Q K P v) cui w))"
  "no_panic (fst (mutation_update_user G (sql_context Q K P v) uui w))"
proof -
  have up: "no_panic (unpack_attributes G attrs sch admin)"
    if "of_domain (b_get_schema (gc_handler (sql_context Q K P v)) w1) = Inr sch" for w1 sch attrs admin
    using sql_schema_step [OF that] by (rule unpack_no_panic)
  then have "no_panic (update_user_request_of G sch admin uui)"
    if "of_domain (b_get_schema (gc_handler (sql_context Q K P v)) w1) = Inr sch" for w1 sch admin
    using that by (simp add: update_user_request_of_def Let_def)
  then show "no_panic (fst (mutation_update_user G (sql_context Q K P v) uui w))"
    unfolding mutation_defs by (intro no_panic_intros) blast+
  show "no_panic (fst (mutation_create_user G (sql_context Q K P v) cui w))"
    unfolding mutation_defs Let_def
    by (intro no_panic_intros up, assumption) (auto intro!: no_panic_intros)
qed

lemma checks_no_panic:
  "no_panic (protect_builtin verb b)" "no_panic (protect_admins c B w u g)" "no_panic (check_ou_name n)"
  "no_panic (load_ous B w)" "no_panic (check_new_ou n ous)" "no_panic (check_new_attribute l kind n)"
  "no_panic (check_attribute_deletion l an)" "no_panic (check_posix_settings ps)"
  by (auto simp: protect_builtin_def protect_admins_def check_ou_name_def load_ous_def check_new_ou_def
      check_new_attribute_def check_attribute_deletion_def check_posix_settings_def Let_def case_prod_unfold
      intro!: no_panic_rbind split: option.split)

lemma plain_mutations_no_panic:
  "no_panic (fst (mutation_create_group G c cgi w))" "no_panic (fst (mutation_set_user_password c C K' n n' w))"
  "no_panic (fst (mutation_add_user_to_group c n g w))" "no_panic (fst (mutation_remove_user_from_group c n g w))"
  "no_panic (fst (mutation_delete_group c g w))" "no_panic (fst (mutation_add_user_attribute c n t l vis ed w))"
  "no_panic (fst (mutation_add_group_attribute c n t l vis ed w))" "no_panic (fst (mutation_delete_user_attribute c n w))"
  "no_panic (fst (mutation_delete_group_attribute c n w))" "no_panic (fst (mutation_add_user_object_class c n w))"
  "no_panic (fst (mutation_add_group_object_class c n w))" "no_panic (fst (mutation_delete_user_object_class c n w))"
  "no_panic (fst (mutation_delete_group_object_class c n w))" "no_panic (fst (mutation_set_posix_settings c ps w))"
  "no_panic (fst (mutation_reassign_user_uid_numbers c w))" "no_panic (fst (mutation_reassign_user_gid_numbers c w))"
  "no_panic (fst (mutation_reassign_user_homedirectories c w))" "no_panic (fst (mutation_reassign_user_loginshells c w))"
  "no_panic (fst (mutation_reassign_gid_numbers c w))" "no_panic (fst (mutation_create_ou G c n w))"
  unfolding mutation_defs Let_def case_prod_unfold save_ous_def
  by (intro no_panic_intros collect_attributes_no_panic checks_no_panic; simp)+

lemma branching_mutations_no_panic:
  "no_panic (fst (mutation_delete_user c n w))" "no_panic (fst (mutation_delete_ou G c n w))"
  "no_panic (fst (mutation_change_user_ou c ns n w))" "no_panic (fst (mutation_change_group_ou c gs n w))"
  "no_panic (fst (mutation_sync_kerberos_password G c K' n n' w))"
  "no_panic (fst (mutation_export_keytab c K' T n w))"
proof -
  show "no_panic (fst (mutation_delete_user c n w))" "no_panic (fst (mutation_change_user_ou c ns n w))"
    "no_panic (fst (mutation_change_group_ou c gs n w))"
    unfolding mutation_defs by (intro no_panic_with_admin; simp add: no_panic_calls no_panic_loop)+
  show "no_panic (fst (mutation_delete_ou G c n w))"
    unfolding mutation_defs Let_def save_ous_def
    by (intro no_panic_with_admin) (auto intro!: no_panic_pure_step no_panic_calls checks_no_panic)
  show "no_panic (fst (mutation_sync_kerberos_password G c K' n n' w))"
    unfolding mutation_defs Let_def
    by (intro no_panic_intros) (auto split: sum.split prod.split)
  show "no_panic (fst (mutation_export_keytab c K' T n w))"
    by (auto simp: mutation_export_keytab_def split: prod.split sum.split)
qed

lemma new_group_name_fails:
  "new_group_name i = Inl e \<longleftrightarrow> ugi_display_name i = None
     \<and> e = GqlPanic ''index out of bounds: the len is 0 but the index is 0''
     \<and> (\<exists>a. find_first (\<lambda>a. ai_name a = ''displayname'') (unwrap_or [] (ugi_insert_attributes i)) = Some a
          \<and> ai_value a = [])"
proof (cases "ugi_display_name i")
  case None
  show ?thesis
  proof (cases "find_first (\<lambda>a. ai_name a = ''displayname'') (unwrap_or [] (ugi_insert_attributes i))")
    case (Some a)
    then show ?thesis by (cases "ai_value a") (auto simp: new_group_name_def None first_opt_def)
  qed (simp add: new_group_name_def None)
qed (simp add: new_group_name_def)

lemma update_group_no_panic:
  "new_group_name i = Inr x \<Longrightarrow> no_panic (fst (mutation_update_group G c i w))"
  unfolding mutation_defs
  by (intro no_panic_intros collect_attributes_no_panic checks_no_panic) simp_all

text \<open>The only mutation that can panic is an update of a group, and exactly when an administrator
  gives the new name as an attribute \<open>displayname\<close> without values: the code indexes the value list.
  The other unwrapped values are there in every schema that the database can give.\<close>

theorem mutations_panic_iff:
  "(\<exists>p. fst (run_mutation (sql_env G C K T) (sql_context Q K P v) m w) = Inl (GqlPanic p)) \<longleftrightarrow>
   (\<exists>i a. m = MUpdateGroup i \<and> is_admin v \<and> ugi_display_name i = None
      \<and> find_first (\<lambda>a. ai_name a = ''displayname'') (unwrap_or [] (ugi_insert_attributes i)) = Some a
      \<and> ai_value a = [])"
proof (cases "\<exists>i. m = MUpdateGroup i")
  case True
  then obtain i where m: "m = MUpdateGroup i" by blast
  show ?thesis
  proof (cases "new_group_name i")
    case (Inl e)
    then show ?thesis
      using m new_group_name_fails [of i e]
      by (auto simp: mutation_update_group_def with_admin_def ctx_admin_handler_def get_admin_handler_def
          sql_context_def pure_step_def)
  next
    case (Inr x)
    then have "no_panic (fst (mutation_update_group G (sql_context Q K P v) i w))" by (rule update_group_no_panic)
    moreover have "\<nexists>e. new_group_name i = Inl e" using Inr by simp
    ultimately show ?thesis
      using m new_group_name_fails [of i] by (auto simp: no_panic_def sql_env_def)
  qed
next
  case False
  then have "no_panic (fst (run_mutation (sql_env G C K T) (sql_context Q K P v) m w))"
    by (cases m) (simp_all add: plain_mutations_no_panic branching_mutations_no_panic user_writes_no_panic
        no_panic_forget)
  then show ?thesis using False by (auto simp: no_panic_def)
qed

end
