(* ===== verification/Graphql_Access.thy ===== *)
theory Graphql_Access
  imports Graphql_Directory
begin

text \<open>
  What the GraphQL server shows to whom, the tree of organisational units that it keeps in the
  configuration, and the POSIX settings as it writes and reads them.
\<close>

section \<open>Reading\<close>

lemma get_user_details_id:
  "get_user_details Q d u = Inr x \<Longrightarrow> u_user_id x = u"
  by (auto simp: get_user_details_def find_user_def rbind_eq_Inr rmap_eq_Inr ok_or_eq_Inr
      dest!: find_first_SomeD)

lemma query_user_Inr:
  assumes "query_user G (sql_context Q K P v) n w = Inr x"
  obtains decoded sch u where "gl_url_decode G n = Some decoded" "can_read v (user_id_from decoded)"
    "query_get_schema (sql_context Q K P v) w = Inr sch"
    "get_user_details Q (w_db w) (user_id_from decoded) = Inr u" "x = from_user u sch"
  using assms
  by (auto simp: query_user_def rbind_eq_Inr rmap_eq_Inr ok_or_eq_Inr ctx_readable_handler_def
      get_readable_handler_def of_domain_def map_err_eq_Inr sql_context_def sql_backend_def split: if_splits)

lemma shown_attribute_schema:
  assumes "a \<in> set (attributes_from_schema val stored l)"
  shows "ga_schema a \<in> set l"
proof -
  have "s \<in> set l" if "get_by_name_or_alias l n = Some s" for n s
    using find_first_SomeD [OF that [unfolded get_by_name_or_alias_def]] by simp
  then show ?thesis
    using assms by (auto simp: attributes_from_schema_def hardcoded_entry_def gql_from_schema_def
        List.map_filter_def split: option.splits)
qed

lemma restricted_schema:
  assumes "\<not> can_read_all (gc_validation_result c)" and "query_get_schema c w = Inr sch"
  shows "\<forall>a \<in> set (user_attributes sch) \<union> set (group_attributes sch). as_is_visible a"
  using assms
  by (auto simp: query_get_schema_def of_domain_def map_err_eq_Inr rl_get_schema_def rmap_eq_Inr
      get_user_restricted_lister_handler_def)

lemma restricted_user:
  assumes "\<not> can_read_all v" and "query_user G (sql_context Q K P v) n w = Inr x"
  shows "u_user_id (gu_user x) = vr_user v \<and> (\<forall>a \<in> set (gu_attributes x). as_is_visible (ga_schema a))"
  using assms(2)
proof (rule query_user_Inr)
  fix decoded sch u
  assume "can_read v (user_id_from decoded)" "query_get_schema (sql_context Q K P v) w = Inr sch"
    "get_user_details Q (w_db w) (user_id_from decoded) = Inr u" "x = from_user u sch"
  moreover have own: "can_read v u \<Longrightarrow> u = vr_user v" for u
    using assms(1) by (auto simp: can_read_def can_read_all_def)
  ultimately show ?thesis
    using assms(1) restricted_schema [of "sql_context Q K P v" w sch] get_user_details_id shown_attribute_schema
    by (auto simp: from_user_def user_attributes_from_schema_def sql_context_def)
qed

lemma restricted_refused:
  assumes "\<not> can_read_all (gc_validation_result c)"
  shows "\<exists>e. query_users G c f w = Inl (FieldError e)" "\<exists>e. query_groups c w = Inl (FieldError e)"
    "\<exists>e. query_group c g w = Inl (FieldError e)" "\<exists>e. query_list_ous c w = Inl (FieldError e)"
    "\<exists>e. query_posix_settings c w = Inl (FieldError e)"
  using assms
  by (simp_all add: query_users_def query_groups_def query_group_def query_list_ous_def query_posix_settings_def
      ctx_readonly_handler_def ctx_admin_handler_def get_readonly_handler_def get_admin_handler_def is_admin_def can_read_all_def)

text \<open>The field \<open>groups\<close> of a user object never panics: whoever was given the object, by one of the
  queries, may read that user, so the permission that the code expects is there, also in a later
  world.\<close>

theorem user_groups_never_panic:
  assumes "query_user G (sql_context Q K P v) n w = Inr x
    \<or> (\<exists>f us. query_users G (sql_context Q K P v) f w = Inr us \<and> x \<in> set us)
    \<or> (\<exists>g us. gql_group_users (sql_context Q K P v) g w = Inr us \<and> x \<in> set us)"
  shows "no_panic (gql_user_groups (sql_context Q K P v) x w')"
proof -
  have "can_read v (u_user_id (gu_user x))"
    using assms
  proof (elim disjE exE conjE)
    assume "query_user G (sql_context Q K P v) n w = Inr x"
    then show ?thesis by (rule query_user_Inr) (auto simp: from_user_def dest: get_user_details_id)
  qed (auto simp: query_users_def gql_group_users_def rbind_eq_Inr ok_or_eq_Inr ctx_readonly_handler_def
      get_readonly_handler_def sql_context_def intro: can_read_all_can_read split: if_splits)
  then show ?thesis
    by (simp add: gql_user_groups_def ctx_readable_handler_def get_readable_handler_def sql_context_def)
qed

section \<open>Organisational units\<close>

text \<open>Every unit below another has that other in the list, in some spelling.\<close>

definition known_ou :: "string list \<Rightarrow> string \<Rightarrow> bool" where
  "known_ou ous n \<longleftrightarrow> (\<exists>e \<in> set ous. to_ascii_lowercase e = to_ascii_lowercase n)"

definition ou_tree :: "string list \<Rightarrow> bool" where
  "ou_tree ous \<longleftrightarrow> (\<forall>ou \<in> set ous. snd (split_ou_name ou) \<noteq> None \<longrightarrow> known_ou ous (fst (split_ou_name ou)))"

lemma ou_tree_create:
  assumes "check_new_ou n ous = Inr ()" and "ou_tree ous"
  shows "ou_tree (sort (ous @ [n]))"
proof -
  have "snd (split_ou_name n) \<noteq> None \<Longrightarrow> known_ou ous (fst (split_ou_name n))"
    using assms(1) by (auto simp: check_new_ou_def known_ou_def list_ex_iff Let_def case_prod_unfold split: if_splits)
  with assms(2) show ?thesis by (auto simp: ou_tree_def known_ou_def)
qed

lemma ou_tree_delete:
  assumes "\<not> has_children n ous" and "ou_tree ous"
  shows "ou_tree (filter (\<lambda>ou. to_ascii_lowercase ou \<noteq> n) ous)"
  unfolding ou_tree_def
proof (intro ballI impI)
  fix ou assume ou: "ou \<in> set (filter (\<lambda>ou. to_ascii_lowercase ou \<noteq> n) ous)" and below: "snd (split_ou_name ou) \<noteq> None"
  then have "to_ascii_lowercase (fst (split_ou_name ou)) \<noteq> n"
    using assms(1) by (auto simp: has_children_def list_ex_iff case_prod_unfold split: option.splits)
  moreover obtain e where "e \<in> set ous" "to_ascii_lowercase e = to_ascii_lowercase (fst (split_ou_name ou))"
    using assms(2) ou below by (auto simp: ou_tree_def known_ou_def)
  ultimately show "known_ou (filter (\<lambda>ou. to_ascii_lowercase ou \<noteq> n) ous) (fst (split_ou_name ou))"
    by (auto simp: known_ou_def)
qed

text \<open>The list as it is read from the configuration, and as it is read back after it was saved.\<close>

lemma allowed_ous_config:
  "t_system_config d' = t_system_config d \<Longrightarrow> get_allowed_ous Q d' = get_allowed_ous Q d"
  by (simp add: get_allowed_ous_def get_config_def)

lemma saved_ous:
  assumes "sl_strings_of_json (gl_sql G) (sl_json_of_strings (gl_sql G) ous) = Some ous"
    and "save_ous G (sql_context (gl_sql G) K P v) ous w = (r, w')"
  shows "r = Inr () \<and> get_allowed_ous (gl_sql G) (w_db w') = Inr ous"
proof -
  obtain d' where d': "set_system_config ''allowedous'' (sl_json_of_strings (gl_sql G) ous) (w_db w) = Inr d'"
    by (simp add: set_system_config_def)
  then have "save_ous G (sql_context (gl_sql G) K P v) ous w = (Inr (), w\<lparr>w_db := d'\<rparr>)"
    by (simp add: save_ous_def described_call_def sql_context_def sql_config_def execute_def transaction_def)
  then show ?thesis
    using get_config_set [OF d'] assms by (simp add: get_allowed_ous_def)
qed

lemma admin_sql_context:
  "with_admin (sql_context Q K P v) m f w =
     (if is_admin v then f (gc_handler (sql_context Q K P v)) w else (Inl (FieldError m), w))"
  by (simp add: with_admin_def ctx_admin_handler_def get_admin_handler_def sql_context_def)

lemma load_sql_context:
  "load_ous (gc_handler (sql_context Q K P v)) w =
     map_err (\<lambda>_. FieldError ''Failed to load allowedous'') (get_allowed_ous Q (w_db w))"
  by (simp add: load_ous_def sql_context_def sql_backend_def)

lemma created_ou:
  assumes "sl_strings_of_json (gl_sql G) (sl_json_of_strings (gl_sql G) (sort (ous @ [n]))) = Some (sort (ous @ [n]))"
    and "get_allowed_ous (gl_sql G) (w_db w) = Inr ous"
    and "mutation_create_ou G (sql_context (gl_sql G) K P v) n w = (r, w')"
  shows "if r = Inr () then check_new_ou n ous = Inr () \<and> get_allowed_ous (gl_sql G) (w_db w') = Inr (sort (ous @ [n]))
    else w' = w"
  using assms(2,3)
  by (auto simp: mutation_create_ou_def admin_sql_context load_sql_context pure_step_def
      dest: saved_ous [OF assms(1)] split: if_splits sum.splits)

lemma deleted_ou:
  fixes n ous defines "left \<equiv> filter (\<lambda>ou. to_ascii_lowercase ou \<noteq> to_ascii_lowercase (trim n)) ous"
  assumes "sl_strings_of_json (gl_sql G) (sl_json_of_strings (gl_sql G) left) = Some left"
    and "get_allowed_ous (gl_sql G) (w_db w) = Inr ous"
    and "mutation_delete_ou G (sql_context (gl_sql G) K P v) n w = (r, w')"
  shows "if r = Inr () then \<not> has_children (to_ascii_lowercase (trim n)) ous
      \<and> get_allowed_ous (gl_sql G) (w_db w') = Inr left
    else w' = w"
  using assms(3,4)
  by (auto simp: mutation_delete_ou_def admin_sql_context load_sql_context pure_step_def Let_def
      left_def [symmetric] dest: saved_ous [OF assms(2)] split: if_splits sum.splits)

text \<open>C26: The organisational units stay a tree under creation and deletion: every secondary unit has
  its primary unit in the list. A creation that succeeds adds exactly the new name, in order; a
  deletion that succeeds removes exactly the spellings of the name; a refused one changes nothing
  at all. This holds when the JSON codec reads back the two lists as it wrote them.\<close>

theorem ou_tree_kept:
  assumes "ous_left = filter (\<lambda>ou. to_ascii_lowercase ou \<noteq> to_ascii_lowercase (trim n)) ous"
    and "\<forall>l \<in> {sort (ous @ [n]), ous_left}. sl_strings_of_json (gl_sql G) (sl_json_of_strings (gl_sql G) l) = Some l"
    and "get_allowed_ous (gl_sql G) (w_db w) = Inr ous" and "ou_tree ous"
  shows "(case mutation_create_ou G (sql_context (gl_sql G) K P v) n w of
      (Inr _, w') \<Rightarrow> get_allowed_ous (gl_sql G) (w_db w') = Inr (sort (ous @ [n])) \<and> ou_tree (sort (ous @ [n]))
    | (Inl _, w') \<Rightarrow> w' = w)
    \<and> (case mutation_delete_ou G (sql_context (gl_sql G) K P v) n w of
      (Inr _, w') \<Rightarrow> get_allowed_ous (gl_sql G) (w_db w') = Inr ous_left \<and> ou_tree ous_left
    | (Inl _, w') \<Rightarrow> w' = w)"
proof -
  obtain r1 w1 where c: "mutation_create_ou G (sql_context (gl_sql G) K P v) n w = (r1, w1)" by (rule prod.exhaust)
  obtain r2 w2 where d: "mutation_delete_ou G (sql_context (gl_sql G) K P v) n w = (r2, w2)" by (rule prod.exhaust)
  note created = created_ou [OF _ assms(3) c] and deleted = deleted_ou [OF _ assms(3) d]
  have "case r1 of Inr _ \<Rightarrow> get_allowed_ous (gl_sql G) (w_db w1) = Inr (sort (ous @ [n])) \<and> ou_tree (sort (ous @ [n]))
      | Inl _ \<Rightarrow> w1 = w"
    using created assms(2) ou_tree_create [OF _ assms(4)] by (auto split: sum.split)
  moreover have "case r2 of Inr _ \<Rightarrow> get_allowed_ous (gl_sql G) (w_db w2) = Inr ous_left \<and> ou_tree ous_left
      | Inl _ \<Rightarrow> w2 = w"
    using deleted assms(1,2) ou_tree_delete [OF _ assms(4)] by (auto split: sum.split)
  ultimately show ?thesis unfolding c d by (simp split: sum.splits)
qed

section \<open>POSIX settings\<close>

lemma as_i32_id: "- (2 ^ 31) \<le> n \<Longrightarrow> n < 2 ^ 31 \<Longrightarrow> as_i32 n = n"
  by (simp add: as_i32_def)

definition i32_settings :: "posix_settings \<Rightarrow> bool" where
  "i32_settings s \<longleftrightarrow> (\<forall>n \<in> {user_uidnumber_start s, user_uidnumber_max s, user_gidnumber_start s,
     group_gidnumber_start s, group_gidnumber_max s}. - (2 ^ 31) \<le> n \<and> n < 2 ^ 31)"

text \<open>The settings that an administrator saves are the settings that an administrator reads back:
  the numbers of the input have 32 bits and survive the way through 64 bits and back. Every range
  that is switched on lies between 3000 and 60000.\<close>

theorem posix_settings_survive:
  assumes "sl_posix_of_json Q (sl_json_of_posix Q s) = Some s" and "i32_settings s"
    and "mutation_set_posix_settings (sql_context Q K P v) s w = (Inr (), w')"
  shows "query_posix_settings (sql_context Q K P v) w' = Inr s
    \<and> (user_uidnumber_assign s \<longrightarrow> posix_range (user_uidnumber_start s) \<and> posix_range (user_uidnumber_max s))
    \<and> (group_gidnumber_assign s \<longrightarrow> posix_range (group_gidnumber_start s) \<and> posix_range (group_gidnumber_max s))"
proof -
  have chk: "check_posix_settings s = Inr ()" and adm: "is_admin v"
    and w': "execute (set_posix_settings Q s) w = (Inr (), w')"
    using assms(3)
    by (auto simp: mutation_set_posix_settings_def pure_step_def with_admin_def ctx_admin_handler_def
        get_admin_handler_def sql_context_def sql_config_def described_call_def map_err_eq_Inr
        split: sum.splits if_splits intro: prod_eqI)
  have "set_system_config ''posix_settings'' (sl_json_of_posix Q s) (w_db w) = Inr (w_db w')"
    using w' by (auto simp: execute_def transaction_def rmap_def set_posix_settings_def split: sum.splits)
  from get_config_set [OF this, of "''posix_settings''"]
  have "get_posix_settings Q (w_db w') = Inr s" using assms(1) by (simp add: get_posix_settings_def)
  moreover have "s\<lparr>user_uidnumber_start := as_i32 (user_uidnumber_start s),
       user_uidnumber_max := as_i32 (user_uidnumber_max s),
       user_gidnumber_start := as_i32 (user_gidnumber_start s),
       group_gidnumber_start := as_i32 (group_gidnumber_start s),
       group_gidnumber_max := as_i32 (group_gidnumber_max s)\<rparr> = s"
    using assms(2) by (simp add: i32_settings_def as_i32_id)
  ultimately show ?thesis
    using chk adm
    by (auto simp: query_posix_settings_def ctx_admin_handler_def get_admin_handler_def sql_context_def
        sql_config_def check_posix_settings_def split: if_splits)
qed

end
