(* ===== verification/Graphql_Witnesses.thy ===== *)
theory Graphql_Witnesses
  imports Witnesses Graphql_Access
begin

text \<open>
  The theorems about the GraphQL server, applied to the sample directory with its administrator and
  its ordinary user, and with concrete choices for the codecs and for the tools of the KDC.
\<close>

section \<open>A sample GraphQL server\<close>

definition list_codec :: sql_libs where
  "list_codec = sample_sql\<lparr>sl_json_of_strings := join_with '','', sl_strings_of_json := (\<lambda>s. Some (split_on CHR '','' s))\<rparr>"

definition sample_gql :: gql_libs where
  "sample_gql =
     \<lparr>gl_sql = list_codec, gl_base64_encode = (\<lambda>b. b), gl_rfc3339 = int_to_string,
      gl_url_decode = Some, gl_rsa_decrypt = Some\<rparr>"

definition sample_keytab :: "unit keytab_tools" where
  "sample_keytab =
     \<lparr>kt_remove_file = (\<lambda>k _. k), kt_set_random_key = (\<lambda>k _. (True, k)), kt_kadmin_local = (\<lambda>k _. (True, k))\<rparr>"

definition the_admin :: validation_results where
  "the_admin = \<lparr>vr_user = UserId ''admin'', vr_permission = Admin\<rparr>"

definition as_caller :: "validation_results \<Rightarrow> unit world gql_context" where
  "as_caller v = sql_context list_codec sample_kerberos sample_opaque v"

definition sample_env :: "unit world gql_env" where
  "sample_env = sql_env sample_gql sample_client sample_kerberos sample_keytab"

definition ou_world :: "unit world" where
  "ou_world = sample_world\<lparr>w_db := sample_db\<lparr>t_system_config := [(''allowedous'', ''groups,people'')]\<rparr>\<rparr>"

text \<open>A pure query that answers with a property.\<close>

lemma answers: "case_sum (\<lambda>_. False) Pr r \<Longrightarrow> \<exists>x. r = Inr x \<and> Pr x"
  by (cases r) simp_all

section \<open>Mutations\<close>

theorem mutation_is_history_witness:
  "guarded (w_db (snd (foldl (\<lambda>r (v', m'). run_mutation sample_env (as_caller v') m' (snd r)) (Inr (), sample_world)
     [(the_admin, MAddUserToGroup ''bob'' 1), (bob, MDeleteGroup 1), (the_admin, MDeleteUser ''eve'')])))"
  using mutation_is_history [where w = sample_world and Q = list_codec and K = sample_kerberos
      and P = sample_opaque and G = sample_gql and C = sample_client and T = sample_keytab
      and requests = "[(the_admin, MAddUserToGroup ''bob'' 1), (bob, MDeleteGroup 1), (the_admin, MDeleteUser ''eve'')]",
      THEN conjunct2] sample_guarded
  by (simp add: sample_env_def as_caller_def sample_world_def)

definition bob_update :: update_user_input where
  "bob_update =
     \<lparr>uui_id = ''bob'', uui_email = None, uui_display_name = None, uui_first_name = Some ''Bob'', uui_last_name = None,
      uui_avatar = None, uui_remove_attributes = None, uui_insert_attributes = None\<rparr>"

theorem update_inserts_editable_witness:
  "\<exists>request b. update_user_request_of sample_gql public_schema_get False bob_update = Inr request
    \<and> b \<in> set (uu_insert_attributes request)
    \<and> (\<exists>s. get_attribute_schema (user_attributes public_schema_get) (attr_str (attr_name b)) = Some s
         \<and> \<not> as_is_readonly s \<and> as_is_editable s)"
proof -
  have "case_sum (\<lambda>_. False) (\<lambda>r. uu_insert_attributes r \<noteq> [])
      (update_user_request_of sample_gql public_schema_get False bob_update)" by code_simp
  then obtain request where r: "update_user_request_of sample_gql public_schema_get False bob_update = Inr request"
    "uu_insert_attributes request \<noteq> []" using answers by blast
  then obtain b where b: "b \<in> set (uu_insert_attributes request)"
    by (cases "uu_insert_attributes request") auto
  from update_inserts_editable [OF r(1) b] r(1) b show ?thesis by blast
qed

section \<open>Queries\<close>

theorem user_groups_never_panic_witness:
  "\<exists>x. query_user sample_gql (as_caller bob) ''bob'' sample_world = Inr x
    \<and> no_panic (gql_user_groups (as_caller bob) x sample_world)"
proof -
  have "case_sum (\<lambda>_. False) (\<lambda>_. True) (query_user sample_gql (as_caller bob) ''bob'' sample_world)" by code_simp
  then obtain x where x: "query_user sample_gql (as_caller bob) ''bob'' sample_world = Inr x" using answers by blast
  from user_groups_never_panic [OF disjI1, OF x [unfolded as_caller_def], of sample_world] x show ?thesis
    by (auto simp: as_caller_def)
qed

section \<open>The configuration\<close>

definition staff :: string where
  "staff = ''people'' @ CHR 0x5C # ''staff''"

theorem ou_tree_kept_witness:
  "\<exists>w'. mutation_create_ou sample_gql (as_caller the_admin) staff ou_world = (Inr (), w')
    \<and> get_allowed_ous list_codec (w_db w') = Inr [''groups'', ''people'', staff]
    \<and> ou_tree [''groups'', ''people'', staff]"
proof -
  let ?left = "filter (\<lambda>ou. to_ascii_lowercase ou \<noteq> to_ascii_lowercase (trim staff)) [''groups'', ''people'']"
  have sorted: "sort ([''groups'', ''people''] @ [staff]) = [''groups'', ''people'', staff]"
    and left: "?left = [''groups'', ''people'']" by code_simp+
  have codec: "\<forall>l \<in> {sort ([''groups'', ''people''] @ [staff]), ?left}.
      sl_strings_of_json (gl_sql sample_gql) (sl_json_of_strings (gl_sql sample_gql) l) = Some l"
    unfolding sorted left by code_simp
  have read: "get_allowed_ous (gl_sql sample_gql) (w_db ou_world) = Inr [''groups'', ''people'']" by code_simp
  have tree: "ou_tree [''groups'', ''people'']" by code_simp
  have "succeeds_with (\<lambda>_. True) (mutation_create_ou sample_gql (as_caller the_admin) staff ou_world)"
    by code_simp
  then obtain x w' where w': "mutation_create_ou sample_gql (as_caller the_admin) staff ou_world = (Inr x, w')"
    by (rule succeeds_withE)
  have ctx: "as_caller the_admin = sql_context (gl_sql sample_gql) sample_kerberos sample_opaque the_admin"
    by (simp add: as_caller_def sample_gql_def)
  note kept = ou_tree_kept [OF refl codec read tree, THEN conjunct1, of sample_kerberos sample_opaque the_admin,
      folded ctx, unfolded w' sorted]
  show ?thesis using kept w' by (simp add: sample_gql_def)
qed

theorem posix_settings_survive_witness:
  "\<exists>w'. mutation_set_posix_settings (as_caller the_admin) sample_settings sample_world = (Inr (), w')
    \<and> query_posix_settings (as_caller the_admin) w' = Inr sample_settings"
proof -
  have "succeeds_with (\<lambda>_. True) (mutation_set_posix_settings (as_caller the_admin) sample_settings sample_world)"
    by code_simp
  then obtain x w' where "mutation_set_posix_settings (as_caller the_admin) sample_settings sample_world = (Inr x, w')"
    by (rule succeeds_withE)
  then have w': "mutation_set_posix_settings (as_caller the_admin) sample_settings sample_world = (Inr (), w')" by simp
  have "sl_posix_of_json list_codec (sl_json_of_posix list_codec sample_settings) = Some sample_settings"
    by (simp add: list_codec_def sample_sql_def)
  moreover have "i32_settings sample_settings" by (simp add: i32_settings_def sample_settings_def)
  ultimately show ?thesis
    using posix_settings_survive [OF _ _ w' [unfolded as_caller_def], THEN conjunct1] w' by (simp add: as_caller_def)
qed

end
