(* ===== verification/Tokens.thy ===== *)
theory Tokens
  imports Sql_Backend "HOL-Library.Word"
begin

text \<open>
  The tokens of the HTTP service: the three tables that hold them
  (\<open>server/src/jwt_sql_tables.rs\<close>), the statements on these tables
  (\<open>server/src/sql_tcp_backend_handler.rs\<close>) and the hourly cleanup (\<open>server/src/db_cleaner.rs\<close>).
  Every statement is committed on its own. The strings that the random generator draws are arguments.
\<close>

section \<open>Time\<close>

text \<open>The claims of a JWT carry whole seconds (\<open>ts_seconds\<close>).\<close>

definition minutes :: "int \<Rightarrow> date" where "minutes n = n * 60 * second"

definition days :: "int \<Rightarrow> date" where "days n = n * 24 * 60 * 60 * second"

definition ts_seconds :: "date \<Rightarrow> date" where "ts_seconds t = t div second * second"

lemma ts_seconds_le: "ts_seconds t \<le> t"
  using minus_mod_eq_div_mult [of t second] pos_mod_sign [of second t] by (simp add: ts_seconds_def second_def)

section \<open>Tables\<close>

text \<open>The hash of a token has 64 bits without sign; its column is a signed integer.\<close>

definition as_i64 :: "64 word \<Rightarrow> int" where "as_i64 h = sint h"

definition as_u64 :: "int \<Rightarrow> 64 word" where "as_u64 n = word_of_int n"

lemma as_u64_i64 [simp]: "as_u64 (as_i64 h) = h"
  by (simp add: as_u64_def as_i64_def)

lemma as_i64_eq [simp]: "as_i64 h = as_i64 h' \<longleftrightarrow> h = h'"
  by (metis as_u64_i64)

record refresh_row =
  rf_hash :: int
  rf_user :: user_id
  rf_expiry :: date

record jwt_row =
  jr_hash :: int
  jr_user :: user_id
  jr_expiry :: date
  jr_blacklisted :: bool

record reset_row =
  rr_token :: string
  rr_user :: user_id
  rr_expiry :: date

text \<open>A message that left by SMTP.\<close>

record mail =
  ml_to :: string
  ml_subject :: string
  ml_body :: string

text \<open>What the service keeps: the world of the SQL backend, the token tables beside it, the set of
  blacklisted hashes in memory and the mails that were sent.\<close>

record 'k app =
  ap_world :: "'k world"
  ap_refresh :: "refresh_row list"
  ap_jwts :: "jwt_row list"
  ap_resets :: "reset_row list"
  ap_blacklist :: "64 word set"
  ap_mails :: "mail list"

abbreviation ap_now :: "'k app \<Rightarrow> date" where "ap_now s \<equiv> w_now (ap_world s)"

abbreviation ap_db :: "'k app \<Rightarrow> db" where "ap_db s \<equiv> w_db (ap_world s)"

text \<open>The rows refer to users with \<open>ON DELETE CASCADE\<close>: what the backend does to the users is
  followed by the deletion of the rows of users that are gone.\<close>

definition user_exists :: "db \<Rightarrow> user_id \<Rightarrow> bool" where
  "user_exists d u \<longleftrightarrow> find_user d u \<noteq> None"

definition set_world :: "'k world \<Rightarrow> 'k app \<Rightarrow> 'k app" where
  "set_world w s = s\<lparr>ap_world := w,
     ap_refresh := filter (\<lambda>r. user_exists (w_db w) (rf_user r)) (ap_refresh s),
     ap_jwts := filter (\<lambda>r. user_exists (w_db w) (jr_user r)) (ap_jwts s),
     ap_resets := filter (\<lambda>r. user_exists (w_db w) (rr_user r)) (ap_resets s)\<rparr>"

text \<open>The tables keep their primary and foreign keys.\<close>

definition tokens_ok :: "'k app \<Rightarrow> bool" where
  "tokens_ok s \<longleftrightarrow> distinct (map rf_hash (ap_refresh s)) \<and> distinct (map jr_hash (ap_jwts s))
     \<and> distinct (map rr_token (ap_resets s))
     \<and> list_all (\<lambda>r. user_exists (ap_db s) (rf_user r)) (ap_refresh s)
     \<and> list_all (\<lambda>r. user_exists (ap_db s) (jr_user r)) (ap_jwts s)
     \<and> list_all (\<lambda>r. user_exists (ap_db s) (rr_user r)) (ap_resets s)"

definition insert_refresh :: "refresh_row \<Rightarrow> 'k app \<Rightarrow> unit dresult \<times> 'k app" where
  "insert_refresh r s =
     (if \<not> user_exists (ap_db s) (rf_user r) then (Inl (DatabaseError foreign_key_violation), s)
      else if rf_hash r \<in> rf_hash ` set (ap_refresh s) then (Inl (DatabaseError unique_violation), s)
      else (Inr (), s\<lparr>ap_refresh := ap_refresh s @ [r]\<rparr>))"

definition insert_jwt :: "jwt_row \<Rightarrow> 'k app \<Rightarrow> unit dresult \<times> 'k app" where
  "insert_jwt r s =
     (if \<not> user_exists (ap_db s) (jr_user r) then (Inl (DatabaseError foreign_key_violation), s)
      else if jr_hash r \<in> jr_hash ` set (ap_jwts s) then (Inl (DatabaseError unique_violation), s)
      else (Inr (), s\<lparr>ap_jwts := ap_jwts s @ [r]\<rparr>))"

definition insert_reset :: "reset_row \<Rightarrow> 'k app \<Rightarrow> unit dresult \<times> 'k app" where
  "insert_reset r s =
     (if \<not> user_exists (ap_db s) (rr_user r) then (Inl (DatabaseError foreign_key_violation), s)
      else if rr_token r \<in> rr_token ` set (ap_resets s) then (Inl (DatabaseError unique_violation), s)
      else (Inr (), s\<lparr>ap_resets := ap_resets s @ [r]\<rparr>))"

section \<open>The statements of the TCP backend\<close>

definition get_jwt_blacklist :: "'k app \<Rightarrow> 64 word set" where
  "get_jwt_blacklist s = set (map (\<lambda>r. as_u64 (jr_hash r)) (filter jr_blacklisted (ap_jwts s)))"

text \<open>\<open>default_hash\<close> is the argument \<open>h\<close>: the algorithm of Rust's \<open>DefaultHasher\<close> is not specified.\<close>

definition create_refresh_token ::
  "(string \<Rightarrow> 64 word) \<Rightarrow> string \<Rightarrow> user_id \<Rightarrow> 'k app \<Rightarrow> (string \<times> date) dresult \<times> 'k app" where
  "create_refresh_token h refresh_token u s =
     (let duration = days 30;
          (r, s') = insert_refresh \<lparr>rf_hash = as_i64 (h refresh_token), rf_user = u,
                                    rf_expiry = ap_now s + duration\<rparr> s
      in (rmap (\<lambda>_. (refresh_token, duration)) r, s'))"

definition register_jwt :: "user_id \<Rightarrow> 64 word \<Rightarrow> date \<Rightarrow> 'k app \<Rightarrow> unit dresult \<times> 'k app" where
  "register_jwt u jwt_hash expiry_date s =
     insert_jwt \<lparr>jr_hash = as_i64 jwt_hash, jr_user = u, jr_expiry = expiry_date, jr_blacklisted = False\<rparr> s"

text \<open>The row is found by its key and its user; its expiry date is not consulted.\<close>

definition check_token :: "64 word \<Rightarrow> user_id \<Rightarrow> 'k app \<Rightarrow> bool" where
  "check_token refresh_token_hash u s =
     list_ex (\<lambda>r. rf_hash r = as_i64 refresh_token_hash \<and> rf_user r = u) (ap_refresh s)"

definition blacklist_jwts :: "user_id \<Rightarrow> 'k app \<Rightarrow> 64 word set \<times> 'k app" where
  "blacklist_jwts u s =
     (set (map (\<lambda>r. as_u64 (jr_hash r)) (filter (\<lambda>r. jr_user r = u \<and> \<not> jr_blacklisted r) (ap_jwts s))),
      s\<lparr>ap_jwts := map (\<lambda>r. if jr_user r = u then r\<lparr>jr_blacklisted := True\<rparr> else r) (ap_jwts s)\<rparr>)"

definition delete_refresh_token :: "64 word \<Rightarrow> 'k app \<Rightarrow> 'k app" where
  "delete_refresh_token refresh_token_hash s =
     s\<lparr>ap_refresh := filter (\<lambda>r. rf_hash r \<noteq> as_i64 refresh_token_hash) (ap_refresh s)\<rparr>"

definition start_password_reset :: "string \<Rightarrow> user_id \<Rightarrow> 'k app \<Rightarrow> string option dresult \<times> 'k app" where
  "start_password_reset token u s =
     (if \<not> user_exists (ap_db s) u then (Inr None, s)
      else (let (r, s') = insert_reset \<lparr>rr_token = token, rr_user = u, rr_expiry = ap_now s + minutes 10\<rparr> s
            in (rmap (\<lambda>_. Some token) r, s')))"

definition get_user_id_for_password_reset_token :: "string \<Rightarrow> 'k app \<Rightarrow> user_id dresult" where
  "get_user_id_for_password_reset_token token s =
     rmap rr_user (ok_or (EntityNotFound ''Invalid reset token'')
       (find_first (\<lambda>r. rr_token r = token \<and> ap_now s < rr_expiry r) (ap_resets s)))"

definition delete_password_reset_token :: "string \<Rightarrow> 'k app \<Rightarrow> unit dresult \<times> 'k app" where
  "delete_password_reset_token token s =
     (if token \<in> rr_token ` set (ap_resets s)
      then (Inr (), s\<lparr>ap_resets := filter (\<lambda>r. rr_token r \<noteq> token) (ap_resets s)\<rparr>)
      else (Inl (EntityNotFound (''No such password reset token: '' @ [CHR 0x27] @ token @ [CHR 0x27])), s))"

section \<open>Cleanup and start\<close>

definition cleanup_db :: "'k app \<Rightarrow> 'k app" where
  "cleanup_db s = s\<lparr>
     ap_refresh := filter (\<lambda>r. \<not> rf_expiry r < ap_now s) (ap_refresh s),
     ap_jwts := filter (\<lambda>r. \<not> jr_expiry r < ap_now s) (ap_jwts s),
     ap_resets := filter (\<lambda>r. \<not> rr_expiry r < ap_now s) (ap_resets s)\<rparr>"

text \<open>When the server starts, the blacklist is read from the table.\<close>

definition load_blacklist :: "'k app \<Rightarrow> 'k app" where
  "load_blacklist s = s\<lparr>ap_blacklist := get_jwt_blacklist s\<rparr>"

section \<open>The tables keep their keys\<close>

lemma distinct_map_snoc: "distinct (map f xs) \<Longrightarrow> f x \<notin> f ` set xs \<Longrightarrow> distinct (map f (xs @ [x]))"
  by simp

lemma inserts_ok:
  assumes "tokens_ok s"
  shows "tokens_ok (snd (insert_refresh a s))" and "tokens_ok (snd (insert_jwt b s))"
    and "tokens_ok (snd (insert_reset c s))"
  using assms by (auto simp: insert_refresh_def insert_jwt_def insert_reset_def tokens_ok_def)

lemma removals_ok:
  assumes "tokens_ok s"
  shows "tokens_ok (delete_refresh_token h s)" and "tokens_ok (snd (delete_password_reset_token t s))"
    and "tokens_ok (cleanup_db s)"
  using assms
  by (auto simp: delete_refresh_token_def delete_password_reset_token_def cleanup_db_def tokens_ok_def
      distinct_map_filter list_all_iff)

lemma blacklist_ok:
  assumes "tokens_ok s"
  shows "tokens_ok (snd (blacklist_jwts u s))"
proof -
  have "map jr_hash (map (\<lambda>r. if jr_user r = u then r\<lparr>jr_blacklisted := True\<rparr> else r) (ap_jwts s)) = map jr_hash (ap_jwts s)"
    by simp
  then show ?thesis using assms by (auto simp: blacklist_jwts_def tokens_ok_def list_all_iff simp del: map_map)
qed

lemma set_world_ok: "tokens_ok s \<Longrightarrow> tokens_ok (set_world w s)"
  by (auto simp: set_world_def tokens_ok_def distinct_map_filter list_all_iff)

lemma memory_ok [simp]:
  "tokens_ok (s\<lparr>ap_blacklist := b\<rparr>) = tokens_ok s" "tokens_ok (s\<lparr>ap_mails := m\<rparr>) = tokens_ok s"
  "tokens_ok (load_blacklist s) = tokens_ok s"
  by (simp_all add: load_blacklist_def tokens_ok_def)

end
