(* ===== verification/Auth_Service.thy ===== *)
theory Auth_Service
  imports Tokens Graphql_Directory "HOL-Library.AList"
begin

text \<open>
  The authentication service (\<open>server/src/auth_service.rs\<close>), the errors of the HTTP server
  (\<open>server/src/tcp_server.rs\<close>), the mail with the reset link (\<open>server/src/mail.rs\<close>) and the guard in
  front of the GraphQL server (\<open>server/src/graphql_server.rs\<close>). A handler takes the state of the
  service and returns a response or a failure with the next state. The library that signs and
  verifies JWTs, the parser of the authorization header and the SMTP transport are parameters.
\<close>

section \<open>Data\<close>

record jwt_claims =
  cl_exp :: date
  cl_iat :: date
  cl_jti :: string
  cl_user :: string
  cl_groups :: "string list"

datatype jwt_algorithm = Hs512 | OtherAlgorithm string

record auth_libs =
  al_hash :: "string \<Rightarrow> 64 word"
  al_sign :: "jwt_claims \<Rightarrow> string"
  al_verify :: "string \<Rightarrow> (jwt_algorithm \<times> jwt_claims) option"
  al_bearer :: "string \<Rightarrow> string option"
  al_mailbox :: "string \<Rightarrow> string option"
  al_reset_url :: "string \<Rightarrow> string"
  al_smtp :: "mail \<Rightarrow> bool"

text \<open>The configuration of the service with the backend behind it.\<close>

record 'k auth_env =
  ae_libs :: auth_libs
  ae_sql :: sql_libs
  ae_kerberos :: "'k kerberos"
  ae_protocol :: opaque_server
  ae_graphql :: "'k world gql_env"
  ae_server_path :: string
  ae_enable_password_reset :: bool

datatype tcp_error =
    TcpDomainError domain_error
  | BadRequest string
  | InternalServerError string
  | NotFoundError string
  | UnauthorizedError string

text \<open>A handler fails with a \<open>TcpError\<close>, panics, or is not routed.\<close>

datatype auth_failure = Tcp tcp_error | AuthPanic string | Unrouted

type_synonym 'a ares = "auth_failure + 'a"

definition error_to_http_response :: "tcp_error \<Rightarrow> nat" where
  "error_to_http_response e =
     (case e of
        TcpDomainError (AuthenticationError _) \<Rightarrow> 401
      | TcpDomainError (AuthenticationProtocolError _) \<Rightarrow> 401
      | TcpDomainError (DatabaseError _) \<Rightarrow> 500
      | TcpDomainError (DatabaseTransactionError _) \<Rightarrow> 500
      | TcpDomainError (InternalError _) \<Rightarrow> 500
      | TcpDomainError (UnknownCryptoError _) \<Rightarrow> 500
      | TcpDomainError (Base64DecodeError _) \<Rightarrow> 400
      | TcpDomainError (BinarySerializationError _) \<Rightarrow> 400
      | TcpDomainError (EntityNotFound _) \<Rightarrow> 400
      | BadRequest _ \<Rightarrow> 400
      | NotFoundError _ \<Rightarrow> 404
      | InternalServerError _ \<Rightarrow> 500
      | UnauthorizedError _ \<Rightarrow> 401)"

text \<open>The cookies of a request, and its headers by their names in lower case.\<close>

record http_request =
  rq_cookies :: "(string \<times> string) list"
  rq_headers :: "(string \<times> string) list"

record cookie =
  ck_name :: string
  ck_value :: string
  ck_max_age :: date
  ck_path :: string
  ck_http_only :: bool
  ck_same_site_strict :: bool

datatype auth_body =
    NoBody
  | LoginBody string "string option"
  | ResetBody string string
  | StartBody string string

record http_response =
  rs_cookies :: "cookie list"
  rs_body :: auth_body

definition strict_cookie :: "string \<Rightarrow> string \<Rightarrow> date \<Rightarrow> string \<Rightarrow> cookie" where
  "strict_cookie n v age path =
     \<lparr>ck_name = n, ck_value = v, ck_max_age = age, ck_path = path, ck_http_only = True, ck_same_site_strict = True\<rparr>"

definition base_path :: "'k auth_env \<Rightarrow> string" where
  "base_path E = (let p = ae_server_path E in if p \<noteq> [] \<and> last p = CHR ''/'' then p else p @ ''/'')"

definition of_domain_tcp :: "'a dresult \<Rightarrow> 'a ares" where
  "of_domain_tcp r = map_err (\<lambda>e. Tcp (TcpDomainError e)) r"

section \<open>Tokens\<close>

definition truncated :: "jwt_claims \<Rightarrow> jwt_claims" where
  "truncated c = c\<lparr>cl_exp := ts_seconds (cl_exp c), cl_iat := ts_seconds (cl_iat c)\<rparr>"

text \<open>The names of the groups are collected into a set.\<close>

definition new_claims :: "string \<Rightarrow> date \<Rightarrow> user_id \<Rightarrow> group_details list \<Rightarrow> jwt_claims" where
  "new_claims jti now u groups =
     \<lparr>cl_exp = now + days 1, cl_iat = now, cl_jti = jti, cl_user = user_id_str u,
      cl_groups = remdups (map (\<lambda>g. group_name_str (gd_display_name g)) groups)\<rparr>"

definition create_jwt ::
  "'k auth_env \<Rightarrow> string \<Rightarrow> user_id \<Rightarrow> group_details list \<Rightarrow> 'k app \<Rightarrow> string ares \<times> 'k app" where
  "create_jwt E jti u groups s =
     (let claims = new_claims jti (ap_now s) u groups;
          token = al_sign (ae_libs E) claims
      in case register_jwt u (al_hash (ae_libs E) token) (cl_exp claims) s of
           (Inl _, s') \<Rightarrow> (Inl (AuthPanic ''called Result::unwrap() on an Err value''), s')
         | (Inr _, s') \<Rightarrow> (Inr token, s'))"

text \<open>\<open>split_once('+')\<close>.\<close>

definition split_once :: "char \<Rightarrow> string \<Rightarrow> (string \<times> string) option" where
  "split_once c t =
     (let a = takeWhile (\<lambda>x. x \<noteq> c) t in if a = t then None else Some (a, drop (length a + 1) t))"

definition parse_refresh_token :: "auth_libs \<Rightarrow> string \<Rightarrow> (64 word \<times> user_id) ares" where
  "parse_refresh_token L t =
     (case split_once CHR ''+'' t of
        None \<Rightarrow> Inl (Tcp (TcpDomainError (AuthenticationError ''Invalid refresh token'')))
      | Some (token, u) \<Rightarrow> Inr (al_hash L token, user_id_from u))"

text \<open>\<open>HeaderValue::to_str\<close> and \<open>HeaderValue::from_str\<close> accept visible ASCII characters only.\<close>

definition visible_ascii :: "string \<Rightarrow> bool" where
  "visible_ascii t =
     list_all (\<lambda>c. (32 \<le> (of_char c :: nat) \<and> (of_char c :: nat) < 127) \<or> of_char c = (9 :: nat)) t"

definition get_refresh_token :: "auth_libs \<Rightarrow> http_request \<Rightarrow> (64 word \<times> user_id) ares" where
  "get_refresh_token L request =
     (case (map_of (rq_cookies request) ''refresh_token'', map_of (rq_headers request) ''refresh-token'') of
        (Some c, _) \<Rightarrow> parse_refresh_token L c
      | (None, Some t) \<Rightarrow>
          if visible_ascii t then parse_refresh_token L t
          else Inl (AuthPanic ''called Result::unwrap() on an Err value'')
      | (None, None) \<Rightarrow> Inl (Tcp (TcpDomainError (AuthenticationError ''Missing refresh token''))))"

definition check_if_token_is_valid :: "'k auth_env \<Rightarrow> 'k app \<Rightarrow> string \<Rightarrow> string + validation_results" where
  "check_if_token_is_valid E s token_str =
     (case al_verify (ae_libs E) token_str of
        None \<Rightarrow> Inl ''Invalid JWT''
      | Some (algorithm, claims) \<Rightarrow>
          if cl_exp claims < ap_now s then Inl ''Expired JWT''
          else if algorithm \<noteq> Hs512 then Inl ''Unsupported JWT algorithm''
          else if al_hash (ae_libs E) token_str \<in> ap_blacklist s then Inl ''JWT was logged out''
          else Inr (get_permissions_from_groups (user_id_from (cl_user claims)) (map GroupName (cl_groups claims))))"

section \<open>Login, refresh and logout\<close>

definition get_refresh ::
  "'k auth_env \<Rightarrow> string \<Rightarrow> http_request \<Rightarrow> 'k app \<Rightarrow> http_response ares \<times> 'k app" where
  "get_refresh E jti request s =
     (case get_refresh_token (ae_libs E) request of
        Inl e \<Rightarrow> (Inl e, s)
      | Inr (refresh_token_hash, u) \<Rightarrow>
          if \<not> check_token refresh_token_hash u s
          then (Inl (Tcp (TcpDomainError (AuthenticationError ''Invalid refresh token''))), s)
          else (case get_user_groups (ap_db s) u of
                  Inl e \<Rightarrow> (Inl (Tcp (TcpDomainError e)), s)
                | Inr groups \<Rightarrow>
                    sbind (create_jwt E jti u groups s) (\<lambda>token s'.
                      (Inr \<lparr>rs_cookies = [strict_cookie ''token'' token (days 1) (base_path E)],
                            rs_body = LoginBody token None\<rparr>, s'))))"

definition get_logout :: "'k auth_env \<Rightarrow> http_request \<Rightarrow> 'k app \<Rightarrow> http_response ares \<times> 'k app" where
  "get_logout E request s =
     (case get_refresh_token (ae_libs E) request of
        Inl e \<Rightarrow> (Inl e, s)
      | Inr (refresh_token_hash, u) \<Rightarrow>
          (let s1 = delete_refresh_token refresh_token_hash s;
               (new_hashes, s2) = blacklist_jwts u s1;
               s3 = s2\<lparr>ap_blacklist := ap_blacklist s2 \<union> new_hashes\<rparr>
           in (Inr \<lparr>rs_cookies = [strict_cookie ''token'' [] 0 (base_path E),
                                  strict_cookie ''refresh_token'' [] 0 (base_path E @ ''auth'')],
                    rs_body = NoBody\<rparr>, s3)))"

definition get_login_successful_response ::
  "'k auth_env \<Rightarrow> string \<Rightarrow> string \<Rightarrow> user_id \<Rightarrow> 'k app \<Rightarrow> http_response ares \<times> 'k app" where
  "get_login_successful_response E rnd jti name s =
     (case get_user_groups (ap_db s) name of
        Inl e \<Rightarrow> (Inl (Tcp (TcpDomainError e)), s)
      | Inr groups \<Rightarrow>
          (case create_refresh_token (al_hash (ae_libs E)) rnd name s of
             (Inl e, s1) \<Rightarrow> (Inl (Tcp (TcpDomainError e)), s1)
           | (Inr (refresh_token, max_age), s1) \<Rightarrow>
               sbind (create_jwt E jti name groups s1) (\<lambda>token s2.
                 let refresh_token_plus_name = refresh_token @ ''+'' @ user_id_str name in
                 (Inr \<lparr>rs_cookies = [strict_cookie ''token'' token (days 1) (base_path E),
                         strict_cookie ''refresh_token'' refresh_token_plus_name max_age (base_path E @ ''auth'')],
                       rs_body = LoginBody token (Some refresh_token_plus_name)\<rparr>, s2))))"

definition opaque_login_start :: "'k auth_env \<Rightarrow> user_id \<times> string \<Rightarrow> 'k app \<Rightarrow> http_response ares \<times> 'k app" where
  "opaque_login_start E request s =
     (rmap (\<lambda>(d, m). \<lparr>rs_cookies = [], rs_body = StartBody d m\<rparr>)
        (of_domain_tcp (login_start (ae_protocol E) (ap_db s) request)), s)"

definition opaque_login_finish ::
  "'k auth_env \<Rightarrow> string \<Rightarrow> string \<Rightarrow> string \<times> string \<Rightarrow> 'k app \<Rightarrow> http_response ares \<times> 'k app" where
  "opaque_login_finish E rnd jti request s =
     (case login_finish (ae_protocol E) (ap_db s) request of
        Inr name \<Rightarrow> get_login_successful_response E rnd jti name s
      | Inl e \<Rightarrow> (Inl (Tcp (TcpDomainError e)), s))"

definition simple_login ::
  "'k auth_env \<Rightarrow> string \<Rightarrow> string \<Rightarrow> bind_request \<Rightarrow> 'k app \<Rightarrow> http_response ares \<times> 'k app" where
  "simple_login E rnd jti request s =
     (case sql_bind (ae_protocol E) (ap_db s) request of
        Inl e \<Rightarrow> (Inl (Tcp (TcpDomainError e)), s)
      | Inr _ \<Rightarrow> get_login_successful_response E rnd jti (bind_name request) s)"

section \<open>Password reset\<close>

definition reset_mail :: "auth_libs \<Rightarrow> string \<Rightarrow> string \<Rightarrow> string \<Rightarrow> string \<Rightarrow> mail" where
  "reset_mail L display_name username mailbox token =
     \<lparr>ml_to = mailbox, ml_subject = ''[LLDAP] Password reset requested'',
      ml_body = ''Hello '' @ display_name @ '','' @ [CHR 0x0A, CHR 0x0A]
        @ ''Your username is: '' @ [CHR 0x22] @ username @ [CHR 0x22] @ [CHR 0x0A, CHR 0x0A]
        @ ''This email has been sent to you in order to validate your identity.'' @ [CHR 0x0A]
        @ ''If you did not initiate the process your credentials might have been'' @ [CHR 0x0A]
        @ ''compromised. You should reset your password and contact an administrator.'' @ [CHR 0x0A, CHR 0x0A]
        @ ''To reset your password please visit the following URL: '' @ al_reset_url L token @ [CHR 0x0A, CHR 0x0A]
        @ ''Please contact an administrator if you did not initiate the process.''\<rparr>"

text \<open>The address is parsed first; a mail that the transport refuses is not sent.\<close>

definition send_password_reset_email ::
  "auth_libs \<Rightarrow> string \<Rightarrow> string \<Rightarrow> string \<Rightarrow> string \<Rightarrow> 'k app \<Rightarrow> bool \<times> 'k app" where
  "send_password_reset_email L display_name username to_address token s =
     (case al_mailbox L to_address of
        None \<Rightarrow> (False, s)
      | Some mailbox \<Rightarrow>
          (let m = reset_mail L display_name username mailbox token in
           if al_smtp L m then (True, s\<lparr>ap_mails := ap_mails s @ [m]\<rparr>) else (False, s)))"

definition reset_filter :: "string \<Rightarrow> user_request_filter" where
  "reset_filter user_string = UOr [UUserId (user_id_from user_string), UEquality ColEmail user_string]"

definition mail_reset_token :: "'k auth_env \<Rightarrow> string \<Rightarrow> user \<Rightarrow> 'k app \<Rightarrow> unit ares \<times> 'k app" where
  "mail_reset_token E rnd u s =
     (case start_password_reset rnd (u_user_id u) s of
        (Inl e, s1) \<Rightarrow> (Inl (Tcp (TcpDomainError e)), s1)
      | (Inr None, s1) \<Rightarrow> (Inr (), s1)
      | (Inr (Some token), s1) \<Rightarrow>
          (let (sent, s2) = send_password_reset_email (ae_libs E)
                 (unwrap_or (user_id_str (u_user_id u)) (u_display_name u)) (user_id_str (u_user_id u))
                 (email_str (u_email u)) token s1
           in (if sent then Inr () else Inl (Tcp (InternalServerError ''Could not send email'')), s2)))"

definition get_password_reset_step1 ::
  "'k auth_env \<Rightarrow> string \<Rightarrow> string \<Rightarrow> 'k app \<Rightarrow> unit ares \<times> 'k app" where
  "get_password_reset_step1 E rnd user_string s =
     (case sql_list_users (ae_sql E) (ap_world s) (Some (reset_filter user_string)) False of
        Inl e \<Rightarrow> (Inl (Tcp (TcpDomainError e)), s)
      | Inr [] \<Rightarrow> (Inr (), s)
      | Inr [x] \<Rightarrow> mail_reset_token E rnd (ug_user x) s
      | Inr _ \<Rightarrow> (Inl (Tcp (InternalServerError ''Ambiguous user id or email'')), s))"

definition get_password_reset_step2 ::
  "'k auth_env \<Rightarrow> string \<Rightarrow> string \<Rightarrow> 'k app \<Rightarrow> http_response ares \<times> 'k app" where
  "get_password_reset_step2 E jti token s =
     (case get_user_id_for_password_reset_token token s of
        Inl _ \<Rightarrow> (Inl (Tcp (NotFoundError ''Wrong or expired reset token'')), s)
      | Inr u \<Rightarrow>
          sbind (create_jwt E jti u [] (snd (delete_password_reset_token token s))) (\<lambda>jwt s'.
            (Inr \<lparr>rs_cookies = [strict_cookie ''token'' jwt (minutes 5) (base_path E @ ''auth'')],
                  rs_body = ResetBody (user_id_str u) jwt\<rparr>, s')))"

section \<open>Registration\<close>

definition not_authorised :: auth_failure where
  "not_authorised = Tcp (UnauthorizedError (''Not authorized to change the user'' @ [CHR 0x27] @ ''s password''))"

definition bearer_token :: "auth_libs \<Rightarrow> http_request \<Rightarrow> string option" where
  "bearer_token L request = Option.bind (map_of (rq_headers request) ''authorization'') (al_bearer L)"

text \<open>The cookie takes the place of the header.\<close>

definition translate_cookie :: "http_request \<Rightarrow> http_request ares" where
  "translate_cookie request =
     (case map_of (rq_cookies request) ''token'' of
        None \<Rightarrow> Inr request
      | Some t \<Rightarrow>
          if visible_ascii (''Bearer '' @ t)
          then Inr (request\<lparr>rq_headers := AList.update ''authorization'' (''Bearer '' @ t) (rq_headers request)\<rparr>)
          else Inl (Tcp (BadRequest ''Invalid token cookie'')))"

text \<open>The payload is the user and the OPAQUE message when it parses.\<close>

definition opaque_register_start ::
  "'k auth_env \<Rightarrow> http_request \<Rightarrow> (user_id \<times> string) option \<Rightarrow> 'k app \<Rightarrow> http_response ares \<times> 'k app" where
  "opaque_register_start E request payload s =
     (rbind (ok_or not_authorised (Option.bind (bearer_token (ae_libs E) request)
               (\<lambda>t. case check_if_token_is_valid E s t of Inr v \<Rightarrow> Some v | Inl _ \<Rightarrow> None))) (\<lambda>validation_result.
      rbind (ok_or (Tcp (BadRequest [])) payload) (\<lambda>(u, msg).
      rbind (of_domain_tcp (get_user_groups (ap_db s) u)) (\<lambda>groups.
        let user_is_admin = list_ex (\<lambda>g. group_name_eq (gd_display_name g) (GroupName ''lldap_admin'')) groups in
        if \<not> can_change_password validation_result u user_is_admin then Inl not_authorised
        else rmap (\<lambda>(d, m). \<lparr>rs_cookies = [], rs_body = StartBody d m\<rparr>)
               (of_domain_tcp (registration_start (ae_protocol E) (u, msg)))))), s)"

definition opaque_register_finish ::
  "'k auth_env \<Rightarrow> string \<times> string \<Rightarrow> 'k app \<Rightarrow> http_response ares \<times> 'k app" where
  "opaque_register_finish E request s =
     (let (r, w) = registration_finish (ae_protocol E) request (ap_world s)
      in (rmap (\<lambda>_. \<lparr>rs_cookies = [], rs_body = NoBody\<rparr>) (of_domain_tcp r), set_world w s))"

section \<open>The GraphQL endpoint\<close>

text \<open>A request reaches the GraphQL server only with a token that is valid, and acts with its
  permissions.\<close>

definition authorise :: "'k auth_env \<Rightarrow> http_request \<Rightarrow> 'k app \<Rightarrow> validation_results ares" where
  "authorise E request s =
     rbind (translate_cookie request) (\<lambda>request'.
     rbind (ok_or (Tcp (UnauthorizedError [])) (bearer_token (ae_libs E) request'))
       (\<lambda>t. map_err (\<lambda>e. Tcp (UnauthorizedError e)) (check_if_token_is_valid E s t)))"

definition graphql_route ::
  "'k auth_env \<Rightarrow> http_request \<Rightarrow> gql_mutation \<Rightarrow> 'k app \<Rightarrow> unit gresult ares \<times> 'k app" where
  "graphql_route E request m s =
     (case authorise E request s of
        Inl e \<Rightarrow> (Inl e, s)
      | Inr v \<Rightarrow>
          (let (r, w) = run_mutation (ae_graphql E) (sql_context (ae_sql E) (ae_kerberos E) (ae_protocol E) v) m
                 (ap_world s)
           in (Inr r, set_world w s)))"

end
