(* ===== verification/Auth_Trace.thy ===== *)
theory Auth_Trace
  imports Auth_Service
begin

text \<open>
  The HTTP service as a state machine: one event per route, with the work of the LDAP server, the
  hourly cleanup and restarts in between, and its runs as traces. What a handler does to the
  tables is a sequence of the statements of the theory \<open>Tokens\<close>.
\<close>

section \<open>Events\<close>

text \<open>The strings that are drawn at random come first: the refresh or reset token, and the
  identifier of a JWT.\<close>

datatype auth_event =
    LoginStart user_id string
  | LoginFinish string string string string
  | SimpleLogin string string bind_request
  | Refresh string http_request
  | Logout http_request
  | ResetStep1 string string
  | ResetStep2 string string
  | RegisterStart http_request "(user_id \<times> string) option"
  | RegisterFinish http_request string string
  | GraphqlMutation http_request gql_mutation
  | BackendOp sql_op
  | Cleanup
  | Restart

definition empty_response :: http_response where
  "empty_response = \<lparr>rs_cookies = [], rs_body = NoBody\<rparr>"

text \<open>The routes (\<open>configure_server\<close>): without password reset the first step is answered with
  404 and the second has no route. Both steps of the
  registration are wrapped by the translation of the cookie.\<close>

fun serve :: "'k auth_env \<Rightarrow> auth_event \<Rightarrow> 'k app \<Rightarrow> http_response ares \<times> 'k app" where
  "serve E (LoginStart u m) s = opaque_login_start E (u, m) s"
| "serve E (LoginFinish rnd jti d f) s = opaque_login_finish E rnd jti (d, f) s"
| "serve E (SimpleLogin rnd jti request) s = simple_login E rnd jti request s"
| "serve E (Refresh jti request) s = get_refresh E jti request s"
| "serve E (Logout request) s = get_logout E request s"
| "serve E (ResetStep1 rnd user_string) s =
     (if ae_enable_password_reset E
      then (let (r, s') = get_password_reset_step1 E rnd user_string s in (rmap (\<lambda>_. empty_response) r, s'))
      else (Inl (Tcp (NotFoundError [])), s))"
| "serve E (ResetStep2 jti token) s =
     (if ae_enable_password_reset E then get_password_reset_step2 E jti token s else (Inl Unrouted, s))"
| "serve E (RegisterStart request payload) s =
     (case translate_cookie request of
        Inl e \<Rightarrow> (Inl e, s)
      | Inr request' \<Rightarrow> opaque_register_start E request' payload s)"
| "serve E (RegisterFinish request d upload) s =
     (case translate_cookie request of
        Inl e \<Rightarrow> (Inl e, s)
      | Inr _ \<Rightarrow> opaque_register_finish E (d, upload) s)"
| "serve E (GraphqlMutation request m) s =
     (let (r, s') = graphql_route E request m s in (rmap (\<lambda>_. empty_response) r, s'))"
| "serve E (BackendOp op) s =
     (Inr empty_response, set_world (run_op (ae_sql E) (ae_kerberos E) (ae_protocol E) op (ap_world s)) s)"
| "serve E Cleanup s = (Inr empty_response, cleanup_db s)"
| "serve E Restart s = (Inr empty_response, load_blacklist s)"

text \<open>The token that a response hands out.\<close>

definition access_token :: "http_response \<Rightarrow> string option" where
  "access_token r = (case rs_body r of LoginBody t _ \<Rightarrow> Some t | ResetBody _ t \<Rightarrow> Some t | _ \<Rightarrow> None)"

definition at_time :: "date \<Rightarrow> 'k app \<Rightarrow> 'k app" where
  "at_time t s = s\<lparr>ap_world := (ap_world s)\<lparr>w_now := t\<rparr>\<rparr>"

lemma at_time_simps [simp]:
  "ap_now (at_time t s) = t" "ap_db (at_time t s) = ap_db s" "ap_refresh (at_time t s) = ap_refresh s"
  "ap_jwts (at_time t s) = ap_jwts s" "ap_resets (at_time t s) = ap_resets s"
  "ap_blacklist (at_time t s) = ap_blacklist s" "ap_mails (at_time t s) = ap_mails s"
  "tokens_ok (at_time t s) = tokens_ok s"
  by (simp_all add: at_time_def tokens_ok_def)

text \<open>A trace lists what was asked, in which state, and what was answered, the latest first. The
  clock never goes back.\<close>

inductive runs :: "'k auth_env \<Rightarrow> 'k app \<Rightarrow> ('k app \<times> auth_event \<times> http_response ares) list \<Rightarrow> 'k app \<Rightarrow> bool"
  for E s0 where
  runs_start: "runs E s0 [] s0"
| runs_step: "runs E s0 tr s \<Longrightarrow> serve E ev s = (r, s') \<Longrightarrow> ap_now s \<le> t \<Longrightarrow>
     runs E s0 ((s, ev, r) # tr) (at_time t s')"

inductive_cases runs_NilE: "runs E s0 [] s"
inductive_cases runs_ConsE: "runs E s0 (x # tr) s"

text \<open>A run during which a user stays in the directory.\<close>

inductive lasting :: "'k auth_env \<Rightarrow> user_id \<Rightarrow> 'k app \<Rightarrow> 'k app \<Rightarrow> bool" for E u s0 where
  lasting_start: "lasting E u s0 s0"
| lasting_step: "lasting E u s0 s \<Longrightarrow> ap_now s \<le> t \<Longrightarrow> user_exists (ap_db (snd (serve E ev s))) u \<Longrightarrow>
     lasting E u s0 (at_time t (snd (serve E ev s)))"

section \<open>Handlers as sequences of statements\<close>

text \<open>A relation that the statements respect is respected by the handlers, except where the world
  behind the service changes. A reset token that is drawn has to be admissible.\<close>

locale service_relation =
  fixes admissible :: "string \<Rightarrow> bool" and R :: "'k app \<Rightarrow> 'k app \<Rightarrow> bool"
  assumes R_refl: "R s s"
    and R_trans: "R s1 s2 \<Longrightarrow> R s2 s3 \<Longrightarrow> R s1 s3"
    and insert_refresh_R: "R s (snd (insert_refresh a s))"
    and insert_jwt_R: "\<not> jr_blacklisted b \<Longrightarrow> R s (snd (insert_jwt b s))"
    and insert_reset_R: "admissible (rr_token c) \<Longrightarrow> R s (snd (insert_reset c s))"
    and delete_refresh_R: "R s (delete_refresh_token h s)"
    and delete_reset_R: "R s (snd (delete_password_reset_token t s))"
    and logout_R: "R s (let (hs, s') = blacklist_jwts u s in s'\<lparr>ap_blacklist := ap_blacklist s' \<union> hs\<rparr>)"
    and mails_R: "R s (s\<lparr>ap_mails := ms\<rparr>)"
    and cleanup_R: "R s (cleanup_db s)"
    and restart_R: "R s (load_blacklist s)"
begin

lemma create_jwt_R: "R s (snd (create_jwt E jti u gs s))"
  using insert_jwt_R [of "\<lparr>jr_hash = as_i64 (al_hash (ae_libs E) (al_sign (ae_libs E) (new_claims jti (ap_now s) u gs))),
      jr_user = u, jr_expiry = cl_exp (new_claims jti (ap_now s) u gs), jr_blacklisted = False\<rparr>" s]
  by (simp add: create_jwt_def register_jwt_def Let_def case_prod_unfold split: sum.split)

lemma sbind_R: "R s (snd p) \<Longrightarrow> (\<And>x s1. snd (f x s1) = s1) \<Longrightarrow> R s (snd (sbind p f))"
  by (cases p; cases "fst p") auto

lemma create_refresh_R: "R s (snd (create_refresh_token h rnd u s))"
  by (simp add: create_refresh_token_def Let_def case_prod_unfold insert_refresh_R)

lemma login_response_R: "R s (snd (get_login_successful_response E rnd jti u s))"
proof (cases "get_user_groups (ap_db s) u")
  case (Inr gs)
  obtain r s1 where c: "create_refresh_token (al_hash (ae_libs E)) rnd u s = (r, s1)" by (rule prod.exhaust)
  have s1: "R s s1" using create_refresh_R [of s "al_hash (ae_libs E)" rnd u] c by simp
  have "R s (snd (sbind (create_jwt E jti u gs s1) f))"
    if f: "\<And>x s2. snd (f x s2) = s2" for f :: "string \<Rightarrow> 'k app \<Rightarrow> http_response ares \<times> 'k app"
    by (rule R_trans [OF s1 sbind_R [OF create_jwt_R f]])
  then show ?thesis using Inr c s1 by (cases r) (auto simp: get_login_successful_response_def Let_def)
qed (simp add: get_login_successful_response_def R_refl)

lemma start_reset_R: "admissible rnd \<Longrightarrow> R s (snd (start_password_reset rnd u s))"
  using insert_reset_R [of "\<lparr>rr_token = rnd, rr_user = u, rr_expiry = ap_now s + minutes 10\<rparr>" s]
  by (simp add: start_password_reset_def R_refl Let_def case_prod_unfold)

lemma send_R: "R s (snd (send_password_reset_email L n u a tk s))"
  by (simp add: send_password_reset_email_def Let_def R_refl mails_R split: option.split)

lemma mail_reset_R: "admissible rnd \<Longrightarrow> R s (snd (mail_reset_token E rnd x s))"
proof -
  assume adm: "admissible rnd"
  obtain r s1 where c: "start_password_reset rnd (u_user_id x) s = (r, s1)" by (rule prod.exhaust)
  have "R s s1" using start_reset_R [OF adm, of s "u_user_id x"] c by simp
  with R_trans [OF this send_R] show ?thesis
    by (simp add: mail_reset_token_def c Let_def case_prod_unfold split: sum.split option.split)
qed

lemma reset_step1_R: "admissible rnd \<Longrightarrow> R s (snd (get_password_reset_step1 E rnd q s))"
  by (simp add: get_password_reset_step1_def R_refl mail_reset_R split: sum.split list.split)

lemma reset_step2_R: "R s (snd (get_password_reset_step2 E jti tk s))"
proof (cases "get_user_id_for_password_reset_token tk s")
  case (Inr u)
  have "R s (snd (create_jwt E jti u [] (snd (delete_password_reset_token tk s))))"
    by (rule R_trans [OF delete_reset_R create_jwt_R])
  then show ?thesis using Inr by (auto simp: get_password_reset_step2_def intro: sbind_R)
qed (simp add: get_password_reset_step2_def R_refl)

lemma get_refresh_R: "R s (snd (get_refresh E jti request s))"
  by (auto simp: get_refresh_def R_refl create_jwt_R intro: sbind_R split: sum.split)

lemma get_logout_R: "R s (snd (get_logout E request s))"
proof (cases "get_refresh_token (ae_libs E) request")
  case (Inr x)
  then show ?thesis
    using R_trans [OF delete_refresh_R logout_R]
    by (cases x) (simp add: get_logout_def Let_def case_prod_unfold)
qed (simp add: get_logout_def R_refl)

lemma serve_R:
  assumes "\<And>rnd q. ev = ResetStep1 rnd q \<Longrightarrow> admissible rnd"
  shows "R s (snd (serve E ev s)) \<or> (\<exists>w. snd (serve E ev s) = set_world w s)"
proof (cases ev)
  case (ResetStep1 rnd q)
  then show ?thesis using reset_step1_R [OF assms] by (simp add: Let_def case_prod_unfold R_refl)
next
  case (GraphqlMutation request m)
  then show ?thesis by (auto simp: graphql_route_def Let_def case_prod_unfold R_refl split: sum.split)
qed (auto simp: opaque_login_start_def opaque_login_finish_def simple_login_def opaque_register_start_def
    opaque_register_finish_def Let_def case_prod_unfold R_refl login_response_R reset_step2_R get_refresh_R
    get_logout_R cleanup_R restart_R split: sum.split)

end

end
