(* ===== verification/Auth_Security.thy ===== *)
theory Auth_Security
  imports Auth_Trace
begin

text \<open>
  What the tokens of the HTTP service guarantee: their tables keep their keys, a token that is
  accepted goes back to a login or to a mailed reset, a logout revokes, a reset token is good once,
  and no request panics but by a malformed header or a collision of hashes.
\<close>

section \<open>The tables\<close>

interpretation keys: service_relation "\<lambda>_. True" "\<lambda>s s'. tokens_ok s \<longrightarrow> tokens_ok s'"
  by unfold_locales
    (simp_all add: inserts_ok removals_ok blacklist_ok case_prod_unfold Let_def)

text \<open>The token tables keep their keys for ever: hashes and reset tokens are distinct, and every
  row belongs to a user of the directory, whatever is requested, cleaned up or restarted, and
  whatever the LDAP server does meanwhile.\<close>

theorem token_tables_kept:
  assumes "runs E s0 tr s" and "tokens_ok s0"
  shows "tokens_ok s"
  using assms
proof (induction rule: runs.induct)
  case (runs_step tr s ev r s' t)
  have "tokens_ok (snd (serve E ev s))"
    using keys.serve_R [of ev s E] runs_step.IH [OF runs_step.prems] set_world_ok by metis
  then show ?case using runs_step.hyps(2) by simp
qed

section \<open>Logout\<close>

text \<open>A token of a user is tracked: it has expired, or a row knows it, blacklisted when it was logged
  out.\<close>

definition tracked :: "'k auth_env \<Rightarrow> string \<Rightarrow> user_id \<Rightarrow> bool \<Rightarrow> 'k app \<Rightarrow> bool" where
  "tracked E t u out s \<longleftrightarrow>
     (\<exists>alg c. al_verify (ae_libs E) t = Some (alg, c)
        \<and> (cl_exp c < ap_now s
           \<or> (\<exists>r \<in> set (ap_jwts s). jr_hash r = as_i64 (al_hash (ae_libs E) t) \<and> jr_user r = u \<and> cl_exp c \<le> jr_expiry r
                \<and> (out \<longrightarrow> jr_blacklisted r \<and> al_hash (ae_libs E) t \<in> ap_blacklist s))))"

lemma tracked_mono:
  assumes "tracked E t u out s" and "ap_now s \<le> ap_now s'"
    and "\<And>r. r \<in> set (ap_jwts s) \<Longrightarrow> jr_user r = u \<Longrightarrow> jr_hash r = as_i64 (al_hash (ae_libs E) t) \<Longrightarrow>
      jr_expiry r < ap_now s \<or> (\<exists>r' \<in> set (ap_jwts s'). jr_hash r' = jr_hash r \<and> jr_user r' = u \<and> jr_expiry r' = jr_expiry r
        \<and> (jr_blacklisted r \<longrightarrow> jr_blacklisted r'))"
    and "\<And>r. r \<in> set (ap_jwts s) \<Longrightarrow> jr_hash r = as_i64 (al_hash (ae_libs E) t) \<Longrightarrow> jr_blacklisted r \<Longrightarrow>
      al_hash (ae_libs E) t \<in> ap_blacklist s \<Longrightarrow> al_hash (ae_libs E) t \<in> ap_blacklist s'"
  shows "tracked E t u out s'"
proof -
  obtain alg c where v: "al_verify (ae_libs E) t = Some (alg, c)"
    and c: "cl_exp c < ap_now s \<or> (\<exists>r \<in> set (ap_jwts s). jr_hash r = as_i64 (al_hash (ae_libs E) t) \<and> jr_user r = u
      \<and> cl_exp c \<le> jr_expiry r \<and> (out \<longrightarrow> jr_blacklisted r \<and> al_hash (ae_libs E) t \<in> ap_blacklist s))"
    using assms(1) by (auto simp: tracked_def)
  from c show ?thesis
  proof (elim disjE bexE conjE)
    assume "cl_exp c < ap_now s"
    then have "cl_exp c < ap_now s'" using assms(2) by simp
    then show ?thesis using v by (auto simp: tracked_def)
  next
    fix r assume r: "r \<in> set (ap_jwts s)" "jr_hash r = as_i64 (al_hash (ae_libs E) t)" "jr_user r = u"
      "cl_exp c \<le> jr_expiry r" "out \<longrightarrow> jr_blacklisted r \<and> al_hash (ae_libs E) t \<in> ap_blacklist s"
    from assms(3) [OF r(1,3,2)] show ?thesis
    proof (elim disjE bexE conjE)
      assume "jr_expiry r < ap_now s"
      then have "cl_exp c < ap_now s'" using r(4) assms(2) by simp
      then show ?thesis using v by (auto simp: tracked_def)
    next
      fix r' assume "r' \<in> set (ap_jwts s')" "jr_hash r' = jr_hash r" "jr_user r' = u" "jr_expiry r' = jr_expiry r"
        "jr_blacklisted r \<longrightarrow> jr_blacklisted r'"
      moreover have "out \<longrightarrow> al_hash (ae_libs E) t \<in> ap_blacklist s'" using assms(4) [OF r(1,2)] r(5) by blast
      ultimately show ?thesis using v r by (auto simp: tracked_def)
    qed
  qed
qed

lemma restart_keeps_blacklisted:
  "r \<in> set (ap_jwts s) \<Longrightarrow> jr_hash r = as_i64 h \<Longrightarrow> jr_blacklisted r \<Longrightarrow> h \<in> get_jwt_blacklist s"
  by (force simp: get_jwt_blacklist_def image_iff)

interpretation tracking: service_relation "\<lambda>_. True"
  "\<lambda>s s'. ap_world s' = ap_world s \<and> (tracked E t u out s \<longrightarrow> tracked E t u out s')" for E t u out
proof unfold_locales
  fix s :: "'a app" and h
  show "ap_world (load_blacklist s) = ap_world s \<and> (tracked E t u out s \<longrightarrow> tracked E t u out (load_blacklist s))"
    using tracked_mono [of E t u out s "load_blacklist s"] restart_keeps_blacklisted
    by (auto simp: load_blacklist_def)
  show "ap_world (cleanup_db s) = ap_world s \<and> (tracked E t u out s \<longrightarrow> tracked E t u out (cleanup_db s))"
    using tracked_mono [of E t u out s "cleanup_db s"] by (auto simp: cleanup_db_def)
  fix v
  let ?s = "let (hs, s') = blacklist_jwts v s in s'\<lparr>ap_blacklist := ap_blacklist s' \<union> hs\<rparr>"
  have "tracked E t u out s \<Longrightarrow> tracked E t u out ?s"
  proof (erule tracked_mono)
    fix r assume r: "r \<in> set (ap_jwts s)" "jr_user r = u"
    let ?r = "if jr_user r = v then r\<lparr>jr_blacklisted := True\<rparr> else r"
    have "?r \<in> set (ap_jwts ?s)" using r(1) by (simp add: blacklist_jwts_def)
    moreover have "jr_hash ?r = jr_hash r" "jr_user ?r = u" "jr_expiry ?r = jr_expiry r"
      "jr_blacklisted r \<longrightarrow> jr_blacklisted ?r" using r(2) by simp_all
    ultimately show "jr_expiry r < ap_now s \<or> (\<exists>r' \<in> set (ap_jwts ?s). jr_hash r' = jr_hash r \<and> jr_user r' = u
      \<and> jr_expiry r' = jr_expiry r \<and> (jr_blacklisted r \<longrightarrow> jr_blacklisted r'))" by blast
  qed (simp_all add: blacklist_jwts_def)
  then show "ap_world ?s = ap_world s \<and> (tracked E t u out s \<longrightarrow> tracked E t u out ?s)"
    by (simp add: blacklist_jwts_def)
qed (auto simp: insert_refresh_def insert_jwt_def insert_reset_def delete_refresh_token_def
    delete_password_reset_token_def tracked_def)

lemma lasting_tracked:
  assumes "lasting E u s0 s" and "tracked E t u out s0"
  shows "tracked E t u out s"
  using assms
proof (induction rule: lasting.induct)
  case (lasting_step s now ev)
  have s: "tracked E t u out s" by (rule lasting_step.IH [OF lasting_step.prems])
  have served: "ap_world (snd (serve E ev s)) = ap_world s \<and> (tracked E t u out s \<longrightarrow> tracked E t u out (snd (serve E ev s)))
      \<or> (\<exists>w. snd (serve E ev s) = set_world w s)"
    by (rule tracking.serve_R) simp
  consider "ap_world (snd (serve E ev s)) = ap_world s" "tracked E t u out (snd (serve E ev s))"
    | w where "snd (serve E ev s) = set_world w s"
    using served s by auto
  then show ?case
  proof cases
    case 1
    show ?thesis by (rule tracked_mono [OF 1(2)]) (use lasting_step.hyps(2) 1(1) in auto)
  next
    case 2
    show ?thesis
      by (rule tracked_mono [OF s])
        (use lasting_step.hyps(2,3) 2 in \<open>auto simp: set_world_def at_time_def\<close>)
  qed
qed

section \<open>Where tokens come from\<close>

text \<open>The signature is correct: what was signed is verified, with times in whole seconds.\<close>

definition jwt_correct :: "auth_libs \<Rightarrow> bool" where
  "jwt_correct L \<longleftrightarrow> (\<forall>c. al_verify L (al_sign L c) = Some (Hs512, truncated c))"

text \<open>A login that the backend accepted, and a reset that was asked for the only user that the
  text names.\<close>

definition logs_in :: "'k auth_env \<Rightarrow> 'k app \<Rightarrow> auth_event \<Rightarrow> user_id \<Rightarrow> bool" where
  "logs_in E s ev u =
     (case ev of
        SimpleLogin rnd jti request \<Rightarrow> bind_name request = u \<and> sql_bind (ae_protocol E) (ap_db s) request = Inr ()
      | LoginFinish rnd jti d f \<Rightarrow> login_finish (ae_protocol E) (ap_db s) (d, f) = Inr u
      | _ \<Rightarrow> False)"

text \<open>The refresh token that a login draws.\<close>

definition drawn_refresh :: "auth_event \<Rightarrow> string option" where
  "drawn_refresh ev = (case ev of SimpleLogin rnd _ _ \<Rightarrow> Some rnd | LoginFinish rnd _ _ _ \<Rightarrow> Some rnd | _ \<Rightarrow> None)"

definition asks_reset :: "'k auth_env \<Rightarrow> 'k app \<Rightarrow> auth_event \<Rightarrow> user_id \<Rightarrow> string \<Rightarrow> bool" where
  "asks_reset E s ev u token =
     (case ev of
        ResetStep1 rnd q \<Rightarrow> rnd = token
          \<and> rmap (map (\<lambda>x. u_user_id (ug_user x)))
              (sql_list_users (ae_sql E) (ap_world s) (Some (reset_filter q)) False) = Inr [u]
      | _ \<Rightarrow> False)"

lemma create_jwt_Inr:
  assumes "create_jwt E jti u gs s = (Inr t, s')"
  shows "t = al_sign (ae_libs E) (new_claims jti (ap_now s) u gs)"
    and "s' = s\<lparr>ap_jwts := ap_jwts s @ [\<lparr>jr_hash = as_i64 (al_hash (ae_libs E) t), jr_user = u,
           jr_expiry = ap_now s + days 1, jr_blacklisted = False\<rparr>]\<rparr>"
  using assms
  by (auto simp: create_jwt_def register_jwt_def insert_jwt_def new_claims_def Let_def split: if_splits)

lemma sbind_Inr: "sbind p f = (Inr y, s2) \<longleftrightarrow> (\<exists>x s1. p = (Inr x, s1) \<and> f x s1 = (Inr y, s2))"
  by (cases p; cases "fst p") auto

lemma login_response_Inr:
  assumes "get_login_successful_response E rnd jti u s = (Inr resp, s')"
  obtains gs s1 t where "get_user_groups (ap_db s) u = Inr gs" "ap_world s1 = ap_world s"
    "create_jwt E jti u gs s1 = (Inr t, s')" "access_token resp = Some t"
proof -
  obtain gs rt age s1 where gs: "get_user_groups (ap_db s) u = Inr gs"
    and c: "create_refresh_token (al_hash (ae_libs E)) rnd u s = (Inr (rt, age), s1)"
    using assms by (auto simp: get_login_successful_response_def split: sum.splits prod.splits)
  have "ap_world s1 = ap_world s"
    using c by (auto simp: create_refresh_token_def insert_refresh_def Let_def split: if_splits)
  with gs c that assms show thesis
    by (auto simp: get_login_successful_response_def sbind_Inr access_token_def Let_def)
qed

text \<open>The three ways in which a token is issued.\<close>

definition issue_ground :: "'k auth_env \<Rightarrow> 'k app \<Rightarrow> auth_event \<Rightarrow> user_id \<Rightarrow> group_details list \<Rightarrow> bool" where
  "issue_ground E s ev u gs \<longleftrightarrow>
     (logs_in E s ev u \<and> get_user_groups (ap_db s) u = Inr gs)
   \<or> (\<exists>jti request h. ev = Refresh jti request \<and> get_refresh_token (ae_libs E) request = Inr (h, u)
        \<and> check_token h u s \<and> get_user_groups (ap_db s) u = Inr gs)
   \<or> (\<exists>jti token. ev = ResetStep2 jti token \<and> get_user_id_for_password_reset_token token s = Inr u \<and> gs = [])"

lemma issued:
  assumes "serve E ev s = (Inr resp, s')" and "access_token resp = Some t"
  obtains jti u gs s1 where "issue_ground E s ev u gs" "ap_world s1 = ap_world s" "create_jwt E jti u gs s1 = (Inr t, s')"
proof (cases ev)
  case (LoginFinish rnd jti d f)
  then obtain u where "login_finish (ae_protocol E) (ap_db s) (d, f) = Inr u"
    "get_login_successful_response E rnd jti u s = (Inr resp, s')"
    using assms(1) by (auto simp: opaque_login_finish_def split: sum.splits)
  with LoginFinish show ?thesis
    using assms(2) that by (elim login_response_Inr) (auto simp: issue_ground_def logs_in_def)
next
  case (SimpleLogin rnd jti request)
  then have "sql_bind (ae_protocol E) (ap_db s) request = Inr ()"
    "get_login_successful_response E rnd jti (bind_name request) s = (Inr resp, s')"
    using assms(1) by (auto simp: simple_login_def split: sum.splits)
  with SimpleLogin show ?thesis
    using assms(2) that by (elim login_response_Inr) (auto simp: issue_ground_def logs_in_def)
next
  case (Refresh jti request)
  then obtain h u gs where "get_refresh_token (ae_libs E) request = Inr (h, u)" "check_token h u s"
    "get_user_groups (ap_db s) u = Inr gs" "create_jwt E jti u gs s = (Inr t, s')"
    using assms by (auto simp: get_refresh_def sbind_Inr access_token_def split: sum.splits if_splits)
  with Refresh that [of u gs s jti] show ?thesis by (simp add: issue_ground_def)
next
  case (ResetStep2 jti token)
  let ?s = "snd (delete_password_reset_token token s)"
  have "ap_world ?s = ap_world s" by (simp add: delete_password_reset_token_def)
  moreover obtain u where "get_user_id_for_password_reset_token token s = Inr u" "create_jwt E jti u [] ?s = (Inr t, s')"
    using ResetStep2 assms
    by (auto simp: get_password_reset_step2_def sbind_Inr access_token_def split: sum.splits if_splits)
  ultimately show ?thesis using ResetStep2 that [of u "[]" ?s jti] by (simp add: issue_ground_def)
qed (use assms in \<open>auto simp: opaque_login_start_def get_logout_def opaque_register_start_def opaque_register_finish_def
    graphql_route_def access_token_def empty_response_def rmap_eq_Inr of_domain_tcp_def Let_def case_prod_unfold
    rbind_eq_Inr split: sum.splits if_splits\<close>)

section \<open>Revocation\<close>

definition blacklist_loaded :: "'k app \<Rightarrow> bool" where
  "blacklist_loaded s \<longleftrightarrow> get_jwt_blacklist s \<subseteq> ap_blacklist s"

interpretation loaded: service_relation "\<lambda>_. True" "\<lambda>s s'. blacklist_loaded s \<longrightarrow> blacklist_loaded s'"
proof unfold_locales
  fix s :: "'a app" and u
  let ?s = "let (hs, s') = blacklist_jwts u s in s'\<lparr>ap_blacklist := ap_blacklist s' \<union> hs\<rparr>"
  have "as_u64 (jr_hash r) \<in> ap_blacklist ?s"
    if "blacklist_loaded s" "r \<in> set (ap_jwts s)" "jr_blacklisted r \<or> jr_user r = u" for r
    using that by (cases "jr_blacklisted r") (auto simp: blacklist_loaded_def get_jwt_blacklist_def blacklist_jwts_def)
  moreover have "\<exists>r \<in> set (ap_jwts s). h = as_u64 (jr_hash r) \<and> (jr_blacklisted r \<or> jr_user r = u)"
    if "h \<in> get_jwt_blacklist ?s" for h
    using that by (auto simp: get_jwt_blacklist_def blacklist_jwts_def split: if_splits)
  ultimately show "blacklist_loaded s \<longrightarrow> blacklist_loaded ?s"
    unfolding blacklist_loaded_def [of ?s] by blast
qed (auto simp: blacklist_loaded_def get_jwt_blacklist_def insert_refresh_def insert_jwt_def insert_reset_def
    delete_refresh_token_def delete_password_reset_token_def cleanup_db_def load_blacklist_def split: if_splits)

lemma lasting_loaded:
  assumes "lasting E u s0 s" and "blacklist_loaded s0"
  shows "blacklist_loaded s"
  using assms
proof (induction rule: lasting.induct)
  case (lasting_step s now ev)
  have "(blacklist_loaded s \<longrightarrow> blacklist_loaded (snd (serve E ev s))) \<or> (\<exists>w. snd (serve E ev s) = set_world w s)"
    by (rule loaded.serve_R) simp
  moreover have "blacklist_loaded (set_world w s)" if "blacklist_loaded s" for w
    using that by (auto simp: blacklist_loaded_def get_jwt_blacklist_def set_world_def)
  ultimately have "blacklist_loaded (snd (serve E ev s))" using lasting_step.IH [OF lasting_step.prems] by auto
  then show ?case by (simp add: blacklist_loaded_def get_jwt_blacklist_def)
qed simp

lemma issued_tracked:
  assumes "jwt_correct (ae_libs E)" and "serve E ev s = (Inr resp, s')" and "access_token resp = Some t"
    and "al_verify (ae_libs E) t = Some (alg, c)" and "cl_user c = user_id_str u"
  shows "tracked E t u False s'"
proof -
  obtain jti u' gs s1 where s1: "create_jwt E jti u' gs s1 = (Inr t, s')"
    using issued [OF assms(2,3)] by metis
  note t = create_jwt_Inr [OF s1]
  have c: "c = truncated (new_claims jti (ap_now s1) u' gs)"
    using assms(1,4) t(1) by (simp add: jwt_correct_def)
  then have "u' = u" using assms(5) by (simp add: truncated_def new_claims_def user_id.expand)
  moreover have "cl_exp c \<le> ap_now s1 + days 1"
    using ts_seconds_le by (simp add: c truncated_def new_claims_def)
  ultimately show ?thesis using assms(4) by (auto simp: t(2) tracked_def)
qed

lemma logout_tracked:
  assumes "tracked E t u False s" and "blacklist_loaded s" and "get_refresh_token (ae_libs E) request = Inr (h, u)"
  shows "tracked E t u True (snd (serve E (Logout request) s))"
proof -
  let ?s = "snd (serve E (Logout request) s)" and ?h = "al_hash (ae_libs E) t"
  have bl: "ap_blacklist ?s = ap_blacklist s \<union> (\<lambda>r. as_u64 (jr_hash r)) ` {r \<in> set (ap_jwts s). jr_user r = u \<and> \<not> jr_blacklisted r}"
    and jw: "ap_jwts ?s = map (\<lambda>r. if jr_user r = u then r\<lparr>jr_blacklisted := True\<rparr> else r) (ap_jwts s)"
    and now: "ap_now ?s = ap_now s"
    using assms(3) by (simp_all add: get_logout_def blacklist_jwts_def delete_refresh_token_def)
  have "?h \<in> ap_blacklist ?s \<and> (\<exists>r' \<in> set (ap_jwts ?s). jr_hash r' = as_i64 ?h \<and> jr_user r' = u
      \<and> jr_expiry r' = jr_expiry r \<and> jr_blacklisted r')"
    if r: "r \<in> set (ap_jwts s)" "jr_hash r = as_i64 ?h" "jr_user r = u" for r
  proof
    show "?h \<in> ap_blacklist ?s"
      using r restart_keeps_blacklisted [OF r(1,2)] assms(2)
      unfolding bl blacklist_loaded_def
      by (cases "jr_blacklisted r") (auto intro!: rev_image_eqI [of r])
    show "\<exists>r' \<in> set (ap_jwts ?s). jr_hash r' = as_i64 ?h \<and> jr_user r' = u \<and> jr_expiry r' = jr_expiry r \<and> jr_blacklisted r'"
      unfolding jw using r by (intro bexI [of _ "r\<lparr>jr_blacklisted := True\<rparr>"]) (auto simp: image_iff)
  qed
  then show ?thesis using assms(1) unfolding tracked_def now by fastforce
qed

text \<open>C8: A logout revokes. Once a user has logged out, a token that the service issued to him before is
  rejected at every later time, across cleanups, restarts and everything else that is requested
  meanwhile, as long as his account is not deleted and the blacklist had been loaded.\<close>

theorem logout_revokes:
  assumes "jwt_correct (ae_libs E)"
    and "serve E ev s1 = (Inr resp, s2)" and "access_token resp = Some t"
    and "al_verify (ae_libs E) t = Some (alg, c)" and "cl_user c = user_id_str u"
    and "blacklist_loaded s2" and "lasting E u s2 s3"
    and "get_refresh_token (ae_libs E) request = Inr (h, u)"
    and "lasting E u (snd (serve E (Logout request) s3)) s4"
  shows "\<exists>e. check_if_token_is_valid E s4 t = Inl e"
proof -
  have "tracked E t u True s4"
    using lasting_tracked [OF assms(9) logout_tracked [OF lasting_tracked [OF assms(7) issued_tracked [OF assms(1-5)]]
      lasting_loaded [OF assms(7,6)] assms(8)]] .
  then show ?thesis using assms(4) by (auto simp: tracked_def check_if_token_is_valid_def)
qed

text \<open>A logout does not check the refresh token that it is given: whoever sends any text, a plus
  sign and the name of a user has all tokens of that user blacklisted.\<close>

theorem anyone_logs_out:
  assumes "split_once CHR ''+'' c = Some (token, name)" and "r \<in> set (ap_jwts s)" and "jr_user r = user_id_from name"
    and "blacklist_loaded s"
  shows "as_u64 (jr_hash r) \<in> ap_blacklist
    (snd (serve E (Logout \<lparr>rq_cookies = [(''refresh_token'', c)], rq_headers = []\<rparr>) s))"
  using assms
  by (cases "jr_blacklisted r")
    (auto simp: get_logout_def get_refresh_token_def parse_refresh_token_def blacklist_jwts_def
      delete_refresh_token_def blacklist_loaded_def get_jwt_blacklist_def)

end
