(* ===== verification/Auth_Origin.thy ===== *)
theory Auth_Origin
  imports Auth_Security
begin

text \<open>
  The origin of tokens in a trace: every refresh token goes back to a login, every reset token to a
  request for it, and every token that is accepted to one of them. With it the bounds on the life
  of tokens, the requests that panic and what a request to the GraphQL server needs.
\<close>

section \<open>New rows\<close>

lemma create_jwt_frame:
  "ap_refresh (snd (create_jwt E jti u gs s)) = ap_refresh s" "ap_resets (snd (create_jwt E jti u gs s)) = ap_resets s"
  by (auto simp: create_jwt_def register_jwt_def insert_jwt_def Let_def split: sum.split)

lemma sbind_snd: "(\<And>x s1. snd (f x s1) = s1) \<Longrightarrow> snd (sbind p f) = snd p"
  by (cases p; cases "fst p") auto

lemma login_rows:
  "set (ap_refresh (snd (get_login_successful_response E rnd jti u s)))
     \<subseteq> set (ap_refresh s) \<union> {r. rf_user r = u \<and> rf_hash r = as_i64 (al_hash (ae_libs E) rnd)}"
  "ap_resets (snd (get_login_successful_response E rnd jti u s)) = ap_resets s"
  by (auto simp: get_login_successful_response_def create_refresh_token_def insert_refresh_def Let_def sbind_snd
      create_jwt_frame split: sum.splits if_splits)

lemma new_refresh:
  assumes "r \<in> set (ap_refresh (snd (serve E ev s)))"
  shows "r \<in> set (ap_refresh s) \<or> (logs_in E s ev (rf_user r)
    \<and> (\<exists>rnd. drawn_refresh ev = Some rnd \<and> rf_hash r = as_i64 (al_hash (ae_libs E) rnd)))"
proof (cases ev)
  case (LoginFinish rnd jti d f)
  then show ?thesis
    using assms login_rows(1) [of E rnd jti _ s]
    by (cases "login_finish (ae_protocol E) (ap_db s) (d, f)") (auto simp: opaque_login_finish_def logs_in_def drawn_refresh_def)
next
  case (SimpleLogin rnd jti request)
  then show ?thesis
    using assms login_rows(1) [of E rnd jti "bind_name request" s]
    by (cases "sql_bind (ae_protocol E) (ap_db s) request") (auto simp: simple_login_def logs_in_def drawn_refresh_def)
next
  case (ResetStep1 rnd q)
  then show ?thesis
    using assms
    by (auto simp: get_password_reset_step1_def mail_reset_token_def start_password_reset_def insert_reset_def
        send_password_reset_email_def Let_def split: sum.splits list.splits option.splits if_splits)
next
  case (GraphqlMutation request m)
  then show ?thesis
    using assms by (auto simp: graphql_route_def set_world_def Let_def case_prod_unfold split: sum.splits)
qed (use assms in \<open>auto simp: opaque_login_start_def get_refresh_def get_logout_def get_password_reset_step2_def
    delete_refresh_token_def blacklist_jwts_def delete_password_reset_token_def opaque_register_start_def
    opaque_register_finish_def set_world_def cleanup_db_def load_blacklist_def Let_def case_prod_unfold sbind_snd
    create_jwt_frame split: sum.splits if_splits\<close>)

lemma mail_reset_rows:
  assumes "r \<in> set (ap_resets (snd (mail_reset_token E rnd u s)))"
  shows "r \<in> set (ap_resets s) \<or> (rr_token r = rnd \<and> rr_user r = u_user_id u \<and> rr_expiry r = ap_now s + minutes 10)"
  using assms
  by (auto simp: mail_reset_token_def start_password_reset_def insert_reset_def send_password_reset_email_def Let_def
      split: sum.splits option.splits if_splits)

lemma new_reset:
  assumes "r \<in> set (ap_resets (snd (serve E ev s)))"
  shows "r \<in> set (ap_resets s) \<or> (asks_reset E s ev (rr_user r) (rr_token r) \<and> rr_expiry r = ap_now s + minutes 10)"
proof (cases ev)
  case (LoginFinish rnd jti d f)
  then show ?thesis
    using assms by (auto simp: opaque_login_finish_def login_rows(2) split: sum.splits)
next
  case (SimpleLogin rnd jti request)
  then show ?thesis
    using assms by (auto simp: simple_login_def login_rows(2) split: sum.splits)
next
  case (ResetStep1 rnd q)
  then show ?thesis
    using assms mail_reset_rows [of r E rnd _ s]
    by (auto simp: get_password_reset_step1_def asks_reset_def Let_def case_prod_unfold
        split: sum.splits list.splits if_splits)
next
  case (GraphqlMutation request m)
  then show ?thesis
    using assms by (auto simp: graphql_route_def set_world_def Let_def case_prod_unfold split: sum.splits)
qed (use assms in \<open>auto simp: opaque_login_start_def get_refresh_def get_logout_def get_password_reset_step2_def
    delete_refresh_token_def blacklist_jwts_def delete_password_reset_token_def opaque_register_start_def
    opaque_register_finish_def set_world_def cleanup_db_def load_blacklist_def Let_def case_prod_unfold sbind_snd
    create_jwt_frame split: sum.splits if_splits\<close>)

section \<open>Origins in a trace\<close>

definition fresh :: "'k app \<Rightarrow> bool" where
  "fresh s \<longleftrightarrow> ap_refresh s = [] \<and> ap_jwts s = [] \<and> ap_resets s = [] \<and> ap_blacklist s = {}"

lemma refresh_traced:
  assumes "runs E s0 tr s" and "fresh s0" and "r \<in> set (ap_refresh s)"
  shows "\<exists>s1 ev a rnd. (s1, ev, a) \<in> set tr \<and> logs_in E s1 ev (rf_user r) \<and> drawn_refresh ev = Some rnd
    \<and> rf_hash r = as_i64 (al_hash (ae_libs E) rnd)"
  using assms
proof (induction rule: runs.induct)
  case (runs_step tr s ev a s' t)
  then show ?case using new_refresh [of r E ev s] by fastforce
qed (simp add: fresh_def)

lemma reset_traced:
  assumes "runs E s0 tr s" and "fresh s0" and "r \<in> set (ap_resets s)"
  shows "\<exists>s1 ev a. (s1, ev, a) \<in> set tr \<and> asks_reset E s1 ev (rr_user r) (rr_token r)
    \<and> rr_expiry r = ap_now s1 + minutes 10"
  using assms
proof (induction rule: runs.induct)
  case (runs_step tr s ev a s' t)
  then show ?case using new_reset [of r E ev s] by fastforce
qed (simp add: fresh_def)

text \<open>A run up to one of its events.\<close>

lemma runs_until:
  assumes "runs E s0 (later @ (s1, ev, a) # earlier) s"
  obtains s2 where "runs E s0 earlier s1" "serve E ev s1 = (a, s2)" "ap_now s1 \<le> ap_now s"
  using assms
proof (induction later arbitrary: s thesis)
  case Nil
  from Nil.prems(2) show ?case by (auto elim!: runs_ConsE intro: Nil.prems(1))
next
  case (Cons x later)
  from Cons.prems(2) obtain s' ev' r' s'' t where "runs E s0 (later @ (s1, ev, a) # earlier) s'" "s = at_time t s''" "ap_now s' \<le> t"
    by (auto elim!: runs_ConsE)
  then show ?case using Cons.IH [of s'] Cons.prems(1) by fastforce
qed

text \<open>The proof of identity behind a token that the event \<open>ev\<close> hands out after the events \<open>earlier\<close>: the
  event is a login of the user; or it presents the refresh token that an earlier login of his drew; or
  it presents the reset token that an earlier first step, less than ten minutes ago, drew for him alone.\<close>

definition proves_identity ::
  "'k auth_env \<Rightarrow> ('k app \<times> auth_event \<times> http_response ares) list \<Rightarrow> 'k app \<Rightarrow> auth_event \<Rightarrow> user_id \<Rightarrow> bool" where
  "proves_identity E earlier s ev u \<longleftrightarrow>
     logs_in E s ev u
   \<or> (\<exists>jti request h. ev = Refresh jti request \<and> get_refresh_token (ae_libs E) request = Inr (h, u)
        \<and> (\<exists>(s1, ev1, a) \<in> set earlier. logs_in E s1 ev1 u \<and> map_option (al_hash (ae_libs E)) (drawn_refresh ev1) = Some h))
   \<or> (\<exists>jti token. ev = ResetStep2 jti token
        \<and> (\<exists>(s1, ev1, a) \<in> set earlier. asks_reset E s1 ev1 u token \<and> ap_now s < ap_now s1 + minutes 10))"

lemma ground_proves:
  assumes "runs E s0 tr s" and "fresh s0" and "issue_ground E s ev u gs"
  shows "proves_identity E tr s ev u"
  using assms(3) unfolding issue_ground_def
proof (elim disjE exE conjE)
  assume "logs_in E s ev u"
  then show ?thesis by (simp add: proves_identity_def)
next
  fix jti request h
  assume ev: "ev = Refresh jti request" "get_refresh_token (ae_libs E) request = Inr (h, u)" and "check_token h u s"
  then obtain r where "r \<in> set (ap_refresh s)" "rf_user r = u" "rf_hash r = as_i64 h" by (auto simp: check_token_def list_ex_iff)
  with refresh_traced [OF assms(1,2)] obtain s1 ev1 a where "(s1, ev1, a) \<in> set tr" "logs_in E s1 ev1 u"
    "map_option (al_hash (ae_libs E)) (drawn_refresh ev1) = Some h" by fastforce
  with ev show ?thesis unfolding proves_identity_def by fastforce
next
  fix jti token
  assume ev: "ev = ResetStep2 jti token" and "get_user_id_for_password_reset_token token s = Inr u"
  then obtain r where "r \<in> set (ap_resets s)" "rr_user r = u" "rr_token r = token" "ap_now s < rr_expiry r"
    by (auto simp: get_user_id_for_password_reset_token_def rmap_eq_Inr ok_or_eq_Inr dest!: find_first_SomeD)
  with reset_traced [OF assms(1,2)] obtain s1 ev1 a where "(s1, ev1, a) \<in> set tr" "asks_reset E s1 ev1 u token"
    "ap_now s < ap_now s1 + minutes 10" by metis
  with ev show ?thesis unfolding proves_identity_def by fastforce
qed

section \<open>Accepted tokens\<close>

lemma permissions_of_claims:
  "vr_permission (get_permissions_from_groups v (map GroupName (remdups (map (\<lambda>g. group_name_str (gd_display_name g)) gs)))) =
   vr_permission (get_permissions_from_groups u (map gd_display_name gs))"
  by (simp add: get_permissions_from_groups_def list_ex_iff Let_def)

lemma accepted_issue:
  assumes "jwt_correct (ae_libs E)" and "create_jwt E jti u gs s1 = (Inr t, s2)"
    and "check_if_token_is_valid E s t = Inr v"
  shows "vr_user v = user_id_from (user_id_str u)" and "ap_now s \<le> ap_now s1 + days 1"
    and "vr_permission v = vr_permission (get_permissions_from_groups u (map gd_display_name gs))"
proof -
  have ver: "al_verify (ae_libs E) t = Some (Hs512, truncated (new_claims jti (ap_now s1) u gs))"
    using create_jwt_Inr(1) [OF assms(2)] assms(1) by (simp add: jwt_correct_def)
  then have v: "v = get_permissions_from_groups (user_id_from (user_id_str u))
      (map GroupName (remdups (map (\<lambda>g. group_name_str (gd_display_name g)) gs)))"
    and exp: "\<not> ts_seconds (ap_now s1 + days 1) < ap_now s"
    using assms(3) by (auto simp: check_if_token_is_valid_def truncated_def new_claims_def split: if_splits)
  show "vr_user v = user_id_from (user_id_str u)" by (simp add: v get_permissions_from_groups_def Let_def)
  show "ap_now s \<le> ap_now s1 + days 1" using exp ts_seconds_le [of "ap_now s1 + days 1"] by simp
  show "vr_permission v = vr_permission (get_permissions_from_groups u (map gd_display_name gs))"
    unfolding v by (rule permissions_of_claims)
qed

text \<open>What stands behind the verdict \<open>v\<close> on a token that the event \<open>ev\<close> in state \<open>s1\<close> handed out: a user who
  proved his identity, named by the verdict, and the permission that his groups gave him in \<open>s1\<close>, or none
  when the token came from a reset.\<close>

definition backed ::
  "'k auth_env \<Rightarrow> ('k app \<times> auth_event \<times> http_response ares) list \<Rightarrow> 'k app \<Rightarrow> auth_event \<Rightarrow> validation_results \<Rightarrow> bool" where
  "backed E earlier s1 ev v \<longleftrightarrow>
     (\<exists>u gs. vr_user v = user_id_from (user_id_str u) \<and> proves_identity E earlier s1 ev u
        \<and> (if \<exists>jti token. ev = ResetStep2 jti token then gs = [] else get_user_groups (ap_db s1) u = Inr gs)
        \<and> vr_permission v = vr_permission (get_permissions_from_groups u (map gd_display_name gs)))"

lemma accepted_backed:
  assumes "runs E s0 (later @ (s1, ev, Inr resp) # earlier) s" and "fresh s0" and "jwt_correct (ae_libs E)"
    and "access_token resp = Some t" and "check_if_token_is_valid E s t = Inr v"
  shows "backed E earlier s1 ev v \<and> ap_now s1 \<le> ap_now s \<and> ap_now s \<le> ap_now s1 + days 1"
proof -
  obtain s2 where pre: "runs E s0 earlier s1" "serve E ev s1 = (Inr resp, s2)" "ap_now s1 \<le> ap_now s"
    using runs_until [OF assms(1)] .
  obtain jti u gs s1' where g: "issue_ground E s1 ev u gs" "ap_world s1' = ap_world s1" "create_jwt E jti u gs s1' = (Inr t, s2)"
    using issued [OF pre(2) assms(4)] by metis
  have "proves_identity E earlier s1 ev u" by (rule ground_proves [OF pre(1) assms(2) g(1)])
  moreover have "if \<exists>jti token. ev = ResetStep2 jti token then gs = [] else get_user_groups (ap_db s1) u = Inr gs"
    using g(1) by (auto simp: issue_ground_def logs_in_def)
  moreover note v = accepted_issue [OF assms(3) g(3) assms(5)]
  ultimately have "backed E earlier s1 ev v" unfolding backed_def by (intro exI conjI)
  then show ?thesis using v(2) g(2) pre(3) by simp
qed

text \<open>C3: A token that the service handed out is authentic when it is accepted. In a run from empty tables,
  with other requests, activity of the directory, clean-ups and restarts in between, the token names the
  user who, at the event that handed it out or before, logged in with a password that the backend
  accepted, and whose refresh token the event presented when it was no login; or for whom alone a reset
  token was drawn less than ten minutes before the event presented it. The token was handed out at most
  one day ago and carries the permission that the user's groups gave him then, or none after a reset.
  That nobody else can sign a token is not part of the statement.\<close>

theorem accepted_token_authentic:
  assumes "runs E s0 tr s" and "fresh s0" and "jwt_correct (ae_libs E)"
    and "tr = later @ (s1, ev, Inr resp) # earlier" and "access_token resp = Some t"
    and "check_if_token_is_valid E s t = Inr v"
  shows "backed E earlier s1 ev v \<and> ap_now s1 \<le> ap_now s \<and> ap_now s \<le> ap_now s1 + days 1"
  by (rule accepted_backed [OF assms(1) [unfolded assms(4)] assms(2,3,5,6)])

text \<open>C7: A change through the web is allowed by the token that asks for it. When a request to the GraphQL
  server changes the directory or the KDC, the request carries a token that is accepted in that moment, and
  the verdict on this token allows the mutation; and at whichever event of the run the service handed that
  token out, the verdict is backed by the proof of identity of its user and by his groups then.\<close>

theorem web_change_authentic:
  assumes "runs E s0 tr s" and "fresh s0" and "jwt_correct (ae_libs E)"
    and "serve E (GraphqlMutation request m) s = (r, s')" and "ap_world s' \<noteq> ap_world s"
  shows "\<exists>request' t v. translate_cookie request = Inr request' \<and> bearer_token (ae_libs E) request' = Some t
    \<and> check_if_token_is_valid E s t = Inr v \<and> mutation_allowed v m
    \<and> (\<forall>later s1 ev resp earlier. tr = later @ (s1, ev, Inr resp) # earlier \<and> access_token resp = Some t
         \<longrightarrow> backed E earlier s1 ev v)"
proof -
  obtain v where v: "authorise E request s = Inr v"
    using assms(4,5) by (cases "authorise E request s") (simp_all add: graphql_route_def)
  then obtain request' t where tok: "translate_cookie request = Inr request'"
      "bearer_token (ae_libs E) request' = Some t" "check_if_token_is_valid E s t = Inr v"
    unfolding authorise_def rbind_eq_Inr ok_or_eq_Inr map_err_eq_Inr by blast
  define w where "w = snd (run_mutation (ae_graphql E) (sql_context (ae_sql E) (ae_kerberos E) (ae_protocol E) v) m (ap_world s))"
  have w: "ap_world s' = w"
    using assms(4) v by (auto simp: graphql_route_def w_def set_world_def case_prod_unfold Let_def)
  have "mutation_allowed v m"
  proof (rule ccontr)
    assume "\<not> mutation_allowed v m"
    then have "w = ap_world s"
      using mutation_refused [of "sql_context (ae_sql E) (ae_kerberos E) (ae_protocol E) v" m "ae_graphql E" "ap_world s"]
      by (auto simp: w_def sql_context_def)
    then show False using assms(5) w by simp
  qed
  moreover have "backed E earlier s1 ev v" if "tr = later @ (s1, ev, Inr resp) # earlier" "access_token resp = Some t"
    for later s1 ev resp earlier
    using accepted_backed [OF assms(1) [unfolded that(1)] assms(2,3) that(2) tok(3)] by blast
  ultimately show ?thesis using tok by blast
qed

section \<open>Reset tokens\<close>

interpretation spent: service_relation "\<lambda>rnd. rnd \<noteq> token"
  "\<lambda>s s'. token \<notin> rr_token ` set (ap_resets s) \<longrightarrow> token \<notin> rr_token ` set (ap_resets s')" for token
  by unfold_locales
    (auto simp: insert_refresh_def insert_jwt_def insert_reset_def delete_refresh_token_def blacklist_jwts_def
      delete_password_reset_token_def cleanup_db_def load_blacklist_def)

lemma spent_stays:
  assumes "runs E s0 tr s" and "token \<notin> rr_token ` set (ap_resets s0)" and "\<forall>(s, ev, a) \<in> set tr. \<forall>q. ev \<noteq> ResetStep1 token q"
  shows "token \<notin> rr_token ` set (ap_resets s)"
  using assms
proof (induction rule: runs.induct)
  case (runs_step tr s ev a s' t)
  then have s: "token \<notin> rr_token ` set (ap_resets s)" by simp
  have "(token \<notin> rr_token ` set (ap_resets s) \<longrightarrow> token \<notin> rr_token ` set (ap_resets (snd (serve E ev s))))
      \<or> (\<exists>w. snd (serve E ev s) = set_world w s)"
    by (rule spent.serve_R) (use runs_step.prems(2) in auto)
  then have "token \<notin> rr_token ` set (ap_resets (snd (serve E ev s)))"
    using s by (auto simp: set_world_def)
  then show ?case using runs_step.hyps(2) by simp
qed simp

text \<open>C18: A reset token is good once and for ten minutes. When the second step of a reset succeeds, the
  token was drawn less than ten minutes ago for the user whom the text of the first step named
  alone; and afterwards, unless the generator draws the same string again, every attempt with that
  token is answered with 404 and changes nothing.\<close>

theorem reset_token_good_once:
  assumes "runs E s0 tr s" and "fresh s0" and "serve E (ResetStep2 jti token) s = (Inr resp, s')"
    and "runs E s' tr' s''" and "\<forall>(s, ev, a) \<in> set tr'. \<forall>q. ev \<noteq> ResetStep1 token q"
  shows "(\<exists>u t s1 ev a. rs_body resp = ResetBody (user_id_str u) t \<and> (s1, ev, a) \<in> set tr \<and> asks_reset E s1 ev u token
      \<and> ap_now s < ap_now s1 + minutes 10)
    \<and> serve E (ResetStep2 jti' token) s'' = (Inl (Tcp (NotFoundError ''Wrong or expired reset token'')), s'')"
proof
  obtain u t where u: "get_user_id_for_password_reset_token token s = Inr u"
    and body: "rs_body resp = ResetBody (user_id_str u) t"
    and s': "s' = snd (create_jwt E jti u [] (snd (delete_password_reset_token token s)))"
    and on: "ae_enable_password_reset E"
    using assms(3) by (auto simp: get_password_reset_step2_def sbind_Inr split: sum.splits if_splits)
  obtain r where "r \<in> set (ap_resets s)" "rr_token r = token" "rr_user r = u" "ap_now s < rr_expiry r"
    using u by (auto simp: get_user_id_for_password_reset_token_def rmap_eq_Inr ok_or_eq_Inr dest!: find_first_SomeD)
  then show "\<exists>u t s1 ev a. rs_body resp = ResetBody (user_id_str u) t \<and> (s1, ev, a) \<in> set tr
      \<and> asks_reset E s1 ev u token \<and> ap_now s < ap_now s1 + minutes 10"
    using reset_traced [OF assms(1,2)] body by metis
  have "token \<notin> rr_token ` set (ap_resets s')"
    by (auto simp: s' create_jwt_frame delete_password_reset_token_def)
  from spent_stays [OF assms(4) this assms(5)] have "get_user_id_for_password_reset_token token s'' = Inl (EntityNotFound ''Invalid reset token'')"
    by (auto simp: get_user_id_for_password_reset_token_def ok_or_def rmap_def find_first_None split: option.split)
  then show "serve E (ResetStep2 jti' token) s'' = (Inl (Tcp (NotFoundError ''Wrong or expired reset token'')), s'')"
    using on by (simp add: get_password_reset_step2_def)
qed

section \<open>Refresh\<close>

lemma groups_of_existing: "user_exists d u \<longleftrightarrow> (\<exists>gs. get_user_groups d u = Inr gs)"
  by (cases "find_user d u") (simp_all add: user_exists_def get_user_groups_def)

lemma create_jwt_Inl:
  "fst (create_jwt E jti u gs s) = Inl e \<longleftrightarrow> e = AuthPanic ''called Result::unwrap() on an Err value''
    \<and> (\<not> user_exists (ap_db s) u
       \<or> as_i64 (al_hash (ae_libs E) (al_sign (ae_libs E) (new_claims jti (ap_now s) u gs))) \<in> jr_hash ` set (ap_jwts s))"
  by (auto simp: create_jwt_def register_jwt_def insert_jwt_def Let_def)

text \<open>A refresh is granted exactly when the table holds the refresh token for the user that the
  request names, and the hash of the new token is not in use. Nothing else is asked: an expired
  refresh token is good until the next cleanup, and a disabled user keeps refreshing.\<close>

theorem refresh_granted_iff:
  assumes "tokens_ok s"
  shows "(\<exists>resp. fst (serve E (Refresh jti request) s) = Inr resp) \<longleftrightarrow>
    (\<exists>h u gs. get_refresh_token (ae_libs E) request = Inr (h, u) \<and> check_token h u s
       \<and> get_user_groups (ap_db s) u = Inr gs
       \<and> as_i64 (al_hash (ae_libs E) (al_sign (ae_libs E) (new_claims jti (ap_now s) u gs))) \<notin> jr_hash ` set (ap_jwts s))"
proof (cases "get_refresh_token (ae_libs E) request")
  case (Inr x)
  obtain h u where x: "x = (h, u)" by (rule prod.exhaust)
  show ?thesis
  proof (cases "check_token h u s")
    case True
    then have "user_exists (ap_db s) u"
      using assms by (auto simp: check_token_def list_ex_iff tokens_ok_def list_all_iff)
    then obtain gs where gs: "get_user_groups (ap_db s) u = Inr gs" using groups_of_existing by blast
    let ?r = "create_jwt E jti u gs s"
    have "(\<exists>resp. fst (serve E (Refresh jti request) s) = Inr resp) \<longleftrightarrow> (\<exists>t. fst ?r = Inr t)"
      using Inr x True gs by (cases ?r; cases "fst ?r") (simp_all add: get_refresh_def)
    also have "\<dots> \<longleftrightarrow> (\<nexists>e. fst ?r = Inl e)" by (cases "fst ?r") auto
    finally show ?thesis using Inr x True gs \<open>user_exists (ap_db s) u\<close> by (simp add: create_jwt_Inl)
  qed (use Inr x in \<open>simp add: get_refresh_def\<close>)
qed (simp add: get_refresh_def)

section \<open>Panics\<close>

lemma reset_user_exists:
  "tokens_ok s \<Longrightarrow> get_user_id_for_password_reset_token token s = Inr u \<Longrightarrow> user_exists (ap_db s) u"
  by (auto simp: get_user_id_for_password_reset_token_def rmap_eq_Inr ok_or_eq_Inr tokens_ok_def list_all_iff
      dest!: find_first_SomeD)

text \<open>The hash of a token that would be issued now is already in the table.\<close>

definition hash_in_use :: "'k auth_env \<Rightarrow> 'k app \<Rightarrow> bool" where
  "hash_in_use E s \<longleftrightarrow> (\<exists>jti u gs. as_i64 (al_hash (ae_libs E) (al_sign (ae_libs E) (new_claims jti (ap_now s) u gs)))
     \<in> jr_hash ` set (ap_jwts s))"

lemma sbind_Inl:
  assumes "\<And>x s1. \<exists>y. fst (f x s1) = Inr y" and "sbind p f = (Inl e, s')"
  shows "fst p = Inl e"
  using assms(2) assms(1) by (cases p; cases "fst p") (auto, metis Inl_Inr_False fst_conv)

lemma login_panic:
  assumes "get_login_successful_response E rnd jti u s = (Inl (AuthPanic p), s')"
  shows "hash_in_use E s"
proof -
  obtain gs rt age s1 where gs: "get_user_groups (ap_db s) u = Inr gs"
    and c: "create_refresh_token (al_hash (ae_libs E)) rnd u s = (Inr (rt, age), s1)"
    using assms by (auto simp: get_login_successful_response_def split: sum.splits prod.splits)
  have s1: "ap_world s1 = ap_world s" "ap_jwts s1 = ap_jwts s"
    using c by (auto simp: create_refresh_token_def insert_refresh_def Let_def split: if_splits)
  have j: "fst (create_jwt E jti u gs s1) = Inl (AuthPanic p)"
    using assms gs c by (auto simp: get_login_successful_response_def Let_def dest!: sbind_Inl [rotated])
  have "user_exists (ap_db s) u" using gs groups_of_existing by blast
  with j s1 show ?thesis unfolding create_jwt_Inl hash_in_use_def by auto
qed

definition malformed_refresh_header :: "http_request \<Rightarrow> bool" where
  "malformed_refresh_header request \<longleftrightarrow> map_of (rq_cookies request) ''refresh_token'' = None
     \<and> (case map_of (rq_headers request) ''refresh-token'' of None \<Rightarrow> False | Some t \<Rightarrow> \<not> visible_ascii t)"

lemma refresh_token_panics: "get_refresh_token L request = Inl (AuthPanic p) \<Longrightarrow> malformed_refresh_header request"
  by (auto simp: get_refresh_token_def parse_refresh_token_def malformed_refresh_header_def
      split: option.splits if_splits)

lemma refresh_panic:
  assumes "tokens_ok s" and "get_refresh E jti request s = (Inl (AuthPanic p), s')"
  shows "hash_in_use E s \<or> malformed_refresh_header request"
proof (cases "get_refresh_token (ae_libs E) request")
  case (Inl e)
  then show ?thesis using assms(2) refresh_token_panics by (auto simp: get_refresh_def)
next
  case (Inr x)
  obtain h u where x: "x = (h, u)" by (rule prod.exhaust)
  obtain gs where "get_user_groups (ap_db s) u = Inr gs" "fst (create_jwt E jti u gs s) = Inl (AuthPanic p)"
    using Inr x assms(2) by (auto simp: get_refresh_def split: if_splits sum.splits dest!: sbind_Inl [rotated])
  moreover from this(1) have "user_exists (ap_db s) u" using groups_of_existing by blast
  ultimately show ?thesis unfolding create_jwt_Inl hash_in_use_def by auto
qed

lemma reset_panic:
  assumes "tokens_ok s" and "get_password_reset_step2 E jti token s = (Inl (AuthPanic p), s')"
  shows "hash_in_use E s"
proof -
  let ?s = "snd (delete_password_reset_token token s)"
  obtain u where u: "get_user_id_for_password_reset_token token s = Inr u" "fst (create_jwt E jti u [] ?s) = Inl (AuthPanic p)"
    using assms(2) by (auto simp: get_password_reset_step2_def split: sum.splits dest!: sbind_Inl [rotated])
  have "ap_world ?s = ap_world s" "ap_jwts ?s = ap_jwts s" by (simp_all add: delete_password_reset_token_def)
  with u(2) reset_user_exists [OF assms(1) u(1)] show ?thesis unfolding create_jwt_Inl hash_in_use_def by auto
qed

text \<open>A request to the authentication service panics only when the hash of the token it would issue
  is already in the table, or when a refresh or logout carries no cookie and a header with
  characters outside visible ASCII. In particular the user of a new token always exists.\<close>

theorem auth_panics_only:
  assumes "tokens_ok s" and "serve E ev s = (Inl (AuthPanic p), s')"
  shows "hash_in_use E s \<or> (\<exists>request. (ev = Logout request \<or> (\<exists>jti. ev = Refresh jti request))
    \<and> malformed_refresh_header request)"
proof (cases ev)
  case (ResetStep1 rnd q)
  then show ?thesis
    using assms(2)
    by (auto simp: get_password_reset_step1_def mail_reset_token_def Let_def case_prod_unfold rmap_eq_Inl
        split: sum.splits list.splits option.splits if_splits prod.splits)
next
  case (RegisterStart request payload)
  then show ?thesis
    using assms(2)
    by (auto simp: translate_cookie_def opaque_register_start_def not_authorised_def of_domain_tcp_def rbind_def
        ok_or_def rmap_eq_Inl map_err_def Let_def split: sum.splits option.splits if_splits prod.splits)
next
  case (RegisterFinish request d upload)
  then show ?thesis
    using assms(2)
    by (auto simp: translate_cookie_def opaque_register_finish_def of_domain_tcp_def rmap_eq_Inl map_err_def Let_def
        case_prod_unfold split: sum.splits option.splits if_splits)
next
  case (GraphqlMutation request m)
  then show ?thesis
    using assms(2)
    by (auto simp: graphql_route_def authorise_def translate_cookie_def rbind_def ok_or_def map_err_def
        rmap_eq_Inl Let_def case_prod_unfold split: sum.splits option.splits if_splits)
next
  case (Logout request)
  then show ?thesis
    using assms(2) refresh_token_panics
    by (auto simp: get_logout_def Let_def case_prod_unfold split: sum.splits)
qed (use assms in \<open>auto simp: opaque_login_start_def opaque_login_finish_def simple_login_def opaque_register_finish_def
    of_domain_tcp_def rmap_eq_Inl map_err_def Let_def case_prod_unfold split: sum.splits if_splits
    dest: login_panic refresh_panic reset_panic\<close>)

end
