(* ===== verification/Auth_Witnesses.thy ===== *)
theory Auth_Witnesses
  imports Graphql_Witnesses Auth_Origin
begin

text \<open>
  The theorems about the tokens of the HTTP service, applied to the sample directory: a concrete
  encoding of claims as text that can be read back, and short runs of the service.
\<close>

section \<open>A sample signature\<close>

definition enc_nat :: "nat \<Rightarrow> string" where
  "enc_nat n = replicate n CHR ''1'' @ ''0''"

definition dec_nat :: "string \<Rightarrow> nat \<times> string" where
  "dec_nat s = (length (takeWhile (\<lambda>c. c = CHR ''1'') s), drop 1 (dropWhile (\<lambda>c. c = CHR ''1'') s))"

definition enc_str :: "string \<Rightarrow> string" where
  "enc_str s = enc_nat (length s) @ s"

definition dec_str :: "string \<Rightarrow> string \<times> string" where
  "dec_str s = (let (n, r) = dec_nat s in (take n r, drop n r))"

definition enc_int :: "int \<Rightarrow> string" where
  "enc_int i = enc_str (digits_of (nat (- i))) @ enc_str (digits_of (nat i))"

definition dec_int :: "string \<Rightarrow> int \<times> string" where
  "dec_int s = (let (a, r) = dec_str s; (b, r') = dec_str r
     in (int (unwrap_or 0 (parse_digits 0 b)) - int (unwrap_or 0 (parse_digits 0 a)), r'))"

fun dec_strs :: "nat \<Rightarrow> string \<Rightarrow> string list" where
  "dec_strs 0 s = []"
| "dec_strs (Suc n) s = (let (x, r) = dec_str s in x # dec_strs n r)"

definition sample_sign :: "jwt_claims \<Rightarrow> string" where
  "sample_sign c = enc_int (cl_exp c div second) @ enc_int (cl_iat c div second) @ enc_str (cl_jti c) @ enc_str (cl_user c)
     @ enc_nat (length (cl_groups c)) @ concat (map enc_str (cl_groups c))"

definition sample_claims :: "string \<Rightarrow> jwt_claims" where
  "sample_claims t =
     (let (e, r1) = dec_int t; (i, r2) = dec_int r1; (j, r3) = dec_str r2; (u, r4) = dec_str r3; (n, r5) = dec_nat r4
      in \<lparr>cl_exp = e * second, cl_iat = i * second, cl_jti = j, cl_user = u, cl_groups = dec_strs n r5\<rparr>)"

definition sample_verify :: "string \<Rightarrow> (jwt_algorithm \<times> jwt_claims) option" where
  "sample_verify t = (if sample_sign (sample_claims t) = t then Some (Hs512, sample_claims t) else None)"

lemma dec_nat_enc [simp]: "dec_nat (enc_nat n @ r) = (n, r)"
  by (induction n) (simp_all add: dec_nat_def enc_nat_def)

lemma dec_str_enc [simp]: "dec_str (enc_str s @ r) = (s, r)"
  by (simp add: dec_str_def enc_str_def)

lemma dec_int_enc [simp]: "dec_int (enc_int i @ r) = (i, r)"
  by (simp add: dec_int_def enc_int_def parse_digits_of)

lemma dec_strs_enc [simp]: "dec_strs (length xs) (concat (map enc_str xs)) = xs"
  by (induction xs) simp_all

lemma sample_claims_sign: "sample_claims (sample_sign c) = truncated c"
  by (simp add: sample_claims_def sample_sign_def truncated_def ts_seconds_def)

lemma sample_sign_truncated: "sample_sign (truncated c) = sample_sign c"
  by (simp add: sample_sign_def truncated_def ts_seconds_def second_def)

definition sample_auth_libs :: auth_libs where
  "sample_auth_libs =
     \<lparr>al_hash = (\<lambda>t. of_nat (length t)), al_sign = sample_sign, al_verify = sample_verify,
      al_bearer = (\<lambda>h. strip_prefix h ''Bearer ''), al_mailbox = Some, al_reset_url = (\<lambda>t. ''http://x/'' @ t),
      al_smtp = (\<lambda>_. True)\<rparr>"

lemma sample_jwt_correct: "jwt_correct sample_auth_libs"
  by (simp add: jwt_correct_def sample_auth_libs_def sample_verify_def sample_claims_sign sample_sign_truncated)

definition sample_auth :: "unit auth_env" where
  "sample_auth =
     \<lparr>ae_libs = sample_auth_libs, ae_sql = list_codec, ae_kerberos = sample_kerberos, ae_protocol = sample_opaque,
      ae_graphql = sample_env, ae_server_path = ''/'', ae_enable_password_reset = True\<rparr>"

definition sample_app :: "unit app" where
  "sample_app =
     \<lparr>ap_world = sample_world, ap_refresh = [], ap_jwts = [], ap_resets = [], ap_blacklist = {}, ap_mails = []\<rparr>"

section \<open>A login\<close>

definition bob_login :: auth_event where
  "bob_login = SimpleLogin ''rnd'' ''jti'' \<lparr>bind_name = UserId ''bob'', bind_password = ''secret''\<rparr>"

definition bob_token :: string where
  "bob_token = sample_sign (new_claims ''jti'' 7 (UserId ''bob'') [])"

definition bob_response :: http_response where
  "bob_response =
     \<lparr>rs_cookies = [strict_cookie ''token'' bob_token (days 1) ''/'',
        strict_cookie ''refresh_token'' ''rnd+bob'' (days 30) ''/auth''],
      rs_body = LoginBody bob_token (Some ''rnd+bob'')\<rparr>"

definition bob_app :: "unit app" where
  "bob_app = sample_app\<lparr>
     ap_refresh := [\<lparr>rf_hash = as_i64 3, rf_user = UserId ''bob'', rf_expiry = 7 + days 30\<rparr>],
     ap_jwts := [\<lparr>jr_hash = as_i64 (of_nat (length bob_token)), jr_user = UserId ''bob'', jr_expiry = 7 + days 1,
                  jr_blacklisted = False\<rparr>]\<rparr>"

lemma sample_facts:
  "sql_bind sample_opaque sample_db \<lparr>bind_name = UserId ''bob'', bind_password = ''secret''\<rparr> = Inr ()"
  "get_user_groups sample_db (UserId ''bob'') = Inr []" "user_exists sample_db (UserId ''bob'')"
  by code_simp+

lemmas sample_defs = sample_auth_def sample_auth_libs_def sample_app_def sample_world_def

lemma bob_served: "serve sample_auth bob_login sample_app = (Inr bob_response, bob_app)"
  using sample_facts
  by (simp add: bob_login_def simple_login_def get_login_successful_response_def create_refresh_token_def
      insert_refresh_def create_jwt_def register_jwt_def insert_jwt_def sample_defs bob_response_def bob_app_def
      bob_token_def base_path_def Let_def new_claims_def)

lemma bob_run: "7 \<le> t \<Longrightarrow> runs sample_auth sample_app [(sample_app, bob_login, Inr bob_response)] (at_time t bob_app)"
  by (rule runs_step [OF runs_start bob_served]) (simp add: sample_defs)

lemma sample_app_fresh: "fresh sample_app" "tokens_ok sample_app"
  by (simp_all add: fresh_def tokens_ok_def sample_app_def)

lemma bob_valid:
  "check_if_token_is_valid sample_auth (at_time 8 bob_app) bob_token = Inr bob"
proof -
  have "sample_verify bob_token = Some (Hs512, truncated (new_claims ''jti'' 7 (UserId ''bob'') []))"
    using sample_jwt_correct by (simp add: bob_token_def jwt_correct_def sample_auth_libs_def)
  moreover have "\<not> ts_seconds (7 + days 1) < 8" by code_simp
  moreover have "get_permissions_from_groups (user_id_from ''bob'') [] = bob" by code_simp
  ultimately show ?thesis
    by (simp add: check_if_token_is_valid_def sample_defs truncated_def new_claims_def bob_app_def)
qed

theorem accepted_token_authentic_witness: "backed sample_auth [] sample_app bob_login bob"
proof -
  have "access_token bob_response = Some bob_token" by (simp add: bob_response_def access_token_def)
  then show ?thesis
    using accepted_token_authentic [OF bob_run sample_app_fresh(1) _ _ _ bob_valid, of "[]" sample_app bob_login bob_response "[]"]
      sample_jwt_correct by (simp add: sample_auth_def)
qed

theorem token_tables_kept_witness: "tokens_ok (at_time 8 bob_app)"
  by (rule token_tables_kept [OF bob_run sample_app_fresh(2)]) simp

section \<open>Logout and refresh\<close>

definition bob_logout :: http_request where
  "bob_logout = \<lparr>rq_cookies = [(''refresh_token'', ''rnd+bob'')], rq_headers = []\<rparr>"

lemma bob_refresh_token: "get_refresh_token sample_auth_libs bob_logout = Inr (3, UserId ''bob'')"
proof -
  have "split_once CHR ''+'' ''rnd+bob'' = Some (''rnd'', ''bob'')" "user_id_from ''bob'' = UserId ''bob''" by code_simp+
  then show ?thesis
    by (simp add: get_refresh_token_def bob_logout_def parse_refresh_token_def sample_auth_libs_def)
qed

theorem logout_revokes_witness:
  "\<exists>e. check_if_token_is_valid sample_auth
     (at_time 9 (snd (serve sample_auth Restart (snd (serve sample_auth (Logout bob_logout) bob_app))))) bob_token = Inl e"
proof (rule logout_revokes [OF _ bob_served])
  show "jwt_correct (ae_libs sample_auth)" using sample_jwt_correct by (simp add: sample_auth_def)
  show "access_token bob_response = Some bob_token" by (simp add: bob_response_def access_token_def)
  show "al_verify (ae_libs sample_auth) bob_token = Some (Hs512, truncated (new_claims ''jti'' 7 (UserId ''bob'') []))"
    using sample_jwt_correct by (simp add: bob_token_def jwt_correct_def sample_auth_def sample_auth_libs_def)
  show "cl_user (truncated (new_claims ''jti'' 7 (UserId ''bob'') [])) = user_id_str (UserId ''bob'')"
    by (simp add: truncated_def new_claims_def)
  show "blacklist_loaded bob_app" by (simp add: blacklist_loaded_def get_jwt_blacklist_def bob_app_def)
  show "lasting sample_auth (UserId ''bob'') bob_app bob_app" by (rule lasting_start)
  show "get_refresh_token (ae_libs sample_auth) bob_logout = Inr (3, UserId ''bob'')"
    using bob_refresh_token by (simp add: sample_auth_def)
  then show "lasting sample_auth (UserId ''bob'') (snd (serve sample_auth (Logout bob_logout) bob_app))
      (at_time 9 (snd (serve sample_auth Restart (snd (serve sample_auth (Logout bob_logout) bob_app)))))"
    by (intro lasting_step lasting_start)
      (use sample_facts in \<open>simp_all add: get_logout_def blacklist_jwts_def delete_refresh_token_def load_blacklist_def
        bob_app_def sample_app_def sample_world_def\<close>)
qed

theorem anyone_logs_out_witness:
  "of_nat (length bob_token) \<in> ap_blacklist
     (snd (serve sample_auth (Logout \<lparr>rq_cookies = [(''refresh_token'', ''x+bob'')], rq_headers = []\<rparr>) bob_app))"
proof -
  let ?r = "\<lparr>jr_hash = as_i64 (of_nat (length bob_token)), jr_user = UserId ''bob'', jr_expiry = 7 + days 1, jr_blacklisted = False\<rparr>"
  have "split_once CHR ''+'' ''x+bob'' = Some (''x'', ''bob'')" "UserId ''bob'' = user_id_from ''bob''" by code_simp+
  moreover have "?r \<in> set (ap_jwts bob_app)" "blacklist_loaded bob_app"
    by (simp_all add: bob_app_def blacklist_loaded_def get_jwt_blacklist_def)
  ultimately show ?thesis using anyone_logs_out [of "''x+bob''" "''x''" "''bob''" ?r bob_app sample_auth] by simp
qed

lemma bob_app_ok: "tokens_ok bob_app"
  using sample_facts by (simp add: tokens_ok_def bob_app_def sample_app_def sample_world_def)

theorem refresh_granted_iff_witness:
  "\<exists>resp. fst (serve sample_auth (Refresh ''another'' bob_logout) bob_app) = Inr resp"
proof -
  have len: "length (sample_sign (new_claims ''another'' 7 (UserId ''bob'') [])) = length bob_token + 8"
    by (simp add: bob_token_def sample_sign_def new_claims_def enc_str_def enc_nat_def)
  have "(of_nat (length bob_token + 8) :: 64 word) \<noteq> of_nat (length bob_token)" by simp
  then have "as_i64 (al_hash (ae_libs sample_auth) (al_sign (ae_libs sample_auth) (new_claims ''another'' (ap_now bob_app) (UserId ''bob'') [])))
      \<notin> jr_hash ` set (ap_jwts bob_app)"
    using len by (simp add: sample_defs bob_app_def)
  moreover have "check_token 3 (UserId ''bob'') bob_app" by (simp add: check_token_def bob_app_def)
  ultimately show ?thesis
    unfolding refresh_granted_iff [OF bob_app_ok]
    using bob_refresh_token sample_facts by (auto simp: sample_defs bob_app_def)
qed

theorem auth_panics_only_witness:
  "hash_in_use sample_auth bob_app"
proof -
  have "fst (serve sample_auth (Refresh ''jti'' bob_logout) bob_app)
      = Inl (AuthPanic ''called Result::unwrap() on an Err value'')"
    using bob_refresh_token sample_facts
    by (simp add: get_refresh_def check_token_def create_jwt_def register_jwt_def insert_jwt_def sample_defs bob_app_def
        bob_token_def)
  then obtain s' where "serve sample_auth (Refresh ''jti'' bob_logout) bob_app
      = (Inl (AuthPanic ''called Result::unwrap() on an Err value''), s')" by (metis prod.collapse)
  from auth_panics_only [OF bob_app_ok this] show ?thesis
    by (auto simp: malformed_refresh_header_def bob_logout_def)
qed

section \<open>Reset\<close>

definition reset_app :: "unit app" where
  "reset_app = snd (serve sample_auth (ResetStep1 ''tok'' ''bob'') sample_app)"

lemma reset_listing:
  "\<exists>x. sql_list_users list_codec sample_world (Some (reset_filter ''bob'')) False = Inr [x]
    \<and> u_user_id (ug_user x) = UserId ''bob''"
proof -
  have "rmap (map (\<lambda>x. u_user_id (ug_user x))) (sql_list_users list_codec sample_world (Some (reset_filter ''bob'')) False)
      = Inr [UserId ''bob'']" by code_simp
  then show ?thesis by (auto simp: rmap_eq_Inr map_eq_Cons_conv)
qed

lemma reset_rows:
  "ap_resets reset_app = [\<lparr>rr_token = ''tok'', rr_user = UserId ''bob'', rr_expiry = 7 + minutes 10\<rparr>]"
  "ap_jwts reset_app = []" "ap_db reset_app = sample_db"
proof -
  obtain x where "sql_list_users list_codec sample_world (Some (reset_filter ''bob'')) False = Inr [x]"
    "u_user_id (ug_user x) = UserId ''bob''" using reset_listing by blast
  then show "ap_resets reset_app = [\<lparr>rr_token = ''tok'', rr_user = UserId ''bob'', rr_expiry = 7 + minutes 10\<rparr>]"
    and "ap_jwts reset_app = []" and "ap_db reset_app = sample_db"
    using sample_facts
    by (simp_all add: reset_app_def get_password_reset_step1_def mail_reset_token_def start_password_reset_def
        insert_reset_def send_password_reset_email_def sample_defs Let_def)
qed

lemma reset_run:
  "runs sample_auth sample_app [(sample_app, ResetStep1 ''tok'' ''bob'', fst (serve sample_auth (ResetStep1 ''tok'' ''bob'') sample_app))]
     (at_time 8 reset_app)"
  by (rule runs_step [OF runs_start]) (simp_all only: reset_app_def prod.collapse, simp add: sample_defs)

theorem reset_token_good_once_witness:
  "\<exists>resp s'. serve sample_auth (ResetStep2 ''jti'' ''tok'') (at_time 8 reset_app) = (Inr resp, s')
    \<and> serve sample_auth (ResetStep2 ''jti'' ''tok'') s' = (Inl (Tcp (NotFoundError ''Wrong or expired reset token'')), s')"
proof -
  have "8 < 7 + minutes 10" by code_simp
  then have "get_user_id_for_password_reset_token ''tok'' (at_time 8 reset_app) = Inr (UserId ''bob'')"
    by (simp add: get_user_id_for_password_reset_token_def reset_rows)
  then have "\<exists>resp. fst (serve sample_auth (ResetStep2 ''jti'' ''tok'') (at_time 8 reset_app)) = Inr resp"
    using sample_facts(3) reset_rows
    by (simp add: get_password_reset_step2_def create_jwt_def register_jwt_def insert_jwt_def
        delete_password_reset_token_def sample_auth_def Let_def)
  then obtain resp s' where r: "serve sample_auth (ResetStep2 ''jti'' ''tok'') (at_time 8 reset_app) = (Inr resp, s')"
    by (metis prod.collapse)
  from reset_token_good_once [OF reset_run sample_app_fresh(1) r runs_start, THEN conjunct2] r show ?thesis by auto
qed

section \<open>A change through the web\<close>

definition admin_login :: auth_event where
  "admin_login = SimpleLogin ''rnd'' ''jti'' \<lparr>bind_name = UserId ''admin'', bind_password = ''pw''\<rparr>"

definition admin_app :: "unit app" where
  "admin_app = snd (serve sample_auth admin_login sample_app)"

definition admin_token :: string where
  "admin_token = sample_sign (new_claims ''jti'' 7 (UserId ''admin'') [group_details_of_row (sample_group_row 1 ''lldap_admin'')])"

definition admin_request :: http_request where
  "admin_request = \<lparr>rq_cookies = [(''token'', admin_token)], rq_headers = []\<rparr>"

lemma admin_facts:
  "sql_bind sample_opaque sample_db \<lparr>bind_name = UserId ''admin'', bind_password = ''pw''\<rparr> = Inr ()"
  "get_user_groups sample_db (UserId ''admin'') = Inr [group_details_of_row (sample_group_row 1 ''lldap_admin'')]"
  "user_exists sample_db (UserId ''admin'')"
  by code_simp+

lemma visible_append [simp]: "visible_ascii (a @ b) \<longleftrightarrow> visible_ascii a \<and> visible_ascii b"
  by (simp add: visible_ascii_def)

lemma visible_enc_str [simp]: "visible_ascii (enc_str a) = visible_ascii a"
  by (auto simp: enc_str_def enc_nat_def visible_ascii_def list_all_iff)

lemma visible_digits [simp]: "visible_ascii (digits_of n)"
proof -
  have "32 \<le> (of_char c :: nat) \<and> (of_char c :: nat) < 127" if "c \<in> set (digits_of n)" for c
    using digits_of_chars [OF that] by (auto simp: digit_val_def Let_def split: if_splits)
  then show ?thesis by (simp add: visible_ascii_def list_all_iff)
qed

lemma admin_token_visible: "visible_ascii (''Bearer '' @ admin_token)"
proof -
  have "visible_ascii ''Bearer ''" "visible_ascii ''jti''" "visible_ascii ''admin''" "visible_ascii ''lldap_admin''" by code_simp+
  moreover have "visible_ascii (enc_nat n)" for n by (simp add: enc_nat_def visible_ascii_def list_all_iff)
  ultimately have "visible_ascii admin_token"
    by (simp add: admin_token_def sample_sign_def new_claims_def enc_int_def group_details_of_row_def sample_group_row_def)
  then show ?thesis unfolding visible_append using \<open>visible_ascii ''Bearer ''\<close> by simp
qed

lemma admin_served:
  "\<exists>resp. serve sample_auth admin_login sample_app = (Inr resp, admin_app) \<and> access_token resp = Some admin_token
    \<and> ap_world admin_app = sample_world \<and> ap_blacklist admin_app = {}"
  using admin_facts
  by (simp add: admin_app_def admin_login_def simple_login_def get_login_successful_response_def create_refresh_token_def
      insert_refresh_def create_jwt_def register_jwt_def insert_jwt_def sample_defs admin_token_def
      access_token_def Let_def new_claims_def)

lemma admin_authorised: "authorise sample_auth admin_request (at_time 8 admin_app) = Inr the_admin"
proof -
  have "sample_verify admin_token = Some (Hs512, truncated (new_claims ''jti'' 7 (UserId ''admin'')
      [group_details_of_row (sample_group_row 1 ''lldap_admin'')]))"
    using sample_jwt_correct by (simp add: admin_token_def jwt_correct_def sample_auth_libs_def)
  moreover have "\<not> ts_seconds (7 + days 1) < 8" by code_simp
  moreover have "get_permissions_from_groups (user_id_from ''admin'') [GroupName ''lldap_admin''] = the_admin" by code_simp
  moreover have "map_of (AList.update ''authorization'' (''Bearer '' @ admin_token) []) ''authorization'' = Some (''Bearer '' @ admin_token)"
    by simp
  ultimately show ?thesis
    using admin_token_visible admin_served
    by (auto simp: authorise_def translate_cookie_def admin_request_def bearer_token_def strip_prefix_def starts_with_def
        check_if_token_is_valid_def sample_defs truncated_def new_claims_def group_details_of_row_def sample_group_row_def)
qed

lemma eve_deleted:
  "snd (run_mutation sample_env (as_caller the_admin) (MDeleteUser ''eve'') (sample_world\<lparr>w_now := 8\<rparr>)) \<noteq> sample_world\<lparr>w_now := 8\<rparr>"
proof -
  have "length (t_users (w_db (snd (run_mutation sample_env (as_caller the_admin) (MDeleteUser ''eve'')
      (sample_world\<lparr>w_now := 8\<rparr>))))) = 2" by code_simp
  moreover have "length (t_users sample_db) = 3" by code_simp
  ultimately show ?thesis by (auto simp: sample_world_def)
qed

theorem web_change_authentic_witness:
  "mutation_allowed the_admin (MDeleteUser ''eve'') \<and> backed sample_auth [] sample_app admin_login the_admin"
proof -
  obtain resp where resp: "serve sample_auth admin_login sample_app = (Inr resp, admin_app)"
    "access_token resp = Some admin_token" "ap_world admin_app = sample_world" using admin_served by blast
  have run: "runs sample_auth sample_app [(sample_app, admin_login, Inr resp)] (at_time 8 admin_app)"
    by (rule runs_step [OF runs_start resp(1)]) (simp add: sample_defs)
  let ?s' = "snd (serve sample_auth (GraphqlMutation admin_request (MDeleteUser ''eve'')) (at_time 8 admin_app))"
  have changed: "ap_world ?s' \<noteq> ap_world (at_time 8 admin_app)"
    using eve_deleted admin_authorised resp(3)
    by (simp add: graphql_route_def set_world_def at_time_def as_caller_def sample_auth_def Let_def case_prod_unfold)
  have "jwt_correct (ae_libs sample_auth)" using sample_jwt_correct by (simp add: sample_auth_def)
  from web_change_authentic [OF run sample_app_fresh(1) this prod.collapse [symmetric] changed]
  obtain request' t v where v: "translate_cookie admin_request = Inr request'" "bearer_token (ae_libs sample_auth) request' = Some t"
    "check_if_token_is_valid sample_auth (at_time 8 admin_app) t = Inr v" "mutation_allowed v (MDeleteUser ''eve'')"
    and b: "\<forall>later s1 ev resp' earlier. [(sample_app, admin_login, Inr resp)] = later @ (s1, ev, Inr resp') # earlier
      \<and> access_token resp' = Some t \<longrightarrow> backed sample_auth earlier s1 ev v"
    by (elim exE conjE) (rule that)
  have "authorise sample_auth admin_request (at_time 8 admin_app) = Inr v" using v by (simp add: authorise_def rbind_def ok_or_def map_err_def)
  then have "v = the_admin" using admin_authorised by simp
  moreover have "t = admin_token"
    using v(1,2) admin_token_visible
    by (auto simp: translate_cookie_def admin_request_def bearer_token_def strip_prefix_def starts_with_def
        sample_auth_def sample_auth_libs_def split: if_splits)
  ultimately show ?thesis using v(4) b [rule_format, of "[]" sample_app admin_login resp "[]"] resp(2) by simp
qed

end
