(* ===== verification/Configuration.thy ===== *)
theory Configuration
  imports Domain "HOL-Library.Word"
begin

text \<open>
  The configuration of the server (\<open>server/src/configuration.rs\<close>, \<open>server/src/cli.rs\<close>): its defaults,
  the options of the command line that override it, the server's private key from a seed or a
  file, and the check that the key is the one the stored passwords were made with. The layered
  configuration library, the file system and the key generation are parameters.
\<close>

section \<open>Options\<close>

type_synonym port = "16 word"

datatype smtp_encryption = SmtpNone | SmtpTls | SmtpStartTls

datatype true_false_always = TfaFalse | TfaTrue | TfaAlways

definition is_positive :: "true_false_always \<Rightarrow> bool" where
  "is_positive t \<longleftrightarrow> t = TfaTrue \<or> t = TfaAlways"

definition is_yes :: "true_false_always \<Rightarrow> bool" where
  "is_yes t \<longleftrightarrow> t = TfaTrue"

text \<open>From a boolean or from a text in any letter case.\<close>

definition tfa_visit_bool :: "bool \<Rightarrow> true_false_always" where
  "tfa_visit_bool b = (if b then TfaTrue else TfaFalse)"

definition tfa_visit_str :: "string \<Rightarrow> true_false_always option" where
  "tfa_visit_str s =
     (let l = to_ascii_lowercase s in
      if l = ''false'' then Some TfaFalse else if l = ''true'' then Some TfaTrue
      else if l = ''always'' then Some TfaAlways else None)"

record mail_options =
  mo_enable_password_reset :: bool
  mo_from :: "string option"
  mo_reply_to :: "string option"
  mo_server :: string
  mo_port :: port
  mo_user :: string
  mo_password :: string
  mo_smtp_encryption :: smtp_encryption
  mo_tls_required :: "bool option"

definition default_mail_options :: mail_options where
  "default_mail_options =
     \<lparr>mo_enable_password_reset = False, mo_from = None, mo_reply_to = None, mo_server = ''localhost'', mo_port = 587,
      mo_user = [], mo_password = [], mo_smtp_encryption = SmtpTls, mo_tls_required = None\<rparr>"

record ldaps_options =
  lo_enabled :: bool
  lo_port :: port
  lo_cert_file :: string
  lo_key_file :: string

definition default_ldaps_options :: ldaps_options where
  "default_ldaps_options = \<lparr>lo_enabled = False, lo_port = 6360, lo_cert_file = ''cert.pem'', lo_key_file = ''key.pem''\<rparr>"

record keycloak_options =
  ko_url :: string
  ko_realm :: string
  ko_admin_user :: string
  ko_admin_pass :: string

definition default_keycloak_options :: keycloak_options where
  "default_keycloak_options =
     \<lparr>ko_url = ''http://keycloak:8080'', ko_realm = ''master'', ko_admin_user = ''admin'', ko_admin_pass = []\<rparr>"

record healthcheck_options =
  ho_http_host :: string
  ho_ldap_host :: string

definition default_healthcheck_options :: healthcheck_options where
  "default_healthcheck_options = \<lparr>ho_http_host = ''localhost'', ho_ldap_host = ''localhost''\<rparr>"

section \<open>The key of the server\<close>

datatype config_location = ConfigFile string | EnvironmentVariable string | CommandLine

datatype private_key_location =
    KeySeed config_location
  | KeyFile config_location string
  | DefaultLocation
  | TestsLocation

text \<open>The OPAQUE server setup, of which the model only needs that it is a value.\<close>

record server_setup_config =
  ss_server_setup :: string
  ss_private_key_location :: private_key_location

record private_key_info =
  pk_private_key_hash :: bytes
  pk_private_key_location :: private_key_location

record key_libs =
  kl_from_seed :: "bytes \<Rightarrow> string"
  kl_random :: string
  kl_sha256 :: "bytes \<Rightarrow> bytes"
  kl_serialize :: "string \<Rightarrow> bytes"
  kl_deserialize :: "bytes \<Rightarrow> string option"
  kl_private_key :: "string \<Rightarrow> bytes"
  kl_writable :: "string \<Rightarrow> bool"

datatype startup_error = Bail string | StartPanic string

definition private_key_info_of :: "key_libs \<Rightarrow> server_setup_config \<Rightarrow> private_key_info" where
  "private_key_info_of L c =
     \<lparr>pk_private_key_hash = kl_sha256 L (kl_private_key L (ss_server_setup c)),
      pk_private_key_location = ss_private_key_location c\<rparr>"

text \<open>Whether the key is entirely new; an error when it is another key than before. The texts of the
  errors differ by the locations.\<close>

definition compare_private_key_hashes ::
  "private_key_info option \<Rightarrow> private_key_info \<Rightarrow> startup_error + bool" where
  "compare_private_key_hashes previous info =
     (case previous of
        None \<Rightarrow> Inr True
      | Some p \<Rightarrow>
          if pk_private_key_hash p = pk_private_key_hash info then Inr False
          else (case (pk_private_key_location p, pk_private_key_location info) of
                  (KeyFile _ _, KeySeed _) \<Rightarrow> Inl (Bail ''The private key is configured to be generated from a seed, but it used to come from the file'')
                | (DefaultLocation, KeySeed _) \<Rightarrow> Inl (Bail ''The private key is configured to be generated from a seed, but it used to come from default key file'')
                | (KeyFile _ old_path, KeyFile _ new_path) \<Rightarrow>
                    if old_path = new_path then Inl (Bail ''The contents of the private key file have changed'')
                    else Inl (Bail ''The private key file used to be another one'')
                | (TestsLocation, _) \<Rightarrow> Inl (StartPanic ''Test keys unexpected'')
                | (_, TestsLocation) \<Rightarrow> Inl (StartPanic ''Test keys unexpected'')
                | _ \<Rightarrow> Inl (Bail ''The private key has changed'')))"

section \<open>Where a value comes from\<close>

text \<open>What the configuration library knows of the source of a key.\<close>

datatype value_source = NoSource | SourceFile string | SourceNamed string | SourceCode | SourceOther

record figment_sources =
  fs_key_seed :: value_source
  fs_key_file :: value_source

datatype location_or_figment = LFigment figment_sources | LLocation private_key_location

definition for_key_seed :: "location_or_figment \<Rightarrow> startup_error + private_key_location" where
  "for_key_seed l =
     (case l of
        LFigment f \<Rightarrow>
          (case fs_key_seed f of
             SourceFile path \<Rightarrow> Inr (KeySeed (ConfigFile path))
           | SourceNamed name \<Rightarrow> Inr (KeySeed (EnvironmentVariable name))
           | NoSource \<Rightarrow> Inr DefaultLocation
           | SourceCode \<Rightarrow> Inr DefaultLocation
           | SourceOther \<Rightarrow> Inl (StartPanic ''Unexpected config location''))
      | LLocation (KeyFile _ _) \<Rightarrow> Inl (StartPanic ''Unexpected location'')
      | LLocation location \<Rightarrow> Inr location)"

definition for_key_file :: "location_or_figment \<Rightarrow> string \<Rightarrow> startup_error + private_key_location" where
  "for_key_file l server_key_file =
     (case l of
        LFigment f \<Rightarrow>
          (case fs_key_file f of
             SourceFile path \<Rightarrow> Inr (KeyFile (ConfigFile path) server_key_file)
           | SourceNamed name \<Rightarrow> Inr (KeyFile (EnvironmentVariable name) server_key_file)
           | NoSource \<Rightarrow> Inr DefaultLocation
           | SourceCode \<Rightarrow> Inr DefaultLocation
           | SourceOther \<Rightarrow> Inl (StartPanic ''Unexpected config location''))
      | LLocation (KeySeed _) \<Rightarrow> Inl (StartPanic ''Unexpected location'')
      | LLocation location \<Rightarrow> Inr location)"

definition FIGMENT_DUMMY_KEY_SEED :: string where
  "FIGMENT_DUMMY_KEY_SEED = ''__LLDAP_FIGMENT_DEFAULTS_DUMMY_SEED__''"

definition zero_seed :: bytes where
  "zero_seed = replicate 32 CHR 0x00"

text \<open>The files by their paths; a file that exists may be unreadable.\<close>

datatype stored_file = Readable bytes | Unreadable

type_synonym file_system = "string \<Rightarrow> stored_file option"

definition write_to_readonly_file :: "key_libs \<Rightarrow> string \<Rightarrow> bytes \<Rightarrow> file_system \<Rightarrow> (startup_error + unit) \<times> file_system" where
  "write_to_readonly_file L path buffer fs =
     (if fs path \<noteq> None then (Inl (StartPanic ''assertion failed: !path.exists()''), fs)
      else if kl_writable L path then (Inr (), fs(path \<mapsto> Readable buffer))
      else (Inl (Bail ''Could not write the generated server setup to file''), fs))"

definition located :: "string \<Rightarrow> startup_error + private_key_location \<Rightarrow> startup_error + server_setup_config" where
  "located setup l = rmap (\<lambda>loc. \<lparr>ss_server_setup = setup, ss_private_key_location = loc\<rparr>) l"

definition get_server_setup ::
  "key_libs \<Rightarrow> string \<Rightarrow> string \<Rightarrow> location_or_figment \<Rightarrow> file_system \<Rightarrow> (startup_error + server_setup_config) \<times> file_system" where
  "get_server_setup L file_path key_seed l fs =
     (if key_seed = FIGMENT_DUMMY_KEY_SEED
      then (Inr \<lparr>ss_server_setup = kl_from_seed L zero_seed, ss_private_key_location = DefaultLocation\<rparr>, fs)
      else if key_seed \<noteq> [] then
        (if fs file_path \<noteq> None then (Inl (Bail ''A key_seed was given, but a key file already exists''), fs)
         else (located (kl_from_seed L (kl_sha256 L key_seed)) (for_key_seed l), fs))
      else (case fs file_path of
              Some Unreadable \<Rightarrow> (Inl (Bail ''Could not read key file''), fs)
            | Some (Readable b) \<Rightarrow>
                (case kl_deserialize L b of
                   None \<Rightarrow> (Inl (Bail ''while parsing the contents of the key file''), fs)
                 | Some setup \<Rightarrow> (located setup (for_key_file l file_path), fs))
            | None \<Rightarrow>
                (case write_to_readonly_file L file_path (kl_serialize L (kl_random L)) fs of
                   (Inl e, fs') \<Rightarrow> (Inl e, fs')
                 | (Inr _, fs') \<Rightarrow> (located (kl_random L) (for_key_file l file_path), fs'))))"

section \<open>The configuration\<close>

record configuration =
  cf_ldap_host :: string
  cf_ldap_port :: port
  cf_http_host :: string
  cf_http_port :: port
  cf_jwt_secret :: "string option"
  cf_ldap_base_dn :: string
  cf_ldap_user_dn :: user_id
  cf_ldap_user_email :: string
  cf_ldap_user_pass :: "string option"
  cf_force_ldap_user_pass_reset :: true_false_always
  cf_force_update_private_key :: bool
  cf_database_url :: string
  cf_ignored_user_attributes :: "attribute_name list"
  cf_ignored_group_attributes :: "attribute_name list"
  cf_verbose :: bool
  cf_key_file :: string
  cf_key_seed :: "string option"
  cf_assets_path :: string
  cf_smtp_options :: mail_options
  cf_ldaps_options :: ldaps_options
  cf_keycloak_options :: keycloak_options
  cf_http_url :: string
  cf_server_setup :: "server_setup_config option"
  cf_healthcheck_options :: healthcheck_options

text \<open>The shape that the layers are merged into: the builder's defaults with the dummy seed.\<close>

definition figment_defaults :: "key_libs \<Rightarrow> configuration" where
  "figment_defaults L =
     \<lparr>cf_ldap_host = ''0.0.0.0'', cf_ldap_port = 3890, cf_http_host = ''0.0.0.0'', cf_http_port = 17170,
      cf_jwt_secret = None, cf_ldap_base_dn = ''dc=example,dc=com'', cf_ldap_user_dn = user_id_from ''admin'',
      cf_ldap_user_email = [], cf_ldap_user_pass = None, cf_force_ldap_user_pass_reset = TfaFalse,
      cf_force_update_private_key = False, cf_database_url = ''sqlite://users.db?mode=rwc'',
      cf_ignored_user_attributes = [], cf_ignored_group_attributes = [], cf_verbose = False,
      cf_key_file = ''server_key'', cf_key_seed = Some FIGMENT_DUMMY_KEY_SEED, cf_assets_path = ''./app'',
      cf_smtp_options = default_mail_options, cf_ldaps_options = default_ldaps_options,
      cf_keycloak_options = default_keycloak_options, cf_http_url = ''http://localhost'',
      cf_server_setup = None, cf_healthcheck_options = default_healthcheck_options\<rparr>"

record smtp_opts =
  so_enable_password_reset :: "bool option"
  so_from :: "string option"
  so_reply_to :: "string option"
  so_server :: "string option"
  so_port :: "port option"
  so_user :: "string option"
  so_password :: "string option"
  so_tls_required :: "bool option"
  so_encryption :: "smtp_encryption option"

record ldaps_opts =
  la_enabled :: "bool option"
  la_port :: "port option"
  la_cert_file :: "string option"
  la_key_file :: "string option"

record healthcheck_opts =
  hc_http_host :: "string option"
  hc_ldap_host :: "string option"

record run_opts =
  ro_verbose :: bool
  ro_server_key_file :: "string option"
  ro_server_key_seed :: "string option"
  ro_ldap_host :: "string option"
  ro_ldap_port :: "port option"
  ro_http_host :: "string option"
  ro_http_port :: "port option"
  ro_http_url :: "string option"
  ro_database_url :: "string option"
  ro_force_ldap_user_pass_reset :: "true_false_always option"
  ro_force_update_private_key :: "bool option"
  ro_smtp_opts :: smtp_opts
  ro_ldaps_opts :: ldaps_opts
  ro_healthcheck_opts :: healthcheck_opts

definition override_ldaps :: "ldaps_opts \<Rightarrow> ldaps_options \<Rightarrow> ldaps_options" where
  "override_ldaps o' c =
     \<lparr>lo_enabled = unwrap_or (lo_enabled c) (la_enabled o'), lo_port = unwrap_or (lo_port c) (la_port o'),
      lo_cert_file = unwrap_or (lo_cert_file c) (la_cert_file o'), lo_key_file = unwrap_or (lo_key_file c) (la_key_file o')\<rparr>"

definition override_smtp :: "smtp_opts \<Rightarrow> mail_options \<Rightarrow> mail_options" where
  "override_smtp o' c =
     \<lparr>mo_enable_password_reset = unwrap_or (mo_enable_password_reset c) (so_enable_password_reset o'),
      mo_from = (case so_from o' of None \<Rightarrow> mo_from c | f \<Rightarrow> f),
      mo_reply_to = (case so_reply_to o' of None \<Rightarrow> mo_reply_to c | f \<Rightarrow> f),
      mo_server = unwrap_or (mo_server c) (so_server o'), mo_port = unwrap_or (mo_port c) (so_port o'),
      mo_user = unwrap_or (mo_user c) (so_user o'), mo_password = unwrap_or (mo_password c) (so_password o'),
      mo_smtp_encryption = unwrap_or (mo_smtp_encryption c) (so_encryption o'),
      mo_tls_required = (case so_tls_required o' of None \<Rightarrow> mo_tls_required c | t \<Rightarrow> t)\<rparr>"

text \<open>\<open>ConfigOverrider\<close> of the command \<open>run\<close>. The hosts and the options of the health check are not
  taken over.\<close>

definition override_config :: "run_opts \<Rightarrow> configuration \<Rightarrow> configuration" where
  "override_config o' c = c\<lparr>
     cf_verbose := cf_verbose c \<or> ro_verbose o',
     cf_key_file := unwrap_or (cf_key_file c) (ro_server_key_file o'),
     cf_key_seed := (case ro_server_key_seed o' of None \<Rightarrow> cf_key_seed c | s \<Rightarrow> s),
     cf_ldap_port := unwrap_or (cf_ldap_port c) (ro_ldap_port o'),
     cf_http_port := unwrap_or (cf_http_port c) (ro_http_port o'),
     cf_http_url := unwrap_or (cf_http_url c) (ro_http_url o'),
     cf_database_url := unwrap_or (cf_database_url c) (ro_database_url o'),
     cf_force_ldap_user_pass_reset := unwrap_or (cf_force_ldap_user_pass_reset c) (ro_force_ldap_user_pass_reset o'),
     cf_force_update_private_key := unwrap_or (cf_force_update_private_key c) (ro_force_update_private_key o'),
     cf_smtp_options := override_smtp (ro_smtp_opts o') (cf_smtp_options c),
     cf_ldaps_options := override_ldaps (ro_ldaps_opts o') (cf_ldaps_options c)\<rparr>"

text \<open>The configuration library: it merges the file and the environment into the defaults.\<close>

record figment =
  fg_extract :: "configuration \<Rightarrow> string + configuration"
  fg_sources :: figment_sources

definition config_init :: "key_libs \<Rightarrow> figment \<Rightarrow> run_opts \<Rightarrow> file_system \<Rightarrow> (startup_error + configuration) \<times> file_system" where
  "config_init L F overrides fs =
     (case fg_extract F (figment_defaults L) of
        Inl e \<Rightarrow> (Inl (Bail e), fs)
      | Inr extracted \<Rightarrow>
          (let config = override_config overrides extracted in
           sbind (get_server_setup L (cf_key_file config) (unwrap_or [] (cf_key_seed config)) (LFigment (fg_sources F)) fs)
             (\<lambda>setup fs'.
               (if cf_jwt_secret config = None then Inl (Bail ''The JWT secret must be initialized'')
                else Inr (config\<lparr>cf_server_setup := Some setup\<rparr>), fs'))))"

section \<open>Keys survive restarts\<close>

lemma located_eq_Inr:
  "located setup l = Inr c \<longleftrightarrow> (\<exists>loc. l = Inr loc \<and> c = \<lparr>ss_server_setup = setup, ss_private_key_location = loc\<rparr>)"
  by (auto simp: located_def rmap_eq_Inr)

text \<open>C34: The key survives a restart. When the server found or made its key, the next start with the
  same settings and the files that the first one left gives the same key from the same place, and
  writes nothing, whatever the random generator draws then. So the check of the stored hash passes.\<close>

theorem key_survives_restart:
  assumes "get_server_setup L file_path key_seed l fs = (Inr c, fs')"
    and "kl_deserialize L (kl_serialize L (kl_random L)) = Some (kl_random L)"
    and "L' = L\<lparr>kl_random := r\<rparr>"
  shows "get_server_setup L' file_path key_seed l fs' = (Inr c, fs')
    \<and> compare_private_key_hashes (Some (private_key_info_of L c)) (private_key_info_of L' c) = Inr False"
proof
  show "get_server_setup L' file_path key_seed l fs' = (Inr c, fs')"
    using assms
    by (auto simp: get_server_setup_def write_to_readonly_file_def located_eq_Inr
        split: if_splits option.splits stored_file.splits)
  show "compare_private_key_hashes (Some (private_key_info_of L c)) (private_key_info_of L' c) = Inr False"
    using assms(3) by (simp add: compare_private_key_hashes_def private_key_info_of_def)
qed

text \<open>The comparison of keys answers that the key is new exactly when none is stored, that it is
  unchanged exactly when the stored hash is the same, and panics only on keys of the tests.\<close>

theorem compare_keys_exact:
  "(compare_private_key_hashes p info = Inr True \<longleftrightarrow> p = None)
   \<and> (compare_private_key_hashes p info = Inr False \<longleftrightarrow>
        (\<exists>q. p = Some q \<and> pk_private_key_hash q = pk_private_key_hash info))
   \<and> ((\<exists>m. compare_private_key_hashes p info = Inl (StartPanic m)) \<longleftrightarrow>
        (\<exists>q. p = Some q \<and> pk_private_key_hash q \<noteq> pk_private_key_hash info
           \<and> (pk_private_key_location q = TestsLocation \<or> pk_private_key_location info = TestsLocation)))"
  by (auto simp: compare_private_key_hashes_def split: option.splits private_key_location.splits)

text \<open>Without a seed the key is no secret. When neither the configuration nor the command line sets a
  seed, the dummy seed of the defaults comes through the merge, and the server takes the key that
  is made from 32 zero bytes; the key file is neither read nor written.\<close>

theorem unset_seed_gives_constant_key:
  assumes "\<forall>d c. fg_extract F d = Inr c \<longrightarrow> cf_key_seed c = cf_key_seed d" and "ro_server_key_seed overrides = None"
    and "config_init L F overrides fs = (Inr config, fs')"
  shows "cf_server_setup config = Some \<lparr>ss_server_setup = kl_from_seed L zero_seed, ss_private_key_location = DefaultLocation\<rparr>
    \<and> fs' = fs"
proof -
  obtain extracted where e: "fg_extract F (figment_defaults L) = Inr extracted"
    using assms(3) by (auto simp: config_init_def split: sum.splits)
  then have "cf_key_seed (override_config overrides extracted) = Some FIGMENT_DUMMY_KEY_SEED"
    using assms(1,2) by (auto simp: override_config_def figment_defaults_def)
  then show ?thesis
    using assms(3) e by (auto simp: config_init_def get_server_setup_def Let_def split: if_splits)
qed

text \<open>The command line does not reach the hosts: whatever hosts it gives for the servers and for the
  health check, the configuration is the same as without them.\<close>

theorem hosts_not_overridden:
  "override_config (overrides\<lparr>ro_ldap_host := h1, ro_http_host := h2, ro_healthcheck_opts := h3\<rparr>) c = override_config overrides c"
  by (simp add: override_config_def)

end
