(* ===== verification/Startup.thy ===== *)
theory Startup
  imports Configuration Directory
begin

text \<open>
  The start of the server (\<open>server/src/main.rs\<close>): the check of the private key against the one that is
  recorded in the database (\<open>sql_tables.rs\<close>), the built-in groups, the administrator and the forced
  reset of his password. The tables are those after the migrations. It is shown that a start that
  succeeds leaves the directory in the state that the invariant of the backend begins with.
\<close>

section \<open>The steps\<close>

text \<open>The world of the backend and the row of the table \<open>metadata\<close> that records the key.\<close>

record 'k server_db =
  sd_world :: "'k world"
  sd_private_key :: "private_key_info option"

definition failed :: "'a dresult \<Rightarrow> startup_error + 'a" where
  "failed r = map_err (\<lambda>_. Bail ''database'') r"

definition text_attribute :: "string \<Rightarrow> string \<Rightarrow> attribute" where
  "text_attribute n v = \<lparr>attr_name = attribute_name_from n, attr_value = AString (Singleton v)\<rparr>"

definition ensure_group_exists :: "sql_libs \<Rightarrow> string \<Rightarrow> 'k world \<Rightarrow> (startup_error + unit) \<times> 'k world" where
  "ensure_group_exists Q group_name w =
     (case list_groups Q (w_db w) (Some (GDisplayName (GroupName group_name))) of
        Inl _ \<Rightarrow> (Inl (Bail ''database''), w)
      | Inr [] \<Rightarrow>
          (let (r, w') = Sql_Groups.create_group Q
                 \<lparr>cg_display_name = GroupName group_name, cg_attributes = [text_attribute ''ou'' ''groups'']\<rparr> w
           in (failed (rmap (\<lambda>_. ()) r), w'))
      | Inr _ \<Rightarrow> (Inr (), w))"

fun ensure_groups :: "sql_libs \<Rightarrow> string list \<Rightarrow> 'k world \<Rightarrow> (startup_error + unit) \<times> 'k world" where
  "ensure_groups Q [] w = (Inr (), w)"
| "ensure_groups Q (n # ns) w = sbind (ensure_group_exists Q n w) (\<lambda>_. ensure_groups Q ns)"

definition create_admin_user ::
  "sql_libs \<Rightarrow> opaque_server \<Rightarrow> opaque_client \<Rightarrow> configuration \<Rightarrow> 'k world \<Rightarrow> (startup_error + unit) \<times> 'k world" where
  "create_admin_user Q P C config w =
     (case cf_ldap_user_pass config of
        None \<Rightarrow> (Inl (StartPanic ''The LDAP admin password must be initialized.''), w)
      | Some pass \<Rightarrow>
          if length pass < 8 then (Inl (StartPanic ''Minimum password length is 8 characters''), w)
          else
            (case Sql_Users.create_user Q \<lparr>cu_user_id = cf_ldap_user_dn config,
                    cu_email = Email (cf_ldap_user_email config), cu_display_name = Some ''Administrator'',
                    cu_attributes = [text_attribute ''ou'' ''people'']\<rparr> w of
               (Inl _, w1) \<Rightarrow> (Inl (Bail ''Error creating admin user''), w1)
             | (Inr _, w1) \<Rightarrow>
            (case register_password P C (cf_ldap_user_dn config) pass w1 of
               (Inl _, w2) \<Rightarrow> (Inl (Bail ''Error creating admin user''), w2)
             | (Inr _, w2) \<Rightarrow>
            (case list_groups Q (w_db w2) (Some (GDisplayName (GroupName ''lldap_admin''))) of
               Inr [g] \<Rightarrow>
                 (let (r, w3) = add_user_to_group Q (cf_ldap_user_dn config) (g_id g) w2 in (failed r, w3))
             | Inr _ \<Rightarrow> (Inl (StartPanic ''assertion failed: groups.len() == 1''), w2)
             | Inl _ \<Rightarrow> (Inl (Bail ''database''), w2)))))"

definition check_private_key ::
  "private_key_info \<Rightarrow> bool \<Rightarrow> private_key_info option \<Rightarrow> (startup_error + unit) \<times> private_key_info option" where
  "check_private_key info force_update stored =
     (case (compare_private_key_hashes stored info, force_update) of
        (Inl (StartPanic p), _) \<Rightarrow> (Inl (StartPanic p), stored)
      | (Inr False, True) \<Rightarrow> (Inl (Bail ''The private key has not changed, but force_update_private_key is set to true.''), stored)
      | (Inr True, _) \<Rightarrow> (Inr (), Some info)
      | (Inl (Bail _), True) \<Rightarrow> (Inr (), Some info)
      | (Inr False, False) \<Rightarrow> (Inr (), stored)
      | (Inl (Bail _), False) \<Rightarrow> (Inl (Bail ''The private key encoding the passwords has changed since last successful startup.''), stored))"

definition admin_present :: "sql_libs \<Rightarrow> 'k world \<Rightarrow> bool" where
  "admin_present Q w =
     (case sql_list_users Q w (Some (UMemberOf (GroupName ''lldap_admin''))) False of
        Inr admins \<Rightarrow> admins \<noteq> [] | Inl _ \<Rightarrow> False)"

definition set_up_admin ::
  "sql_libs \<Rightarrow> opaque_server \<Rightarrow> opaque_client \<Rightarrow> configuration \<Rightarrow> 'k world \<Rightarrow> (startup_error + unit) \<times> 'k world" where
  "set_up_admin Q P C config w =
     (if \<not> admin_present Q w then create_admin_user Q P C config w
      else if is_positive (cf_force_ldap_user_pass_reset config) then
        (case cf_ldap_user_pass config of
           None \<Rightarrow> (Inl (StartPanic ''The LDAP admin password must be initialized.''), w)
         | Some pass \<Rightarrow>
             (let (r, w') = register_password P C (cf_ldap_user_dn config) pass w in (failed r, w')))
      else (Inr (), w))"

definition set_up_server ::
  "sql_libs \<Rightarrow> opaque_server \<Rightarrow> opaque_client \<Rightarrow> configuration \<Rightarrow> private_key_info \<Rightarrow> 'k server_db
     \<Rightarrow> (startup_error + unit) \<times> 'k server_db" where
  "set_up_server Q P C config info s =
     (case check_private_key info (cf_force_update_private_key config) (sd_private_key s) of
        (Inl e, k) \<Rightarrow> (Inl e, s\<lparr>sd_private_key := k\<rparr>)
      | (Inr _, k) \<Rightarrow>
          (let (r, w) = sbind (ensure_groups Q BUILTIN_GROUPS (sd_world s)) (\<lambda>_. set_up_admin Q P C config)
           in (rbind r (\<lambda>_.
                 if cf_force_update_private_key config \<or> is_yes (cf_force_ldap_user_pass_reset config)
                 then Inl (Bail ''Restart the server without --force-update-private-key or --force-ldap-user-pass-reset to continue.'')
                 else Inr ()), s\<lparr>sd_world := w, sd_private_key := k\<rparr>)))"

section \<open>Listing by name\<close>

lemma attach_length: "attach_group_attributes Q sch xs rows = Inr ys \<Longrightarrow> length ys = length xs"
  by (induction xs arbitrary: rows ys) (auto simp: Let_def rbind_eq_Inr rmap_eq_Inr)

lemma listed_by_name:
  assumes "db_ok d" and "list_groups Q d (Some (GDisplayName (GroupName n))) = Inr gs" and "to_ascii_lowercase n = n"
  shows "gs = [] \<longleftrightarrow> (\<forall>r \<in> set (t_groups d). to_ascii_lowercase (group_name_str (gr_display_name r)) \<noteq> n)"
    and "g \<in> set gs \<Longrightarrow> \<exists>r \<in> set (t_groups d). gr_group_id r = g_id g \<and> to_ascii_lowercase (group_name_str (gr_display_name r)) = n"
proof -
  have low: "r \<in> set (t_groups d) \<Longrightarrow> gr_lowercase_display_name r = to_ascii_lowercase (group_name_str (gr_display_name r))" for r
    using assms(1) by (simp add: db_ok_def)
  have "length gs = length (select_groups Q (DName n) d)"
    using assms(2,3)
    by (auto simp: list_groups_def Let_def rbind_eq_Inr rmap_eq_Inr dest: attach_length)
  then have "gs = [] \<longleftrightarrow> select_groups Q (DName n) d = []" by auto
  then show "gs = [] \<longleftrightarrow> (\<forall>r \<in> set (t_groups d). to_ascii_lowercase (group_name_str (gr_display_name r)) \<noteq> n)"
    using low by (auto simp: select_groups_def filter_empty_conv simp flip: set_empty)
  assume "g \<in> set gs"
  then obtain r where r: "r \<in> set (select_groups Q (group_condition Q (Some (GDisplayName (GroupName n)))) d)"
    and g: "g = (group_of_row d r)\<lparr>g_attributes := g_attributes g\<rparr>"
    using list_groups_rows [OF assms(1,2)] by metis
  have "g_id g = gr_group_id r" using arg_cong [OF g, of g_id] by (simp add: group_of_row_def)
  then show "\<exists>r \<in> set (t_groups d). gr_group_id r = g_id g \<and> to_ascii_lowercase (group_name_str (gr_display_name r)) = n"
    using r low assms(3) by (auto simp: select_groups_def group_condition_def)
qed

section \<open>The built-in groups\<close>

text \<open>The directory before a start: the keys hold, nobody is an administrator and disabled, and no group
  has a built-in name in another spelling. A directory that satisfies the invariant of the backend is
  one of them.\<close>

definition spelt :: "db \<Rightarrow> bool" where
  "spelt d \<longleftrightarrow> (\<forall>r \<in> set (t_groups d). \<forall>n \<in> set BUILTIN_GROUPS.
     to_ascii_lowercase (group_name_str (gr_display_name r)) = n \<longrightarrow> gr_display_name r = GroupName n)"

definition seeding :: "db \<Rightarrow> bool" where
  "seeding d \<longleftrightarrow> db_ok d \<and> exclusive d \<and> spelt d"

lemma guarded_spelt: "guarded d \<Longrightarrow> spelt d"
  unfolding spelt_def
proof (intro ballI impI)
  fix r n assume g: "guarded d" and r: "r \<in> set (t_groups d)" and n: "n \<in> set BUILTIN_GROUPS"
    "to_ascii_lowercase (group_name_str (gr_display_name r)) = n"
  have ok: "db_ok d" by (rule guardedD(1) [OF g])
  obtain h where h: "h \<in> set (t_groups d)" "gr_display_name h = GroupName n"
    using builtin_row [OF guardedD(2) [OF g] n(1)] .
  have "gr_lowercase_display_name h = gr_lowercase_display_name r"
    using ok r h n by (auto simp: db_ok_def BUILTIN_GROUPS_def)
  moreover have "inj_on gr_lowercase_display_name (set (t_groups d))"
    using ok by (simp add: db_ok_def unique_groups_def distinct_map)
  ultimately have "h = r" using r h(1) by (simp add: inj_on_def)
  then show "gr_display_name r = GroupName n" using h by simp
qed

lemma guarded_seeding: "guarded d \<Longrightarrow> seeding d"
  using guarded_spelt by (auto simp: guarded_def seeding_def)

lemma builtin_lower: "n \<in> set BUILTIN_GROUPS \<Longrightarrow> to_ascii_lowercase n = n"
  by (auto simp: BUILTIN_GROUPS_def)

lemma inserted_group_seeding:
  assumes "seeding d" and "n \<in> set BUILTIN_GROUPS"
    and "insert_group (new_group_row Q now (GroupName n)) d = Inr (g, d')"
  shows "seeding d' \<and> set (t_groups d) \<subseteq> set (t_groups d') \<and> GroupName n \<in> gr_display_name ` set (t_groups d')"
proof -
  let ?r = "(new_group_row Q now (GroupName n))\<lparr>gr_group_id := t_next_group_id d\<rparr>"
  have d': "d' = d\<lparr>t_groups := t_groups d @ [?r], t_next_group_id := t_next_group_id d + 1\<rparr>"
    using assms(3) by (auto simp: insert_group_def Let_def split: if_splits)
  have ok: "db_ok d" using assms(1) by (simp add: seeding_def)
  have "db_ok d'" by (rule insert_group_ok [OF ok assms(3)]) (simp add: new_group_row_def)
  moreover have "\<not> is_member d' u (t_next_group_id d)" for u
    using ok by (fastforce simp: db_ok_def d' is_member_def)
  then have "exclusive d'"
    using assms(1) unfolding exclusive_def seeding_def
    by (auto simp: d' is_member_def)
  moreover have "spelt d'"
    using assms(1,2) builtin_lower [OF assms(2)] by (auto simp: seeding_def spelt_def d' new_group_row_def)
  ultimately show ?thesis by (auto simp: seeding_def d' new_group_row_def)
qed

lemma frame_names: "group_frame d' = group_frame d \<Longrightarrow> gr_display_name ` set (t_groups d') = gr_display_name ` set (t_groups d)"
proof -
  assume "group_frame d' = group_frame d"
  then have "snd ` set (fst (group_frame d')) = snd ` set (fst (group_frame d))" by simp
  then show ?thesis by (simp add: group_frame_def image_image)
qed

lemma spelt_names:
  "spelt d \<longleftrightarrow> (\<forall>x \<in> gr_display_name ` set (t_groups d). \<forall>n \<in> set BUILTIN_GROUPS.
     to_ascii_lowercase (group_name_str x) = n \<longrightarrow> x = GroupName n)"
  by (simp add: spelt_def)

lemma seeding_frame:
  assumes "keeps db_ok f" and "frames f" and "seeding d" and "f d = Inr d'"
  shows "seeding d'" and "gr_display_name ` set (t_groups d') = gr_display_name ` set (t_groups d)"
proof -
  have f: "group_frame d' = group_frame d" using assms(2,4) by (auto simp: frames_def)
  then show names: "gr_display_name ` set (t_groups d') = gr_display_name ` set (t_groups d)" by (rule frame_names)
  show "seeding d'"
    using assms(3) keepsD [OF assms(1) _ assms(4)] exclusive_frame [OF f] names by (simp add: seeding_def spelt_names)
qed

lemma created_group_seeding:
  assumes "seeding (w_db w)" and "n \<in> set BUILTIN_GROUPS"
    and "Sql_Groups.create_group Q \<lparr>cg_display_name = GroupName n, cg_attributes = as\<rparr> w = (Inr i, w')"
  shows "seeding (w_db w') \<and> gr_display_name ` set (t_groups (w_db w)) \<subseteq> gr_display_name ` set (t_groups (w_db w'))
    \<and> GroupName n \<in> gr_display_name ` set (t_groups (w_db w'))"
proof -
  obtain ou where tx: "create_group_tx Q (w_now w) \<lparr>cg_display_name = GroupName n, cg_attributes = as\<rparr> ou (w_db w) = Inr (i, w_db w')"
    using assms(3) by (auto simp: Sql_Groups.create_group_def transaction_def split: sum.splits)
  obtain d1 rows j where d1: "insert_group (new_group_row Q (w_now w) (GroupName n)) (w_db w) = Inr (j, d1)"
    and d': "for_each insert_group_attribute rows d1 = Inr (w_db w')"
    using tx unfolding create_group_tx_def rbind_eq_Inr by (auto simp: rbind_eq_Inr rmap_eq_Inr)
  note ins = inserted_group_seeding [OF assms(1,2) d1]
  have "keeps db_ok (for_each insert_group_attribute rows)" by (intro keeps_intros)
  moreover have "frames (for_each insert_group_attribute rows)" by (intro frames_for_each user_statement_frames)
  ultimately show ?thesis
    using seeding_frame [of "for_each insert_group_attribute rows" d1 "w_db w'"] d' ins by auto
qed

lemma ensured_group:
  assumes "seeding (w_db w)" and "n \<in> set BUILTIN_GROUPS" and "ensure_group_exists Q n w = (Inr (), w')"
  shows "seeding (w_db w') \<and> gr_display_name ` set (t_groups (w_db w)) \<subseteq> gr_display_name ` set (t_groups (w_db w'))
    \<and> GroupName n \<in> gr_display_name ` set (t_groups (w_db w'))"
proof -
  obtain gs where gs: "list_groups Q (w_db w) (Some (GDisplayName (GroupName n))) = Inr gs"
    using assms(3) by (auto simp: ensure_group_exists_def split: sum.splits)
  show ?thesis
  proof (cases gs)
    case Nil
    then obtain i where "Sql_Groups.create_group Q
        \<lparr>cg_display_name = GroupName n, cg_attributes = [text_attribute ''ou'' ''groups'']\<rparr> w = (Inr i, w')"
      using assms(3) gs
      by (auto simp: ensure_group_exists_def failed_def map_err_eq_Inr rmap_eq_Inr Let_def case_prod_unfold prod_eq_iff)
    then show ?thesis by (rule created_group_seeding [OF assms(1,2)])
  next
    case (Cons g gs')
    have "w' = w" using assms(3) gs Cons by (simp add: ensure_group_exists_def)
    moreover have "db_ok (w_db w)" "spelt (w_db w)" using assms(1) by (simp_all add: seeding_def)
    then obtain r where "r \<in> set (t_groups (w_db w))" "gr_display_name r = GroupName n"
      using listed_by_name(1) [OF _ gs builtin_lower [OF assms(2)]] Cons assms(2) unfolding spelt_def by auto
    ultimately show ?thesis using assms(1) by (metis imageI order_refl)
  qed
qed

lemma ensured_groups:
  assumes "seeding (w_db w)" and "set ns \<subseteq> set BUILTIN_GROUPS" and "ensure_groups Q ns w = (Inr (), w')"
  shows "seeding (w_db w') \<and> gr_display_name ` set (t_groups (w_db w)) \<subseteq> gr_display_name ` set (t_groups (w_db w'))
    \<and> GroupName ` set ns \<subseteq> gr_display_name ` set (t_groups (w_db w'))"
  using assms
proof (induction ns arbitrary: w)
  case (Cons n ns)
  obtain r w1 where e: "ensure_group_exists Q n w = (r, w1)" by (rule prod.exhaust)
  then have r: "r = Inr ()" "ensure_groups Q ns w1 = (Inr (), w')"
    using Cons.prems(3) by (cases r; simp)+
  have w1: "seeding (w_db w1) \<and> gr_display_name ` set (t_groups (w_db w)) \<subseteq> gr_display_name ` set (t_groups (w_db w1))
      \<and> GroupName n \<in> gr_display_name ` set (t_groups (w_db w1))"
  proof (rule ensured_group [OF Cons.prems(1)])
    show "n \<in> set BUILTIN_GROUPS" using Cons.prems(2) by simp
    show "ensure_group_exists Q n w = (Inr (), w1)" using e r(1) by simp
  qed
  have "set ns \<subseteq> set BUILTIN_GROUPS" using Cons.prems(2) by simp
  note w2 = Cons.IH [OF w1 [THEN conjunct1] this r(2)]
  have "gr_display_name ` set (t_groups (w_db w)) \<subseteq> gr_display_name ` set (t_groups (w_db w'))"
    using w1 w2 by (meson subset_trans)
  moreover have "GroupName n \<in> gr_display_name ` set (t_groups (w_db w'))" using w1 w2 by blast
  ultimately show ?case using w2 by simp
qed simp

lemma ensured_guarded:
  assumes "seeding (w_db w)" and "ensure_groups Q BUILTIN_GROUPS w = (Inr (), w')"
  shows "guarded (w_db w') \<and> spelt (w_db w')"
proof -
  note e = ensured_groups [OF assms(1) order_refl assms(2)]
  then have "builtins_present (w_db w')" unfolding builtins_present_def by blast
  with e show ?thesis by (simp add: seeding_def guarded_def)
qed

text \<open>Also a start that stops at one of the groups keeps the conditions.\<close>

lemma create_group_failed: "Sql_Groups.create_group Q request w = (Inl e, w') \<Longrightarrow> w' = w"
  by (auto simp: Sql_Groups.create_group_def dest: transaction_failed split: sum.splits)

lemma ensure_group_failed: "ensure_group_exists Q n w = (Inl e, w') \<Longrightarrow> w' = w"
  by (auto simp: ensure_group_exists_def failed_def map_err_def rmap_def Let_def
      dest: create_group_failed split: sum.splits list.splits prod.splits)

lemma ensure_groups_seeding:
  "seeding (w_db w) \<Longrightarrow> set ns \<subseteq> set BUILTIN_GROUPS \<Longrightarrow> seeding (w_db (snd (ensure_groups Q ns w)))"
proof (induction ns arbitrary: w)
  case (Cons n ns)
  obtain r w1 where e: "ensure_group_exists Q n w = (r, w1)" by (rule prod.exhaust)
  show ?case
  proof (cases r)
    case (Inl x)
    then show ?thesis using e Cons.prems(1) ensure_group_failed [of Q n w x w1] by simp
  next
    case (Inr y)
    then have "seeding (w_db w1)" using ensured_group [OF Cons.prems(1), of n Q w1] Cons.prems(2) e by simp
    then show ?thesis using Cons.IH [of w1] Cons.prems(2) e Inr by simp
  qed
qed simp

section \<open>The administrator\<close>

definition has_admin :: "db \<Rightarrow> bool" where
  "has_admin d \<longleftrightarrow> (\<exists>g \<in> set (t_groups d). gr_display_name g = GroupName ''lldap_admin'' \<and> (\<exists>u. is_member d u (gr_group_id g)))"

lemma framesD: "frames f \<Longrightarrow> f d = Inr d' \<Longrightarrow> group_frame d' = group_frame d"
  unfolding frames_def by blast

lemma frame_admin: "group_frame d' = group_frame d \<Longrightarrow> has_admin d' = has_admin d"
proof -
  have "has_admin d \<longleftrightarrow> (\<exists>(i, n) \<in> set (fst (group_frame d)). n = GroupName ''lldap_admin'' \<and> (\<exists>u. is_member d u i))" for d
    by (auto simp: has_admin_def group_frame_def)
  moreover assume "group_frame d' = group_frame d"
  moreover from this have "is_member d' = is_member d" by (simp add: group_frame_def is_member_def fun_eq_iff)
  ultimately show ?thesis by simp
qed

lemma admin_present_has_admin:
  assumes "db_ok (w_db w)" and "spelt (w_db w)" and "admin_present Q w"
  shows "has_admin (w_db w)"
proof -
  obtain us where us: "list_users Q (w_db w) (Some (UMemberOf (GroupName ''lldap_admin''))) False = Inr (Inr us)" "us \<noteq> []"
    using assms(3) by (auto simp: admin_present_def sql_list_users_def split: sum.splits)
  obtain r where "row_atom Q (w_db w) r (UMemberOf (GroupName ''lldap_admin''))"
    using list_users_sound [OF assms(1) us(1) hd_in_set [OF us(2)]] by auto
  then obtain g where g: "g \<in> set (t_groups (w_db w))" "gr_lowercase_display_name g = to_ascii_lowercase ''lldap_admin''"
    "is_member (w_db w) (ur_user_id r) (gr_group_id g)"
    by (auto simp: row_atom_def list_ex_iff split: if_splits)
  then have "to_ascii_lowercase (group_name_str (gr_display_name g)) = ''lldap_admin''"
    using assms(1) builtin_lower [OF builtin_names(1)] by (auto simp: db_ok_def)
  then have "gr_display_name g = GroupName ''lldap_admin''"
    using assms(2) g(1) builtin_names(1) unfolding spelt_def by blast
  then show ?thesis using g by (auto simp: has_admin_def)
qed

lemma added_is_admin:
  assumes "add_user_to_group Q u i w = (Inr (), w')"
    and "r \<in> set (t_groups (w_db w))" and "gr_group_id r = i" and "gr_display_name r = GroupName ''lldap_admin''"
  shows "has_admin (w_db w')"
proof -
  obtain d1 where d1: "insert_membership \<lparr>mb_user_id = u, mb_group_id = i\<rparr> (w_db w) = Inr d1"
    and d': "update_group_row i (\<lambda>r. r\<lparr>gr_modified_date := w_now w\<rparr>) d1 = Inr (w_db w')"
    using assms(1)
    by (auto simp: add_user_to_group_def Let_def execute_def transaction_def rmap_def map_err_eq_Inr rbind_eq_Inr
        split: sum.splits if_splits)
  have "has_admin d1"
    using assms(2-4) by (auto simp: insert_membershipD [OF d1] has_admin_def is_member_def)
  moreover have "frames (update_group_row i (\<lambda>r. r\<lparr>gr_modified_date := w_now w\<rparr>))"
    by (rule update_group_row_frames) simp_all
  then have "group_frame (w_db w') = group_frame d1" by (rule framesD) (rule d')
  then have "has_admin (w_db w') = has_admin d1" by (rule frame_admin)
  ultimately show ?thesis by simp
qed

lemma registered_guarded: "guarded (w_db w) \<Longrightarrow> guarded (w_db (snd (register_password P C u p w)))"
  by (simp add: register_password_def registration_finish_guarded split: option.split sum.split)

lemma listed_admin_group:
  assumes "guarded d" and "list_groups Q d (Some (GDisplayName (GroupName ''lldap_admin''))) = Inr [g]"
  obtains r where "r \<in> set (t_groups d)" "gr_group_id r = g_id g" "gr_display_name r = GroupName ''lldap_admin''"
proof -
  have ok: "db_ok d" by (rule guardedD(1) [OF assms(1)])
  obtain r where r: "r \<in> set (t_groups d)" "gr_group_id r = g_id g"
    "to_ascii_lowercase (group_name_str (gr_display_name r)) = ''lldap_admin''"
    using listed_by_name(2) [OF ok assms(2) builtin_lower [OF builtin_names(1)], of g] by auto
  obtain h where h: "h \<in> set (t_groups d)" "gr_display_name h = GroupName ''lldap_admin''"
    using builtin_row [OF guardedD(2) [OF assms(1)] builtin_names(1)] .
  have "gr_lowercase_display_name h = gr_lowercase_display_name r"
    using ok r h builtin_lower [OF builtin_names(1)] by (simp add: db_ok_def)
  moreover have "inj_on gr_lowercase_display_name (set (t_groups d))"
    using ok by (simp add: db_ok_def unique_groups_def distinct_map)
  ultimately have "h = r" using r(1) h(1) by (simp add: inj_on_def)
  with r h that show thesis by simp
qed

lemma failed_eq_Inr [simp]: "failed r = Inr x \<longleftrightarrow> r = Inr x"
  by (simp add: failed_def map_err_eq_Inr)

text \<open>What a successful creation of the administrator went through.\<close>

lemma create_admin_userE:
  assumes "create_admin_user Q P C config w = (Inr (), w')"
  obtains pass cu w1 w2 g where "Sql_Users.create_user Q cu w = (Inr (), w1)"
    and "register_password P C (cf_ldap_user_dn config) pass w1 = (Inr (), w2)"
    and "list_groups Q (w_db w2) (Some (GDisplayName (GroupName ''lldap_admin''))) = Inr [g]"
    and "add_user_to_group Q (cf_ldap_user_dn config) (g_id g) w2 = (Inr (), w')"
proof -
  let ?u = "cf_ldap_user_dn config"
  let ?cu = "\<lparr>cu_user_id = ?u, cu_email = Email (cf_ldap_user_email config), cu_display_name = Some ''Administrator'',
    cu_attributes = [text_attribute ''ou'' ''people'']\<rparr>"
  obtain pass where pass: "cf_ldap_user_pass config = Some pass" "\<not> length pass < 8"
    using assms by (cases "cf_ldap_user_pass config") (simp_all add: create_admin_user_def split: if_split_asm)
  obtain r1 w1 where 1: "Sql_Users.create_user Q ?cu w = (r1, w1)" by (rule prod.exhaust)
  obtain r2 w2 where 2: "register_password P C ?u pass w1 = (r2, w2)" by (rule prod.exhaust)
  have r1: "r1 = Inr ()" using assms pass 1 by (cases r1) (simp_all add: create_admin_user_def)
  have r2: "r2 = Inr ()" using assms pass 1 2 r1 by (cases r2) (simp_all add: create_admin_user_def)
  note step = assms [unfolded create_admin_user_def pass(1) option.case 1 2 r1 r2 prod.case sum.case] 
  obtain gs where gs: "list_groups Q (w_db w2) (Some (GDisplayName (GroupName ''lldap_admin''))) = Inr gs"
    using step pass(2) by (cases "list_groups Q (w_db w2) (Some (GDisplayName (GroupName ''lldap_admin'')))") simp_all
  obtain g where g: "gs = [g]"
    using step pass(2) gs by (cases gs; cases "tl gs") simp_all
  have "add_user_to_group Q ?u (g_id g) w2 = (Inr (), w')"
    using step pass(2) gs g by (cases "add_user_to_group Q ?u (g_id g) w2") simp
  with 1 2 r1 r2 gs g that show thesis by simp
qed

lemma created_admin:
  assumes "guarded (w_db w)" and "create_admin_user Q P C config w = (Inr (), w')"
  shows "guarded (w_db w') \<and> has_admin (w_db w')"
proof -
  obtain pass cu w1 w2 g where w1: "Sql_Users.create_user Q cu w = (Inr (), w1)"
    and w2: "register_password P C (cf_ldap_user_dn config) pass w1 = (Inr (), w2)"
    and g: "list_groups Q (w_db w2) (Some (GDisplayName (GroupName ''lldap_admin''))) = Inr [g]"
    and w': "add_user_to_group Q (cf_ldap_user_dn config) (g_id g) w2 = (Inr (), w')"
    using create_admin_userE [OF assms(2)] .
  have "guarded (w_db w1)" using create_user_guarded [OF assms(1), of Q cu] w1 by simp
  then have "guarded (w_db w2)" using registered_guarded [of w1 P C "cf_ldap_user_dn config" pass] w2 by simp
  moreover from this obtain r where "r \<in> set (t_groups (w_db w2))" "gr_group_id r = g_id g"
    "gr_display_name r = GroupName ''lldap_admin''" using listed_admin_group [OF _ g] by blast
  ultimately show ?thesis
    using add_user_to_group_guarded [of w2 Q "cf_ldap_user_dn config" "g_id g"] added_is_admin [OF w'] w' by simp
qed

lemma execute_admin: "frames f \<Longrightarrow> has_admin (w_db w) \<Longrightarrow> has_admin (w_db (snd (execute f w)))"
  by (auto simp: execute_def transaction_def rmap_def frame_admin [OF framesD] split: sum.split)

lemma registered_admin: "has_admin (w_db w) \<Longrightarrow> has_admin (w_db (snd (register_password P C u p w)))"
  by (simp add: register_password_def registration_finish_def Let_def execute_admin user_statement_frames case_prod_unfold
      split: option.split sum.split)

text \<open>Whatever the outcome, the steps for the administrator keep the invariant.\<close>

lemma create_admin_guarded:
  assumes "guarded (w_db w)"
  shows "guarded (w_db (snd (create_admin_user Q P C config w)))"
proof (cases "cf_ldap_user_pass config")
  case (Some pass)
  let ?u = "cf_ldap_user_dn config"
  let ?cu = "\<lparr>cu_user_id = ?u, cu_email = Email (cf_ldap_user_email config), cu_display_name = Some ''Administrator'',
    cu_attributes = [text_attribute ''ou'' ''people'']\<rparr>"
  obtain r1 w1 where 1: "Sql_Users.create_user Q ?cu w = (r1, w1)" by (rule prod.exhaust)
  obtain r2 w2 where 2: "register_password P C ?u pass w1 = (r2, w2)" by (rule prod.exhaust)
  have w1: "guarded (w_db w1)" using create_user_guarded [OF assms, of Q ?cu] 1 by simp
  have w2: "guarded (w_db w2)" using registered_guarded [OF w1, of P C ?u pass] 2 by simp
  have "guarded (w_db (snd (case list_groups Q (w_db w2) (Some (GDisplayName (GroupName ''lldap_admin''))) of
      Inr [g] \<Rightarrow> (let (r, w3) = add_user_to_group Q ?u (g_id g) w2 in (failed r, w3))
    | Inr _ \<Rightarrow> (Inl (StartPanic ''assertion failed: groups.len() == 1''), w2)
    | Inl _ \<Rightarrow> (Inl (Bail ''database''), w2))))"
    using w2 by (simp add: Let_def case_prod_unfold add_user_to_group_guarded split: sum.split list.split)
  then show ?thesis using Some assms w1 w2 by (cases r1; cases r2) (simp_all add: create_admin_user_def 1 2)
qed (simp add: create_admin_user_def assms)

lemma set_up_admin_guarded: "guarded (w_db w) \<Longrightarrow> guarded (w_db (snd (set_up_admin Q P C config w)))"
  by (simp add: set_up_admin_def Let_def case_prod_unfold create_admin_guarded registered_guarded split: option.split)

lemma set_up_admin_ok:
  assumes "guarded (w_db w)" and "spelt (w_db w)" and "set_up_admin Q P C config w = (Inr (), w')"
  shows "guarded (w_db w') \<and> has_admin (w_db w')"
proof (cases "admin_present Q w")
  case True
  have admin: "has_admin (w_db w)" by (rule admin_present_has_admin [OF guardedD(1) [OF assms(1)] assms(2) True])
  have "w' = w \<or> (\<exists>pass. w' = snd (register_password P C (cf_ldap_user_dn config) pass w))"
    using assms(3) True by (auto simp: set_up_admin_def Let_def case_prod_unfold split: if_splits option.splits)
  then show ?thesis using admin assms(1) registered_guarded registered_admin by auto
next
  case False
  then show ?thesis using assms(3) created_admin [OF assms(1)] by (simp add: set_up_admin_def)
qed

lemma unchanged_key:
  "compare_private_key_hashes p info = Inr False \<Longrightarrow> \<exists>q. p = Some q \<and> pk_private_key_hash q = pk_private_key_hash info"
  by (auto simp: compare_private_key_hashes_def split: option.splits if_splits private_key_location.splits)

lemma checked_key:
  assumes "check_private_key info force stored = (Inr (), k)"
  shows "\<exists>i. k = Some i \<and> pk_private_key_hash i = pk_private_key_hash info"
proof (cases "compare_private_key_hashes stored info")
  case (Inl e)
  then show ?thesis using assms by (cases e; cases force) (auto simp: check_private_key_def)
next
  case (Inr new)
  then show ?thesis
    using assms unchanged_key [of stored info] by (cases new; cases force) (auto simp: check_private_key_def)
qed

lemma started_seeding:
  assumes "seeding (w_db (sd_world s))"
  shows "seeding (w_db (sd_world (snd (set_up_server Q P C config info s))))"
proof -
  obtain r w where b: "ensure_groups Q BUILTIN_GROUPS (sd_world s) = (r, w)" by (rule prod.exhaust)
  have "seeding (w_db w)" using ensure_groups_seeding [OF assms, of BUILTIN_GROUPS Q] b by simp
  moreover have "seeding (w_db (snd (set_up_admin Q P C config w)))" if "r = Inr ()"
    using guarded_seeding [OF set_up_admin_guarded] ensured_guarded [OF assms] b that by blast
  ultimately show ?thesis
    using b assms by (cases r) (auto simp: set_up_server_def Let_def case_prod_unfold split: sum.split prod.split)
qed

lemma founded:
  assumes "seeding (w_db (sd_world s))" and "set_up_server Q P C config info s = (Inr (), s')"
  shows "has_admin (w_db (sd_world s'))
    \<and> (\<exists>i. sd_private_key s' = Some i \<and> pk_private_key_hash i = pk_private_key_hash info)
    \<and> (\<forall>w. history Q K P (sd_world s') w \<longrightarrow> guarded (w_db w))"
proof -
  obtain k where k: "check_private_key info (cf_force_update_private_key config) (sd_private_key s) = (Inr (), k)"
    using assms(2) by (auto simp: set_up_server_def split: sum.splits prod.splits)
  obtain r w where b: "ensure_groups Q BUILTIN_GROUPS (sd_world s) = (r, w)" by (rule prod.exhaust)
  obtain r2 w2 where a: "sbind (r, w) (\<lambda>_. set_up_admin Q P C config) = (r2, w2)" by (rule prod.exhaust)
  have s': "r2 = Inr ()" "s' = s\<lparr>sd_world := w2, sd_private_key := k\<rparr>"
    using assms(2) k b a by (auto simp: set_up_server_def rbind_eq_Inr split: if_splits)
  then have "r = Inr ()" and w2: "set_up_admin Q P C config w = (Inr (), w2)" using a by (cases r; simp)+
  then have "guarded (w_db w)" "spelt (w_db w)" using ensured_guarded [OF assms(1)] b by simp_all
  from set_up_admin_ok [OF this w2] have ok: "guarded (w_db w2)" "has_admin (w_db w2)" by simp_all
  have "guarded (w_db w')" if "history Q K P w2 w'" for w'
    using that ok(1) by (induction rule: history.induct) (simp_all add: run_op_guarded)
  then show ?thesis using ok checked_key [OF k] s'(2) by simp
qed

text \<open>C16: A start founds the invariant on what it finds, and one that fails can be repeated. From a directory
  whose tables satisfy their keys, in which nobody is an administrator and disabled and no group spells a
  built-in name otherwise, every start, whether it succeeds or stops anywhere, leaves a directory of which
  the same is true. A start that succeeds moreover leaves all built-in groups under their names, at least
  one administrator, and the record of the key in use; from there every history of the backend keeps the
  invariant.\<close>

theorem startup_founds_invariant:
  assumes "db_ok (w_db (sd_world s))" and "exclusive (w_db (sd_world s))" and "spelt (w_db (sd_world s))"
    and "set_up_server Q P C config info s = (r, s')"
  shows "db_ok (w_db (sd_world s')) \<and> exclusive (w_db (sd_world s')) \<and> spelt (w_db (sd_world s'))
    \<and> (r = Inr () \<longrightarrow> builtins_present (w_db (sd_world s')) \<and> has_admin (w_db (sd_world s'))
        \<and> (\<exists>i. sd_private_key s' = Some i \<and> pk_private_key_hash i = pk_private_key_hash info)
        \<and> (\<forall>w. history Q K P (sd_world s') w \<longrightarrow> guarded (w_db w)))"
proof -
  have s: "seeding (w_db (sd_world s))" using assms(1-3) by (simp add: seeding_def)
  have "seeding (w_db (sd_world s'))" using started_seeding [OF s, of Q P C config info] assms(4) by simp
  moreover have "builtins_present (w_db (sd_world s'))" if "\<forall>w. history Q K P (sd_world s') w \<longrightarrow> guarded (w_db w)"
    using that history_start [of Q K P "sd_world s'"] by (auto simp: guarded_def)
  ultimately show ?thesis using founded [OF s, of Q P C config info s' K] assms(4) by (auto simp: seeding_def)
qed

text \<open>The password of the administrator is set only when the configuration asks for it: on a directory
  that has an administrator and without a forced reset, a start changes no user at all.\<close>

theorem quiet_start_keeps_users:
  assumes "ensure_groups Q BUILTIN_GROUPS (sd_world s) = (Inr (), w)" and "admin_present Q w"
    and "\<not> is_positive (cf_force_ldap_user_pass_reset config)"
  shows "sd_world (snd (set_up_server Q P C config info s)) \<in> {sd_world s, w}"
  using assms by (auto simp: set_up_server_def set_up_admin_def split: sum.split prod.split)

end
