(* ===== verification/Ldap_Server.thy ===== *)
theory Ldap_Server
  imports Session
begin

text \<open>
  The LDAP side of the server (\<open>server/src/ldap_server.rs\<close>): messages with their numbers and
  controls, the answers that one message is given, and the loop over the messages of a stream.
  The codec is outside the model: a stream delivers decoded messages or an error, and a sink
  takes messages or fails.
\<close>

section \<open>Messages\<close>

datatype ldap_control = SimplePagedResults int bytes | UnknownControl string | OtherControl

record ldap_msg =
  msg_id :: int
  msg_op :: ldap_op
  msg_ctrl :: "ldap_control list"

text \<open>The sink: which message it takes after those it has taken, and whether it can be flushed.\<close>

record ldap_sink =
  sink_send :: "ldap_msg list \<Rightarrow> ldap_msg \<Rightarrow> bool"
  sink_flush :: "ldap_msg list \<Rightarrow> bool"

datatype stream_error = ReceiveFailed | SendFailed | FlushFailed | HandlerPanic string

definition response_controls :: "int \<Rightarrow> ldap_op \<Rightarrow> ldap_control list" where
  "response_controls results response =
     (case response of SearchResultDone _ \<Rightarrow> [SimplePagedResults (results - 1) []] | _ \<Rightarrow> [])"

definition framed :: "int \<Rightarrow> int \<Rightarrow> ldap_op \<Rightarrow> ldap_msg" where
  "framed i results response =
     \<lparr>msg_id = i, msg_op = response, msg_ctrl = response_controls results response\<rparr>"

fun send_all :: "ldap_sink \<Rightarrow> ldap_msg list \<Rightarrow> ldap_msg list \<Rightarrow> (stream_error + unit) \<times> ldap_msg list" where
  "send_all K [] out = (if sink_flush K out then Inr () else Inl FlushFailed, out)"
| "send_all K (m # ms) out = (if sink_send K out m then send_all K ms (out @ [m]) else (Inl SendFailed, out))"

text \<open>One message: whether the stream goes on, the session and what was sent.\<close>

definition handle_stream_message ::
  "'s server \<Rightarrow> ldap_sink \<Rightarrow> ldap_msg \<Rightarrow> 's session \<Rightarrow> ldap_msg list
     \<Rightarrow> (stream_error + bool) \<times> 's session \<times> ldap_msg list" where
  "handle_stream_message S K m st out =
     (case handle_ldap_message S st (msg_op m) of
        (Inl (Panic p), st') \<Rightarrow> (Inl (HandlerPanic p), st', out)
      | (Inl (Err _), st') \<Rightarrow> (Inl (HandlerPanic ''unreachable''), st', out)
      | (Inr None, st') \<Rightarrow> (Inr False, st', out)
      | (Inr (Some result), st') \<Rightarrow>
          (let (r, out') = send_all K (map (framed (msg_id m) (int (length result))) result) out
           in (rmap (\<lambda>_. True) r, st', out')))"

text \<open>What reaches a connection: a message or an error from its stream, or a change of the world by
  others. The loop ends with the stream, with an unbind or with an error.\<close>

datatype 's stream_event = Received ldap_msg | ReceiveError | Outside 's

fun handle_ldap_stream ::
  "'s server \<Rightarrow> ldap_sink \<Rightarrow> 's stream_event list \<Rightarrow> 's session \<Rightarrow> ldap_msg list
     \<Rightarrow> (stream_error + unit) \<times> 's session \<times> ldap_msg list" where
  "handle_ldap_stream S K [] st out = (Inr (), st, out)"
| "handle_ldap_stream S K (ReceiveError # es) st out = (Inl ReceiveFailed, st, out)"
| "handle_ldap_stream S K (Outside w # es) st out = handle_ldap_stream S K es (st\<lparr>se_world := w\<rparr>) out"
| "handle_ldap_stream S K (Received m # es) st out =
     (case handle_stream_message S K m st out of
        (Inl e, st', out') \<Rightarrow> (Inl e, st', out')
      | (Inr False, st', out') \<Rightarrow> (Inr (), st', out')
      | (Inr True, st', out') \<Rightarrow> handle_ldap_stream S K es st' out')"

section \<open>Every request is answered\<close>

definition single :: "'a list \<Rightarrow> bool" where
  "single xs \<longleftrightarrow> length xs = 1"

lemma single_simps [simp]: "single [x]" "\<not> single []"
  by (simp_all add: single_def)

lemma modify_single:
  "handle_modify_request L B C K info v req s = (Inr ops, s') \<Longrightarrow> single ops"
  by (cases "modify_changes L B C K (projr (get_user_id_from_distinguished_name (mr_dn req) (li_base_dn info) (li_base_dn_str info)))
        v (mr_changes req) s")
    (auto simp: handle_modify_request_def sbind_def split: sum.splits)

lemma password_single:
  "do_password_modification B C K v info req s = (Inr ops, s') \<Longrightarrow> single ops"
  by (auto simp: do_password_modification_def split: option.splits sum.splits prod.splits if_splits)

lemma create_single: "create_user_or_group L B K info req s = (Inr ops, s') \<Longrightarrow> single ops"
  by (auto simp: create_user_or_group_def Operations.create_user_def Operations.create_group_def Let_def
      split: sum.splits prod.splits user_or_group_name.splits)

lemma delete_single: "delete_user_or_group B K info req s = (Inr ops, s') \<Longrightarrow> single ops"
  by (auto simp: delete_user_or_group_def Operations.delete_user_def Operations.delete_group_def Let_def
      split: sum.splits prod.splits option.splits domain_error.splits user_or_group_name.splits)

lemma request_answered:
  assumes "handle_ldap_message S st op = (Inr (Some ops), st')" and "\<And>req. op \<noteq> SearchRequest req"
  shows "single ops"
proof (cases op)
  case (BindRequest req)
  with assms(1) show ?thesis
    by (auto simp: handle_ldap_message_def do_bind_def bind_response_def Let_def split: prod.splits sum.splits if_splits)
next
  case (ModifyRequest req)
  with assms(1) have "ops = fst (do_modify_request S st req)"
    by (auto simp: handle_ldap_message_def split: prod.splits)
  then show ?thesis
    using modify_single
    by (auto simp: do_modify_request_def get_credentials_def unwrap_or_else_def split: option.splits prod.splits sum.splits)
next
  case (AddRequest req)
  with assms(1) show ?thesis
    using create_single
    by (auto simp: handle_ldap_message_def session_create_def unwrap_or_else_def split: prod.splits sum.splits)
next
  case (DelRequest req)
  with assms(1) show ?thesis
    using delete_single
    by (auto simp: handle_ldap_message_def session_delete_def unwrap_or_else_def split: prod.splits sum.splits)
next
  case (CompareRequest req)
  have "single xs" if "do_compare S st req = Inr xs" for xs
    using that by (auto simp: do_compare_def rbind_eq_Inr lift_err_def compare_def Let_def split: option.splits sum.splits)
  with CompareRequest assms(1) show ?thesis
    by (auto simp: handle_ldap_message_def recover_def rmap_eq_Inr split: sum.splits failure.splits)
next
  case (ExtendedRequest req)
  with assms(1) show ?thesis
    using password_single
    by (auto simp: handle_ldap_message_def do_extended_request_def get_credentials_def who_am_i_def recover_def rmap_eq_Inr Let_def
        split: prod.splits option.splits sum.splits failure.splits ldap_extended_request.splits)
qed (use assms in \<open>auto simp: handle_ldap_message_def\<close>)

lemma goodbye_iff:
  "handle_ldap_message S st op = (Inr None, st') \<Longrightarrow> op = UnbindRequest"
  "handle_ldap_message S st UnbindRequest = (Inr r, st') \<Longrightarrow> r = None"
proof -
  assume "handle_ldap_message S st op = (Inr None, st')"
  then show "op = UnbindRequest" by (cases op) (auto simp: handle_ldap_message_def rmap_eq_Inr split: prod.splits)
qed (simp add: handle_ldap_message_def)

text \<open>The answer to one request: one message, or for a search its entries and the final message, which
  tells their number in the control of paged results. All carry the number of the request.\<close>

definition answers :: "ldap_msg \<Rightarrow> ldap_msg list \<Rightarrow> bool" where
  "answers req block \<longleftrightarrow> (\<forall>m \<in> set block. msg_id m = msg_id req)
     \<and> (case msg_op req of
          SearchRequest _ \<Rightarrow>
            (\<exists>es r. block = es @ [\<lparr>msg_id = msg_id req, msg_op = SearchResultDone r,
                                msg_ctrl = [SimplePagedResults (int (length es)) []]\<rparr>]
               \<and> (\<forall>e \<in> set es. is_entry (msg_op e) \<and> msg_ctrl e = []))
        | _ \<Rightarrow> single block)"

lemma framed_answers:
  assumes "handle_ldap_message S st (msg_op m) = (Inr (Some ops), st')"
  shows "answers m (map (framed (msg_id m) (int (length ops))) ops)"
proof (cases "\<exists>req. msg_op m = SearchRequest req")
  case True
  then obtain req where req: "msg_op m = SearchRequest req" by blast
  with assms obtain es r where ops: "ops = es @ [SearchResultDone r]" "list_all is_entry es"
    using search_answered [of S st req ops st'] by auto
  let ?es = "map (framed (msg_id m) (int (length ops))) es"
  have "\<forall>e \<in> set ?es. is_entry (msg_op e) \<and> msg_ctrl e = []"
    using ops(2) by (auto simp: list_all_iff is_entry_iff framed_def response_controls_def)
  moreover have "map (framed (msg_id m) (int (length ops))) ops = ?es @ [\<lparr>msg_id = msg_id m, msg_op = SearchResultDone r,
      msg_ctrl = [SimplePagedResults (int (length ?es)) []]\<rparr>]"
    using ops(1) by (simp add: framed_def response_controls_def)
  ultimately show ?thesis using req unfolding answers_def by (auto simp: framed_def)
next
  case False
  then have "single ops" using request_answered [OF assms] by blast
  with False show ?thesis by (auto simp: answers_def single_def framed_def split: ldap_op.split)
qed

lemma send_all_done: "send_all K ms out = (Inr (), out') \<Longrightarrow> out' = out @ ms"
  by (induction ms arbitrary: out) (fastforce split: if_splits)+

text \<open>The requests of a stream, up to the first unbind.\<close>

fun requests :: "'s stream_event list \<Rightarrow> ldap_msg list" where
  "requests [] = []"
| "requests (Received m # es) = (if msg_op m = UnbindRequest then [] else m # requests es)"
| "requests (_ # es) = requests es"

lemma stream_message_cases:
  assumes "handle_stream_message S K m st out = (Inr go, st', out')"
  obtains "go" "msg_op m \<noteq> UnbindRequest" "\<exists>block. out' = out @ block \<and> answers m block"
  | "\<not> go" "msg_op m = UnbindRequest" "out' = out"
proof (cases "handle_ldap_message S st (msg_op m)")
  case (Pair r st1)
  then consider (bye) "r = Inr None" | (answer) ops where "r = Inr (Some ops)"
    using assms by (auto simp: handle_stream_message_def split: sum.splits failure.splits option.splits)
  then show thesis
  proof cases
    case bye
    then show thesis using assms Pair goodbye_iff(1) that(2) by (auto simp: handle_stream_message_def)
  next
    case answer
    then have "send_all K (map (framed (msg_id m) (int (length ops))) ops) out = (Inr (), out')" "go"
      using assms Pair by (auto simp: handle_stream_message_def rmap_eq_Inr split: prod.splits)
    moreover have "msg_op m \<noteq> UnbindRequest" using goodbye_iff(2) [of S st] Pair answer by auto
    ultimately show thesis using that(1) framed_answers [of S st m ops st1] Pair answer send_all_done by blast
  qed
qed

text \<open>C27: Every request is answered, in order and under its number. When the loop over a stream ends
  without an error, what was sent is a sequence of answers to the requests up to the first unbind:
  to a search its entries and one final message that counts them in its control, to everything else
  exactly one message, all with the number of the request. Nothing else is sent.\<close>

theorem stream_answers_in_order:
  assumes "handle_ldap_stream S K es st out = (Inr (), st', out')"
  shows "\<exists>blocks. out' = out @ concat blocks \<and> list_all2 answers (requests es) blocks"
  using assms
proof (induction es arbitrary: st out)
  case Nil
  then show ?case by (auto intro: exI [of _ "[]"])
next
  case (Cons e es)
  show ?case
  proof (cases e)
    case (Received m)
    with Cons.prems obtain go st1 out1 where m: "handle_stream_message S K m st out = (Inr go, st1, out1)"
      by (auto split: prod.splits sum.splits)
    then show ?thesis
    proof (cases rule: stream_message_cases)
      case 1
      then obtain block where b: "out1 = out @ block" "answers m block" by blast
      have "handle_ldap_stream S K es st1 out1 = (Inr (), st', out')" using Cons.prems Received m 1 by simp
      from Cons.IH [OF this] obtain blocks where "out' = out1 @ concat blocks" "list_all2 answers (requests es) blocks" by blast
      then have "out' = out @ concat (block # blocks) \<and> list_all2 answers (requests (e # es)) (block # blocks)"
        using b Received 1 by simp
      then show ?thesis by blast
    next
      case 2
      then have "out' = out @ concat [] \<and> list_all2 answers (requests (e # es)) []" using Cons.prems Received m by simp
      then show ?thesis by blast
    qed
  next
    case (Outside w)
    then show ?thesis using Cons.IH Cons.prems by simp
  qed (use Cons.prems in simp)
qed

lemma never_err: "fst (handle_ldap_message S st op) \<noteq> Inl (Err e)"
  by (cases op)
    (auto simp: handle_ldap_message_def do_extended_request_def recover_def rmap_def
      split: prod.splits sum.splits failure.splits ldap_extended_request.splits)

lemma send_all_open:
  "\<forall>ms m. sink_send K ms m \<Longrightarrow> \<forall>ms. sink_flush K ms \<Longrightarrow> send_all K ms out = (Inr (), out @ ms)"
  by (induction ms arbitrary: out) simp_all

text \<open>The loop fails only for its stream, its sink or a panic: when the stream delivers no error and the
  sink takes everything, the error is the panic of the handler on one of the messages.\<close>

theorem stream_fails_only_by_panic:
  assumes "handle_ldap_stream S K es st out = (Inl e, st', out')" and "ReceiveError \<notin> set es"
    and "\<forall>ms m. sink_send K ms m" and "\<forall>ms. sink_flush K ms"
  shows "\<exists>p m st. e = HandlerPanic p \<and> Received m \<in> set es \<and> fst (handle_ldap_message S st (msg_op m)) = Inl (Panic p)"
  using assms(1,2)
proof (induction es arbitrary: st out)
  case (Cons x es)
  show ?case
  proof (cases x)
    case (Received m)
    obtain r st1 where h: "handle_ldap_message S st (msg_op m) = (r, st1)" by (rule prod.exhaust)
    show ?thesis
    proof (cases r)
      case (Inl f)
      then obtain p where "f = Panic p" using never_err [of S st "msg_op m"] h Inl by (cases f) auto
      with Inl h have "e = HandlerPanic p" "fst (handle_ldap_message S st (msg_op m)) = Inl (Panic p)"
        using Cons.prems(1) Received by (simp_all add: handle_stream_message_def)
      then show ?thesis using Received by auto
    next
      case (Inr a)
      then have "\<exists>st out. handle_ldap_stream S K es st out = (Inl e, st', out')"
        using Cons.prems(1) Received h
        by (cases a) (auto simp: handle_stream_message_def send_all_open [OF assms(3,4)] rmap_def)
      with Cons.IH Cons.prems(2) obtain p m' st2 where "e = HandlerPanic p" "Received m' \<in> set es"
        "fst (handle_ldap_message S st2 (msg_op m')) = Inl (Panic p)" by fastforce
      then show ?thesis by auto
    qed
  next
    case (Outside w)
    with Cons.IH [of "st\<lparr>se_world := w\<rparr>" out] Cons.prems show ?thesis by auto
  qed (use Cons.prems in simp)
qed simp

lemma stream_connection:
  assumes "handle_ldap_stream S K es st out = (Inr (), st', out')" and "connection S tr st"
  shows "\<exists>later. connection S (later @ tr) st'"
  using assms
proof (induction es arbitrary: st out tr)
  case (Cons e es)
  show ?case
  proof (cases e)
    case (Received m)
    obtain r st1 where h: "handle_ldap_message S st (msg_op m) = (r, st1)" by (rule prod.exhaust)
    with Cons.prems Received obtain x where "r = Inr x"
      by (auto simp: handle_stream_message_def split: sum.splits failure.splits)
    with h have r1: "connection S ((st, msg_op m, x) # tr) st1" using Cons.prems(2) by (auto intro: connection.message)
    have "st' = st1 \<or> (\<exists>out1. handle_ldap_stream S K es st1 out1 = (Inr (), st', out'))"
      using Cons.prems(1) Received h by (auto simp: handle_stream_message_def split: sum.splits failure.splits option.splits prod.splits bool.splits)
    then consider "connection S ([(st, msg_op m, x)] @ tr) st'"
      | later where "connection S ((later @ [(st, msg_op m, x)]) @ tr) st'"
      using r1 Cons.IH by fastforce
    then show ?thesis by cases blast+
  next
    case (Outside w)
    have "connection S tr (st\<lparr>se_world := w\<rparr>)" using Cons.prems(2) by (rule connection.others)
    with Outside Cons show ?thesis by simp
  qed (use Cons.prems in simp)
qed (auto intro: exI [of _ "[]"])

end
