(* ===== verification/Server_Witnesses.thy ===== *)
theory Server_Witnesses
  imports Auth_Witnesses Startup Ldap_Server
begin

text \<open>
  The theorems about the configuration, the start and the streams of the server, applied to concrete
  settings: a key library in which a key is the text it is made from, the first start on empty
  tables, and a connection that searches, asks who it is and leaves.
\<close>

section \<open>Keys\<close>

definition sample_keys :: key_libs where
  "sample_keys =
     \<lparr>kl_from_seed = (\<lambda>b. b), kl_random = ''drawn'', kl_sha256 = (\<lambda>b. b), kl_serialize = (\<lambda>s. s),
      kl_deserialize = Some, kl_private_key = (\<lambda>s. s), kl_writable = (\<lambda>p. p = ''server_key'')\<rparr>"

definition no_sources :: location_or_figment where
  "no_sources = LFigment \<lparr>fs_key_seed = NoSource, fs_key_file = NoSource\<rparr>"

definition drawn_key :: server_setup_config where
  "drawn_key = \<lparr>ss_server_setup = ''drawn'', ss_private_key_location = DefaultLocation\<rparr>"

theorem key_survives_restart_witness:
  "get_server_setup (sample_keys\<lparr>kl_random := ''other''\<rparr>) ''server_key'' [] no_sources [''server_key'' \<mapsto> Readable ''drawn'']
     = (Inr drawn_key, [''server_key'' \<mapsto> Readable ''drawn''])"
proof -
  have "get_server_setup sample_keys ''server_key'' [] no_sources Map.empty = (Inr drawn_key, [''server_key'' \<mapsto> Readable ''drawn''])"
    by (simp add: get_server_setup_def FIGMENT_DUMMY_KEY_SEED_def write_to_readonly_file_def sample_keys_def located_def
        no_sources_def for_key_file_def drawn_key_def rmap_def)
  from key_survives_restart [OF this, of "sample_keys\<lparr>kl_random := ''other''\<rparr>" "''other''"]
  show ?thesis by (simp add: sample_keys_def)
qed

definition no_options :: run_opts where
  "no_options =
     \<lparr>ro_verbose = False, ro_server_key_file = None, ro_server_key_seed = None, ro_ldap_host = None, ro_ldap_port = None,
      ro_http_host = None, ro_http_port = None, ro_http_url = None, ro_database_url = None,
      ro_force_ldap_user_pass_reset = None, ro_force_update_private_key = None,
      ro_smtp_opts = \<lparr>so_enable_password_reset = None, so_from = None, so_reply_to = None, so_server = None, so_port = None,
        so_user = None, so_password = None, so_tls_required = None, so_encryption = None\<rparr>,
      ro_ldaps_opts = \<lparr>la_enabled = None, la_port = None, la_cert_file = None, la_key_file = None\<rparr>,
      ro_healthcheck_opts = \<lparr>hc_http_host = None, hc_ldap_host = None\<rparr>\<rparr>"

text \<open>A configuration file that only sets the secret of the tokens.\<close>

definition secret_only :: figment where
  "secret_only =
     \<lparr>fg_extract = (\<lambda>d. Inr (d\<lparr>cf_jwt_secret := Some ''secret''\<rparr>)),
      fg_sources = \<lparr>fs_key_seed = SourceCode, fs_key_file = NoSource\<rparr>\<rparr>"

theorem unset_seed_gives_constant_key_witness:
  "\<exists>config. config_init sample_keys secret_only no_options Map.empty = (Inr config, Map.empty)
     \<and> cf_server_setup config = Some \<lparr>ss_server_setup = zero_seed, ss_private_key_location = DefaultLocation\<rparr>"
proof -
  obtain config where c: "config_init sample_keys secret_only no_options Map.empty = (Inr config, Map.empty)"
    by (auto simp: config_init_def secret_only_def figment_defaults_def override_config_def no_options_def Let_def
        get_server_setup_def)
  have "\<forall>d c. fg_extract secret_only d = Inr c \<longrightarrow> cf_key_seed c = cf_key_seed d" by (auto simp: secret_only_def)
  from unset_seed_gives_constant_key [OF this _ c] c show ?thesis by (simp add: no_options_def sample_keys_def)
qed

section \<open>The first start\<close>

definition founding_sql :: sql_libs where
  "founding_sql = sample_sql\<lparr>sl_uuid_v3 := (\<lambda>s _. s),
     sl_posix_of_json := (\<lambda>_. Some (sample_settings\<lparr>user_uidnumber_assign := False\<rparr>))\<rparr>"

definition empty_tables :: "unit server_db" where
  "empty_tables =
     \<lparr>sd_world = sample_world\<lparr>w_db := sample_db\<lparr>t_users := [], t_groups := [], t_memberships := [], t_user_attributes := [],
        t_group_attribute_schema := [sample_schema_row ''ou'' TString], t_next_group_id := 1\<rparr>\<rparr>,
      sd_private_key = None\<rparr>"

definition first_config :: configuration where
  "first_config = (figment_defaults sample_keys)\<lparr>cf_ldap_user_pass := Some ''password''\<rparr>"

definition started :: "unit server_db" where
  "started = snd (set_up_server founding_sql sample_opaque sample_client first_config (private_key_info_of sample_keys drawn_key) empty_tables)"

lemma first_start:
  "fst (set_up_server founding_sql sample_opaque sample_client first_config (private_key_info_of sample_keys drawn_key) empty_tables) = Inr ()"
  by code_simp

lemma empty_seeding: "seeding (w_db (sd_world empty_tables))"
proof -
  have "db_ok (w_db (sd_world empty_tables))" by code_simp
  then show ?thesis
    by (simp add: seeding_def exclusive_def spelt_def empty_tables_def sample_world_def is_member_def)
qed

theorem startup_founds_invariant_witness:
  "has_admin (w_db (sd_world started)) \<and> builtins_present (w_db (sd_world started)) \<and> sd_private_key started \<noteq> None
    \<and> guarded (w_db (sd_world started))"
proof -
  let ?run = "set_up_server founding_sql sample_opaque sample_client first_config (private_key_info_of sample_keys drawn_key) empty_tables"
  have "?run = (Inr (), started)" using first_start by (cases ?run) (simp add: started_def)
  moreover have "db_ok (w_db (sd_world empty_tables))" "exclusive (w_db (sd_world empty_tables))" "spelt (w_db (sd_world empty_tables))"
    using empty_seeding by (simp_all add: seeding_def)
  ultimately show ?thesis
    using startup_founds_invariant [of empty_tables founding_sql sample_opaque sample_client first_config
        "private_key_info_of sample_keys drawn_key" "Inr ()" started sample_kerberos]
    by (auto intro: history_start)
qed

definition later_world :: "unit server_db" where
  "later_world = \<lparr>sd_world = sample_world, sd_private_key = Some (private_key_info_of sample_keys drawn_key)\<rparr>"

theorem quiet_start_keeps_users_witness:
  "sd_world (snd (set_up_server sample_sql sample_opaque sample_client first_config
     (private_key_info_of sample_keys drawn_key) later_world)) = sample_world"
proof -
  have "fst (ensure_groups sample_sql BUILTIN_GROUPS sample_world) = Inr ()" by code_simp
  moreover have "snd (ensure_groups sample_sql BUILTIN_GROUPS sample_world) = sample_world" by code_simp
  ultimately have "ensure_groups sample_sql BUILTIN_GROUPS (sd_world later_world) = (Inr (), sample_world)"
    by (simp add: later_world_def prod_eq_iff)
  moreover have "admin_present sample_sql sample_world" by code_simp
  moreover have "\<not> is_positive (cf_force_ldap_user_pass_reset first_config)" by code_simp
  ultimately show ?thesis
    using quiet_start_keeps_users [of sample_sql later_world sample_world first_config] by (simp add: later_world_def)
qed

section \<open>A connection\<close>

definition open_sink :: ldap_sink where
  "open_sink = \<lparr>sink_send = (\<lambda>_ _. True), sink_flush = (\<lambda>_. True)\<rparr>"

definition sample_stream :: "unit world stream_event list" where
  "sample_stream =
     [Received \<lparr>msg_id = 1, msg_op = SearchRequest dse_search, msg_ctrl = []\<rparr>, Outside sample_world,
      Received \<lparr>msg_id = 2, msg_op = ExtendedRequest WhoAmI, msg_ctrl = []\<rparr>,
      Received \<lparr>msg_id = 3, msg_op = UnbindRequest, msg_ctrl = []\<rparr>, ReceiveError]"

theorem stream_answers_in_order_witness:
  "\<exists>block1 block2. snd (snd (handle_ldap_stream sample_server open_sink sample_stream (session_new sample_world) [])) = block1 @ block2
     \<and> map msg_id (requests sample_stream) = [1, 2]
     \<and> answers (requests sample_stream ! 0) block1 \<and> answers (requests sample_stream ! 1) block2"
proof -
  let ?run = "handle_ldap_stream sample_server open_sink sample_stream (session_new sample_world) []"
  have "fst ?run = Inr ()"
    by (simp add: sample_stream_def handle_stream_message_def handle_ldap_message_def do_search_or_dse_def recover_def rmap_def
        dse_search_def is_root_dse_request_def do_extended_request_def get_credentials_def session_new_def open_sink_def)
  then have "?run = (Inr (), fst (snd ?run), snd (snd ?run))" by (simp add: prod_eq_iff)
  from stream_answers_in_order [OF this] obtain blocks where b: "snd (snd ?run) = concat blocks"
    "list_all2 answers (requests sample_stream) blocks" by auto
  moreover have r: "map msg_id (requests sample_stream) = [1, 2]" by (simp add: sample_stream_def)
  moreover obtain block1 block2 where "blocks = [block1, block2]"
    using list_all2_lengthD [OF b(2)] arg_cong [OF r, of length]
    by (cases blocks; cases "tl blocks") (auto simp: length_Suc_conv)
  ultimately show ?thesis
    using list_all2_nthD2 [OF b(2), of 0] list_all2_nthD2 [OF b(2), of 1] by auto
qed

end
