(* ===== verification/Migrations.thy ===== *)
theory Migrations
  imports Sql_Tables Configuration
begin

text \<open>
  The creation and the migrations of the tables (\<open>sql_migrations.rs\<close>, \<open>init_table\<close> of
  \<open>sql_tables.rs\<close>): twelve versions of the database, from the first tables to those that the other
  theories work on. A table of the model has the columns of all versions; a column or a table that
  a version has not got yet holds anything until the migration that adds it sets it. What differs
  between database engines is a parameter.
\<close>

section \<open>Old tables\<close>

text \<open>The columns of users up to version 4, and the text of a type that is none of today's.\<close>

record old_user_row = user_row +
  old_first_name :: "string option"
  old_last_name :: "string option"
  old_avatar :: "bytes option"

record old_schema_row = attribute_schema_row +
  old_type :: "string option"

text \<open>What a database may lack: the columns that \<open>upgrade_to_v1\<close> adds to tables from before the
  versions, and what version 12 adds unless it is there.\<close>

datatype db_part =
    GroupCreationDate | GroupUuid | UserUuid
  | UserAliases | UserReadonly | GroupAliases | GroupReadonly | SystemConfig | KrbPrincipalName

record legacy_db =
  lg_version :: "int option"
  lg_missing :: "db_part set"
  lg_users :: "old_user_row list"
  lg_groups :: "group_row list"
  lg_memberships :: "membership_row list"
  lg_user_attributes :: "user_attribute_row list"
  lg_group_attributes :: "group_attribute_row list"
  lg_user_schema :: "old_schema_row list"
  lg_group_schema :: "old_schema_row list"
  lg_user_classes :: "object_class_row list"
  lg_group_classes :: "object_class_row list"
  lg_config :: "(string \<times> string) list"
  lg_next_group_id :: group_id
  lg_private_key :: "private_key_info option"

text \<open>The engine: its function \<open>lower\<close>; the condition that version 12 puts on the values of
  \<open>kerberossync\<close>, when the engine accepts it on a blob; whether it takes question marks in plain
  statements and a text for a blob; whether an error ends the transaction, so that every later
  statement of it fails (PostgreSQL) or only undoes the statement (SQLite, MySQL); and what it leaves
  of the transaction of a migration that fails, by the number of the migration and the database
  before it: the database before it where changes of tables are undone too (SQLite, PostgreSQL),
  some of the new tables, columns and indexes where such statements commit at once (MySQL).\<close>

record engine =
  en_lower :: "string \<Rightarrow> string"
  en_switch_text :: "(bytes \<Rightarrow> bool) option"
  en_question_marks :: bool
  en_text_for_blob :: bool
  en_aborts :: bool
  en_left :: "int \<Rightarrow> legacy_db \<Rightarrow> legacy_db"

type_synonym statement = "legacy_db \<Rightarrow> legacy_db dresult"

definition db_error :: "string \<Rightarrow> 'a dresult" where
  "db_error m = Inl (DatabaseError m)"

section \<open>Statements\<close>

definition user_attribute_key :: "user_attribute_row \<Rightarrow> user_id \<times> attribute_name" where
  "user_attribute_key a = (ua_user_id a, ua_name a)"

definition group_attribute_key :: "group_attribute_row \<Rightarrow> group_id \<times> attribute_name" where
  "group_attribute_key a = (ga_group_id a, ga_name a)"

text \<open>A statement that leaves the rows \<open>rs\<close> in an attribute table: the engine checks the foreign keys
  and the primary key. The same for the names of a schema.\<close>

definition store_user_attributes :: "user_attribute_row list \<Rightarrow> statement" where
  "store_user_attributes rs d =
     (if \<not> list_all (\<lambda>a. ua_user_id a \<in> ur_user_id ` set (lg_users d) \<and> ua_name a \<in> sr_name ` set (lg_user_schema d)) rs
      then db_error foreign_key_violation
      else if \<not> distinct (map user_attribute_key rs) then db_error unique_violation
      else Inr (d\<lparr>lg_user_attributes := rs\<rparr>))"

definition store_group_attributes :: "group_attribute_row list \<Rightarrow> statement" where
  "store_group_attributes rs d =
     (if \<not> list_all (\<lambda>a. ga_group_id a \<in> gr_group_id ` set (lg_groups d) \<and> ga_name a \<in> sr_name ` set (lg_group_schema d)) rs
      then db_error foreign_key_violation
      else if \<not> distinct (map group_attribute_key rs) then db_error unique_violation
      else Inr (d\<lparr>lg_group_attributes := rs\<rparr>))"

definition insert_user_schema :: "old_schema_row \<Rightarrow> statement" where
  "insert_user_schema r d =
     (if sr_name r \<in> sr_name ` set (lg_user_schema d) then db_error unique_violation
      else Inr (d\<lparr>lg_user_schema := lg_user_schema d @ [r]\<rparr>))"

definition insert_group_schema :: "old_schema_row \<Rightarrow> statement" where
  "insert_group_schema r d =
     (if sr_name r \<in> sr_name ` set (lg_group_schema d) then db_error unique_violation
      else Inr (d\<lparr>lg_group_schema := lg_group_schema d @ [r]\<rparr>))"

text \<open>The creation of a unique index on a column that is read by \<open>f\<close>.\<close>

definition unique_index :: "(legacy_db \<Rightarrow> 'a list) \<Rightarrow> statement" where
  "unique_index f d = (if distinct (f d) then Inr d else db_error unique_violation)"

definition map_users :: "(old_user_row \<Rightarrow> old_user_row) \<Rightarrow> legacy_db \<Rightarrow> legacy_db" where
  "map_users f d = d\<lparr>lg_users := map f (lg_users d)\<rparr>"

definition map_groups :: "(group_row \<Rightarrow> group_row) \<Rightarrow> legacy_db \<Rightarrow> legacy_db" where
  "map_groups f d = d\<lparr>lg_groups := map f (lg_groups d)\<rparr>"

text \<open>A part that is added when it is missing.\<close>

definition add_part :: "db_part \<Rightarrow> (legacy_db \<Rightarrow> legacy_db) \<Rightarrow> legacy_db \<Rightarrow> legacy_db" where
  "add_part p f d = (if p \<in> lg_missing d then (f d)\<lparr>lg_missing := lg_missing d - {p}\<rparr> else d)"

section \<open>The first version\<close>

definition rename_readonly :: statement where
  "rename_readonly d =
     (let gs = map (\<lambda>g. if gr_display_name g = GroupName ''lldap_readonly''
                        then g\<lparr>gr_display_name := GroupName ''lldap_password_manager''\<rparr> else g) (lg_groups d)
      in if distinct (map gr_display_name gs) then Inr (d\<lparr>lg_groups := gs\<rparr>) else db_error unique_violation)"

definition add_group_creation_date :: "date \<Rightarrow> legacy_db \<Rightarrow> legacy_db" where
  "add_group_creation_date now = add_part GroupCreationDate (map_groups (\<lambda>g. g\<lparr>gr_creation_date := now\<rparr>))"

definition add_group_uuid :: "sql_libs \<Rightarrow> legacy_db \<Rightarrow> legacy_db" where
  "add_group_uuid Q = add_part GroupUuid
     (map_groups (\<lambda>g. g\<lparr>gr_uuid := sl_uuid_v3 Q (group_name_str (gr_display_name g)) (gr_creation_date g)\<rparr>))"

definition add_user_uuid :: "sql_libs \<Rightarrow> legacy_db \<Rightarrow> legacy_db" where
  "add_user_uuid Q = add_part UserUuid
     (map_users (\<lambda>u. u\<lparr>ur_uuid := sl_uuid_v3 Q (user_id_str (ur_user_id u)) (ur_creation_date u)\<rparr>))"

text \<open>Outside any transaction: what was done before an error stays. The tables that do not exist
  are created with all columns.\<close>

definition upgrade_to_v1 :: "sql_libs \<Rightarrow> date \<Rightarrow> legacy_db \<Rightarrow> unit dresult \<times> legacy_db" where
  "upgrade_to_v1 Q now d =
     (let d' = add_user_uuid Q (add_group_uuid Q (add_group_creation_date now d))
      in case rename_readonly d' of
           Inl e \<Rightarrow> (Inl e, d')
         | Inr d'' \<Rightarrow> (Inr (), d''\<lparr>lg_version := Some 1\<rparr>))"

section \<open>Versions 2 to 11\<close>

text \<open>A column is rebuilt: renamed, created anew, copied, updated, and the old one dropped.\<close>

definition replace_column :: "(old_user_row \<Rightarrow> old_user_row) \<Rightarrow> statement" where
  "replace_column updates d = Inr (map_users updates d)"

definition null_if_empty :: "string option \<Rightarrow> string option" where
  "null_if_empty s = (if s = Some [] then None else s)"

definition migrate_to_v2 :: statement where
  "migrate_to_v2 = replace_column (\<lambda>u. u\<lparr>ur_display_name := null_if_empty (ur_display_name u)\<rparr>)"

definition migrate_to_v3 :: statement where
  "migrate_to_v3 d =
     rbind (replace_column (\<lambda>u. u\<lparr>old_first_name := null_if_empty (old_first_name u)\<rparr>) d) (\<lambda>d1.
     rbind (replace_column (\<lambda>u. u\<lparr>old_last_name := null_if_empty (old_last_name u)\<rparr>) d1) (\<lambda>d2.
     replace_column (\<lambda>u. u) d2))"

definition migrate_to_v4 :: statement where
  "migrate_to_v4 d =
     rbind (unique_index (\<lambda>d. map ur_email (lg_users d)) d) (\<lambda>d1.
     rbind (unique_index (\<lambda>d. map ur_uuid (lg_users d)) d1) (\<lambda>d2.
     unique_index (\<lambda>d. map gr_uuid (lg_groups d)) d2))"

definition v5_schema_row :: "string \<Rightarrow> attribute_type \<Rightarrow> old_schema_row" where
  "v5_schema_row n t =
     \<lparr>sr_name = AttributeName n, sr_type = t, sr_is_list = False, sr_is_visible = True, sr_is_editable = True,
      sr_is_hardcoded = True, sr_is_readonly = False, sr_aliases = ''[]'', old_type = None\<rparr>"

definition create_attribute_tables :: "legacy_db \<Rightarrow> legacy_db" where
  "create_attribute_tables d = d\<lparr>lg_user_schema := [], lg_group_schema := [], lg_user_attributes := [], lg_group_attributes := [],
     lg_missing := lg_missing d \<union> {UserAliases, UserReadonly, GroupAliases, GroupReadonly}\<rparr>"

definition seed_user_schema :: "legacy_db \<Rightarrow> legacy_db" where
  "seed_user_schema d = d\<lparr>lg_user_schema := lg_user_schema d
     @ [v5_schema_row ''first_name'' TString, v5_schema_row ''last_name'' TString, v5_schema_row ''avatar'' TAvatar]\<rparr>"

definition attribute_of :: "user_id \<Rightarrow> string \<Rightarrow> bytes option \<Rightarrow> user_attribute_row list" where
  "attribute_of u n v = (case v of None \<Rightarrow> [] | Some b \<Rightarrow> [\<lparr>ua_user_id = u, ua_name = AttributeName n, ua_value = b\<rparr>])"

definition v5_attributes :: "old_user_row \<Rightarrow> user_attribute_row list" where
  "v5_attributes u = attribute_of (ur_user_id u) ''first_name'' (old_first_name u)
     @ attribute_of (ur_user_id u) ''last_name'' (old_last_name u) @ attribute_of (ur_user_id u) ''avatar'' (old_avatar u)"

definition migrate_to_v5 :: statement where
  "migrate_to_v5 d =
     (let d1 = seed_user_schema (create_attribute_tables d);
          rows = concat (map v5_attributes (lg_users d1))
      in if rows = [] then Inr d1 else store_user_attributes (lg_user_attributes d1 @ rows) d1)"

definition migrate_to_v6 :: "engine \<Rightarrow> statement" where
  "migrate_to_v6 E d =
     Inr (map_users (\<lambda>u. u\<lparr>ur_lowercase_email := en_lower E (email_str (ur_email u))\<rparr>)
       (map_groups (\<lambda>g. g\<lparr>gr_lowercase_display_name := en_lower E (group_name_str (gr_display_name g))\<rparr>) d))"

definition migrate_to_v7 :: statement where
  "migrate_to_v7 d = Inr (d\<lparr>lg_private_key := None\<rparr>)"

text \<open>Memberships that occur more than once are deleted and inserted once.\<close>

definition repeated :: "membership_row list \<Rightarrow> membership_row list" where
  "repeated ms = remdups (filter (\<lambda>m. 1 < length (filter (\<lambda>x. x = m) ms)) ms)"

definition reinsert :: "membership_row \<Rightarrow> membership_row list \<Rightarrow> membership_row list" where
  "reinsert m ms = filter (\<lambda>x. x \<noteq> m) ms @ [m]"

definition migrate_to_v8 :: statement where
  "migrate_to_v8 d =
     unique_index lg_memberships (d\<lparr>lg_memberships := fold reinsert (repeated (lg_memberships d)) (lg_memberships d)\<rparr>)"

definition migrate_to_v9 :: statement where
  "migrate_to_v9 d = Inr (d\<lparr>lg_user_classes := [], lg_group_classes := []\<rparr>)"

definition migrate_to_v10 :: statement where
  "migrate_to_v10 d =
     rbind (unique_index (\<lambda>d. map gr_lowercase_display_name (lg_groups d)) d)
       (unique_index (\<lambda>d. map ur_lowercase_email (lg_users d)))"

definition migrate_to_v11 :: "date \<Rightarrow> statement" where
  "migrate_to_v11 now d =
     Inr (map_groups (\<lambda>g. g\<lparr>gr_modified_date := now\<rparr>)
       (map_users (\<lambda>u. u\<lparr>ur_modified_date := now, ur_password_modified_date := now\<rparr>) d))"

section \<open>Version 12\<close>

text \<open>The results of its statements are ignored. On an engine that ends the transaction at an error
  there is no state any more.\<close>

definition attempt :: "engine \<Rightarrow> statement \<Rightarrow> legacy_db option \<Rightarrow> legacy_db option" where
  "attempt E f t =
     (case t of
        None \<Rightarrow> None
      | Some d \<Rightarrow> (case f d of Inr d' \<Rightarrow> Some d' | Inl _ \<Rightarrow> if en_aborts E then None else Some d))"

definition extension_columns :: "statement list" where
  "extension_columns =
     [\<lambda>d. Inr (add_part UserAliases (\<lambda>d. d\<lparr>lg_user_schema := map (\<lambda>r. r\<lparr>sr_aliases := ''[]''\<rparr>) (lg_user_schema d)\<rparr>) d),
      \<lambda>d. Inr (add_part UserReadonly (\<lambda>d. d\<lparr>lg_user_schema := map (\<lambda>r. r\<lparr>sr_is_readonly := False\<rparr>) (lg_user_schema d)\<rparr>) d),
      \<lambda>d. Inr (add_part GroupAliases (\<lambda>d. d\<lparr>lg_group_schema := map (\<lambda>r. r\<lparr>sr_aliases := ''[]''\<rparr>) (lg_group_schema d)\<rparr>) d),
      \<lambda>d. Inr (add_part GroupReadonly (\<lambda>d. d\<lparr>lg_group_schema := map (\<lambda>r. r\<lparr>sr_is_readonly := False\<rparr>) (lg_group_schema d)\<rparr>) d)]"

definition seed_config :: "sql_libs \<Rightarrow> statement list" where
  "seed_config Q =
     [\<lambda>d. Inr (add_part SystemConfig (\<lambda>d. d\<lparr>lg_config := []\<rparr>) d),
      \<lambda>d. if ''allowedous'' \<in> fst ` set (lg_config d) then db_error unique_violation
          else Inr (d\<lparr>lg_config := lg_config d @ [(''allowedous'', sl_json_of_strings Q [''people'', ''groups''])]\<rparr>)]"

definition krb_column :: statement where
  "krb_column d = Inr (add_part KrbPrincipalName (map_users (\<lambda>u. u\<lparr>ur_krb_principal_name := None\<rparr>)) d)"

definition hardcoded_row :: "sql_libs \<Rightarrow> attribute_schema \<Rightarrow> old_schema_row" where
  "hardcoded_row Q a =
     \<lparr>sr_name = AttributeName (as_name a), sr_type = as_attribute_type a, sr_is_list = as_is_list a,
      sr_is_visible = as_is_visible a, sr_is_editable = as_is_editable a, sr_is_hardcoded = True,
      sr_is_readonly = as_is_readonly a, sr_aliases = sl_json_of_strings Q (as_aliases a), old_type = None\<rparr>"

definition seed_user_attributes :: "sql_libs \<Rightarrow> statement list" where
  "seed_user_attributes Q =
     map (\<lambda>a. insert_user_schema (hardcoded_row Q a)) (filter as_is_hardcoded (user_attributes public_schema_get))"

definition seed_group_attributes :: "sql_libs \<Rightarrow> statement list" where
  "seed_group_attributes Q =
     map (\<lambda>a. insert_group_schema (hardcoded_row Q a)) (filter as_is_hardcoded (group_attributes public_schema_get))"

definition repair_avatar :: statement where
  "repair_avatar d = Inr (d\<lparr>lg_user_schema :=
     map (\<lambda>r. if sr_name r = AttributeName ''avatar'' \<and> old_type r = Some ''JpegPhoto''
              then r\<lparr>sr_type := TAvatar, old_type := None\<rparr> else r) (lg_user_schema d)\<rparr>)"

text \<open>\<open>INSERT \<dots> SELECT \<dots> WHERE NOT EXISTS\<close>: a value for everybody who has none under the name.\<close>

definition default_user_attribute :: "bool \<Rightarrow> string \<Rightarrow> bytes \<Rightarrow> statement" where
  "default_user_attribute accepted n v d =
     (if \<not> accepted then db_error ''statement not accepted''
      else store_user_attributes (lg_user_attributes d
        @ map (\<lambda>u. \<lparr>ua_user_id = ur_user_id u, ua_name = AttributeName n, ua_value = v\<rparr>)
            (filter (\<lambda>u. (ur_user_id u, AttributeName n) \<notin> user_attribute_key ` set (lg_user_attributes d)) (lg_users d))) d)"

definition default_group_attribute :: "bool \<Rightarrow> string \<Rightarrow> bytes \<Rightarrow> statement" where
  "default_group_attribute accepted n v d =
     (if \<not> accepted then db_error ''statement not accepted''
      else store_group_attributes (lg_group_attributes d
        @ map (\<lambda>g. \<lparr>ga_group_id = gr_group_id g, ga_name = AttributeName n, ga_value = v\<rparr>)
            (filter (\<lambda>g. (gr_group_id g, AttributeName n) \<notin> group_attribute_key ` set (lg_group_attributes d)) (lg_groups d))) d)"

definition normalise_switch :: "engine \<Rightarrow> statement" where
  "normalise_switch E d =
     (case (en_switch_text E, en_question_marks E) of
        (Some p, True) \<Rightarrow>
          Inr (d\<lparr>lg_user_attributes := map (\<lambda>a. if ua_name a = AttributeName ''kerberossync'' \<and> p (ua_value a)
                                              then a\<lparr>ua_value := ''0''\<rparr> else a) (lg_user_attributes d)\<rparr>)
      | _ \<Rightarrow> db_error ''statement not accepted'')"

definition krb_default :: statement where
  "krb_default d = Inr (map_users (\<lambda>u. if ur_krb_principal_name u = None then u\<lparr>ur_krb_principal_name := Some []\<rparr> else u) d)"

text \<open>An alias becomes the canonical name, and what is left under the alias is deleted.\<close>

definition rename_user_attribute :: "engine \<Rightarrow> string \<Rightarrow> string \<Rightarrow> statement" where
  "rename_user_attribute E canonical alias d =
     (if \<not> en_question_marks E then db_error ''statement not accepted''
      else store_user_attributes (map (\<lambda>a. if ua_name a = AttributeName alias then a\<lparr>ua_name := AttributeName canonical\<rparr> else a)
             (lg_user_attributes d)) d)"

definition drop_user_attribute :: "engine \<Rightarrow> string \<Rightarrow> statement" where
  "drop_user_attribute E alias d =
     (if \<not> en_question_marks E then db_error ''statement not accepted''
      else Inr (d\<lparr>lg_user_attributes := filter (\<lambda>a. ua_name a \<noteq> AttributeName alias) (lg_user_attributes d)\<rparr>))"

definition rename_group_attribute :: "engine \<Rightarrow> string \<Rightarrow> string \<Rightarrow> statement" where
  "rename_group_attribute E canonical alias d =
     (if \<not> en_question_marks E then db_error ''statement not accepted''
      else store_group_attributes (map (\<lambda>a. if ga_name a = AttributeName alias then a\<lparr>ga_name := AttributeName canonical\<rparr> else a)
             (lg_group_attributes d)) d)"

definition drop_group_attribute :: "engine \<Rightarrow> string \<Rightarrow> statement" where
  "drop_group_attribute E alias d =
     (if \<not> en_question_marks E then db_error ''statement not accepted''
      else Inr (d\<lparr>lg_group_attributes := filter (\<lambda>a. ga_name a \<noteq> AttributeName alias) (lg_group_attributes d)\<rparr>))"

definition user_aliases :: "engine \<Rightarrow> statement list" where
  "user_aliases E = concat (map (\<lambda>a. concat (map (\<lambda>alias.
     [rename_user_attribute E (as_name a) alias, drop_user_attribute E alias]) (as_aliases a))) (user_attributes public_schema_get))"

definition group_aliases :: "engine \<Rightarrow> statement list" where
  "group_aliases E = concat (map (\<lambda>a. concat (map (\<lambda>alias.
     [rename_group_attribute E (as_name a) alias, drop_group_attribute E alias]) (as_aliases a))) (group_attributes public_schema_get))"

definition v12_defaults :: "engine \<Rightarrow> statement list" where
  "v12_defaults E =
     [repair_avatar, default_user_attribute (en_question_marks E) ''kerberossync'' ''0'', normalise_switch E, krb_default,
      default_user_attribute (en_text_for_blob E) ''ou'' ''people'', default_group_attribute (en_text_for_blob E) ''ou'' ''groups'']"

definition v12_statements :: "sql_libs \<Rightarrow> engine \<Rightarrow> statement list" where
  "v12_statements Q E = extension_columns @ seed_config Q @ [krb_column] @ seed_user_attributes Q @ seed_group_attributes Q
     @ v12_defaults E @ user_aliases E @ group_aliases E"

definition migrate_to_v12 :: "sql_libs \<Rightarrow> engine \<Rightarrow> statement" where
  "migrate_to_v12 Q E d =
     (case fold (attempt E) (v12_statements Q E) (Some d) of
        None \<Rightarrow> db_error ''current transaction is aborted'' | Some d' \<Rightarrow> Inr d')"

section \<open>All migrations\<close>

definition LAST_SCHEMA_VERSION :: int where "LAST_SCHEMA_VERSION = 12"

definition migrations :: "sql_libs \<Rightarrow> engine \<Rightarrow> date \<Rightarrow> statement list" where
  "migrations Q E now =
     [migrate_to_v2, migrate_to_v3, migrate_to_v4, migrate_to_v5, migrate_to_v6 E, migrate_to_v7, migrate_to_v8,
      migrate_to_v9, migrate_to_v10, migrate_to_v11 now, migrate_to_v12 Q E]"

text \<open>One migration and the new version, in a transaction.\<close>

definition migration :: "sql_libs \<Rightarrow> engine \<Rightarrow> date \<Rightarrow> int \<Rightarrow> statement" where
  "migration Q E now n d = rmap (\<lambda>d'. d'\<lparr>lg_version := Some n\<rparr>) ((migrations Q E now ! nat (n - 2)) d)"

text \<open>The migrations in their order, up to the first one that fails.\<close>

fun run_migrations :: "(int \<Rightarrow> 's \<Rightarrow> 'e + 's) \<Rightarrow> (int \<Rightarrow> 's \<Rightarrow> 's) \<Rightarrow> int list \<Rightarrow> 's \<Rightarrow> ('e + unit) \<times> 's" where
  "run_migrations step left [] d = (Inr (), d)"
| "run_migrations step left (n # ns) d =
     (case step n d of Inl e \<Rightarrow> (Inl e, left n d) | Inr d' \<Rightarrow> run_migrations step left ns d')"

definition migrate_from_version ::
  "sql_libs \<Rightarrow> engine \<Rightarrow> date \<Rightarrow> int \<Rightarrow> legacy_db \<Rightarrow> unit dresult \<times> legacy_db" where
  "migrate_from_version Q E now version d =
     (if version = LAST_SCHEMA_VERSION then (Inr (), d)
      else if LAST_SCHEMA_VERSION < version then (db_error ''DB version downgrading is not supported'', d)
      else run_migrations (migration Q E now) (en_left E) (filter (\<lambda>n. version < n \<and> n \<le> LAST_SCHEMA_VERSION) [2..LAST_SCHEMA_VERSION]) d)"

definition init_table :: "sql_libs \<Rightarrow> engine \<Rightarrow> date \<Rightarrow> legacy_db \<Rightarrow> unit dresult \<times> legacy_db" where
  "init_table Q E now d =
     (case lg_version d of
        Some version \<Rightarrow> migrate_from_version Q E now version d
      | None \<Rightarrow>
          (case upgrade_to_v1 Q now d of
             (Inl e, d') \<Rightarrow> (Inl e, d')
           | (Inr _, d') \<Rightarrow> migrate_from_version Q E now 1 d'))"

text \<open>The tables that the backend works on, once the migrations are done.\<close>

definition current :: "legacy_db \<Rightarrow> db" where
  "current d =
     \<lparr>t_users = map user_row.truncate (lg_users d), t_groups = lg_groups d, t_memberships = lg_memberships d,
      t_user_attributes = lg_user_attributes d, t_group_attributes = lg_group_attributes d,
      t_user_attribute_schema = map attribute_schema_row.truncate (lg_user_schema d),
      t_group_attribute_schema = map attribute_schema_row.truncate (lg_group_schema d),
      t_user_object_classes = lg_user_classes d, t_group_object_classes = lg_group_classes d,
      t_system_config = lg_config d, t_next_group_id = lg_next_group_id d\<rparr>"

end
