(* ===== verification/Migration_Keys.thy ===== *)
theory Migration_Keys
  imports Migrations
begin

text \<open>
  What the migrations keep and establish: the chain of versions as a locale, the keys that hold at
  each version, and the end of the chain, where they are the keys that the backend relies on.
\<close>

section \<open>Chains of migrations\<close>

text \<open>Steps from version to version with a property for every version and a relation between the
  states before and after.\<close>

locale migration_chain =
  fixes step :: "int \<Rightarrow> 's \<Rightarrow> 'e + 's" and ok :: "int \<Rightarrow> 's \<Rightarrow> bool" and kept :: "'s \<Rightarrow> 's \<Rightarrow> bool" and final :: int
  assumes step_ok: "1 \<le> n \<Longrightarrow> n < final \<Longrightarrow> ok n s \<Longrightarrow> step (n + 1) s = Inr s' \<Longrightarrow> ok (n + 1) s'"
    and step_kept: "1 \<le> n \<Longrightarrow> n < final \<Longrightarrow> ok n s \<Longrightarrow> step (n + 1) s = Inr s' \<Longrightarrow> kept s s'"
    and kept_refl: "kept s s"
    and kept_trans: "kept s t \<Longrightarrow> kept t u \<Longrightarrow> kept s u"
begin

lemma upto_step: "v < final \<Longrightarrow> [v + 1..final] = (v + 1) # [v + 1 + 1..final]"
  by (simp add: upto_rec1)

lemma run_cases:
  assumes "1 \<le> v" and "v \<le> final" and "ok v s" and "run_migrations step left [v + 1..final] s = (r, s')"
  shows "case r of
      Inr _ \<Rightarrow> ok final s' \<and> kept s s'
    | Inl e \<Rightarrow> (\<exists>k t. v \<le> k \<and> k < final \<and> ok k t \<and> kept s t \<and> step (k + 1) t = Inl e \<and> s' = left (k + 1) t)"
  using assms
proof (induction "nat (final - v)" arbitrary: v s)
  case 0
  then show ?case using kept_refl by auto
next
  case (Suc m)
  then have less: "v < final" by simp
  show ?case
  proof (cases "step (v + 1) s")
    case (Inl e)
    then have "r = Inl e" "s' = left (v + 1) s" using Suc.prems(4) upto_step [OF less] by auto
    then show ?thesis using Inl Suc.prems(3) less kept_refl [of s] by (auto intro!: exI [of _ v] exI [of _ s])
  next
    case (Inr t)
    have t: "ok (v + 1) t" "kept s t" using step_ok step_kept Suc.prems(1,3) less Inr by blast+
    have "run_migrations step left [v + 1 + 1..final] t = (r, s')" using Suc.prems(4) upto_step [OF less] Inr by simp
    moreover have "m = nat (final - (v + 1))" using Suc.hyps(2) by simp
    ultimately have *: "case r of
        Inr _ \<Rightarrow> ok final s' \<and> kept t s'
      | Inl e \<Rightarrow> (\<exists>k u. v + 1 \<le> k \<and> k < final \<and> ok k u \<and> kept t u \<and> step (k + 1) u = Inl e \<and> s' = left (k + 1) u)"
      using Suc.hyps(1) [of "v + 1" t] Suc.prems(1) less t(1) by simp
    show ?thesis
    proof (cases r)
      case (Inl e)
      with * obtain k u where "v + 1 \<le> k" "k < final" "ok k u" "kept t u" "step (k + 1) u = Inl e" "s' = left (k + 1) u" by auto
      then show ?thesis using kept_trans [OF t(2)] Inl by (auto intro!: exI [of _ k] exI [of _ u])
    qed (use * kept_trans [OF t(2)] in simp)
  qed
qed

end

section \<open>The keys at a version\<close>

definition user_attributes_keyed :: "legacy_db \<Rightarrow> bool" where
  "user_attributes_keyed d \<longleftrightarrow> distinct (map user_attribute_key (lg_user_attributes d))
     \<and> (\<forall>a \<in> set (lg_user_attributes d). ua_user_id a \<in> ur_user_id ` set (lg_users d) \<and> ua_name a \<in> sr_name ` set (lg_user_schema d))"

definition group_attributes_keyed :: "legacy_db \<Rightarrow> bool" where
  "group_attributes_keyed d \<longleftrightarrow> distinct (map group_attribute_key (lg_group_attributes d))
     \<and> (\<forall>a \<in> set (lg_group_attributes d). ga_group_id a \<in> gr_group_id ` set (lg_groups d) \<and> ga_name a \<in> sr_name ` set (lg_group_schema d))"

definition attributes_keyed :: "legacy_db \<Rightarrow> bool" where
  "attributes_keyed d \<longleftrightarrow> user_attributes_keyed d \<and> group_attributes_keyed d"

definition first_keys :: "legacy_db \<Rightarrow> bool" where
  "first_keys d \<longleftrightarrow> distinct (map ur_user_id (lg_users d)) \<and> distinct (map gr_group_id (lg_groups d))
     \<and> distinct (map gr_display_name (lg_groups d)) \<and> (\<forall>g \<in> set (lg_groups d). gr_group_id g < lg_next_group_id d)
     \<and> (\<forall>m \<in> set (lg_memberships d). mb_user_id m \<in> ur_user_id ` set (lg_users d) \<and> mb_group_id m \<in> gr_group_id ` set (lg_groups d))"

definition identities_unique :: "legacy_db \<Rightarrow> bool" where
  "identities_unique d \<longleftrightarrow> distinct (map ur_email (lg_users d)) \<and> distinct (map ur_uuid (lg_users d)) \<and> distinct (map gr_uuid (lg_groups d))"

definition lowercased :: "legacy_db \<Rightarrow> bool" where
  "lowercased d \<longleftrightarrow> (\<forall>u \<in> set (lg_users d). ur_lowercase_email u = to_ascii_lowercase (email_str (ur_email u)))
     \<and> (\<forall>g \<in> set (lg_groups d). gr_lowercase_display_name g = to_ascii_lowercase (group_name_str (gr_display_name g)))"

definition lowercase_unique :: "legacy_db \<Rightarrow> bool" where
  "lowercase_unique d \<longleftrightarrow> distinct (map ur_lowercase_email (lg_users d)) \<and> distinct (map gr_lowercase_display_name (lg_groups d))"

definition keys_at :: "int \<Rightarrow> legacy_db \<Rightarrow> bool" where
  "keys_at n d \<longleftrightarrow> first_keys d
     \<and> (4 \<le> n \<longrightarrow> identities_unique d) \<and> (5 \<le> n \<longrightarrow> attributes_keyed d) \<and> (6 \<le> n \<longrightarrow> lowercased d)
     \<and> (8 \<le> n \<longrightarrow> distinct (lg_memberships d)) \<and> (10 \<le> n \<longrightarrow> lowercase_unique d)"

lemmas key_defs = keys_at_def first_keys_def identities_unique_def attributes_keyed_def user_attributes_keyed_def
  group_attributes_keyed_def lowercased_def lowercase_unique_def

text \<open>What no migration changes: who the users and groups are, their passwords and the memberships as
  a set.\<close>

definition user_identity :: "old_user_row \<Rightarrow> user_id \<times> email \<times> bytes option \<times> date \<times> uuid" where
  "user_identity u = (ur_user_id u, ur_email u, ur_password_hash u, ur_creation_date u, ur_uuid u)"

definition group_identity :: "group_row \<Rightarrow> group_id \<times> group_name \<times> date \<times> uuid" where
  "group_identity g = (gr_group_id g, gr_display_name g, gr_creation_date g, gr_uuid g)"

definition same_directory :: "legacy_db \<Rightarrow> legacy_db \<Rightarrow> bool" where
  "same_directory d d' \<longleftrightarrow> map user_identity (lg_users d') = map user_identity (lg_users d)
     \<and> map group_identity (lg_groups d') = map group_identity (lg_groups d)
     \<and> set (lg_memberships d') = set (lg_memberships d) \<and> lg_next_group_id d' = lg_next_group_id d"

lemma same_directory_refl [simp]: "same_directory d d"
  by (simp add: same_directory_def)

lemma same_directory_trans: "same_directory d d' \<Longrightarrow> same_directory d' d'' \<Longrightarrow> same_directory d d''"
  by (simp add: same_directory_def)

text \<open>A column that is a function of the identity is the same on both sides.\<close>

lemma map_factor:
  assumes "map i xs = map i ys" and "\<And>x. f x = h (i x)"
  shows "map f xs = map f ys"
proof -
  have "map f zs = map h (map i zs)" for zs by (simp add: assms(2))
  then show ?thesis using assms(1) by metis
qed

lemma same_columns:
  assumes "same_directory d d'"
  shows "map ur_user_id (lg_users d') = map ur_user_id (lg_users d)" "map ur_email (lg_users d') = map ur_email (lg_users d)"
    "map ur_uuid (lg_users d') = map ur_uuid (lg_users d)" "map gr_group_id (lg_groups d') = map gr_group_id (lg_groups d)"
    "map gr_display_name (lg_groups d') = map gr_display_name (lg_groups d)" "map gr_uuid (lg_groups d') = map gr_uuid (lg_groups d)"
proof -
  have u: "map user_identity (lg_users d') = map user_identity (lg_users d)"
    and g: "map group_identity (lg_groups d') = map group_identity (lg_groups d)"
    using assms by (simp_all add: same_directory_def)
  show "map ur_user_id (lg_users d') = map ur_user_id (lg_users d)"
    by (rule map_factor [OF u, of _ fst]) (simp add: user_identity_def)
  show "map ur_email (lg_users d') = map ur_email (lg_users d)"
    by (rule map_factor [OF u, of _ "\<lambda>t. fst (snd t)"]) (simp add: user_identity_def)
  show "map ur_uuid (lg_users d') = map ur_uuid (lg_users d)"
    by (rule map_factor [OF u, of _ "\<lambda>t. snd (snd (snd (snd t)))"]) (simp add: user_identity_def)
  show "map gr_group_id (lg_groups d') = map gr_group_id (lg_groups d)"
    by (rule map_factor [OF g, of _ fst]) (simp add: group_identity_def)
  show "map gr_display_name (lg_groups d') = map gr_display_name (lg_groups d)"
    by (rule map_factor [OF g, of _ "\<lambda>t. fst (snd t)"]) (simp add: group_identity_def)
  show "map gr_uuid (lg_groups d') = map gr_uuid (lg_groups d)"
    by (rule map_factor [OF g, of _ "\<lambda>t. snd (snd (snd t))"]) (simp add: group_identity_def)
qed

lemma same_images:
  assumes "same_directory d d'"
  shows "ur_user_id ` set (lg_users d') = ur_user_id ` set (lg_users d)"
    and "gr_group_id ` set (lg_groups d') = gr_group_id ` set (lg_groups d)"
  using same_columns(1,4) [OF assms] by (metis set_map)+

lemma same_first_keys:
  assumes "same_directory d d'" and "first_keys d"
  shows "first_keys d'"
proof -
  have m: "set (lg_memberships d') = set (lg_memberships d)" and n: "lg_next_group_id d' = lg_next_group_id d"
    using assms(1) by (simp_all add: same_directory_def)
  have "i < lg_next_group_id d'" if "i \<in> gr_group_id ` set (lg_groups d')" for i
    using that assms(2) unfolding same_images(2) [OF assms(1)] n by (auto simp: first_keys_def)
  then have "\<forall>g \<in> set (lg_groups d'). gr_group_id g < lg_next_group_id d'" by simp
  then show ?thesis
    using assms(2) unfolding first_keys_def same_columns [OF assms(1)] same_images [OF assms(1)] m by simp
qed

lemma same_identities: "same_directory d d' \<Longrightarrow> identities_unique d \<Longrightarrow> identities_unique d'"
  using same_columns by (simp add: identities_unique_def)

section \<open>Versions 2 to 11\<close>

lemma map_users_same:
  assumes "\<And>u. user_identity (f u) = user_identity u"
  shows "same_directory d (map_users f d)"
  using assms by (simp add: same_directory_def map_users_def)

lemma map_groups_same:
  assumes "\<And>g. group_identity (f g) = group_identity g"
  shows "same_directory d (map_groups f d)"
  using assms by (simp add: same_directory_def map_groups_def)

text \<open>A step that changes neither identities nor the attribute tables nor the lowercase columns.\<close>

definition side_tables :: "legacy_db \<Rightarrow> user_attribute_row list \<times> group_attribute_row list \<times> attribute_name set \<times> attribute_name set" where
  "side_tables d = (lg_user_attributes d, lg_group_attributes d, sr_name ` set (lg_user_schema d), sr_name ` set (lg_group_schema d))"

definition lower_columns :: "legacy_db \<Rightarrow> string list \<times> string list" where
  "lower_columns d = (map ur_lowercase_email (lg_users d), map gr_lowercase_display_name (lg_groups d))"

lemma same_attributes:
  assumes "same_directory d d'" and "side_tables d' = side_tables d" and "attributes_keyed d"
  shows "attributes_keyed d'"
  using assms same_images [OF assms(1)] by (simp add: attributes_keyed_def user_attributes_keyed_def group_attributes_keyed_def side_tables_def)

text \<open>The two spellings of a row in the order of the table.\<close>

lemma lowercased_columns:
  "lowercased d \<longleftrightarrow> map ur_lowercase_email (lg_users d) = map (\<lambda>e. to_ascii_lowercase (email_str e)) (map ur_email (lg_users d))
     \<and> map gr_lowercase_display_name (lg_groups d) = map (\<lambda>n. to_ascii_lowercase (group_name_str n)) (map gr_display_name (lg_groups d))"
  by (simp add: lowercased_def)

lemma same_lowercased:
  assumes "same_directory d d'" and "lower_columns d' = lower_columns d"
  shows "lowercased d \<Longrightarrow> lowercased d'" and "lowercase_unique d \<Longrightarrow> lowercase_unique d'"
  using assms(2) same_columns [OF assms(1)] unfolding lowercased_columns lowercase_unique_def lower_columns_def by simp_all

lemma same_keys:
  assumes "same_directory d d'" and "side_tables d' = side_tables d" and "lower_columns d' = lower_columns d"
    and "lg_memberships d' = lg_memberships d" and "keys_at n d"
  shows "keys_at n d'"
  using assms(4,5) same_first_keys [OF assms(1)] same_identities [OF assms(1)] same_attributes [OF assms(1,2)] same_lowercased [OF assms(1,3)]
  by (simp add: keys_at_def)

lemma v2_keys: "migrate_to_v2 d = Inr d' \<Longrightarrow> keys_at 1 d \<Longrightarrow> keys_at 2 d' \<and> same_directory d d'"
  using map_users_same [of "\<lambda>u. u\<lparr>ur_display_name := null_if_empty (ur_display_name u)\<rparr>" d] same_first_keys
  by (auto simp: migrate_to_v2_def replace_column_def keys_at_def user_identity_def)

lemma v3_keys:
  assumes "migrate_to_v3 d = Inr d'" and "keys_at 2 d"
  shows "keys_at 3 d' \<and> same_directory d d'"
proof -
  let ?f = "\<lambda>u :: old_user_row. u\<lparr>old_first_name := null_if_empty (old_first_name u)\<rparr>"
  let ?l = "\<lambda>u :: old_user_row. u\<lparr>old_last_name := null_if_empty (old_last_name u)\<rparr>"
  have "d' = map_users (\<lambda>u. u) (map_users ?l (map_users ?f d))"
    using assms(1) by (auto simp: migrate_to_v3_def replace_column_def rbind_eq_Inr)
  then have "d' = map_users (\<lambda>u. ?l (?f u)) d" by (simp add: map_users_def)
  then have "same_directory d d'" using map_users_same [of "\<lambda>u. ?l (?f u)" d] by (simp add: user_identity_def)
  then show ?thesis using assms(2) same_first_keys by (simp add: keys_at_def)
qed

lemma unique_index_Inr: "unique_index f d = Inr d' \<longleftrightarrow> d' = d \<and> distinct (f d)"
  by (auto simp: unique_index_def db_error_def)

lemma v4_keys: "migrate_to_v4 d = Inr d' \<Longrightarrow> keys_at 3 d \<Longrightarrow> keys_at 4 d' \<and> same_directory d d'"
  by (auto simp: migrate_to_v4_def rbind_eq_Inr unique_index_Inr keys_at_def identities_unique_def)

lemma store_user_attributesD:
  "store_user_attributes rs d = Inr d' \<Longrightarrow> d' = d\<lparr>lg_user_attributes := rs\<rparr> \<and> user_attributes_keyed d'"
  by (auto simp: store_user_attributes_def db_error_def user_attributes_keyed_def list_all_iff split: if_splits)

lemma store_group_attributesD:
  "store_group_attributes rs d = Inr d' \<Longrightarrow> d' = d\<lparr>lg_group_attributes := rs\<rparr> \<and> group_attributes_keyed d'"
  by (auto simp: store_group_attributes_def db_error_def group_attributes_keyed_def list_all_iff split: if_splits)

lemma v5_cases:
  assumes "migrate_to_v5 d = Inr d'"
  shows "d' = (seed_user_schema (create_attribute_tables d))\<lparr>lg_user_attributes := concat (map v5_attributes (lg_users d))\<rparr>
    \<and> user_attributes_keyed d'"
proof -
  let ?d = "seed_user_schema (create_attribute_tables d)"
  have a: "lg_users ?d = lg_users d" "lg_user_attributes ?d = []"
    by (simp_all add: seed_user_schema_def create_attribute_tables_def)
  show ?thesis
  proof (cases "concat (map v5_attributes (lg_users d)) = []")
    case True
    then have "d' = ?d" using assms a(1) unfolding migrate_to_v5_def Let_def by simp
    moreover have "?d = ?d\<lparr>lg_user_attributes := []\<rparr>" using a(2) by simp
    ultimately show ?thesis using True a(2) by (simp only: user_attributes_keyed_def) simp
  next
    case False
    then have "store_user_attributes (concat (map v5_attributes (lg_users d))) ?d = Inr d'"
      using assms unfolding migrate_to_v5_def Let_def a by (simp only: append_Nil if_False)
    then show ?thesis by (rule store_user_attributesD)
  qed
qed

lemma v5_keys:
  assumes "migrate_to_v5 d = Inr d'" and "keys_at 4 d"
  shows "keys_at 5 d' \<and> same_directory d d'"
proof -
  have d': "d' = (seed_user_schema (create_attribute_tables d))\<lparr>lg_user_attributes := concat (map v5_attributes (lg_users d))\<rparr>"
    and keyed: "user_attributes_keyed d'" using v5_cases [OF assms(1)] by blast+
  have same: "same_directory d d'" and "group_attributes_keyed d'"
    by (simp_all add: d' same_directory_def seed_user_schema_def create_attribute_tables_def group_attributes_keyed_def)
  then show ?thesis
    using keyed assms(2) same_first_keys [OF same] same_identities [OF same] by (simp add: keys_at_def attributes_keyed_def)
qed

lemma v6_keys:
  assumes "migrate_to_v6 E d = Inr d'" and "keys_at 5 d" and "en_lower E = to_ascii_lowercase"
  shows "keys_at 6 d' \<and> same_directory d d'"
proof -
  have same: "same_directory d d'" and side: "side_tables d' = side_tables d" and "lowercased d'"
    using assms(1,3) by (auto simp: migrate_to_v6_def same_directory_def map_users_def map_groups_def user_identity_def
        group_identity_def side_tables_def lowercased_def)
  then show ?thesis
    using assms(2) same_first_keys [OF same] same_identities [OF same] same_attributes [OF same side] by (simp add: keys_at_def)
qed

lemma v7_keys: "migrate_to_v7 d = Inr d' \<Longrightarrow> keys_at 6 d \<Longrightarrow> keys_at 7 d' \<and> same_directory d d'"
  by (auto simp: migrate_to_v7_def key_defs same_directory_def)

lemma reinsert_set: "m \<in> set ms \<Longrightarrow> set (reinsert m ms) = set ms"
  by (auto simp: reinsert_def)

lemma fold_reinsert: "set xs \<subseteq> set ms \<Longrightarrow> set (fold reinsert xs ms) = set ms"
  by (induction xs arbitrary: ms) (simp_all add: reinsert_set)

lemma v8_keys:
  assumes "migrate_to_v8 d = Inr d'" and "keys_at 7 d"
  shows "keys_at 8 d' \<and> same_directory d d'"
proof -
  have "set (repeated (lg_memberships d)) \<subseteq> set (lg_memberships d)" by (auto simp: repeated_def)
  from fold_reinsert [OF this] have same: "same_directory d d'" and "side_tables d' = side_tables d" "lower_columns d' = lower_columns d"
    "distinct (lg_memberships d')"
    using assms(1) by (auto simp: migrate_to_v8_def unique_index_Inr same_directory_def side_tables_def lower_columns_def)
  then show ?thesis
    using assms(2) same_first_keys [OF same] same_identities [OF same] same_attributes [OF same] same_lowercased(1) [OF same]
    by (simp add: keys_at_def)
qed

lemma v9_keys: "migrate_to_v9 d = Inr d' \<Longrightarrow> keys_at 8 d \<Longrightarrow> keys_at 9 d' \<and> same_directory d d'"
  by (auto simp: migrate_to_v9_def key_defs same_directory_def)

lemma v10_keys: "migrate_to_v10 d = Inr d' \<Longrightarrow> keys_at 9 d \<Longrightarrow> keys_at 10 d' \<and> same_directory d d'"
  by (auto simp: migrate_to_v10_def rbind_eq_Inr unique_index_Inr keys_at_def lowercase_unique_def)

lemma v11_keys:
  assumes "migrate_to_v11 now d = Inr d'" and "keys_at 10 d"
  shows "keys_at 11 d' \<and> same_directory d d'"
proof -
  have same: "same_directory d d'" and t: "side_tables d' = side_tables d" "lower_columns d' = lower_columns d"
    "lg_memberships d' = lg_memberships d"
    using assms(1) by (auto simp: migrate_to_v11_def same_directory_def map_users_def map_groups_def user_identity_def
        group_identity_def side_tables_def lower_columns_def)
  have "keys_at 10 d'" by (rule same_keys [OF same t assms(2)])
  then show ?thesis using same by (simp add: keys_at_def)
qed

section \<open>Version 12\<close>

lemma attempts_keep:
  assumes "\<And>f. f \<in> set fs \<Longrightarrow> keeps I f" and "fold (attempt E) fs (Some d) = Some d'" and "I d"
  shows "I d'"
  using assms
proof (induction fs arbitrary: d)
  case (Cons f fs)
  have none: "fold (attempt E) gs None = None" for gs by (induction gs) (simp_all add: attempt_def)
  then obtain d1 where d1: "attempt E f (Some d) = Some d1" using Cons.prems(2) by (cases "attempt E f (Some d)") simp_all
  then have "I d1" using Cons.prems(1,3) by (auto simp: attempt_def keeps_def split: sum.splits if_splits)
  then show ?case using Cons.IH [of d1] Cons.prems(1,2) d1 by simp
qed simp

text \<open>The keys of version 11 with the directory that the migration began with.\<close>

definition carried_on :: "legacy_db \<Rightarrow> legacy_db \<Rightarrow> bool" where
  "carried_on d0 d \<longleftrightarrow> keys_at 11 d \<and> same_directory d0 d"

text \<open>Changes that the keys do not depend on.\<close>

definition quiet :: "legacy_db \<Rightarrow> legacy_db \<Rightarrow> bool" where
  "quiet d d' \<longleftrightarrow> same_directory d d' \<and> side_tables d' = side_tables d \<and> lower_columns d' = lower_columns d
     \<and> lg_memberships d' = lg_memberships d"

lemma quiet_carries:
  assumes "\<And>d d'. f d = Inr d' \<Longrightarrow> quiet d d'"
  shows "keeps (carried_on d0) f"
proof (rule keepsI)
  fix d d' assume d: "carried_on d0 d" "f d = Inr d'"
  from assms [OF d(2)] d(1) show "carried_on d0 d'"
    using same_keys [of d d' 11] same_directory_trans [of d0 d d'] by (simp add: carried_on_def quiet_def)
qed

lemma add_part_carries:
  assumes "\<And>d. quiet d (f d)"
  shows "keeps (carried_on d0) (\<lambda>d. Inr (add_part p f d))"
proof (rule quiet_carries)
  fix d d' assume "Inr (add_part p f d) = Inr d'"
  then consider "d' = d" | "d' = (f d)\<lparr>lg_missing := lg_missing d - {p}\<rparr>" by (auto simp: add_part_def split: if_splits)
  then show "quiet d d'"
    using assms [of d] by cases (simp_all add: quiet_def same_directory_def side_tables_def lower_columns_def)
qed

lemmas quiet_simps = quiet_def same_directory_def side_tables_def lower_columns_def map_users_def user_identity_def

lemma extension_carries: "list_all (keeps (carried_on d0)) extension_columns"
  by (simp add: extension_columns_def) (intro conjI add_part_carries; simp add: quiet_simps image_image)

lemma config_carries: "list_all (keeps (carried_on d0)) (seed_config Q)"
proof -
  have "keeps (carried_on d0) (\<lambda>d. Inr (add_part SystemConfig (\<lambda>d. d\<lparr>lg_config := []\<rparr>) d))"
    by (rule add_part_carries) (simp add: quiet_simps)
  moreover have "keeps (carried_on d0) (\<lambda>d. if ''allowedous'' \<in> fst ` set (lg_config d) then db_error unique_violation
      else Inr (d\<lparr>lg_config := lg_config d @ [(''allowedous'', v)]\<rparr>))" for v
    by (rule quiet_carries) (auto simp: quiet_simps db_error_def split: if_splits)
  ultimately show ?thesis by (simp add: seed_config_def)
qed

lemma krb_column_carries: "keeps (carried_on d0) krb_column"
  unfolding krb_column_def by (rule add_part_carries) (simp add: quiet_simps)

lemma krb_default_carries: "keeps (carried_on d0) krb_default"
  by (rule quiet_carries) (auto simp: krb_default_def quiet_simps)

lemma repair_names:
  assumes "repair_avatar d = Inr d'"
  shows "sr_name ` set (lg_user_schema d') = sr_name ` set (lg_user_schema d)"
proof -
  have "map sr_name (lg_user_schema d') = map sr_name (lg_user_schema d)" using assms by (auto simp: repair_avatar_def)
  then show ?thesis by (metis set_map)
qed

lemma repair_carries: "keeps (carried_on d0) repair_avatar"
  by (rule quiet_carries) (use repair_names in \<open>auto simp: repair_avatar_def quiet_simps\<close>)

text \<open>Statements that only touch the attribute tables and their schemas, and leave them keyed.\<close>

definition same_frame :: "legacy_db \<Rightarrow> legacy_db \<Rightarrow> bool" where
  "same_frame d d' \<longleftrightarrow> lg_users d' = lg_users d \<and> lg_groups d' = lg_groups d \<and> lg_memberships d' = lg_memberships d
     \<and> lg_next_group_id d' = lg_next_group_id d"

lemma attributes_carry:
  assumes "\<And>d d'. f d = Inr d' \<Longrightarrow> attributes_keyed d \<Longrightarrow> attributes_keyed d' \<and> same_frame d d'"
  shows "keeps (carried_on d0) f"
proof (rule keepsI)
  fix d d' assume d: "carried_on d0 d" "f d = Inr d'"
  then have "attributes_keyed d" by (simp add: carried_on_def keys_at_def)
  from assms [OF d(2) this] have k: "attributes_keyed d'" and f: "same_frame d d'" by simp_all
  then have same: "same_directory d d'" and l: "lower_columns d' = lower_columns d" and m: "lg_memberships d' = lg_memberships d"
    by (simp_all add: same_frame_def same_directory_def lower_columns_def)
  show "carried_on d0 d'"
    using d(1) k m same_first_keys [OF same] same_identities [OF same] same_lowercased [OF same l] same_directory_trans [OF _ same]
    by (simp add: carried_on_def keys_at_def)
qed

lemmas keyed_defs = attributes_keyed_def user_attributes_keyed_def group_attributes_keyed_def

lemma insert_user_schema_carries: "keeps (carried_on d0) (insert_user_schema r)"
  by (rule attributes_carry) (auto simp: insert_user_schema_def db_error_def keyed_defs same_frame_def split: if_splits)

lemma insert_group_schema_carries: "keeps (carried_on d0) (insert_group_schema r)"
  by (rule attributes_carry) (auto simp: insert_group_schema_def db_error_def keyed_defs same_frame_def split: if_splits)

lemma store_user_carries:
  assumes "\<And>d d'. f d = Inr d' \<Longrightarrow> \<exists>rs. store_user_attributes rs d = Inr d'"
  shows "keeps (carried_on d0) f"
proof (rule attributes_carry)
  fix d d' assume d: "f d = Inr d'" "attributes_keyed d"
  from assms [OF d(1)] obtain rs where "d' = d\<lparr>lg_user_attributes := rs\<rparr>" "user_attributes_keyed d'"
    using store_user_attributesD by blast
  then show "attributes_keyed d' \<and> same_frame d d'"
    using d(2) by (simp add: attributes_keyed_def group_attributes_keyed_def same_frame_def)
qed

lemma store_group_carries:
  assumes "\<And>d d'. f d = Inr d' \<Longrightarrow> \<exists>rs. store_group_attributes rs d = Inr d'"
  shows "keeps (carried_on d0) f"
proof (rule attributes_carry)
  fix d d' assume d: "f d = Inr d'" "attributes_keyed d"
  from assms [OF d(1)] obtain rs where "d' = d\<lparr>lg_group_attributes := rs\<rparr>" "group_attributes_keyed d'"
    using store_group_attributesD by blast
  then show "attributes_keyed d' \<and> same_frame d d'"
    using d(2) by (simp add: attributes_keyed_def user_attributes_keyed_def same_frame_def)
qed

lemma default_user_carries: "keeps (carried_on d0) (default_user_attribute b n v)"
  by (rule store_user_carries) (auto simp: default_user_attribute_def db_error_def split: if_splits)

lemma default_group_carries: "keeps (carried_on d0) (default_group_attribute b n v)"
  by (rule store_group_carries) (auto simp: default_group_attribute_def db_error_def split: if_splits)

lemma rename_user_carries: "keeps (carried_on d0) (rename_user_attribute E c n)"
  by (rule store_user_carries) (auto simp: rename_user_attribute_def db_error_def split: if_splits)

lemma rename_group_carries: "keeps (carried_on d0) (rename_group_attribute E c n)"
  by (rule store_group_carries) (auto simp: rename_group_attribute_def db_error_def split: if_splits)

lemma drop_user_carries: "keeps (carried_on d0) (drop_user_attribute E n)"
  by (rule attributes_carry)
    (auto simp: drop_user_attribute_def db_error_def keyed_defs same_frame_def distinct_map_filter split: if_splits)

lemma drop_group_carries: "keeps (carried_on d0) (drop_group_attribute E n)"
  by (rule attributes_carry)
    (auto simp: drop_group_attribute_def db_error_def keyed_defs same_frame_def distinct_map_filter split: if_splits)

lemma normalise_keys:
  "map user_attribute_key (map (\<lambda>a. if P a then a\<lparr>ua_value := v\<rparr> else a) rs) = map user_attribute_key rs"
  by (simp add: user_attribute_key_def)

lemma normalise_carries: "keeps (carried_on d0) (normalise_switch E)"
proof (rule attributes_carry)
  fix d d' assume d: "normalise_switch E d = Inr d'" "attributes_keyed d"
  then obtain P where d': "d' = d\<lparr>lg_user_attributes := map (\<lambda>a. if P a then a\<lparr>ua_value := ''0''\<rparr> else a) (lg_user_attributes d)\<rparr>"
    by (auto simp: normalise_switch_def db_error_def split: option.splits bool.splits)
  have "user_attributes_keyed d'"
    using d(2) unfolding attributes_keyed_def user_attributes_keyed_def d' by (auto simp: normalise_keys simp del: map_map)
  then show "attributes_keyed d' \<and> same_frame d d'" using d(2) by (simp add: attributes_keyed_def group_attributes_keyed_def same_frame_def d')
qed

lemma v12_carries: "list_all (keeps (carried_on d0)) (v12_statements Q E)"
proof -
  have "list_all (keeps (carried_on d0)) (seed_user_attributes Q)" "list_all (keeps (carried_on d0)) (seed_group_attributes Q)"
    by (simp_all add: seed_user_attributes_def seed_group_attributes_def list_all_iff insert_user_schema_carries insert_group_schema_carries)
  moreover have "list_all (keeps (carried_on d0)) (v12_defaults E)"
    by (simp add: v12_defaults_def repair_carries default_user_carries default_group_carries normalise_carries krb_default_carries)
  moreover have "list_all (keeps (carried_on d0)) (user_aliases E)" "list_all (keeps (carried_on d0)) (group_aliases E)"
    by (auto simp: user_aliases_def group_aliases_def list_all_iff rename_user_carries rename_group_carries drop_user_carries drop_group_carries)
  ultimately show ?thesis
    by (simp add: v12_statements_def extension_carries config_carries krb_column_carries)
qed

lemma v12_keys:
  assumes "migrate_to_v12 Q E d = Inr d'" and "keys_at 11 d"
  shows "keys_at 12 d' \<and> same_directory d d'"
proof -
  have "fold (attempt E) (v12_statements Q E) (Some d) = Some d'"
    using assms(1) by (auto simp: migrate_to_v12_def db_error_def split: option.splits)
  then have "carried_on d d'"
  proof (rule attempts_keep [rotated])
    show "carried_on d d" using assms(2) by (simp add: carried_on_def)
    show "keeps (carried_on d) f" if "f \<in> set (v12_statements Q E)" for f
      using that v12_carries [of d Q E] by (simp add: list_all_iff)
  qed
  then show ?thesis by (simp add: carried_on_def keys_at_def)
qed

section \<open>The whole chain\<close>

definition version_ok :: "int \<Rightarrow> legacy_db \<Rightarrow> bool" where
  "version_ok n d \<longleftrightarrow> lg_version d = Some n \<and> keys_at n d"

lemma version_keys [simp]: "keys_at n (d\<lparr>lg_version := v\<rparr>) = keys_at n d" "same_directory d0 (d\<lparr>lg_version := v\<rparr>) = same_directory d0 d"
  by (simp_all add: key_defs same_directory_def)

lemma versions: "1 \<le> n \<Longrightarrow> n < LAST_SCHEMA_VERSION \<Longrightarrow> n \<in> {1, 2, 3, 4, 5, 6, 7, 8, 9, 10, 11}"
  unfolding LAST_SCHEMA_VERSION_def insert_iff empty_iff by arith

text \<open>The migration that leads to a version.\<close>

lemma migration_at:
  "migration Q E now 2 d = rmap (\<lambda>d'. d'\<lparr>lg_version := Some 2\<rparr>) (migrate_to_v2 d)"
  "migration Q E now 3 d = rmap (\<lambda>d'. d'\<lparr>lg_version := Some 3\<rparr>) (migrate_to_v3 d)"
  "migration Q E now 4 d = rmap (\<lambda>d'. d'\<lparr>lg_version := Some 4\<rparr>) (migrate_to_v4 d)"
  "migration Q E now 5 d = rmap (\<lambda>d'. d'\<lparr>lg_version := Some 5\<rparr>) (migrate_to_v5 d)"
  "migration Q E now 6 d = rmap (\<lambda>d'. d'\<lparr>lg_version := Some 6\<rparr>) (migrate_to_v6 E d)"
  "migration Q E now 7 d = rmap (\<lambda>d'. d'\<lparr>lg_version := Some 7\<rparr>) (migrate_to_v7 d)"
  "migration Q E now 8 d = rmap (\<lambda>d'. d'\<lparr>lg_version := Some 8\<rparr>) (migrate_to_v8 d)"
  "migration Q E now 9 d = rmap (\<lambda>d'. d'\<lparr>lg_version := Some 9\<rparr>) (migrate_to_v9 d)"
  "migration Q E now 10 d = rmap (\<lambda>d'. d'\<lparr>lg_version := Some 10\<rparr>) (migrate_to_v10 d)"
  "migration Q E now 11 d = rmap (\<lambda>d'. d'\<lparr>lg_version := Some 11\<rparr>) (migrate_to_v11 now d)"
  "migration Q E now 12 d = rmap (\<lambda>d'. d'\<lparr>lg_version := Some 12\<rparr>) (migrate_to_v12 Q E d)"
  by (simp_all add: migration_def migrations_def)

lemma migration_step:
  assumes "1 \<le> n" and "n < LAST_SCHEMA_VERSION" and "keys_at n d" and "migration Q E now (n + 1) d = Inr d'"
    and "en_lower E = to_ascii_lowercase"
  shows "lg_version d' = Some (n + 1) \<and> keys_at (n + 1) d' \<and> same_directory d d'"
proof -
  note keys = v2_keys v3_keys v4_keys v5_keys v6_keys [OF _ _ assms(5)] v7_keys v8_keys v9_keys v10_keys v11_keys v12_keys
  show ?thesis
    using versions [OF assms(1,2)] assms(3,4)
    by - (elim insertE emptyE; clarsimp simp: migration_at rmap_eq_Inr; frule (1) keys; simp)
qed

interpretation keyed: migration_chain "migration Q E now" "\<lambda>n d. version_ok n d \<and> en_lower E = to_ascii_lowercase" same_directory LAST_SCHEMA_VERSION
  for Q E now
  by unfold_locales (use migration_step in \<open>auto simp: version_ok_def intro: same_directory_trans\<close>)

lemma current_keys: "keys_at 12 d \<Longrightarrow> db_ok (current d)"
proof -
  have t: "ur_user_id (user_row.truncate u) = ur_user_id u" "ur_email (user_row.truncate u) = ur_email u"
    "ur_lowercase_email (user_row.truncate u) = ur_lowercase_email u" "ur_uuid (user_row.truncate u) = ur_uuid u" for u :: old_user_row
    by (simp_all add: user_row.truncate_def)
  have n: "sr_name (attribute_schema_row.truncate r) = sr_name r" for r :: old_schema_row
    by (simp add: attribute_schema_row.truncate_def)
  show "keys_at 12 d \<Longrightarrow> db_ok (current d)"
    by (simp add: db_ok_def current_def key_defs unique_users_def unique_groups_def image_image t n o_def
        user_attribute_key_def [abs_def] group_attribute_key_def [abs_def])
qed

lemma range_filter: "1 \<le> v \<Longrightarrow> filter (\<lambda>n. v < n \<and> n \<le> m) [2..m] = [v + 1..m]" for v m :: int
proof -
  assume v: "1 \<le> v"
  show ?thesis
  proof (cases "v \<le> m")
    case True
    have "[2..m] = [2..v] @ [v + 1..m]" using v True by (cases "v = 1") (simp_all add: upto_split2 [of 2 v m])
    then show ?thesis by (simp add: filter_empty_conv filter_id_conv)
  qed (auto simp: filter_empty_conv)
qed

lemma migrate_from_chain:
  assumes "1 \<le> v" and "v \<le> LAST_SCHEMA_VERSION"
  shows "migrate_from_version Q E now v d = run_migrations (migration Q E now) (en_left E) [v + 1..LAST_SCHEMA_VERSION] d"
  using assms range_filter [OF assms(1), of LAST_SCHEMA_VERSION] by (simp add: migrate_from_version_def)

text \<open>Tables from before the versions: new columns and one new name change no key.\<close>

definition same_keys_v1 :: "legacy_db \<Rightarrow> legacy_db \<Rightarrow> bool" where
  "same_keys_v1 d d' \<longleftrightarrow> map ur_user_id (lg_users d') = map ur_user_id (lg_users d)
     \<and> map gr_group_id (lg_groups d') = map gr_group_id (lg_groups d) \<and> lg_memberships d' = lg_memberships d
     \<and> lg_next_group_id d' = lg_next_group_id d"

lemma upgrade_same_keys:
  assumes "upgrade_to_v1 Q now d = (Inr (), d')"
  shows "same_keys_v1 d d' \<and> distinct (map gr_display_name (lg_groups d')) \<and> lg_version d' = Some 1"
proof -
  let ?e = "add_user_uuid Q (add_group_uuid Q (add_group_creation_date now d))"
  have "same_keys_v1 d ?e"
    by (simp add: same_keys_v1_def add_user_uuid_def add_group_uuid_def add_group_creation_date_def add_part_def map_users_def
        map_groups_def)
  moreover obtain d1 where d1: "rename_readonly ?e = Inr d1" "d' = d1\<lparr>lg_version := Some 1\<rparr>"
    using assms by (auto simp: upgrade_to_v1_def Let_def split: sum.splits)
  then have "same_keys_v1 ?e d1 \<and> distinct (map gr_display_name (lg_groups d1))"
    by (auto simp: rename_readonly_def Let_def db_error_def same_keys_v1_def if_distrib split: if_splits)
  ultimately show ?thesis by (simp add: same_keys_v1_def d1(2))
qed

lemma upgrade_keys:
  assumes "upgrade_to_v1 Q now d = (Inr (), d')" and "first_keys d"
  shows "version_ok 1 d'"
proof -
  note same = upgrade_same_keys [OF assms(1)]
  then have u: "ur_user_id ` set (lg_users d') = ur_user_id ` set (lg_users d)" and g: "gr_group_id ` set (lg_groups d') = gr_group_id ` set (lg_groups d)"
    unfolding same_keys_v1_def by (metis set_map)+
  have "\<forall>i \<in> gr_group_id ` set (lg_groups d'). i < lg_next_group_id d'"
    unfolding g using same assms(2) by (simp add: same_keys_v1_def first_keys_def)
  then have "\<forall>r \<in> set (lg_groups d'). gr_group_id r < lg_next_group_id d'" by simp
  moreover have "lg_next_group_id d' = lg_next_group_id d" using same by (simp add: same_keys_v1_def)
  ultimately show ?thesis using same assms(2) u g by (simp add: version_ok_def keys_at_def first_keys_def same_keys_v1_def)
qed

definition version_of :: "legacy_db \<Rightarrow> int" where
  "version_of d = (case lg_version d of None \<Rightarrow> 1 | Some v \<Rightarrow> v)"

text \<open>C9: The migrations establish the keys that the backend relies on. From a database of any version,
  or from before the versions, whose tables satisfy the keys of that version, a successful \<open>init_table\<close>
  leads to version 12, with tables that satisfy the keys of the backend: its primary, unique and foreign
  keys and the lowercase columns. From a version on, the users and their passwords, the groups and the
  memberships are the same. The engine's \<open>lower\<close> is that of ASCII.\<close>

theorem migrations_establish_keys:
  assumes "1 \<le> version_of d" and "keys_at (version_of d) d" and "en_lower E = to_ascii_lowercase"
    and "init_table Q E now d = (Inr (), d')"
  shows "lg_version d' = Some LAST_SCHEMA_VERSION \<and> db_ok (current d') \<and> (lg_version d \<noteq> None \<longrightarrow> same_directory d d')"
proof -
  obtain x where x: "version_ok (version_of d) x" and same: "lg_version d \<noteq> None \<longrightarrow> x = d"
    and run: "migrate_from_version Q E now (version_of d) x = (Inr (), d')"
  proof (cases "lg_version d")
    case None
    then obtain y where "upgrade_to_v1 Q now d = (Inr (), y)" "migrate_from_version Q E now 1 y = (Inr (), d')"
      using assms(4) by (auto simp: init_table_def split: prod.splits sum.splits)
    then show ?thesis using that [of y] None upgrade_keys [of Q now d y] assms(2) by (simp add: version_of_def keys_at_def)
  next
    case (Some v)
    then show ?thesis using that [of d] assms(2,4) by (simp add: init_table_def version_of_def version_ok_def)
  qed
  then have v: "version_of d \<le> LAST_SCHEMA_VERSION" by (auto simp: migrate_from_version_def db_error_def split: if_splits)
  have "version_ok LAST_SCHEMA_VERSION d' \<and> same_directory x d'"
    using keyed.run_cases [OF assms(1) v _ run [unfolded migrate_from_chain [OF assms(1) v]]] x assms(3) by simp
  then show ?thesis using current_keys same by (auto simp: version_ok_def LAST_SCHEMA_VERSION_def)
qed

text \<open>An engine that undoes a transaction that fails, with its changes of tables (SQLite, PostgreSQL).\<close>

definition rolls_back :: "engine \<Rightarrow> bool" where
  "rolls_back E \<longleftrightarrow> (\<forall>n d. en_left E n d = d)"

text \<open>C24: A migration that fails can be resumed, on an engine that undoes a failed transaction with its
  changes of tables. The database is then at a version between the one it had and the last, with the
  keys of that version and the same directory, exactly as the migrations up to that version left it;
  and the error is that of the next migration, with which the next start begins again. On any engine the
  migrations up to that version were done, and what is left is what the engine leaves of the next one.\<close>

theorem failed_migration_resumes:
  assumes "lg_version d = Some v" and "1 \<le> v" and "v \<le> LAST_SCHEMA_VERSION" and "keys_at v d"
    and "en_lower E = to_ascii_lowercase" and "init_table Q E now d = (Inl e, d')"
  shows "\<exists>k x. v \<le> k \<and> k < LAST_SCHEMA_VERSION \<and> lg_version x = Some k \<and> keys_at k x \<and> same_directory d x
    \<and> migration Q E now (k + 1) x = Inl e \<and> d' = en_left E (k + 1) x \<and> (rolls_back E \<longrightarrow> d' = x)"
proof -
  have "run_migrations (migration Q E now) (en_left E) [v + 1..LAST_SCHEMA_VERSION] d = (Inl e, d')"
    using assms(1,6) migrate_from_chain [OF assms(2,3)] by (simp add: init_table_def)
  from keyed.run_cases [OF assms(2,3) _ this] show ?thesis using assms(1,4,5) by (auto simp: version_ok_def rolls_back_def)
qed

end
