(* ===== verification/Migration_Data.thy ===== *)
theory Migration_Data
  imports Migration_Keys
begin

text \<open>
  What becomes of the data in the migrations: the names and avatars that version 5 moves into the
  attribute tables and version 12 renames, the values under an alias whose canonical name is taken,
  and the engines on which version 12 cannot succeed.
\<close>

section \<open>Statements whose errors are ignored\<close>

definition tried :: "statement \<Rightarrow> legacy_db \<Rightarrow> legacy_db" where
  "tried f d = (case f d of Inr d' \<Rightarrow> d' | Inl _ \<Rightarrow> d)"

lemma tried_cases: "tried f d = d \<or> f d = Inr (tried f d)"
  by (auto simp: tried_def split: sum.split)

lemma attempts_tried: "\<not> en_aborts E \<Longrightarrow> fold (attempt E) fs (Some d) = Some (fold tried fs d)"
  by (induction fs arbitrary: d) (simp_all add: attempt_def tried_def split: sum.split)

lemma v12_tried: "\<not> en_aborts E \<Longrightarrow> migrate_to_v12 Q E d = Inr (fold tried (v12_statements Q E) d)"
  by (simp add: migrate_to_v12_def attempts_tried)

lemma tried_keeps: "keeps I f \<Longrightarrow> I d \<Longrightarrow> I (tried f d)"
  by (auto simp: tried_def keeps_def split: sum.split)

lemma all_tried_keep: "list_all (keeps I) fs \<Longrightarrow> I d \<Longrightarrow> I (fold tried fs d)"
  by (induction fs arbitrary: d) (simp_all add: tried_keeps)

text \<open>What one statement establishes and all keep.\<close>

lemma tried_ensures:
  assumes "f \<in> set fs" and "\<And>d. I (tried f d)" and "list_all (keeps I) fs"
  shows "I (fold tried fs d)"
proof -
  obtain xs ys where fs: "fs = xs @ f # ys" using split_list [OF assms(1)] by blast
  then have "list_all (keeps I) ys" using assms(3) by simp
  then show ?thesis using all_tried_keep [of I ys] assms(2) by (simp add: fs)
qed

lemma aborted: "fold (attempt E) fs None = None"
  by (induction fs) (simp_all add: attempt_def)

section \<open>Engines that end a transaction at an error\<close>

definition in_user_schema :: "string \<Rightarrow> legacy_db \<Rightarrow> bool" where
  "in_user_schema n d \<longleftrightarrow> AttributeName n \<in> sr_name ` set (lg_user_schema d)"

lemma same_schema_keeps:
  assumes "\<And>d d'. f d = Inr d' \<Longrightarrow> sr_name ` set (lg_user_schema d) \<subseteq> sr_name ` set (lg_user_schema d')"
  shows "keeps (in_user_schema n) f"
  using assms by (fastforce simp: keeps_def in_user_schema_def)

lemma head_keeps_schema: "list_all (keeps (in_user_schema n)) (extension_columns @ seed_config Q @ [krb_column])"
  by (simp add: extension_columns_def seed_config_def krb_column_def [abs_def])
    (intro conjI same_schema_keeps; auto simp: add_part_def map_users_def db_error_def image_image split: if_splits)

lemma seed_users_split:
  "\<exists>rows. seed_user_attributes Q = insert_user_schema (hardcoded_row Q (hardcoded_attr ''avatar'' [''jpegphoto'', ''jpegPhoto''] TAvatar False True True False)) # rows"
  by (simp add: seed_user_attributes_def public_schema_get_def core_user_attributes_def hardcoded_attr_def)

lemma v12_aborts:
  assumes "en_aborts E" and "in_user_schema ''avatar'' d"
  shows "\<exists>e. migrate_to_v12 Q E d = Inl e"
proof -
  let ?head = "extension_columns @ seed_config Q @ [krb_column]"
  let ?avatar = "insert_user_schema (hardcoded_row Q (hardcoded_attr ''avatar'' [''jpegphoto'', ''jpegPhoto''] TAvatar False True True False))"
  obtain rows where rows: "seed_user_attributes Q = ?avatar # rows" using seed_users_split by blast
  have "attempt E ?avatar (fold (attempt E) ?head (Some d)) = None"
  proof (cases "fold (attempt E) ?head (Some d)")
    case (Some d1)
    then have "in_user_schema ''avatar'' d1"
      using attempts_keep [of ?head "in_user_schema ''avatar''" E d d1] head_keeps_schema [of "''avatar''" Q] assms(2)
      by (auto simp: list_all_iff)
    then show ?thesis using Some assms(1)
      by (simp add: attempt_def insert_user_schema_def hardcoded_row_def hardcoded_attr_def in_user_schema_def db_error_def)
  qed (simp add: attempt_def)
  then have "fold (attempt E) (v12_statements Q E) (Some d) = None"
    by (simp add: v12_statements_def rows aborted)
  then show ?thesis by (simp add: migrate_to_v12_def db_error_def)
qed

text \<open>Before version 12, with the schema row of the avatar from version 5 on.\<close>

definition before_v12 :: "int \<Rightarrow> legacy_db \<Rightarrow> bool" where
  "before_v12 n d \<longleftrightarrow> n < LAST_SCHEMA_VERSION \<and> (5 \<le> n \<longrightarrow> in_user_schema ''avatar'' d)"

lemma before_step:
  assumes "1 \<le> n" and "n < LAST_SCHEMA_VERSION" and "before_v12 n d" and "en_aborts E" and "migration Q E now (n + 1) d = Inr d'"
  shows "before_v12 (n + 1) d'"
proof -
  have schema: "lg_user_schema d' = lg_user_schema d" if "n \<in> {5, 6, 7, 8, 9, 10}"
    using that assms(5)
    by (auto simp: migration_at rmap_eq_Inr rbind_eq_Inr migrate_to_v6_def migrate_to_v7_def migrate_to_v8_def migrate_to_v9_def
        migrate_to_v10_def migrate_to_v11_def unique_index_Inr map_users_def map_groups_def)
  have "in_user_schema ''avatar'' d'" if "n = 4"
    using that assms(5) v5_cases [of d] by (auto simp: migration_at rmap_eq_Inr in_user_schema_def seed_user_schema_def v5_schema_row_def)
  moreover have "n \<noteq> 11"
    using assms(3-5) v12_aborts [of E d Q] by (auto simp: migration_at rmap_eq_Inr before_v12_def)
  ultimately show ?thesis
    using versions [OF assms(1,2)] assms(3) schema by (auto simp: before_v12_def LAST_SCHEMA_VERSION_def in_user_schema_def)
qed

interpretation aborting: migration_chain "migration Q E now" "\<lambda>n d. before_v12 n d \<and> en_aborts E" "\<lambda>_ _. True" LAST_SCHEMA_VERSION
  for Q E now
  by unfold_locales (use before_step in auto)

text \<open>C36: On an engine that ends the transaction at the first error, as PostgreSQL does, no database is
  ever migrated to version 12, a new one included: version 5 creates the schema row of the avatar,
  version 12 inserts it again, and the error that it ignores has ended its transaction.\<close>

theorem aborting_engine_never_migrates:
  assumes "en_aborts E" and "\<And>v. lg_version d = Some v \<Longrightarrow> 1 \<le> v \<and> v < LAST_SCHEMA_VERSION \<and> (5 \<le> v \<longrightarrow> in_user_schema ''avatar'' d)"
  shows "\<exists>e d'. init_table Q E now d = (Inl e, d')"
proof -
  have stuck: "\<exists>e y. migrate_from_version Q E now v x = (Inl e, y)" if v: "1 \<le> v" "before_v12 v x" for v x
  proof -
    obtain r y where run: "run_migrations (migration Q E now) (en_left E) [v + 1..LAST_SCHEMA_VERSION] x = (r, y)" by (rule prod.exhaust)
    have le: "v \<le> LAST_SCHEMA_VERSION" using v(2) by (simp add: before_v12_def)
    have "before_v12 v x \<and> en_aborts E" using v(2) assms(1) by simp
    from aborting.run_cases [OF v(1) le this run] have "\<not> (\<exists>x. r = Inr x)" by (auto simp: before_v12_def)
    then obtain e where "r = Inl e" by (cases r) auto
    then show ?thesis using run migrate_from_chain [OF v(1) le, of Q E now x] by simp
  qed
  show ?thesis
  proof (cases "lg_version d")
    case None
    obtain r y where "upgrade_to_v1 Q now d = (r, y)" by (rule prod.exhaust)
    then show ?thesis using None stuck [of 1 y] by (cases r) (simp_all add: init_table_def before_v12_def LAST_SCHEMA_VERSION_def)
  next
    case (Some v)
    then show ?thesis using assms(2) stuck [of v d] by (simp add: init_table_def before_v12_def)
  qed
qed

section \<open>Aliases\<close>

definition has_name :: "string \<Rightarrow> legacy_db \<Rightarrow> bool" where
  "has_name n d \<longleftrightarrow> AttributeName n \<in> ua_name ` set (lg_user_attributes d)"

definition stored :: "legacy_db \<Rightarrow> user_id \<Rightarrow> string \<Rightarrow> bytes \<Rightarrow> bool" where
  "stored d u n v \<longleftrightarrow> \<lparr>ua_user_id = u, ua_name = AttributeName n, ua_value = v\<rparr> \<in> set (lg_user_attributes d)"

lemma stored_has_name: "stored d u n v \<Longrightarrow> has_name n d"
  by (force simp: stored_def has_name_def)

lemma absentD: "\<not> has_name n d \<Longrightarrow> a \<in> set (lg_user_attributes d) \<Longrightarrow> ua_name a \<noteq> AttributeName n"
  unfolding has_name_def by (metis imageI)

text \<open>One alias: the renaming and the deletion, as pairs in the order of the schema.\<close>

definition apply_alias :: "engine \<Rightarrow> string \<times> string \<Rightarrow> legacy_db \<Rightarrow> legacy_db" where
  "apply_alias E p d = tried (drop_user_attribute E (snd p)) (tried (rename_user_attribute E (fst p) (snd p)) d)"

definition alias_pairs :: "attribute_list \<Rightarrow> (string \<times> string) list" where
  "alias_pairs as = concat (map (\<lambda>a. map (Pair (as_name a)) (as_aliases a)) as)"

lemma user_aliases_pairs:
  "fold tried (user_aliases E) d = fold (apply_alias E) (alias_pairs (user_attributes public_schema_get)) d"
proof -
  have inner: "fold tried (concat (map (\<lambda>alias. [rename_user_attribute E n alias, drop_user_attribute E alias]) xs)) d
      = fold (apply_alias E) (map (Pair n) xs) d" for n xs d
    by (induction xs arbitrary: d) (simp_all add: apply_alias_def)
  have "fold tried (concat (map (\<lambda>a. concat (map (\<lambda>alias. [rename_user_attribute E (as_name a) alias, drop_user_attribute E alias])
      (as_aliases a))) as)) d = fold (apply_alias E) (alias_pairs as) d" for as d
    by (induction as arbitrary: d) (simp_all add: alias_pairs_def inner)
  then show ?thesis by (simp add: user_aliases_def)
qed

lemma absent_rename: "\<not> has_name n d \<Longrightarrow>
    map (\<lambda>a. if ua_name a = AttributeName n then f a else a) (lg_user_attributes d) = lg_user_attributes d"
  by (auto dest: absentD intro!: map_idI)

lemma apply_alias_absent:
  assumes "\<not> has_name (snd p) d"
  shows "apply_alias E p d = d"
proof -
  have "tried (rename_user_attribute E (fst p) (snd p)) d = d"
    by (auto simp: tried_def rename_user_attribute_def absent_rename [OF assms] store_user_attributes_def db_error_def split: sum.split)
  moreover have "filter (\<lambda>a. ua_name a \<noteq> AttributeName (snd p)) (lg_user_attributes d) = lg_user_attributes d"
    using absentD [OF assms] by (simp add: filter_id_conv)
  then have "tried (drop_user_attribute E (snd p)) d = d"
    by (simp add: tried_def drop_user_attribute_def db_error_def)
  ultimately show ?thesis by (simp add: apply_alias_def)
qed

lemma aliases_absent: "\<forall>p \<in> set ps. \<not> has_name (snd p) d \<Longrightarrow> fold (apply_alias E) ps d = d"
  by (induction ps) (simp_all add: apply_alias_absent)

text \<open>An alias is renamed when its canonical name is in the schema and nobody uses it yet.\<close>

lemma apply_alias_fresh:
  assumes "en_question_marks E" and "user_attributes_keyed d" and "in_user_schema c d" and "\<not> has_name c d" and "c \<noteq> n"
  shows "apply_alias E (c, n) d = d\<lparr>lg_user_attributes :=
    map (\<lambda>a. if ua_name a = AttributeName n then a\<lparr>ua_name := AttributeName c\<rparr> else a) (lg_user_attributes d)\<rparr>"
proof -
  let ?f = "\<lambda>a. if ua_name a = AttributeName n then a\<lparr>ua_name := AttributeName c\<rparr> else a"
  let ?rs = "map ?f (lg_user_attributes d)"
  have "inj_on (user_attribute_key \<circ> ?f) (set (lg_user_attributes d))"
  proof (rule inj_onI)
    fix a b assume ab: "a \<in> set (lg_user_attributes d)" "b \<in> set (lg_user_attributes d)"
      and eq: "(user_attribute_key \<circ> ?f) a = (user_attribute_key \<circ> ?f) b"
    have "ua_name a \<noteq> AttributeName c" "ua_name b \<noteq> AttributeName c" using ab absentD [OF assms(4)] by simp_all
    then have "user_attribute_key a = user_attribute_key b" using eq by (auto simp: user_attribute_key_def split: if_splits)
    moreover have "inj_on user_attribute_key (set (lg_user_attributes d))"
      using assms(2) by (simp add: user_attributes_keyed_def distinct_map)
    ultimately show "a = b" using ab by (simp add: inj_on_def)
  qed
  moreover have "distinct (lg_user_attributes d)" using assms(2) by (simp add: user_attributes_keyed_def distinct_map)
  ultimately have "distinct (map user_attribute_key ?rs)" by (simp add: distinct_map)
  moreover have "list_all (\<lambda>a. ua_user_id a \<in> ur_user_id ` set (lg_users d) \<and> ua_name a \<in> sr_name ` set (lg_user_schema d)) ?rs"
    using assms(2,3) by (auto simp: list_all_iff user_attributes_keyed_def in_user_schema_def)
  ultimately have "tried (rename_user_attribute E c n) d = d\<lparr>lg_user_attributes := ?rs\<rparr>"
    using assms(1) by (simp add: tried_def rename_user_attribute_def store_user_attributes_def del: map_map)
  moreover have "filter (\<lambda>a. ua_name a \<noteq> AttributeName n) ?rs = ?rs" using assms(5) by (auto simp: filter_id_conv)
  ultimately show ?thesis using assms(1) by (simp add: apply_alias_def tried_def drop_user_attribute_def)
qed

lemma apply_alias_stored:
  assumes "apply_alias E (c, n) d = d\<lparr>lg_user_attributes :=
    map (\<lambda>a. if ua_name a = AttributeName n then a\<lparr>ua_name := AttributeName c\<rparr> else a) (lg_user_attributes d)\<rparr>"
    and "c \<noteq> n" and "\<not> has_name c d"
  shows "stored (apply_alias E (c, n) d) u m v \<longleftrightarrow> (if m = c then stored d u n v else m \<noteq> n \<and> stored d u m v)"
    and "has_name m (apply_alias E (c, n) d) \<Longrightarrow> m = c \<or> has_name m d \<and> m \<noteq> n"
proof -
  let ?f = "\<lambda>a. if ua_name a = AttributeName n then a\<lparr>ua_name := AttributeName c\<rparr> else a"
  let ?r = "\<lambda>k. \<lparr>ua_user_id = u, ua_name = AttributeName k, ua_value = v\<rparr>"
  have rows: "lg_user_attributes (apply_alias E (c, n) d) = map ?f (lg_user_attributes d)" unfolding assms(1) by simp
  have one: "?r m = ?f a \<longleftrightarrow>
      (if m = c then a = ?r n else m \<noteq> n \<and> a = ?r m)" if "a \<in> set (lg_user_attributes d)" for a
    using absentD [OF assms(3) that] by (cases a) auto
  have "stored (apply_alias E (c, n) d) u m v \<longleftrightarrow> (\<exists>a \<in> set (lg_user_attributes d). ?r m = ?f a)"
    unfolding stored_def rows set_map image_iff ..
  also have "\<dots> \<longleftrightarrow> (\<exists>a \<in> set (lg_user_attributes d). if m = c then a = ?r n else m \<noteq> n \<and> a = ?r m)"
    using one by (rule bex_cong [OF refl])
  finally show "stored (apply_alias E (c, n) d) u m v \<longleftrightarrow> (if m = c then stored d u n v else m \<noteq> n \<and> stored d u m v)"
    by (auto simp: stored_def)
  show "has_name m (apply_alias E (c, n) d) \<Longrightarrow> m = c \<or> has_name m d \<and> m \<noteq> n"
    unfolding has_name_def assms(1) by (auto split: if_splits)
qed

section \<open>What version 12 does to attributes\<close>

definition before_aliases :: "sql_libs \<Rightarrow> engine \<Rightarrow> statement list" where
  "before_aliases Q E = extension_columns @ seed_config Q @ [krb_column] @ seed_user_attributes Q @ seed_group_attributes Q @ v12_defaults E"

lemma v12_split: "v12_statements Q E = before_aliases Q E @ user_aliases E @ group_aliases E"
  by (simp add: v12_statements_def before_aliases_def)

lemma before_carries: "list_all (keeps (carried_on d0)) (before_aliases Q E)"
  using v12_carries [of d0 Q E] by (simp add: v12_split)

text \<open>Most statements leave the attributes of users alone.\<close>

definition leaves_attributes :: "statement \<Rightarrow> bool" where
  "leaves_attributes f \<longleftrightarrow> (\<forall>d d'. f d = Inr d' \<longrightarrow> lg_user_attributes d' = lg_user_attributes d)"

lemma leaves_keep: "leaves_attributes f \<Longrightarrow> (\<And>d d'. lg_user_attributes d' = lg_user_attributes d \<Longrightarrow> I d \<Longrightarrow> I d') \<Longrightarrow> keeps I f"
  by (rule keepsI) (auto simp: leaves_attributes_def)

lemma leavesI: "(\<And>d d'. f d = Inr d' \<Longrightarrow> lg_user_attributes d' = lg_user_attributes d) \<Longrightarrow> leaves_attributes f"
  unfolding leaves_attributes_def by blast

lemma head_leaves: "list_all leaves_attributes (extension_columns @ seed_config Q @ [krb_column])"
  by (simp add: extension_columns_def seed_config_def krb_column_def [abs_def])
    (intro conjI leavesI; auto simp: add_part_def map_users_def db_error_def split: if_splits)

lemma seeds_leave: "list_all leaves_attributes (seed_user_attributes Q @ seed_group_attributes Q)"
  by (auto simp: seed_user_attributes_def seed_group_attributes_def list_all_iff leaves_attributes_def insert_user_schema_def
      insert_group_schema_def db_error_def split: if_splits)

lemma defaults_leave: "leaves_attributes repair_avatar" "leaves_attributes krb_default" "leaves_attributes (default_group_attribute b n v)"
  by (auto simp: leaves_attributes_def repair_avatar_def krb_default_def map_users_def default_group_attribute_def db_error_def
      split: if_splits dest: store_group_attributesD)

lemma groups_leave: "list_all leaves_attributes (group_aliases E)"
  by (auto simp: group_aliases_def list_all_iff leaves_attributes_def rename_group_attribute_def drop_group_attribute_def db_error_def
      split: if_splits dest: store_group_attributesD)

lemma leaves_fold: "list_all leaves_attributes fs \<Longrightarrow> lg_user_attributes (fold tried fs d) = lg_user_attributes d"
proof (induction fs arbitrary: d)
  case (Cons f fs)
  then show ?case using tried_cases [of f d] by (auto simp: leaves_attributes_def)
qed simp

text \<open>The schema only grows, and holds all hardcoded attributes after the seeds.\<close>

lemma before_keeps_schema: "list_all (keeps (in_user_schema n)) (before_aliases Q E)"
proof -
  have "list_all (keeps (in_user_schema n)) (seed_user_attributes Q @ seed_group_attributes Q)"
    by (auto simp: seed_user_attributes_def seed_group_attributes_def list_all_iff insert_user_schema_def insert_group_schema_def
        db_error_def split: if_splits intro!: same_schema_keeps)
  moreover have "keeps (in_user_schema n) repair_avatar" by (rule same_schema_keeps) (use repair_names in auto)
  moreover have "keeps (in_user_schema n) krb_default" by (rule same_schema_keeps) (auto simp: krb_default_def map_users_def)
  moreover have "keeps (in_user_schema n) (default_user_attribute b k v)" for b k v
    by (rule same_schema_keeps) (auto simp: default_user_attribute_def db_error_def split: if_splits dest!: store_user_attributesD)
  moreover have "keeps (in_user_schema n) (default_group_attribute b k v)" for b k v
    by (rule same_schema_keeps) (auto simp: default_group_attribute_def db_error_def split: if_splits dest!: store_group_attributesD)
  moreover have "keeps (in_user_schema n) (normalise_switch E)"
    by (rule same_schema_keeps) (auto simp: normalise_switch_def db_error_def split: option.splits bool.splits)
  ultimately show ?thesis using head_keeps_schema [of n Q] by (simp add: before_aliases_def v12_defaults_def)
qed

lemma seed_present: "in_user_schema (as_name a) (tried (insert_user_schema (hardcoded_row Q a)) d)"
  by (auto simp: tried_def insert_user_schema_def hardcoded_row_def db_error_def in_user_schema_def)

lemma seeded_schema:
  assumes "a \<in> set (user_attributes public_schema_get)"
  shows "in_user_schema (as_name a) (fold tried (before_aliases Q E) d)"
proof (rule tried_ensures [OF _ seed_present before_keeps_schema])
  have "as_is_hardcoded a"
    using assms by (auto simp: public_schema_get_def core_user_attributes_def extra_user_attributes_def hardcoded_attr_def)
  then show "insert_user_schema (hardcoded_row Q a) \<in> set (before_aliases Q E)"
    using assms by (auto simp: before_aliases_def seed_user_attributes_def)
qed

text \<open>Before the aliases only the two names with defaults change.\<close>

definition others_kept :: "legacy_db \<Rightarrow> legacy_db \<Rightarrow> bool" where
  "others_kept d0 d \<longleftrightarrow> (\<forall>u n v. n \<notin> {''kerberossync'', ''ou''} \<longrightarrow> stored d u n v = stored d0 u n v)
     \<and> (\<forall>n. has_name n d \<longrightarrow> has_name n d0 \<or> n \<in> {''kerberossync'', ''ou''})"

lemma others_keptI:
  assumes "others_kept d0 d" and "\<And>u n v. n \<notin> {''kerberossync'', ''ou''} \<Longrightarrow> stored d' u n v = stored d u n v"
    and "\<And>n. has_name n d' \<Longrightarrow> has_name n d \<or> n \<in> {''kerberossync'', ''ou''}"
  shows "others_kept d0 d'"
  unfolding others_kept_def
proof (intro conjI allI impI)
  fix u n v assume n: "n \<notin> {''kerberossync'', ''ou''}"
  have "stored d u n v = stored d0 u n v" using assms(1) n unfolding others_kept_def by blast
  then show "stored d' u n v = stored d0 u n v" using assms(2) [OF n, of u v] by (rule trans [rotated])
next
  fix n assume "has_name n d'"
  from assms(3) [OF this] show "has_name n d0 \<or> n \<in> {''kerberossync'', ''ou''}" using assms(1) unfolding others_kept_def by blast
qed

lemma leaves_others: "leaves_attributes f \<Longrightarrow> keeps (others_kept d0) f"
  by (rule leaves_keep) (simp_all add: others_kept_def stored_def has_name_def)

lemma default_rows:
  assumes "default_user_attribute b n v d = Inr d'"
  shows "lg_user_attributes d' = lg_user_attributes d @ map (\<lambda>u. \<lparr>ua_user_id = ur_user_id u, ua_name = AttributeName n, ua_value = v\<rparr>)
    (filter (\<lambda>u. (ur_user_id u, AttributeName n) \<notin> user_attribute_key ` set (lg_user_attributes d)) (lg_users d))"
  using assms by (cases b) (auto simp: default_user_attribute_def db_error_def dest!: store_user_attributesD)

lemma default_others:
  assumes "n \<in> {''kerberossync'', ''ou''}"
  shows "keeps (others_kept d0) (default_user_attribute b n v)"
proof (rule keepsI)
  fix d d' assume d: "others_kept d0 d" "default_user_attribute b n v d = Inr d'"
  show "others_kept d0 d'"
  proof (rule others_keptI [OF d(1)])
    show "stored d' u k x = stored d u k x" if "k \<notin> {''kerberossync'', ''ou''}" for u k x
      using that assms by (auto simp: stored_def default_rows [OF d(2)])
    show "has_name k d \<or> k \<in> {''kerberossync'', ''ou''}" if "has_name k d'" for k
      using that assms by (auto simp: has_name_def default_rows [OF d(2)])
  qed
qed

lemma normalise_others: "keeps (others_kept d0) (normalise_switch E)"
proof (rule keepsI)
  fix d d' assume d: "others_kept d0 d" "normalise_switch E d = Inr d'"
  then obtain p where d': "d' = d\<lparr>lg_user_attributes := map (\<lambda>a. if ua_name a = AttributeName ''kerberossync'' \<and> p (ua_value a)
      then a\<lparr>ua_value := ''0''\<rparr> else a) (lg_user_attributes d)\<rparr>"
    by (auto simp: normalise_switch_def db_error_def split: option.splits bool.splits)
  let ?f = "\<lambda>a. if ua_name a = AttributeName ''kerberossync'' \<and> p (ua_value a) then a\<lparr>ua_value := ''0''\<rparr> else a"
  have rows: "lg_user_attributes d' = map ?f (lg_user_attributes d)" by (simp add: d')
  have "stored d' u n v = stored d u n v" if n: "n \<noteq> ''kerberossync''" for u n v
  proof -
    let ?r = "\<lparr>ua_user_id = u, ua_name = AttributeName n, ua_value = v\<rparr>"
    have eq: "?r = ?f a \<longleftrightarrow> a = ?r" for a using n by (cases a) auto
    show ?thesis unfolding stored_def rows set_map image_iff eq by simp
  qed
  moreover have "map ua_name (lg_user_attributes d') = map ua_name (lg_user_attributes d)" by (simp add: d')
  then have "ua_name ` set (lg_user_attributes d') = ua_name ` set (lg_user_attributes d)" by (metis set_map)
  then have "has_name n d' \<Longrightarrow> has_name n d" for n by (simp add: has_name_def)
  ultimately show "others_kept d0 d'" by (intro others_keptI [OF d(1)]) blast+
qed

lemma before_others: "others_kept d (fold tried (before_aliases Q E) d)"
proof (rule all_tried_keep)
  show "list_all (keeps (others_kept d)) (before_aliases Q E)"
    using head_leaves [of Q] seeds_leave [of Q]
    by (auto simp: before_aliases_def v12_defaults_def list_all_iff intro: leaves_others defaults_leave default_others normalise_others)
  show "others_kept d d" by (simp add: others_kept_def)
qed

section \<open>Names and avatars\<close>

type_synonym profile = "string option \<times> string option \<times> bytes option"

definition in_profile :: "profile \<Rightarrow> string \<Rightarrow> bytes \<Rightarrow> bool" where
  "in_profile p k v \<longleftrightarrow> k = ''first_name'' \<and> fst p = Some v \<or> k = ''last_name'' \<and> fst (snd p) = Some v
     \<or> k = ''avatar'' \<and> snd (snd p) = Some v"

text \<open>Until version 3 an empty name stands for none.\<close>

definition tidy :: "int \<Rightarrow> string option \<Rightarrow> string option" where
  "tidy n s = (if n < 3 then null_if_empty s else s)"

definition old_profile :: "int \<Rightarrow> old_user_row \<Rightarrow> profile" where
  "old_profile n r = (tidy n (old_first_name r), tidy n (old_last_name r), old_avatar r)"

definition new_profile :: "legacy_db \<Rightarrow> user_id \<Rightarrow> profile \<Rightarrow> bool" where
  "new_profile d u p \<longleftrightarrow> (\<forall>v. stored d u ''firstname'' v = (fst p = Some v)) \<and> (\<forall>v. stored d u ''lastname'' v = (fst (snd p) = Some v))
     \<and> (\<forall>v. stored d u ''avatar'' v = (snd (snd p) = Some v))"

text \<open>Where the profiles of the users are at a version.\<close>

definition profiled :: "(user_id \<Rightarrow> profile) \<Rightarrow> user_id set \<Rightarrow> int \<Rightarrow> legacy_db \<Rightarrow> bool" where
  "profiled prof U n d \<longleftrightarrow> ur_user_id ` set (lg_users d) = U
     \<and> (n \<le> 4 \<longrightarrow> (\<forall>r \<in> set (lg_users d). prof (ur_user_id r) = old_profile n r))
     \<and> (5 \<le> n \<and> n \<le> 11 \<longrightarrow> (\<forall>u k v. stored d u k v \<longleftrightarrow> u \<in> U \<and> in_profile (prof u) k v))
     \<and> (12 \<le> n \<longrightarrow> (\<forall>u \<in> U. new_profile d u (prof u)))"

lemma null_if_empty_idem [simp]: "null_if_empty (null_if_empty s) = null_if_empty s"
  by (simp add: null_if_empty_def)

lemma attribute_of_row:
  "\<lparr>ua_user_id = u, ua_name = AttributeName k, ua_value = v\<rparr> \<in> set (attribute_of w m x) \<longleftrightarrow> u = w \<and> k = m \<and> x = Some v"
  by (cases x) (auto simp: attribute_of_def)

lemma v5_stored:
  assumes "migrate_to_v5 d = Inr d'" and "\<forall>r \<in> set (lg_users d). prof (ur_user_id r) = old_profile 4 r"
  shows "stored d' u k v \<longleftrightarrow> u \<in> ur_user_id ` set (lg_users d) \<and> in_profile (prof u) k v"
proof -
  let ?row = "\<lparr>ua_user_id = u, ua_name = AttributeName k, ua_value = v\<rparr>"
  have row: "?row \<in> set (v5_attributes r) \<longleftrightarrow> u = ur_user_id r \<and> in_profile (old_profile 4 r) k v" for r
    by (simp add: v5_attributes_def attribute_of_row in_profile_def old_profile_def tidy_def) blast
  have "stored d' u k v \<longleftrightarrow> (\<exists>r \<in> set (lg_users d). ?row \<in> set (v5_attributes r))"
    using v5_cases [OF assms(1)] by (simp add: stored_def)
  also have "\<dots> \<longleftrightarrow> (\<exists>r \<in> set (lg_users d). u = ur_user_id r \<and> in_profile (prof u) k v)"
    unfolding row by (rule bex_cong [OF refl]) (use assms(2) in force)
  finally show ?thesis by blast
qed

lemma v2_to_v4_profiled:
  "migration Q E now 2 d = Inr d' \<Longrightarrow> profiled prof U 1 d \<Longrightarrow> profiled prof U 2 d'"
  "migration Q E now 3 d = Inr d' \<Longrightarrow> profiled prof U 2 d \<Longrightarrow> profiled prof U 3 d'"
  "migration Q E now 4 d = Inr d' \<Longrightarrow> profiled prof U 3 d \<Longrightarrow> profiled prof U 4 d'"
  by (auto simp: migration_at rmap_eq_Inr rbind_eq_Inr migrate_to_v2_def migrate_to_v3_def migrate_to_v4_def replace_column_def
      map_users_def unique_index_Inr profiled_def old_profile_def tidy_def image_image)

lemma v5_profiled: "migration Q E now 5 d = Inr d' \<Longrightarrow> profiled prof U 4 d \<Longrightarrow> profiled prof U 5 d'"
proof -
  assume "migration Q E now 5 d = Inr d'" and p: "profiled prof U 4 d"
  then obtain x where x: "migrate_to_v5 d = Inr x" "d' = x\<lparr>lg_version := Some 5\<rparr>" by (auto simp: migration_at rmap_eq_Inr)
  have old: "\<forall>r \<in> set (lg_users d). prof (ur_user_id r) = old_profile 4 r" and U: "ur_user_id ` set (lg_users d) = U"
    using p by (simp_all add: profiled_def)
  have "stored d' u k v = stored x u k v" for u k v by (simp add: x(2) stored_def)
  moreover have "lg_users d' = lg_users d"
    using v5_cases [OF x(1)] by (simp add: x(2) seed_user_schema_def create_attribute_tables_def)
  ultimately show "profiled prof U 5 d'" using v5_stored [OF x(1) old] U by (simp add: profiled_def)
qed

text \<open>From version 5 to version 11 the users stay and their attributes are not touched.\<close>

lemma v6_to_v11_profiled:
  assumes "n \<in> {5, 6, 7, 8, 9, 10}" and "migration Q E now (n + 1) d = Inr d'" and "profiled prof U n d"
  shows "profiled prof U (n + 1) d'"
proof -
  have "lg_user_attributes d' = lg_user_attributes d \<and> ur_user_id ` set (lg_users d') = ur_user_id ` set (lg_users d)"
    using assms(1,2)
    by - (elim insertE emptyE; clarsimp simp: migration_at rmap_eq_Inr rbind_eq_Inr migrate_to_v6_def migrate_to_v7_def
        migrate_to_v8_def migrate_to_v9_def migrate_to_v10_def migrate_to_v11_def unique_index_Inr map_users_def map_groups_def image_image)
  then have "stored d' = stored d" and "ur_user_id ` set (lg_users d') = ur_user_id ` set (lg_users d)" by (simp_all add: stored_def fun_eq_iff)
  moreover have "\<not> n \<le> 4" "5 \<le> n" "n \<le> 10" using assms(1) by auto
  ultimately show ?thesis using assms(3) unfolding profiled_def by simp
qed

text \<open>The aliases of the schema around the two that version 5 used.\<close>

definition settled :: "string \<Rightarrow> bool" where
  "settled k \<longleftrightarrow> k \<in> {''first_name'', ''last_name'', ''avatar'', ''kerberossync'', ''ou'', ''firstname'', ''lastname''}"

text \<open>The names in use before the aliases are applied.\<close>

definition early :: "string \<Rightarrow> bool" where
  "early k \<longleftrightarrow> k \<in> {''first_name'', ''last_name'', ''avatar'', ''kerberossync'', ''ou''}"

lemma early_settled: "early k \<Longrightarrow> settled k"
  unfolding early_def settled_def by (elim insertE emptyE) simp_all

lemma not_early: "\<not> early ''firstname''" "\<not> early ''lastname''"
  by (simp_all add: early_def)

lemma settled_names: "settled ''firstname''" "settled ''lastname''"
  by (simp_all add: settled_def)

definition quiet_aliases :: "(string \<times> string) list \<Rightarrow> bool" where
  "quiet_aliases ps \<longleftrightarrow> list_all (\<lambda>p. \<not> settled (snd p)) ps"

lemma alias_pairs_split:
  obtains ps qs rs where "alias_pairs (user_attributes public_schema_get)
      = ps @ (''firstname'', ''first_name'') # qs @ (''lastname'', ''last_name'') # rs"
    and "quiet_aliases ps" "quiet_aliases qs" "quiet_aliases rs"
proof
  let ?all = "alias_pairs (user_attributes public_schema_get)"
  show "?all = take 6 ?all @ (''firstname'', ''first_name'') # [(''firstname'', ''givenName'')] @ (''lastname'', ''last_name'') # drop 9 ?all"
    by code_simp
  show "quiet_aliases (take 6 ?all)" "quiet_aliases [(''firstname'', ''givenName'')]" "quiet_aliases (drop 9 ?all)" by code_simp+
qed

lemma quiet_aliases_fold:
  assumes "quiet_aliases ps" and "\<And>k. has_name k d \<Longrightarrow> settled k"
  shows "fold (apply_alias E) ps d = d"
  by (rule aliases_absent) (use assms in \<open>auto simp: quiet_aliases_def list_all_iff\<close>)

lemma apply_alias_carries: "carried_on d0 d \<Longrightarrow> carried_on d0 (apply_alias E p d)"
  by (simp add: apply_alias_def tried_keeps rename_user_carries drop_user_carries)

lemma carried_keyed: "carried_on d0 d \<Longrightarrow> user_attributes_keyed d"
  by (simp add: carried_on_def keys_at_def attributes_keyed_def)

text \<open>The aliases of names and nothing else in the way: both are renamed.\<close>

lemma names_renamed:
  assumes "en_question_marks E" and "carried_on d0 d" and "in_user_schema ''firstname'' d" and "in_user_schema ''lastname'' d"
    and names: "\<And>k. has_name k d \<Longrightarrow> early k"
  shows "stored (fold tried (user_aliases E) d) u k v \<longleftrightarrow>
    (if k = ''firstname'' then stored d u ''first_name'' v else if k = ''lastname'' then stored d u ''last_name'' v
     else k \<notin> {''first_name'', ''last_name''} \<and> stored d u k v)"
proof -
  obtain ps qs rs where split: "alias_pairs (user_attributes public_schema_get)
      = ps @ (''firstname'', ''first_name'') # qs @ (''lastname'', ''last_name'') # rs"
    and quiet: "quiet_aliases ps" "quiet_aliases qs" "quiet_aliases rs" by (rule alias_pairs_split)
  let ?a = "apply_alias E (''firstname'', ''first_name'') d"
  let ?b = "apply_alias E (''lastname'', ''last_name'') ?a"
  have fresh1: "\<not> has_name ''firstname'' d" "\<not> has_name ''lastname'' d" using names not_early by blast+
  note one = apply_alias_fresh [OF assms(1) carried_keyed [OF assms(2)] assms(3) fresh1(1), of "''first_name''", simplified]
  have s1: "stored ?a u m v \<longleftrightarrow> (if m = ''firstname'' then stored d u ''first_name'' v else m \<noteq> ''first_name'' \<and> stored d u m v)" for m
    by (rule apply_alias_stored(1) [OF one _ fresh1(1)]) simp
  have n1: "has_name m ?a \<Longrightarrow> m = ''firstname'' \<or> has_name m d \<and> m \<noteq> ''first_name''" for m
    by (rule apply_alias_stored(2) [OF one _ fresh1(1)]) simp_all
  have fresh2: "\<not> has_name ''lastname'' ?a" using n1 [of "''lastname''"] fresh1(2) by auto
  have schema2: "in_user_schema ''lastname'' ?a" using assms(4) by (simp add: one in_user_schema_def)
  note two = apply_alias_fresh [OF assms(1) carried_keyed [OF apply_alias_carries [OF assms(2)]] schema2 fresh2, of "''last_name''", simplified]
  have s2: "stored ?b u m v \<longleftrightarrow> (if m = ''lastname'' then stored ?a u ''last_name'' v else m \<noteq> ''last_name'' \<and> stored ?a u m v)" for m
    by (rule apply_alias_stored(1) [OF two _ fresh2]) simp
  have n2: "has_name m ?b \<Longrightarrow> m = ''lastname'' \<or> has_name m ?a \<and> m \<noteq> ''last_name''" for m
    by (rule apply_alias_stored(2) [OF two _ fresh2]) simp_all
  have h: "has_name k d \<Longrightarrow> settled k" for k by (rule early_settled [OF names])
  note s = settled_names
  have ha: "settled k" if "has_name k ?a" for k
    using n1 [OF that]
  proof
    assume "k = ''firstname''"
    then show ?thesis using s(1) by (rule ssubst)
  qed (rule h, erule conjunct1)
  have hb: "settled k" if "has_name k ?b" for k
    using n2 [OF that]
  proof
    assume "k = ''lastname''"
    then show ?thesis using s(2) by (rule ssubst)
  qed (rule ha, erule conjunct1)
  have "fold (apply_alias E) ps d = d" by (rule quiet_aliases_fold [OF quiet(1) h])
  moreover have "fold (apply_alias E) qs ?a = ?a" by (rule quiet_aliases_fold [OF quiet(2) ha])
  moreover have "fold (apply_alias E) rs ?b = ?b" by (rule quiet_aliases_fold [OF quiet(3) hb])
  ultimately have eq: "fold tried (user_aliases E) d = ?b" by (simp add: user_aliases_pairs split)
  consider "k = ''firstname''" | "k = ''lastname''" | "k \<noteq> ''firstname''" "k \<noteq> ''lastname''" by blast
  then show ?thesis by cases (simp_all add: eq s2 s1 conj_left_commute)
qed

lemma v12_profiled:
  assumes "migration Q E now 12 d = Inr d'" and "profiled prof U 11 d" and "keys_at 11 d" and "en_question_marks E" and "\<not> en_aborts E"
  shows "profiled prof U 12 d'"
proof -
  let ?d = "fold tried (before_aliases Q E) d"
  let ?a = "fold tried (user_aliases E) ?d"
  obtain x where x: "migrate_to_v12 Q E d = Inr x" "d' = x\<lparr>lg_version := Some 12\<rparr>"
    using assms(1) by (auto simp: migration_at rmap_eq_Inr)
  have U: "ur_user_id ` set (lg_users d') = U"
    using same_images(1) [OF v12_keys [OF x(1) assms(3), THEN conjunct2]] assms(2) by (simp add: x(2) profiled_def)
  have "x = fold tried (group_aliases E) ?a" using x(1) v12_tried [OF assms(5), of Q d] by (simp add: v12_split)
  then have st: "stored d' u k v = stored ?a u k v" for u k v
    using leaves_fold [OF groups_leave, of E ?a] by (simp add: x(2) stored_def)
  have old: "stored d u k v \<longleftrightarrow> u \<in> U \<and> in_profile (prof u) k v" for u k v using assms(2) by (simp add: profiled_def)
  have carried: "carried_on d ?d" by (rule all_tried_keep [OF before_carries]) (simp add: carried_on_def assms(3))
  have kept: "others_kept d ?d" by (rule before_others)
  have "has_name k d \<Longrightarrow> k \<in> {''first_name'', ''last_name'', ''avatar''}" for k
  proof -
    assume "has_name k d"
    then obtain a where a: "a \<in> set (lg_user_attributes d)" "ua_name a = AttributeName k" by (auto simp: has_name_def)
    have "\<lparr>ua_user_id = ua_user_id a, ua_name = AttributeName k, ua_value = ua_value a\<rparr> = a" using a(2) by (cases a) simp
    with a(1) have "stored d (ua_user_id a) k (ua_value a)" by (simp add: stored_def)
    then show ?thesis using old by (auto simp: in_profile_def)
  qed
  then have early: "has_name k d \<Longrightarrow> early k" for k by (auto simp: early_def)
  have names: "early k" if "has_name k ?d" for k
  proof -
    have "has_name k d \<or> k \<in> {''kerberossync'', ''ou''}" 
      using kept [unfolded others_kept_def, THEN conjunct2, rule_format, OF that] .
    then show ?thesis
    proof
      assume "has_name k d"
      then show ?thesis by (rule early)
    qed (auto simp: early_def)
  qed
  have schema: "in_user_schema ''firstname'' ?d" "in_user_schema ''lastname'' ?d"
    using seeded_schema [of "hardcoded_attr ''firstname'' [''first_name'', ''givenName''] TString False True True False"]
      seeded_schema [of "hardcoded_attr ''lastname'' [''last_name'', ''sn''] TString False True True False"]
    by (simp_all add: public_schema_get_def core_user_attributes_def hardcoded_attr_def)
  have same: "stored ?d u k v = stored d u k v" if "k \<notin> {''kerberossync'', ''ou''}" for u k v
    using kept that unfolding others_kept_def by (elim conjE) (drule spec [of _ u], drule spec [of _ k], drule spec [of _ v], drule (1) mp)
  have "new_profile d' u (prof u)" if "u \<in> U" for u
    using that by (simp add: new_profile_def st names_renamed [OF assms(4) carried schema names] same old in_profile_def)
  then show ?thesis using U by (simp add: profiled_def)
qed

section \<open>What is stored at the end\<close>

lemma profile_step:
  assumes "1 \<le> n" and "n < LAST_SCHEMA_VERSION" and "migration Q E now (n + 1) d = Inr d'" and "profiled prof U n d" and "keys_at n d"
    and "en_question_marks E" and "\<not> en_aborts E"
  shows "profiled prof U (n + 1) d'"
proof -
  consider "n = 1" | "n = 2" | "n = 3" | "n = 4" | "n \<in> {5, 6, 7, 8, 9, 10}" | "n = 11" using versions [OF assms(1,2)] by auto
  then show ?thesis
  proof cases
    case 5
    then show ?thesis using assms(3,4) by (rule v6_to_v11_profiled)
  qed (use assms v2_to_v4_profiled v5_profiled v12_profiled in auto)
qed

interpretation profiles: migration_chain "migration Q E now"
  "\<lambda>n d. profiled prof U n d \<and> keys_at n d \<and> en_lower E = to_ascii_lowercase \<and> en_question_marks E \<and> \<not> en_aborts E"
  "\<lambda>_ _. True" LAST_SCHEMA_VERSION
  for Q E now prof U
  by unfold_locales (use profile_step migration_step in auto)

text \<open>C35: The names and the avatar of a user survive the migrations. On an engine that takes the
  statements of version 12, the migration of a database of version 1 to 4 leaves every user with the
  attributes \<open>firstname\<close>, \<open>lastname\<close> and \<open>avatar\<close> exactly where the old row had such a value, and with that
  value; an empty name of the first versions counts as none.\<close>

theorem names_survive_migration:
  assumes "lg_version d = Some v" and "1 \<le> v" and "v \<le> 4" and "keys_at v d"
    and "en_lower E = to_ascii_lowercase" and "en_question_marks E" and "\<not> en_aborts E"
    and "init_table Q E now d = (Inr (), d')" and "r \<in> set (lg_users d)"
  shows "new_profile d' (ur_user_id r) (old_profile v r)"
proof -
  let ?prof = "\<lambda>u. the (map_of (map (\<lambda>r. (ur_user_id r, old_profile v r)) (lg_users d)) u)"
  let ?U = "ur_user_id ` set (lg_users d)"
  have ids: "distinct (map ur_user_id (lg_users d))" using assms(4) by (simp add: keys_at_def first_keys_def)
  have prof: "?prof (ur_user_id x) = old_profile v x" if "x \<in> set (lg_users d)" for x
  proof -
    have "map_of (map (\<lambda>r. (ur_user_id r, old_profile v r)) (lg_users d)) (ur_user_id x) = Some (old_profile v x)"
      by (rule map_of_is_SomeI) (use ids that in \<open>auto simp: o_def\<close>)
    then show ?thesis by simp
  qed
  have last: "v \<le> LAST_SCHEMA_VERSION" using assms(3) by (simp add: LAST_SCHEMA_VERSION_def)
  have start: "profiled ?prof ?U v d" using assms(3) prof by (simp add: profiled_def)
  have "run_migrations (migration Q E now) (en_left E) [v + 1..LAST_SCHEMA_VERSION] d = (Inr (), d')"
    using assms(1,8) migrate_from_chain [OF assms(2) last] by (simp add: init_table_def)
  from profiles.run_cases [OF assms(2) last _ this, of ?prof ?U] have "profiled ?prof ?U LAST_SCHEMA_VERSION d'"
    using start assms(4-7) by simp
  then have "new_profile d' (ur_user_id r) (?prof (ur_user_id r))" using assms(9) by (simp add: profiled_def LAST_SCHEMA_VERSION_def)
  then show ?thesis using prof [OF assms(9)] by simp
qed

section \<open>A value under an alias of an attribute with a default\<close>

lemma alias_drops: "en_question_marks E \<Longrightarrow> \<not> has_name (snd p) (apply_alias E p d)"
  by (auto simp: apply_alias_def tried_def drop_user_attribute_def has_name_def split: sum.split)

lemma rename_rows:
  "lg_user_attributes (tried (rename_user_attribute E c n) d) = lg_user_attributes d
   \<or> lg_user_attributes (tried (rename_user_attribute E c n) d)
     = map (\<lambda>a. if ua_name a = AttributeName n then a\<lparr>ua_name := AttributeName c\<rparr> else a) (lg_user_attributes d)"
  by (auto simp: tried_def rename_user_attribute_def db_error_def split: sum.splits if_splits dest!: store_user_attributesD)

lemma drop_rows: "lg_user_attributes (tried (drop_user_attribute E n) d) \<in>
    {lg_user_attributes d, filter (\<lambda>a. ua_name a \<noteq> AttributeName n) (lg_user_attributes d)}"
  by (simp add: tried_def drop_user_attribute_def db_error_def)

lemma alias_keeps_absent:
  assumes "fst p \<noteq> k" and "\<not> has_name k d"
  shows "\<not> has_name k (apply_alias E p d)"
proof -
  let ?e = "tried (rename_user_attribute E (fst p) (snd p)) d"
  have "\<not> has_name k ?e" using rename_rows [of E "fst p" "snd p" d] assms by (auto simp: has_name_def)
  then show ?thesis using drop_rows [of E "snd p" ?e] by (auto simp: apply_alias_def has_name_def)
qed

lemma alias_keeps_stored:
  assumes "snd p \<noteq> k" and "stored d u k v"
  shows "stored (apply_alias E p d) u k v"
proof -
  let ?e = "tried (rename_user_attribute E (fst p) (snd p)) d"
  have "stored ?e u k v" using rename_rows [of E "fst p" "snd p" d] assms by (force simp: stored_def)
  then show ?thesis using drop_rows [of E "snd p" ?e] assms(1) by (auto simp: apply_alias_def stored_def)
qed

lemma aliases_keep_stored: "list_all (\<lambda>p. snd p \<noteq> k) ps \<Longrightarrow> stored d u k v \<Longrightarrow> stored (fold (apply_alias E) ps d) u k v"
  by (induction ps arbitrary: d) (simp_all add: alias_keeps_stored)

lemma aliases_keep_absent: "list_all (\<lambda>p. fst p \<noteq> k) ps \<Longrightarrow> \<not> has_name k d \<Longrightarrow> \<not> has_name k (fold (apply_alias E) ps d)"
  by (induction ps arbitrary: d) (simp_all add: alias_keeps_absent)

lemma aliases_drop:
  assumes "en_question_marks E" and "(c, k) \<in> set ps" and "list_all (\<lambda>p. fst p \<noteq> k) ps"
  shows "\<not> has_name k (fold (apply_alias E) ps d)"
proof -
  obtain xs ys where ps: "ps = xs @ (c, k) # ys" using split_list [OF assms(2)] by blast
  have "\<not> has_name k (apply_alias E (c, k) (fold (apply_alias E) xs d))" using alias_drops [OF assms(1), of "(c, k)"] by simp
  then show ?thesis using assms(3) by (simp add: ps aliases_keep_absent)
qed

lemma switch_aliases:
  "(''kerberossync'', ''kerberos_sync'') \<in> set (alias_pairs (user_attributes public_schema_get))"
  "list_all (\<lambda>p. fst p \<noteq> ''kerberos_sync'') (alias_pairs (user_attributes public_schema_get))"
  "list_all (\<lambda>p. snd p \<noteq> ''kerberossync'') (alias_pairs (user_attributes public_schema_get))"
  by code_simp+

text \<open>The statements around the one that gives everybody the switch.\<close>

definition before_switch :: "sql_libs \<Rightarrow> statement list" where
  "before_switch Q = extension_columns @ seed_config Q @ [krb_column] @ seed_user_attributes Q @ seed_group_attributes Q @ [repair_avatar]"

definition after_switch :: "engine \<Rightarrow> statement list" where
  "after_switch E = [normalise_switch E, krb_default, default_user_attribute (en_text_for_blob E) ''ou'' ''people'',
     default_group_attribute (en_text_for_blob E) ''ou'' ''groups'']"

lemma before_aliases_switch:
  "before_aliases Q E = before_switch Q @ default_user_attribute (en_question_marks E) ''kerberossync'' ''0'' # after_switch E"
  by (simp add: before_aliases_def before_switch_def after_switch_def v12_defaults_def)

lemma before_switch_leaves: "list_all leaves_attributes (before_switch Q)"
  using head_leaves [of Q] seeds_leave [of Q] defaults_leave(1) by (simp add: before_switch_def)

lemma normalise_stored:
  assumes "normalise_switch E d = Inr d'" and "stored d u ''kerberossync'' ''0''"
  shows "stored d' u ''kerberossync'' ''0''"
proof -
  obtain p where "d' = d\<lparr>lg_user_attributes := map (\<lambda>a. if ua_name a = AttributeName ''kerberossync'' \<and> p (ua_value a)
      then a\<lparr>ua_value := ''0''\<rparr> else a) (lg_user_attributes d)\<rparr>"
    using assms(1) by (auto simp: normalise_switch_def db_error_def split: option.splits bool.splits)
  then show ?thesis using assms(2) by (force simp: stored_def)
qed

lemma after_switch_keeps: "list_all (keeps (\<lambda>d. stored d u ''kerberossync'' ''0'')) (after_switch E)"
proof -
  have "keeps (\<lambda>d. stored d u ''kerberossync'' ''0'') (default_user_attribute b n v)" for b n v
    by (rule keepsI) (auto simp: stored_def dest: default_rows)
  moreover have "keeps (\<lambda>d. stored d u ''kerberossync'' ''0'') f" if "leaves_attributes f" for f
    by (rule leaves_keep [OF that]) (simp add: stored_def)
  moreover have "keeps (\<lambda>d. stored d u ''kerberossync'' ''0'') (normalise_switch E)"
    by (rule keepsI) (rule normalise_stored)
  ultimately show ?thesis by (simp add: after_switch_def defaults_leave)
qed

text \<open>The default is stored for everybody who has no value under the canonical name.\<close>

lemma default_stored:
  assumes "user_attributes_keyed d" and "in_user_schema n d" and "distinct (map ur_user_id (lg_users d))"
    and "u \<in> ur_user_id ` set (lg_users d)" and "\<And>w. \<not> stored d u n w"
  shows "stored (tried (default_user_attribute True n v) d) u n v"
proof -
  let ?new = "map (\<lambda>u. \<lparr>ua_user_id = ur_user_id u, ua_name = AttributeName n, ua_value = v\<rparr>)
    (filter (\<lambda>u. (ur_user_id u, AttributeName n) \<notin> user_attribute_key ` set (lg_user_attributes d)) (lg_users d))"
  let ?rs = "lg_user_attributes d @ ?new"
  have "(\<lambda>u. (ur_user_id u, AttributeName n)) = (\<lambda>i. (i, AttributeName n)) \<circ> (ur_user_id :: old_user_row \<Rightarrow> _)" by auto
  then have "distinct (map user_attribute_key ?new)"
    using distinct_map_filter [OF assms(3)] by (auto simp: distinct_map user_attribute_key_def o_def inj_on_def)
  moreover have "user_attribute_key \<lparr>ua_user_id = i, ua_name = AttributeName n, ua_value = v\<rparr> = (i, AttributeName n)" for i
    by (simp add: user_attribute_key_def)
  ultimately have "distinct (map user_attribute_key ?rs)"
    using assms(1) unfolding user_attributes_keyed_def by (auto simp del: map_map)
  moreover have "list_all (\<lambda>a. ua_user_id a \<in> ur_user_id ` set (lg_users d) \<and> ua_name a \<in> sr_name ` set (lg_user_schema d)) ?rs"
    using assms(1,2) by (auto simp: list_all_iff user_attributes_keyed_def in_user_schema_def)
  ultimately have "lg_user_attributes (tried (default_user_attribute True n v) d) = ?rs"
    by (simp add: tried_def default_user_attribute_def store_user_attributes_def)
  moreover have "(u, AttributeName n) \<notin> user_attribute_key ` set (lg_user_attributes d)"
  proof
    assume "(u, AttributeName n) \<in> user_attribute_key ` set (lg_user_attributes d)"
    then obtain a where a: "a \<in> set (lg_user_attributes d)" "ua_user_id a = u" "ua_name a = AttributeName n"
      by (auto simp: user_attribute_key_def)
    from a(2,3) have "a = \<lparr>ua_user_id = u, ua_name = AttributeName n, ua_value = ua_value a\<rparr>" by (cases a) simp
    then show False using assms(5) [of "ua_value a"] a(1) by (simp add: stored_def)
  qed
  ultimately show ?thesis using assms(4) by (auto simp: stored_def)
qed

lemma stored_unique:
  assumes "user_attributes_keyed d" and "stored d u k v" and "stored d u k w"
  shows "v = w"
proof -
  have "inj_on user_attribute_key (set (lg_user_attributes d))" using assms(1) by (simp add: user_attributes_keyed_def distinct_map)
  from inj_onD [OF this _ assms(2,3) [unfolded stored_def]] show ?thesis by (simp add: user_attribute_key_def)
qed

lemma switch_in_schema: "in_user_schema ''kerberossync'' (fold tried (before_switch Q) d)"
proof (rule tried_ensures)
  let ?a = "hardcoded_attr ''kerberossync'' [''kerberos_sync'', ''kerberosSync''] TInteger False True False False"
  have a: "?a \<in> set (user_attributes public_schema_get)" "as_is_hardcoded ?a" "as_name ?a = ''kerberossync''"
    by (simp_all add: public_schema_get_def core_user_attributes_def extra_user_attributes_def hardcoded_attr_def)
  then show "insert_user_schema (hardcoded_row Q ?a) \<in> set (before_switch Q)" by (auto simp: before_switch_def seed_user_attributes_def)
  show "in_user_schema ''kerberossync'' (tried (insert_user_schema (hardcoded_row Q ?a)) d)" for d
    using seed_present [of ?a Q d] a(3) by simp
  show "list_all (keeps (in_user_schema ''kerberossync'')) (before_switch Q)"
    using before_keeps_schema [of "''kerberossync''" Q] by (simp add: before_aliases_switch)
qed

text \<open>C37: A value under the alias \<open>kerberos_sync\<close> is lost. Version 12 first gives the default to everybody
  without a value under \<open>kerberossync\<close>, so that the renaming of the alias hits the primary key; its error
  is ignored and the rows under the alias are deleted. Whatever such a user had, the switch is off.\<close>

theorem kerberos_alias_lost:
  assumes "keys_at 11 d" and "en_question_marks E" and "\<not> en_aborts E" and "migrate_to_v12 Q E d = Inr d'"
    and "u \<in> ur_user_id ` set (lg_users d)" and "\<And>w. \<not> stored d u ''kerberossync'' w"
  shows "(stored d' u ''kerberossync'' w \<longleftrightarrow> w = ''0'') \<and> \<not> has_name ''kerberos_sync'' d'"
proof -
  let ?s = "fold tried (before_switch Q) d"
  let ?t = "tried (default_user_attribute True ''kerberossync'' ''0'') ?s"
  let ?b = "fold tried (after_switch E) ?t"
  let ?a = "fold (apply_alias E) (alias_pairs (user_attributes public_schema_get)) ?b"
  have d': "d' = fold tried (group_aliases E) ?a"
    using assms(2,4) v12_tried [OF assms(3), of Q d] user_aliases_pairs by (simp add: v12_split before_aliases_switch)
  have final: "stored d' = stored ?a" "has_name k d' = has_name k ?a" for k
    using leaves_fold [OF groups_leave, of E ?a] by (simp_all add: d' stored_def has_name_def fun_eq_iff)
  have "carried_on d ?s"
  proof (rule all_tried_keep)
    show "list_all (keeps (carried_on d)) (before_switch Q)" using before_carries [of d Q E] by (simp add: before_aliases_switch)
    show "carried_on d d" using assms(1) by (simp add: carried_on_def)
  qed
  then have keyed: "user_attributes_keyed ?s" and same: "same_directory d ?s" by (rule carried_keyed, simp add: carried_on_def)
  have "stored ?t u ''kerberossync'' ''0''"
  proof (rule default_stored [OF keyed switch_in_schema])
    show "distinct (map ur_user_id (lg_users ?s))" using assms(1) same_columns(1) [OF same] by (simp add: keys_at_def first_keys_def)
    show "u \<in> ur_user_id ` set (lg_users ?s)" using assms(5) same_images(1) [OF same] by simp
    show "\<not> stored ?s u ''kerberossync'' x" for x using assms(6) leaves_fold [OF before_switch_leaves, of Q d] by (simp add: stored_def)
  qed
  then have "stored ?b u ''kerberossync'' ''0''" by (rule all_tried_keep [OF after_switch_keeps])
  then have "stored ?a u ''kerberossync'' ''0''" by (rule aliases_keep_stored [OF switch_aliases(3)])
  then have here: "stored d' u ''kerberossync'' ''0''" unfolding final .
  have "\<not> has_name ''kerberos_sync'' d'" unfolding final by (rule aliases_drop [OF assms(2) switch_aliases(1,2)])
  moreover have "user_attributes_keyed d'" using v12_keys [OF assms(4,1)] by (simp add: keys_at_def attributes_keyed_def)
  from stored_unique [OF this here] have "stored d' u ''kerberossync'' w \<longleftrightarrow> w = ''0''" using here by metis
  ultimately show ?thesis by simp
qed

end
