(* ===== verification/Migration_Start.thy ===== *)
theory Migration_Start
  imports Migration_Data Startup
begin

text \<open>
  From no tables at all to a running server: on a new database every migration succeeds, and what
  they leave is what the start of the server needs.
\<close>

section \<open>New databases\<close>

definition deserted :: "legacy_db \<Rightarrow> bool" where
  "deserted d \<longleftrightarrow> lg_users d = [] \<and> lg_groups d = [] \<and> lg_memberships d = []"

lemma deserted_same: "same_directory d d' \<Longrightarrow> deserted d \<Longrightarrow> deserted d'"
  by (auto simp: same_directory_def deserted_def)

lemma deserted_keys: "deserted d \<Longrightarrow> keys_at 1 d"
  by (simp add: deserted_def keys_at_def first_keys_def)

lemma upgrade_deserted:
  assumes "deserted d"
  shows "\<exists>d'. upgrade_to_v1 Q now d = (Inr (), d') \<and> deserted d' \<and> lg_version d' = Some 1"
  using assms by (simp add: upgrade_to_v1_def Let_def rename_readonly_def add_group_creation_date_def add_group_uuid_def
      add_user_uuid_def add_part_def map_groups_def map_users_def deserted_def)

text \<open>Nothing can fail where there are no rows.\<close>

lemma deserted_step:
  assumes "deserted d" and "\<not> en_aborts E" and "1 \<le> n" and "n < LAST_SCHEMA_VERSION"
  shows "migration Q E now (n + 1) d \<noteq> Inl e"
proof -
  have "lg_users d = []" "lg_groups d = []" "lg_memberships d = []" using assms(1) by (simp_all add: deserted_def)
  then show ?thesis
    using versions [OF assms(3,4)]
    by - (elim insertE emptyE; simp add: migration_at rmap_def rbind_def migrate_to_v2_def migrate_to_v3_def migrate_to_v4_def
        migrate_to_v5_def seed_user_schema_def create_attribute_tables_def migrate_to_v6_def migrate_to_v7_def migrate_to_v8_def
        migrate_to_v9_def migrate_to_v10_def migrate_to_v11_def v12_tried [OF assms(2)] replace_column_def map_users_def
        unique_index_def repeated_def Let_def)
qed

lemma deserted_migrates:
  assumes "deserted d" and "lg_version d = Some 1" and "\<not> en_aborts E" and "en_lower E = to_ascii_lowercase"
  shows "\<exists>d'. migrate_from_version Q E now 1 d = (Inr (), d') \<and> version_ok LAST_SCHEMA_VERSION d' \<and> deserted d'"
proof -
  have le: "1 \<le> LAST_SCHEMA_VERSION" by (simp add: LAST_SCHEMA_VERSION_def)
  obtain r d' where run: "run_migrations (migration Q E now) (en_left E) [1 + 1..LAST_SCHEMA_VERSION] d = (r, d')" by (rule prod.exhaust)
  have "version_ok 1 d \<and> en_lower E = to_ascii_lowercase" using assms deserted_keys by (simp add: version_ok_def)
  note cases = keyed.run_cases [OF order_refl le this run]
  have "\<exists>x. r = Inr x"
  proof (cases r)
    case (Inl e)
    with cases obtain k t where "1 \<le> k" "k < LAST_SCHEMA_VERSION" "same_directory d t" "migration Q E now (k + 1) t = Inl e" by auto
    then show ?thesis using deserted_step [OF deserted_same [OF _ assms(1)] assms(3)] by fastforce
  qed simp
  then show ?thesis
    using cases run migrate_from_chain [OF order_refl le, of Q E now d] deserted_same [OF _ assms(1)] by auto
qed

lemma deserted_seeding: "keys_at 12 d \<Longrightarrow> deserted d \<Longrightarrow> seeding (current d)"
  using current_keys [of d] by (simp add: seeding_def exclusive_def spelt_def is_member_def current_def deserted_def)

text \<open>C17: A new database becomes a directory with an administrator. Where the engine continues a transaction
  after an error, all migrations succeed on a database without rows; the tables that they leave hold no
  user and satisfy what the start of the server asks of them, so that a start that succeeds on them
  founds the invariant of the backend, with an administrator, for every later history.\<close>

theorem new_database_founds_invariant:
  assumes "lg_version d = None" and "deserted d" and "\<not> en_aborts E" and "en_lower E = to_ascii_lowercase"
  shows "\<exists>d'. init_table Q E now d = (Inr (), d') \<and> lg_version d' = Some LAST_SCHEMA_VERSION \<and> t_users (current d') = []
    \<and> (\<forall>s s'. w_db (sd_world s) = current d' \<longrightarrow> set_up_server Q P C config info s = (Inr (), s') \<longrightarrow>
         has_admin (w_db (sd_world s')) \<and> (\<forall>w. history Q K P (sd_world s') w \<longrightarrow> guarded (w_db w)))"
proof -
  obtain d1 where d1: "upgrade_to_v1 Q now d = (Inr (), d1)" "deserted d1" "lg_version d1 = Some 1"
    using upgrade_deserted [OF assms(2)] by blast
  obtain d' where d': "migrate_from_version Q E now 1 d1 = (Inr (), d')" "version_ok LAST_SCHEMA_VERSION d'" "deserted d'"
    using deserted_migrates [OF d1(2,3) assms(3,4)] by blast
  have seeded: "seeding (current d')" using deserted_seeding d'(2,3) by (simp add: version_ok_def LAST_SCHEMA_VERSION_def)
  have "has_admin (w_db (sd_world s')) \<and> (\<forall>w. history Q K P (sd_world s') w \<longrightarrow> guarded (w_db w))"
    if "w_db (sd_world s) = current d'" "set_up_server Q P C config info s = (Inr (), s')" for s s'
    using founded [OF seeded [folded that(1)] that(2)] by blast
  moreover have "init_table Q E now d = (Inr (), d')" using assms(1) d1(1) d'(1) by (simp add: init_table_def)
  moreover have "lg_version d' = Some LAST_SCHEMA_VERSION" "t_users (current d') = []"
    using d'(2,3) by (simp_all add: version_ok_def current_def deserted_def)
  ultimately show ?thesis by blast
qed

end
