(* ===== verification/Migration_Witnesses.thy ===== *)
theory Migration_Witnesses
  imports Server_Witnesses Migration_Start
begin

text \<open>
  The theorems about the migrations, applied to small old databases: one user with a first name in a
  group that he joined twice, two users with one email, and a user with the switch for Kerberos under
  its old name; on an engine that behaves like SQLite and on one that behaves like PostgreSQL.
\<close>

section \<open>Old databases\<close>

definition lenient_engine :: engine where
  "lenient_engine = \<lparr>en_lower = to_ascii_lowercase, en_switch_text = Some (\<lambda>v. to_ascii_lowercase v = ''true''),
     en_question_marks = True, en_text_for_blob = True, en_aborts = False, en_left = (\<lambda>_ d. d)\<rparr>"

definition strict_engine :: engine where
  "strict_engine = \<lparr>en_lower = to_ascii_lowercase, en_switch_text = None,
     en_question_marks = False, en_text_for_blob = True, en_aborts = True, en_left = (\<lambda>_ d. d)\<rparr>"

definition old_user :: "string \<Rightarrow> string \<Rightarrow> old_user_row" where
  "old_user name address = user_row.extend ((sample_user_row name ''secret'')\<lparr>ur_email := Email address\<rparr>)
     \<lparr>old_first_name = Some ''Bob'', old_last_name = Some [], old_avatar = None\<rparr>"

definition old_db :: "old_user_row list \<Rightarrow> legacy_db" where
  "old_db us =
     \<lparr>lg_version = Some 1, lg_missing = {SystemConfig, KrbPrincipalName}, lg_users = us,
      lg_groups = [\<lparr>gr_group_id = 1, gr_display_name = GroupName ''Staff'', gr_lowercase_display_name = [], gr_creation_date = 0,
        gr_uuid = ''g'', gr_modified_date = 0\<rparr>],
      lg_memberships = [\<lparr>mb_user_id = UserId ''bob'', mb_group_id = 1\<rparr>, \<lparr>mb_user_id = UserId ''bob'', mb_group_id = 1\<rparr>],
      lg_user_attributes = [], lg_group_attributes = [], lg_user_schema = [], lg_group_schema = [], lg_user_classes = [],
      lg_group_classes = [], lg_config = [], lg_next_group_id = 2, lg_private_key = None\<rparr>"

definition one_user :: legacy_db where
  "one_user = old_db [old_user ''bob'' ''Bob@x'']"

definition twins :: legacy_db where
  "twins = old_db [old_user ''bob'' ''b@x'', old_user ''ben'' ''b@x'']"

text \<open>Version 11, with the attribute under an alias.\<close>

definition switched_on :: legacy_db where
  "switched_on = one_user\<lparr>lg_version := Some 11,
     lg_users := [(old_user ''bob'' ''Bob@x'')\<lparr>ur_lowercase_email := ''bob@x''\<rparr>],
     lg_groups := map (\<lambda>g. g\<lparr>gr_lowercase_display_name := ''staff''\<rparr>) (lg_groups one_user), lg_memberships := [],
     lg_user_schema := [v5_schema_row ''avatar'' TAvatar, v5_schema_row ''kerberos_sync'' TInteger],
     lg_user_attributes := [\<lparr>ua_user_id = UserId ''bob'', ua_name = AttributeName ''kerberos_sync'', ua_value = ''1''\<rparr>]\<rparr>"

definition migrated :: legacy_db where
  "migrated = snd (init_table sample_sql lenient_engine 7 one_user)"

lemma one_user_migrates: "fst (init_table sample_sql lenient_engine 7 one_user) = Inr ()"
  by code_simp

lemma one_user_run: "init_table sample_sql lenient_engine 7 one_user = (Inr (), migrated)"
  using one_user_migrates by (simp add: migrated_def prod_eq_iff)

lemma one_user_keys: "keys_at 1 one_user"
  by code_simp

section \<open>Witnesses\<close>

theorem migrations_establish_keys_witness:
  "lg_version migrated = Some LAST_SCHEMA_VERSION \<and> db_ok (current migrated) \<and> same_directory one_user migrated"
proof -
  have "lg_version one_user = Some 1" "version_of one_user = 1" "en_lower lenient_engine = to_ascii_lowercase"
    by (simp_all add: one_user_def old_db_def lenient_engine_def version_of_def)
  then show ?thesis
    using migrations_establish_keys [OF _ _ _ one_user_run] one_user_keys by simp
qed

theorem failed_migration_resumes_witness:
  "\<exists>k e. lg_version (snd (init_table sample_sql lenient_engine 7 twins)) = Some k \<and> k < LAST_SCHEMA_VERSION
     \<and> migration sample_sql lenient_engine 7 (k + 1) (snd (init_table sample_sql lenient_engine 7 twins)) = Inl e"
proof -
  let ?run = "init_table sample_sql lenient_engine 7 twins"
  have "fst ?run = db_error unique_violation" by code_simp
  then have run: "?run = (Inl (DatabaseError unique_violation), snd ?run)" by (simp add: prod_eq_iff db_error_def)
  have keys: "keys_at 1 twins" by code_simp
  have e: "lg_version twins = Some 1" "en_lower lenient_engine = to_ascii_lowercase" "(1::int) \<le> LAST_SCHEMA_VERSION"
    "rolls_back lenient_engine"
    by (simp_all add: twins_def old_db_def lenient_engine_def LAST_SCHEMA_VERSION_def rolls_back_def)
  from failed_migration_resumes [OF e(1) order_refl e(3) keys e(2) run] obtain k x where
    "k < LAST_SCHEMA_VERSION" "lg_version x = Some k" "rolls_back lenient_engine \<longrightarrow> snd ?run = x"
    "migration sample_sql lenient_engine 7 (k + 1) x = Inl (DatabaseError unique_violation)"
    by (elim exE conjE)
  then show ?thesis using e(4) by blast
qed

theorem aborting_engine_never_migrates_witness:
  "(\<exists>e d'. init_table sample_sql strict_engine 7 one_user = (Inl e, d'))
   \<and> (\<exists>e d'. init_table sample_sql strict_engine 7 (one_user\<lparr>lg_version := None\<rparr>) = (Inl e, d'))"
proof -
  have "lg_version one_user = Some 1" "en_aborts strict_engine"
    by (simp_all add: one_user_def old_db_def strict_engine_def)
  then show ?thesis
    using aborting_engine_never_migrates [of strict_engine one_user sample_sql 7]
      aborting_engine_never_migrates [of strict_engine "one_user\<lparr>lg_version := None\<rparr>" sample_sql 7]
    by (simp add: LAST_SCHEMA_VERSION_def)
qed

theorem names_survive_migration_witness:
  "new_profile migrated (UserId ''bob'') (Some ''Bob'', None, None)"
proof -
  let ?r = "old_user ''bob'' ''Bob@x''"
  have "lg_version one_user = Some 1" "en_lower lenient_engine = to_ascii_lowercase" "en_question_marks lenient_engine"
    "\<not> en_aborts lenient_engine" "?r \<in> set (lg_users one_user)"
    by (simp_all add: one_user_def old_db_def lenient_engine_def)
  moreover have "ur_user_id ?r = UserId ''bob''" "old_profile 1 ?r = (Some ''Bob'', None, None)"
    by (simp_all add: old_user_def old_profile_def tidy_def null_if_empty_def user_row.defs sample_user_row_def)
  ultimately show ?thesis
    using names_survive_migration [of one_user 1 lenient_engine sample_sql 7 migrated ?r] one_user_keys one_user_run by simp
qed

theorem kerberos_alias_lost_witness:
  "\<exists>d'. migrate_to_v12 sample_sql lenient_engine switched_on = Inr d' \<and> stored switched_on (UserId ''bob'') ''kerberos_sync'' ''1''
     \<and> stored d' (UserId ''bob'') ''kerberossync'' ''0'' \<and> \<not> stored d' (UserId ''bob'') ''kerberossync'' ''1''
     \<and> \<not> has_name ''kerberos_sync'' d'"
proof -
  have e: "en_question_marks lenient_engine" "\<not> en_aborts lenient_engine" by (simp_all add: lenient_engine_def)
  obtain d' where d': "migrate_to_v12 sample_sql lenient_engine switched_on = Inr d'" using v12_tried [OF e(2)] by blast
  have keys: "keys_at 11 switched_on" by code_simp
  have user: "UserId ''bob'' \<in> ur_user_id ` set (lg_users switched_on)" by code_simp
  have old: "stored switched_on (UserId ''bob'') ''kerberos_sync'' ''1''" "\<not> stored switched_on (UserId ''bob'') ''kerberossync'' w" for w
    by (simp_all add: switched_on_def stored_def)
  show ?thesis
    using kerberos_alias_lost [OF keys e d' user old(2), of "''0''"] kerberos_alias_lost [OF keys e d' user old(2), of "''1''"] d' old(1)
    by auto
qed

definition new_db :: legacy_db where
  "new_db = (old_db [])\<lparr>lg_version := None, lg_missing := {}, lg_groups := [], lg_memberships := []\<rparr>"

text \<open>The tables of a new database after the migrations.\<close>

definition fresh_tables :: db where
  "fresh_tables = current (new_db
     \<lparr>lg_user_schema := [v5_schema_row ''first_name'' TString, v5_schema_row ''last_name'' TString, v5_schema_row ''avatar'' TAvatar]
        @ map (hardcoded_row founding_sql) (filter (\<lambda>a. as_name a \<noteq> ''avatar'') (user_attributes public_schema_get)),
      lg_group_schema := map (hardcoded_row founding_sql) (group_attributes public_schema_get),
      lg_config := [(''allowedous'', ''people'')]\<rparr>)"

lemma new_db_migrated: "current (snd (init_table founding_sql lenient_engine 7 new_db)) = fresh_tables"
  by code_simp

definition fresh_server :: "unit server_db" where
  "fresh_server = empty_tables\<lparr>sd_world := (sd_world empty_tables)\<lparr>w_db := fresh_tables\<rparr>\<rparr>"

lemma fresh_start:
  "fst (set_up_server founding_sql sample_opaque sample_client first_config (private_key_info_of sample_keys drawn_key) fresh_server) = Inr ()"
  by code_simp

theorem new_database_founds_invariant_witness:
  "\<exists>d'. init_table founding_sql lenient_engine 7 new_db = (Inr (), d') \<and> current d' = w_db (sd_world fresh_server)
    \<and> has_admin (w_db (sd_world (snd (set_up_server founding_sql sample_opaque sample_client first_config
        (private_key_info_of sample_keys drawn_key) fresh_server))))"
proof -
  let ?run = "set_up_server founding_sql sample_opaque sample_client first_config (private_key_info_of sample_keys drawn_key) fresh_server"
  have run: "?run = (Inr (), snd ?run)" using fresh_start by (simp add: prod_eq_iff)
  have "lg_version new_db = None" "deserted new_db" "\<not> en_aborts lenient_engine" "en_lower lenient_engine = to_ascii_lowercase"
    by (simp_all add: new_db_def old_db_def deserted_def lenient_engine_def)
  from new_database_founds_invariant [OF this, of founding_sql 7 sample_opaque sample_client first_config
      "private_key_info_of sample_keys drawn_key" sample_kerberos]
  obtain d' where d': "init_table founding_sql lenient_engine 7 new_db = (Inr (), d')"
    and s: "\<And>s s'. w_db (sd_world s) = current d' \<Longrightarrow> set_up_server founding_sql sample_opaque sample_client first_config
      (private_key_info_of sample_keys drawn_key) (s :: unit server_db) = (Inr (), s') \<Longrightarrow> has_admin (w_db (sd_world s'))" by blast
  have eq: "w_db (sd_world fresh_server) = current d'" using new_db_migrated d' by (simp add: fresh_server_def)
  show ?thesis using d' eq [symmetric] s [OF eq run] by blast
qed

end
