(* ===== verification/Kerberos_Manager.thy ===== *)
theory Kerberos_Manager
  imports Kerberos "HOL-Library.Word"
begin

unbundle bit_operations_syntax

text \<open>
  The program that prepares and runs the KDC (\<open>kerberos/src/bin/kerberos_manager.rs\<close>): the
  configuration files that it renders, the access list \<open>kadm5.acl\<close> that it creates, checks and
  repairs, the first set-up of the KDC database and the daemons. Files are a map from paths to
  texts with their permission bits; external commands, the template engine and the reader of the
  configuration are parameters.
\<close>

section \<open>Texts\<close>

definition newline :: char where "newline = CHR 0x0A"

definition carriage_return :: char where "carriage_return = CHR 0x0D"

text \<open>\<open>str::lines\<close>: a line ends at a newline, with the carriage return before it; the last one needs
  none.\<close>

definition strip_cr :: "string \<Rightarrow> string" where
  "strip_cr s = (if s \<noteq> [] \<and> last s = carriage_return then butlast s else s)"

definition str_lines :: "string \<Rightarrow> string list" where
  "str_lines s = (let ps = split_on newline s in map strip_cr (butlast ps) @ (if last ps = [] then [] else [last ps]))"

fun split_white :: "string \<Rightarrow> string list" where
  "split_white [] = [[]]"
| "split_white (x # xs) =
     (if is_white x then [] # split_white xs
      else (case split_white xs of [] \<Rightarrow> [[x]] | p # ps \<Rightarrow> (x # p) # ps))"

definition split_whitespace :: "string \<Rightarrow> string list" where
  "split_whitespace s = filter (\<lambda>p. p \<noteq> []) (split_white s)"

section \<open>The access list\<close>

definition is_comment :: "string \<Rightarrow> bool" where
  "is_comment t \<longleftrightarrow> starts_with t ''#'' \<or> starts_with t '';''"

definition has_sufficient_admin_entry :: "string \<Rightarrow> string \<Rightarrow> bool" where
  "has_sufficient_admin_entry content admin_princ =
     list_ex (\<lambda>line. let t = trim line in
        \<not> (t = [] \<or> is_comment t) \<and> first_opt (split_whitespace t) = Some admin_princ \<and> CHR ''*'' \<in> set t)
       (str_lines content)"

fun count_acl :: "string list \<Rightarrow> nat \<times> nat \<Rightarrow> nat \<times> nat" where
  "count_acl [] n = n"
| "count_acl (line # ls) (data, valid) =
     (let t = trim line in
      if t = [] \<or> is_comment t then count_acl ls (data, valid)
      else (case split_whitespace t of
              princ # _ # _ \<Rightarrow>
                if CHR ''@'' \<in> set princ \<or> CHR ''/'' \<in> set princ then count_acl ls (data + 1, valid + 1)
                else count_acl ls (data + 1, valid)
            | _ \<Rightarrow> count_acl ls (data + 1, valid)))"

definition acl_structure_looks_valid :: "string \<Rightarrow> bool" where
  "acl_structure_looks_valid content =
     (let (data, valid) = count_acl (str_lines content) (0, 0) in if data = 0 then False else 0 < valid)"

record repair_state =
  output_lines :: "string list"
  saw_admin_with_star :: bool
  bad_data_lines :: nat
  total_data_lines :: nat

definition repair_line :: "string \<Rightarrow> string \<Rightarrow> string \<Rightarrow> repair_state \<Rightarrow> repair_state" where
  "repair_line admin_princ required_line line s =
     (let t = trim line in
      if t = [] then s\<lparr>output_lines := output_lines s @ [[]]\<rparr>
      else if is_comment t then s\<lparr>output_lines := output_lines s @ [t]\<rparr>
      else (let s = s\<lparr>total_data_lines := total_data_lines s + 1\<rparr> in
            case split_whitespace t of
              princ # _ # _ \<Rightarrow>
                if princ = admin_princ
                then s\<lparr>output_lines := output_lines s @ [required_line], saw_admin_with_star := True\<rparr>
                else s\<lparr>output_lines := output_lines s @ [t]\<rparr>
            | _ \<Rightarrow> s\<lparr>bad_data_lines := bad_data_lines s + 1\<rparr>))"

text \<open>The quotient of two small counts in single precision is compared exactly.\<close>

definition too_garbled :: "repair_state \<Rightarrow> bool" where
  "too_garbled s \<longleftrightarrow> 0 < total_data_lines s \<and> (2 < bad_data_lines s \<or> total_data_lines s < 2 * bad_data_lines s)"

definition best_effort_repair_or_standardize :: "string \<Rightarrow> string \<Rightarrow> string \<Rightarrow> string option" where
  "best_effort_repair_or_standardize content admin_princ required_line =
     (let s = fold (repair_line admin_princ required_line) (str_lines content)
                \<lparr>output_lines = [], saw_admin_with_star = False, bad_data_lines = 0, total_data_lines = 0\<rparr>;
          ls = (if saw_admin_with_star s then output_lines s else output_lines s @ [required_line]);
          result = join_with [newline] ls
      in if too_garbled s then None
         else Some (if ends_with result [newline] then result else result @ [newline]))"

section \<open>Files and commands\<close>

definition mode_644 :: "32 word" where "mode_644 = 0x1A4"

record host_file =
  f_text :: string
  f_mode :: "32 word"

record host =
  hs_files :: "string \<rightharpoonup> host_file"

record krb_config =
  kc_realm_name :: string
  kc_base_dn :: string
  kc_ticket_lifetime :: string
  kc_renew_lifetime :: string
  kc_forwardable :: bool
  kc_rdns :: bool

text \<open>What the process may do with a file; the mode of a new one; the template engine; the reader of
  the configuration in its three stages; commands that run to their end (success and output, or no
  start); commands that are fed through a pipe; daemons that are started and waited for.\<close>

datatype piped = NotStarted | NotFed | NotWaited | Ended bool

record manager_env =
  me_readable :: "host_file \<Rightarrow> bool"
  me_writable :: "string \<Rightarrow> bool"
  me_owner :: "string \<Rightarrow> bool"
  me_new_mode :: "32 word"
  me_render :: "string \<Rightarrow> krb_config \<Rightarrow> string \<Rightarrow> string option"
  me_toml :: "string \<Rightarrow> bool"
  me_kerberos_table :: "string \<Rightarrow> bool"
  me_deserialize :: "string \<Rightarrow> krb_config option"
  me_create_dir :: "string \<Rightarrow> bool"
  me_run :: "string list \<Rightarrow> string \<Rightarrow> host \<Rightarrow> (bool \<times> string) option \<times> host"
  me_pipe :: "string list \<Rightarrow> string \<Rightarrow> host \<Rightarrow> piped \<times> host"
  me_spawn :: "string \<Rightarrow> host \<Rightarrow> bool \<times> host"
  me_wait :: "string \<Rightarrow> host \<Rightarrow> bool option \<times> host"

text \<open>A command that was not fed both lines or could not be waited for may still have acted on the host.\<close>

type_synonym 'a io = "host \<Rightarrow> (string + 'a) \<times> host"

definition read_to_string :: "manager_env \<Rightarrow> string \<Rightarrow> host \<Rightarrow> string option" where
  "read_to_string E path h =
     (case hs_files h path of None \<Rightarrow> None | Some f \<Rightarrow> if me_readable E f then Some (f_text f) else None)"

definition write_file :: "manager_env \<Rightarrow> string \<Rightarrow> string \<Rightarrow> string \<Rightarrow> unit io" where
  "write_file E context path text h =
     (if me_writable E path
      then (Inr (), h\<lparr>hs_files := (hs_files h)(path \<mapsto>
              \<lparr>f_text = text, f_mode = (case hs_files h path of None \<Rightarrow> me_new_mode E | Some f \<Rightarrow> f_mode f)\<rparr>)\<rparr>)
      else (Inl context, h))"

text \<open>\<open>fs::copy\<close> copies the permission bits too.\<close>

definition copy_file :: "manager_env \<Rightarrow> string \<Rightarrow> string \<Rightarrow> string \<Rightarrow> unit io" where
  "copy_file E context from to h =
     (case hs_files h from of
        Some f \<Rightarrow> if me_readable E f \<and> me_writable E to then (Inr (), h\<lparr>hs_files := (hs_files h)(to \<mapsto> f)\<rparr>) else (Inl context, h)
      | None \<Rightarrow> (Inl context, h))"

text \<open>A command of which only a failed start is an error.\<close>

definition status :: "manager_env \<Rightarrow> string \<Rightarrow> string list \<Rightarrow> unit io" where
  "status E context args h =
     (case me_run E args [] h of (None, h') \<Rightarrow> (Inl context, h') | (Some _, h') \<Rightarrow> (Inr (), h'))"

definition chown :: "string list \<Rightarrow> string \<Rightarrow> string list" where
  "chown options path = [''sudo'', ''chown''] @ options @ [''lldap:lldap'', path]"

definition render_template :: "manager_env \<Rightarrow> string \<Rightarrow> string \<Rightarrow> krb_config \<Rightarrow> string \<Rightarrow> unit io" where
  "render_template E template_path output_path config domain h =
     (case read_to_string E template_path h of
        None \<Rightarrow> (Inl (''Failed to read template: '' @ template_path), h)
      | Some template \<Rightarrow>
          (case me_render E template config domain of
             None \<Rightarrow> (Inl ''template'', h)
           | Some rendered \<Rightarrow> write_file E (''Failed to write '' @ output_path) output_path rendered h))"

definition apply_permissions :: "manager_env \<Rightarrow> string \<Rightarrow> unit io" where
  "apply_permissions E path h =
     (case hs_files h path of
        Some f \<Rightarrow>
          if me_owner E path
          then (Inr (), snd (me_run E (chown [] path) [] (h\<lparr>hs_files := (hs_files h)(path \<mapsto> f\<lparr>f_mode := mode_644\<rparr>)\<rparr>)))
          else (Inl ''Failed to set 0644 permissions on kadm5.acl'', h)
      | None \<Rightarrow> (Inl ''Failed to set 0644 permissions on kadm5.acl'', h))"

definition apply_permissions_if_needed :: "manager_env \<Rightarrow> string \<Rightarrow> unit io" where
  "apply_permissions_if_needed E path h =
     (case hs_files h path of
        None \<Rightarrow> apply_permissions E path h
      | Some f \<Rightarrow> if f_mode f AND mode_644 \<noteq> mode_644 then apply_permissions E path h else (Inr (), h))"

text \<open>The errors of the permissions are ignored.\<close>

definition ensure_kadm5_acl :: "manager_env \<Rightarrow> string \<Rightarrow> string \<Rightarrow> krb_config \<Rightarrow> string \<Rightarrow> unit io" where
  "ensure_kadm5_acl E acl_path template_path config domain h =
     (let admin_princ = ''admin/admin@'' @ to_uppercase (kc_realm_name config);
          required_line = admin_princ @ ''    *'';
          repair_permissions = (\<lambda>h. snd (apply_permissions_if_needed E acl_path h))
      in if hs_files h acl_path = None then
           sbind (render_template E template_path acl_path config domain h)
             (\<lambda>_ h. (Inr (), snd (apply_permissions E acl_path h)))
         else
           sbind (case read_to_string E acl_path h of
                    Some c \<Rightarrow> (Inr c, h)
                  | None \<Rightarrow> (let h = snd (apply_permissions E acl_path h) in
                             (ok_or ''kadm5.acl still unreadable after permission repair'' (read_to_string E acl_path h), h)))
             (\<lambda>original_content h.
               let h = repair_permissions h in
               if has_sufficient_admin_entry original_content admin_princ \<and> acl_structure_looks_valid original_content
               then (Inr (), h)
               else
                 sbind (case best_effort_repair_or_standardize original_content admin_princ required_line of
                          Some repaired \<Rightarrow>
                            if trim repaired \<noteq> trim original_content
                            then write_file E ''Failed to write repaired kadm5.acl'' acl_path repaired h
                            else (Inr (), h)
                        | None \<Rightarrow> render_template E template_path acl_path config domain h)
                   (\<lambda>_ h. (Inr (), repair_permissions h))))"

section \<open>The program\<close>

definition load_config :: "manager_env \<Rightarrow> krb_config io" where
  "load_config E h =
     sbind (if hs_files h ''/data/kerberos_config.toml'' = None
            then copy_file E ''Failed to copy config template'' ''/app/kerberos_config.template.toml'' ''/data/kerberos_config.toml'' h
            else (Inr (), h))
       (\<lambda>_ h.
         case read_to_string E ''/data/kerberos_config.toml'' h of
           None \<Rightarrow> (Inl ''Failed to read kerberos_config.toml'', h)
         | Some toml_str \<Rightarrow>
             if \<not> me_toml E toml_str then (Inl ''Failed to parse TOML'', h)
             else if \<not> me_kerberos_table E toml_str then (Inl ''Missing [kerberos] table'', h)
             else (ok_or ''Failed to deserialize [kerberos]'' (me_deserialize E toml_str), h))"

text \<open>The realm and the base DN of the environment win.\<close>

definition effective_config :: "'s kerberos \<Rightarrow> krb_config \<Rightarrow> krb_config" where
  "effective_config K config =
     config\<lparr>kc_realm_name := derive_realm_from_base_dn K, kc_base_dn := unwrap_or (kc_base_dn config) (env_base_dn K)\<rparr>"

definition render_configs :: "manager_env \<Rightarrow> krb_config \<Rightarrow> unit io" where
  "render_configs E config h =
     (let domain = domain_of_base_dn (kc_base_dn config) in
      if \<not> me_create_dir E ''/var/kerberos/krb5kdc'' then (Inl ''Failed to create krb5kdc dir'', h)
      else
        sbind (render_template E ''/app/krb5.template.conf'' ''/etc/krb5.conf'' config domain h) (\<lambda>_ h.
        sbind (render_template E ''/app/kdc.template.conf'' ''/var/kerberos/krb5kdc/kdc.conf'' config domain h) (\<lambda>_ h.
        ensure_kadm5_acl E ''/var/kerberos/krb5kdc/kadm5.acl'' ''/app/kadm5.template.acl'' config domain h)))"

definition keycloak_default :: "manager_env \<Rightarrow> unit io" where
  "keycloak_default E h =
     (if hs_files h ''/data/keycloak_config.toml'' = None
      then sbind (copy_file E ''Failed to copy keycloak_config.template.toml''
                    ''/app/keycloak_config.template.toml'' ''/data/keycloak_config.toml'' h)
             (\<lambda>_. status E ''Failed to chown keycloak_config.toml'' (chown [] ''/data/keycloak_config.toml''))
      else (Inr (), h))"

definition run_kadmin_local :: "manager_env \<Rightarrow> string \<Rightarrow> bool io" where
  "run_kadmin_local E query h =
     (case me_run E [''sudo'', ''/usr/sbin/kadmin.local'', ''-q'', query] [] h of
        (None, h') \<Rightarrow> (Inl ''Failed to spawn sudo kadmin.local'', h')
      | (Some (success, _), h') \<Rightarrow> (Inr success, h'))"

definition kadm5_keytab :: string where "kadm5_keytab = ''/data/kadm5.keytab''"

definition create_kdc_database :: "manager_env \<Rightarrow> unit io" where
  "create_kdc_database E h =
     (case me_run E [''openssl'', ''rand'', ''-hex'', ''32''] [] h of
        (None, h) \<Rightarrow> (Inl ''Failed to generate random master password'', h)
      | (Some (_, out), h) \<Rightarrow>
          (let master_pass = trim out in
           case me_pipe E [''sudo'', ''kdb5_util'', ''create'', ''-s''] (master_pass @ [newline] @ master_pass @ [newline]) h of
             (NotStarted, h) \<Rightarrow> (Inl ''Failed to spawn sudo kdb5_util'', h)
           | (NotFed, h) \<Rightarrow> (Inl ''writeln'', h)
           | (NotWaited, h) \<Rightarrow> (Inl ''Failed to wait on kdb5_util'', h)
           | (Ended success, h) \<Rightarrow> (if success then Inr () else Inl ''kdb5_util failed!'', h)))"

definition bootstrap :: "manager_env \<Rightarrow> krb_config \<Rightarrow> unit io" where
  "bootstrap E config h =
     (if hs_files h ''/var/kerberos/krb5kdc/principal'' \<noteq> None then (Inr (), h)
      else
        (let admin_princ = ''admin/admin@'' @ to_uppercase (kc_realm_name config) in
         sbind (create_kdc_database E h) (\<lambda>_ h.
         sbind (run_kadmin_local E (''addprinc -randkey '' @ admin_princ) h) (\<lambda>added h.
         if \<not> added then (Inl ''addprinc failed'', h)
         else
           sbind (run_kadmin_local E (''ktadd -k '' @ kadm5_keytab @ '' '' @ admin_princ) h) (\<lambda>exported h.
           if \<not> exported then (Inl ''ktadd failed'', h)
           else
             sbind (status E ''Failed to chown keytab'' (chown [] kadm5_keytab) h) (\<lambda>_.
             status E ''Failed to chown DB dir'' (chown [''-R''] ''/var/kerberos/krb5kdc'')))))))"

text \<open>The wait for the port of the KDC ends after a minute and never fails.\<close>

definition start_daemons :: "manager_env \<Rightarrow> krb_config \<Rightarrow> unit io" where
  "start_daemons E config h =
     (let admin_princ = ''admin/admin@'' @ to_uppercase (kc_realm_name config);
          (kdc, h) = me_spawn E ''/usr/sbin/krb5kdc'' h
      in if \<not> kdc then (Inl ''Failed to start krb5kdc'', h)
         else
           (let (kadmind, h) = me_spawn E ''/usr/sbin/kadmind'' h in
            if \<not> kadmind then (Inl ''Failed to start kadmind'', h)
            else if hs_files h kadm5_keytab = None then (Inr (), h)
            else
              (case me_run E [''/usr/bin/kinit'', ''-k'', ''-t'', kadm5_keytab, admin_princ] [] h of
                 (None, h) \<Rightarrow> (Inl ''Failed kinit'', h)
               | (Some (success, _), h) \<Rightarrow> (if success then Inr () else Inl ''kinit failed'', h))))"

definition wait_for_daemons :: "manager_env \<Rightarrow> unit io" where
  "wait_for_daemons E h =
     (case me_wait E ''/usr/sbin/krb5kdc'' h of
        (None, h) \<Rightarrow> (Inl ''krb5kdc exited unexpectedly'', h)
      | (Some kdc, h) \<Rightarrow>
          (case me_wait E ''/usr/sbin/kadmind'' h of
             (None, h) \<Rightarrow> (Inl ''kadmind exited unexpectedly'', h)
           | (Some kadmind, h) \<Rightarrow> (if kdc \<and> kadmind then Inr () else Inl ''Kerberos service failed'', h)))"

text \<open>All that happens before the program waits for its daemons.\<close>

definition prepare :: "manager_env \<Rightarrow> 's kerberos \<Rightarrow> krb_config io" where
  "prepare E K h =
     sbind (load_config E h) (\<lambda>loaded h.
     let config = effective_config K loaded in
     sbind (render_configs E config h) (\<lambda>_ h.
     sbind (keycloak_default E h) (\<lambda>_ h.
     sbind (bootstrap E config h) (\<lambda>_ h. (Inr config, h)))))"

definition manager_main :: "manager_env \<Rightarrow> 's kerberos \<Rightarrow> unit io" where
  "manager_main E K h =
     sbind (prepare E K h) (\<lambda>config h.
     sbind (start_daemons E config h) (\<lambda>_. wait_for_daemons E))"

end
