(* ===== verification/Keycloak.thy ===== *)
theory Keycloak
  imports Kerberos_Manager
begin

text \<open>
  The federation with Keycloak (\<open>kerberos/src/keycloak_config.rs\<close>, \<open>kerberos/src/keycloak_client.rs\<close> and
  the queries and mutations of the GraphQL server that drive them): the settings and their file, the
  realm as a document, and the client that creates a realm over HTTP. The network, the JSON and TOML
  libraries are parameters; the client keeps the list of the requests it has sent.
\<close>

section \<open>Documents\<close>

datatype json =
    JNull | JBool bool | JNumber int | JString string | JArray "json list" | JObject "(string \<times> json) list"

definition json_get :: "string \<Rightarrow> json \<Rightarrow> json option" where
  "json_get k j = (case j of JObject kvs \<Rightarrow> map_of kvs k | _ \<Rightarrow> None)"

definition as_str :: "json \<Rightarrow> string option" where
  "as_str j = (case j of JString s \<Rightarrow> Some s | _ \<Rightarrow> None)"

definition json_str :: "string \<Rightarrow> json \<Rightarrow> string option" where
  "json_str k j = Option.bind (json_get k j) as_str"

text \<open>A setting of a Keycloak component is a list of texts.\<close>

definition setting :: "string \<Rightarrow> string \<Rightarrow> string \<times> json" where
  "setting k v = (k, JArray [JString v])"

section \<open>Settings\<close>

record keycloak_config =
  kk_url :: string
  kk_realm :: string
  kk_admin_user :: string

record keycloak_suggested_config =
  ks_url :: string
  ks_realm :: string
  ks_admin_username :: string
  ks_keycloak_hostname :: string

record realm_generation_options =
  go_realm :: string
  go_use_ldaps :: bool
  go_external_keycloak :: bool
  go_external_keycloak_url :: string
  go_keycloak_hostname :: string
  go_enable_hsts :: bool
  go_enable_brute_force :: bool

record keycloak_libs =
  kl_toml_of_config :: "keycloak_config \<Rightarrow> string option"
  kl_config_of_toml :: "string \<Rightarrow> keycloak_config option"
  kl_json_of_text :: "string \<Rightarrow> json option"
  kl_status_text :: "nat \<Rightarrow> string"
  kl_env_admin_pass :: "string option"

definition get_keycloak_suggested_config :: "'s kerberos \<Rightarrow> keycloak_suggested_config" where
  "get_keycloak_suggested_config K =
     \<lparr>ks_url = ''http://keycloak.'' @ derive_domain_from_base_dn K, ks_realm = to_ascii_lowercase (derive_realm_from_base_dn K),
      ks_admin_username = ''admin'', ks_keycloak_hostname = ''keycloak''\<rparr>"

definition dots_to_dcs :: "string \<Rightarrow> string" where
  "dots_to_dcs s = concat (map (\<lambda>c. if c = CHR ''.'' then '',dc='' else [c]) s)"

definition federation_url :: "bool \<Rightarrow> string" where
  "federation_url use_ldaps = (if use_ldaps then ''ldaps://lldap:636'' else ''ldap://lldap:389'')"

definition generated_hostname :: "'s kerberos \<Rightarrow> realm_generation_options \<Rightarrow> string" where
  "generated_hostname K options =
     (if go_external_keycloak options \<and> trim (go_external_keycloak_url options) \<noteq> [] then go_external_keycloak_url options
      else if trim (go_keycloak_hostname options) = [] \<or> trim (go_keycloak_hostname options) = ''keycloak''
      then ''keycloak.'' @ derive_domain_from_base_dn K
      else go_keycloak_hostname options)"

definition hsts_header :: "bool \<Rightarrow> string" where
  "hsts_header on = (if on then ''max-age=31536000; includeSubDomains'' else [])"

text \<open>The settings that both documents of the provider share, from the realm of the KDC on.\<close>

definition provider_tail :: "string \<Rightarrow> string \<Rightarrow> (string \<times> json) list" where
  "provider_tail realm server_principal =
     [setting ''userObjectClasses'' ''top, person, inetOrgPerson, posixAccount, ldapPublicKey'',
      setting ''rdnLDAPAttribute'' ''uid'', setting ''uuidLDAPAttribute'' ''entryUUID'', setting ''usernameLDAPAttribute'' ''uid'',
      setting ''customUserSearchFilter'' ''(&(!(objectClass=organizationalUnit))(kerberossync=1))'',
      setting ''searchScope'' ''2'', setting ''validatePasswordPolicy'' ''false'', setting ''trustEmail'' ''true'',
      setting ''syncRegistrations'' ''true'', setting ''fullSyncPeriod'' ''86400'', setting ''changedSyncPeriod'' ''300'',
      setting ''editMode'' ''READ_ONLY'', setting ''importEnabled'' ''true'', setting ''pagination'' ''true'',
      setting ''allowKerberosAuthentication'' ''true'', setting ''kerberosRealm'' realm, setting ''serverPrincipal'' server_principal,
      setting ''keyTab'' ''/keytab/keycloak-http.keytab'', setting ''krbPrincipalAttribute'' ''krbPrincipalName'',
      setting ''useKerberosForPasswordAuthentication'' ''false'', setting ''useTruststoreSpi'' ''always'',
      setting ''connectionPooling'' ''true'', setting ''cachePolicy'' ''DEFAULT'', setting ''usePasswordModifyExtendedOp'' ''false'',
      setting ''connectionTrace'' ''false'']"

definition provider_json :: "(string \<times> json) list \<Rightarrow> json" where
  "provider_json settings = JObject
     [(''name'', JString ''lldap-with-kerberos''), (''providerId'', JString ''ldap''),
      (''providerType'', JString ''org.keycloak.storage.UserStorageProvider''), (''config'', JObject settings)]"

definition web_client_json :: json where
  "web_client_json = JObject
     [(''clientId'', JString ''lldap-web''), (''name'', JString ''LLDAP Web Apps''), (''enabled'', JBool True),
      (''protocol'', JString ''openid-connect''), (''publicClient'', JBool True), (''standardFlowEnabled'', JBool True),
      (''implicitFlowEnabled'', JBool True), (''directAccessGrantsEnabled'', JBool True),
      (''redirectUris'', JArray [JString ''*'']), (''webOrigins'', JArray [JString ''+''])]"

definition content_policy :: string where
  "content_policy = ''frame-src '' @ [CHR 0x27] @ ''self'' @ [CHR 0x27] @ ''; frame-ancestors '' @ [CHR 0x27] @ ''self'' @ [CHR 0x27]
     @ ''; object-src '' @ [CHR 0x27] @ ''none'' @ [CHR 0x27] @ '';''"

definition generated_provider :: "'s kerberos \<Rightarrow> realm_generation_options \<Rightarrow> json" where
  "generated_provider K options =
     (let realm_upper = derive_realm_from_base_dn K;
          base = dots_to_dcs (to_ascii_lowercase realm_upper)
      in provider_json
          ([setting ''vendor'' ''other'', setting ''connectionUrl'' (federation_url (go_use_ldaps options)),
            setting ''bindDn'' (''uid=keycloak,ou=people,'' @ base),
            setting ''bindCredential'' ''<ENTER YOUR KEYCLOAK BIND PASSWORD HERE AFTER IMPORT>'',
            setting ''usersDn'' (''ou=people,'' @ base), setting ''groupsDn'' (''ou=groups,'' @ base)]
           @ provider_tail realm_upper (''HTTP/'' @ generated_hostname K options @ ''@'' @ realm_upper)))"

definition generate_keycloak_realm_json :: "'s kerberos \<Rightarrow> realm_generation_options \<Rightarrow> json" where
  "generate_keycloak_realm_json K options = JObject
     [(''realm'', JString (to_ascii_lowercase (go_realm options))), (''enabled'', JBool True),
      (''sslRequired'', JString (if go_use_ldaps options then ''external'' else ''none'')),
      (''registrationAllowed'', JBool False), (''resetPasswordAllowed'', JBool False), (''rememberMe'', JBool True),
      (''editUsernameAllowed'', JBool False), (''verifyEmail'', JBool False), (''loginWithEmailAllowed'', JBool False),
      (''duplicateEmailsAllowed'', JBool False), (''registrationEmailAsUsername'', JBool False),
      (''ssoSessionMaxLifespan'', JNumber 43200), (''accessTokenLifespan'', JNumber 900),
      (''clients'', JArray [web_client_json]),
      (''components'', JObject [(''org.keycloak.storage.UserStorageProvider'', JArray [generated_provider K options])]),
      (''browserSecurityHeaders'', JObject
         [(''strictTransportSecurity'', JString (hsts_header (go_enable_hsts options))), (''xFrameOptions'', JString ''SAMEORIGIN''),
          (''contentSecurityPolicy'', JString content_policy), (''contentSecurityPolicyReportOnly'', JString []),
          (''xContentTypeOptions'', JString ''nosniff''), (''xRobotsTag'', JString ''none''), (''referrerPolicy'', JString ''no-referrer'')]),
      (''bruteForceProtected'', JBool (go_enable_brute_force options)),
      (''_comment'', JString ''Generated by LLDAP+Kerberos Federation page. Import with --import-realm. Set Bind Credential after import.'')]"

definition keycloak_config_path :: string where "keycloak_config_path = ''/data/keycloak_config.toml''"

definition load_keycloak_config :: "keycloak_libs \<Rightarrow> manager_env \<Rightarrow> 's kerberos \<Rightarrow> host \<Rightarrow> string + keycloak_config" where
  "load_keycloak_config L E K h =
     (if hs_files h keycloak_config_path \<noteq> None
      then (case read_to_string E keycloak_config_path h of
              None \<Rightarrow> Inl ''Failed to read keycloak_config.toml''
            | Some toml_str \<Rightarrow> ok_or ''Failed to parse keycloak_config.toml'' (kl_config_of_toml L toml_str))
      else Inr \<lparr>kk_url = ''http://keycloak.'' @ derive_domain_from_base_dn K,
                kk_realm = to_ascii_lowercase (derive_realm_from_base_dn K), kk_admin_user = ''admin''\<rparr>)"

definition config_header :: string where
  "config_header = concat (map (\<lambda>l. ''    '' @ l @ [newline])
     [''# LLDAP + Kerberos + Keycloak federation settings'',
      ''# Generated / updated via '' @ [CHR 0x22] @ ''Save Settings'' @ [CHR 0x22] @ '' button in the UI'',
      ''# Password not saved here, set via env var LLDAP_KEYCLOAK_ADMIN_PASS'',
      ''# Edit via '' @ [CHR 0x22] @ ''Federation'' @ [CHR 0x22] @ '' settings in UI.'']) @ [newline] @ ''    ''"

definition save_keycloak_config :: "keycloak_libs \<Rightarrow> manager_env \<Rightarrow> keycloak_config \<Rightarrow> unit io" where
  "save_keycloak_config L E config h =
     (case kl_toml_of_config L config of
        None \<Rightarrow> (Inl ''Failed to serialize keycloak config'', h)
      | Some toml_str \<Rightarrow> write_file E ''Failed to write keycloak_config.toml'' keycloak_config_path (config_header @ toml_str) h)"

definition get_keycloak_admin_password :: "keycloak_libs \<Rightarrow> string" where
  "get_keycloak_admin_password L = unwrap_or ''admin'' (kl_env_admin_pass L)"

definition load_full_keycloak_config :: "keycloak_libs \<Rightarrow> manager_env \<Rightarrow> 's kerberos \<Rightarrow> host \<Rightarrow> string + keycloak_config \<times> string" where
  "load_full_keycloak_config L E K h = rmap (\<lambda>config. (config, get_keycloak_admin_password L)) (load_keycloak_config L E K h)"

section \<open>Requests\<close>

datatype http_method = GET | POST | DELETE

datatype http_body = NoBody | Form "(string \<times> string) list" | Json json

record http_request =
  hr_method :: http_method
  hr_url :: string
  hr_bearer :: "string option"
  hr_body :: http_body

record http_response =
  hp_status :: nat
  hp_text :: string

text \<open>The network may fail with a message. The client's side of it is the list of requests.\<close>

type_synonym 'n network = "http_request \<Rightarrow> 'n \<Rightarrow> (string + http_response) \<times> 'n"

record 'n wire =
  wr_net :: 'n
  wr_sent :: "http_request list"

definition send :: "'n network \<Rightarrow> http_request \<Rightarrow> 'n wire \<Rightarrow> (string + http_response) \<times> 'n wire" where
  "send N q w = (let (r, n) = N q (wr_net w) in (r, \<lparr>wr_net = n, wr_sent = wr_sent w @ [q]\<rparr>))"

definition is_success :: "http_response \<Rightarrow> bool" where
  "is_success r \<longleftrightarrow> 200 \<le> hp_status r \<and> hp_status r < 300"

definition created_or_there :: "http_response \<Rightarrow> bool" where
  "created_or_there r \<longleftrightarrow> is_success r \<or> hp_status r = 409"

definition with_context :: "string \<Rightarrow> (string + 'a) \<times> 's \<Rightarrow> (string + 'a) \<times> 's" where
  "with_context c p = (map_err (\<lambda>_. c) (fst p), snd p)"

definition failed_with :: "keycloak_libs \<Rightarrow> string \<Rightarrow> http_response \<Rightarrow> string" where
  "failed_with L what r = what @ '': '' @ kl_status_text L (hp_status r) @ '' - '' @ hp_text r"

section \<open>The client\<close>

record keycloak_client =
  cl_config :: keycloak_config
  cl_admin_pass :: string

definition from_test_input :: "keycloak_libs \<Rightarrow> string \<Rightarrow> string \<Rightarrow> string \<Rightarrow> string \<Rightarrow> keycloak_client" where
  "from_test_input L url realm admin_user admin_pass =
     \<lparr>cl_config = \<lparr>kk_url = url, kk_realm = realm, kk_admin_user = admin_user\<rparr>,
      cl_admin_pass = (if trim admin_pass = [] then get_keycloak_admin_password L else admin_pass)\<rparr>"

definition client_url :: "keycloak_client \<Rightarrow> string" where "client_url C = kk_url (cl_config C)"

definition client_realm :: "keycloak_client \<Rightarrow> string" where "client_realm C = kk_realm (cl_config C)"

definition realms_url :: "keycloak_client \<Rightarrow> string" where
  "realms_url C = client_url C @ ''/admin/realms''"

definition realm_url :: "keycloak_client \<Rightarrow> string" where
  "realm_url C = realms_url C @ ''/'' @ client_realm C"

definition components_url :: "keycloak_client \<Rightarrow> string" where
  "components_url C = realm_url C @ ''/components''"

definition get_request :: "string \<Rightarrow> string \<Rightarrow> http_request" where
  "get_request token url = \<lparr>hr_method = GET, hr_url = url, hr_bearer = Some token, hr_body = NoBody\<rparr>"

definition post_request :: "string \<Rightarrow> string \<Rightarrow> json \<Rightarrow> http_request" where
  "post_request token url j = \<lparr>hr_method = POST, hr_url = url, hr_bearer = Some token, hr_body = Json j\<rparr>"

definition delete_request :: "string \<Rightarrow> string \<Rightarrow> http_request" where
  "delete_request token url = \<lparr>hr_method = DELETE, hr_url = url, hr_bearer = Some token, hr_body = NoBody\<rparr>"

definition token_request :: "keycloak_client \<Rightarrow> http_request" where
  "token_request C =
     \<lparr>hr_method = POST, hr_url = client_url C @ ''/realms/master/protocol/openid-connect/token'', hr_bearer = None,
      hr_body = Form [(''client_id'', ''admin-cli''), (''username'', kk_admin_user (cl_config C)),
        (''password'', cl_admin_pass C), (''grant_type'', ''password'')]\<rparr>"

definition acquire_token :: "keycloak_libs \<Rightarrow> 'n network \<Rightarrow> keycloak_client \<Rightarrow> 'n wire \<Rightarrow> (string + string) \<times> 'n wire" where
  "acquire_token L N C w =
     sbind (with_context ''Failed to connect to Keycloak'' (send N (token_request C) w)) (\<lambda>resp w.
       (case kl_json_of_text L (hp_text resp) of
          None \<Rightarrow> Inl ''Invalid token response''
        | Some j \<Rightarrow> ok_or ''No access_token in response (wrong admin password?)'' (json_str ''access_token'' j), w))"

definition realm_exists :: "'n network \<Rightarrow> keycloak_client \<Rightarrow> string \<Rightarrow> 'n wire \<Rightarrow> (string + bool) \<times> 'n wire" where
  "realm_exists N C token w =
     sbind (with_context ''Failed to check realm existence'' (send N (get_request token (realm_url C)) w))
       (\<lambda>resp w. (Inr (is_success resp), w))"

definition realm_json :: "keycloak_client \<Rightarrow> bool \<Rightarrow> bool \<Rightarrow> json" where
  "realm_json C enable_hsts enable_brute_force = JObject
     [(''realm'', JString (client_realm C)), (''enabled'', JBool True), (''sslRequired'', JString ''none''),
      (''registrationAllowed'', JBool False), (''resetPasswordAllowed'', JBool False), (''rememberMe'', JBool True),
      (''editUsernameAllowed'', JBool False), (''verifyEmail'', JBool False), (''loginWithEmailAllowed'', JBool False),
      (''duplicateEmailsAllowed'', JBool False), (''ssoSessionMaxLifespan'', JNumber 43200), (''accessTokenLifespan'', JNumber 900),
      (''browserSecurityHeaders'', JObject
         [(''strictTransportSecurity'', JString (hsts_header enable_hsts)), (''xFrameOptions'', JString ''SAMEORIGIN''),
          (''contentSecurityPolicy'', JString content_policy), (''xContentTypeOptions'', JString ''nosniff''),
          (''referrerPolicy'', JString ''no-referrer'')]),
      (''bruteForceProtected'', JBool enable_brute_force)]"

text \<open>A request that may find its object there already.\<close>

definition create_object ::
  "keycloak_libs \<Rightarrow> 'n network \<Rightarrow> string \<Rightarrow> http_request \<Rightarrow> 'n wire \<Rightarrow> (string + unit) \<times> 'n wire" where
  "create_object L N what q w =
     sbind (send N q w) (\<lambda>resp w. (if created_or_there resp then Inr () else Inl (failed_with L what resp), w))"

definition create_realm ::
  "keycloak_libs \<Rightarrow> 'n network \<Rightarrow> keycloak_client \<Rightarrow> string \<Rightarrow> bool \<Rightarrow> bool \<Rightarrow> 'n wire \<Rightarrow> (string + unit) \<times> 'n wire" where
  "create_realm L N C token enable_hsts enable_brute_force =
     create_object L N ''Realm creation failed'' (post_request token (realms_url C) (realm_json C enable_hsts enable_brute_force))"

definition component_json :: "keycloak_client \<Rightarrow> string \<Rightarrow> string \<Rightarrow> string \<Rightarrow> json" where
  "component_json C lldap_url sync_username sync_password =
     (let base_dn = ''dc='' @ dots_to_dcs (client_realm C); realm_upper = to_uppercase (client_realm C)
      in provider_json
          ([setting ''vendor'' ''other'', setting ''connectionUrl'' lldap_url,
            setting ''bindDn'' (''uid='' @ sync_username @ '',ou=people,'' @ base_dn), setting ''bindCredential'' sync_password,
            setting ''usersDn'' (''ou=people,'' @ base_dn), setting ''groupsDn'' (''ou=groups,'' @ base_dn)]
           @ provider_tail realm_upper (''HTTP/keycloak.'' @ client_realm C @ ''@'' @ realm_upper)))"

definition component_list_url :: "keycloak_client \<Rightarrow> string" where
  "component_list_url C = components_url C @ ''?providerId=ldap&name=lldap-with-kerberos''"

definition get_list ::
  "keycloak_libs \<Rightarrow> 'n network \<Rightarrow> string \<Rightarrow> string \<Rightarrow> http_request \<Rightarrow> 'n wire \<Rightarrow> (string + json list) \<times> 'n wire" where
  "get_list L N unsent unread q w =
     sbind (with_context unsent (send N q w)) (\<lambda>resp w.
       (case kl_json_of_text L (hp_text resp) of Some (JArray js) \<Rightarrow> Inr js | _ \<Rightarrow> Inl unread, w))"

definition provider_id :: "json list \<Rightarrow> string option" where
  "provider_id components =
     Option.bind (find_first (\<lambda>c. json_str ''name'' c = Some ''lldap-with-kerberos'') components) (json_str ''id'')"

definition create_ldap_kerberos_component ::
  "keycloak_libs \<Rightarrow> 'n network \<Rightarrow> keycloak_client \<Rightarrow> string \<Rightarrow> string \<Rightarrow> string \<Rightarrow> string \<Rightarrow> 'n wire \<Rightarrow> (string + string) \<times> 'n wire" where
  "create_ldap_kerberos_component L N C token lldap_url sync_username sync_password w =
     sbind (create_object L N ''Component creation failed''
              (post_request token (components_url C) (component_json C lldap_url sync_username sync_password)) w) (\<lambda>_ w.
     sbind (get_list L N ''Failed to query created LDAP component'' ''Invalid component list JSON''
              (get_request token (component_list_url C)) w) (\<lambda>components w.
       (ok_or (''Could not locate ID of newly created '' @ [CHR 0x27] @ ''lldap-with-kerberos'' @ [CHR 0x27] @ '' component'')
          (provider_id components), w)))"

definition mappers_url :: "keycloak_client \<Rightarrow> string \<Rightarrow> string" where
  "mappers_url C provider = components_url C @ ''?parent='' @ provider @ ''&type=org.keycloak.storage.ldap.mappers.LDAPStorageMapper''"

text \<open>Mappers without an identifier are passed over, and no answer to a deletion is fatal.\<close>

fun delete_mappers :: "'n network \<Rightarrow> keycloak_client \<Rightarrow> string \<Rightarrow> json list \<Rightarrow> 'n wire \<Rightarrow> 'n wire" where
  "delete_mappers N C token [] w = w"
| "delete_mappers N C token (m # ms) w =
     delete_mappers N C token ms
       (case json_str ''id'' m of
          None \<Rightarrow> w | Some i \<Rightarrow> snd (send N (delete_request token (components_url C @ ''/'' @ i)) w))"

definition clear_default_mappers ::
  "keycloak_libs \<Rightarrow> 'n network \<Rightarrow> keycloak_client \<Rightarrow> string \<Rightarrow> string \<Rightarrow> 'n wire \<Rightarrow> (string + unit) \<times> 'n wire" where
  "clear_default_mappers L N C token provider w =
     sbind (get_list L N ''Failed to list default mappers'' ''Invalid mappers list JSON'' (get_request token (mappers_url C provider)) w)
       (\<lambda>mappers w. (Inr (), delete_mappers N C token mappers w))"

definition mapper_json :: "string \<Rightarrow> string \<times> string \<times> string \<times> string \<times> (string \<times> json) list \<Rightarrow> json" where
  "mapper_json provider m =
     (case m of (name, ldap_attribute, model_attribute, mandatory, extra) \<Rightarrow> JObject
        [(''name'', JString name), (''providerId'', JString ''user-attribute-ldap-mapper''),
         (''providerType'', JString ''org.keycloak.storage.ldap.mappers.LDAPStorageMapper''), (''parentId'', JString provider),
         (''config'', JObject ([setting ''ldap.attribute'' ldap_attribute, setting ''user.model.attribute'' model_attribute,
            setting ''read.only'' ''true'', setting ''always.read.value.from.ldap'' ''true'',
            setting ''is.mandatory.in.ldap'' mandatory] @ extra))])"

definition custom_mappers :: "string \<Rightarrow> json list" where
  "custom_mappers provider = map (mapper_json provider)
     [(''first name'', ''givenName'', ''firstName'', ''false'', []), (''last name'', ''sn'', ''lastName'', ''false'', []),
      (''email'', ''mail'', ''email'', ''false'', []), (''username'', ''uid'', ''username'', ''true'', []),
      (''display name'', ''cn'', ''displayName'', ''false'', []), (''uid number'', ''uidNumber'', ''uidNumber'', ''false'', []),
      (''gid number'', ''gidNumber'', ''gidNumber'', ''false'', []), (''home directory'', ''homeDirectory'', ''homeDirectory'', ''false'', []),
      (''login shell'', ''loginShell'', ''loginShell'', ''false'', []),
      (''krb principal name'', ''krbPrincipalName'', ''krbPrincipalName'', ''false'', []),
      (''ssh public key'', ''sshPublicKey'', ''sshPublicKey'', ''false'', [setting ''multivalued'' ''true'']),
      (''ou'', ''ou'', ''ou'', ''false'', []), (''kerberos sync'', ''kerberossync'', ''kerberosSync'', ''false'', [])]"

text \<open>A refused mapper is not fatal, a failed connection is.\<close>

fun create_mappers :: "'n network \<Rightarrow> keycloak_client \<Rightarrow> string \<Rightarrow> json list \<Rightarrow> 'n wire \<Rightarrow> (string + unit) \<times> 'n wire" where
  "create_mappers N C token [] w = (Inr (), w)"
| "create_mappers N C token (m # ms) w =
     sbind (send N (post_request token (components_url C) m) w) (\<lambda>_. create_mappers N C token ms)"

definition create_custom_mappers ::
  "'n network \<Rightarrow> keycloak_client \<Rightarrow> string \<Rightarrow> string \<Rightarrow> 'n wire \<Rightarrow> (string + unit) \<times> 'n wire" where
  "create_custom_mappers N C token provider = create_mappers N C token (custom_mappers provider)"

definition add_lldap_web_client ::
  "keycloak_libs \<Rightarrow> 'n network \<Rightarrow> keycloak_client \<Rightarrow> string \<Rightarrow> 'n wire \<Rightarrow> (string + unit) \<times> 'n wire" where
  "add_lldap_web_client L N C token =
     create_object L N ''Client creation failed'' (post_request token (realm_url C @ ''/clients'') web_client_json)"

text \<open>The mark and the dash of the messages, as bytes.\<close>

definition check_mark :: string where "check_mark = [CHR 0xE2, CHR 0x9C, CHR 0x85]"
definition cross_mark :: string where "cross_mark = [CHR 0xE2, CHR 0x9D, CHR 0x8C]"
definition long_dash :: string where "long_dash = [CHR 0xE2, CHR 0x80, CHR 0x94]"

definition quoted :: "string \<Rightarrow> string" where "quoted s = [CHR 0x27] @ s @ [CHR 0x27]"

definition setup_realm ::
  "keycloak_libs \<Rightarrow> 'n network \<Rightarrow> keycloak_client \<Rightarrow> string \<Rightarrow> string \<Rightarrow> string \<Rightarrow> bool \<Rightarrow> bool \<Rightarrow> 'n wire
     \<Rightarrow> (string + string) \<times> 'n wire" where
  "setup_realm L N C lldap_url sync_username sync_password enable_hsts enable_brute_force w =
     sbind (acquire_token L N C w) (\<lambda>token w.
     sbind (realm_exists N C token w) (\<lambda>there w.
     if there
     then (Inl (''Realm '' @ quoted (client_realm C)
             @ '' already exists. Delete the realm manually in Keycloak admin console to proceed.''), w)
     else
       sbind (create_realm L N C token enable_hsts enable_brute_force w) (\<lambda>_ w.
       sbind (create_ldap_kerberos_component L N C token lldap_url sync_username sync_password w) (\<lambda>provider w.
       sbind (clear_default_mappers L N C token provider w) (\<lambda>_ w.
       sbind (create_custom_mappers N C token provider w) (\<lambda>_ w.
       sbind (add_lldap_web_client L N C token w) (\<lambda>_ w.
         (Inr (check_mark @ '' Realm '' @ quoted (client_realm C)
            @ '' set up with LLDAP + Kerberos! Custom attribute mappers applied. SSO ready!''), w))))))))"

definition test_connection ::
  "keycloak_libs \<Rightarrow> 'n network \<Rightarrow> keycloak_client \<Rightarrow> 'n wire \<Rightarrow> (string + string) \<times> 'n wire" where
  "test_connection L N C w =
     sbind (acquire_token L N C w) (\<lambda>token w.
     sbind (send N (get_request token (realm_url C)) w) (\<lambda>resp w.
       (if is_success resp
        then Inr (check_mark @ '' Connected to Keycloak at '' @ client_url C @ '' '' @ long_dash @ '' realm ''
               @ quoted (client_realm C) @ '' is ready'')
        else Inl (''Test failed: HTTP '' @ kl_status_text L (hp_status resp)), w)))"

section \<open>Queries and mutations\<close>

text \<open>Their context is not consulted. An error of the first two is part of the answer.\<close>

definition query_keycloak_suggested_config :: "'s kerberos \<Rightarrow> keycloak_suggested_config" where
  "query_keycloak_suggested_config K = get_keycloak_suggested_config K"

definition query_keycloak_config :: "keycloak_libs \<Rightarrow> manager_env \<Rightarrow> 's kerberos \<Rightarrow> host \<Rightarrow> keycloak_config" where
  "query_keycloak_config L E K h =
     unwrap_or_else (\<lambda>_. \<lparr>kk_url = ''http://keycloak:8080'', kk_realm = ''master'', kk_admin_user = ''admin''\<rparr>)
       (load_keycloak_config L E K h)"

definition mutation_test_keycloak_connection ::
  "keycloak_libs \<Rightarrow> 'n network \<Rightarrow> string \<Rightarrow> string \<Rightarrow> string \<Rightarrow> string \<Rightarrow> 'n wire \<Rightarrow> (bool \<times> string) \<times> 'n wire" where
  "mutation_test_keycloak_connection L N url realm admin_user admin_pass w =
     (case test_connection L N (from_test_input L url realm admin_user admin_pass) w of
        (Inr message, w) \<Rightarrow> ((True, message), w)
      | (Inl e, w) \<Rightarrow> ((False, cross_mark @ '' '' @ e), w))"

definition mutation_save_keycloak_config ::
  "keycloak_libs \<Rightarrow> manager_env \<Rightarrow> string \<Rightarrow> string \<Rightarrow> string \<Rightarrow> host \<Rightarrow> (bool \<times> string) \<times> host" where
  "mutation_save_keycloak_config L E url realm admin_user h =
     (case save_keycloak_config L E \<lparr>kk_url = url, kk_realm = realm, kk_admin_user = admin_user\<rparr> h of
        (Inr _, h) \<Rightarrow> ((True, check_mark @ '' Keycloak settings saved to /data/keycloak_config.toml (password remains in-memory/env only)''), h)
      | (Inl e, h) \<Rightarrow> ((False, cross_mark @ '' Failed to save config: '' @ e), h))"

definition mutation_push_realm_to_keycloak ::
  "keycloak_libs \<Rightarrow> 'n network \<Rightarrow> string \<Rightarrow> string \<Rightarrow> string \<Rightarrow> string \<Rightarrow> string \<Rightarrow> string \<Rightarrow> string \<Rightarrow> bool \<Rightarrow> bool \<Rightarrow> 'n wire
     \<Rightarrow> (string + bool \<times> string) \<times> 'n wire" where
  "mutation_push_realm_to_keycloak L N url realm admin_user admin_pass lldap_url sync_username sync_password hsts brute_force w =
     (let (r, w) = setup_realm L N (from_test_input L url realm admin_user admin_pass) lldap_url sync_username sync_password hsts brute_force w
      in (rmap (Pair True) r, w))"

end
