(* ===== verification/Kerberos_Acl.thy ===== *)
theory Kerberos_Acl
  imports Kerberos_Manager
begin

text \<open>
  What the manager makes of the access list: the entries of a repaired file, the rights of the
  administrator after every successful check, and that a second check finds nothing to do.
\<close>

section \<open>Lines and words\<close>

lemma white_chars [simp]: "is_white newline" "is_white carriage_return"
  by (simp_all add: is_white_def newline_def carriage_return_def)

lemma dropWhile_append_white: "is_white x \<Longrightarrow> dropWhile is_white (x # s) = dropWhile is_white s"
  by simp

lemma trim_Cons_white: "is_white x \<Longrightarrow> trim (x # s) = trim s"
  by (simp add: trim_def)

lemma trim_snoc_white:
  assumes "is_white x"
  shows "trim (s @ [x]) = trim s"
proof (cases "dropWhile is_white s = []")
  case True
  then have "\<forall>c \<in> set s. is_white c" by (simp add: dropWhile_eq_Nil_conv)
  then have "dropWhile is_white (s @ [x]) = []" using assms dropWhile_append2 [of s is_white "[x]"] by simp
  then show ?thesis using True by (simp only: trim_def)
next
  case False
  then obtain c where "c \<in> set s" "\<not> is_white c" by (auto simp: dropWhile_eq_Nil_conv)
  then have "dropWhile is_white (s @ [x]) = dropWhile is_white s @ [x]" by (rule dropWhile_append1)
  then show ?thesis using assms by (simp add: trim_def)
qed

lemma trim_strip_cr: "trim (strip_cr s) = trim s"
proof (cases "s \<noteq> [] \<and> last s = carriage_return")
  case True
  then have "s = butlast s @ [carriage_return]" by (metis append_butlast_last_id)
  then have "trim s = trim (butlast s)" using trim_snoc_white [of carriage_return "butlast s"] by simp
  then show ?thesis using True by (simp add: strip_cr_def)
next
  case False
  then show ?thesis unfolding strip_cr_def by (rule if_not_P [THEN arg_cong])
qed

text \<open>What a check sees of a text: the trimmed lines that are neither empty nor comments.\<close>

definition is_entry :: "string \<Rightarrow> bool" where
  "is_entry t \<longleftrightarrow> t \<noteq> [] \<and> \<not> is_comment t"

definition acl_entries :: "string \<Rightarrow> string list" where
  "acl_entries content = filter is_entry (map trim (str_lines content))"

definition acl_comments :: "string \<Rightarrow> string list" where
  "acl_comments content = filter is_comment (map trim (str_lines content))"

lemma comment_nonempty [simp]: "\<not> is_comment []"
  by (simp add: is_comment_def starts_with_def)

lemma not_entry_Nil [simp]: "\<not> is_entry []"
  by (simp add: is_entry_def)

text \<open>Both only depend on the pieces between newlines.\<close>

lemma filter_lines:
  assumes "\<not> P []"
  shows "filter P (map trim (str_lines s)) = filter P (map trim (split_on newline s))"
proof -
  obtain ps p where ps: "split_on newline s = ps @ [p]" using split_on_nonempty by (metis append_butlast_last_id)
  show ?thesis using assms by (simp add: str_lines_def Let_def ps trim_strip_cr o_def)
qed

lemmas entries_pieces = filter_lines [of is_entry, simplified, folded acl_entries_def]
lemmas comments_pieces = filter_lines [of is_comment, simplified, folded acl_comments_def]

lemma split_on_snoc:
  "c \<noteq> x \<Longrightarrow> split_on c (s @ [x]) = butlast (split_on c s) @ [last (split_on c s) @ [x]]"
  by (induction s) (auto split: list.split)

lemma filter_snoc_white:
  assumes "\<not> P []" and "is_white x"
  shows "filter P (map trim (split_on newline (s @ [x]))) = filter P (map trim (split_on newline s))"
proof (cases "x = newline")
  case True
  then show ?thesis using assms(1) split_on_append_sep [of newline s "[]"] by simp
next
  case False
  obtain ps p where ps: "split_on newline s = ps @ [p]" using split_on_nonempty by (metis append_butlast_last_id)
  then show ?thesis using False assms(2) by (simp add: split_on_snoc trim_snoc_white)
qed

lemma filter_Cons_white:
  assumes "\<not> P []" and "is_white x"
  shows "filter P (map trim (split_on newline (x # s))) = filter P (map trim (split_on newline s))"
proof (cases "split_on newline s")
  case (Cons p ps)
  then show ?thesis using assms by (simp add: trim_Cons_white)
qed simp

lemma filter_drop_front: "\<not> P [] \<Longrightarrow>
    filter P (map trim (split_on newline (dropWhile is_white s))) = filter P (map trim (split_on newline s))"
  by (induction s) (auto simp: filter_Cons_white simp del: split_on.simps(2))

lemma filter_drop_back: "\<not> P [] \<Longrightarrow>
    filter P (map trim (split_on newline (rev (dropWhile is_white s)))) = filter P (map trim (split_on newline (rev s)))"
  by (induction s) (auto simp: filter_snoc_white)

lemma entries_trim: "acl_entries (trim s) = acl_entries s"
  using filter_drop_back [of is_entry] filter_drop_front [of is_entry] by (simp add: entries_pieces trim_def [of s])

text \<open>Words of a line.\<close>

lemma split_white_word: "\<forall>c \<in> set w. \<not> is_white c \<Longrightarrow> is_white x \<Longrightarrow> split_white (w @ x # s) = w # split_white s"
  by (induction w) auto

lemma split_white_last: "\<forall>c \<in> set w. \<not> is_white c \<Longrightarrow> split_white w = [w]"
  by (induction w) auto

definition single_word :: "string \<Rightarrow> bool" where
  "single_word w \<longleftrightarrow> w \<noteq> [] \<and> list_all (\<lambda>c. \<not> is_white c) w"

lemma is_white_space: "is_white CHR '' ''" "\<not> is_white CHR ''*''"
  by (simp_all add: is_white_def)

lemma words_of_required: "single_word w \<Longrightarrow> split_whitespace (w @ ''    *'') = [w, ''*'']"
  by (simp add: split_whitespace_def single_word_def list_all_iff split_white_word is_white_space)

lemma required_trimmed: "single_word w \<Longrightarrow> trimmed (w @ ''    *'')"
  by (cases w) (simp_all add: trimmed_def single_word_def is_white_space)

section \<open>The checks\<close>

definition grants :: "string \<Rightarrow> string \<Rightarrow> bool" where
  "grants admin t \<longleftrightarrow> first_opt (split_whitespace t) = Some admin \<and> CHR ''*'' \<in> set t"

lemma sufficient_entries: "has_sufficient_admin_entry content admin \<longleftrightarrow> (\<exists>t \<in> set (acl_entries content). grants admin t)"
  by (auto simp: has_sufficient_admin_entry_def acl_entries_def is_entry_def grants_def list_ex_iff Let_def)

definition well_formed :: "string \<Rightarrow> bool" where
  "well_formed t \<longleftrightarrow> 2 \<le> length (split_whitespace t)"

definition looks_valid :: "string \<Rightarrow> bool" where
  "looks_valid t \<longleftrightarrow> well_formed t \<and> (CHR ''@'' \<in> set (hd (split_whitespace t)) \<or> CHR ''/'' \<in> set (hd (split_whitespace t)))"

lemma count_acl_entries:
  "count_acl ls (n, m) = (n + length (filter is_entry (map trim ls)), m + length (filter looks_valid (filter is_entry (map trim ls))))"
proof (induction ls arbitrary: n m)
  case (Cons l ls)
  show ?case
  proof (cases "is_entry (trim l)")
    case True
    then show ?thesis using Cons.IH
      by (cases "split_whitespace (trim l)"; cases "tl (split_whitespace (trim l))")
        (auto simp: is_entry_def looks_valid_def well_formed_def Let_def)
  next
    case False
    then show ?thesis using Cons.IH by (auto simp: is_entry_def Let_def)
  qed
qed simp

lemma valid_entries: "acl_structure_looks_valid content \<longleftrightarrow> (\<exists>t \<in> set (acl_entries content). looks_valid t)"
proof -
  have "count_acl (str_lines content) (0, 0) = (length (acl_entries content), length (filter looks_valid (acl_entries content)))"
    by (simp add: count_acl_entries acl_entries_def)
  then show ?thesis by (auto simp: acl_structure_looks_valid_def filter_empty_conv)
qed

section \<open>The repair\<close>

definition repaired_entry :: "string \<Rightarrow> string \<Rightarrow> string \<Rightarrow> string" where
  "repaired_entry admin required t = (if hd (split_whitespace t) = admin then required else t)"

definition names_admin :: "string \<Rightarrow> string \<Rightarrow> bool" where
  "names_admin admin t \<longleftrightarrow> hd (split_whitespace t) = admin"

text \<open>What one line contributes to the output.\<close>

definition kept_line :: "string \<Rightarrow> string \<Rightarrow> string \<Rightarrow> string list" where
  "kept_line admin required line =
     (let t = trim line in
      if is_entry t then (if well_formed t then [repaired_entry admin required t] else []) else [t])"

lemma well_formed_cases: "well_formed t \<longleftrightarrow> (\<exists>p q ps. split_whitespace t = p # q # ps)"
  by (cases "split_whitespace t"; cases "tl (split_whitespace t)") (auto simp: well_formed_def)

lemma repair_line_simp:
  "repair_line admin required line s =
     s\<lparr>output_lines := output_lines s @ kept_line admin required line,
       saw_admin_with_star := saw_admin_with_star s \<or> is_entry (trim line) \<and> well_formed (trim line) \<and> names_admin admin (trim line),
       bad_data_lines := bad_data_lines s + (if is_entry (trim line) \<and> \<not> well_formed (trim line) then 1 else 0),
       total_data_lines := total_data_lines s + (if is_entry (trim line) then 1 else 0)\<rparr>"
  by (cases "split_whitespace (trim line)"; cases "tl (split_whitespace (trim line))")
    (auto simp: repair_line_def kept_line_def repaired_entry_def names_admin_def well_formed_def is_entry_def Let_def)

lemma repair_fold:
  "fold (repair_line admin required) ls s =
     s\<lparr>output_lines := output_lines s @ concat (map (kept_line admin required) ls),
       saw_admin_with_star := saw_admin_with_star s
         \<or> (\<exists>t \<in> set (filter is_entry (map trim ls)). well_formed t \<and> names_admin admin t),
       bad_data_lines := bad_data_lines s + length (filter (\<lambda>t. \<not> well_formed t) (filter is_entry (map trim ls))),
       total_data_lines := total_data_lines s + length (filter is_entry (map trim ls))\<rparr>"
  by (induction ls arbitrary: s) (auto simp: repair_line_simp)

lemma newline_free_trim: "newline \<notin> set s \<Longrightarrow> newline \<notin> set (trim s)"
  using set_trim by blast

lemma lines_newline_free: "l \<in> set (str_lines s) \<Longrightarrow> newline \<notin> set l"
proof -
  obtain ps p where ps: "split_on newline s = ps @ [p]" using split_on_nonempty by (metis append_butlast_last_id)
  assume "l \<in> set (str_lines s)"
  then consider x where "x \<in> set ps" "l = strip_cr x" | "l = p" by (auto simp: str_lines_def Let_def ps split: if_splits)
  then show ?thesis
  proof cases
    case (1 x)
    then have "newline \<notin> set x" using split_on_pieces [of x newline s] ps by simp
    then show ?thesis using 1(2) by (auto simp: strip_cr_def dest: in_set_butlastD)
  next
    case 2
    then show ?thesis using split_on_pieces [of p newline s] ps by simp
  qed
qed

text \<open>The text made of lines without newlines, with one at the end.\<close>

lemma filter_joined:
  assumes "ls \<noteq> []" and "\<forall>l \<in> set ls. newline \<notin> set l" and "\<not> P []" and "\<forall>l \<in> set ls. trim l = l"
  shows "filter P (map trim (split_on newline (if e then join_with [newline] ls else join_with [newline] ls @ [newline]))) = filter P ls"
proof -
  have "map trim ls = ls" using assms(4) by (simp add: map_idI)
  moreover have "split_on newline (join_with [newline] ls @ [newline]) = ls @ [[]]"
    using split_on_append_sep [of newline "join_with [newline] ls" "[]"] split_on_join [OF assms(1,2)] by simp
  ultimately show ?thesis using assms(3) split_on_join [OF assms(1,2)] by simp
qed

text \<open>The lines of the output.\<close>

definition repaired_lines :: "string \<Rightarrow> string \<Rightarrow> string \<Rightarrow> string list" where
  "repaired_lines admin required content = concat (map (kept_line admin required) (str_lines content))
     @ (if \<exists>t \<in> set (acl_entries content). well_formed t \<and> names_admin admin t then [] else [required])"

lemma repair_cases:
  assumes "best_effort_repair_or_standardize content admin required = Some out"
  shows "\<exists>e. out = (if e then join_with [newline] (repaired_lines admin required content)
    else join_with [newline] (repaired_lines admin required content) @ [newline])"
  using assms
  by (auto simp: best_effort_repair_or_standardize_def Let_def repair_fold repaired_lines_def acl_entries_def split: if_splits)

lemma kept_trimmed: "l \<in> set (kept_line admin required line) \<Longrightarrow> l = trim line \<or> l = required"
  by (auto simp: kept_line_def Let_def repaired_entry_def split: if_splits)

lemma repaired_lines_ok:
  assumes "trim required = required" and "newline \<notin> set required" and "l \<in> set (repaired_lines admin required content)"
  shows "newline \<notin> set l" and "trim l = l"
proof -
  from assms(3) consider "l = required" | line where "line \<in> set (str_lines content)" "l = trim line"
    by (auto simp: repaired_lines_def dest: kept_trimmed split: if_splits)
  then have "newline \<notin> set l \<and> trim l = l"
  proof cases
    case 1
    then show ?thesis using assms(1,2) by simp
  next
    case (2 line)
    then show ?thesis using newline_free_trim [OF lines_newline_free] by simp
  qed
  then show "newline \<notin> set l" "trim l = l" by simp_all
qed

lemma repaired_has_required: "required \<in> set (repaired_lines admin required content)"
proof (cases "\<exists>t \<in> set (acl_entries content). well_formed t \<and> names_admin admin t")
  case True
  then obtain line where "line \<in> set (str_lines content)" "is_entry (trim line)" "well_formed (trim line)" "names_admin admin (trim line)"
    by (auto simp: acl_entries_def)
  then have "required \<in> set (kept_line admin required line)" "line \<in> set (str_lines content)"
    by (simp_all add: kept_line_def repaired_entry_def names_admin_def)
  then show ?thesis by (auto simp: repaired_lines_def)
qed (auto simp: repaired_lines_def)

lemma filter_kept:
  assumes "is_entry required"
  shows "filter is_entry (concat (map (kept_line admin required) ls)) = map (repaired_entry admin required) (filter well_formed (filter is_entry (map trim ls)))"
    and "filter is_comment (concat (map (kept_line admin required) ls)) = filter is_comment (map trim ls)"
  using assms
  by (induction ls) (auto simp: kept_line_def Let_def repaired_entry_def is_entry_def)

lemma repaired_filtered:
  assumes "best_effort_repair_or_standardize content admin required = Some out" and "trim required = required" and "newline \<notin> set required"
    and "\<not> P []"
  shows "filter P (map trim (split_on newline out)) = filter P (repaired_lines admin required content)"
proof -
  obtain e where e: "out = (if e then join_with [newline] (repaired_lines admin required content)
      else join_with [newline] (repaired_lines admin required content) @ [newline])" using repair_cases [OF assms(1)] by blast
  have "repaired_lines admin required content \<noteq> []" using repaired_has_required [of required admin content] by auto
  then show ?thesis unfolding e
    by (rule filter_joined) (use repaired_lines_ok [OF assms(2,3)] assms(4) in auto)
qed

lemma required_line_ok:
  assumes "list_all (\<lambda>c. \<not> is_white c) realm"
  shows "single_word (''admin/admin@'' @ realm)" and "is_entry (''admin/admin@'' @ realm @ ''    *'')"
    and "trim (''admin/admin@'' @ realm @ ''    *'') = ''admin/admin@'' @ realm @ ''    *''"
    and "newline \<notin> set (''admin/admin@'' @ realm @ ''    *'')"
proof -
  show w: "single_word (''admin/admin@'' @ realm)" using assms by (simp add: single_word_def is_white_def)
  show "is_entry (''admin/admin@'' @ realm @ ''    *'')" by (simp add: is_entry_def is_comment_def starts_with_def)
  show "trim (''admin/admin@'' @ realm @ ''    *'') = ''admin/admin@'' @ realm @ ''    *''"
    using trimmed_trim [OF required_trimmed [OF w]] by simp
  show "newline \<notin> set (''admin/admin@'' @ realm @ ''    *'')"
    using assms white_chars(1) by (auto simp: list_all_iff newline_def)
qed

lemma repaired_entries:
  assumes "best_effort_repair_or_standardize content admin required = Some out" and "is_entry required" and "trim required = required"
    and "newline \<notin> set required"
  shows "acl_entries out = map (repaired_entry admin required) (filter well_formed (acl_entries content))
      @ (if \<exists>t \<in> set (acl_entries content). well_formed t \<and> names_admin admin t then [] else [required])"
    and "acl_comments out = acl_comments content"
proof -
  have c: "\<not> is_comment required" using assms(2) by (simp add: is_entry_def)
  have "acl_entries out = filter is_entry (repaired_lines admin required content)"
    using repaired_filtered [OF assms(1,3,4), of is_entry] by (simp add: entries_pieces)
  also have "\<dots> = map (repaired_entry admin required) (filter well_formed (acl_entries content))
      @ (if \<exists>t \<in> set (acl_entries content). well_formed t \<and> names_admin admin t then [] else [required])"
    using assms(2) unfolding repaired_lines_def filter_append filter_kept(1) [OF assms(2)] by (simp add: acl_entries_def [of content])
  finally show "acl_entries out = map (repaired_entry admin required) (filter well_formed (acl_entries content))
      @ (if \<exists>t \<in> set (acl_entries content). well_formed t \<and> names_admin admin t then [] else [required])" .
  have "acl_comments out = filter is_comment (repaired_lines admin required content)"
    using repaired_filtered [OF assms(1,3,4), of is_comment] by (simp add: comments_pieces)
  also have "\<dots> = acl_comments content"
    using c unfolding repaired_lines_def filter_append filter_kept(2) [OF assms(2)] by (simp add: acl_comments_def)
  finally show "acl_comments out = acl_comments content" .
qed

text \<open>C29: A repaired access list has exactly the entries it should have. They are the old ones in their order,
  without the lines of a single word, with the full rights in every entry of the administrator, and with
  such an entry at the end when there was none; the comments are kept.\<close>

theorem repaired_acl_exact:
  assumes "list_all (\<lambda>c. \<not> is_white c) realm"
    and "best_effort_repair_or_standardize content (''admin/admin@'' @ realm) (''admin/admin@'' @ realm @ ''    *'') = Some out"
  shows "acl_entries out
      = map (repaired_entry (''admin/admin@'' @ realm) (''admin/admin@'' @ realm @ ''    *'')) (filter well_formed (acl_entries content))
        @ (if \<exists>t \<in> set (acl_entries content). well_formed t \<and> names_admin (''admin/admin@'' @ realm) t then []
           else [''admin/admin@'' @ realm @ ''    *''])
    \<and> acl_comments out = acl_comments content"
  using repaired_entries [OF assms(2) required_line_ok(2-4) [OF assms(1)]] by (rule conjI)

section \<open>The file\<close>

definition acl_good :: "string \<Rightarrow> string \<Rightarrow> bool" where
  "acl_good admin content \<longleftrightarrow> has_sufficient_admin_entry content admin \<and> acl_structure_looks_valid content"

text \<open>The entry that gives the administrator everything, as the KDC reads it: two columns, the principal and
  an asterisk, and no column of targets that would restrict them.\<close>

definition full_rights :: "string \<Rightarrow> string \<Rightarrow> bool" where
  "full_rights admin content \<longleftrightarrow> (\<exists>t \<in> set (acl_entries content). split_whitespace t = [admin, ''*''])"

lemma good_entries: "acl_good admin c \<longleftrightarrow> (\<exists>t \<in> set (acl_entries c). grants admin t) \<and> (\<exists>t \<in> set (acl_entries c). looks_valid t)"
  by (simp add: acl_good_def sufficient_entries valid_entries)

lemma good_trim: "trim c = trim c' \<Longrightarrow> acl_good admin c = acl_good admin c'"
  unfolding good_entries using entries_trim by metis

lemma full_rights_trim: "trim c = trim c' \<Longrightarrow> full_rights admin c = full_rights admin c'"
  unfolding full_rights_def using entries_trim by metis

lemma split_white_chars: "c \<in> set p \<Longrightarrow> p \<in> set (split_white s) \<Longrightarrow> c \<in> set s"
  by (induction s arbitrary: p) (fastforce split: if_splits list.splits)+

lemma full_rights_good: "full_rights (''admin/admin@'' @ realm) c \<Longrightarrow> acl_good (''admin/admin@'' @ realm) c"
proof -
  assume "full_rights (''admin/admin@'' @ realm) c"
  then obtain t where t: "t \<in> set (acl_entries c)" "split_whitespace t = [''admin/admin@'' @ realm, ''*'']"
    by (auto simp: full_rights_def)
  then have "''*'' \<in> set (split_whitespace t)" by simp
  then have "CHR ''*'' \<in> set t" using split_white_chars [of "CHR ''*''" "''*''" t] by (simp add: split_whitespace_def)
  then have "grants (''admin/admin@'' @ realm) t" "looks_valid t"
    using t(2) by (simp_all add: grants_def looks_valid_def well_formed_def first_opt_def)
  then show ?thesis using t(1) unfolding good_entries by blast
qed

lemma repaired_rights:
  assumes "list_all (\<lambda>c. \<not> is_white c) realm"
    and "best_effort_repair_or_standardize content (''admin/admin@'' @ realm) (''admin/admin@'' @ realm @ ''    *'') = Some out"
  shows "full_rights (''admin/admin@'' @ realm) out"
proof -
  let ?line = "''admin/admin@'' @ realm @ ''    *''"
  note ok = required_line_ok [OF assms(1)]
  have "acl_entries out = filter is_entry (repaired_lines (''admin/admin@'' @ realm) ?line content)"
    unfolding entries_pieces by (rule repaired_filtered [OF assms(2) ok(3,4)]) simp
  then have "?line \<in> set (acl_entries out)"
    using repaired_has_required [of ?line "''admin/admin@'' @ realm" content] ok(2) by (simp del: append.simps)
  moreover have "split_whitespace ?line = [''admin/admin@'' @ realm, ''*'']" using words_of_required [OF ok(1)] by simp
  ultimately show ?thesis unfolding full_rights_def by blast
qed

text \<open>The texts of the files, without their permissions.\<close>

definition text_of :: "host \<Rightarrow> string \<Rightarrow> string option" where
  "text_of h path = map_option f_text (hs_files h path)"

definition chown_harmless :: "manager_env \<Rightarrow> bool" where
  "chown_harmless E \<longleftrightarrow> (\<forall>path h. hs_files (snd (me_run E (chown [] path) [] h)) = hs_files h)"

lemma permissions_text:
  assumes "chown_harmless E"
  shows "text_of (snd (apply_permissions E path h)) = text_of h"
    and "text_of (snd (apply_permissions_if_needed E path h)) = text_of h"
proof -
  show perms: "text_of (snd (apply_permissions E path h)) = text_of h"
    using assms by (auto simp: apply_permissions_def chown_harmless_def text_of_def fun_eq_iff split: option.split)
  show "text_of (snd (apply_permissions_if_needed E path h)) = text_of h"
    using perms by (simp add: apply_permissions_if_needed_def split: option.split)
qed

lemma read_text: "read_to_string E path h = Some c \<Longrightarrow> text_of h path = Some c"
  by (auto simp: read_to_string_def text_of_def split: option.splits if_splits)

lemma write_text: "write_file E e path c h = (Inr (), h') \<Longrightarrow> text_of h' path = Some c"
  by (auto simp: write_file_def text_of_def split: if_splits)

lemma render_text:
  assumes "render_template E template path config domain h = (Inr (), h')"
  shows "\<exists>t c. text_of h template = Some t \<and> me_render E t config domain = Some c \<and> text_of h' path = Some c"
  using assms read_text write_text by (fastforce simp: render_template_def split: option.splits)

text \<open>The two ways through a check: the content it has read, and what it does with it.\<close>

definition content_at :: "manager_env \<Rightarrow> string \<Rightarrow> host \<Rightarrow> (string + string) \<times> host" where
  "content_at E path h = (case read_to_string E path h of
     Some c \<Rightarrow> (Inr c, h)
   | None \<Rightarrow> (let h = snd (apply_permissions E path h) in
              (ok_or ''kadm5.acl still unreadable after permission repair'' (read_to_string E path h), h)))"

lemma content_text:
  assumes "chown_harmless E"
  shows "text_of (snd (content_at E path h)) = text_of h"
    and "content_at E path h = (Inr c, h') \<Longrightarrow> text_of h path = Some c"
proof -
  show "text_of (snd (content_at E path h)) = text_of h"
    by (simp add: content_at_def Let_def permissions_text [OF assms] split: option.split)
  assume "content_at E path h = (Inr c, h')"
  then have "text_of h path = Some c \<or> text_of (snd (apply_permissions E path h)) path = Some c"
    by (auto simp: content_at_def Let_def ok_or_def dest: read_text split: option.splits)
  then show "text_of h path = Some c" by (simp add: permissions_text [OF assms])
qed

definition admin_of :: "krb_config \<Rightarrow> string" where
  "admin_of config = ''admin/admin@'' @ to_uppercase (kc_realm_name config)"

text \<open>The check of a file that exists.\<close>

definition check_existing :: "manager_env \<Rightarrow> string \<Rightarrow> string \<Rightarrow> krb_config \<Rightarrow> string \<Rightarrow> string \<Rightarrow> unit io" where
  "check_existing E path template config domain c h =
     (case best_effort_repair_or_standardize c (admin_of config) (admin_of config @ ''    *'') of
        Some r \<Rightarrow> if trim r \<noteq> trim c then write_file E ''Failed to write repaired kadm5.acl'' path r h else (Inr (), h)
      | None \<Rightarrow> render_template E template path config domain h)"

lemma ensure_split:
  "ensure_kadm5_acl E path template config domain h =
     (if hs_files h path = None
      then sbind (render_template E template path config domain h) (\<lambda>_ h. (Inr (), snd (apply_permissions E path h)))
      else sbind (content_at E path h) (\<lambda>c h. let h = snd (apply_permissions_if_needed E path h) in
        if acl_good (admin_of config) c then (Inr (), h)
        else sbind (check_existing E path template config domain c h) (\<lambda>_ h. (Inr (), snd (apply_permissions_if_needed E path h)))))"
  unfolding ensure_kadm5_acl_def content_at_def check_existing_def acl_good_def admin_of_def Let_def by (rule refl)

lemma io_bind_Inr: "sbind p f = (Inr y, s') \<longleftrightarrow> (\<exists>x s. p = (Inr x, s) \<and> f x s = (Inr y, s'))"
  by (cases p; cases "fst p") (auto simp: sbind_def)

lemma checked_rights:
  assumes "list_all (\<lambda>c. \<not> is_white c) (to_uppercase (kc_realm_name config))"
    and "\<And>t r. text_of h template = Some t \<Longrightarrow> me_render E t config domain = Some r \<Longrightarrow> full_rights (admin_of config) r"
    and "text_of h path = Some c" and "check_existing E path template config domain c h = (Inr (), h')"
  shows "\<exists>r. text_of h' path = Some r \<and> full_rights (admin_of config) r"
proof (cases "best_effort_repair_or_standardize c (admin_of config) (admin_of config @ ''    *'')")
  case None
  then show ?thesis using assms(2,4) render_text by (simp add: check_existing_def) metis
next
  case (Some r)
  then have rights: "full_rights (admin_of config) r" using repaired_rights [OF assms(1)] by (simp add: admin_of_def)
  show ?thesis
  proof (cases "trim r = trim c")
    case True
    then show ?thesis using full_rights_trim [OF True] rights assms(3,4) Some by (simp add: check_existing_def)
  next
    case False
    then show ?thesis using rights write_text assms(4) Some by (auto simp: check_existing_def)
  qed
qed

text \<open>C28: A successful check leaves an access list with the rights of the administrator of the realm. Either the
  list has an entry of two columns, the administrator and an asterisk; or it passed the check of the code as
  it was and has not been touched, so that it has an entry of the administrator with an asterisk somewhere.
  This holds whether the file was missing, damaged or unreadable at first, for a template whose rendering has
  the entry of two columns; and the next check changes no text.\<close>

theorem acl_ensured:
  assumes "chown_harmless E" and "list_all (\<lambda>c. \<not> is_white c) (to_uppercase (kc_realm_name config))"
    and "\<And>t r. text_of h template = Some t \<Longrightarrow> me_render E t config domain = Some r \<Longrightarrow> full_rights (admin_of config) r"
    and "ensure_kadm5_acl E path template config domain h = (Inr (), h')"
  shows "(\<exists>c. text_of h' path = Some c \<and> (full_rights (admin_of config) c
         \<or> text_of h path = Some c \<and> has_sufficient_admin_entry c (admin_of config) \<and> acl_structure_looks_valid c))
    \<and> text_of (snd (ensure_kadm5_acl E path template config domain h')) = text_of h'"
proof -
  note perms = permissions_text [OF assms(1)]
  have first: "\<exists>c. text_of h' path = Some c \<and> (full_rights (admin_of config) c \<or> text_of h path = Some c \<and> acl_good (admin_of config) c)"
  proof (cases "hs_files h path = None")
    case True
    then obtain h1 where "render_template E template path config domain h = (Inr (), h1)" "h' = snd (apply_permissions E path h1)"
      using assms(4) by (auto simp: ensure_split io_bind_Inr)
    then show ?thesis using render_text [of E template path config domain h h1] assms(3) perms(1) by auto
  next
    case False
    then obtain c h1 where c: "content_at E path h = (Inr c, h1)"
      and rest: "(let x = snd (apply_permissions_if_needed E path h1) in
        if acl_good (admin_of config) c then (Inr (), x)
        else sbind (check_existing E path template config domain c x) (\<lambda>_ h. (Inr (), snd (apply_permissions_if_needed E path h)))) = (Inr (), h')"
      using assms(4) by (auto simp: ensure_split io_bind_Inr)
    let ?x = "snd (apply_permissions_if_needed E path h1)"
    have x: "text_of ?x = text_of h" using content_text(1) [OF assms(1), of path h] c perms(2) by simp
    then have at: "text_of ?x path = Some c" using content_text(2) [OF assms(1) c] by simp
    show ?thesis
    proof (cases "acl_good (admin_of config) c")
      case True
      then show ?thesis using rest at x by (simp add: Let_def)
    next
      case False
      then obtain h2 where h2: "check_existing E path template config domain c ?x = (Inr (), h2)" "h' = snd (apply_permissions_if_needed E path h2)"
        using rest by (auto simp: Let_def io_bind_Inr)
      have "\<exists>r. text_of h2 path = Some r \<and> full_rights (admin_of config) r"
        by (rule checked_rights [OF assms(2) _ at h2(1)]) (use assms(3) x in simp)
      then show ?thesis using h2(2) perms(2) by auto
    qed
  qed
  then obtain c where c: "text_of h' path = Some c" "acl_good (admin_of config) c"
    using full_rights_good by (auto simp: admin_of_def)
  then have "hs_files h' path \<noteq> None" by (auto simp: text_of_def)
  moreover have "c' = c" if "content_at E path h' = (Inr c', h1)" for c' h1 using content_text(2) [OF assms(1) that] c(1) by simp
  ultimately have "text_of (snd (ensure_kadm5_acl E path template config domain h')) = text_of h'"
    using c(2) content_text(1) [OF assms(1), of path h'] perms(2)
    by (cases "content_at E path h'"; cases "fst (content_at E path h')") (auto simp: ensure_split snd_sbind Let_def)
  then show ?thesis using first by (simp add: acl_good_def)
qed

text \<open>An asterisk in the column of targets is taken for full rights.\<close>

lemma target_taken_for_rights:
  assumes "list_all (\<lambda>c. \<not> is_white c) realm"
  shows "has_sufficient_admin_entry (''admin/admin@'' @ realm @ '' l *@'' @ realm) (''admin/admin@'' @ realm)"
proof -
  let ?a = "''admin/admin@'' @ realm" let ?t = "''*@'' @ realm"
  have w: "\<forall>c \<in> set ?a. \<not> is_white c" "\<forall>c \<in> set ''l''. \<not> is_white c" "\<forall>c \<in> set ?t. \<not> is_white c"
    using assms by (auto simp: list_all_iff is_white_def)
  have "split_white (?a @ CHR '' '' # ''l'' @ CHR '' '' # ?t) = [?a, ''l'', ?t]"
    unfolding split_white_word [OF w(1) is_white_space(1)] split_white_word [OF w(2) is_white_space(1)] split_white_last [OF w(3)] ..
  then have words: "split_whitespace (?a @ '' l *@'' @ realm) = [?a, ''l'', ?t]" by (simp add: split_whitespace_def)
  have white: "is_white newline" by simp
  have one: "newline \<notin> set (?a @ '' l *@'' @ realm)" using w white by (auto simp: newline_def)
  have "trimmed (?a @ '' l *@'' @ realm)" using assms by (auto simp: trimmed_def is_white_def list_all_iff)
  then have "trim (?a @ '' l *@'' @ realm) = ?a @ '' l *@'' @ realm" by (rule trimmed_trim)
  moreover have "is_entry (?a @ '' l *@'' @ realm)" by (simp add: is_entry_def is_comment_def starts_with_def)
  ultimately have "?a @ '' l *@'' @ realm \<in> set (acl_entries (?a @ '' l *@'' @ realm))"
    unfolding entries_pieces split_on_no_sep [OF one] by (simp del: append.simps)
  moreover have "grants ?a (?a @ '' l *@'' @ realm)" unfolding grants_def words by (simp add: first_opt_def)
  ultimately show ?thesis unfolding sufficient_entries append_assoc by (rule bexI [rotated])
qed

section \<open>An interrupted set-up\<close>

text \<open>Properties of the host that the steps of the program keep: each write outside \<open>fixed\<close> and each command
  that it runs beside \<open>kadmin.local\<close> keeps them.\<close>

locale host_property =
  fixes E :: manager_env and I :: "host \<Rightarrow> bool" and fixed :: "string set"
  assumes write_keeps: "path \<notin> fixed \<Longrightarrow> I h \<Longrightarrow> I (h\<lparr>hs_files := (hs_files h)(path \<mapsto> f)\<rparr>)"
    and chown_keeps: "I h \<Longrightarrow> I (snd (me_run E (chown options path) [] h))"
    and spawn_keeps: "I h \<Longrightarrow> I (snd (me_spawn E d h))"
    and wait_keeps: "I h \<Longrightarrow> I (snd (me_wait E d h))"
begin

lemma sbind_keeps: "I (snd p) \<Longrightarrow> (\<And>x s. I s \<Longrightarrow> I (snd (f x s))) \<Longrightarrow> I (snd (sbind p f))"
  by (cases p; cases "fst p") (simp_all add: sbind_def)

lemma file_keeps: "path \<notin> fixed \<Longrightarrow> I h \<Longrightarrow> I (snd (write_file E e path c h))"
  by (simp add: write_file_def write_keeps)

lemma copy_keeps: "to \<notin> fixed \<Longrightarrow> I h \<Longrightarrow> I (snd (copy_file E e from to h))"
  by (simp add: copy_file_def write_keeps split: option.split)

lemma status_keeps: "I h \<Longrightarrow> I (snd (status E e (chown options path) h))"
  using chown_keeps [of h options path] by (auto simp: status_def split: prod.splits option.splits)

lemma render_keeps: "path \<notin> fixed \<Longrightarrow> I h \<Longrightarrow> I (snd (render_template E template path config domain h))"
  by (simp add: render_template_def file_keeps split: option.split)

lemma permissions_keep:
  assumes "path \<notin> fixed" and "I h"
  shows "I (snd (apply_permissions E path h))" and "I (snd (apply_permissions_if_needed E path h))"
proof -
  show perms: "I (snd (apply_permissions E path h))"
    using assms by (simp add: apply_permissions_def write_keeps chown_keeps split: option.split)
  show "I (snd (apply_permissions_if_needed E path h))"
    using perms assms(2) by (simp add: apply_permissions_if_needed_def split: option.split)
qed

lemma ensure_keeps:
  assumes "path \<notin> fixed" and "I h"
  shows "I (snd (ensure_kadm5_acl E path template config domain h))"
proof -
  note perms = permissions_keep [OF assms(1)]
  have check: "I (snd (check_existing E path template config domain c h))" if "I h" for c h
    using that assms(1) by (simp add: check_existing_def file_keeps render_keeps split: option.split)
  have content: "I (snd (content_at E path h))"
    using assms(2) perms(1) by (simp add: content_at_def Let_def split: option.split)
  have rest: "I (snd (let x = snd (apply_permissions_if_needed E path y) in if acl_good (admin_of config) c then (Inr (), x)
      else sbind (check_existing E path template config domain c x) (\<lambda>_ h. (Inr (), snd (apply_permissions_if_needed E path h)))))"
    if "I y" for c y
  proof -
    have "I (snd (sbind (check_existing E path template config domain c (snd (apply_permissions_if_needed E path y)))
        (\<lambda>_ h. (Inr (), snd (apply_permissions_if_needed E path h)))))"
      by (rule sbind_keeps [OF check [OF perms(2) [OF that]]]) (simp add: perms(2))
    then show ?thesis using perms(2) [OF that] by (simp add: Let_def)
  qed
  show ?thesis
  proof (cases "hs_files h path = None")
    case True
    have "I (snd (sbind (render_template E template path config domain h) (\<lambda>_ h. (Inr (), snd (apply_permissions E path h)))))"
      by (rule sbind_keeps [OF render_keeps [OF assms]]) (simp add: perms(1))
    then show ?thesis unfolding ensure_split if_P [OF True] .
  next
    case False
    show ?thesis unfolding ensure_split if_not_P [OF False] by (rule sbind_keeps [OF content rest])
  qed
qed

end

definition kdc_database :: string where "kdc_database = ''/var/kerberos/krb5kdc/principal''"

text \<open>The KDC has a database and the administrator no key file.\<close>

definition half_way :: "host \<Rightarrow> bool" where
  "half_way h \<longleftrightarrow> hs_files h kdc_database \<noteq> None \<and> hs_files h kadm5_keytab = None"

definition commands_keep :: "manager_env \<Rightarrow> bool" where
  "commands_keep E \<longleftrightarrow> (\<forall>h. half_way h \<longrightarrow> (\<forall>options path. half_way (snd (me_run E (chown options path) [] h)))
     \<and> (\<forall>d. half_way (snd (me_spawn E d h)) \<and> half_way (snd (me_wait E d h))))"

definition stuck_at :: "manager_env \<Rightarrow> host \<Rightarrow> bool" where
  "stuck_at E h \<longleftrightarrow> half_way h \<and> commands_keep E"

interpretation stuck: host_property E "stuck_at E" "{kdc_database, kadm5_keytab}" for E
  by unfold_locales (auto simp: stuck_at_def half_way_def commands_keep_def)

lemma paths_free:
  "''/data/kerberos_config.toml'' \<notin> {kdc_database, kadm5_keytab}" "''/etc/krb5.conf'' \<notin> {kdc_database, kadm5_keytab}"
  "''/var/kerberos/krb5kdc/kdc.conf'' \<notin> {kdc_database, kadm5_keytab}" "''/var/kerberos/krb5kdc/kadm5.acl'' \<notin> {kdc_database, kadm5_keytab}"
  "''/data/keycloak_config.toml'' \<notin> {kdc_database, kadm5_keytab}"
  by (simp_all add: kdc_database_def kadm5_keytab_def)

lemma load_stuck: "stuck_at E h \<Longrightarrow> stuck_at E (snd (load_config E h))"
  unfolding load_config_def
  by (rule stuck.sbind_keeps) (simp_all add: stuck.copy_keeps [OF paths_free(1)] split: option.split)

lemma configs_stuck: "stuck_at E h \<Longrightarrow> stuck_at E (snd (render_configs E config h))"
  unfolding render_configs_def Let_def
  by (simp, intro impI stuck.sbind_keeps stuck.render_keeps [OF paths_free(2)] stuck.render_keeps [OF paths_free(3)]
      stuck.ensure_keeps [OF paths_free(4)])

lemma keycloak_stuck: "stuck_at E h \<Longrightarrow> stuck_at E (snd (keycloak_default E h))"
  unfolding keycloak_default_def
  by (simp, intro impI stuck.sbind_keeps stuck.copy_keeps [OF paths_free(5)] stuck.status_keeps)

lemma bootstrap_stuck: "stuck_at E h \<Longrightarrow> bootstrap E config h = (Inr (), h)"
  by (simp add: bootstrap_def stuck_at_def half_way_def kdc_database_def)

lemma prepare_stuck: "stuck_at E h \<Longrightarrow> stuck_at E (snd (prepare E K h))"
  unfolding prepare_def Let_def
  by (intro stuck.sbind_keeps load_stuck configs_stuck keycloak_stuck) (simp_all add: bootstrap_stuck)

lemma daemons_stuck:
  assumes "stuck_at E h"
  shows "stuck_at E (snd (start_daemons E config h))" and "stuck_at E (snd (wait_for_daemons E h))"
proof -
  obtain k h1 where h1: "me_spawn E ''/usr/sbin/krb5kdc'' h = (k, h1)" by (rule prod.exhaust)
  obtain a h2 where h2: "me_spawn E ''/usr/sbin/kadmind'' h1 = (a, h2)" by (rule prod.exhaust)
  have s1: "stuck_at E h1" using stuck.spawn_keeps [OF assms, of "''/usr/sbin/krb5kdc''"] h1 by simp
  have s2: "stuck_at E h2" using stuck.spawn_keeps [OF s1, of "''/usr/sbin/kadmind''"] h2 by simp
  then have none: "hs_files h2 kadm5_keytab = None" by (simp add: stuck_at_def half_way_def)
  show "stuck_at E (snd (start_daemons E config h))"
    using s1 s2 by (simp add: start_daemons_def Let_def h1 h2 none)
  obtain r h3 where h3: "me_wait E ''/usr/sbin/krb5kdc'' h = (r, h3)" by (rule prod.exhaust)
  obtain q h4 where h4: "me_wait E ''/usr/sbin/kadmind'' h3 = (q, h4)" by (rule prod.exhaust)
  have s3: "stuck_at E h3" using stuck.wait_keeps [OF assms, of "''/usr/sbin/krb5kdc''"] h3 by simp
  have s4: "stuck_at E h4" using stuck.wait_keeps [OF s3, of "''/usr/sbin/kadmind''"] h4 by simp
  show "stuck_at E (snd (wait_for_daemons E h))"
    using s3 s4 by (simp add: wait_for_daemons_def h3 h4 split: option.split)
qed

text \<open>A set-up that was interrupted is never finished. When the KDC has its database and the administrator
  has no key file, because the creation of the principal or the export failed after the database was made, no
  later run of the manager creates the file, whatever the commands beside \<open>kadmin.local\<close> and the daemons do elsewhere.\<close>

theorem interrupted_setup_never_finished:
  assumes "commands_keep E" and "half_way h"
  shows "hs_files (snd (manager_main E K h)) kadm5_keytab = None"
proof -
  have "stuck_at E (snd (manager_main E K h))"
    unfolding manager_main_def using assms
    by (intro stuck.sbind_keeps prepare_stuck daemons_stuck) (simp_all add: stuck_at_def)
  then show ?thesis by (simp add: stuck_at_def half_way_def)
qed

end
