(* ===== verification/Keycloak_Setup.thy ===== *)
theory Keycloak_Setup
  imports Keycloak Kerberos_Acl
begin

text \<open>
  What the Keycloak client sends: nothing that changes anything when the realm is there, and the
  whole sequence when it reports success; the distinguished names that it and the generated
  document give to Keycloak; the file of the settings.
\<close>

section \<open>Requests that were sent\<close>

lemma send_sent: "send N q w = (r, w') \<Longrightarrow> wr_sent w' = wr_sent w @ [q]"
  by (auto simp: send_def Let_def split: prod.splits)

lemma with_context_Inr: "with_context c p = (Inr x, s) \<longleftrightarrow> p = (Inr x, s)"
  by (cases p; cases "fst p") (auto simp: with_context_def map_err_def)

lemma acquire_sent: "acquire_token L N C w = (Inr token, w') \<Longrightarrow> wr_sent w' = wr_sent w @ [token_request C]"
  by (auto simp: acquire_token_def io_bind_Inr with_context_Inr dest: send_sent)

lemma exists_sent: "realm_exists N C token w = (Inr b, w') \<Longrightarrow> wr_sent w' = wr_sent w @ [get_request token (realm_url C)]"
  by (auto simp: realm_exists_def io_bind_Inr with_context_Inr dest: send_sent)

lemma create_sent: "create_object L N what q w = (Inr (), w') \<Longrightarrow> wr_sent w' = wr_sent w @ [q]"
  by (auto simp: create_object_def io_bind_Inr dest: send_sent)

lemma list_sent: "get_list L N a b q w = (Inr js, w') \<Longrightarrow> wr_sent w' = wr_sent w @ [q]"
  by (auto simp: get_list_def io_bind_Inr with_context_Inr dest: send_sent)

lemma delete_sent:
  "wr_sent (delete_mappers N C token ms w)
     = wr_sent w @ map (\<lambda>i. delete_request token (components_url C @ ''/'' @ i)) (List.map_filter (json_str ''id'') ms)"
proof (induction ms arbitrary: w)
  case (Cons m ms)
  show ?case
  proof (cases "json_str ''id'' m")
    case (Some i)
    obtain r v where v: "send N (delete_request token (components_url C @ ''/'' @ i)) w = (r, v)" by (rule prod.exhaust)
    show ?thesis using Cons.IH [of v] send_sent [OF v] v Some by simp
  qed (use Cons.IH in simp)
qed simp

lemma mappers_sent:
  "create_mappers N C token ms w = (Inr (), w') \<Longrightarrow> wr_sent w' = wr_sent w @ map (post_request token (components_url C)) ms"
  by (induction ms arbitrary: w) (auto simp: io_bind_Inr dest!: send_sent)

lemma component_sent:
  "create_ldap_kerberos_component L N C token url user password w = (Inr provider, w') \<Longrightarrow>
   wr_sent w' = wr_sent w @ [post_request token (components_url C) (component_json C url user password), get_request token (component_list_url C)]"
  by (auto simp: create_ldap_kerberos_component_def io_bind_Inr dest!: create_sent list_sent)

lemma clear_sent:
  "clear_default_mappers L N C token provider w = (Inr (), w') \<Longrightarrow>
   \<exists>ids. wr_sent w' = wr_sent w @ get_request token (mappers_url C provider)
     # map (\<lambda>i. delete_request token (components_url C @ ''/'' @ i)) ids"
  by (auto simp: clear_default_mappers_def io_bind_Inr delete_sent dest!: list_sent)

text \<open>C30: A realm that exists is left alone. When Keycloak confirms the realm, the push ends with an error, and all
  that was sent is the request for a token and the question for the realm.\<close>

theorem existing_realm_untouched:
  assumes "acquire_token L N C w = (Inr token, w1)" and "send N (get_request token (realm_url C)) w1 = (Inr resp, w2)" and "is_success resp"
  shows "setup_realm L N C url user password hsts brute w
      = (Inl (''Realm '' @ quoted (client_realm C) @ '' already exists. Delete the realm manually in Keycloak admin console to proceed.''), w2)
    \<and> wr_sent w2 = wr_sent w @ [token_request C, get_request token (realm_url C)]"
proof
  have e: "realm_exists N C token w1 = (Inr True, w2)"
    using assms(2,3) by (simp add: realm_exists_def with_context_def map_err_def sbind_def)
  show "setup_realm L N C url user password hsts brute w
      = (Inl (''Realm '' @ quoted (client_realm C) @ '' already exists. Delete the realm manually in Keycloak admin console to proceed.''), w2)"
    unfolding setup_realm_def assms(1) sbind_def by (simp add: e)
  show "wr_sent w2 = wr_sent w @ [token_request C, get_request token (realm_url C)]"
    using acquire_sent [OF assms(1)] send_sent [OF assms(2)] by simp
qed

text \<open>A push that reports success has sent everything, once and in order: the token, the question for the
  realm, the realm, the provider and the question for its identifier, the list of the default mappers and
  the deletion of those that have an identifier, all custom mappers under that provider, and the web client.\<close>

theorem successful_setup_complete:
  assumes "setup_realm L N C url user password hsts brute w = (Inr message, w')"
  shows "\<exists>token provider ids. wr_sent w' = wr_sent w @
     [token_request C, get_request token (realm_url C), post_request token (realms_url C) (realm_json C hsts brute),
      post_request token (components_url C) (component_json C url user password), get_request token (component_list_url C),
      get_request token (mappers_url C provider)]
     @ map (\<lambda>i. delete_request token (components_url C @ ''/'' @ i)) ids
     @ map (post_request token (components_url C)) (custom_mappers provider)
     @ [post_request token (realm_url C @ ''/clients'') web_client_json]"
proof -
  obtain token w1 w2 w3 provider w4 w5 w6 where run: "acquire_token L N C w = (Inr token, w1)" "realm_exists N C token w1 = (Inr False, w2)"
    "create_realm L N C token hsts brute w2 = (Inr (), w3)"
    "create_ldap_kerberos_component L N C token url user password w3 = (Inr provider, w4)"
    "clear_default_mappers L N C token provider w4 = (Inr (), w5)" "create_custom_mappers N C token provider w5 = (Inr (), w6)"
    "add_lldap_web_client L N C token w6 = (Inr (), w')"
    using assms by (auto simp: setup_realm_def io_bind_Inr split: if_splits)
  obtain ids where "wr_sent w5 = wr_sent w4 @ get_request token (mappers_url C provider)
      # map (\<lambda>i. delete_request token (components_url C @ ''/'' @ i)) ids" using clear_sent [OF run(5)] by blast
  then show ?thesis
    using acquire_sent [OF run(1)] exists_sent [OF run(2)] create_sent [OF run(3) [unfolded create_realm_def]] component_sent [OF run(4)]
      mappers_sent [OF run(6) [unfolded create_custom_mappers_def]] create_sent [OF run(7) [unfolded add_lldap_web_client_def]]
    by (intro exI [of _ token] exI [of _ provider] exI [of _ ids]) simp
qed

section \<open>Names below the base\<close>

text \<open>The base DN of a domain whose parts are lower case and free of separators.\<close>

definition dn_label :: "string \<Rightarrow> bool" where
  "dn_label l \<longleftrightarrow> CHR ''.'' \<notin> set l \<and> CHR '','' \<notin> set l \<and> to_ascii_lowercase l = l"

definition base_of :: "string list \<Rightarrow> string" where
  "base_of ls = join_with '','' (map ((@) ''dc='') ls)"

lemma join_lower: "to_ascii_lowercase (join_with sep xs) = join_with (to_ascii_lowercase sep) (map to_ascii_lowercase xs)"
  by (induction sep xs rule: join_with.induct) (simp_all add: to_ascii_lowercase_def)

lemma base_domain:
  assumes "ls \<noteq> []" and "list_all dn_label ls"
  shows "domain_of_base_dn (base_of ls) = join_with ''.'' ls"
proof -
  have "split_on CHR '','' (base_of ls) = map ((@) ''dc='') ls"
    unfolding base_of_def by (rule split_on_join) (use assms in \<open>auto simp: list_all_iff dn_label_def\<close>)
  moreover have "List.map_filter (\<lambda>part. strip_prefix part ''dc='') (map ((@) ''dc='') ls) = ls"
    by (induction ls) (simp_all add: strip_prefix_def starts_with_def)
  moreover have "map to_ascii_lowercase ls = ls" using assms(2) by (auto simp: list_all_iff dn_label_def intro: map_idI)
  moreover have "to_ascii_lowercase ''.'' = ''.''" by code_simp
  ultimately show ?thesis by (simp add: domain_of_base_dn_def join_lower)
qed

lemma dots_label: "CHR ''.'' \<notin> set l \<Longrightarrow> dots_to_dcs l = l"
  by (induction l) (auto simp: dots_to_dcs_def)

lemma dots_append: "dots_to_dcs (s @ t) = dots_to_dcs s @ dots_to_dcs t"
  by (simp add: dots_to_dcs_def)

lemma dots_join: "list_all dn_label ls \<Longrightarrow> dots_to_dcs (join_with ''.'' ls) = join_with '',dc='' ls"
proof (induction ls rule: induct_list012)
  case (3 x y zs)
  then show ?case by (simp add: dots_append dots_label dn_label_def) (simp add: dots_to_dcs_def)
qed (simp_all add: dots_label dn_label_def)

lemma base_joined: "ls \<noteq> [] \<Longrightarrow> base_of ls = ''dc='' @ join_with '',dc='' ls"
  unfolding base_of_def by (induction ls rule: induct_list012) simp_all

lemma lower_upper: "to_ascii_lowercase (to_uppercase s) = to_ascii_lowercase s"
proof -
  have "ascii_lower (ascii_upper c) = ascii_lower c" for c
  proof (cases "97 \<le> (of_char c :: nat) \<and> (of_char c :: nat) \<le> 122")
    case True
    then have "(of_char (char_of ((of_char c :: nat) - 32) :: char) :: nat) = of_char c - 32" by (intro of_char_of_small) arith
    moreover have "65 \<le> (of_char c :: nat) - 32 \<and> (of_char c :: nat) - 32 \<le> 90" using True by arith
    moreover have "(char_of (of_char c - 32 + 32 :: nat) :: char) = c" using True by simp
    ultimately show ?thesis using True by (simp add: ascii_lower_def ascii_upper_def Let_def)
  next
    case False
    then show ?thesis by (simp only: ascii_upper_def Let_def if_False)
  qed
  then show ?thesis by (simp add: to_ascii_lowercase_def to_uppercase_def)
qed

definition users_dn :: "json \<Rightarrow> string option" where
  "users_dn j = Option.bind (Option.bind (json_get ''config'' j) (json_get ''usersDn''))
     (\<lambda>v. case v of JArray [JString s] \<Rightarrow> Some s | _ \<Rightarrow> None)"

text \<open>Where the two ways to a realm look for users. With the suggested realm, the client names the units below
  the base DN of the directory; the generated document leaves out the attribute of its first component, so
  that the name is not one of the directory.\<close>

theorem federation_users_dn:
  assumes "ls \<noteq> []" and "list_all dn_label ls" and "env_base_dn K = Some (base_of ls)" and "env_realm_name K = None"
  shows "users_dn (component_json (from_test_input L url (ks_realm (get_keycloak_suggested_config K)) admin pass) lldap user password)
      = Some (''ou=people,'' @ base_of ls)
    \<and> users_dn (generated_provider K options) = Some (''ou=people,'' @ drop 3 (base_of ls))"
proof -
  have low: "to_ascii_lowercase (join_with ''.'' ls) = join_with ''.'' ls"
    using base_domain [OF assms(1,2)] by (metis domain_of_base_dn_def lower_idem)
  then have realm: "to_ascii_lowercase (derive_realm_from_base_dn K) = join_with ''.'' ls"
    using assms(3,4) base_domain [OF assms(1,2)] by (simp add: derive_realm_from_base_dn_def realm_of_def unwrap_or_def lower_upper)
  have dots: "''dc='' @ dots_to_dcs (join_with ''.'' ls) = base_of ls" "dots_to_dcs (join_with ''.'' ls) = drop 3 (base_of ls)"
    using dots_join [OF assms(2)] base_joined [OF assms(1)] by simp_all
  show ?thesis
    by (simp add: users_dn_def component_json_def generated_provider_def provider_json_def json_get_def setting_def Let_def realm
        from_test_input_def client_realm_def get_keycloak_suggested_config_def dots(2)) (use dots in simp)
qed

section \<open>The file of the settings\<close>

lemma saved_config_loads:
  assumes "mutation_save_keycloak_config L E url realm admin h = ((True, message), h')"
    and "\<And>c t. kl_toml_of_config L c = Some t \<Longrightarrow> kl_config_of_toml L (config_header @ t) = Some c"
    and "\<And>f. me_readable E f"
  shows "query_keycloak_config L E K h' = \<lparr>kk_url = url, kk_realm = realm, kk_admin_user = admin\<rparr>"
  using assms
  by (auto simp: mutation_save_keycloak_config_def save_keycloak_config_def write_file_def query_keycloak_config_def
      load_keycloak_config_def read_to_string_def unwrap_or_else_def ok_or_def split: sum.splits prod.splits option.splits if_splits)

end
