(* ===== verification/Graphql_Root.thy ===== *)
theory Graphql_Root
  imports Graphql_Access Keycloak_Setup
begin

text \<open>
  The whole GraphQL interface (\<open>graphql-server/src/query/mod.rs\<close>, \<open>graphql-server/src/mutation/mod.rs\<close>):
  the mutation root, with the mutations of the directory and the three that drive Keycloak, and the
  query root. Beside the world of the directory the state has the files of the host, where the Keycloak
  settings are kept, and the network. Shown is who may change what, and who may read what.
\<close>

section \<open>The roots\<close>

record ('s, 'n) server_state =
  gs_world :: 's
  gs_host :: host
  gs_wire :: "'n wire"

text \<open>The federation: its libraries and network, and the public key of the service in DER.\<close>

record 'n federation =
  fe_libs :: keycloak_libs
  fe_host :: manager_env
  fe_network :: "'n network"
  fe_public_key_der :: "bytes option"

datatype server_mutation =
    DirectoryMutation gql_mutation
  | MTestKeycloakConnection string string string string
  | MSaveKeycloakConfig string string string
  | MPushRealmToKeycloak string string string string string string string bool bool

text \<open>The answer of a mutation of the directory is left out; the others report success and a message.\<close>

fun run_server_mutation ::
  "'s gql_env \<Rightarrow> 'n federation \<Rightarrow> 's gql_context \<Rightarrow> server_mutation \<Rightarrow> ('s, 'n) server_state
     \<Rightarrow> (bool \<times> string) option gresult \<times> ('s, 'n) server_state" where
  "run_server_mutation E F c (DirectoryMutation m) s =
     (let (r, w) = run_mutation E c m (gs_world s) in (rmap (\<lambda>_. None) r, s\<lparr>gs_world := w\<rparr>))"
| "run_server_mutation E F c (MTestKeycloakConnection url realm admin_user admin_pass) s =
     (let (report, n) = mutation_test_keycloak_connection (fe_libs F) (fe_network F) url realm admin_user admin_pass (gs_wire s)
      in (Inr (Some report), s\<lparr>gs_wire := n\<rparr>))"
| "run_server_mutation E F c (MSaveKeycloakConfig url realm admin_user) s =
     (let (report, h) = mutation_save_keycloak_config (fe_libs F) (fe_host F) url realm admin_user (gs_host s)
      in (Inr (Some report), s\<lparr>gs_host := h\<rparr>))"
| "run_server_mutation E F c (MPushRealmToKeycloak url realm admin_user admin_pass lldap_url sync_username sync_password hsts brute_force) s =
     (let (r, n) = mutation_push_realm_to_keycloak (fe_libs F) (fe_network F) url realm admin_user admin_pass lldap_url
                     sync_username sync_password hsts brute_force (gs_wire s)
      in (map_err FieldError (rmap Some r), s\<lparr>gs_wire := n\<rparr>))"

datatype gql_query =
    QApiVersion
  | QUser string
  | QUsers "request_filter option"
  | QGroups
  | QGroup group_id
  | QSchema
  | QKerberosInfo
  | QKeycloakSuggestedConfig
  | QKeycloakConfig
  | QListOus
  | QPosixSettings

datatype gql_answer =
    AApiVersion string
  | AUser gql_user
  | AUsers "gql_user list"
  | AGroups "gql_group list"
  | AGroup gql_group
  | ASchema public_schema
  | AKerberosInfo "string option"
  | AKeycloakSuggestedConfig keycloak_suggested_config
  | AKeycloakConfig keycloak_config
  | AOus "string list"
  | APosixSettings posix_settings

definition query_kerberos_info :: "gql_libs \<Rightarrow> 'n federation \<Rightarrow> string option" where
  "query_kerberos_info G F = Some (unwrap_or [] (map_option (gl_base64_encode G) (fe_public_key_der F)))"

fun run_query ::
  "'s gql_env \<Rightarrow> 'n federation \<Rightarrow> 's gql_context \<Rightarrow> gql_query \<Rightarrow> ('s, 'n) server_state \<Rightarrow> gql_answer gresult" where
  "run_query E F c QApiVersion s = Inr (AApiVersion ''1.0'')"
| "run_query E F c (QUser user_id) s = rmap AUser (query_user (ge_libs E) c user_id (gs_world s))"
| "run_query E F c (QUsers filters) s = rmap AUsers (query_users (ge_libs E) c filters (gs_world s))"
| "run_query E F c QGroups s = rmap AGroups (query_groups c (gs_world s))"
| "run_query E F c (QGroup g) s = rmap AGroup (query_group c g (gs_world s))"
| "run_query E F c QSchema s = rmap ASchema (query_get_schema c (gs_world s))"
| "run_query E F c QKerberosInfo s = Inr (AKerberosInfo (query_kerberos_info (ge_libs E) F))"
| "run_query E F c QKeycloakSuggestedConfig s =
     Inr (AKeycloakSuggestedConfig (query_keycloak_suggested_config (ge_kerberos E)))"
| "run_query E F c QKeycloakConfig s =
     Inr (AKeycloakConfig (query_keycloak_config (fe_libs F) (fe_host F) (ge_kerberos E) (gs_host s)))"
| "run_query E F c QListOus s = rmap AOus (query_list_ous c (gs_world s))"
| "run_query E F c QPosixSettings s = rmap APosixSettings (query_posix_settings c (gs_world s))"

section \<open>Who may change what\<close>

text \<open>The mutations that a user may ask for himself, and those that the code lets anybody ask for.\<close>

fun own_mutation :: "user_id \<Rightarrow> server_mutation \<Rightarrow> bool" where
  "own_mutation u (DirectoryMutation (MSetUserPassword n p)) \<longleftrightarrow> user_id_from n = u"
| "own_mutation u (DirectoryMutation (MUpdateUser i)) \<longleftrightarrow> user_id_from (uui_id i) = u"
| "own_mutation u (DirectoryMutation (MSyncKerberosPassword n p)) \<longleftrightarrow> user_id_from n = u"
| "own_mutation u m \<longleftrightarrow> False"

fun unguarded_mutation :: "server_mutation \<Rightarrow> bool" where
  "unguarded_mutation (DirectoryMutation m) \<longleftrightarrow> (\<exists>h. m = MExportKeytab h)"
| "unguarded_mutation m \<longleftrightarrow> True"

fun keycloak_mutation :: "server_mutation \<Rightarrow> bool" where
  "keycloak_mutation (DirectoryMutation m) \<longleftrightarrow> False"
| "keycloak_mutation m \<longleftrightarrow> True"

lemma mutation_allowed_iff:
  "mutation_allowed v m \<longleftrightarrow>
     is_admin v \<or> own_mutation (vr_user v) (DirectoryMutation m) \<or> unguarded_mutation (DirectoryMutation m)"
  by (cases m) (auto simp: can_write_def is_admin_def)

text \<open>C4: A caller who is not an administrator changes only what is his own, or what the code leaves unguarded.
  A mutation of the directory that is neither and not asked for by an administrator is answered with an
  error and changes nothing, in the directory, on the host and on the network. Unguarded are the export
  of the keytab and the three mutations that drive Keycloak: whoever calls them may test a connection,
  write the Keycloak settings and push a realm; but these three leave the directory and the KDC as they are,
  and all others leave the files and the network alone.\<close>

theorem graphql_writes_authorised:
  assumes "run_server_mutation E F c m s = (r, s')" and "v = gc_validation_result c"
  shows "(\<not> (is_admin v \<or> own_mutation (vr_user v) m \<or> unguarded_mutation m) \<longrightarrow> (\<exists>e. r = Inl (FieldError e)) \<and> s' = s)
    \<and> (keycloak_mutation m \<longrightarrow> gs_world s' = gs_world s)
    \<and> (\<not> keycloak_mutation m \<longrightarrow> gs_host s' = gs_host s \<and> gs_wire s' = gs_wire s)"
proof (cases m)
  case (DirectoryMutation d)
  then have m: "r = rmap (\<lambda>_. None) (fst (run_mutation E c d (gs_world s)))"
    "s' = s\<lparr>gs_world := snd (run_mutation E c d (gs_world s))\<rparr>"
    using assms(1) by (auto simp: Let_def case_prod_unfold)
  have "(\<exists>e. r = Inl (FieldError e)) \<and> s' = s" if "\<not> mutation_allowed v d"
  proof -
    obtain e where "run_mutation E c d (gs_world s) = (Inl (FieldError e), gs_world s)"
      using mutation_refused [of c d E "gs_world s"] \<open>\<not> mutation_allowed v d\<close> assms(2) by blast
    then show ?thesis using m by simp
  qed
  then show ?thesis using DirectoryMutation m(2) unfolding DirectoryMutation mutation_allowed_iff by simp
qed (use assms(1) in \<open>auto simp: Let_def case_prod_unfold\<close>)

section \<open>Who may read what\<close>

text \<open>What a caller who may not read everything is allowed to learn: his own user with visible attributes, the
  visible part of the schema, and what says nothing about the directory.\<close>

fun restricted_view :: "user_id \<Rightarrow> gql_answer \<Rightarrow> bool" where
  "restricted_view u (AUser x) \<longleftrightarrow> u_user_id (gu_user x) = u \<and> (\<forall>a \<in> set (gu_attributes x). as_is_visible (ga_schema a))"
| "restricted_view u (ASchema sch) \<longleftrightarrow> (\<forall>a \<in> set (user_attributes sch) \<union> set (group_attributes sch). as_is_visible a)"
| "restricted_view u (AUsers _) \<longleftrightarrow> False"
| "restricted_view u (AGroups _) \<longleftrightarrow> False"
| "restricted_view u (AGroup _) \<longleftrightarrow> False"
| "restricted_view u (AOus _) \<longleftrightarrow> False"
| "restricted_view u (APosixSettings _) \<longleftrightarrow> False"
| "restricted_view u _ \<longleftrightarrow> True"

fun public_query :: "gql_query \<Rightarrow> bool" where
  "public_query q \<longleftrightarrow> q \<in> {QApiVersion, QKerberosInfo, QKeycloakSuggestedConfig, QKeycloakConfig}"

text \<open>C12: A caller who may not read everything sees of the directory only himself. To each of the eleven queries he
  gets an error, or his own user with attributes that the schema marks as visible, or the visible
  attributes of the schema, or the answer to one of four queries that are open to anybody and do not depend
  on the directory: the version, the public key, and the Keycloak settings in use and suggested. The
  queries for users, groups, a group, organisational units and POSIX settings are refused.\<close>

theorem restricted_queries_own:
  assumes "\<not> can_read_all v" and "c = sql_context Q K P v"
  shows "(\<forall>a. run_query E F c q s = Inr a \<longrightarrow> restricted_view (vr_user v) a)
    \<and> (public_query q \<longrightarrow> (\<forall>w. run_query E F c q (s\<lparr>gs_world := w\<rparr>) = run_query E F c q s))
    \<and> (\<not> public_query q \<and> q \<noteq> QSchema \<and> (\<forall>n. q \<noteq> QUser n) \<longrightarrow> (\<exists>e. run_query E F c q s = Inl (FieldError e)))"
proof -
  have v: "\<not> can_read_all (gc_validation_result c)" using assms by (simp add: sql_context_def)
  note refused = restricted_refused [OF v, where w = "gs_world s"]
  show ?thesis
  proof (cases q)
    case (QUser n)
    have "u_user_id (gu_user x) = vr_user v \<and> (\<forall>a \<in> set (gu_attributes x). as_is_visible (ga_schema a))"
      if "query_user (ge_libs E) c n (gs_world s) = Inr x" for x
      using restricted_user [OF assms(1)] that unfolding assms(2) .
    then show ?thesis using QUser by (auto simp: rmap_eq_Inr)
  next
    case QSchema
    then show ?thesis using restricted_schema [OF v] by (auto simp: rmap_eq_Inr)
  next
    case (QUsers f)
    then show ?thesis using refused(1) [of "ge_libs E" f] by auto
  next
    case QGroups
    then show ?thesis using refused(2) by auto
  next
    case (QGroup g)
    then show ?thesis using refused(3) [of g] by auto
  next
    case QListOus
    then show ?thesis using refused(4) by auto
  next
    case QPosixSettings
    then show ?thesis using refused(5) by auto
  qed simp_all
qed

end
