(* ===== verification/Federation_Witnesses.thy ===== *)
theory Federation_Witnesses
  imports Graphql_Witnesses Graphql_Root
begin

text \<open>
  The theorems about the Kerberos manager and the Keycloak client, applied to a damaged access list,
  a set-up that stopped half way, a Keycloak that knows the realm and one that does not, and the
  domain \<open>example.com\<close>.
\<close>

section \<open>Hosts\<close>

definition idle_env :: manager_env where
  "idle_env =
     \<lparr>me_readable = (\<lambda>_. True), me_writable = (\<lambda>_. True), me_owner = (\<lambda>_. True), me_new_mode = mode_644,
      me_render = (\<lambda>t config _. Some (''admin/admin@'' @ kc_realm_name config @ ''    *'' @ [newline])),
      me_toml = (\<lambda>_. True), me_kerberos_table = (\<lambda>_. True),
      me_deserialize = (\<lambda>_. Some \<lparr>kc_realm_name = [], kc_base_dn = [], kc_ticket_lifetime = ''24h'', kc_renew_lifetime = ''7d'',
         kc_forwardable = True, kc_rdns = False\<rparr>),
      me_create_dir = (\<lambda>_. True), me_run = (\<lambda>_ _ h. (Some (True, []), h)), me_pipe = (\<lambda>_ _ h. (Ended True, h)),
      me_spawn = (\<lambda>_ h. (True, h)),
      me_wait = (\<lambda>_ h. (Some True, h))\<rparr>"

definition example_config :: krb_config where
  "example_config = \<lparr>kc_realm_name = ''EXAMPLE.COM'', kc_base_dn = ''dc=example,dc=com'', kc_ticket_lifetime = ''24h'',
     kc_renew_lifetime = ''7d'', kc_forwardable = True, kc_rdns = False\<rparr>"

definition damaged_acl :: string where
  "damaged_acl = ''# rights'' @ [newline] @ ''bob@EXAMPLE.COM  l'' @ [newline] @ ''broken'' @ [newline]"

definition damaged_host :: host where
  "damaged_host = \<lparr>hs_files = [''acl'' \<mapsto> \<lparr>f_text = damaged_acl, f_mode = 0\<rparr>, ''template'' \<mapsto> \<lparr>f_text = [], f_mode = mode_644\<rparr>]\<rparr>"

definition half_way_host :: host where
  "half_way_host = \<lparr>hs_files = [kdc_database \<mapsto> \<lparr>f_text = [], f_mode = 0\<rparr>]\<rparr>"

definition example_kerberos :: "unit kerberos" where
  "example_kerberos =
     \<lparr>env_base_dn = Some ''dc=example,dc=com'', env_realm_name = None, kadm_init = (\<lambda>_ _ _ _. False),
      kadm_chpass = (\<lambda>k _ _ _. (False, k)), kadm_create = (\<lambda>k _ _ _. (False, k)), kadm_delete = (\<lambda>k _. (False, k))\<rparr>"

theorem repaired_acl_exact_witness:
  "\<exists>out. best_effort_repair_or_standardize damaged_acl (''admin/admin@'' @ ''EXAMPLE.COM'') (''admin/admin@'' @ ''EXAMPLE.COM'' @ ''    *'') = Some out
     \<and> acl_entries out = [''bob@EXAMPLE.COM  l'', ''admin/admin@EXAMPLE.COM    *''] \<and> acl_comments out = [''# rights'']"
proof -
  have white: "list_all (\<lambda>c. \<not> is_white c) ''EXAMPLE.COM''" by code_simp
  obtain out where out: "best_effort_repair_or_standardize damaged_acl (''admin/admin@'' @ ''EXAMPLE.COM'') (''admin/admin@'' @ ''EXAMPLE.COM'' @ ''    *'') = Some out"
  proof -
    have "best_effort_repair_or_standardize damaged_acl (''admin/admin@'' @ ''EXAMPLE.COM'') (''admin/admin@'' @ ''EXAMPLE.COM'' @ ''    *'') \<noteq> None"
      by code_simp
    then show ?thesis using that by blast
  qed
  have entries: "acl_entries damaged_acl = [''bob@EXAMPLE.COM  l'', ''broken'']" and "acl_comments damaged_acl = [''# rights'']" by code_simp+
  moreover have "filter well_formed [''bob@EXAMPLE.COM  l'', ''broken''] = [''bob@EXAMPLE.COM  l'']" by code_simp
  moreover have "\<not> (\<exists>t \<in> set [''bob@EXAMPLE.COM  l'', ''broken'']. well_formed t \<and> names_admin (''admin/admin@'' @ ''EXAMPLE.COM'') t)" by code_simp
  moreover have "repaired_entry (''admin/admin@'' @ ''EXAMPLE.COM'') (''admin/admin@'' @ ''EXAMPLE.COM'' @ ''    *'') ''bob@EXAMPLE.COM  l''
      = ''bob@EXAMPLE.COM  l''" by code_simp
  ultimately show ?thesis using repaired_acl_exact [OF white out] out by simp
qed

theorem acl_ensured_witness:
  "\<exists>c. text_of (snd (ensure_kadm5_acl idle_env ''acl'' ''template'' example_config ''example.com'' damaged_host)) ''acl'' = Some c
     \<and> full_rights (admin_of example_config) c"
proof -
  let ?run = "ensure_kadm5_acl idle_env ''acl'' ''template'' example_config ''example.com'' damaged_host"
  have "fst ?run = Inr ()" by code_simp
  then have run: "?run = (Inr (), snd ?run)" by (simp add: prod_eq_iff)
  have "chown_harmless idle_env" by (simp add: chown_harmless_def idle_env_def)
  moreover have "list_all (\<lambda>c. \<not> is_white c) (to_uppercase (kc_realm_name example_config))" by code_simp
  moreover have "full_rights (admin_of example_config) r" if "me_render idle_env t example_config ''example.com'' = Some r" for t r
  proof -
    have "r = ''admin/admin@EXAMPLE.COM    *'' @ [newline]" using that by (simp add: idle_env_def example_config_def)
    moreover have "full_rights (admin_of example_config) (''admin/admin@EXAMPLE.COM    *'' @ [newline])" by code_simp
    ultimately show ?thesis by simp
  qed
  moreover have "text_of damaged_host ''acl'' = Some damaged_acl" by (simp add: damaged_host_def text_of_def)
  moreover have "\<not> has_sufficient_admin_entry damaged_acl (admin_of example_config)" by code_simp
  ultimately show ?thesis using acl_ensured [OF _ _ _ run] by (metis option.inject)
qed

theorem interrupted_setup_never_finished_witness:
  "hs_files (snd (manager_main idle_env example_kerberos half_way_host)) kadm5_keytab = None"
proof -
  have "commands_keep idle_env" by (simp add: commands_keep_def idle_env_def)
  moreover have "half_way half_way_host" by (simp add: half_way_def half_way_host_def kdc_database_def kadm5_keytab_def)
  ultimately show ?thesis by (rule interrupted_setup_never_finished)
qed

section \<open>Keycloak\<close>

definition example_client :: keycloak_client where
  "example_client = \<lparr>cl_config = \<lparr>kk_url = ''http://kc'', kk_realm = ''example.com'', kk_admin_user = ''admin''\<rparr>, cl_admin_pass = ''pw''\<rparr>"

definition example_libs :: keycloak_libs where
  "example_libs =
     \<lparr>kl_toml_of_config = (\<lambda>c. Some (kk_url c)), kl_config_of_toml = (\<lambda>_. None),
      kl_json_of_text = (\<lambda>t. if t = ''token'' then Some (JObject [(''access_token'', JString ''t1'')])
        else if t = ''list'' then Some (JArray [JObject [(''name'', JString ''lldap-with-kerberos''), (''id'', JString ''p1'')]]) else None),
      kl_status_text = (\<lambda>_. []), kl_env_admin_pass = None\<rparr>"

definition answer :: "nat \<Rightarrow> string \<Rightarrow> string + http_response" where
  "answer s t = Inr \<lparr>hp_status = s, hp_text = t\<rparr>"

text \<open>A server that tells whether the realm is there by the status \<open>s\<close>.\<close>

definition example_network :: "nat \<Rightarrow> unit network" where
  "example_network s q n =
     (if hr_body q \<noteq> NoBody \<and> hr_bearer q = None then answer 200 ''token''
      else if hr_method q = GET \<and> hr_url q = realm_url example_client then answer s []
      else answer 201 ''list'', n)"

definition fresh_wire :: "unit wire" where "fresh_wire = \<lparr>wr_net = (), wr_sent = []\<rparr>"

theorem existing_realm_untouched_witness:
  "map hr_method (wr_sent (snd (setup_realm example_libs (example_network 200) example_client ''ldap://x'' ''kc'' ''pw'' True True fresh_wire)))
     = [POST, GET]"
proof -
  let ?w1 = "fresh_wire\<lparr>wr_sent := [token_request example_client]\<rparr>"
  let ?w2 = "fresh_wire\<lparr>wr_sent := [token_request example_client, get_request ''t1'' (realm_url example_client)]\<rparr>"
  have t: "acquire_token example_libs (example_network 200) example_client fresh_wire = (Inr ''t1'', ?w1)"
    by (simp add: acquire_token_def send_def example_network_def token_request_def answer_def with_context_def map_err_def example_libs_def
        json_str_def json_get_def as_str_def ok_or_def fresh_wire_def)
  have e: "send (example_network 200) (get_request ''t1'' (realm_url example_client)) ?w1 = (Inr \<lparr>hp_status = 200, hp_text = []\<rparr>, ?w2)"
    by (simp add: send_def example_network_def get_request_def answer_def fresh_wire_def)
  have "is_success \<lparr>hp_status = 200, hp_text = []\<rparr>" by (simp add: is_success_def)
  from existing_realm_untouched [OF t e this, of "''ldap://x''" "''kc''" "''pw''" True True] show ?thesis
    by (simp add: fresh_wire_def token_request_def get_request_def)
qed

theorem successful_setup_complete_witness:
  "13 < length (wr_sent (snd (setup_realm example_libs (example_network 404) example_client ''ldap://x'' ''kc'' ''pw'' True True fresh_wire)))"
proof -
  let ?run = "setup_realm example_libs (example_network 404) example_client ''ldap://x'' ''kc'' ''pw'' True True fresh_wire"
  have "\<not> isl (fst ?run)" by code_simp
  then obtain m where "?run = (Inr m, snd ?run)" by (cases ?run; cases "fst ?run") auto
  from successful_setup_complete [OF this] obtain token provider ids where "wr_sent (snd ?run) = wr_sent fresh_wire @
     [token_request example_client, get_request token (realm_url example_client), post_request token (realms_url example_client) (realm_json example_client True True),
      post_request token (components_url example_client) (component_json example_client ''ldap://x'' ''kc'' ''pw''), get_request token (component_list_url example_client),
      get_request token (mappers_url example_client provider)]
     @ map (\<lambda>i. delete_request token (components_url example_client @ ''/'' @ i)) ids
     @ map (post_request token (components_url example_client)) (custom_mappers provider)
     @ [post_request token (realm_url example_client @ ''/clients'') web_client_json]" by blast
  then have "length (wr_sent (snd ?run)) = 7 + length ids + length (custom_mappers provider)" by (simp add: fresh_wire_def)
  moreover have "length (custom_mappers provider) = 13" by (simp add: custom_mappers_def)
  ultimately show ?thesis by simp
qed

theorem federation_users_dn_witness:
  "users_dn (generated_provider example_kerberos \<lparr>go_realm = ''x'', go_use_ldaps = True, go_external_keycloak = False,
     go_external_keycloak_url = [], go_keycloak_hostname = [], go_enable_hsts = True, go_enable_brute_force = True\<rparr>)
     = Some ''ou=people,example,dc=com''"
proof -
  let ?ls = "[''example'', ''com'']"
  have base: "base_of ?ls = ''dc=example,dc=com''" by code_simp
  have "?ls \<noteq> []" "list_all dn_label ?ls" "env_base_dn example_kerberos = Some (base_of ?ls)" "env_realm_name example_kerberos = None"
    by (simp, code_simp, simp_all add: base example_kerberos_def)
  from federation_users_dn [OF this, of example_libs] show ?thesis by (simp add: base)
qed

section \<open>The GraphQL roots\<close>

definition sample_federation :: "unit federation" where
  "sample_federation =
     \<lparr>fe_libs = \<lparr>kl_toml_of_config = (\<lambda>c. Some (kk_url c)), kl_config_of_toml = (\<lambda>_. None), kl_json_of_text = (\<lambda>_. None),
        kl_status_text = (\<lambda>_. []), kl_env_admin_pass = None\<rparr>,
      fe_host = idle_env, fe_network = (\<lambda>_ n. (Inl ''unreachable'', n)), fe_public_key_der = None\<rparr>"

definition sample_state :: "(unit world, unit) server_state" where
  "sample_state = \<lparr>gs_world = sample_world, gs_host = damaged_host, gs_wire = \<lparr>wr_net = (), wr_sent = []\<rparr>\<rparr>"

theorem graphql_writes_authorised_witness:
  "snd (run_server_mutation sample_env sample_federation (as_caller bob) (DirectoryMutation (MDeleteUser ''eve'')) sample_state) = sample_state
   \<and> gs_world (snd (run_server_mutation sample_env sample_federation (as_caller bob) (MSaveKeycloakConfig ''u'' ''r'' ''a'') sample_state)) = sample_world"
proof
  have "\<not> is_admin (gc_validation_result (as_caller bob))" by code_simp
  then show "snd (run_server_mutation sample_env sample_federation (as_caller bob) (DirectoryMutation (MDeleteUser ''eve'')) sample_state) = sample_state"
    using graphql_writes_authorised [where E = sample_env and F = sample_federation and c = "as_caller bob"
        and m = "DirectoryMutation (MDeleteUser ''eve'')" and s = sample_state, OF prod.collapse [symmetric] refl] by simp
  show "gs_world (snd (run_server_mutation sample_env sample_federation (as_caller bob) (MSaveKeycloakConfig ''u'' ''r'' ''a'') sample_state)) = sample_world"
    using graphql_writes_authorised [where E = sample_env and F = sample_federation and c = "as_caller bob"
        and m = "MSaveKeycloakConfig ''u'' ''r'' ''a''" and s = sample_state, OF prod.collapse [symmetric] refl] by (simp add: sample_state_def)
qed

theorem restricted_queries_own_witness:
  "\<exists>a. run_query sample_env sample_federation (as_caller bob) (QUser ''bob'') sample_state = Inr a \<and> restricted_view (UserId ''bob'') a"
proof -
  have "case_sum (\<lambda>_. False) (\<lambda>_. True) (run_query sample_env sample_federation (as_caller bob) (QUser ''bob'') sample_state)" by code_simp
  then obtain a where a: "run_query sample_env sample_federation (as_caller bob) (QUser ''bob'') sample_state = Inr a" using answers by blast
  have "\<not> can_read_all bob" by code_simp
  from restricted_queries_own [where E = sample_env and F = sample_federation and q = "QUser ''bob''" and s = sample_state,
      OF this as_caller_def, THEN conjunct1] a
  show ?thesis by (auto simp: bob_def)
qed

end
