(* ===== verification/Spec2Isabelle.thy ===== *)
theory Spec2Isabelle
  imports Subschema Migration_Witnesses Federation_Witnesses
begin

text \<open>
  A model of KLLDAP, a light LDAP server for authentication whose users are kept in step with a
  Kerberos KDC, and its correctness theorems. The source is the Rust workspace under \<open>src/\<close>.

  \<^bold>\<open>The program.\<close> A TCP service receives LDAP messages. A connection (\<open>crates/ldap/src/handler.rs\<close>)
  keeps the identity it is bound to and hands each message to a handler: bind, search, compare,
  modify, add, delete and the extended operations. The handlers reach the directory through the
  traits of \<open>crates/domain-handlers\<close>, restricted by the caller's permission
  (\<open>crates/access-control\<close>). The only implementation of these traits is the SQL backend
  (\<open>crates/sql-backend-handler\<close>), which also holds the passwords as OPAQUE password files
  (\<open>crates/opaque-handler\<close>, \<open>crates/auth\<close>). Password changes and deletions are forwarded to the
  KDC (\<open>crates/kerberos\<close>). Attribute names, their aliases and types come from a hardcoded schema
  (\<open>crates/schema\<close>) that the database extends. The web frontend works on the same traits through a
  GraphQL server (\<open>crates/graphql-server\<close>), whose context holds the identity of the caller. The
  server itself (\<open>server/src\<close>) starts both services: it reads its configuration and key, sets up
  the built-in groups and the administrator, answers LDAP streams, and over HTTP logs users in with
  access tokens (JWT), refresh tokens and reset tokens, which it keeps in three more tables.

  \<^bold>\<open>Theories.\<close>
  \<^item> \<open>Prelude\<close>: results as sums, optional values, strings as the Rust standard library treats them,
    decimal numbers, and the lemmas the components share.
  \<^item> \<open>Domain\<close>: identifiers, attribute values, users, groups, requests and errors
    (\<open>crates/domain/src\<close>, \<open>crates/auth/src/lib.rs\<close>, \<open>crates/domain-model/src/error.rs\<close>,
    \<open>crates/validation/src/attributes.rs\<close>). \<open>Schema\<close>: attribute lists and the public schema.
  \<^item> \<open>Handlers\<close>: the filters and the backend traits, as a record of functions over a world.
    \<open>Access\<close>: permissions and the restricted lister.
  \<^item> \<open>Ldap_Types\<close>, \<open>Dn\<close>, \<open>Schema_Manager\<close>, \<open>Filters\<close>, \<open>Attributes\<close>, \<open>Search\<close>, \<open>Subschema\<close>,
    \<open>Operations\<close>, \<open>Session\<close>: the LDAP crate, one theory per module or group of modules
    (\<open>dn.rs\<close>; \<open>schema/manager.rs\<close> and \<open>schema/definitions.rs\<close>; \<open>search/filters.rs\<close>;
    \<open>attributes.rs\<close> and \<open>search/results.rs\<close>; \<open>search/handler.rs\<close>, \<open>search/scope.rs\<close>, \<open>core\<close> and
    \<open>compare.rs\<close>; \<open>search/subschema.rs\<close>; \<open>password.rs\<close>, \<open>modify.rs\<close>, \<open>create.rs\<close>, \<open>delete.rs\<close>;
    \<open>handler.rs\<close>). \<open>Kerberos\<close>: realms and the synchronisation of principals.
  \<^item> \<open>Sql_Tables\<close>: the tables, three-valued logic and the statements; \<open>Sql_Schema\<close>,
    \<open>Sql_Listing\<close>, \<open>Sql_Posix\<close>, \<open>Sql_Users\<close>, \<open>Sql_Groups\<close>, \<open>Sql_Auth\<close>: the operations of the SQL
    backend (\<open>sql_schema_backend_handler.rs\<close>, \<open>sql_user_backend_handler.rs\<close>,
    \<open>sql_group_backend_handler.rs\<close>, \<open>sql_opaque_handler.rs\<close>).
  \<^item> \<open>Sql_Invariant\<close>: the invariant of the database under every operation. \<open>Sql_Backend\<close>: the
    record of traits that the SQL backend fills, and what the LDAP layer gets from it.
    \<open>Directory\<close>: login, failure, deletion and user numbers.
  \<^item> \<open>Graphql\<close>, \<open>Graphql_Mutation\<close>: the GraphQL server's context, objects, filters and queries, and
    its mutations with the helpers that consolidate and check attributes
    (\<open>api.rs\<close>, \<open>query\<close>, \<open>mutation\<close>). \<open>Graphql_Directory\<close>: the mutations of the directory as one type of
    request on the SQL backend, their authorisation, their effect and their panics. \<open>Graphql_Access\<close>: what
    the queries show, the tree of organisational units, the POSIX settings. \<open>Graphql_Root\<close>: the query root
    and the mutation root as a whole, with the mutations that drive Keycloak.
  \<^item> \<open>Tokens\<close>: the tables of tokens and their statements, the clean-up and the blacklist
    (\<open>sql_tcp_backend_handler.rs\<close>, \<open>jwt_sql_tables.rs\<close>, \<open>db_cleaner.rs\<close>). \<open>Auth_Service\<close>: the handlers
    of \<open>auth_service.rs\<close>, the errors of \<open>tcp_server.rs\<close>, the reset mail and the guard of the GraphQL
    endpoint. \<open>Auth_Trace\<close>: the routes as one type of event, and the runs of the service.
    \<open>Auth_Security\<close>, \<open>Auth_Origin\<close>: what holds in every run.
  \<^item> \<open>Configuration\<close>: options, defaults, overrides and the private key (\<open>configuration.rs\<close>, \<open>cli.rs\<close>).
    \<open>Startup\<close>: \<open>set_up_server\<close> of \<open>main.rs\<close>. \<open>Ldap_Server\<close>: the loop over an LDAP stream
    (\<open>ldap_server.rs\<close>).
  \<^item> \<open>Migrations\<close>: the tables of all versions and every migration up to version 12
    (\<open>sql_migrations.rs\<close>, \<open>init_table\<close> of \<open>sql_tables.rs\<close>). \<open>Migration_Keys\<close>: the keys at each version and
    what no migration changes. \<open>Migration_Data\<close>: what becomes of names, avatars and values under an
    alias, and the engines on which version 12 fails. \<open>Migration_Start\<close>: from a new database to a
    running server.
  \<^item> \<open>Kerberos_Manager\<close>: the program that prepares and runs the KDC
    (\<open>kerberos/src/bin/kerberos_manager.rs\<close>). \<open>Kerberos_Acl\<close>: what it makes of the access list, and an
    interrupted set-up. \<open>Keycloak\<close>: the settings, the documents and the HTTP client of the federation,
    with the queries and mutations that drive them (\<open>keycloak_config.rs\<close>, \<open>keycloak_client.rs\<close>).
    \<open>Keycloak_Setup\<close>: what the client sends and which names it gives.
  \<^item> \<open>Witnesses\<close>, \<open>Graphql_Witnesses\<close>, \<open>Auth_Witnesses\<close>, \<open>Server_Witnesses\<close>,
    \<open>Migration_Witnesses\<close>, \<open>Federation_Witnesses\<close>: a small directory, a small service, a first start, old
    databases, hosts and networks on which the theorems with hypotheses are applied.

  \<^bold>\<open>State and operations.\<close> The world of the backend is the record \<open>world\<close>: the database, the KDC
  (of any type) and the clock. Reading operations are functions of the world, writing operations
  return a result and the next world; a transaction that fails returns the world it started from.
  A connection is the record \<open>session\<close> and its runs are the inductive relation \<open>connection\<close>, which keeps the
  trace of messages and in which other activity may change the world between two messages. Errors are values of sum types;
  a Rust panic in a handler is the value \<open>Panic\<close>, kept apart from the errors. The runs of the
  backend are the inductive relation \<open>history\<close>. The state of the HTTP service is the record \<open>app\<close>: a
  world, the token tables, the blacklist in memory and the mails that were sent; its runs are the
  inductive relation \<open>runs\<close>, in which requests, operations of other services, clean-ups and restarts
  are interleaved in any order. A request is served at one instant, and the clock does not go back.
  A database of any version is the record \<open>legacy_db\<close>, which has the columns of all versions; \<open>current\<close>
  reads the tables of the backend from it. A migration runs in a transaction with its new version, and
  the engine decides what a failed one leaves: the database as it was where changes of tables are undone,
  some of them where they commit at once (MySQL). Version 12 ignores the errors of its statements.
  A migration reads the clock once. The host of the Kerberos manager is a map from paths to files, and the
  Keycloak client adds each request to the list of those it has sent.

  \<^bold>\<open>What is shown.\<close> Of a connection: only authorised requests change anything, the identity was
  verified by the last successful bind of its run, an unbound client learns nothing of the directory, a search is confined to
  its base. Of filters: the conversion from LDAP filters preserves their meaning, never leads the
  database layer into a panic, and the rows that a listing returns are exactly those on which the
  condition is true in SQL's logic, with the attributes and groups that the lookups give. Of
  names: distinguished names and attribute aliases are read back as they were printed or
  registered. Of the database: the keys, the built-in groups and the separation of administrators
  and disabled users survive every history; disabled users are locked out, administrators are
  not; a registered password opens the account; failed writes change nothing, apart from the principal that
  a failed deletion has removed; numbers are found, stay unique as long as the attribute is not given under
  its alias, and run out only when the range is full. Of the GraphQL server: refused mutations
  change nothing, only the export of the keytab and the Keycloak mutations are open to everybody and the latter
  leave the directory alone, every mutation is a history of the backend and so keeps its invariant, users
  write only what the schema lets them edit and read only themselves, the units stay a tree, and
  the one panic that a request can cause is characterised. Of the HTTP service: a token that was
  handed out and is accepted goes back to a password of its user, to the refresh token of such a login, or to a
  reset token that was drawn for him, a web request that changes the directory carries an accepted token
  whose verdict allows the change, a logout revokes every earlier token, a
  reset token works once and for ten minutes, the token tables keep their keys. Of the server: a
  start that succeeds founds the invariant of the directory and one that fails can be repeated, the key survives restarts, and a
  stream is answered completely and in order. Of the migrations: they establish the keys that the
  invariant starts from and keep users, passwords, groups and memberships; a failed one can be
  resumed where the engine undoes it; names and avatars survive the changes of their place and name; on a new database all
  succeed and the start founds the invariant; engines that end a transaction at an error never
  reach version 12, and values under an alias of an attribute with a default are lost. Of the KDC: the
  access list that the manager writes gives the administrator its rights and keeps the entries of
  others, one that passes its check is left as it is, and an interrupted set-up is never finished. Of the federation: a realm that exists is left
  alone, a reported success means that everything was sent, and the names of the generated document
  are not those of the directory.

  The interfaces are locales, each interpreted on the model: \<open>filter_conversion\<close> (user and group
  filters), \<open>filtering_lister\<close> (the SQL backend), \<open>sorted_join\<close> (attributes joined to users and
  groups), \<open>attribute_writer\<close> (user and group attributes), \<open>kdc_invariant\<close> (operations of the KDC),
  \<open>mutation_relation\<close> (what every mutation does to the world, interpreted with the histories of the
  SQL backend), \<open>service_relation\<close> (what every request does to the state of the HTTP service,
  interpreted with the keys of the tables, the blacklist, the rows of a token and spent tokens),
  \<open>migration_chain\<close> (steps from version to version, interpreted with the keys, with the schema row on
  which version 12 fails, and with the profiles of users), \<open>host_property\<close> (what the steps of the Kerberos
  manager keep of a host, interpreted with a set-up that stopped half way).

  \<^bold>\<open>Termination.\<close> No definition uses fuel. The search for a free number ends by the distance to the
  maximum; all other recursions are structural or on lists that get shorter.

  \<^bold>\<open>Parameters.\<close> Code outside the repository is a field of a record: \<open>libs\<close> (dates, base64, images,
  UUIDs), \<open>sql_libs\<close> (the engine's comparison of dates and blobs with texts, JSON, bincode, the
  UUID of a name), \<open>opaque_server\<close> and \<open>opaque_client\<close> (the OPAQUE protocol, authenticated
  encryption), \<open>kerberos\<close> (the kadm5 functions), \<open>gql_libs\<close> (base64, dates, URL decoding, the
  RSA key), \<open>keytab_tools\<close> (files and \<open>kadmin.local\<close>), \<open>auth_libs\<close> (hashing and signing of tokens, the
  SMTP transport), \<open>key_libs\<close> (generation and serialisation of keys), \<open>figment\<close> (the layered
  configuration), \<open>ldap_sink\<close> (the connection that takes answers), \<open>engine\<close> (what differs between
  database engines in the statements of the migrations), \<open>manager_env\<close> (permissions, the template engine
  and the commands of the host), \<open>keycloak_libs\<close> (JSON and TOML) and the network as a function. Random texts are arguments of the
  events. A theorem that relies on more than their types
  says so in a hypothesis.

  \<^bold>\<open>Not modelled.\<close> Of the server the HTTP framework and static files, sockets, TLS and the LDAP codec, the
  SMTP transport, the timer of the clean-up, logging, the health check and the texts of the command
  line; the lengths and types of columns; the web frontend (\<open>app/\<close>); the bindings to the kadm5 library;
  the command line tools. The texts of errors that contain a library's own message are left out. The
  text of the engine's error on a violated key is a constant.
\<close>

end
